(* ===== verification/Mail_Prelude.thy ===== *)
theory Mail_Prelude
  imports Main "HOL-Library.Word" "HOL-Library.Product_Lexorder"
begin

text \<open>
  Shared vocabulary of the development: the Go scalar types the sources use
  (UUIDs, instants, 64-bit durations, byte strings), the Go error values that
  cross package borders with the chain search of \<^verbatim>\<open>errors.Is\<close> and
  \<^verbatim>\<open>errors.As\<close>, request contexts with deadlines, tables of rows with
  keyed update, and the locale of transition systems from which every
  component takes its invariant and monotonicity rules.
\<close>

section \<open>Collections of facts\<close>

named_theorems go_simps \<open>evaluation rules of the Go vocabulary\<close>
named_theorems row_simps \<open>lookup and update of table rows\<close>

section \<open>Scalars\<close>

text \<open>
  A \<^verbatim>\<open>uuid.UUID\<close> is an array of sixteen bytes, compared byte by byte:
  the unsigned order of a 128-bit word. Instants (\<^verbatim>\<open>time.Time\<close>) count
  nanoseconds from Go's zero time, so that \<^verbatim>\<open>IsZero\<close> is equality with
  0; they are not bounded, as Go's 64-bit count of seconds never overflows in
  practice. A \<^verbatim>\<open>time.Duration\<close> is a signed 64-bit count of
  nanoseconds: every arithmetic operation on it is wrapped by \<open>wrap64\<close>.
\<close>

type_synonym uuid = "128 word"
type_synonym instant = int
type_synonym duration = int
type_synonym bytes = string

definition uuid_Nil :: uuid where
  "uuid_Nil = 0"

definition IsZero :: "instant \<Rightarrow> bool" where
  "IsZero t \<longleftrightarrow> t = 0"

definition MaxInt32 :: int where
  "MaxInt32 = 2147483647"

definition MaxInt64 :: int where
  "MaxInt64 = 9223372036854775807"

definition wrap64 :: "int \<Rightarrow> int" where
  "wrap64 x = (x + 2 ^ 63) mod 2 ^ 64 - 2 ^ 63"

definition go_quot :: "int \<Rightarrow> int \<Rightarrow> int" where
  \<comment> \<open>Go's integer division truncates towards zero.\<close>
  "go_quot a b = sgn a * sgn b * (\<bar>a\<bar> div \<bar>b\<bar>)"

definition go_rem :: "int \<Rightarrow> int \<Rightarrow> int" where
  "go_rem a b = a - b * go_quot a b"

lemma wrap64_id [simp]: "- (2 ^ 63) \<le> x \<Longrightarrow> x < 2 ^ 63 \<Longrightarrow> wrap64 x = x"
  by (simp add: wrap64_def)

lemma wrap64_range: "- (2 ^ 63) \<le> wrap64 x \<and> wrap64 x < 2 ^ 63"
  by (simp add: wrap64_def)

lemma go_quot_nonneg [simp]: "0 \<le> a \<Longrightarrow> 0 < b \<Longrightarrow> go_quot a b = a div b"
  by (cases "a = 0") (simp_all add: go_quot_def)

lemma go_rem_nonneg [simp]: "0 \<le> a \<Longrightarrow> 0 < b \<Longrightarrow> go_rem a b = a mod b"
  by (simp add: go_rem_def minus_mult_div_eq_mod)

section \<open>Errors\<close>

text \<open>
  The error values the packages exchange. The business errors of the four
  packages carry their stable code; \<open>PgError\<close> is pgx's \<^verbatim>\<open>PgError\<close> with the
  name of the violated constraint, \<open>ErrNoRows\<close> is \<^verbatim>\<open>pgx.ErrNoRows\<close>,
  \<open>OtherError\<close> any error created by \<^verbatim>\<open>errors.New\<close> or by a library, and
  \<open>Wrapped\<close> one link of an error chain.
\<close>

datatype ErrorClass =
    ErrorClassRetryable | ErrorClassPermanent | ErrorClassUnknown | ErrorClassOther string

datatype mailcore_Error = MailcoreError (mce_class: ErrorClass) (mce_code: string)

datatype go_error =
    MailcoreErr mailcore_Error
  | ProvisioningErr string
  | IdentityErr string
  | AuthorizationErr string
  | ErrInvalidConfiguration
  | ErrInvalidClaim
  | ErrLeaseLost
  | ErrNoRows
  | PgError string
  | ContextCanceled
  | ContextDeadlineExceeded
  | OtherError string
  | Wrapped string go_error

type_synonym 'a result = "go_error + 'a"

text \<open>\<^verbatim>\<open>errors.Is\<close> against a sentinel and \<^verbatim>\<open>errors.As\<close> for each
  package's error type: the first match along the chain.\<close>

fun errors_Is :: "go_error \<Rightarrow> go_error \<Rightarrow> bool" where
  "errors_Is (Wrapped s e) target = (Wrapped s e = target \<or> errors_Is e target)"
| "errors_Is e target = (e = target)"

fun errors_As_mailcore :: "go_error \<Rightarrow> mailcore_Error option" where
  "errors_As_mailcore (MailcoreErr m) = Some m"
| "errors_As_mailcore (Wrapped s e) = errors_As_mailcore e"
| "errors_As_mailcore _ = None"

fun errors_As_provisioning :: "go_error \<Rightarrow> string option" where
  "errors_As_provisioning (ProvisioningErr c) = Some c"
| "errors_As_provisioning (Wrapped s e) = errors_As_provisioning e"
| "errors_As_provisioning _ = None"

fun errors_As_identity :: "go_error \<Rightarrow> string option" where
  "errors_As_identity (IdentityErr c) = Some c"
| "errors_As_identity (Wrapped s e) = errors_As_identity e"
| "errors_As_identity _ = None"

fun errors_As_authorization :: "go_error \<Rightarrow> string option" where
  "errors_As_authorization (AuthorizationErr c) = Some c"
| "errors_As_authorization (Wrapped s e) = errors_As_authorization e"
| "errors_As_authorization _ = None"

fun errors_As_pg :: "go_error \<Rightarrow> string option" where
  "errors_As_pg (PgError c) = Some c"
| "errors_As_pg (Wrapped s e) = errors_As_pg e"
| "errors_As_pg _ = None"

definition is_context_error :: "go_error \<Rightarrow> bool" where
  "is_context_error e \<longleftrightarrow> errors_Is e ContextCanceled \<or> errors_Is e ContextDeadlineExceeded"

section \<open>Control flow\<close>

definition on_result ::
  "'a result \<times> 'w \<Rightarrow> (go_error \<Rightarrow> 'w \<Rightarrow> 'b \<times> 'w) \<Rightarrow> ('a \<Rightarrow> 'w \<Rightarrow> 'b \<times> 'w) \<Rightarrow> 'b \<times> 'w" where
  \<comment> \<open>\<^verbatim>\<open>if err != nil { return ... }\<close> after a call.\<close>
  "on_result r fail ok = (case fst r of Inl e \<Rightarrow> fail e (snd r) | Inr x \<Rightarrow> ok x (snd r))"

definition on_error ::
  "go_error option \<times> 'w \<Rightarrow> (go_error \<Rightarrow> 'w \<Rightarrow> 'b \<times> 'w) \<Rightarrow> ('w \<Rightarrow> 'b \<times> 'w) \<Rightarrow> 'b \<times> 'w" where
  "on_error r fail ok = (case fst r of Some e \<Rightarrow> fail e (snd r) | None \<Rightarrow> ok (snd r))"

definition from_world :: "'a \<times> 'w \<Rightarrow> ('a \<Rightarrow> 'w \<Rightarrow> 'b \<times> 'w) \<Rightarrow> 'b \<times> 'w" where
  "from_world r ok = ok (fst r) (snd r)"

lemma on_result_simps [simp]:
  "on_result (Inl e, w) fail ok = fail e w" "on_result (Inr x, w) fail ok = ok x w"
  by (simp_all add: on_result_def)

lemma on_error_simps [simp]:
  "on_error (Some e, w) fail ok = fail e w" "on_error (None, w) fail ok = ok w"
  by (simp_all add: on_error_def)

lemma from_world_simps [simp]: "from_world (x, w) ok = ok x w"
  by (simp add: from_world_def)

section \<open>Contexts\<close>

text \<open>
  A \<^verbatim>\<open>context.Context\<close> as far as the sources read it: its deadline.
  \<^verbatim>\<open>WithDeadline\<close> never extends the parent's deadline.
\<close>

record go_context =
  ctx_deadline :: "instant option"

definition with_deadline :: "go_context \<Rightarrow> instant \<Rightarrow> go_context" where
  "with_deadline c d =
     c\<lparr>ctx_deadline := Some (case ctx_deadline c of None \<Rightarrow> d | Some p \<Rightarrow> if p < d then p else d)\<rparr>"

definition background :: go_context where
  "background = \<lparr>ctx_deadline = None\<rparr>"

lemma with_deadline_le:
  "\<exists>d'. ctx_deadline (with_deadline c d) = Some d' \<and> d' \<le> d \<and>
     (\<forall>p. ctx_deadline c = Some p \<longrightarrow> d' \<le> p)"
  by (auto simp: with_deadline_def split: option.splits)

section \<open>Tables\<close>

text \<open>
  A table is the list of its rows. \<open>update_where\<close> is SQL's
  \<^verbatim>\<open>UPDATE ... SET ... WHERE\<close>, \<open>find_row\<close> a lookup by a unique key.
\<close>

definition update_where :: "('r \<Rightarrow> bool) \<Rightarrow> ('r \<Rightarrow> 'r) \<Rightarrow> 'r list \<Rightarrow> 'r list" where
  "update_where p f rows = map (\<lambda>r. if p r then f r else r) rows"

definition find_row :: "('r \<Rightarrow> 'k) \<Rightarrow> 'k \<Rightarrow> 'r list \<Rightarrow> 'r option" where
  "find_row key k rows = find (\<lambda>r. key r = k) rows"

lemma update_where_empty [row_simps, simp]: "update_where p f [] = []"
  by (simp add: update_where_def)

lemma length_update_where [row_simps, simp]: "length (update_where p f rows) = length rows"
  by (simp add: update_where_def)

lemma set_update_where: "set (update_where p f rows) = (\<lambda>r. if p r then f r else r) ` set rows"
  by (simp add: update_where_def)

lemma in_update_where_cases:
  assumes "r \<in> set (update_where p f rows)"
  obtains (kept) "r \<in> set rows" "\<not> p r"
  | (changed) q where "q \<in> set rows" "p q" "r = f q"
  using assms by (auto simp: set_update_where split: if_splits)

lemma update_where_none: "(\<And>r. r \<in> set rows \<Longrightarrow> \<not> p r) \<Longrightarrow> update_where p f rows = rows"
  by (simp add: update_where_def map_idI)

lemma map_update_where [row_simps]:
  "(\<And>r. p r \<Longrightarrow> key (f r) = key r) \<Longrightarrow> map key (update_where p f rows) = map key rows"
  by (simp add: update_where_def)

lemma ball_update_where:
  "(\<And>r. r \<in> set rows \<Longrightarrow> \<not> p r \<Longrightarrow> Q r) \<Longrightarrow> (\<And>r. r \<in> set rows \<Longrightarrow> p r \<Longrightarrow> Q (f r)) \<Longrightarrow>
   \<forall>r \<in> set (update_where p f rows). Q r"
  by (auto simp: set_update_where)

lemma find_SomeD: "find P xs = Some x \<Longrightarrow> x \<in> set xs \<and> P x"
  by (auto simp: find_Some_iff)

lemma find_row_SomeD: "find_row key k rows = Some r \<Longrightarrow> r \<in> set rows \<and> key r = k"
  by (auto simp: find_row_def find_Some_iff)

lemma find_row_NoneD: "find_row key k rows = None \<Longrightarrow> r \<in> set rows \<Longrightarrow> key r \<noteq> k"
  by (auto simp: find_row_def find_None_iff)

lemma distinct_map_eqD:
  "distinct (map key rows) \<Longrightarrow> r \<in> set rows \<Longrightarrow> q \<in> set rows \<Longrightarrow> key r = key q \<Longrightarrow> r = q"
  by (auto simp: distinct_map inj_on_def)

lemma find_row_unique:
  assumes "distinct (map key rows)" "r \<in> set rows"
  shows "find_row key (key r) rows = Some r"
proof (cases "find_row key (key r) rows")
  case None
  with assms(2) show ?thesis by (auto dest: find_row_NoneD)
next
  case (Some q)
  then show ?thesis using assms by (auto dest!: find_row_SomeD intro: distinct_map_eqD)
qed

text \<open>\<open>ORDER BY key LIMIT 1\<close>: the first row in the stable order of the key.\<close>

definition first_by :: "('r \<Rightarrow> 'k :: linorder) \<Rightarrow> 'r list \<Rightarrow> 'r option" where
  "first_by key rows = (case sort_key key rows of [] \<Rightarrow> None | r # _ \<Rightarrow> Some r)"

lemma first_by_None [simp]: "first_by key rows = None \<longleftrightarrow> rows = []"
proof -
  have "sort_key key rows = [] \<longleftrightarrow> rows = []"
    by (metis length_0_conv length_sort)
  then show ?thesis by (auto simp: first_by_def split: list.splits)
qed

lemma first_by_SomeD:
  assumes "first_by key rows = Some r"
  shows "r \<in> set rows" and "q \<in> set rows \<Longrightarrow> key r \<le> key q"
proof -
  from assms obtain rs where rs: "sort_key key rows = r # rs"
    by (auto simp: first_by_def split: list.splits)
  then show "r \<in> set rows"
    by (metis list.set_intros(1) set_sort)
  assume "q \<in> set rows"
  then have "q \<in> set (r # rs)" using rs by (metis set_sort)
  moreover have "sorted (map key (r # rs))" using rs by (metis sorted_sort_key)
  ultimately show "key r \<le> key q" by auto
qed

section \<open>Named checks\<close>

text \<open>A schema is a list of named conditions; the first that fails is the
  constraint PostgreSQL reports.\<close>

definition first_violation :: "(string \<times> bool) list \<Rightarrow> string option" where
  "first_violation cs = map_option fst (find (\<lambda>c. \<not> snd c) cs)"

lemma first_violation_None [simp]: "first_violation cs = None \<longleftrightarrow> list_all snd cs"
  by (fastforce simp: first_violation_def find_None_iff list_all_iff)

section \<open>Transition systems\<close>

text \<open>
  Invariants of single steps carry over to runs. \<open>rel\<close> relates the state
  before a step to the state after it; where it is reflexive and transitive it
  holds across every run.
\<close>

locale step_invariant =
  fixes step :: "'s \<Rightarrow> 's \<Rightarrow> bool" and inv :: "'s \<Rightarrow> bool"
  assumes step_inv: "step s t \<Longrightarrow> inv s \<Longrightarrow> inv t"
begin

lemma run_inv: "step\<^sup>*\<^sup>* s t \<Longrightarrow> inv s \<Longrightarrow> inv t"
  by (induction rule: rtranclp_induct) (auto intro: step_inv)

end

locale step_monotone = step_invariant +
  fixes rel :: "'s \<Rightarrow> 's \<Rightarrow> bool"
  assumes rel_refl: "rel s s"
    and rel_trans: "rel s t \<Longrightarrow> rel t u \<Longrightarrow> rel s u"
    and step_rel: "step s t \<Longrightarrow> inv s \<Longrightarrow> rel s t"
begin

lemma run_rel: "step\<^sup>*\<^sup>* s t \<Longrightarrow> inv s \<Longrightarrow> rel s t"
proof (induction rule: rtranclp_induct)
  case base
  show ?case by (rule rel_refl)
next
  case (step t u)
  then have "inv t" by (blast intro: run_inv)
  with step show ?case by (blast intro: rel_trans step_rel)
qed

end

end
