(* ===== verification/Go_Strings.thy ===== *)
theory Go_Strings
  imports Mail_Prelude
begin

text \<open>
  What the sources use of Go's string library. A Go string is a sequence of
  bytes, here a list of HOL characters. \<open>decode_rune\<close> is
  \<^verbatim>\<open>utf8.DecodeRuneInString\<close> (an invalid byte decodes to U+FFFD with width 1),
  \<open>runes\<close> is the iteration \<^verbatim>\<open>for _, r := range s\<close>. \<^verbatim>\<open>unicode.ToLower\<close> above
  ASCII is a table of the Unicode standard: it is the parameter \<open>uc\<close> of
  \<open>ToLower\<close>. The patterns of the sources are anchored repetitions of an ASCII
  class, written out as predicates.
\<close>

section \<open>UTF-8\<close>

definition byte_val :: "char \<Rightarrow> nat" where
  "byte_val c = of_char c"

definition is_cont :: "char \<Rightarrow> bool" where
  "is_cont c \<longleftrightarrow> 128 \<le> byte_val c \<and> byte_val c \<le> 191"

definition RuneError :: nat where
  "RuneError = 65533"

definition second_ok :: "nat \<Rightarrow> char \<Rightarrow> bool" where
  \<comment> \<open>The accept ranges of the second byte: overlong forms, surrogates and
    values above U+10FFFF are refused.\<close>
  "second_ok b0 c =
     (if b0 = 224 then 160 \<le> byte_val c \<and> byte_val c \<le> 191
      else if b0 = 237 then 128 \<le> byte_val c \<and> byte_val c \<le> 159
      else if b0 = 240 then 144 \<le> byte_val c \<and> byte_val c \<le> 191
      else if b0 = 244 then 128 \<le> byte_val c \<and> byte_val c \<le> 143
      else is_cont c)"

definition decode_rune :: "string \<Rightarrow> nat \<times> nat" where
  "decode_rune s = (case s of
     [] \<Rightarrow> (RuneError, 0)
   | c0 # s1 \<Rightarrow> (let b0 = byte_val c0 in
       if b0 < 128 then (b0, 1)
       else (case s1 of
         [] \<Rightarrow> (RuneError, 1)
       | c1 # s2 \<Rightarrow>
         if 194 \<le> b0 \<and> b0 \<le> 223 \<and> is_cont c1
         then ((b0 - 192) * 64 + (byte_val c1 - 128), 2)
         else (case s2 of
           [] \<Rightarrow> (RuneError, 1)
         | c2 # s3 \<Rightarrow>
           if 224 \<le> b0 \<and> b0 \<le> 239 \<and> second_ok b0 c1 \<and> is_cont c2
           then ((b0 - 224) * 4096 + (byte_val c1 - 128) * 64 + (byte_val c2 - 128), 3)
           else (case s3 of
             [] \<Rightarrow> (RuneError, 1)
           | c3 # _ \<Rightarrow>
             if 240 \<le> b0 \<and> b0 \<le> 244 \<and> second_ok b0 c1 \<and> is_cont c2 \<and> is_cont c3
             then ((b0 - 240) * 262144 + (byte_val c1 - 128) * 4096
                   + (byte_val c2 - 128) * 64 + (byte_val c3 - 128), 4)
             else (RuneError, 1))))))"

lemma decode_rune_size:
  "s \<noteq> [] \<Longrightarrow> 0 < snd (decode_rune s) \<and> snd (decode_rune s) \<le> length s"
  by (auto simp: decode_rune_def Let_def split: list.splits)

function runes :: "string \<Rightarrow> (nat \<times> string) list" where
  "runes [] = []"
| "runes (c # s) =
     (let (r, n) = decode_rune (c # s) in (r, take n (c # s)) # runes (drop n (c # s)))"
  by pat_completeness auto
termination
proof (relation "measure length")
  fix c s x r n
  assume "x = decode_rune (c # s)" "(r, n) = x"
  then have "0 < n" using decode_rune_size [of "c # s"] by (cases "decode_rune (c # s)") auto
  then show "(drop n (c # s), c # s) \<in> measure length" by simp
qed simp

definition is_invalid_rune :: "nat \<times> string \<Rightarrow> bool" where
  "is_invalid_rune p \<longleftrightarrow> fst p = RuneError \<and> length (snd p) = 1"

definition ValidString :: "string \<Rightarrow> bool" where
  "ValidString s \<longleftrightarrow> list_all (\<lambda>p. \<not> is_invalid_rune p) (runes s)"

definition RuneCountInString :: "string \<Rightarrow> nat" where
  "RuneCountInString s = length (runes s)"

definition AppendRune :: "nat \<Rightarrow> string" where
  "AppendRune r =
     (let r = (if (55296 \<le> r \<and> r \<le> 57343) \<or> 1114111 < r then RuneError else r) in
      if r < 128 then [char_of r]
      else if r < 2048 then [char_of (192 + r div 64), char_of (128 + r mod 64)]
      else if r < 65536
        then [char_of (224 + r div 4096), char_of (128 + r div 64 mod 64), char_of (128 + r mod 64)]
      else [char_of (240 + r div 262144), char_of (128 + r div 4096 mod 64),
            char_of (128 + r div 64 mod 64), char_of (128 + r mod 64)])"

section \<open>Character classes and searching\<close>

definition IsSpace :: "nat \<Rightarrow> bool" where
  "IsSpace r \<longleftrightarrow> (9 \<le> r \<and> r \<le> 13) \<or> r = 32 \<or> r = 133 \<or> r = 160 \<or> r = 5760 \<or>
     (8192 \<le> r \<and> r \<le> 8202) \<or> r = 8232 \<or> r = 8233 \<or> r = 8239 \<or> r = 8287 \<or> r = 12288"

definition IsControl :: "nat \<Rightarrow> bool" where
  "IsControl r \<longleftrightarrow> r < 32 \<or> (127 \<le> r \<and> r \<le> 159)"

definition contains_rune :: "(nat \<Rightarrow> bool) \<Rightarrow> string \<Rightarrow> bool" where
  \<comment> \<open>\<^verbatim>\<open>strings.IndexFunc(s, p) >= 0\<close>\<close>
  "contains_rune p s \<longleftrightarrow> list_ex (\<lambda>q. p (fst q)) (runes s)"

definition trim_list :: "('a \<Rightarrow> bool) \<Rightarrow> 'a list \<Rightarrow> 'a list" where
  "trim_list p xs = rev (dropWhile p (rev (dropWhile p xs)))"

definition TrimSpace :: "string \<Rightarrow> string" where
  "TrimSpace s = concat (map snd (trim_list (\<lambda>p. IsSpace (fst p)) (runes s)))"

definition lower_rune :: "(nat \<Rightarrow> nat) \<Rightarrow> nat \<Rightarrow> nat" where
  "lower_rune uc r = (if r < 128 then (if 65 \<le> r \<and> r \<le> 90 then r + 32 else r) else uc r)"

definition ToLower :: "(nat \<Rightarrow> nat) \<Rightarrow> string \<Rightarrow> string" where
  "ToLower uc s = concat (map (\<lambda>p. AppendRune (lower_rune uc (fst p))) (runes s))"

definition HasPrefix :: "string \<Rightarrow> string \<Rightarrow> bool" where
  "HasPrefix s p \<longleftrightarrow> take (length p) s = p"

definition HasSuffix :: "string \<Rightarrow> string \<Rightarrow> bool" where
  "HasSuffix s p \<longleftrightarrow> length p \<le> length s \<and> drop (length s - length p) s = p"

fun Contains :: "string \<Rightarrow> string \<Rightarrow> bool" where
  "Contains [] sub = (sub = [])"
| "Contains (c # s) sub = (HasPrefix (c # s) sub \<or> Contains s sub)"

definition is_lower :: "char \<Rightarrow> bool" where
  "is_lower c \<longleftrightarrow> 97 \<le> byte_val c \<and> byte_val c \<le> 122"

definition is_upper :: "char \<Rightarrow> bool" where
  "is_upper c \<longleftrightarrow> 65 \<le> byte_val c \<and> byte_val c \<le> 90"

definition is_digit :: "char \<Rightarrow> bool" where
  "is_digit c \<longleftrightarrow> 48 \<le> byte_val c \<and> byte_val c \<le> 57"

definition matches_plus :: "(char \<Rightarrow> bool) \<Rightarrow> string \<Rightarrow> bool" where
  \<comment> \<open>An anchored \<^verbatim>\<open>^[class]+$\<close>.\<close>
  "matches_plus cls s \<longleftrightarrow> s \<noteq> [] \<and> list_all cls s"

section \<open>Facts about ASCII strings\<close>

definition is_ascii :: "string \<Rightarrow> bool" where
  "is_ascii s \<longleftrightarrow> list_all (\<lambda>c. byte_val c < 128) s"

lemma byte_val_less [simp]: "byte_val c < 256"
  by (simp add: byte_val_def of_char_def)

lemma char_of_byte_val [simp]: "char_of (byte_val c) = c"
  by (simp add: byte_val_def)

lemma byte_val_char_of [simp]: "n < 256 \<Longrightarrow> byte_val (char_of n) = n"
  by (simp add: byte_val_def of_char_mod_256)

lemma decode_rune_ascii: "byte_val c < 128 \<Longrightarrow> decode_rune (c # s) = (byte_val c, 1)"
  by (simp add: decode_rune_def)

lemma runes_ascii: "is_ascii s \<Longrightarrow> runes s = map (\<lambda>c. (byte_val c, [c])) s"
  by (induction s) (simp_all add: is_ascii_def decode_rune_ascii)

lemma runes_concat: "concat (map snd (runes s)) = s"
  by (induction s rule: runes.induct) (auto split: prod.splits)

lemma runes_eq_Nil [simp]: "runes s = [] \<longleftrightarrow> s = []"
  by (cases s) (auto split: prod.splits)

lemma AppendRune_ascii: "r < 128 \<Longrightarrow> AppendRune r = [char_of r]"
  by (simp add: AppendRune_def)

lemma ToLower_ascii: "is_ascii s \<Longrightarrow>
  ToLower uc s = map (\<lambda>c. if is_upper c then char_of (byte_val c + 32) else c) s"
  by (induction s)
     (auto simp: ToLower_def runes_ascii is_ascii_def lower_rune_def AppendRune_ascii is_upper_def
        decode_rune_ascii)

lemma ValidString_ascii: "is_ascii s \<Longrightarrow> ValidString s"
  by (auto simp: ValidString_def runes_ascii is_invalid_rune_def RuneError_def is_ascii_def list_all_iff)

lemma HasPrefix_self [simp]: "HasPrefix (p @ s) p"
  by (simp add: HasPrefix_def)

lemma HasPrefix_iff: "HasPrefix s p \<longleftrightarrow> (\<exists>t. s = p @ t)"
  by (metis HasPrefix_def HasPrefix_self append_take_drop_id)

lemma HasSuffix_iff: "HasSuffix s p \<longleftrightarrow> (\<exists>t. s = t @ p)"
proof
  assume "HasSuffix s p"
  then show "\<exists>t. s = t @ p" by (metis HasSuffix_def append_take_drop_id)
qed (auto simp: HasSuffix_def)

lemma Contains_iff: "Contains s p \<longleftrightarrow> (\<exists>u v. s = u @ p @ v)"
proof (induction s)
  case (Cons c s)
  have "(\<exists>u v. c # s = u @ p @ v) \<longleftrightarrow> (\<exists>v. c # s = p @ v) \<or> (\<exists>u v. s = u @ p @ v)"
    by (metis append_Cons append_Nil list.exhaust list.inject)
  with Cons show ?case by (simp add: HasPrefix_iff)
qed simp

section \<open>Trimming\<close>

lemma dropWhile_map_rune:
  "dropWhile (\<lambda>p. P (fst p)) (map (\<lambda>c. (byte_val c, [c])) s) =
   map (\<lambda>c. (byte_val c, [c])) (dropWhile (\<lambda>c. P (byte_val c)) s)"
  by (induction s) auto

lemma TrimSpace_ascii: "is_ascii s \<Longrightarrow> TrimSpace s = trim_list (\<lambda>c. IsSpace (byte_val c)) s"
  by (simp add: TrimSpace_def trim_list_def runes_ascii dropWhile_map_rune rev_map comp_def)

text \<open>Evaluation of literals.\<close>

lemmas ascii_eval = ToLower_ascii TrimSpace_ascii runes_ascii ValidString_ascii is_ascii_def is_upper_def
  is_lower_def is_digit_def byte_val_def char_of_def bit_Suc_0_iff trim_list_def IsSpace_def IsControl_def
  contains_rune_def RuneCountInString_def matches_plus_def HasPrefix_def HasSuffix_def

lemma trim_list_subset: "set (trim_list p xs) \<subseteq> set xs"
  by (auto simp: trim_list_def dest!: set_dropWhileD)

lemma trim_list_hd:
  assumes "trim_list p xs = y # ys"
  shows "\<not> p y"
proof -
  obtain zs where "dropWhile p xs = trim_list p xs @ zs"
    unfolding trim_list_def by (metis rev_append rev_rev_ident takeWhile_dropWhile_id)
  with assms have "dropWhile p xs = y # ys @ zs" by simp
  then show ?thesis by (simp add: dropWhile_eq_Cons_conv)
qed

lemma trim_list_last: "trim_list p xs = ys @ [y] \<Longrightarrow> \<not> p y"
  by (metis dropWhile_eq_Cons_conv rev_eq_Cons_iff rev_rev_ident trim_list_def)

lemma trim_list_id:
  assumes "\<And>y ys. xs = y # ys \<Longrightarrow> \<not> p y" "\<And>y ys. xs = ys @ [y] \<Longrightarrow> \<not> p y"
  shows "trim_list p xs = xs"
proof -
  have 1: "dropWhile p xs = xs" using assms(1) by (cases xs) auto
  have "dropWhile p (rev xs) = rev xs"
    using assms(2) by (cases xs rule: rev_cases) auto
  then show ?thesis by (simp add: trim_list_def 1)
qed

text \<open>A rune's bytes: one byte, or a lead byte followed by continuation bytes.\<close>

definition rune_shape :: "nat \<times> string \<Rightarrow> bool" where
  "rune_shape p \<longleftrightarrow> snd p \<noteq> [] \<and> (list_all is_cont (tl (snd p))) \<and>
     (byte_val (hd (snd p)) < 128 \<longrightarrow> p = (byte_val (hd (snd p)), [hd (snd p)]))"

lemma second_ok_cont: "second_ok b c \<Longrightarrow> is_cont c"
  by (auto simp: second_ok_def is_cont_def split: if_splits)

lemma decode_rune_shape:
  "decode_rune (c # s) = (r, n) \<Longrightarrow> rune_shape (r, take n (c # s))"
  by (auto simp: decode_rune_def rune_shape_def Let_def second_ok_cont split: if_splits list.splits)

lemma runes_shape: "p \<in> set (runes s) \<Longrightarrow> rune_shape p"
proof (induction s rule: runes.induct)
  case (2 c s)
  obtain r n where rn: "decode_rune (c # s) = (r, n)" by force
  with "2.prems" consider "p = (r, take n (c # s))" | "p \<in> set (runes (drop n (c # s)))"
    by auto
  then show ?case
  proof cases
    case 1
    then show ?thesis using decode_rune_shape [OF rn] by simp
  next
    case 2
    then show ?thesis using "2.IH" rn by simp
  qed
qed simp

lemma TrimSpace_first:
  assumes "TrimSpace s = c # t"
  shows "c \<noteq> CHR '' ''"
proof
  assume c: "c = CHR '' ''"
  let ?m = "trim_list (\<lambda>p. IsSpace (fst p)) (runes s)"
  from assms obtain p ps where p: "?m = p # ps" by (cases ?m) (auto simp: TrimSpace_def)
  then have "rune_shape p" using trim_list_subset [of "\<lambda>p. IsSpace (fst p)" "runes s"] runes_shape [of p s] by auto
  then obtain x xs where x: "snd p = x # xs" and
    sh: "byte_val x < 128 \<Longrightarrow> p = (byte_val x, [x])"
    by (cases "snd p") (auto simp: rune_shape_def)
  from assms p x have "x = c" by (simp add: TrimSpace_def)
  then have "fst p = 32" using sh c by (auto simp: byte_val_def)
  with trim_list_hd [OF p] show False by (simp add: IsSpace_def)
qed

lemma TrimSpace_last:
  assumes "TrimSpace s = t @ [c]"
  shows "c \<noteq> CHR '' ''"
proof
  assume c: "c = CHR '' ''"
  let ?m = "trim_list (\<lambda>p. IsSpace (fst p)) (runes s)"
  from assms obtain ps p where p: "?m = ps @ [p]"
    by (cases ?m rule: rev_cases) (auto simp: TrimSpace_def)
  then have sh: "rune_shape p" using trim_list_subset [of "\<lambda>p. IsSpace (fst p)" "runes s"] runes_shape [of p s] by auto
  then obtain xs x where x: "snd p = xs @ [x]"
    by (metis rev_exhaust rune_shape_def)
  from assms p x have xc: "x = c" by (simp add: TrimSpace_def)
  have "\<not> is_cont x" using xc c by (simp add: is_cont_def byte_val_def)
  then have "xs = []" using sh x by (cases xs) (auto simp: rune_shape_def)
  then have "fst p = 32" using sh x xc c by (auto simp: rune_shape_def byte_val_def)
  with trim_list_last [OF p] show False by (simp add: IsSpace_def)
qed

end
