(* ===== verification/Go_Crypto.thy ===== *)
theory Go_Crypto
  imports Go_Strings
begin

text \<open>
  The encodings and digests the sources take from Go's standard library:
  \<^verbatim>\<open>sha256.Sum256\<close> on 32-bit words, \<^verbatim>\<open>json.Marshal\<close> of a string and of a
  struct of strings (with the default HTML escaping), lower-case hexadecimal and the
  unpadded URL-safe base64 alphabet.
\<close>

unbundle bit_operations_syntax

section \<open>SHA-256\<close>

text \<open>
  The initial state and the round constants are the first 32 bits of the
  fractional parts of the square roots of the first eight primes and of the
  cube roots of the first 64: \<open>fraction_bits k p\<close> scales \<open>p\<close> so that its
  integer \<open>k\<close>-th root carries 32 binary places.
\<close>

primrec integer_root :: "nat \<Rightarrow> nat \<Rightarrow> nat \<Rightarrow> nat" where
  \<comment> \<open>The largest \<open>r < 2 ^ n\<close> with \<open>r ^ k \<le> x\<close>, one bit per step.\<close>
  "integer_root k x 0 = 0"
| "integer_root k x (Suc n) =
     (let r = 2 * integer_root k (x div 2 ^ k) n in if (r + 1) ^ k \<le> x then r + 1 else r)"

definition fraction_bits :: "nat \<Rightarrow> nat \<Rightarrow> 32 word" where
  "fraction_bits k p = word_of_nat (integer_root k (p * 2 ^ (32 * k)) 40)"

definition sha256_primes :: "nat list" where
  "sha256_primes =
     [2, 3, 5, 7, 11, 13, 17, 19, 23, 29, 31, 37, 41, 43, 47, 53,
      59, 61, 67, 71, 73, 79, 83, 89, 97, 101, 103, 107, 109, 113, 127, 131,
      137, 139, 149, 151, 157, 163, 167, 173, 179, 181, 191, 193, 197, 199, 211, 223,
      227, 229, 233, 239, 241, 251, 257, 263, 269, 271, 277, 281, 283, 293, 307, 311]"

definition sha256_initial :: "32 word list" where
  "sha256_initial = map (fraction_bits 2) (take 8 sha256_primes)"

definition sha256_constants :: "32 word list" where
  "sha256_constants = map (fraction_bits 3) sha256_primes"

definition rotr :: "nat \<Rightarrow> 32 word \<Rightarrow> 32 word" where
  "rotr n x = (drop_bit n x) OR (push_bit (32 - n) x)"

definition big_endian_word :: "bytes \<Rightarrow> 32 word" where
  "big_endian_word bs = foldl (\<lambda>acc c. acc * 256 + word_of_nat (byte_val c)) 0 bs"

definition word_bytes :: "32 word \<Rightarrow> bytes" where
  "word_bytes w = map (\<lambda>k. char_of (unat (drop_bit k w AND 255))) [24, 16, 8, 0]"

function chunks :: "nat \<Rightarrow> 'a list \<Rightarrow> 'a list list" where
  "chunks n xs = (if n = 0 \<or> xs = [] then [] else take n xs # chunks n (drop n xs))"
  by pat_completeness auto
termination
  by (relation "measure (length \<circ> snd)") auto

declare chunks.simps [simp del]

definition sha256_pad :: "bytes \<Rightarrow> bytes" where
  "sha256_pad m =
     (let zeros = (119 - length m mod 64) mod 64;
          bits = 8 * length m
      in m @ [char_of (128 :: nat)] @ replicate zeros (char_of (0 :: nat)) @
         map (\<lambda>k. char_of (bits div 256 ^ k mod 256)) [7, 6, 5, 4, 3, 2, 1, 0])"

primrec sha256_extend :: "nat \<Rightarrow> 32 word list \<Rightarrow> 32 word list" where
  \<comment> \<open>The message schedule, newest word first.\<close>
  "sha256_extend 0 ws = ws"
| "sha256_extend (Suc n) ws =
     (let w2 = ws ! 1; w7 = ws ! 6; w15 = ws ! 14; w16 = ws ! 15;
          s0 = rotr 7 w15 XOR rotr 18 w15 XOR drop_bit 3 w15;
          s1 = rotr 17 w2 XOR rotr 19 w2 XOR drop_bit 10 w2
      in sha256_extend n ((w16 + s0 + w7 + s1) # ws))"

fun sha256_round :: "32 word list \<Rightarrow> 32 word \<times> 32 word \<Rightarrow> 32 word list" where
  "sha256_round [a, b, c, d, e, f, g, h] (k, w) =
     (let s1 = rotr 6 e XOR rotr 11 e XOR rotr 25 e;
          ch = (e AND f) XOR (NOT e AND g);
          t1 = h + s1 + ch + k + w;
          s0 = rotr 2 a XOR rotr 13 a XOR rotr 22 a;
          maj = (a AND b) XOR (a AND c) XOR (b AND c)
      in [t1 + s0 + maj, a, b, c, d + t1, e, f, g])"
| "sha256_round st _ = st"

definition sha256_block :: "32 word list \<Rightarrow> bytes \<Rightarrow> 32 word list" where
  "sha256_block st block =
     (let ws = rev (sha256_extend 48 (rev (map big_endian_word (chunks 4 block))))
      in map2 (+) st (foldl sha256_round st (zip sha256_constants ws)))"

definition Sum256 :: "bytes \<Rightarrow> bytes" where
  "Sum256 m = concat (map word_bytes (foldl sha256_block sha256_initial (chunks 64 (sha256_pad m))))"

lemma sha256_round_length [simp]: "length (sha256_round st kw) = length st"
  by (cases "(st, kw)" rule: sha256_round.cases) (simp_all add: Let_def)

lemma sha256_rounds_length [simp]: "length (foldl sha256_round st kws) = length st"
  by (induction kws arbitrary: st) simp_all

lemma sha256_blocks_length [simp]: "length (foldl sha256_block st blocks) = length st"
  by (induction blocks arbitrary: st) (simp_all add: sha256_block_def Let_def)

lemma length_Sum256 [simp]: "length (Sum256 m) = 32"
proof -
  have bytes: "length (concat (map word_bytes ws)) = 4 * length ws" for ws
    by (induction ws) (simp_all add: word_bytes_def)
  have "length sha256_initial = 8" by (simp add: sha256_initial_def sha256_primes_def)
  then show ?thesis unfolding Sum256_def bytes by simp
qed

section \<open>JSON strings\<close>

definition hex_digit :: "nat \<Rightarrow> char" where
  "hex_digit n = ''0123456789abcdef'' ! n"

definition EncodeToHex :: "bytes \<Rightarrow> string" where
  "EncodeToHex bs = concat (map (\<lambda>c. [hex_digit (byte_val c div 16), hex_digit (byte_val c mod 16)]) bs)"

definition json_escape :: "nat \<times> string \<Rightarrow> string" where
  "json_escape p =
     (let r = fst p in
      if is_invalid_rune p then CHR 0x5C # ''ufffd''
      else if r = 34 \<or> r = 92 then [CHR 0x5C, char_of r]
      else if r = 8 then CHR 0x5C # ''b''
      else if r = 12 then CHR 0x5C # ''f''
      else if r = 10 then CHR 0x5C # ''n''
      else if r = 13 then CHR 0x5C # ''r''
      else if r = 9 then CHR 0x5C # ''t''
      else if r < 32 \<or> r = 60 \<or> r = 62 \<or> r = 38
        then CHR 0x5C # ''u00'' @ [hex_digit (r div 16), hex_digit (r mod 16)]
      else if r = 8232 then CHR 0x5C # ''u2028''
      else if r = 8233 then CHR 0x5C # ''u2029''
      else snd p)"

definition json_string :: "string \<Rightarrow> string" where
  "json_string s = ''\"'' @ concat (map json_escape (runes s)) @ ''\"''"

fun comma_separated :: "string list \<Rightarrow> string" where
  "comma_separated [] = []"
| "comma_separated [x] = x"
| "comma_separated (x # xs) = x @ '','' @ comma_separated xs"

definition json_object :: "(string \<times> string) list \<Rightarrow> string" where
  \<comment> \<open>A struct of string fields, in the order of its fields.\<close>
  "json_object members =
     ''{'' @ comma_separated (map (\<lambda>(k, v). json_string k @ '':'' @ json_string v) members) @ ''}''"

end
