(* ===== verification/Go_Encoding.thy ===== *)
theory Go_Encoding
  imports Go_Crypto
begin

text \<open>
  The encodings of Go's standard library that the identity packages use:
  \<^verbatim>\<open>base64.RawURLEncoding\<close>, \<^verbatim>\<open>crypto/hmac\<close> over SHA-256, the percent encoding
  and the request-URI parser of \<^verbatim>\<open>net/url\<close>, and \<^verbatim>\<open>path.Clean\<close>. The round trips
  of the two encodings are the facts their clients use.
\<close>

unbundle bit_operations_syntax

section \<open>Unpadded URL-safe base64\<close>

definition base64_digit :: "nat \<Rightarrow> char" where
  "base64_digit n =
     (if n < 26 then char_of (65 + n) else if n < 52 then char_of (71 + n)
      else if n < 62 then char_of (n - 4) else if n = 62 then CHR ''-'' else CHR ''_'')"

definition base64_value :: "char \<Rightarrow> nat option" where
  "base64_value c =
     (if is_upper c then Some (byte_val c - 65) else if is_lower c then Some (byte_val c - 71)
      else if is_digit c then Some (byte_val c + 4) else if c = CHR ''-'' then Some 62
      else if c = CHR ''_'' then Some 63 else None)"

fun sextets :: "nat list \<Rightarrow> nat list" where
  "sextets [] = []"
| "sextets [a] = [a div 4, a mod 4 * 16]"
| "sextets [a, b] = [a div 4, a mod 4 * 16 + b div 16, b mod 16 * 4]"
| "sextets (a # b # c # r) =
     [a div 4, a mod 4 * 16 + b div 16, b mod 16 * 4 + c div 64, c mod 64] @ sextets r"

fun octets :: "nat list \<Rightarrow> nat list option" where
  \<comment> \<open>A single trailing digit is corrupt input; unused trailing bits are ignored.\<close>
  "octets [] = Some []"
| "octets [p] = None"
| "octets [p, q] = Some [p * 4 + q div 16]"
| "octets [p, q, r] = Some [p * 4 + q div 16, q mod 16 * 16 + r div 4]"
| "octets (p # q # r # s # t) =
     map_option ((@) [p * 4 + q div 16, q mod 16 * 16 + r div 4, r mod 4 * 64 + s]) (octets t)"

definition RawURL_EncodeToString :: "bytes \<Rightarrow> string" where
  "RawURL_EncodeToString bs = map base64_digit (sextets (map byte_val bs))"

fun all_values :: "'a option list \<Rightarrow> 'a list option" where
  "all_values [] = Some []"
| "all_values (None # xs) = None"
| "all_values (Some x # xs) = map_option ((#) x) (all_values xs)"

definition RawURL_DecodeString :: "string \<Rightarrow> bytes option" where
  \<comment> \<open>Line breaks are skipped; every other character outside the alphabet is an error.\<close>
  "RawURL_DecodeString s =
     (case all_values (map base64_value (filter (\<lambda>c. byte_val c \<noteq> 10 \<and> byte_val c \<noteq> 13) s)) of
        None \<Rightarrow> None
      | Some vs \<Rightarrow> map_option (map char_of) (octets vs))"

lemma all_values_map_Some [simp]: "all_values (map Some xs) = Some xs"
  by (induction xs) simp_all

lemma base64_digit_class: "base64_digit n = CHR ''-'' \<or> base64_digit n = CHR ''_'' \<or>
  is_upper (base64_digit n) \<or> is_lower (base64_digit n) \<or> is_digit (base64_digit n)"
  by (auto simp: base64_digit_def is_upper_def is_lower_def is_digit_def)

lemma base64_value_digit: "n < 64 \<Longrightarrow> base64_value (base64_digit n) = Some n"
proof -
  assume n: "n < 64"
  consider "n < 26" | "26 \<le> n" "n < 52" | "52 \<le> n" "n < 62" | "n = 62" | "n = 63"
    using n by linarith
  then show ?thesis
    by cases (auto simp: base64_digit_def base64_value_def is_upper_def is_lower_def is_digit_def byte_val_def
        of_char_mod_256)
qed

lemma sextets_less: "\<forall>n \<in> set ns. n < 256 \<Longrightarrow> \<forall>n \<in> set (sextets ns). n < 64"
  by (induction ns rule: sextets.induct) auto

lemma byte_parts:
  "n < 256 \<Longrightarrow> n div 16 div 16 = (0 :: nat)" "n < 256 \<Longrightarrow> n div 16 mod 16 = n div (16 :: nat)"
  "n < 256 \<Longrightarrow> n div 64 div 4 = (0 :: nat)" "n < 256 \<Longrightarrow> n div 64 mod 4 = n div (64 :: nat)"
  by (simp_all add: div_mult2_eq [symmetric] div_less_iff_less_mult)

lemma octets_sextets: "\<forall>n \<in> set ns. n < 256 \<Longrightarrow> octets (sextets ns) = Some ns"
  by (induction ns rule: sextets.induct) (simp_all add: byte_parts)

lemma base64_digit_not_break: "byte_val (base64_digit n) \<noteq> 10 \<and> byte_val (base64_digit n) \<noteq> 13"
  using base64_digit_class [of n] by (auto simp: is_upper_def is_lower_def is_digit_def byte_val_def)

lemma RawURL_round_trip: "RawURL_DecodeString (RawURL_EncodeToString bs) = Some bs"
proof -
  let ?ns = "map byte_val bs"
  have "\<forall>n \<in> set (sextets ?ns). n < 64" by (rule sextets_less) simp
  then have digits: "map base64_value (RawURL_EncodeToString bs) = map Some (sextets ?ns)"
    by (simp add: RawURL_EncodeToString_def base64_value_digit)
  have kept: "filter (\<lambda>c. byte_val c \<noteq> 10 \<and> byte_val c \<noteq> 13) (RawURL_EncodeToString bs) =
      RawURL_EncodeToString bs"
    by (simp add: RawURL_EncodeToString_def filter_id_conv base64_digit_not_break)
  have "octets (sextets ?ns) = Some ?ns" by (rule octets_sextets) simp
  then show ?thesis
    unfolding RawURL_DecodeString_def kept digits by (simp add: comp_def)
qed

lemma length_sextets: "length (sextets ns) = (4 * length ns + 2) div 3"
  by (induction ns rule: sextets.induct) auto

lemma length_RawURL [simp]: "length (RawURL_EncodeToString bs) = (4 * length bs + 2) div 3"
  by (simp add: RawURL_EncodeToString_def length_sextets)

lemma RawURL_alphabet: "c \<in> set (RawURL_EncodeToString bs) \<Longrightarrow>
  c = CHR ''-'' \<or> c = CHR ''_'' \<or> is_upper c \<or> is_lower c \<or> is_digit c"
  using base64_digit_class by (auto simp: RawURL_EncodeToString_def)

section \<open>HMAC\<close>

definition xor_bytes :: "nat \<Rightarrow> bytes \<Rightarrow> bytes" where
  "xor_bytes k bs = map (\<lambda>c. char_of (byte_val c XOR k)) bs"

definition hmac_sha256 :: "bytes \<Rightarrow> bytes \<Rightarrow> bytes" where
  "hmac_sha256 key message =
     (let short = (if 64 < length key then Sum256 key else key);
          block = short @ replicate (64 - length short) (char_of (0 :: nat))
      in Sum256 (xor_bytes 92 block @ Sum256 (xor_bytes 54 block @ message)))"

lemma length_hmac [simp]: "length (hmac_sha256 key message) = 32"
  by (simp add: hmac_sha256_def Let_def)

section \<open>Percent encoding\<close>

definition upper_hex :: "nat \<Rightarrow> char" where
  "upper_hex n = ''0123456789ABCDEF'' ! n"

definition hex_value :: "char \<Rightarrow> nat option" where
  "hex_value c =
     (if is_digit c then Some (byte_val c - 48)
      else if 97 \<le> byte_val c \<and> byte_val c \<le> 102 then Some (byte_val c - 87)
      else if 65 \<le> byte_val c \<and> byte_val c \<le> 70 then Some (byte_val c - 55)
      else None)"

definition path_unescaped :: "char \<Rightarrow> bool" where
  \<comment> \<open>The characters \<^verbatim>\<open>shouldEscape\<close> leaves alone in a path.\<close>
  "path_unescaped c \<longleftrightarrow> is_upper c \<or> is_lower c \<or> is_digit c \<or> c \<in> set ''-_.~$&+,/:;=@''"

definition PathEscape_char :: "char \<Rightarrow> string" where
  "PathEscape_char c =
     (if path_unescaped c then [c]
      else [CHR ''%'', upper_hex (byte_val c div 16), upper_hex (byte_val c mod 16)])"

definition escape_path :: "string \<Rightarrow> string" where
  "escape_path s = concat (map PathEscape_char s)"

fun unescape :: "bool \<Rightarrow> string \<Rightarrow> string option" where
  \<comment> \<open>\<open>in_query\<close> is the mode of a query component, where a plus sign is a space.\<close>
  "unescape in_query [] = Some []"
| "unescape in_query (c # s) =
     (if c = CHR ''%'' then (case s of
          h # l # r \<Rightarrow> (case (hex_value h, hex_value l) of
              (Some x, Some y) \<Rightarrow> map_option ((#) (char_of (16 * x + y))) (unescape in_query r)
            | _ \<Rightarrow> None)
        | _ \<Rightarrow> None)
      else map_option ((#) (if in_query \<and> c = CHR ''+'' then CHR '' '' else c)) (unescape in_query s))"

definition valid_encoded_path :: "string \<Rightarrow> bool" where
  "valid_encoded_path s \<longleftrightarrow>
     list_all (\<lambda>c. c \<in> set ''!()*[]%'' \<or> c = CHR 0x27 \<or> path_unescaped c) s"

section \<open>Request URIs\<close>

record URL =
  url_Path :: string
  url_RawPath :: string
  url_RawQuery :: string

definition cut_query :: "string \<Rightarrow> string \<times> string" where
  "cut_query s = (takeWhile (\<lambda>c. c \<noteq> CHR ''?'') s, drop 1 (dropWhile (\<lambda>c. c \<noteq> CHR ''?'') s))"

definition set_path :: "string \<Rightarrow> string \<Rightarrow> URL option" where
  "set_path p q = map_option (\<lambda>path.
     \<lparr>url_Path = path, url_RawPath = (if p = escape_path path then '''' else p), url_RawQuery = q\<rparr>)
     (unescape False p)"

definition ParseRequestURI :: "string \<Rightarrow> URL option" where
  \<comment> \<open>\<^verbatim>\<open>url.ParseRequestURI\<close> on a URI without a scheme. A text that does not start with
    a slash is an error or an absolute URL, and None here.\<close>
  "ParseRequestURI s =
     (if s = '''' \<or> list_ex (\<lambda>c. byte_val c < 32 \<or> byte_val c = 127) s then None
      else if s = ''*'' then Some \<lparr>url_Path = ''*'', url_RawPath = '''', url_RawQuery = ''''\<rparr>
      else if \<not> HasPrefix s ''/'' then None
      else set_path (fst (cut_query s)) (snd (cut_query s)))"

definition EscapedPath :: "URL \<Rightarrow> string" where
  "EscapedPath u =
     (if url_RawPath u \<noteq> '''' \<and> valid_encoded_path (url_RawPath u) \<and>
         unescape False (url_RawPath u) = Some (url_Path u)
      then url_RawPath u
      else if url_Path u = ''*'' then ''*''
      else escape_path (url_Path u))"

section \<open>Lexical paths\<close>

fun split_slash :: "string \<Rightarrow> string list" where
  "split_slash [] = [[]]"
| "split_slash (c # s) =
     (if c = CHR ''/'' then [] # split_slash s
      else (case split_slash s of [] \<Rightarrow> [[c]] | w # ws \<Rightarrow> (c # w) # ws))"

definition clean_step :: "bool \<Rightarrow> string list \<Rightarrow> string \<Rightarrow> string list" where
  \<comment> \<open>The elements kept so far, the last one first.\<close>
  "clean_step rooted kept w =
     (if w = '''' \<or> w = ''.'' then kept
      else if w = ''..'' then (case kept of
          [] \<Rightarrow> if rooted then [] else [w]
        | k # ks \<Rightarrow> if k = ''..'' then w # kept else ks)
      else w # kept)"

fun join_slash :: "string list \<Rightarrow> string" where
  "join_slash [] = []"
| "join_slash [w] = w"
| "join_slash (w # ws) = w @ ''/'' @ join_slash ws"

definition path_Clean :: "string \<Rightarrow> string" where
  "path_Clean p =
     (let rooted = HasPrefix p ''/'';
          body = join_slash (rev (foldl (clean_step rooted) [] (split_slash p)))
      in if rooted then CHR ''/'' # body else if body = '''' then ''.'' else body)"

section \<open>Random bytes\<close>

type_synonym 'w reader = "nat \<Rightarrow> 'w \<Rightarrow> bytes option \<times> 'w"

definition ReadFull :: "'w reader \<Rightarrow> nat \<Rightarrow> 'w \<Rightarrow> bytes option \<times> 'w" where
  \<comment> \<open>\<^verbatim>\<open>io.ReadFull\<close>: a buffer of exactly \<open>n\<close> bytes or an error.\<close>
  "ReadFull random n w = (case random n w of
     (Some bs, w') \<Rightarrow> (if length bs < n then None else Some (take n bs), w')
   | (None, w') \<Rightarrow> (None, w'))"

lemma ReadFull_length: "ReadFull random n w = (Some bs, w') \<Longrightarrow> length bs = n"
  by (auto simp: ReadFull_def split: prod.splits option.splits if_splits)

end
