(* ===== verification/Go_Aead.thy ===== *)
theory Go_Aead
  imports Go_Encoding
begin

text \<open>
  \<^verbatim>\<open>crypto/aes\<close> with a 32-byte key and \<^verbatim>\<open>cipher.NewGCM\<close>: the authenticated encryption
  behind the PKCE envelope and the read tokens, on 8-bit and 128-bit words. The
  substitution box is computed from inversion in the field of 256 elements.
  \<open>gcm_Open_Seal\<close> is the round trip its clients rest on.
\<close>

unbundle bit_operations_syntax

section \<open>The block cipher\<close>

definition xtime :: "8 word \<Rightarrow> 8 word" where
  "xtime b = (if bit b 7 then push_bit 1 b XOR 27 else push_bit 1 b)"

definition field_mult :: "8 word \<Rightarrow> 8 word \<Rightarrow> 8 word" where
  "field_mult a b =
     fst (foldl (\<lambda>(acc, p) i. (if bit b i then acc XOR p else acc, xtime p)) (0, a) [0..<8])"

definition field_inverse :: "8 word \<Rightarrow> 8 word" where
  \<comment> \<open>The 254th power: six times square and multiply, then one square.\<close>
  "field_inverse a = (let r = ((\<lambda>r. field_mult (field_mult r r) a) ^^ 6) a in field_mult r r)"

definition rotate_byte :: "nat \<Rightarrow> 8 word \<Rightarrow> 8 word" where
  "rotate_byte n b = push_bit n b OR drop_bit (8 - n) b"

definition sub_byte :: "8 word \<Rightarrow> 8 word" where
  "sub_byte a = (let b = field_inverse a in
     b XOR rotate_byte 1 b XOR rotate_byte 2 b XOR rotate_byte 3 b XOR rotate_byte 4 b XOR 99)"

type_synonym column = "8 word list"

fun expand_key :: "nat \<Rightarrow> nat \<Rightarrow> 8 word \<Rightarrow> column list \<Rightarrow> column list" where
  \<comment> \<open>\<open>expand_key n i rcon ws\<close> adds \<open>n\<close> columns, the newest first; \<open>i\<close> is the next index.\<close>
  "expand_key 0 i rcon ws = ws"
| "expand_key (Suc n) i rcon ws =
     (let last = hd ws;
          mixed = (if i mod 8 = 0 then map2 (XOR) (map sub_byte (rotate1 last)) [rcon, 0, 0, 0]
                   else if i mod 8 = 4 then map sub_byte last else last)
      in expand_key n (i + 1) (if i mod 8 = 0 then xtime rcon else rcon)
           (map2 (XOR) (ws ! 7) mixed # ws))"

definition round_keys :: "bytes \<Rightarrow> 8 word list list" where
  "round_keys key = map concat (chunks 4
     (rev (expand_key 52 8 1 (rev (chunks 4 (map (\<lambda>c. word_of_nat (byte_val c)) key))))))"

definition shift_rows :: "8 word list \<Rightarrow> 8 word list" where
  "shift_rows st = map (\<lambda>i. st ! ((i + 4 * (i mod 4)) mod 16)) [0..<16]"

definition mix_column :: "column \<Rightarrow> column" where
  "mix_column col = map (\<lambda>i. xtime (col ! i) XOR (xtime (col ! ((i + 1) mod 4)) XOR col ! ((i + 1) mod 4))
     XOR col ! ((i + 2) mod 4) XOR col ! ((i + 3) mod 4)) [0..<4]"

definition cipher_round :: "8 word list \<Rightarrow> 8 word list \<Rightarrow> 8 word list" where
  "cipher_round st rk = map2 (XOR) (concat (map mix_column (chunks 4 (shift_rows (map sub_byte st))))) rk"

definition aes_block :: "bytes \<Rightarrow> bytes \<Rightarrow> bytes" where
  "aes_block key block =
     (let rks = round_keys key;
          st = foldl cipher_round (map2 (XOR) (map (\<lambda>c. word_of_nat (byte_val c)) block) (hd rks))
                 (butlast (tl rks))
      in map (\<lambda>b. char_of (unat b)) (map2 (XOR) (shift_rows (map sub_byte st)) (last rks)))"

section \<open>Galois counter mode\<close>

definition big_endian :: "nat \<Rightarrow> nat \<Rightarrow> bytes" where
  "big_endian n v = map (\<lambda>k. char_of (v div 256 ^ k mod 256)) (rev [0..<n])"

definition block_word :: "bytes \<Rightarrow> 128 word" where
  "block_word bs = word_of_nat (foldl (\<lambda>acc c. 256 * acc + byte_val c) 0 bs)"

definition galois_mult :: "128 word \<Rightarrow> 128 word \<Rightarrow> 128 word" where
  "galois_mult x y =
     fst (foldl (\<lambda>(z, v) i.
       (if bit x i then z XOR v else z,
        if bit v 0 then drop_bit 1 v XOR push_bit 120 225 else drop_bit 1 v)) (0, y) (rev [0..<128]))"

definition pad_block :: "bytes \<Rightarrow> bytes" where
  "pad_block bs = bs @ replicate ((16 - length bs mod 16) mod 16) (char_of (0 :: nat))"

definition ghash :: "128 word \<Rightarrow> bytes \<Rightarrow> 128 word" where
  "ghash h bs = foldl (\<lambda>acc b. galois_mult (acc XOR block_word b) h) 0 (chunks 16 bs)"

definition keystream :: "bytes \<Rightarrow> bytes \<Rightarrow> nat \<Rightarrow> bytes" where
  \<comment> \<open>Enough blocks for \<open>n\<close> bytes; counter 1 masks the tag.\<close>
  "keystream key nonce n =
     concat (map (\<lambda>i. aes_block key (nonce @ big_endian 4 (i + 2))) [0..<(n + 15) div 16])"

definition mask_bytes :: "bytes \<Rightarrow> bytes \<Rightarrow> bytes" where
  "mask_bytes ks bs = map2 (\<lambda>k b. char_of (byte_val k XOR byte_val b)) ks bs"

definition gcm_tag :: "bytes \<Rightarrow> bytes \<Rightarrow> bytes \<Rightarrow> bytes \<Rightarrow> bytes" where
  "gcm_tag key nonce ad ct =
     (let h = block_word (aes_block key (replicate 16 (char_of (0 :: nat))));
          s = ghash h (pad_block ad @ pad_block ct @ big_endian 8 (8 * length ad) @ big_endian 8 (8 * length ct));
          m = block_word (aes_block key (nonce @ big_endian 4 1))
      in big_endian 16 (unat (s XOR m)))"

definition gcm_NonceSize :: nat where
  "gcm_NonceSize = 12"

definition gcm_Overhead :: nat where
  "gcm_Overhead = 16"

definition gcm_Seal :: "bytes \<Rightarrow> bytes \<Rightarrow> bytes \<Rightarrow> bytes \<Rightarrow> bytes" where
  "gcm_Seal key nonce plaintext ad =
     (let ct = mask_bytes (keystream key nonce (length plaintext)) plaintext
      in ct @ gcm_tag key nonce ad ct)"

definition gcm_Open :: "bytes \<Rightarrow> bytes \<Rightarrow> bytes \<Rightarrow> bytes \<Rightarrow> bytes option" where
  "gcm_Open key nonce sealed ad =
     (if length sealed < gcm_Overhead then None
      else let ct = take (length sealed - gcm_Overhead) sealed;
               tag = drop (length sealed - gcm_Overhead) sealed
           in if tag = gcm_tag key nonce ad ct
              then Some (mask_bytes (keystream key nonce (length ct)) ct) else None)"

section \<open>Round trip\<close>

lemma chunks_exact:
  assumes "0 < n" "length xs = n * k"
  shows "length (chunks n xs) = k \<and> (\<forall>c \<in> set (chunks n xs). length c = n \<and> set c \<subseteq> set xs)"
  using assms(2)
proof (induction k arbitrary: xs)
  case 0
  then show ?case by (simp add: chunks.simps)
next
  case (Suc k)
  then have "length (drop n xs) = n * k" by simp
  from Suc.IH [OF this] have
    "length (chunks n (drop n xs)) = k \<and>
     (\<forall>c \<in> set (chunks n (drop n xs)). length c = n \<and> set c \<subseteq> set (drop n xs))" .
  moreover have "chunks n xs = take n xs # chunks n (drop n xs)"
    using Suc.prems assms(1) by (subst chunks.simps) auto
  ultimately show ?case
    using Suc.prems set_take_subset [of n xs] set_drop_subset [of n xs] by auto
qed

lemma length_expand_key [simp]: "length (expand_key n i r ws) = n + length ws"
  by (induction n arbitrary: i r ws) (simp_all add: Let_def)

lemma expand_key_columns:
  "8 \<le> length ws \<Longrightarrow> \<forall>c \<in> set ws. length c = 4 \<Longrightarrow> \<forall>c \<in> set (expand_key n i r ws). length c = 4"
proof (induction n arbitrary: i r ws)
  case (Suc n)
  have "hd ws \<in> set ws" "ws ! 7 \<in> set ws" using Suc.prems(1) by (auto intro: hd_in_set nth_mem)
  then have "length (hd ws) = 4" "length (ws ! 7) = 4" using Suc.prems(2) by auto
  with Suc.prems have "\<forall>c \<in> set (expand_key n j q (map2 (XOR) (ws ! 7) m # ws)). length c = 4"
    if "length m = 4" for j q m
    using that by (intro Suc.IH) auto
  note added = this
  show ?case unfolding expand_key.simps Let_def
    by (rule added) (simp add: \<open>length (hd ws) = 4\<close>)
qed simp

lemma length_concat_columns: "\<forall>c \<in> set cs. length c = 4 \<Longrightarrow> length (concat cs) = 4 * length cs"
  by (induction cs) simp_all

lemma round_keys_shape:
  assumes "length key = 32"
  shows "length (round_keys key) = 15" and "\<forall>rk \<in> set (round_keys key). length rk = 16"
proof -
  let ?k = "chunks 4 (map (\<lambda>c. word_of_nat (byte_val c) :: 8 word) key)"
  let ?ws = "rev (expand_key 52 8 1 (rev ?k))"
  have "length (map (\<lambda>c. word_of_nat (byte_val c) :: 8 word) key) = 4 * 8" using assms by simp
  from chunks_exact [OF zero_less_numeral this] have k: "length ?k = 8" "\<forall>c \<in> set ?k. length c = 4" by blast+
  have "\<forall>c \<in> set (expand_key 52 8 1 (rev ?k)). length c = 4"
    by (rule expand_key_columns) (simp_all only: length_rev set_rev k order_refl, rule k(2))
  then have cols: "\<forall>c \<in> set ?ws. length c = 4" by (simp only: set_rev)
  have "length ?ws = 4 * 15" by (simp only: length_rev length_expand_key k)
  from chunks_exact [OF zero_less_numeral this] have groups: "length (chunks 4 ?ws) = 15"
    "\<forall>g \<in> set (chunks 4 ?ws). length g = 4 \<and> set g \<subseteq> set ?ws" by blast+
  show "length (round_keys key) = 15" unfolding round_keys_def length_map by (rule groups(1))
  have "length (concat g) = 16" if g: "g \<in> set (chunks 4 ?ws)" for g
  proof -
    from groups(2) g have "length g = 4" "set g \<subseteq> set ?ws" by blast+
    with cols have "\<forall>c \<in> set g. length c = 4" by blast
    from length_concat_columns [OF this] \<open>length g = 4\<close> show ?thesis by simp
  qed
  then show "\<forall>rk \<in> set (round_keys key). length rk = 16"
    unfolding round_keys_def set_map by blast
qed

lemma length_aes_block: "length key = 32 \<Longrightarrow> length (aes_block key block) = 16"
proof -
  assume key: "length key = 32"
  then have "round_keys key \<noteq> []" using round_keys_shape(1) [of key] by auto
  then have "length (last (round_keys key)) = 16" using round_keys_shape(2) [OF key] by simp
  then show ?thesis by (simp add: aes_block_def Let_def shift_rows_def)
qed

lemma length_keystream: "length key = 32 \<Longrightarrow> n \<le> length (keystream key nonce n)"
proof -
  assume "length key = 32"
  then have "length (keystream key nonce n) = 16 * ((n + 15) div 16)"
    by (simp add: keystream_def length_concat comp_def length_aes_block sum_list_triv)
  then show ?thesis by simp
qed

lemma length_mask_bytes: "length bs \<le> length ks \<Longrightarrow> length (mask_bytes ks bs) = length bs"
  by (simp add: mask_bytes_def)

lemma byte_xor_less: "byte_val k XOR byte_val b < 256"
proof -
  have "take_bit 8 (byte_val k XOR byte_val b) = byte_val k XOR byte_val b"
    by (simp add: take_bit_xor take_bit_nat_eq_self)
  moreover have "take_bit 8 (byte_val k XOR byte_val b) < 2 ^ 8" by (rule take_bit_nat_less_exp)
  ultimately show ?thesis by simp
qed

lemma mask_bytes_involution: "length bs \<le> length ks \<Longrightarrow> mask_bytes ks (mask_bytes ks bs) = bs"
proof (induction bs arbitrary: ks)
  case (Cons b bs)
  then obtain k ks' where "ks = k # ks'" by (cases ks) auto
  with Cons show ?case
    by (simp add: mask_bytes_def byte_xor_less) (simp add: xor.assoc [symmetric])
qed (simp add: mask_bytes_def)

lemma length_gcm_tag [simp]: "length (gcm_tag key nonce ad ct) = 16"
  by (simp add: gcm_tag_def Let_def big_endian_def)

lemma length_gcm_Seal: "length key = 32 \<Longrightarrow> length (gcm_Seal key nonce p ad) = length p + 16"
  by (simp add: gcm_Seal_def Let_def length_mask_bytes length_keystream)

lemma gcm_Open_Seal:
  assumes "length key = 32"
  shows "gcm_Open key nonce (gcm_Seal key nonce p ad) ad = Some p"
proof -
  have "length p \<le> length (keystream key nonce (length p))" using length_keystream [OF assms] .
  then show ?thesis
    by (simp add: gcm_Open_def gcm_Seal_def Let_def gcm_Overhead_def length_mask_bytes mask_bytes_involution)
qed

end
