(* ===== verification/Identity.thy ===== *)
theory Identity
  imports Go_Aead
begin

text \<open>
  Package \<^verbatim>\<open>internal/identity\<close> without its service: the account and session data
  and the error codes of \<^verbatim>\<open>identity.go\<close>, the keyed digests and opaque tokens of
  \<^verbatim>\<open>secret.go\<close>, the encrypted PKCE verifier of \<^verbatim>\<open>pkce.go\<close> and the return-path
  filter of \<^verbatim>\<open>return_path.go\<close>. A digest of type \<^verbatim>\<open>[32]byte\<close> is a byte list;
  random bytes come from a reader over the world \<open>'w\<close>.
\<close>

section \<open>Constants and account types\<close>

definition PermissionPortalAdminAccess :: string where
  "PermissionPortalAdminAccess = ''portal.admin.access''"

definition time_Minute :: duration where
  "time_Minute = 60000000000"

definition DefaultAuthFlowLifetime :: duration where
  "DefaultAuthFlowLifetime = 10 * time_Minute"

definition DefaultSessionIdleTimeout :: duration where
  "DefaultSessionIdleTimeout = 30 * time_Minute"

definition DefaultSessionAbsoluteTimeout :: duration where
  "DefaultSessionAbsoluteTimeout = 8 * 60 * time_Minute"

definition DefaultSessionTouchInterval :: duration where
  "DefaultSessionTouchInterval = 5 * time_Minute"

lemmas lifetime_defs = time_Minute_def DefaultAuthFlowLifetime_def DefaultSessionIdleTimeout_def
  DefaultSessionAbsoluteTimeout_def DefaultSessionTouchInterval_def

datatype AccountType = AccountTypeMailbox | AccountTypeAdministrator | AccountTypeOther string

definition AccountType_of :: "string \<Rightarrow> AccountType" where
  \<comment> \<open>The conversion \<^verbatim>\<open>AccountType(value)\<close>.\<close>
  "AccountType_of s =
     (if s = ''mailbox'' then AccountTypeMailbox
      else if s = ''administrator'' then AccountTypeAdministrator
      else AccountTypeOther s)"

fun AccountType_Valid :: "AccountType \<Rightarrow> bool" where
  "AccountType_Valid (AccountTypeOther _) = False"
| "AccountType_Valid _ = True"

section \<open>Errors\<close>

definition identity_InvalidRequest :: string where
  "identity_InvalidRequest = ''INVALID_REQUEST''"

definition identity_InvalidReturnTo :: string where
  "identity_InvalidReturnTo = ''INVALID_RETURN_TO''"

definition identity_AuthRequired :: string where
  "identity_AuthRequired = ''AUTH_REQUIRED''"

definition identity_AuthForbidden :: string where
  "identity_AuthForbidden = ''AUTH_FORBIDDEN''"

definition identity_AuthFlowInvalid :: string where
  "identity_AuthFlowInvalid = ''AUTH_FLOW_INVALID''"

definition identity_CSRFInvalid :: string where
  "identity_CSRFInvalid = ''CSRF_INVALID''"

definition identity_PersistenceUnavailable :: string where
  "identity_PersistenceUnavailable = ''AUTH_SERVICE_UNAVAILABLE''"

lemmas identity_codes = identity_InvalidRequest_def identity_InvalidReturnTo_def identity_AuthRequired_def
  identity_AuthForbidden_def identity_AuthFlowInvalid_def identity_CSRFInvalid_def
  identity_PersistenceUnavailable_def

definition identity_error_codes :: "string list" where
  \<comment> \<open>The keys of the message table.\<close>
  "identity_error_codes = [identity_InvalidRequest, identity_InvalidReturnTo, identity_AuthRequired,
     identity_AuthForbidden, identity_AuthFlowInvalid, identity_CSRFInvalid, identity_PersistenceUnavailable]"

definition identity_NewError :: "string \<Rightarrow> go_error" where
  "identity_NewError code =
     (if code \<in> set identity_error_codes then IdentityErr code
      else IdentityErr identity_PersistenceUnavailable)"

definition identity_HasErrorCode :: "go_error option \<Rightarrow> string \<Rightarrow> bool" where
  "identity_HasErrorCode err code \<longleftrightarrow> (case err of
     None \<Rightarrow> False | Some e \<Rightarrow> errors_As_identity e = Some code)"

section \<open>Sessions, flows and audit\<close>

record Mailbox =
  mbx_ID :: uuid
  mbx_Address :: string

record Principal =
  pr_ID :: uuid
  pr_TenantID :: uuid
  pr_AccountType :: AccountType
  pr_DisplayName :: string
  pr_Mailbox :: "Mailbox option"

record AuthFlowToCreate =
  afc_ID :: uuid
  afc_StateDigest :: bytes
  afc_BrowserCookieDigest :: bytes
  afc_NonceDigest :: bytes
  afc_PKCEVerifierCiphertext :: bytes
  afc_EncryptionKeyID :: string
  afc_ReturnTo :: string
  afc_CreatedAt :: instant
  afc_ExpiresAt :: instant

record ConsumedAuthFlow =
  caf_ID :: uuid
  caf_NonceDigest :: bytes
  caf_PKCEVerifierCiphertext :: bytes
  caf_EncryptionKeyID :: string
  caf_ReturnTo :: string
  caf_ExpiresAt :: instant
  caf_ConsumedAt :: instant

record SessionToCreate =
  stc_ID :: uuid
  stc_SessionDigest :: bytes
  stc_PrincipalID :: uuid
  stc_OIDCIssuer :: string
  stc_OIDCSubject :: string
  stc_OIDCSessionID :: string
  stc_CSRFDigest :: bytes
  stc_CreatedAt :: instant
  stc_IdleExpiresAt :: instant
  stc_AbsoluteExpiresAt :: instant

record CreatedSession =
  cs_ID :: uuid
  cs_PrincipalID :: uuid
  cs_CreatedAt :: instant
  cs_IdleExpiresAt :: instant
  cs_AbsoluteExpiresAt :: instant

record Session =
  ses_ID :: uuid
  ses_Principal :: Principal
  ses_Permissions :: "string list"
  ses_CreatedAt :: instant
  ses_LastSeenAt :: instant
  ses_IdleExpiresAt :: instant
  ses_AbsoluteExpiresAt :: instant
  ses_CSRFDigest :: bytes

definition ExpiresAt :: "Session \<Rightarrow> instant" where
  "ExpiresAt session =
     (if ses_IdleExpiresAt session < ses_AbsoluteExpiresAt session
      then ses_IdleExpiresAt session else ses_AbsoluteExpiresAt session)"

datatype RevocationReason =
    RevocationReasonLogout | RevocationReasonRotation | RevocationReasonBackchannelSID
  | RevocationReasonBackchannelSubject | RevocationReasonPrincipalDisabled
  | RevocationReasonPermissionRevoked | RevocationReasonOther string

fun reason_text :: "RevocationReason \<Rightarrow> string" where
  "reason_text RevocationReasonLogout = ''logout''"
| "reason_text RevocationReasonRotation = ''rotation''"
| "reason_text RevocationReasonBackchannelSID = ''backchannel_sid''"
| "reason_text RevocationReasonBackchannelSubject = ''backchannel_subject''"
| "reason_text RevocationReasonPrincipalDisabled = ''principal_disabled''"
| "reason_text RevocationReasonPermissionRevoked = ''permission_revoked''"
| "reason_text (RevocationReasonOther s) = s"

fun RevocationReason_Valid :: "RevocationReason \<Rightarrow> bool" where
  "RevocationReason_Valid (RevocationReasonOther _) = False"
| "RevocationReason_Valid _ = True"

record AuditEvent =
  ae_ID :: uuid
  ae_PrincipalID :: "uuid option"
  ae_Action :: string
  ae_Result :: string
  ae_FailureCategory :: string
  ae_SourceDigest :: bytes
  ae_RequestID :: string
  ae_OccurredAt :: instant

record 'w identity_Repository =
  CreateAuthFlow :: "go_context \<Rightarrow> AuthFlowToCreate \<Rightarrow> 'w \<Rightarrow> go_error option \<times> 'w"
  ConsumeAuthFlow ::
    "go_context \<Rightarrow> bytes \<Rightarrow> bytes \<Rightarrow> instant \<Rightarrow> 'w \<Rightarrow> ConsumedAuthFlow result \<times> 'w"
  ResolvePrincipal :: "go_context \<Rightarrow> string \<Rightarrow> string \<Rightarrow> 'w \<Rightarrow> Principal result \<times> 'w"
  CreateSession :: "go_context \<Rightarrow> SessionToCreate \<Rightarrow> 'w \<Rightarrow> CreatedSession result \<times> 'w"
  CreateSessionWithAudit ::
    "go_context \<Rightarrow> SessionToCreate \<Rightarrow> AuditEvent \<Rightarrow> 'w \<Rightarrow> CreatedSession result \<times> 'w"
  ResolveSession :: "go_context \<Rightarrow> bytes \<Rightarrow> instant \<Rightarrow> 'w \<Rightarrow> Session result \<times> 'w"
  RevokeSession ::
    "go_context \<Rightarrow> bytes \<Rightarrow> instant \<Rightarrow> RevocationReason \<Rightarrow> 'w \<Rightarrow> go_error option \<times> 'w"
  RevokeSessionWithAudit ::
    "go_context \<Rightarrow> bytes \<Rightarrow> instant \<Rightarrow> RevocationReason \<Rightarrow> AuditEvent \<Rightarrow> 'w \<Rightarrow> go_error option \<times> 'w"
  RevokeByOIDCSessionID :: "go_context \<Rightarrow> string \<Rightarrow> string \<Rightarrow> instant \<Rightarrow> 'w \<Rightarrow> int result \<times> 'w"
  RevokeByOIDCSubject :: "go_context \<Rightarrow> string \<Rightarrow> string \<Rightarrow> instant \<Rightarrow> 'w \<Rightarrow> int result \<times> 'w"
  RecordAudit :: "go_context \<Rightarrow> AuditEvent \<Rightarrow> 'w \<Rightarrow> go_error option \<times> 'w"

end
