(* ===== verification/Identity_Secrets.thy ===== *)
theory Identity_Secrets
  imports Identity
begin

text \<open>
  \<^verbatim>\<open>secret.go\<close>, \<^verbatim>\<open>pkce.go\<close> and \<^verbatim>\<open>return_path.go\<close> of package \<^verbatim>\<open>internal/identity\<close>:
  purpose-separated digests under the server's pepper, opaque tokens, the PKCE
  verifier sealed for the time between login and callback, and the filter that
  keeps a login's return path inside the two portals.
\<close>

section \<open>Digests and tokens\<close>

definition minimumPepperBytes :: nat where
  "minimumPepperBytes = 32"

definition opaqueTokenBytes :: nat where
  "opaqueTokenBytes = 32"

datatype SecretPurpose =
    SecretPurposeSessionCookie | SecretPurposeAuthFlowState | SecretPurposeAuthFlowCookie
  | SecretPurposeOIDCNonce | SecretPurposeCSRFToken | SecretPurposeSource
  | SecretPurposeCSRFDerivation

fun purpose_text :: "SecretPurpose \<Rightarrow> string" where
  "purpose_text SecretPurposeSessionCookie = ''session-cookie''"
| "purpose_text SecretPurposeAuthFlowState = ''auth-flow-state''"
| "purpose_text SecretPurposeAuthFlowCookie = ''auth-flow-cookie''"
| "purpose_text SecretPurposeOIDCNonce = ''oidc-nonce''"
| "purpose_text SecretPurposeCSRFToken = ''csrf-token''"
| "purpose_text SecretPurposeSource = ''audit-source''"
| "purpose_text SecretPurposeCSRFDerivation = ''csrf-derivation''"

record SecretHasher =
  sh_pepper :: bytes

definition NewSecretHasher :: "bytes \<Rightarrow> SecretHasher result" where
  "NewSecretHasher pepper =
     (if length pepper < minimumPepperBytes then Inl (OtherError ''pepper'')
      else Inr \<lparr>sh_pepper = pepper\<rparr>)"

definition digest_message :: "SecretPurpose \<Rightarrow> string \<Rightarrow> bytes" where
  "digest_message purpose secret = purpose_text purpose @ [char_of (0 :: nat)] @ secret"

definition Digest :: "SecretHasher \<Rightarrow> SecretPurpose \<Rightarrow> string \<Rightarrow> bytes" where
  "Digest hasher purpose secret = hmac_sha256 (sh_pepper hasher) (digest_message purpose secret)"

definition DeriveCSRFToken :: "SecretHasher \<Rightarrow> string \<Rightarrow> string" where
  "DeriveCSRFToken hasher sessionToken =
     RawURL_EncodeToString (Digest hasher SecretPurposeCSRFDerivation sessionToken)"

definition NewOpaqueToken :: "'w reader \<Rightarrow> 'w \<Rightarrow> string result \<times> 'w" where
  "NewOpaqueToken random w = (case ReadFull random opaqueTokenBytes w of
     (None, w') \<Rightarrow> (Inl (OtherError ''random''), w')
   | (Some buffer, w') \<Rightarrow> (Inr (RawURL_EncodeToString buffer), w'))"

lemma length_Digest [simp]: "length (Digest hasher purpose secret) = 32"
  by (simp add: Digest_def)

section \<open>The PKCE verifier\<close>

definition pkceAssociatedDataPrefix :: string where
  "pkceAssociatedDataPrefix = ''mail-suite:pkce:''"

record 'w PKCECipher =
  pc_currentKeyID :: string
  pc_keys :: "(string \<times> bytes) list"
  pc_random :: "'w reader"

definition pkce_key_ok :: "string \<times> bytes \<Rightarrow> bool" where
  "pkce_key_ok k \<longleftrightarrow> fst k \<noteq> '''' \<and> fst k = TrimSpace (fst k) \<and> length (snd k) = 32"

definition NewPKCECipher ::
  "string \<Rightarrow> (string \<times> bytes) list \<Rightarrow> 'w reader \<Rightarrow> 'w PKCECipher result" where
  \<comment> \<open>The map of keys as the list of its entries; a key of 32 bytes always gives a cipher.\<close>
  "NewPKCECipher currentKeyID keys random =
     (if currentKeyID = '''' \<or> currentKeyID \<noteq> TrimSpace currentKeyID then Inl (OtherError ''key id'')
      else if keys = [] then Inl (OtherError ''no keys'')
      else if \<not> list_all pkce_key_ok keys then Inl (OtherError ''key'')
      else if map_of keys currentKeyID = None then Inl (OtherError ''current key'')
      else Inr \<lparr>pc_currentKeyID = currentKeyID, pc_keys = keys, pc_random = random\<rparr>)"

definition unreserved :: "nat \<Rightarrow> bool" where
  "unreserved r \<longleftrightarrow> (97 \<le> r \<and> r \<le> 122) \<or> (65 \<le> r \<and> r \<le> 90) \<or> (48 \<le> r \<and> r \<le> 57) \<or>
     r \<in> set (map byte_val ''-._~'')"

definition validPKCEVerifier :: "string \<Rightarrow> bool" where
  "validPKCEVerifier value \<longleftrightarrow>
     43 \<le> length value \<and> length value \<le> 128 \<and> list_all (\<lambda>p. unreserved (fst p)) (runes value)"

definition pkce_associated_data :: "string \<Rightarrow> bytes" where
  "pkce_associated_data keyID = pkceAssociatedDataPrefix @ keyID"

definition Encrypt :: "'w PKCECipher \<Rightarrow> string \<Rightarrow> 'w \<Rightarrow> (bytes \<times> string) result \<times> 'w" where
  \<comment> \<open>A missing current key is excluded by \<open>NewPKCECipher\<close>; the Go code would panic on a
    nil AEAD there.\<close>
  "Encrypt box verifier w =
     (if \<not> validPKCEVerifier verifier then (Inl (identity_NewError identity_InvalidRequest), w)
      else case map_of (pc_keys box) (pc_currentKeyID box) of
        None \<Rightarrow> (Inl (OtherError ''panic''), w)
      | Some key \<Rightarrow> (case ReadFull (pc_random box) gcm_NonceSize w of
          (None, w') \<Rightarrow> (Inl (identity_NewError identity_PersistenceUnavailable), w')
        | (Some nonce, w') \<Rightarrow>
            (Inr (nonce @ gcm_Seal key nonce verifier (pkce_associated_data (pc_currentKeyID box)),
                  pc_currentKeyID box), w')))"

definition Decrypt :: "'w PKCECipher \<Rightarrow> bytes \<Rightarrow> string \<Rightarrow> string result" where
  "Decrypt box ciphertext keyID = (case map_of (pc_keys box) keyID of
     None \<Rightarrow> Inl (identity_NewError identity_AuthFlowInvalid)
   | Some key \<Rightarrow>
       if length ciphertext \<le> gcm_NonceSize then Inl (identity_NewError identity_AuthFlowInvalid)
       else case gcm_Open key (take gcm_NonceSize ciphertext) (drop gcm_NonceSize ciphertext)
                   (pkce_associated_data keyID) of
         None \<Rightarrow> Inl (identity_NewError identity_AuthFlowInvalid)
       | Some plaintext \<Rightarrow>
           if validPKCEVerifier plaintext then Inr plaintext
           else Inl (identity_NewError identity_AuthFlowInvalid))"

definition PKCEChallenge :: "string \<Rightarrow> string result" where
  "PKCEChallenge verifier =
     (if \<not> validPKCEVerifier verifier then Inl (identity_NewError identity_InvalidRequest)
      else Inr (RawURL_EncodeToString (Sum256 verifier)))"

section \<open>Return paths\<close>

definition maximumReturnPathBytes :: nat where
  "maximumReturnPathBytes = 2048"

definition isProtectedPortalPath :: "string \<Rightarrow> bool" where
  "isProtectedPortalPath candidate \<longleftrightarrow>
     candidate = ''/mail'' \<or> HasPrefix candidate ''/mail/'' \<or>
     candidate = ''/admin'' \<or> HasPrefix candidate ''/admin/''"

definition hasControlCharacter :: "string \<Rightarrow> bool" where
  "hasControlCharacter value \<longleftrightarrow> contains_rune (\<lambda>r. r < 32 \<or> (127 \<le> r \<and> r \<le> 159)) value"

definition query_acceptable :: "string \<Rightarrow> bool" where
  "query_acceptable q \<longleftrightarrow> q = '''' \<or> (case unescape True q of
     None \<Rightarrow> False
   | Some d \<Rightarrow> \<not> hasControlCharacter d \<and> \<not> Contains d [CHR 0x5C])"

definition parsed_acceptable :: "(nat \<Rightarrow> nat) \<Rightarrow> URL \<Rightarrow> bool" where
  "parsed_acceptable uc u \<longleftrightarrow>
     HasPrefix (url_Path u) ''/'' \<and> \<not> HasPrefix (url_Path u) ''//'' \<and>
     (let lowerEscapedPath = ToLower uc (EscapedPath u)
      in \<not> Contains lowerEscapedPath ''%2f'' \<and> \<not> Contains lowerEscapedPath ''%5c'') \<and>
     \<not> hasControlCharacter (url_Path u) \<and> \<not> Contains (url_Path u) [CHR 0x5C] \<and>
     path_Clean (url_Path u) = url_Path u \<and> isProtectedPortalPath (url_Path u) \<and>
     query_acceptable (url_RawQuery u)"

definition normalized_uri :: "URL \<Rightarrow> string" where
  "normalized_uri u =
     EscapedPath u @ (if url_RawQuery u = '''' then '''' else ''?'' @ url_RawQuery u)"

definition NormalizeReturnPath :: "(nat \<Rightarrow> nat) \<Rightarrow> string \<Rightarrow> string result" where
  "NormalizeReturnPath uc candidate =
     (if candidate = '''' \<or> maximumReturnPathBytes < length candidate \<or> \<not> ValidString candidate
      then Inl (identity_NewError identity_InvalidReturnTo)
      else if hasControlCharacter candidate \<or> Contains candidate [CHR 0x5C]
      then Inl (identity_NewError identity_InvalidReturnTo)
      else if Contains (ToLower uc candidate) ''%25''
      then Inl (identity_NewError identity_InvalidReturnTo)
      else case ParseRequestURI candidate of
        None \<Rightarrow> Inl (identity_NewError identity_InvalidReturnTo)
      | Some parsed \<Rightarrow>
          if parsed_acceptable uc parsed then Inr (normalized_uri parsed)
          else Inl (identity_NewError identity_InvalidReturnTo))"

end
