(* ===== verification/Identity_Service.thy ===== *)
theory Identity_Service
  imports Identity_Secrets
begin

text \<open>
  \<^verbatim>\<open>service.go\<close> of package \<^verbatim>\<open>internal/identity\<close>: the one-time OIDC login flow, the
  server-side session and the logout. Every handler passes the world \<open>'w\<close>
  through the repository, the provider, the clock and the generators of tokens
  and identifiers it calls, in the order of the source. The OIDC provider is the
  interface record the Go \<^verbatim>\<open>Service\<close> holds.
\<close>

section \<open>Data\<close>

definition defaultMailboxLanding :: string where
  "defaultMailboxLanding = ''/mail/inbox''"

definition defaultAdminLanding :: string where
  "defaultAdminLanding = ''/admin/overview''"

record OIDCIdentity =
  oid_Issuer :: string
  oid_Subject :: string
  oid_SessionID :: string
  oid_Nonce :: string
  oid_ACR :: string
  oid_AMR :: "string list"

record 'w OIDCProvider =
  AuthorizationURL :: "string \<Rightarrow> string \<Rightarrow> string \<Rightarrow> string result"
  Exchange :: "go_context \<Rightarrow> string \<Rightarrow> string \<Rightarrow> 'w \<Rightarrow> OIDCIdentity result \<times> 'w"
  ProviderLogoutURL :: string

record MFAPolicy =
  mfa_AllowedACR :: "string list"
  mfa_RequiredAMR :: "string list"

record RequestMetadata =
  rm_RequestID :: string
  rm_Source :: string

record LoginStart =
  ls_AuthorizationURL :: string
  ls_BrowserCookie :: string
  ls_ExpiresAt :: instant

record CallbackInput =
  ci_State :: string
  ci_BrowserCookie :: string
  ci_Code :: string
  ci_Metadata :: RequestMetadata

record CallbackResult =
  cbr_SessionToken :: string
  cbr_ExpiresAt :: instant
  cbr_RedirectTo :: string

record SessionView =
  sv_Session :: Session
  sv_CSRFToken :: string

record LogoutResult =
  lr_ProviderLogoutURL :: string

record 'w identity_Service =
  is_repository :: "'w identity_Repository"
  is_provider :: "'w OIDCProvider"
  is_providerLogoutURL :: string
  is_hasher :: SecretHasher
  is_pkce :: "'w PKCECipher"
  is_mfaPolicy :: MFAPolicy
  is_now :: "'w \<Rightarrow> instant \<times> 'w"
  is_newToken :: "'w \<Rightarrow> string result \<times> 'w"
  is_newID :: "'w \<Rightarrow> uuid \<times> 'w"

definition identity_NewService ::
  "'w identity_Repository option \<Rightarrow> 'w OIDCProvider option \<Rightarrow> SecretHasher option \<Rightarrow>
   'w PKCECipher option \<Rightarrow> MFAPolicy \<Rightarrow> ('w \<Rightarrow> instant \<times> 'w) \<Rightarrow> 'w reader \<Rightarrow> ('w \<Rightarrow> uuid \<times> 'w) \<Rightarrow>
   'w identity_Service result" where
  "identity_NewService repository provider hasher pkce mfaPolicy now random newID =
     (case (repository, provider, hasher, pkce) of
        (Some r, Some p, Some h, Some k) \<Rightarrow>
          if ProviderLogoutURL p = '''' then Inl (OtherError ''logout url'')
          else if mfa_AllowedACR mfaPolicy = [] \<and> mfa_RequiredAMR mfaPolicy = []
          then Inl (OtherError ''mfa policy'')
          else Inr \<lparr>is_repository = r, is_provider = p, is_providerLogoutURL = ProviderLogoutURL p,
                 is_hasher = h, is_pkce = k, is_mfaPolicy = mfaPolicy, is_now = now,
                 is_newToken = NewOpaqueToken random, is_newID = newID\<rparr>
      | _ \<Rightarrow> Inl (OtherError ''dependencies''))"

section \<open>Helpers\<close>

definition mfaSatisfied :: "MFAPolicy \<Rightarrow> OIDCIdentity \<Rightarrow> bool" where
  "mfaSatisfied policy externalIdentity \<longleftrightarrow>
     \<not> (mfa_AllowedACR policy \<noteq> [] \<and> oid_ACR externalIdentity \<notin> set (mfa_AllowedACR policy)) \<and>
     list_all (\<lambda>required. required \<in> set (oid_AMR externalIdentity)) (mfa_RequiredAMR policy)"

definition auditEvent ::
  "'w identity_Service \<Rightarrow> RequestMetadata \<Rightarrow> uuid option \<Rightarrow> string \<Rightarrow> string \<Rightarrow> string \<Rightarrow> instant \<Rightarrow> 'w \<Rightarrow>
   AuditEvent \<times> 'w" where
  "auditEvent service metadata principalID action result failure occurredAt w =
     from_world (is_newID service w) (\<lambda>ident w.
       (\<lparr>ae_ID = ident, ae_PrincipalID = principalID, ae_Action = action, ae_Result = result,
         ae_FailureCategory = failure,
         ae_SourceDigest = Digest (is_hasher service) SecretPurposeSource (rm_Source metadata),
         ae_RequestID = rm_RequestID metadata, ae_OccurredAt = occurredAt\<rparr>, w))"

definition failureCategory :: "go_error \<Rightarrow> string" where
  "failureCategory err =
     (if identity_HasErrorCode (Some err) identity_AuthForbidden then ''access_denied''
      else if identity_HasErrorCode (Some err) identity_PersistenceUnavailable then ''provider_unavailable''
      else ''invalid_flow'')"

definition normalizeProviderError :: "go_error \<Rightarrow> go_error" where
  "normalizeProviderError err =
     (if is_context_error err then err
      else if errors_As_identity err \<noteq> None then err
      else identity_NewError identity_PersistenceUnavailable)"

definition loginFailure ::
  "'w identity_Service \<Rightarrow> go_context \<Rightarrow> RequestMetadata \<Rightarrow> go_error \<Rightarrow> 'w \<Rightarrow> go_error \<times> 'w" where
  "loginFailure service ctx metadata cause w =
     from_world (is_now service w) (\<lambda>now w.
     from_world (auditEvent service metadata None ''login'' ''failed'' (failureCategory cause) now w) (\<lambda>event w.
     on_error (RecordAudit (is_repository service) ctx event w)
       (\<lambda>auditErr w. (auditErr, w)) (\<lambda>w. (cause, w))))"

definition fail_login ::
  "'w identity_Service \<Rightarrow> go_context \<Rightarrow> RequestMetadata \<Rightarrow> go_error \<Rightarrow> 'w \<Rightarrow> 'a result \<times> 'w" where
  \<comment> \<open>\<^verbatim>\<open>return T{}, service.loginFailure(...)\<close>\<close>
  "fail_login service ctx metadata cause w =
     (let r = loginFailure service ctx metadata cause w in (Inl (fst r), snd r))"

definition landingFor :: "AccountType \<Rightarrow> string \<Rightarrow> string" where
  "landingFor accountType candidate =
     (let pathOnly = takeWhile (\<lambda>c. c \<noteq> CHR ''?'') candidate in
      case accountType of
        AccountTypeMailbox \<Rightarrow>
          if pathOnly = ''/mail'' \<or> HasPrefix pathOnly ''/mail/'' then candidate else defaultMailboxLanding
      | AccountTypeAdministrator \<Rightarrow>
          if pathOnly = ''/admin'' \<or> HasPrefix pathOnly ''/admin/'' then candidate else defaultAdminLanding
      | _ \<Rightarrow> ''/forbidden'')"

fun draw_tokens :: "'w identity_Service \<Rightarrow> nat \<Rightarrow> 'w \<Rightarrow> string list result \<times> 'w" where
  "draw_tokens service 0 w = (Inr [], w)"
| "draw_tokens service (Suc n) w =
     on_result (is_newToken service w)
       (\<lambda>_ w. (Inl (identity_NewError identity_PersistenceUnavailable), w))
       (\<lambda>value w. on_result (draw_tokens service n w) (\<lambda>e w. (Inl e, w)) (\<lambda>vs w. (Inr (value # vs), w)))"

definition newFlowSecrets ::
  "'w identity_Service \<Rightarrow> 'w \<Rightarrow> (string \<times> string \<times> string \<times> string) result \<times> 'w" where
  "newFlowSecrets service w =
     on_result (draw_tokens service 4 w) (\<lambda>e w. (Inl e, w))
       (\<lambda>vs w. (Inr (vs ! 0, vs ! 1, vs ! 2, vs ! 3), w))"

section \<open>Login\<close>

definition flow_to_create ::
  "'w identity_Service \<Rightarrow> uuid \<Rightarrow> string \<times> string \<times> string \<times> string \<Rightarrow> bytes \<Rightarrow> string \<Rightarrow> string \<Rightarrow> instant \<Rightarrow>
   AuthFlowToCreate" where
  "flow_to_create service ident secrets ciphertext keyID returnTo now =
     (case secrets of (state, browserCookie, nonce, verifier) \<Rightarrow>
       \<lparr>afc_ID = ident,
        afc_StateDigest = Digest (is_hasher service) SecretPurposeAuthFlowState state,
        afc_BrowserCookieDigest = Digest (is_hasher service) SecretPurposeAuthFlowCookie browserCookie,
        afc_NonceDigest = Digest (is_hasher service) SecretPurposeOIDCNonce nonce,
        afc_PKCEVerifierCiphertext = ciphertext, afc_EncryptionKeyID = keyID, afc_ReturnTo = returnTo,
        afc_CreatedAt = now, afc_ExpiresAt = now + DefaultAuthFlowLifetime\<rparr>)"

definition StartLogin ::
  "(nat \<Rightarrow> nat) \<Rightarrow> 'w identity_Service \<Rightarrow> go_context \<Rightarrow> string \<Rightarrow> RequestMetadata \<Rightarrow> 'w \<Rightarrow>
   LoginStart result \<times> 'w" where
  "StartLogin uc service ctx returnTo metadata w =
     (if rm_RequestID metadata = '''' then (Inl (identity_NewError identity_InvalidRequest), w)
      else
       on_result (NormalizeReturnPath uc (if returnTo = '''' then defaultMailboxLanding else returnTo), w)
         (fail_login service ctx metadata) (\<lambda>normalizedReturnTo w.
       on_result (newFlowSecrets service w) (fail_login service ctx metadata) (\<lambda>secrets w.
       case secrets of (state, browserCookie, nonce, verifier) \<Rightarrow>
       on_result (PKCEChallenge verifier, w) (fail_login service ctx metadata) (\<lambda>challenge w.
       on_result (Encrypt (is_pkce service) verifier w) (fail_login service ctx metadata) (\<lambda>(ciphertext, keyID) w.
       from_world (is_now service w) (\<lambda>now w.
       from_world (is_newID service w) (\<lambda>ident w.
       on_error (CreateAuthFlow (is_repository service) ctx
           (flow_to_create service ident secrets ciphertext keyID normalizedReturnTo now) w)
         (fail_login service ctx metadata) (\<lambda>w.
       on_result (AuthorizationURL (is_provider service) state nonce challenge, w)
         (\<lambda>e. fail_login service ctx metadata (normalizeProviderError e))
         (\<lambda>url w. (Inr \<lparr>ls_AuthorizationURL = url, ls_BrowserCookie = browserCookie,
            ls_ExpiresAt = now + DefaultAuthFlowLifetime\<rparr>, w))))))))))"

definition session_to_create ::
  "'w identity_Service \<Rightarrow> uuid \<Rightarrow> string \<Rightarrow> Principal \<Rightarrow> OIDCIdentity \<Rightarrow> instant \<Rightarrow> SessionToCreate" where
  "session_to_create service ident sessionToken account externalIdentity now =
     \<lparr>stc_ID = ident,
      stc_SessionDigest = Digest (is_hasher service) SecretPurposeSessionCookie sessionToken,
      stc_PrincipalID = pr_ID account, stc_OIDCIssuer = oid_Issuer externalIdentity,
      stc_OIDCSubject = oid_Subject externalIdentity, stc_OIDCSessionID = oid_SessionID externalIdentity,
      stc_CSRFDigest = Digest (is_hasher service) SecretPurposeCSRFToken
        (DeriveCSRFToken (is_hasher service) sessionToken),
      stc_CreatedAt = now, stc_IdleExpiresAt = now + DefaultSessionIdleTimeout,
      stc_AbsoluteExpiresAt = now + DefaultSessionAbsoluteTimeout\<rparr>"

definition open_session ::
  "'w identity_Service \<Rightarrow> go_context \<Rightarrow> CallbackInput \<Rightarrow> ConsumedAuthFlow \<Rightarrow> OIDCIdentity \<Rightarrow> Principal \<Rightarrow>
   instant \<Rightarrow> 'w \<Rightarrow> CallbackResult result \<times> 'w" where
  \<comment> \<open>The tail of \<^verbatim>\<open>CompleteLogin\<close>, after every check has passed.\<close>
  "open_session service ctx input flow externalIdentity account now w =
     on_result (is_newToken service w)
       (\<lambda>_. fail_login service ctx (ci_Metadata input) (identity_NewError identity_PersistenceUnavailable))
       (\<lambda>sessionToken w.
     from_world (is_newID service w) (\<lambda>ident w.
     from_world (auditEvent service (ci_Metadata input) (Some (pr_ID account)) ''login'' ''succeeded'' '''' now w)
       (\<lambda>audit w.
     on_result (CreateSessionWithAudit (is_repository service) ctx
         (session_to_create service ident sessionToken account externalIdentity now) audit w)
       (\<lambda>e w. (Inl e, w))
       (\<lambda>created w. (Inr \<lparr>cbr_SessionToken = sessionToken, cbr_ExpiresAt = cs_AbsoluteExpiresAt created,
          cbr_RedirectTo = landingFor (pr_AccountType account) (caf_ReturnTo flow)\<rparr>, w)))))"

definition CompleteLogin ::
  "'w identity_Service \<Rightarrow> go_context \<Rightarrow> CallbackInput \<Rightarrow> 'w \<Rightarrow> CallbackResult result \<times> 'w" where
  "CompleteLogin service ctx input w =
     (if ci_State input = '''' \<or> ci_BrowserCookie input = '''' \<or> ci_Code input = '''' \<or>
         rm_RequestID (ci_Metadata input) = ''''
      then (Inl (identity_NewError identity_AuthFlowInvalid), w)
      else
       from_world (is_now service w) (\<lambda>now w.
       on_result (ConsumeAuthFlow (is_repository service) ctx
           (Digest (is_hasher service) SecretPurposeAuthFlowState (ci_State input))
           (Digest (is_hasher service) SecretPurposeAuthFlowCookie (ci_BrowserCookie input)) now w)
         (fail_login service ctx (ci_Metadata input)) (\<lambda>flow w.
       on_result (Decrypt (is_pkce service) (caf_PKCEVerifierCiphertext flow) (caf_EncryptionKeyID flow), w)
         (fail_login service ctx (ci_Metadata input)) (\<lambda>verifier w.
       on_result (Exchange (is_provider service) ctx (ci_Code input) verifier w)
         (\<lambda>e. fail_login service ctx (ci_Metadata input) (normalizeProviderError e)) (\<lambda>externalIdentity w.
       if Digest (is_hasher service) SecretPurposeOIDCNonce (oid_Nonce externalIdentity) \<noteq> caf_NonceDigest flow \<or>
          oid_Issuer externalIdentity = '''' \<or> oid_Subject externalIdentity = ''''
       then fail_login service ctx (ci_Metadata input) (identity_NewError identity_AuthFlowInvalid) w
       else
       on_result (ResolvePrincipal (is_repository service) ctx (oid_Issuer externalIdentity)
           (oid_Subject externalIdentity) w)
         (fail_login service ctx (ci_Metadata input)) (\<lambda>account w.
       if pr_AccountType account = AccountTypeAdministrator \<and>
          \<not> mfaSatisfied (is_mfaPolicy service) externalIdentity
       then fail_login service ctx (ci_Metadata input) (identity_NewError identity_AuthForbidden) w
       else open_session service ctx input flow externalIdentity account now w))))))"

definition RejectLogin ::
  "'w identity_Service \<Rightarrow> go_context \<Rightarrow> string \<Rightarrow> string \<Rightarrow> RequestMetadata \<Rightarrow> 'w \<Rightarrow> go_error \<times> 'w" where
  "RejectLogin service ctx state browserCookie metadata w =
     (if state = '''' \<or> browserCookie = '''' \<or> rm_RequestID metadata = ''''
      then (if rm_RequestID metadata = '''' then (identity_NewError identity_AuthFlowInvalid, w)
            else loginFailure service ctx metadata (identity_NewError identity_AuthFlowInvalid) w)
      else
       from_world (is_now service w) (\<lambda>now w.
       on_result (ConsumeAuthFlow (is_repository service) ctx
           (Digest (is_hasher service) SecretPurposeAuthFlowState state)
           (Digest (is_hasher service) SecretPurposeAuthFlowCookie browserCookie) now w)
         (loginFailure service ctx metadata)
         (\<lambda>_. loginFailure service ctx metadata (identity_NewError identity_AuthFlowInvalid))))"

section \<open>Sessions\<close>

definition service_ResolveSession ::
  "'w identity_Service \<Rightarrow> go_context \<Rightarrow> string \<Rightarrow> 'w \<Rightarrow> SessionView option result \<times> 'w" where
  "service_ResolveSession service ctx sessionToken w =
     (if sessionToken = '''' then (Inr None, w)
      else
       from_world (is_now service w) (\<lambda>now w.
       on_result (ResolveSession (is_repository service) ctx
           (Digest (is_hasher service) SecretPurposeSessionCookie sessionToken) now w)
         (\<lambda>e w. if identity_HasErrorCode (Some e) identity_AuthRequired then (Inr None, w) else (Inl e, w))
         (\<lambda>session w.
           let csrfToken = DeriveCSRFToken (is_hasher service) sessionToken in
           if Digest (is_hasher service) SecretPurposeCSRFToken csrfToken \<noteq> ses_CSRFDigest session
           then (Inr None, w)
           else (Inr (Some \<lparr>sv_Session = session, sv_CSRFToken = csrfToken\<rparr>), w))))"

definition Logout ::
  "'w identity_Service \<Rightarrow> go_context \<Rightarrow> string \<Rightarrow> string \<Rightarrow> RequestMetadata \<Rightarrow> 'w \<Rightarrow> LogoutResult result \<times> 'w" where
  "Logout service ctx sessionToken csrfToken metadata w =
     (let result = \<lparr>lr_ProviderLogoutURL = is_providerLogoutURL service\<rparr> in
      if sessionToken = '''' then (Inr result, w)
      else
       on_result (service_ResolveSession service ctx sessionToken w) (\<lambda>e w. (Inl e, w)) (\<lambda>view w.
       case view of
         None \<Rightarrow> (Inr result, w)
       | Some v \<Rightarrow>
           if csrfToken = '''' \<or>
              Digest (is_hasher service) SecretPurposeCSRFToken csrfToken \<noteq> ses_CSRFDigest (sv_Session v)
           then (Inl (identity_NewError identity_CSRFInvalid), w)
           else
            from_world (is_now service w) (\<lambda>now w.
            from_world (auditEvent service metadata (Some (pr_ID (ses_Principal (sv_Session v))))
                ''logout'' ''succeeded'' '''' now w) (\<lambda>audit w.
            on_error (RevokeSessionWithAudit (is_repository service) ctx
                (Digest (is_hasher service) SecretPurposeSessionCookie sessionToken) now
                RevocationReasonLogout audit w)
              (\<lambda>e w. (Inl e, w)) (\<lambda>w. (Inr result, w))))))"

end
