(* ===== verification/Go_Web.thy ===== *)
theory Go_Web
  imports Go_Encoding
begin

text \<open>
  The parts of Go's \<^verbatim>\<open>net/url\<close>, \<^verbatim>\<open>net/http\<close>, \<^verbatim>\<open>mime\<close> and \<^verbatim>\<open>io\<close> that the HTTP
  boundary uses: absolute request URIs, canonical header names, media types with
  their parameters, and bodies read through a limit. How an authority is split into
  user information and host differs between Go releases, so that step is an argument
  (\<open>authority\<close>, from the scheme and the authority to whether a user is present and
  the host); \<open>uc\<close> is the case table of non-ASCII runes, as in \<^verbatim>\<open>Go_Strings\<close>.
\<close>

section \<open>Absolute request URIs\<close>

record go_URL = URL +
  url_Scheme :: string
  url_Opaque :: string
  url_User :: bool
  url_Host :: string

type_synonym parse_authority = "string \<Rightarrow> string \<Rightarrow> (bool \<times> string) option"

fun getScheme :: "string \<Rightarrow> string \<Rightarrow> string \<Rightarrow> (string \<times> string) option" where
  \<comment> \<open>The loop of \<^verbatim>\<open>getScheme\<close> over the bytes not yet \<open>seen\<close>; None is its error.\<close>
  "getScheme raw seen [] = Some ('''', raw)"
| "getScheme raw seen (c # s) =
     (if is_lower c \<or> is_upper c then getScheme raw (seen @ [c]) s
      else if is_digit c \<or> c \<in> set ''+-.'' then
        (if seen = [] then Some ('''', raw) else getScheme raw (seen @ [c]) s)
      else if c = CHR '':'' then (if seen = [] then None else Some (seen, s))
      else Some ('''', raw))"

definition absolute_URL :: "string \<Rightarrow> bool \<Rightarrow> string \<Rightarrow> string \<Rightarrow> string \<Rightarrow> go_URL option" where
  "absolute_URL scheme user host rest q = map_option (\<lambda>u.
     URL.extend u \<lparr>url_Scheme = scheme, url_Opaque = '''', url_User = user, url_Host = host\<rparr>)
     (set_path rest q)"

definition parse_reference :: "parse_authority \<Rightarrow> string \<Rightarrow> string \<Rightarrow> string \<Rightarrow> go_URL option" where
  \<comment> \<open>After the scheme and the query are cut off.\<close>
  "parse_reference authority scheme rest q =
     (if \<not> HasPrefix rest ''/'' then
        (if scheme = '''' then None
         else Some \<lparr>url_Path = '''', url_RawPath = '''', url_RawQuery = q, url_Scheme = scheme,
           url_Opaque = rest, url_User = False, url_Host = ''''\<rparr>)
      else if scheme \<noteq> '''' \<and> HasPrefix rest ''//'' then
        (case authority scheme (takeWhile (\<lambda>c. c \<noteq> CHR ''/'') (drop 2 rest)) of
           None \<Rightarrow> None
         | Some (user, host) \<Rightarrow>
             absolute_URL scheme user host (dropWhile (\<lambda>c. c \<noteq> CHR ''/'') (drop 2 rest)) q)
      else absolute_URL scheme False '''' rest q)"

definition url_ParseRequestURI :: "(nat \<Rightarrow> nat) \<Rightarrow> parse_authority \<Rightarrow> string \<Rightarrow> go_URL option" where
  "url_ParseRequestURI uc authority s =
     (if s = '''' \<or> list_ex (\<lambda>c. byte_val c < 32 \<or> byte_val c = 127) s then None
      else if s = ''*'' then
        Some \<lparr>url_Path = ''*'', url_RawPath = '''', url_RawQuery = '''', url_Scheme = '''',
          url_Opaque = '''', url_User = False, url_Host = ''''\<rparr>
      else (case getScheme s [] s of
          None \<Rightarrow> None
        | Some (scheme, rest) \<Rightarrow>
            parse_reference authority (ToLower uc scheme) (fst (cut_query rest)) (snd (cut_query rest))))"

definition parse_any_reference :: "parse_authority \<Rightarrow> string \<Rightarrow> string \<Rightarrow> string \<Rightarrow> go_URL option" where
  \<comment> \<open>The same where the text need not be a request URI: relative references are accepted.\<close>
  "parse_any_reference authority scheme rest q =
     (if \<not> HasPrefix rest ''/'' \<and> scheme = '''' then
        (if CHR '':'' \<in> set (takeWhile (\<lambda>c. c \<noteq> CHR ''/'') rest) then None
         else absolute_URL scheme False '''' rest q)
      else if scheme = '''' \<and> HasPrefix rest ''//'' \<and> \<not> HasPrefix rest ''///'' then
        (case authority scheme (takeWhile (\<lambda>c. c \<noteq> CHR ''/'') (drop 2 rest)) of
           None \<Rightarrow> None
         | Some (user, host) \<Rightarrow>
             absolute_URL scheme user host (dropWhile (\<lambda>c. c \<noteq> CHR ''/'') (drop 2 rest)) q)
      else parse_reference authority scheme rest q)"

definition url_Parse :: "(nat \<Rightarrow> nat) \<Rightarrow> parse_authority \<Rightarrow> string \<Rightarrow> (go_URL \<times> string) option" where
  \<comment> \<open>\<^verbatim>\<open>url.Parse\<close>: the URL and its fragment.\<close>
  "url_Parse uc authority raw =
     (let s = takeWhile (\<lambda>c. c \<noteq> CHR ''#'') raw; fragment = drop 1 (dropWhile (\<lambda>c. c \<noteq> CHR ''#'') raw) in
      if list_ex (\<lambda>c. byte_val c < 32 \<or> byte_val c = 127) s then None
      else case (if s = ''*'' then Some \<lparr>url_Path = ''*'', url_RawPath = '''', url_RawQuery = '''', url_Scheme = '''',
              url_Opaque = '''', url_User = False, url_Host = ''''\<rparr>
            else case getScheme s [] s of
              None \<Rightarrow> None
            | Some (scheme, rest) \<Rightarrow> parse_any_reference authority (ToLower uc scheme) (fst (cut_query rest))
                (snd (cut_query rest))) of
          None \<Rightarrow> None
        | Some u \<Rightarrow> map_option (\<lambda>f. (u, f)) (unescape False fragment))"

section \<open>Headers\<close>

type_synonym go_header = "string \<Rightarrow> string list"

fun canonical_from :: "bool \<Rightarrow> string \<Rightarrow> string" where
  "canonical_from upper [] = []"
| "canonical_from upper (c # s) =
     (if upper \<and> is_lower c then char_of (byte_val c - 32 :: nat)
      else if \<not> upper \<and> is_upper c then char_of (byte_val c + 32 :: nat) else c)
     # canonical_from (c = CHR ''-'') s"

definition header_byte :: "char \<Rightarrow> bool" where
  "header_byte c \<longleftrightarrow> is_lower c \<or> is_upper c \<or> is_digit c \<or> c = CHR 0x27 \<or> c \<in> set ''!#$%&*+-.^_`|~''"

definition CanonicalHeaderKey :: "string \<Rightarrow> string" where
  "CanonicalHeaderKey name = (if list_all header_byte name then canonical_from True name else name)"

definition header_Values :: "go_header \<Rightarrow> string \<Rightarrow> string list" where
  "header_Values header name = header (CanonicalHeaderKey name)"

section \<open>Media types\<close>

definition isTSpecial :: "char \<Rightarrow> bool" where
  "isTSpecial c \<longleftrightarrow> c \<in> set ''()<>@,;:/[]?='' \<or> c = CHR 0x22 \<or> c = CHR 0x5C"

definition isTokenChar :: "char \<Rightarrow> bool" where
  "isTokenChar c \<longleftrightarrow> 32 < byte_val c \<and> byte_val c < 127 \<and> \<not> isTSpecial c"

definition consumeToken :: "string \<Rightarrow> string \<times> string" where
  "consumeToken v = (takeWhile isTokenChar v, dropWhile isTokenChar v)"

fun quoted_value :: "string \<Rightarrow> (string \<times> string) option" where
  \<comment> \<open>The bytes of a quoted string after its opening quote, and what follows the closing one.\<close>
  "quoted_value [] = None"
| "quoted_value (c # s) =
     (if c = CHR 0x22 then Some ([], s)
      else if c = CHR 0x5C \<and> s \<noteq> [] \<and> isTSpecial (hd s) then
        map_option (\<lambda>(value, rest). (hd s # value, rest)) (quoted_value (tl s))
      else if c = CHR 0x0D \<or> c = CHR 0x0A then None
      else map_option (\<lambda>(value, rest). (c # value, rest)) (quoted_value s))"

definition consumeValue :: "string \<Rightarrow> string \<times> string" where
  "consumeValue v =
     (if v = '''' then ('''', '''')
      else if hd v \<noteq> CHR 0x22 then consumeToken v
      else (case quoted_value (tl v) of None \<Rightarrow> ('''', v) | Some r \<Rightarrow> r))"

definition TrimLeftSpace :: "string \<Rightarrow> string" where
  "TrimLeftSpace s = concat (map snd (dropWhile (\<lambda>p. IsSpace (fst p)) (runes s)))"

definition consumeMediaParam :: "(nat \<Rightarrow> nat) \<Rightarrow> string \<Rightarrow> (string \<times> string \<times> string) option" where
  \<comment> \<open>None where the key is empty; the rest is then the argument.\<close>
  "consumeMediaParam uc v =
     (let rest = TrimLeftSpace v in
      if \<not> HasPrefix rest '';'' then None
      else let (param, rest) = consumeToken (TrimLeftSpace (tl rest));
               param = ToLower uc param
           in if param = '''' then None
              else let rest = TrimLeftSpace rest in
                if \<not> HasPrefix rest ''='' then None
                else let rest = TrimLeftSpace (tl rest); (value, rest2) = consumeValue rest in
                  if value = '''' \<and> rest2 = rest then None else Some (param, value, rest2))"

definition checkMediaTypeDisposition :: "string \<Rightarrow> bool" where
  "checkMediaTypeDisposition s =
     (let (typ, rest) = consumeToken s in
      if typ = '''' then False
      else if rest = '''' then True
      else if \<not> HasPrefix rest ''/'' then False
      else let (subtype, rest) = consumeToken (tl rest) in subtype \<noteq> '''' \<and> rest = '''')"

lemma length_TrimLeftSpace: "length (TrimLeftSpace s) \<le> length s"
proof -
  have "length (concat (map snd (dropWhile P qs))) \<le> length (concat (map snd qs))" for P and qs :: "(nat \<times> string) list"
    by (induction qs) auto
  from this [of _ "runes s"] show ?thesis by (simp add: TrimLeftSpace_def runes_concat)
qed

lemma TrimLeftSpace_ascii: "is_ascii s \<Longrightarrow> TrimLeftSpace s = dropWhile (\<lambda>c. IsSpace (byte_val c)) s"
  by (simp add: TrimLeftSpace_def runes_ascii dropWhile_map_rune comp_def)

lemma length_quoted_value: "quoted_value s = Some (value, rest) \<Longrightarrow> length rest < length s"
  by (induction s arbitrary: "value" rest rule: quoted_value.induct) (fastforce split: if_splits)+

lemma length_consumeValue: "consumeValue v = (value, rest) \<Longrightarrow> length rest \<le> length v"
  by (auto simp: consumeValue_def consumeToken_def length_dropWhile_le split: if_splits option.splits
    dest!: length_quoted_value)

lemma length_consumeMediaParam:
  assumes "consumeMediaParam uc v = Some (key, value, rest)"
  shows "length rest < length v"
proof -
  obtain r1 param r2 r3 where r: "TrimLeftSpace v = CHR '';'' # r1"
    "consumeToken (TrimLeftSpace r1) = (param, r2)" "TrimLeftSpace r2 = CHR ''='' # r3"
    "consumeValue (TrimLeftSpace r3) = (value, rest)"
    using assms by (auto simp: consumeMediaParam_def Let_def HasPrefix_iff split: if_splits prod.splits)
  have "length rest \<le> length r3"
    using length_consumeValue [OF r(4)] length_TrimLeftSpace [of r3] by linarith
  moreover have "length r2 \<le> length r1"
    using r(2) length_TrimLeftSpace [of r1] length_dropWhile_le [of isTokenChar "TrimLeftSpace r1"]
    by (simp add: consumeToken_def)
  ultimately show ?thesis
    using r(1,3) length_TrimLeftSpace [of v] length_TrimLeftSpace [of r2] by simp
qed

function media_params :: "(nat \<Rightarrow> nat) \<Rightarrow> (string \<times> string) list \<Rightarrow> string \<Rightarrow> bool" where
  \<comment> \<open>Whether the loop over the parameters ends without an error, after the parameters \<open>known\<close>.\<close>
  "media_params uc known v =
     (let v = TrimLeftSpace v in
      if v = '''' then True
      else (case consumeMediaParam uc v of
          None \<Rightarrow> TrimSpace v = '';''
        | Some (key, value, rest) \<Rightarrow>
            (case map_of known key of
               Some old \<Rightarrow> if old \<noteq> value then False else media_params uc known rest
             | None \<Rightarrow> media_params uc ((key, value) # known) rest)))"
  by pat_completeness auto
termination
  by (relation "measure (\<lambda>(uc, known, v). length v)")
    (auto dest!: length_consumeMediaParam intro: less_le_trans length_TrimLeftSpace)

declare media_params.simps [simp del]

definition ParseMediaType :: "(nat \<Rightarrow> nat) \<Rightarrow> string \<Rightarrow> string option" where
  \<comment> \<open>The media type, None with an error; the parameters themselves are not used.\<close>
  "ParseMediaType uc v =
     (let base = takeWhile (\<lambda>c. c \<noteq> CHR '';'') v; mediatype = TrimSpace (ToLower uc base) in
      if checkMediaTypeDisposition mediatype \<and> media_params uc [] (dropWhile (\<lambda>c. c \<noteq> CHR '';'') v)
      then Some mediatype else None)"

section \<open>Bodies\<close>

datatype go_body = NilBody | NoBody | Body bytes bool

fun body_bytes :: "go_body \<Rightarrow> bytes" where
  "body_bytes (Body content fails) = content"
| "body_bytes _ = []"

fun ReadAll_limited :: "nat \<Rightarrow> go_body \<Rightarrow> bytes option" where
  \<comment> \<open>\<^verbatim>\<open>io.ReadAll(io.LimitReader(body, limit))\<close>; a body may fail after its bytes.\<close>
  "ReadAll_limited limit (Body content fails) =
     (if limit \<le> length content then Some (take limit content)
      else if fails then None else Some content)"
| "ReadAll_limited limit _ = Some []"

end
