(* ===== verification/Authorization.thy ===== *)
theory Authorization
  imports Identity_Service Go_Web "HOL-Library.Char_ord" "HOL-Library.List_Lexorder"
begin

text \<open>
  Packages \<^verbatim>\<open>internal/authorization\<close> and \<^verbatim>\<open>internal/authorization/httpapi\<close>: the
  authorisation context built from a resolved session, the checks on it, and the
  boundary \<^verbatim>\<open>Protect\<close> every business route passes. An error is its code; the public
  messages, a table from codes to texts, are left out. The parts of \<^verbatim>\<open>gin.Context\<close> the
  boundary reads (the session cookie, the request identifier) are fields of a record.
  Strings are compared byte by byte, as in Go.
\<close>

section \<open>Errors\<close>

definition DefaultMaxJSONBodyBytes :: nat where
  "DefaultMaxJSONBodyBytes = 1048576"

definition authorization_AuthRequired :: string where
  "authorization_AuthRequired = ''AUTH_REQUIRED''"

definition authorization_AuthForbidden :: string where
  "authorization_AuthForbidden = ''AUTH_FORBIDDEN''"

definition authorization_CSRFInvalid :: string where
  "authorization_CSRFInvalid = ''CSRF_INVALID''"

definition authorization_InvalidArgument :: string where
  "authorization_InvalidArgument = ''INVALID_ARGUMENT''"

definition authorization_NotFound :: string where
  "authorization_NotFound = ''NOT_FOUND''"

definition authorization_IdempotencyConflict :: string where
  "authorization_IdempotencyConflict = ''IDEMPOTENCY_CONFLICT''"

definition authorization_OperationNotFound :: string where
  "authorization_OperationNotFound = ''OPERATION_NOT_FOUND''"

definition authorization_UpstreamTimeout :: string where
  "authorization_UpstreamTimeout = ''UPSTREAM_TIMEOUT''"

definition authorization_UpstreamUnavailable :: string where
  "authorization_UpstreamUnavailable = ''UPSTREAM_UNAVAILABLE''"

definition authorization_PersistenceUnavailable :: string where
  "authorization_PersistenceUnavailable = ''PERSISTENCE_UNAVAILABLE''"

lemmas authorization_codes = authorization_AuthRequired_def authorization_AuthForbidden_def
  authorization_CSRFInvalid_def authorization_InvalidArgument_def authorization_NotFound_def
  authorization_IdempotencyConflict_def authorization_OperationNotFound_def authorization_UpstreamTimeout_def
  authorization_UpstreamUnavailable_def authorization_PersistenceUnavailable_def

definition authorization_error_codes :: "string list" where
  \<comment> \<open>The keys of the message table.\<close>
  "authorization_error_codes = [authorization_AuthRequired, authorization_AuthForbidden,
     authorization_CSRFInvalid, authorization_InvalidArgument, authorization_NotFound,
     authorization_IdempotencyConflict, authorization_OperationNotFound, authorization_UpstreamTimeout,
     authorization_UpstreamUnavailable, authorization_PersistenceUnavailable]"

definition authorization_NewError :: "string \<Rightarrow> go_error" where
  "authorization_NewError code =
     (if code \<in> set authorization_error_codes then AuthorizationErr code
      else AuthorizationErr authorization_AuthForbidden)"

definition authorization_IsErrorCode :: "go_error option \<Rightarrow> string \<Rightarrow> bool" where
  "authorization_IsErrorCode err code \<longleftrightarrow> (case err of
     None \<Rightarrow> False | Some e \<Rightarrow> errors_As_authorization e = Some code)"

section \<open>The authorisation context\<close>

record authorization_Context =
  azc_principalID :: uuid
  azc_tenantID :: uuid
  azc_accountType :: AccountType
  azc_mailboxID :: uuid
  azc_permissions :: "string list"
  azc_csrfDigest :: bytes
  azc_csrfVerified :: bool
  azc_requestID :: string

definition mailboxID :: "Mailbox option \<Rightarrow> uuid" where
  "mailboxID mailbox = (case mailbox of None \<Rightarrow> uuid_Nil | Some m \<Rightarrow> mbx_ID m)"

definition NewContext :: "SessionView option \<Rightarrow> string \<Rightarrow> authorization_Context result" where
  "NewContext view requestID = (case view of
     None \<Rightarrow> Inl (authorization_NewError authorization_AuthRequired)
   | Some v \<Rightarrow>
      let account = ses_Principal (sv_Session v) in
      if pr_ID account = uuid_Nil \<or> pr_TenantID account = uuid_Nil \<or>
         \<not> AccountType_Valid (pr_AccountType account) \<or> TrimSpace requestID = '''' \<or>
         TrimSpace (sv_CSRFToken v) = ''''
      then Inl (authorization_NewError authorization_AuthRequired)
      else if pr_AccountType account = AccountTypeMailbox \<and>
         (case pr_Mailbox account of None \<Rightarrow> True | Some m \<Rightarrow> mbx_ID m = uuid_Nil)
      then Inl (authorization_NewError authorization_AuthForbidden)
      else if pr_AccountType account \<noteq> AccountTypeMailbox \<and> pr_Mailbox account \<noteq> None
      then Inl (authorization_NewError authorization_AuthForbidden)
      else Inr \<lparr>azc_principalID = pr_ID account, azc_tenantID = pr_TenantID account,
        azc_accountType = pr_AccountType account, azc_mailboxID = mailboxID (pr_Mailbox account),
        azc_permissions = sort (ses_Permissions (sv_Session v)),
        azc_csrfDigest = Sum256 (sv_CSRFToken v), azc_csrfVerified = False,
        azc_requestID = TrimSpace requestID\<rparr>)"

function search_between :: "string list \<Rightarrow> string \<Rightarrow> nat \<Rightarrow> nat \<Rightarrow> nat" where
  \<comment> \<open>The bisection of \<^verbatim>\<open>sort.Search\<close> between two indices.\<close>
  "search_between xs x i j =
     (if i < j then
        let h = (i + j) div 2 in
        if xs ! h < x then search_between xs x (h + 1) j else search_between xs x i h
      else i)"
  by pat_completeness auto
termination
  by (relation "measure (\<lambda>(xs, x, i, j). j - i)") auto

declare search_between.simps [simp del]

definition SearchStrings :: "string list \<Rightarrow> string \<Rightarrow> nat" where
  "SearchStrings xs x = search_between xs x 0 (length xs)"

definition HasPermission :: "authorization_Context \<Rightarrow> string \<Rightarrow> bool" where
  "HasPermission context permission \<longleftrightarrow>
     (let index = SearchStrings (azc_permissions context) permission in
      index < length (azc_permissions context) \<and> azc_permissions context ! index = permission)"

definition VerifyCSRF :: "authorization_Context \<Rightarrow> string \<Rightarrow> bool" where
  "VerifyCSRF context token \<longleftrightarrow> token \<noteq> '''' \<and> Sum256 token = azc_csrfDigest context"

definition RequireAdministrator :: "authorization_Context \<Rightarrow> go_error option" where
  "RequireAdministrator context =
     (if azc_accountType context \<noteq> AccountTypeAdministrator \<or>
         \<not> HasPermission context PermissionPortalAdminAccess
      then Some (authorization_NewError authorization_AuthForbidden) else None)"

definition RequireMailbox :: "authorization_Context \<Rightarrow> uuid \<Rightarrow> go_error option" where
  "RequireMailbox context resourceMailboxID =
     (if azc_accountType context \<noteq> AccountTypeMailbox \<or> resourceMailboxID = uuid_Nil \<or>
         azc_mailboxID context \<noteq> resourceMailboxID
      then Some (authorization_NewError authorization_NotFound) else None)"

record Resource =
  res_TenantID :: uuid
  res_MailboxID :: uuid

definition RequireResource :: "authorization_Context \<Rightarrow> Resource \<Rightarrow> go_error option" where
  "RequireResource context resource =
     (if res_TenantID resource = uuid_Nil \<or> azc_tenantID context \<noteq> res_TenantID resource
      then Some (authorization_NewError authorization_NotFound)
      else if azc_accountType context = AccountTypeAdministrator then RequireAdministrator context
      else RequireMailbox context (res_MailboxID resource))"

section \<open>Write requests\<close>

record http_Request =
  req_Method :: string
  req_ContentLength :: int
  req_Header :: go_header
  req_TransferEncoding :: "string list"
  req_Body :: go_body

definition isMutation :: "string \<Rightarrow> bool" where
  "isMutation method \<longleftrightarrow> method \<in> {''POST'', ''PUT'', ''PATCH'', ''DELETE''}"

definition singleHeader :: "http_Request \<Rightarrow> string \<Rightarrow> string \<times> bool" where
  "singleHeader request name = (case header_Values (req_Header request) name of
     [] \<Rightarrow> ('''', True) | [x] \<Rightarrow> (x, True) | _ \<Rightarrow> ('''', False))"

definition trustedBrowserRequest ::
  "(nat \<Rightarrow> nat) \<Rightarrow> parse_authority \<Rightarrow> http_Request \<Rightarrow> string \<Rightarrow> bool" where
  "trustedBrowserRequest uc authority request trustedOrigin =
     (case url_ParseRequestURI uc authority trustedOrigin of
        None \<Rightarrow> False
      | Some parsedOrigin \<Rightarrow>
          if url_Scheme parsedOrigin \<noteq> ''https'' \<or> url_Host parsedOrigin = '''' \<or>
             url_Path parsedOrigin \<noteq> '''' \<or> url_RawQuery parsedOrigin \<noteq> ''''
          then False
          else let (origin, uniqueOrigin) = singleHeader request ''Origin'' in
            if \<not> uniqueOrigin then False
            else if origin \<noteq> '''' then origin = trustedOrigin
            else let (refererValue, uniqueReferer) = singleHeader request ''Referer'' in
              if \<not> uniqueReferer then False
              else (case url_ParseRequestURI uc authority refererValue of
                  None \<Rightarrow> False
                | Some referer \<Rightarrow> url_Scheme referer = url_Scheme parsedOrigin \<and>
                    url_Host referer = url_Host parsedOrigin \<and>
                    url_Scheme referer @ ''://'' @ url_Host referer = trustedOrigin))"

definition validateContentType :: "(nat \<Rightarrow> nat) \<Rightarrow> http_Request \<Rightarrow> go_error option" where
  "validateContentType uc request =
     (let (contentType, unique) = singleHeader request ''Content-Type'' in
      if \<not> unique then Some (authorization_NewError authorization_InvalidArgument)
      else if contentType = '''' \<and> req_ContentLength request = 0 then None
      else if ParseMediaType uc contentType \<noteq> Some ''application/json''
      then Some (authorization_NewError authorization_InvalidArgument) else None)"

definition idempotencyKeyPattern :: "string \<Rightarrow> bool" where
  "idempotencyKeyPattern =
     matches_plus (\<lambda>c. is_upper c \<or> is_lower c \<or> is_digit c \<or> c \<in> set ''._:-'')"

definition validIdempotencyKey :: "string \<Rightarrow> bool" where
  "validIdempotencyKey s \<longleftrightarrow> 16 \<le> length s \<and> length s \<le> 128 \<and> idempotencyKeyPattern s"

definition ValidateMutationRequest ::
  "(nat \<Rightarrow> nat) \<Rightarrow> parse_authority \<Rightarrow> http_Request option \<Rightarrow> string \<Rightarrow> authorization_Context \<Rightarrow> bool \<Rightarrow>
   authorization_Context result" where
  "ValidateMutationRequest uc authority request trustedOrigin context requireIdempotency = (case request of
     None \<Rightarrow> Inl (authorization_NewError authorization_InvalidArgument)
   | Some r \<Rightarrow>
      if \<not> isMutation (req_Method r) then Inl (authorization_NewError authorization_InvalidArgument)
      else if int DefaultMaxJSONBodyBytes < req_ContentLength r
      then Inl (authorization_NewError authorization_InvalidArgument)
      else let (csrfToken, uniqueCSRF) = singleHeader r ''X-CSRF-Token'' in
      if \<not> trustedBrowserRequest uc authority r trustedOrigin \<or> \<not> uniqueCSRF \<or> \<not> VerifyCSRF context csrfToken
      then Inl (authorization_NewError authorization_CSRFInvalid)
      else (case validateContentType uc r of
          Some e \<Rightarrow> Inl e
        | None \<Rightarrow>
            let (key, uniqueKey) = singleHeader r ''Idempotency-Key'' in
            if \<not> uniqueKey \<or> (requireIdempotency \<and> key = '''') \<or> (key \<noteq> '''' \<and> \<not> validIdempotencyKey key)
            then Inl (authorization_NewError authorization_InvalidArgument)
            else Inr (context\<lparr>azc_csrfVerified := True\<rparr>)))"

section \<open>The HTTP boundary\<close>

type_synonym 'w sessionResolver = "go_context \<Rightarrow> string \<Rightarrow> 'w \<Rightarrow> SessionView option result \<times> 'w"

record 'w Boundary =
  bd_service :: "'w sessionResolver"
  bd_trustedOrigin :: string

definition boundary_New ::
  "(nat \<Rightarrow> nat) \<Rightarrow> parse_authority \<Rightarrow> 'w sessionResolver option \<Rightarrow> string \<Rightarrow> 'w Boundary result" where
  "boundary_New uc authority service trustedOrigin =
     (case (service, url_ParseRequestURI uc authority trustedOrigin) of
        (Some s, Some parsed) \<Rightarrow>
          if url_Scheme parsed \<noteq> ''https'' \<or> url_Host parsed = '''' \<or> url_User parsed \<or>
             url_Path parsed \<noteq> '''' \<or> url_RawQuery parsed \<noteq> ''''
          then Inl (OtherError ''authorization http handler'')
          else Inr \<lparr>bd_service = s, bd_trustedOrigin = trustedOrigin\<rparr>
      | _ \<Rightarrow> Inl (OtherError ''authorization http handler''))"

record gin_Context =
  gin_request :: http_Request
  gin_context :: go_context
  gin_sessionCookie :: string
  gin_request_id :: string

record error_response =
  er_status :: nat
  er_code :: string
  er_request_id :: string

datatype boundary_result =
    Aborted error_response
  | Next authorization_Context http_Request

definition WriteError :: "gin_Context \<Rightarrow> go_error \<Rightarrow> error_response" where
  "WriteError ctx err =
     (let code = (case errors_As_authorization err of
          Some c \<Rightarrow> c
        | None \<Rightarrow> (case errors_As_identity err of
            Some c \<Rightarrow> if c = identity_AuthRequired then authorization_AuthRequired
              else if c = identity_AuthForbidden then authorization_AuthForbidden
              else authorization_PersistenceUnavailable
          | None \<Rightarrow> authorization_PersistenceUnavailable));
       (status, code) =
         (if code = authorization_AuthRequired then (401, code)
          else if code = authorization_AuthForbidden \<or> code = authorization_CSRFInvalid then (403, code)
          else if code = authorization_InvalidArgument then (400, code)
          else if code = authorization_NotFound \<or> code = authorization_OperationNotFound then (404, code)
          else if code = authorization_IdempotencyConflict then (409, code)
          else if code = authorization_UpstreamTimeout then (504, code)
          else if code = authorization_UpstreamUnavailable \<or> code = authorization_PersistenceUnavailable
          then (503, code)
          else (503, authorization_PersistenceUnavailable))
      in \<lparr>er_status = status, er_code = code, er_request_id = gin_request_id ctx\<rparr>)"

definition boundJSONBody :: "http_Request \<Rightarrow> http_Request result" where
  "boundJSONBody request =
     (if req_Body request = NilBody then Inr request
      else (case ReadAll_limited (DefaultMaxJSONBodyBytes + 1) (req_Body request) of
          None \<Rightarrow> Inl (authorization_NewError authorization_InvalidArgument)
        | Some body \<Rightarrow>
            if DefaultMaxJSONBodyBytes < length body
            then Inl (authorization_NewError authorization_InvalidArgument)
            else Inr (request\<lparr>req_Body := Body body False, req_ContentLength := int (length body)\<rparr>)))"

definition admit_request ::
  "(nat \<Rightarrow> nat) \<Rightarrow> parse_authority \<Rightarrow> string \<Rightarrow> authorization_Context \<Rightarrow> bool \<Rightarrow> http_Request \<Rightarrow>
   (authorization_Context \<times> http_Request) result" where
  \<comment> \<open>The switch of \<^verbatim>\<open>Protect\<close> over the request method.\<close>
  "admit_request uc authority trustedOrigin authorized requireIdempotency request =
     (if req_Method request \<in> {''GET'', ''HEAD'', ''OPTIONS''} then
        (if 0 < req_ContentLength request \<or> req_TransferEncoding request \<noteq> [] \<or>
            req_Body request \<notin> {NilBody, NoBody}
         then Inl (authorization_NewError authorization_InvalidArgument)
         else Inr (authorized, request))
      else if isMutation (req_Method request) then
        (case ValidateMutationRequest uc authority (Some request) trustedOrigin authorized requireIdempotency of
           Inl e \<Rightarrow> Inl e
         | Inr verified \<Rightarrow> (case boundJSONBody request of
               Inl e \<Rightarrow> Inl e | Inr bounded \<Rightarrow> Inr (verified, bounded)))
      else Inl (authorization_NewError authorization_InvalidArgument))"

definition Protect ::
  "(nat \<Rightarrow> nat) \<Rightarrow> parse_authority \<Rightarrow> 'w Boundary \<Rightarrow> AccountType \<Rightarrow> bool \<Rightarrow> gin_Context \<Rightarrow> 'w \<Rightarrow>
   boundary_result \<times> 'w" where
  "Protect uc authority boundary accountType requireIdempotency ctx w =
     on_result (bd_service boundary (gin_context ctx) (gin_sessionCookie ctx) w)
       (\<lambda>e w. (Aborted (WriteError ctx e), w))
       (\<lambda>view w.
         ((case view of
            None \<Rightarrow> Aborted (WriteError ctx (authorization_NewError authorization_AuthRequired))
          | Some v \<Rightarrow> (case NewContext (Some v) (gin_request_id ctx) of
              Inl e \<Rightarrow> Aborted (WriteError ctx e)
            | Inr authorized \<Rightarrow>
                if accountType \<noteq> azc_accountType authorized
                then Aborted (WriteError ctx (authorization_NewError authorization_AuthForbidden))
                else (case (if accountType = AccountTypeAdministrator then RequireAdministrator authorized
                       else if accountType \<noteq> AccountTypeMailbox
                       then Some (authorization_NewError authorization_AuthForbidden) else None) of
                    Some e \<Rightarrow> Aborted (WriteError ctx e)
                  | None \<Rightarrow>
                      (case admit_request uc authority (bd_trustedOrigin boundary) authorized
                          requireIdempotency (gin_request ctx) of
                         Inl e \<Rightarrow> Aborted (WriteError ctx e)
                       | Inr (admitted, request) \<Rightarrow> Next admitted request)))), w))"

end
