(* ===== verification/Postgres_Link.thy ===== *)
theory Postgres_Link
  imports Mail_Prelude
begin

text \<open>
  What the repositories of \<^verbatim>\<open>internal/data/postgres\<close> share: the round trips of one
  call to PostgreSQL. The database of type \<open>'d\<close> is changed by other connections
  and a round trip may fail: a \<open>pg_link\<close> gives, for the n-th round trip of the
  call, the error it fails with, whether a failed round trip had taken effect
  on the server all the same, and what other transactions commit before it. A
  transaction keeps its own rows apart until the commit; a rollback leaves
  what the others committed.
\<close>

record 'd pg_link =
  pe_fault :: "nat \<Rightarrow> go_error option"
  pe_landed :: "nat \<Rightarrow> bool"
  pe_race :: "nat \<Rightarrow> 'd \<Rightarrow> 'd"

definition query :: "('d, 'm) pg_link_scheme \<Rightarrow> nat \<Rightarrow> 'a result \<Rightarrow> 'a result" where
  "query env n r = (case pe_fault env n of Some e \<Rightarrow> Inl e | None \<Rightarrow> r)"

definition autocommit ::
  "('d, 'm) pg_link_scheme \<Rightarrow> nat \<Rightarrow> ('d \<Rightarrow> ('a \<times> 'd) result) \<Rightarrow> 'd \<Rightarrow> 'a result \<times> 'd" where
  "autocommit env n statement db =
     (let db1 = pe_race env n db in
      case statement db1 of
        Inl e \<Rightarrow> (query env n (Inl e), db1)
      | Inr (x, db2) \<Rightarrow> (query env n (Inr x),
          if pe_fault env n = None \<or> pe_landed env n then db2 else db1))"

definition commit :: "('d, 'm) pg_link_scheme \<Rightarrow> nat \<Rightarrow> 'd \<Rightarrow> 'd \<Rightarrow> go_error option \<times> 'd" where
  \<comment> \<open>The transaction's view becomes the database; after an error it may have.\<close>
  "commit env n view db =
     (pe_fault env n, if pe_fault env n = None \<or> pe_landed env n then view else db)"

end
