(* ===== verification/Mailcore.thy ===== *)
theory Mailcore
  imports Go_Strings
begin

text \<open>
  Package \<^verbatim>\<open>internal/mailcore\<close> (\<^verbatim>\<open>mailcore.go\<close>): the contract between the
  operation worker and a mail core. Observed mailbox states, the error classes
  by which the worker decides how to retry, the constructor and the classifier
  that keep only stable codes, and the \<^verbatim>\<open>Adapter\<close> interface as a record of its
  two operations over a world \<open>'w\<close>. The locale \<open>mail_adapter\<close> states what the
  worker relies on.
\<close>

section \<open>Data\<close>

definition PayloadVersion :: int where
  "PayloadVersion = 1"

datatype MailboxStatus =
    MailboxStatusAbsent | MailboxStatusActive | MailboxStatusSuspended | MailboxStatusOther string

definition ErrorCodeUnknown :: string where
  "ErrorCodeUnknown = ''MAIL_CORE_OUTCOME_UNKNOWN''"

definition ErrorCodeNotConverged :: string where
  "ErrorCodeNotConverged = ''MAIL_CORE_NOT_CONVERGED''"

definition ErrorCodeNewerRevision :: string where
  "ErrorCodeNewerRevision = ''MAIL_CORE_NEWER_REVISION''"

definition errorCodePattern :: "string \<Rightarrow> bool" where
  "errorCodePattern s = (case s of
     [] \<Rightarrow> False
   | c # rest \<Rightarrow> is_upper c \<and> 2 \<le> length rest \<and> length rest \<le> 63 \<and>
       list_all (\<lambda>x. is_upper x \<or> is_digit x \<or> x = CHR ''_'') rest)"

fun validErrorClass :: "ErrorClass \<Rightarrow> bool" where
  "validErrorClass ErrorClassRetryable = True"
| "validErrorClass ErrorClassPermanent = True"
| "validErrorClass ErrorClassUnknown = True"
| "validErrorClass (ErrorClassOther _) = False"

definition mailcore_NewError :: "ErrorClass \<Rightarrow> string \<Rightarrow> mailcore_Error" where
  "mailcore_NewError class code =
     (if \<not> validErrorClass class \<or> \<not> errorCodePattern code
      then MailcoreError ErrorClassUnknown ErrorCodeUnknown
      else MailcoreError class code)"

definition ClassifyError :: "go_error option \<Rightarrow> ErrorClass \<times> string" where
  "ClassifyError err = (case err of
     None \<Rightarrow> (ErrorClassOther '''', '''')
   | Some e \<Rightarrow> (case errors_As_mailcore e of
       Some m \<Rightarrow>
         if validErrorClass (mce_class m) \<and> errorCodePattern (mce_code m)
         then (mce_class m, mce_code m)
         else (ErrorClassUnknown, ErrorCodeUnknown)
     | None \<Rightarrow> (ErrorClassUnknown, ErrorCodeUnknown)))"

record EnsureMailboxCommand =
  ens_OperationID :: uuid
  ens_MailboxID :: uuid
  ens_DomainID :: uuid
  ens_Address :: string
  ens_DesiredRevision :: int
  ens_ConfigurationHash :: bytes
  ens_PayloadVersion :: int
  ens_Deadline :: instant

record InspectMailboxQuery =
  insp_MailboxID :: uuid
  insp_DomainID :: uuid
  insp_Address :: string
  insp_DesiredRevision :: int
  insp_ConfigurationHash :: bytes
  insp_Deadline :: instant

record ObservedMailbox =
  obs_MailboxID :: uuid
  obs_Status :: MailboxStatus
  obs_Revision :: int
  obs_ConfigurationHash :: bytes
  obs_InspectedAt :: instant

section \<open>The adapter interface\<close>

record 'w Adapter =
  EnsureMailbox :: "go_context \<Rightarrow> EnsureMailboxCommand \<Rightarrow> 'w \<Rightarrow> go_error option \<times> 'w"
  InspectMailbox :: "go_context \<Rightarrow> InspectMailboxQuery \<Rightarrow> 'w \<Rightarrow> ObservedMailbox result \<times> 'w"

text \<open>An observation the ledger accepts: it is about the queried mailbox, in a
  state of the contract, with a revision and the time of the reading.\<close>

definition observation_wf :: "uuid \<Rightarrow> ObservedMailbox \<Rightarrow> bool" where
  "observation_wf mailbox obs \<longleftrightarrow>
     obs_MailboxID obs = mailbox \<and>
     obs_Status obs \<in> {MailboxStatusAbsent, MailboxStatusActive, MailboxStatusSuspended} \<and>
     0 \<le> obs_Revision obs \<and> length (obs_ConfigurationHash obs) = 32 \<and>
     \<not> IsZero (obs_InspectedAt obs)"

text \<open>What the worker relies on: a successful inspection is about the queried mailbox
  and well formed. Clients of the contract prove their lemmas in this locale.\<close>

locale mail_adapter =
  fixes adapter :: "'w Adapter"
  assumes inspect_wf:
    "InspectMailbox adapter ctx q w = (Inr obs, w') \<Longrightarrow> observation_wf (insp_MailboxID q) obs"

section \<open>Classification\<close>

lemma error_code_constants [simp]:
  "errorCodePattern ErrorCodeUnknown"
  "errorCodePattern ErrorCodeNotConverged"
  "errorCodePattern ErrorCodeNewerRevision"
  by (simp_all add: errorCodePattern_def ErrorCodeUnknown_def ErrorCodeNotConverged_def
      ErrorCodeNewerRevision_def is_upper_def is_digit_def byte_val_def)

lemma errorCodePattern_nonempty: "errorCodePattern s \<Longrightarrow> s \<noteq> ''''"
  by (auto simp: errorCodePattern_def)

lemma ClassifyError_safe:
  assumes "ClassifyError (Some e) = (class, code)"
  shows "validErrorClass class" "errorCodePattern code"
  using assms by (auto simp: ClassifyError_def split: option.splits if_splits)

lemma NewError_valid:
  "validErrorClass (mce_class (mailcore_NewError c s))"
  "errorCodePattern (mce_code (mailcore_NewError c s))"
  by (auto simp: mailcore_NewError_def)

lemma ClassifyError_NewError [simp]:
  "ClassifyError (Some (MailcoreErr (mailcore_NewError c s))) =
     (mce_class (mailcore_NewError c s), mce_code (mailcore_NewError c s))"
  by (simp add: ClassifyError_def NewError_valid)

end
