(* ===== verification/Operation_Worker.thy ===== *)
theory Operation_Worker
  imports Mailcore
begin

text \<open>
  Package \<^verbatim>\<open>internal/operation\<close> (\<^verbatim>\<open>operation.go\<close>): the worker that executes one
  claimed mailbox operation. \<open>Execute\<close> is the whole handler: the validity check
  of the claim, the deadlines derived from the lease, the inspection that comes
  first after an uncertain outcome, the ensure call, the final inspection and
  the fenced receipt. The repository and the adapter are the interface records
  the Go \<^verbatim>\<open>Service\<close> holds; the clock is read from the world, so two readings may
  differ.
\<close>

section \<open>Data\<close>

datatype Status =
    StatusPending | StatusRunning | StatusRetryWait | StatusUnknown
  | StatusSucceeded | StatusFailed | StatusDead | StatusSuperseded | StatusOther string

record ClaimRequest =
  cr_OwnerID :: uuid
  cr_LeaseDuration :: duration
  cr_MaxAttempts :: int

record ClaimedMailboxOperation =
  cl_OperationID :: uuid
  cl_TenantID :: uuid
  cl_MailboxID :: uuid
  cl_DomainID :: uuid
  cl_Address :: string
  cl_DesiredRevision :: int
  cl_ConfigurationHash :: bytes
  cl_AttemptNumber :: int
  cl_PriorStatus :: Status
  cl_LeaseOwnerID :: uuid
  cl_LeaseEpoch :: int
  cl_LeaseExpiresAt :: instant

record Resolution =
  res_OperationID :: uuid
  res_AttemptNumber :: int
  res_LeaseOwnerID :: uuid
  res_LeaseEpoch :: int
  res_DesiredRevision :: int
  res_Status :: Status
  res_NextAttemptDelay :: duration
  res_ErrorCode :: string
  res_Observation :: "ObservedMailbox option"

record 'w Repository =
  ClaimMailboxOperation ::
    "go_context \<Rightarrow> ClaimRequest \<Rightarrow> 'w \<Rightarrow> ClaimedMailboxOperation option result \<times> 'w"
  ResolveMailboxOperation :: "go_context \<Rightarrow> Resolution \<Rightarrow> 'w \<Rightarrow> go_error option \<times> 'w"

record Config =
  cfg_OwnerID :: uuid
  cfg_LeaseDuration :: duration
  cfg_AttemptTimeout :: duration
  cfg_LeaseSafetyMargin :: duration
  cfg_BaseRetryDelay :: duration
  cfg_MaxRetryDelay :: duration
  cfg_MaxAttempts :: int

record 'w Service =
  svc_repository :: "'w Repository"
  svc_adapter :: "'w Adapter"
  svc_config :: Config
  svc_now :: "'w \<Rightarrow> instant \<times> 'w"

section \<open>Operations\<close>

definition newService ::
  "'w Repository option \<Rightarrow> 'w Adapter option \<Rightarrow> Config \<Rightarrow> ('w \<Rightarrow> instant \<times> 'w) option \<Rightarrow>
   'w Service result" where
  "newService repository adapter config now = (case (repository, adapter, now) of
     (Some r, Some a, Some n) \<Rightarrow>
       if cfg_OwnerID config = uuid_Nil \<or> cfg_LeaseDuration config \<le> 0 \<or>
          cfg_AttemptTimeout config \<le> 0 \<or> cfg_LeaseSafetyMargin config \<le> 0 \<or>
          cfg_LeaseDuration config \<le> cfg_LeaseSafetyMargin config \<or>
          wrap64 (cfg_LeaseDuration config - cfg_LeaseSafetyMargin config) < cfg_AttemptTimeout config \<or>
          cfg_BaseRetryDelay config \<le> 0 \<or> cfg_MaxRetryDelay config < cfg_BaseRetryDelay config \<or>
          cfg_MaxAttempts config \<le> 0 \<or> MaxInt32 < cfg_MaxAttempts config
       then Inl ErrInvalidConfiguration
       else Inr \<lparr>svc_repository = r, svc_adapter = a, svc_config = config, svc_now = n\<rparr>
   | _ \<Rightarrow> Inl ErrInvalidConfiguration)"

definition ClaimNext ::
  "'w Service \<Rightarrow> go_context \<Rightarrow> 'w \<Rightarrow> ClaimedMailboxOperation option result \<times> 'w" where
  "ClaimNext service ctx =
     ClaimMailboxOperation (svc_repository service) ctx
       \<lparr>cr_OwnerID = cfg_OwnerID (svc_config service),
        cr_LeaseDuration = cfg_LeaseDuration (svc_config service),
        cr_MaxAttempts = cfg_MaxAttempts (svc_config service)\<rparr>"

fun claimablePriorStatus :: "Status \<Rightarrow> bool" where
  "claimablePriorStatus StatusPending = True"
| "claimablePriorStatus StatusRunning = True"
| "claimablePriorStatus StatusRetryWait = True"
| "claimablePriorStatus StatusUnknown = True"
| "claimablePriorStatus _ = False"

definition validClaim :: "Config \<Rightarrow> ClaimedMailboxOperation \<Rightarrow> bool" where
  "validClaim config claimed \<longleftrightarrow>
     cl_OperationID claimed \<noteq> uuid_Nil \<and> cl_TenantID claimed \<noteq> uuid_Nil \<and>
     cl_MailboxID claimed \<noteq> uuid_Nil \<and> cl_DomainID claimed \<noteq> uuid_Nil \<and>
     cl_Address claimed \<noteq> '''' \<and> 0 < cl_DesiredRevision claimed \<and>
     0 < cl_AttemptNumber claimed \<and> cl_AttemptNumber claimed \<le> cfg_MaxAttempts config \<and>
     cl_LeaseOwnerID claimed = cfg_OwnerID config \<and> 0 < cl_LeaseEpoch claimed \<and>
     \<not> IsZero (cl_LeaseExpiresAt claimed) \<and> claimablePriorStatus (cl_PriorStatus claimed)"

definition matchesDesired :: "ClaimedMailboxOperation \<Rightarrow> ObservedMailbox \<Rightarrow> bool" where
  "matchesDesired claimed observation \<longleftrightarrow>
     obs_MailboxID observation = cl_MailboxID claimed \<and>
     obs_Status observation = MailboxStatusActive \<and>
     obs_Revision observation = cl_DesiredRevision claimed \<and>
     obs_ConfigurationHash observation = cl_ConfigurationHash claimed \<and>
     \<not> IsZero (obs_InspectedAt observation)"

text \<open>The doubling loop of \<^verbatim>\<open>retryDelay\<close>; the counter grows towards the attempt
  number.\<close>

function retry_loop :: "Config \<Rightarrow> int \<Rightarrow> int \<Rightarrow> duration \<Rightarrow> duration" where
  "retry_loop config attempt current delay =
     (if current < attempt \<and> delay < cfg_MaxRetryDelay config
      then (if go_quot (cfg_MaxRetryDelay config) 2 < delay then cfg_MaxRetryDelay config
            else retry_loop config attempt (current + 1) (wrap64 (delay * 2)))
      else if cfg_MaxRetryDelay config < delay then cfg_MaxRetryDelay config
      else delay)"
  by pat_completeness auto
termination
  by (relation "measure (\<lambda>(config, attempt, current, delay). nat (attempt - current))") auto

declare retry_loop.simps [simp del]

definition retryDelay :: "Config \<Rightarrow> int \<Rightarrow> duration" where
  "retryDelay config attempt = retry_loop config attempt 1 (cfg_BaseRetryDelay config)"

definition resolution_of ::
  "Config \<Rightarrow> ClaimedMailboxOperation \<Rightarrow> Status \<Rightarrow> string \<Rightarrow> ObservedMailbox option \<Rightarrow> Resolution" where
  "resolution_of config claimed status errorCode observation =
     \<lparr>res_OperationID = cl_OperationID claimed,
      res_AttemptNumber = cl_AttemptNumber claimed,
      res_LeaseOwnerID = cl_LeaseOwnerID claimed,
      res_LeaseEpoch = cl_LeaseEpoch claimed,
      res_DesiredRevision = cl_DesiredRevision claimed,
      res_Status = status,
      res_NextAttemptDelay =
        (if status = StatusRetryWait \<or> status = StatusUnknown
         then retryDelay config (cl_AttemptNumber claimed) else 0),
      res_ErrorCode = errorCode,
      res_Observation = observation\<rparr>"

definition resolve ::
  "'w Service \<Rightarrow> go_context \<Rightarrow> ClaimedMailboxOperation \<Rightarrow> Status \<Rightarrow> string \<Rightarrow>
   ObservedMailbox option \<Rightarrow> 'w \<Rightarrow> go_error option \<times> 'w" where
  "resolve service ctx claimed status errorCode observation =
     ResolveMailboxOperation (svc_repository service) ctx
       (resolution_of (svc_config service) claimed status errorCode observation)"

definition resolveUncertain ::
  "'w Service \<Rightarrow> go_context \<Rightarrow> ClaimedMailboxOperation \<Rightarrow> string \<Rightarrow>
   ObservedMailbox option \<Rightarrow> 'w \<Rightarrow> go_error option \<times> 'w" where
  "resolveUncertain service ctx claimed errorCode observation =
     resolve service ctx claimed
       (if cfg_MaxAttempts (svc_config service) \<le> cl_AttemptNumber claimed
        then StatusDead else StatusUnknown) errorCode observation"

definition resolveAdapterFailure ::
  "'w Service \<Rightarrow> go_context \<Rightarrow> ClaimedMailboxOperation \<Rightarrow> ErrorClass \<Rightarrow> go_error \<Rightarrow>
   ObservedMailbox option \<Rightarrow> 'w \<Rightarrow> go_error option \<times> 'w" where
  "resolveAdapterFailure service ctx claimed class err observation =
     (let code = snd (ClassifyError (Some err));
          errorCode = (if code = '''' then ErrorCodeUnknown else code);
          exhausted = (cfg_MaxAttempts (svc_config service) \<le> cl_AttemptNumber claimed)
      in case class of
           ErrorClassPermanent \<Rightarrow> resolve service ctx claimed StatusFailed errorCode observation
         | ErrorClassRetryable \<Rightarrow>
             if exhausted then resolve service ctx claimed StatusDead errorCode observation
             else resolve service ctx claimed StatusRetryWait errorCode observation
         | _ \<Rightarrow>
             if exhausted then resolve service ctx claimed StatusDead errorCode observation
             else resolve service ctx claimed StatusUnknown errorCode observation)"

definition inspect_query :: "ClaimedMailboxOperation \<Rightarrow> instant \<Rightarrow> InspectMailboxQuery" where
  "inspect_query claimed deadline =
     \<lparr>insp_MailboxID = cl_MailboxID claimed, insp_DomainID = cl_DomainID claimed,
      insp_Address = cl_Address claimed, insp_DesiredRevision = cl_DesiredRevision claimed,
      insp_ConfigurationHash = cl_ConfigurationHash claimed, insp_Deadline = deadline\<rparr>"

definition inspect ::
  "'w Service \<Rightarrow> go_context \<Rightarrow> ClaimedMailboxOperation \<Rightarrow> instant \<Rightarrow> 'w \<Rightarrow>
   ObservedMailbox result \<times> 'w" where
  "inspect service ctx claimed deadline =
     InspectMailbox (svc_adapter service) ctx (inspect_query claimed deadline)"

definition ensure_command :: "ClaimedMailboxOperation \<Rightarrow> instant \<Rightarrow> EnsureMailboxCommand" where
  "ensure_command claimed deadline =
     \<lparr>ens_OperationID = cl_OperationID claimed, ens_MailboxID = cl_MailboxID claimed,
      ens_DomainID = cl_DomainID claimed, ens_Address = cl_Address claimed,
      ens_DesiredRevision = cl_DesiredRevision claimed,
      ens_ConfigurationHash = cl_ConfigurationHash claimed,
      ens_PayloadVersion = PayloadVersion, ens_Deadline = deadline\<rparr>"

text \<open>The ensure call and the inspection after it: the second half of
  \<^verbatim>\<open>Execute\<close>.\<close>

definition ensure_then_inspect ::
  "'w Service \<Rightarrow> go_context \<Rightarrow> go_context \<Rightarrow> instant \<Rightarrow> ClaimedMailboxOperation \<Rightarrow> 'w \<Rightarrow>
   go_error option \<times> 'w" where
  "ensure_then_inspect service attemptContext adapterContext adapterDeadline claimed w =
     (case EnsureMailbox (svc_adapter service) adapterContext
             (ensure_command claimed adapterDeadline) w of
        (Some err, w1) \<Rightarrow>
          resolveAdapterFailure service attemptContext claimed
            (fst (ClassifyError (Some err))) err None w1
      | (None, w1) \<Rightarrow>
          (case inspect service adapterContext claimed adapterDeadline w1 of
             (Inl err, w2) \<Rightarrow>
               resolveAdapterFailure service attemptContext claimed ErrorClassUnknown err None w2
           | (Inr observation, w2) \<Rightarrow>
               if \<not> matchesDesired claimed observation
               then resolveUncertain service attemptContext claimed
                      (if cl_DesiredRevision claimed < obs_Revision observation
                       then ErrorCodeNewerRevision else ErrorCodeNotConverged)
                      (Some observation) w2
               else resolve service attemptContext claimed StatusSucceeded '''' (Some observation) w2))"

text \<open>The deadlines \<^verbatim>\<open>Execute\<close> derives from its clock reading, the lease and
  the caller's context.\<close>

definition attempt_deadline :: "Config \<Rightarrow> ClaimedMailboxOperation \<Rightarrow> instant \<Rightarrow> instant" where
  "attempt_deadline config claimed now =
     (let deadline = now + wrap64 (cfg_AttemptTimeout config + cfg_LeaseSafetyMargin config)
      in if cl_LeaseExpiresAt claimed < deadline then cl_LeaseExpiresAt claimed else deadline)"

definition attempt_context ::
  "Config \<Rightarrow> go_context \<Rightarrow> ClaimedMailboxOperation \<Rightarrow> instant \<Rightarrow> go_context" where
  "attempt_context config ctx claimed now =
     with_deadline ctx (attempt_deadline config claimed now)"

definition adapter_deadline ::
  "Config \<Rightarrow> go_context \<Rightarrow> ClaimedMailboxOperation \<Rightarrow> instant \<Rightarrow> instant" where
  "adapter_deadline config ctx claimed now =
     (case ctx_deadline (attempt_context config ctx claimed now) of
        Some effective \<Rightarrow> effective | None \<Rightarrow> attempt_deadline config claimed now)
     + wrap64 (- cfg_LeaseSafetyMargin config)"

definition Execute ::
  "'w Service \<Rightarrow> go_context \<Rightarrow> ClaimedMailboxOperation \<Rightarrow> 'w \<Rightarrow> go_error option \<times> 'w" where
  "Execute service ctx claimed w =
     (if \<not> validClaim (svc_config service) claimed then (Some ErrInvalidClaim, w)
      else
        let (now, w1) = svc_now service w;
            attemptContext = attempt_context (svc_config service) ctx claimed now;
            adapterDeadline = adapter_deadline (svc_config service) ctx claimed now;
            (now', w2) = svc_now service w1
        in if \<not> now' < adapterDeadline
           then resolveUncertain service attemptContext claimed ErrorCodeUnknown None w2
           else
             let adapterContext = with_deadline attemptContext adapterDeadline
             in if cl_PriorStatus claimed = StatusUnknown \<or> cl_PriorStatus claimed = StatusRunning
                then (case inspect service adapterContext claimed adapterDeadline w2 of
                        (Inl err, w3) \<Rightarrow>
                          resolveAdapterFailure service attemptContext claimed
                            ErrorClassUnknown err None w3
                      | (Inr observation, w3) \<Rightarrow>
                          if matchesDesired claimed observation
                          then resolve service attemptContext claimed StatusSucceeded ''''
                                 (Some observation) w3
                          else if cl_DesiredRevision claimed < obs_Revision observation
                          then resolveUncertain service attemptContext claimed
                                 ErrorCodeNewerRevision (Some observation) w3
                          else ensure_then_inspect service attemptContext adapterContext
                                 adapterDeadline claimed w3)
                else ensure_then_inspect service attemptContext adapterContext
                       adapterDeadline claimed w2)"

section \<open>Retry delays\<close>

text \<open>The loop computes a capped doubling and never leaves the 64-bit range.\<close>

lemma retry_loop_eq:
  assumes "0 < delay" "delay \<le> cfg_MaxRetryDelay config" "cfg_MaxRetryDelay config < 2 ^ 63"
  shows "retry_loop config attempt current delay =
    min (cfg_MaxRetryDelay config) (delay * 2 ^ nat (attempt - current))"
  using assms
proof (induction config attempt current delay rule: retry_loop.induct)
  case (1 config attempt current delay)
  let ?max = "cfg_MaxRetryDelay config"
  show ?case
  proof (cases "current < attempt \<and> delay < ?max")
    case False
    have "delay * 2 ^ n \<ge> delay" for n :: nat
      using "1.prems"(1) by simp
    moreover from False "1.prems" have "delay = ?max \<or> nat (attempt - current) = 0" by linarith
    ultimately show ?thesis
      using False "1.prems" by (auto simp: retry_loop.simps [of config attempt current delay] min_def)
  next
    case True
    then have exp: "nat (attempt - current) = Suc (nat (attempt - (current + 1)))" by linarith
    show ?thesis
    proof (cases "?max div 2 < delay")
      case big: True
      then have "?max \<le> delay * 2" by linarith
      also have "\<dots> \<le> delay * 2 ^ nat (attempt - current)"
        using "1.prems"(1) by (simp add: exp)
      finally show ?thesis
        using True big "1.prems" by (simp add: retry_loop.simps [of config attempt current delay])
    next
      case False
      then have le: "delay * 2 \<le> ?max" by linarith
      with "1.prems" have w: "wrap64 (delay * 2) = delay * 2" by simp
      have "retry_loop config attempt (current + 1) (wrap64 (delay * 2)) =
          min ?max (wrap64 (delay * 2) * 2 ^ nat (attempt - (current + 1)))"
        using "1.IH" True False "1.prems" le w by simp
      then show ?thesis
        using True False "1.prems" w exp
        by (simp add: retry_loop.simps [of config attempt current delay] mult.assoc)
    qed
  qed
qed

section \<open>The receipt\<close>

text \<open>
  What a receipt must be: one of the five results a worker may report, a
  success only with an observation that matches the claim, a stable error code
  otherwise, the attempt budget respected, and every observation the result of
  an inspection of the claimed mailbox that ended in the very world in which
  the receipt is submitted.
\<close>

definition receipt_ok ::
  "'w Service \<Rightarrow> ClaimedMailboxOperation \<Rightarrow> Status \<Rightarrow> string \<Rightarrow> ObservedMailbox option \<Rightarrow> 'w \<Rightarrow> bool" where
  "receipt_ok service claimed status code observation w \<longleftrightarrow>
     status \<in> {StatusSucceeded, StatusFailed, StatusDead, StatusRetryWait, StatusUnknown} \<and>
     (status = StatusSucceeded \<longrightarrow> code = '''' \<and>
        (\<exists>obs. observation = Some obs \<and> matchesDesired claimed obs)) \<and>
     (status \<noteq> StatusSucceeded \<longrightarrow> errorCodePattern code) \<and>
     (status = StatusDead \<longrightarrow> cfg_MaxAttempts (svc_config service) \<le> cl_AttemptNumber claimed) \<and>
     (status \<in> {StatusRetryWait, StatusUnknown} \<longrightarrow>
        cl_AttemptNumber claimed < cfg_MaxAttempts (svc_config service)) \<and>
     (\<forall>obs. observation = Some obs \<longrightarrow>
        (\<exists>ctx q w0. insp_MailboxID q = cl_MailboxID claimed \<and>
           InspectMailbox (svc_adapter service) ctx q w0 = (Inr obs, w)))"

definition submits_at ::
  "'w Service \<Rightarrow> ClaimedMailboxOperation \<Rightarrow> go_context \<Rightarrow> 'w \<Rightarrow> go_error option \<times> 'w \<Rightarrow> bool" where
  "submits_at service claimed ctx w outcome \<longleftrightarrow>
     (\<exists>status code observation.
        receipt_ok service claimed status code observation w \<and>
        outcome = resolve service ctx claimed status code observation w)"

definition submits ::
  "'w Service \<Rightarrow> ClaimedMailboxOperation \<Rightarrow> go_context \<Rightarrow> go_error option \<times> 'w \<Rightarrow> bool" where
  "submits service claimed ctx outcome \<longleftrightarrow> (\<exists>w. submits_at service claimed ctx w outcome)"

lemma submitsI:
  "receipt_ok service claimed status code observation w \<Longrightarrow>
   submits_at service claimed ctx w (resolve service ctx claimed status code observation w)"
  by (auto simp: submits_at_def)

lemma resolveUncertain_submits:
  assumes "errorCodePattern code"
    and "\<And>obs. observation = Some obs \<Longrightarrow> \<exists>c q w0. insp_MailboxID q = cl_MailboxID claimed \<and>
           InspectMailbox (svc_adapter service) c q w0 = (Inr obs, w)"
  shows "submits_at service claimed ctx w (resolveUncertain service ctx claimed code observation w)"
  unfolding resolveUncertain_def
  by (rule submitsI) (use assms in \<open>auto simp: receipt_ok_def\<close>)

lemma resolveAdapterFailure_submits:
  "submits_at service claimed ctx w (resolveAdapterFailure service ctx claimed class err None w)"
proof -
  let ?code = "snd (ClassifyError (Some err))"
  have code: "errorCodePattern ?code" using ClassifyError_safe(2) [of err] by (metis prod.collapse)
  then have "?code \<noteq> ''''" by (rule errorCodePattern_nonempty)
  then show ?thesis
    by (cases "class") (auto simp: resolveAdapterFailure_def Let_def receipt_ok_def code intro!: submitsI)
qed

lemma resolve_success_submits:
  assumes "matchesDesired claimed obs" "insp_MailboxID q = cl_MailboxID claimed"
    "InspectMailbox (svc_adapter service) c q w0 = (Inr obs, w)"
  shows "submits_at service claimed ctx w
    (resolve service ctx claimed StatusSucceeded '''' (Some obs) w)"
  by (rule submitsI) (use assms in \<open>auto simp: receipt_ok_def\<close>)

lemma inspect_query_mailbox [simp]: "insp_MailboxID (inspect_query c d) = cl_MailboxID c"
  by (simp add: inspect_query_def)

lemma submits_atD: "submits_at service claimed ctx w outcome \<Longrightarrow> submits service claimed ctx outcome"
  by (auto simp: submits_def)

lemmas receipt_submits [THEN submits_atD] =
  resolveAdapterFailure_submits resolveUncertain_submits resolve_success_submits

lemma ensure_then_inspect_submits:
  "submits service claimed actx (ensure_then_inspect service actx dctx deadline claimed w)"
  unfolding ensure_then_inspect_def inspect_def
  by (auto split: prod.splits option.splits sum.splits
      intro!: receipt_submits(1,2) intro: receipt_submits(3) inspect_query_mailbox)

section \<open>Deadlines\<close>

lemma ctx_deadline_with_deadline:
  "ctx_deadline (with_deadline ctx d) =
     Some (case ctx_deadline ctx of None \<Rightarrow> d | Some p \<Rightarrow> if p < d then p else d)"
  by (simp add: with_deadline_def)

text \<open>\<^verbatim>\<open>Execute\<close> over these times: the form every proof below starts from.\<close>

lemma Execute_unfold:
  fixes service :: "'w Service" and ctx :: go_context
  assumes "validClaim (svc_config service) claimed"
    and "svc_now service w = (now, w1)" "svc_now service w1 = (now', w2)"
  defines "actx \<equiv> attempt_context (svc_config service) ctx claimed now"
    and "dl \<equiv> adapter_deadline (svc_config service) ctx claimed now"
  shows "Execute service ctx claimed w =
    (if \<not> now' < dl then resolveUncertain service actx claimed ErrorCodeUnknown None w2
     else if cl_PriorStatus claimed = StatusUnknown \<or> cl_PriorStatus claimed = StatusRunning
     then (case inspect service (with_deadline actx dl) claimed dl w2 of
             (Inl err, w3) \<Rightarrow> resolveAdapterFailure service actx claimed ErrorClassUnknown err None w3
           | (Inr obs, w3) \<Rightarrow>
               if matchesDesired claimed obs
               then resolve service actx claimed StatusSucceeded '''' (Some obs) w3
               else if cl_DesiredRevision claimed < obs_Revision obs
               then resolveUncertain service actx claimed ErrorCodeNewerRevision (Some obs) w3
               else ensure_then_inspect service actx (with_deadline actx dl) dl claimed w3)
     else ensure_then_inspect service actx (with_deadline actx dl) dl claimed w2)"
  using assms(1-3) unfolding actx_def dl_def by (simp add: Execute_def Let_def)

lemma Execute_submits:
  assumes "validClaim (svc_config service) claimed" "svc_now service w = (now, w1)"
  shows "submits service claimed (attempt_context (svc_config service) ctx claimed now)
    (Execute service ctx claimed w)"
proof -
  obtain now' w2 where w2: "svc_now service w1 = (now', w2)" by force
  show ?thesis
    unfolding Execute_unfold [OF assms w2] inspect_def
    by (auto split: prod.splits sum.splits
        intro!: receipt_submits(1,2) ensure_then_inspect_submits
        intro: receipt_submits(3) inspect_query_mailbox)
qed

lemma attempt_context_deadline:
  "\<exists>d. ctx_deadline (attempt_context config ctx claimed now) = Some d \<and>
     d \<le> cl_LeaseExpiresAt claimed \<and>
     d \<le> now + wrap64 (cfg_AttemptTimeout config + cfg_LeaseSafetyMargin config) \<and>
     (\<forall>p. ctx_deadline ctx = Some p \<longrightarrow> d \<le> p)"
  by (auto simp: attempt_context_def attempt_deadline_def ctx_deadline_with_deadline Let_def
      split: option.splits)

text \<open>A configuration the constructor accepts: the timeouts fit the lease and
  none of their sums overflows.\<close>

definition config_ok :: "Config \<Rightarrow> bool" where
  "config_ok config \<longleftrightarrow>
     cfg_OwnerID config \<noteq> uuid_Nil \<and>
     0 < cfg_AttemptTimeout config \<and> 0 < cfg_LeaseSafetyMargin config \<and>
     cfg_AttemptTimeout config + cfg_LeaseSafetyMargin config \<le> cfg_LeaseDuration config \<and>
     cfg_LeaseDuration config < 2 ^ 63 \<and>
     0 < cfg_BaseRetryDelay config \<and> cfg_BaseRetryDelay config \<le> cfg_MaxRetryDelay config \<and>
     cfg_MaxRetryDelay config < 2 ^ 63 \<and>
     0 < cfg_MaxAttempts config \<and> cfg_MaxAttempts config \<le> MaxInt32"

lemma config_ok_wraps:
  assumes "config_ok config"
  shows "wrap64 (cfg_AttemptTimeout config + cfg_LeaseSafetyMargin config) =
      cfg_AttemptTimeout config + cfg_LeaseSafetyMargin config"
    and "wrap64 (- cfg_LeaseSafetyMargin config) = - cfg_LeaseSafetyMargin config"
  using assms by (auto simp: config_ok_def)

lemma adapter_deadline_bounds:
  assumes "config_ok config"
  shows "adapter_deadline config ctx claimed now + cfg_LeaseSafetyMargin config \<le> cl_LeaseExpiresAt claimed"
    and "adapter_deadline config ctx claimed now \<le> now + cfg_AttemptTimeout config"
proof -
  obtain d where d: "ctx_deadline (attempt_context config ctx claimed now) = Some d"
    "d \<le> cl_LeaseExpiresAt claimed"
    "d \<le> now + wrap64 (cfg_AttemptTimeout config + cfg_LeaseSafetyMargin config)"
    using attempt_context_deadline by metis
  then have eq: "adapter_deadline config ctx claimed now = d - cfg_LeaseSafetyMargin config"
    using config_ok_wraps(2) [OF assms] by (simp add: adapter_deadline_def)
  show "adapter_deadline config ctx claimed now + cfg_LeaseSafetyMargin config \<le> cl_LeaseExpiresAt claimed"
    using d eq by simp
  show "adapter_deadline config ctx claimed now \<le> now + cfg_AttemptTimeout config"
    using d(3) eq config_ok_wraps(1) [OF assms] by simp
qed

lemma newService_config_ok:
  assumes "newService repository adapter config now = Inr service"
    and "cfg_LeaseDuration config < 2 ^ 63" "cfg_MaxRetryDelay config < 2 ^ 63"
  shows "config_ok config" "svc_config service = config"
proof -
  from assms(1) have svc: "svc_config service = config"
    and c: "cfg_OwnerID config \<noteq> uuid_Nil" "0 < cfg_AttemptTimeout config"
    "0 < cfg_LeaseSafetyMargin config" "cfg_LeaseSafetyMargin config < cfg_LeaseDuration config"
    "cfg_AttemptTimeout config \<le> wrap64 (cfg_LeaseDuration config - cfg_LeaseSafetyMargin config)"
    "0 < cfg_BaseRetryDelay config" "cfg_BaseRetryDelay config \<le> cfg_MaxRetryDelay config"
    "0 < cfg_MaxAttempts config" "cfg_MaxAttempts config \<le> MaxInt32"
    by (auto simp: newService_def split: option.splits if_splits)
  from c assms(2) have "wrap64 (cfg_LeaseDuration config - cfg_LeaseSafetyMargin config) =
      cfg_LeaseDuration config - cfg_LeaseSafetyMargin config"
    by simp
  with c assms(2,3) show "config_ok config" by (simp add: config_ok_def)
  show "svc_config service = config" by (rule svc)
qed

end
