(* ===== verification/Ledger_Schema.thy ===== *)
theory Ledger_Schema
  imports Operation_Worker
begin

text \<open>
  The control-plane tables of the operation ledger: the row types of
  \<^verbatim>\<open>generated/models.go\<close> and the constraints that the migrations
  \<^verbatim>\<open>00001_mailbox_provisioning.sql\<close> and \<^verbatim>\<open>00003_mailbox_operation_worker.sql\<close> put
  on them. A statement whose result violates a constraint fails with the name
  of the first violated constraint and changes nothing (\<open>guard_schema\<close>).
  Nullable columns are \<open>option\<close> values; the status columns of operations and
  attempts use the worker's \<open>Status\<close> values, which stand for the texts they
  are stored as.
\<close>

section \<open>Rows\<close>

record tenant_row =
  t_id :: uuid
  t_name :: string
  t_status :: string

record domain_row =
  d_id :: uuid
  d_tenant_id :: uuid
  d_name :: string
  d_status :: string

record mailbox_row =
  mb_id :: uuid
  mb_tenant_id :: uuid
  mb_domain_id :: uuid
  mb_local_part :: string
  mb_display_name :: "string option"
  mb_desired_status :: string
  mb_observed_status :: string
  mb_revision :: int
  mb_created_at :: instant
  mb_updated_at :: instant
  mb_observed_revision :: "int option"
  mb_observed_configuration_hash :: "bytes option"
  mb_observed_at :: "instant option"

record operation_row =
  op_id :: uuid
  op_tenant_id :: uuid
  op_kind :: string
  op_resource_type :: string
  op_resource_id :: uuid
  op_status :: Status
  op_idempotency_key :: string
  op_request_hash :: bytes
  op_created_at :: instant
  op_updated_at :: instant
  op_desired_revision :: int
  op_configuration_hash :: bytes
  op_attempt_count :: int
  op_next_attempt_at :: instant
  op_lease_owner_id :: "uuid option"
  op_lease_epoch :: int
  op_lease_expires_at :: "instant option"
  op_last_error_code :: "string option"
  op_observed_status :: "MailboxStatus option"
  op_observed_revision :: "int option"
  op_observed_configuration_hash :: "bytes option"
  op_observed_at :: "instant option"

record attempt_row =
  at_id :: uuid
  at_operation_id :: uuid
  at_tenant_id :: uuid
  at_attempt_number :: int
  at_lease_owner_id :: uuid
  at_lease_epoch :: int
  at_prior_status :: Status
  at_desired_revision :: int
  at_configuration_hash :: bytes
  at_started_at :: instant
  at_completed_at :: "instant option"
  at_result_status :: "Status option"
  at_error_code :: "string option"
  at_observed_status :: "MailboxStatus option"
  at_observed_revision :: "int option"
  at_observed_configuration_hash :: "bytes option"
  at_observed_at :: "instant option"

record outbox_payload =
  pl_tenant_id :: uuid
  pl_mailbox_id :: uuid
  pl_domain_id :: uuid
  pl_operation_id :: uuid
  pl_revision :: int

record outbox_row =
  ob_id :: uuid
  ob_tenant_id :: uuid
  ob_operation_id :: uuid
  ob_event_type :: string
  ob_payload :: outbox_payload
  ob_status :: string
  ob_attempts :: int
  ob_next_attempt_at :: instant
  ob_delivered_at :: "instant option"
  ob_created_at :: instant

record db =
  db_tenants :: "tenant_row list"
  db_domains :: "domain_row list"
  db_mailboxes :: "mailbox_row list"
  db_operations :: "operation_row list"
  db_attempts :: "attempt_row list"
  db_outbox :: "outbox_row list"

section \<open>Constraints\<close>

definition local_part_char :: "char \<Rightarrow> bool" where
  "local_part_char c \<longleftrightarrow> is_lower c \<or> is_digit c \<or>
     c \<in> set (''.!#$%&'' @ [CHR 0x27] @ ''*+/=?^_`{|}~-'')"

definition local_part_normalized :: "string \<Rightarrow> bool" where
  "local_part_normalized s \<longleftrightarrow>
     1 \<le> length s \<and> length s \<le> 64 \<and> matches_plus local_part_char s \<and>
     \<not> HasPrefix s ''.'' \<and> \<not> HasSuffix s ''.'' \<and> \<not> Contains s ''..''"

definition idempotency_key_char :: "char \<Rightarrow> bool" where
  "idempotency_key_char c \<longleftrightarrow> is_upper c \<or> is_lower c \<or> is_digit c \<or> c \<in> set ''._:-''"

definition observation_complete :: "'a option \<Rightarrow> 'b option \<Rightarrow> 'c option \<Rightarrow> bool" where
  "observation_complete a b c \<longleftrightarrow>
     (a = None \<and> b = None \<and> c = None) \<or> (a \<noteq> None \<and> b \<noteq> None \<and> c \<noteq> None)"

definition hash_ok :: "bytes option \<Rightarrow> bool" where
  "hash_ok h = (case h of None \<Rightarrow> True | Some b \<Rightarrow> length b = 32)"

definition revision_ok :: "int option \<Rightarrow> bool" where
  "revision_ok r = (case r of None \<Rightarrow> True | Some n \<Rightarrow> 0 \<le> n)"

definition code_ok :: "string option \<Rightarrow> bool" where
  "code_ok c = (case c of None \<Rightarrow> True | Some s \<Rightarrow> errorCodePattern s)"

fun stored_mailbox_status :: "MailboxStatus \<Rightarrow> bool" where
  "stored_mailbox_status (MailboxStatusOther _) = False"
| "stored_mailbox_status _ = True"

fun stored_status :: "Status \<Rightarrow> bool" where
  "stored_status (StatusOther _) = False"
| "stored_status _ = True"

definition observed_ok :: "MailboxStatus option \<Rightarrow> bool" where
  "observed_ok s = (case s of None \<Rightarrow> True | Some x \<Rightarrow> stored_mailbox_status x)"

definition mailbox_checks :: "(string \<times> (mailbox_row \<Rightarrow> bool)) list" where
  "mailbox_checks =
    [(''mailboxes_local_part_normalized'', \<lambda>m. local_part_normalized (mb_local_part m)),
     (''mailboxes_display_name_valid'', \<lambda>m. case mb_display_name m of None \<Rightarrow> True
        | Some s \<Rightarrow> trim_list (\<lambda>c. c = CHR '' '') s = s \<and>
            1 \<le> RuneCountInString s \<and> RuneCountInString s \<le> 128),
     (''mailboxes_desired_status_valid'',
        \<lambda>m. mb_desired_status m \<in> {''active'', ''suspended'', ''deleted''}),
     (''mailboxes_observed_status_valid'',
        \<lambda>m. mb_observed_status m \<in> {''unknown'', ''active'', ''suspended'', ''deleted'', ''failed''}),
     (''mailboxes_revision_positive'', \<lambda>m. 0 < mb_revision m),
     (''mailboxes_observed_revision_nonnegative'', \<lambda>m. revision_ok (mb_observed_revision m)),
     (''mailboxes_observed_configuration_hash_sha256'',
        \<lambda>m. hash_ok (mb_observed_configuration_hash m)),
     (''mailboxes_observation_complete'', \<lambda>m. observation_complete (mb_observed_revision m)
        (mb_observed_configuration_hash m) (mb_observed_at m)),
     (''mailboxes_active_observation_valid'', \<lambda>m. mb_observed_status m \<noteq> ''active'' \<or>
        (mb_observed_revision m = Some (mb_revision m) \<and>
         mb_observed_configuration_hash m \<noteq> None \<and> mb_observed_at m \<noteq> None))]"

definition operation_checks :: "(string \<times> (operation_row \<Rightarrow> bool)) list" where
  "operation_checks =
    [(''operations_kind_valid'', \<lambda>r. op_kind r = ''mailbox.provision''),
     (''operations_resource_type_valid'', \<lambda>r. op_resource_type r = ''mailbox''),
     (''operations_idempotency_key_valid'', \<lambda>r. 16 \<le> length (op_idempotency_key r) \<and>
        length (op_idempotency_key r) \<le> 128 \<and> matches_plus idempotency_key_char (op_idempotency_key r)),
     (''operations_request_hash_sha256'', \<lambda>r. length (op_request_hash r) = 32),
     (''operations_status_valid'', \<lambda>r. stored_status (op_status r)),
     (''operations_desired_revision_positive'', \<lambda>r. 0 < op_desired_revision r),
     (''operations_configuration_hash_sha256'', \<lambda>r. length (op_configuration_hash r) = 32),
     (''operations_attempt_count_nonnegative'', \<lambda>r. 0 \<le> op_attempt_count r),
     (''integer out of range'', \<lambda>r. op_attempt_count r \<le> MaxInt32 \<and> op_lease_epoch r \<le> MaxInt64),
     (''operations_lease_epoch_nonnegative'', \<lambda>r. 0 \<le> op_lease_epoch r),
     (''operations_lease_state_complete'', \<lambda>r.
        (op_status r = StatusRunning \<and> op_lease_owner_id r \<noteq> None \<and> op_lease_expires_at r \<noteq> None) \<or>
        (op_status r \<noteq> StatusRunning \<and> op_lease_owner_id r = None \<and> op_lease_expires_at r = None)),
     (''operations_error_code_valid'', \<lambda>r. code_ok (op_last_error_code r)),
     (''operations_observed_status_valid'', \<lambda>r. observed_ok (op_observed_status r)),
     (''operations_observed_revision_nonnegative'', \<lambda>r. revision_ok (op_observed_revision r)),
     (''operations_observed_configuration_hash_sha256'',
        \<lambda>r. hash_ok (op_observed_configuration_hash r)),
     (''operations_observation_complete'', \<lambda>r. observation_complete (op_observed_revision r)
        (op_observed_configuration_hash r) (op_observed_at r) \<and>
        (op_observed_status r = None \<longleftrightarrow> op_observed_revision r = None)),
     (''operations_success_observation_valid'', \<lambda>r. op_status r \<noteq> StatusSucceeded \<or>
        (op_observed_status r = Some MailboxStatusActive \<and>
         op_observed_revision r = Some (op_desired_revision r) \<and>
         op_observed_configuration_hash r = Some (op_configuration_hash r) \<and>
         op_observed_at r \<noteq> None))]"

definition attempt_checks :: "(string \<times> (attempt_row \<Rightarrow> bool)) list" where
  "attempt_checks =
    [(''operation_attempts_attempt_number_positive'', \<lambda>a. 0 < at_attempt_number a),
     (''operation_attempts_lease_epoch_positive'', \<lambda>a. 0 < at_lease_epoch a),
     (''operation_attempts_prior_status_valid'', \<lambda>a. claimablePriorStatus (at_prior_status a)),
     (''operation_attempts_desired_revision_positive'', \<lambda>a. 0 < at_desired_revision a),
     (''operation_attempts_configuration_hash_sha256'', \<lambda>a. length (at_configuration_hash a) = 32),
     (''operation_attempts_result_status_valid'', \<lambda>a. case at_result_status a of None \<Rightarrow> True
        | Some s \<Rightarrow> s \<in> {StatusRetryWait, StatusUnknown, StatusSucceeded, StatusFailed,
            StatusDead, StatusSuperseded}),
     (''operation_attempts_completion_complete'', \<lambda>a.
        (at_completed_at a = None \<and> at_result_status a = None \<and> at_error_code a = None) \<or>
        (at_completed_at a \<noteq> None \<and> at_result_status a \<noteq> None)),
     (''operation_attempts_completion_time_valid'', \<lambda>a. case at_completed_at a of None \<Rightarrow> True
        | Some t \<Rightarrow> at_started_at a \<le> t),
     (''operation_attempts_error_code_valid'', \<lambda>a. code_ok (at_error_code a)),
     (''operation_attempts_success_error_empty'', \<lambda>a.
        at_result_status a \<noteq> Some StatusSucceeded \<or> at_error_code a = None),
     (''operation_attempts_observed_status_valid'', \<lambda>a. observed_ok (at_observed_status a)),
     (''operation_attempts_observed_revision_nonnegative'',
        \<lambda>a. revision_ok (at_observed_revision a)),
     (''operation_attempts_observed_configuration_hash_sha256'',
        \<lambda>a. hash_ok (at_observed_configuration_hash a)),
     (''operation_attempts_observation_complete'', \<lambda>a. observation_complete (at_observed_revision a)
        (at_observed_configuration_hash a) (at_observed_at a) \<and>
        (at_observed_status a = None \<longleftrightarrow> at_observed_revision a = None))]"

definition outbox_checks :: "(string \<times> (outbox_row \<Rightarrow> bool)) list" where
  "outbox_checks =
    [(''outbox_events_event_type_valid'', \<lambda>e. ob_event_type e = ''mailbox.provision.requested''),
     (''outbox_events_status_valid'',
        \<lambda>e. ob_status e \<in> {''pending'', ''processing'', ''delivered'', ''dead''}),
     (''outbox_events_attempts_nonnegative'', \<lambda>e. 0 \<le> ob_attempts e)]"

definition row_constraints :: "(string \<times> ('r \<Rightarrow> bool)) list \<Rightarrow> 'r list \<Rightarrow> (string \<times> bool) list" where
  "row_constraints checks rows = map (\<lambda>(name, p). (name, list_all p rows)) checks"

text \<open>Keys and references: primary keys, unique constraints and foreign keys.\<close>

definition key_constraints :: "db \<Rightarrow> (string \<times> bool) list" where
  "key_constraints db =
    [(''tenants_pkey'', distinct (map t_id (db_tenants db))),
     (''domains_pkey'', distinct (map d_id (db_domains db))),
     (''mailboxes_pkey'', distinct (map mb_id (db_mailboxes db))),
     (''mailboxes_domain_local_part_unique'',
        distinct (map (\<lambda>m. (mb_domain_id m, mb_local_part m)) (db_mailboxes db))),
     (''operations_pkey'', distinct (map op_id (db_operations db))),
     (''operations_tenant_idempotency_unique'',
        distinct (map (\<lambda>r. (op_tenant_id r, op_idempotency_key r)) (db_operations db))),
     (''operation_attempts_pkey'', distinct (map at_id (db_attempts db))),
     (''operation_attempts_operation_number_unique'',
        distinct (map (\<lambda>a. (at_operation_id a, at_attempt_number a)) (db_attempts db))),
     (''operation_attempts_operation_epoch_unique'',
        distinct (map (\<lambda>a. (at_operation_id a, at_lease_epoch a)) (db_attempts db))),
     (''outbox_events_pkey'', distinct (map ob_id (db_outbox db))),
     (''outbox_events_operation_unique'', distinct (map ob_operation_id (db_outbox db))),
     (''mailboxes_domain_tenant_fk'', list_all (\<lambda>m. (mb_domain_id m, mb_tenant_id m) \<in>
        set (map (\<lambda>d. (d_id d, d_tenant_id d)) (db_domains db))) (db_mailboxes db)),
     (''operations_tenant_id_fkey'', list_all (\<lambda>r. op_tenant_id r \<in>
        set (map t_id (db_tenants db))) (db_operations db)),
     (''operation_attempts_operation_tenant_fk'', list_all (\<lambda>a. (at_operation_id a, at_tenant_id a) \<in>
        set (map (\<lambda>r. (op_id r, op_tenant_id r)) (db_operations db))) (db_attempts db)),
     (''outbox_events_operation_tenant_fk'', list_all (\<lambda>e. (ob_operation_id e, ob_tenant_id e) \<in>
        set (map (\<lambda>r. (op_id r, op_tenant_id r)) (db_operations db))) (db_outbox db))]"

definition schema_constraints :: "db \<Rightarrow> (string \<times> bool) list" where
  "schema_constraints db =
     row_constraints mailbox_checks (db_mailboxes db) @
     row_constraints operation_checks (db_operations db) @
     row_constraints attempt_checks (db_attempts db) @
     row_constraints outbox_checks (db_outbox db) @
     key_constraints db"

definition schema_ok :: "db \<Rightarrow> bool" where
  "schema_ok db \<longleftrightarrow> list_all snd (schema_constraints db)"

definition guard_schema :: "'a \<Rightarrow> db \<Rightarrow> ('a \<times> db) result" where
  "guard_schema x db = (case first_violation (schema_constraints db) of
     None \<Rightarrow> Inr (x, db) | Some name \<Rightarrow> Inl (PgError name))"

section \<open>Row validity\<close>

definition row_ok :: "(string \<times> ('r \<Rightarrow> bool)) list \<Rightarrow> 'r \<Rightarrow> bool" where
  "row_ok checks r \<longleftrightarrow> list_all (\<lambda>c. snd c r) checks"

lemma row_constraints_iff:
  "list_all snd (row_constraints checks rows) \<longleftrightarrow> (\<forall>r \<in> set rows. row_ok checks r)"
  by (induction checks) (auto simp: row_constraints_def row_ok_def list_all_iff)

lemma schema_ok_iff:
  "schema_ok db \<longleftrightarrow>
     (\<forall>m \<in> set (db_mailboxes db). row_ok mailbox_checks m) \<and>
     (\<forall>r \<in> set (db_operations db). row_ok operation_checks r) \<and>
     (\<forall>a \<in> set (db_attempts db). row_ok attempt_checks a) \<and>
     (\<forall>e \<in> set (db_outbox db). row_ok outbox_checks e) \<and>
     list_all snd (key_constraints db)"
  by (simp add: schema_ok_def schema_constraints_def row_constraints_iff)

lemma guard_schema_ok [simp]: "schema_ok db \<Longrightarrow> guard_schema x db = Inr (x, db)"
  by (simp add: guard_schema_def schema_ok_def first_violation_None [THEN iffD2])

lemma guard_schema_Inr: "guard_schema x db = Inr (y, db') \<Longrightarrow> y = x \<and> db' = db \<and> schema_ok db'"
  by (auto simp: guard_schema_def schema_ok_def split: option.splits)

text \<open>The checks of a row, as rules for the simplifier.\<close>

lemma operation_row_okD:
  assumes "row_ok operation_checks r"
  shows "op_kind r = ''mailbox.provision''" "op_resource_type r = ''mailbox''"
    "stored_status (op_status r)" "0 < op_desired_revision r"
    "length (op_configuration_hash r) = 32" "0 \<le> op_attempt_count r"
    "op_attempt_count r \<le> MaxInt32" "0 \<le> op_lease_epoch r" "op_lease_epoch r \<le> MaxInt64"
    "op_status r = StatusRunning \<longleftrightarrow> op_lease_owner_id r \<noteq> None"
    "op_status r = StatusRunning \<longleftrightarrow> op_lease_expires_at r \<noteq> None"
  using assms by (auto simp: row_ok_def operation_checks_def)

end
