(* ===== verification/Identity_Store.thy ===== *)
theory Identity_Store
  imports Ledger_Schema Identity
begin

text \<open>
  The identity tables: the row types of \<^verbatim>\<open>generated/models.go\<close>, the constraints of
  migration \<^verbatim>\<open>00002_identity_authentication.sql\<close> and the statements of
  \<^verbatim>\<open>generated/identity.sql.go\<close>. The tenants, domains and mailboxes the queries join
  are the control-plane tables of \<open>Ledger_Schema\<close>. \<^verbatim>\<open>[[:cntrl:]]\<close> is read as the
  control characters of Unicode, \<^verbatim>\<open>char_length\<close> counts runes. \<open>collation\<close> ranks
  texts for \<^verbatim>\<open>ORDER BY\<close>.
\<close>

section \<open>Rows\<close>

record principal_row =
  ip_id :: uuid
  ip_tenant_id :: uuid
  ip_oidc_issuer :: string
  ip_oidc_subject :: string
  ip_account_type :: string
  ip_mailbox_id :: "uuid option"
  ip_status :: string
  ip_display_name :: string
  ip_created_at :: instant
  ip_updated_at :: instant

record permission_row =
  pp_principal_id :: uuid
  pp_permission_name :: string
  pp_granted_at :: instant

record auth_flow_row =
  af_id :: uuid
  af_state_digest :: bytes
  af_browser_cookie_digest :: bytes
  af_nonce_digest :: bytes
  af_pkce_verifier_ciphertext :: bytes
  af_encryption_key_id :: string
  af_return_to :: string
  af_created_at :: instant
  af_expires_at :: instant
  af_consumed_at :: "instant option"

record user_session_row =
  us_id :: uuid
  us_session_digest :: bytes
  us_principal_id :: uuid
  us_oidc_issuer :: string
  us_oidc_subject :: string
  us_oidc_session_id :: "string option"
  us_csrf_digest :: bytes
  us_created_at :: instant
  us_last_seen_at :: instant
  us_idle_expires_at :: instant
  us_absolute_expires_at :: instant
  us_revoked_at :: "instant option"
  us_revocation_reason :: "string option"

record audit_row =
  au_id :: uuid
  au_principal_id :: "uuid option"
  au_action :: string
  au_result :: string
  au_failure_category :: "string option"
  au_source_digest :: bytes
  au_request_id :: string
  au_occurred_at :: instant

record identity_db =
  idb_control :: db
  idb_principals :: "principal_row list"
  idb_permissions :: "permission_row list"
  idb_flows :: "auth_flow_row list"
  idb_sessions :: "user_session_row list"
  idb_audit :: "audit_row list"

section \<open>Constraints\<close>

definition btrimmed :: "string \<Rightarrow> bool" where
  "btrimmed s \<longleftrightarrow> trim_list (\<lambda>c. c = CHR '' '') s = s"

definition char_length_between :: "nat \<Rightarrow> nat \<Rightarrow> string \<Rightarrow> bool" where
  "char_length_between lo hi s \<longleftrightarrow> lo \<le> RuneCountInString s \<and> RuneCountInString s \<le> hi"

definition no_cntrl :: "string \<Rightarrow> bool" where
  "no_cntrl s \<longleftrightarrow> \<not> contains_rune IsControl s"

definition issuer_ok :: "string \<Rightarrow> bool" where
  "issuer_ok s \<longleftrightarrow> btrimmed s \<and> char_length_between 1 2048 s \<and> no_cntrl s"

definition external_id_ok :: "string \<Rightarrow> bool" where
  "external_id_ok s \<longleftrightarrow> char_length_between 1 255 s \<and> no_cntrl s"

fun dotted_names :: "bool \<Rightarrow> nat \<Rightarrow> string \<Rightarrow> bool" where
  \<comment> \<open>\<^verbatim>\<open>^[a-z][a-z0-9]*(\.[a-z][a-z0-9]*)+$\<close>: \<open>start\<close> at the first character of a
    name, \<open>dots\<close> counts the separators passed.\<close>
  "dotted_names start dots [] = (\<not> start \<and> 0 < dots)"
| "dotted_names start dots (c # s) =
     (if start then is_lower c \<and> dotted_names False dots s
      else if c = CHR ''.'' then dotted_names True (dots + 1) s
      else (is_lower c \<or> is_digit c) \<and> dotted_names False dots s)"

definition principal_checks :: "(string \<times> (principal_row \<Rightarrow> bool)) list" where
  "principal_checks =
    [(''identity_principals_issuer_valid'', \<lambda>p. issuer_ok (ip_oidc_issuer p)),
     (''identity_principals_subject_valid'', \<lambda>p. external_id_ok (ip_oidc_subject p)),
     (''identity_principals_account_type_valid'',
        \<lambda>p. ip_account_type p \<in> {''mailbox'', ''administrator''}),
     (''identity_principals_mailbox_binding_valid'', \<lambda>p.
        (ip_account_type p = ''mailbox'' \<and> ip_mailbox_id p \<noteq> None) \<or>
        (ip_account_type p = ''administrator'' \<and> ip_mailbox_id p = None)),
     (''identity_principals_status_valid'', \<lambda>p. ip_status p \<in> {''active'', ''suspended''}),
     (''identity_principals_display_name_valid'',
        \<lambda>p. btrimmed (ip_display_name p) \<and> char_length_between 1 128 (ip_display_name p))]"

definition permission_checks :: "(string \<times> (permission_row \<Rightarrow> bool)) list" where
  "permission_checks =
    [(''principal_permissions_name_valid'', \<lambda>p. char_length_between 3 128 (pp_permission_name p) \<and>
        dotted_names True 0 (pp_permission_name p))]"

definition flow_checks :: "(string \<times> (auth_flow_row \<Rightarrow> bool)) list" where
  "flow_checks =
    [(''auth_flows_state_digest_sha256'', \<lambda>f. length (af_state_digest f) = 32),
     (''auth_flows_browser_cookie_digest_sha256'', \<lambda>f. length (af_browser_cookie_digest f) = 32),
     (''auth_flows_nonce_digest_sha256'', \<lambda>f. length (af_nonce_digest f) = 32),
     (''auth_flows_verifier_ciphertext_valid'', \<lambda>f.
        32 \<le> length (af_pkce_verifier_ciphertext f) \<and> length (af_pkce_verifier_ciphertext f) \<le> 4096),
     (''auth_flows_encryption_key_id_valid'', \<lambda>f. btrimmed (af_encryption_key_id f) \<and>
        char_length_between 1 128 (af_encryption_key_id f) \<and> no_cntrl (af_encryption_key_id f)),
     (''auth_flows_return_to_valid'', \<lambda>f. 1 \<le> length (af_return_to f) \<and> length (af_return_to f) \<le> 2048 \<and>
        HasPrefix (af_return_to f) ''/'' \<and> \<not> HasPrefix (af_return_to f) ''//'' \<and>
        CHR 0x5C \<notin> set (af_return_to f) \<and> no_cntrl (af_return_to f)),
     (''auth_flows_expiry_valid'', \<lambda>f. af_created_at f < af_expires_at f \<and>
        af_expires_at f \<le> af_created_at f + 10 * time_Minute),
     (''auth_flows_consumed_at_valid'', \<lambda>f. case af_consumed_at f of None \<Rightarrow> True
        | Some t \<Rightarrow> af_created_at f \<le> t)]"

definition session_checks :: "(string \<times> (user_session_row \<Rightarrow> bool)) list" where
  "session_checks =
    [(''user_sessions_session_digest_sha256'', \<lambda>s. length (us_session_digest s) = 32),
     (''user_sessions_csrf_digest_sha256'', \<lambda>s. length (us_csrf_digest s) = 32),
     (''user_sessions_oidc_issuer_valid'', \<lambda>s. issuer_ok (us_oidc_issuer s)),
     (''user_sessions_oidc_subject_valid'', \<lambda>s. external_id_ok (us_oidc_subject s)),
     (''user_sessions_oidc_session_id_valid'', \<lambda>s. case us_oidc_session_id s of None \<Rightarrow> True
        | Some x \<Rightarrow> external_id_ok x),
     (''user_sessions_lifetime_valid'', \<lambda>s. us_created_at s \<le> us_last_seen_at s \<and>
        us_created_at s < us_idle_expires_at s \<and> us_idle_expires_at s \<le> us_absolute_expires_at s \<and>
        us_created_at s < us_absolute_expires_at s \<and>
        us_absolute_expires_at s \<le> us_created_at s + 8 * 60 * time_Minute),
     (''user_sessions_revocation_valid'', \<lambda>s. case us_revoked_at s of
          None \<Rightarrow> us_revocation_reason s = None
        | Some t \<Rightarrow> us_created_at s \<le> t \<and> (case us_revocation_reason s of None \<Rightarrow> False
            | Some r \<Rightarrow> btrimmed r \<and> char_length_between 1 128 r))]"

definition audit_actions :: "string list" where
  "audit_actions = [''login'', ''logout'', ''backchannel_logout'', ''session_revoked'',
     ''principal_disabled'', ''cross_portal_denied'']"

definition failure_name :: "string \<Rightarrow> bool" where
  "failure_name s = (case s of [] \<Rightarrow> False
     | c # r \<Rightarrow> is_lower c \<and> list_all (\<lambda>x. is_lower x \<or> is_digit x \<or> x = CHR ''_'') r)"

definition audit_checks :: "(string \<times> (audit_row \<Rightarrow> bool)) list" where
  "audit_checks =
    [(''authentication_audit_events_action_valid'', \<lambda>a. au_action a \<in> set audit_actions),
     (''authentication_audit_events_result_valid'', \<lambda>a. au_result a \<in> {''succeeded'', ''failed''}),
     (''authentication_audit_events_failure_category_valid'', \<lambda>a.
        (au_result a = ''succeeded'' \<and> au_failure_category a = None) \<or>
        (au_result a = ''failed'' \<and> (case au_failure_category a of None \<Rightarrow> False
           | Some c \<Rightarrow> btrimmed c \<and> char_length_between 1 128 c \<and> failure_name c))),
     (''authentication_audit_events_source_digest_sha256'', \<lambda>a. length (au_source_digest a) = 32),
     (''authentication_audit_events_request_id_valid'', \<lambda>a. char_length_between 1 64 (au_request_id a) \<and>
        matches_plus (\<lambda>c. is_upper c \<or> is_lower c \<or> is_digit c \<or> c \<in> set ''._-'') (au_request_id a))]"

definition identity_keys :: "identity_db \<Rightarrow> (string \<times> bool) list" where
  "identity_keys db =
    [(''identity_principals_pkey'', distinct (map ip_id (idb_principals db))),
     (''identity_principals_external_identity_unique'',
        distinct (map (\<lambda>p. (ip_oidc_issuer p, ip_oidc_subject p)) (idb_principals db))),
     (''principal_permissions_pkey'',
        distinct (map (\<lambda>p. (pp_principal_id p, pp_permission_name p)) (idb_permissions db))),
     (''auth_flows_pkey'', distinct (map af_id (idb_flows db))),
     (''auth_flows_state_digest_unique'', distinct (map af_state_digest (idb_flows db))),
     (''user_sessions_pkey'', distinct (map us_id (idb_sessions db))),
     (''user_sessions_session_digest_unique'', distinct (map us_session_digest (idb_sessions db))),
     (''authentication_audit_events_pkey'', distinct (map au_id (idb_audit db))),
     (''identity_principals_tenant_id_fkey'', list_all (\<lambda>p. ip_tenant_id p \<in>
        set (map t_id (db_tenants (idb_control db)))) (idb_principals db)),
     (''identity_principals_mailbox_tenant_fk'', list_all (\<lambda>p. case ip_mailbox_id p of None \<Rightarrow> True
        | Some m \<Rightarrow> (m, ip_tenant_id p) \<in>
            set (map (\<lambda>r. (mb_id r, mb_tenant_id r)) (db_mailboxes (idb_control db)))) (idb_principals db)),
     (''user_sessions_principal_external_identity_fk'', list_all (\<lambda>s.
        (us_principal_id s, us_oidc_issuer s, us_oidc_subject s) \<in>
        set (map (\<lambda>p. (ip_id p, ip_oidc_issuer p, ip_oidc_subject p)) (idb_principals db))) (idb_sessions db)),
     (''authentication_audit_events_principal_id_fkey'', list_all (\<lambda>a. case au_principal_id a of None \<Rightarrow> True
        | Some p \<Rightarrow> p \<in> set (map ip_id (idb_principals db))) (idb_audit db))]"

definition identity_constraints :: "identity_db \<Rightarrow> (string \<times> bool) list" where
  "identity_constraints db =
     row_constraints principal_checks (idb_principals db) @
     row_constraints permission_checks (idb_permissions db) @
     row_constraints flow_checks (idb_flows db) @
     row_constraints session_checks (idb_sessions db) @
     row_constraints audit_checks (idb_audit db) @
     identity_keys db @ schema_constraints (idb_control db)"

definition identity_ok :: "identity_db \<Rightarrow> bool" where
  "identity_ok db \<longleftrightarrow> list_all snd (identity_constraints db)"

definition guard_identity :: "'a \<Rightarrow> identity_db \<Rightarrow> ('a \<times> identity_db) result" where
  "guard_identity x db = (case first_violation (identity_constraints db) of
     None \<Rightarrow> Inr (x, db) | Some name \<Rightarrow> Inl (PgError name))"

lemma guard_identity_Inr: "guard_identity x db = Inr (y, db') \<longleftrightarrow> y = x \<and> db' = db \<and> identity_ok db'"
  unfolding guard_identity_def identity_ok_def first_violation_None [symmetric]
  by (auto simp del: first_violation_None split: option.splits)

lemma identity_ok_iff:
  "identity_ok db \<longleftrightarrow>
     (\<forall>p \<in> set (idb_principals db). row_ok principal_checks p) \<and>
     (\<forall>p \<in> set (idb_permissions db). row_ok permission_checks p) \<and>
     (\<forall>f \<in> set (idb_flows db). row_ok flow_checks f) \<and>
     (\<forall>s \<in> set (idb_sessions db). row_ok session_checks s) \<and>
     (\<forall>a \<in> set (idb_audit db). row_ok audit_checks a) \<and>
     list_all snd (identity_keys db) \<and> schema_ok (idb_control db)"
  by (simp add: identity_ok_def identity_constraints_def row_constraints_iff schema_ok_def)

end
