(* ===== verification/Identity_Statements.thy ===== *)
theory Identity_Statements
  imports Identity_Store
begin

text \<open>
  The statements of \<^verbatim>\<open>generated/identity.sql.go\<close> as functions on the identity
  tables. A \<^verbatim>\<open>:one\<close> query without a row is \<^verbatim>\<open>pgx.ErrNoRows\<close>; a statement whose result
  violates a constraint fails and changes nothing.
\<close>

section \<open>Login flows\<close>

record ConsumeAuthFlowRow =
  cfr_ID :: uuid
  cfr_NonceDigest :: bytes
  cfr_PkceVerifierCiphertext :: bytes
  cfr_EncryptionKeyID :: string
  cfr_ReturnTo :: string
  cfr_CreatedAt :: instant
  cfr_ExpiresAt :: instant
  cfr_ConsumedAt :: "instant option"

definition consume_row :: "auth_flow_row \<Rightarrow> ConsumeAuthFlowRow" where
  "consume_row f =
     \<lparr>cfr_ID = af_id f, cfr_NonceDigest = af_nonce_digest f,
      cfr_PkceVerifierCiphertext = af_pkce_verifier_ciphertext f,
      cfr_EncryptionKeyID = af_encryption_key_id f, cfr_ReturnTo = af_return_to f,
      cfr_CreatedAt = af_created_at f, cfr_ExpiresAt = af_expires_at f,
      cfr_ConsumedAt = af_consumed_at f\<rparr>"

definition consumable :: "bytes \<Rightarrow> bytes \<Rightarrow> instant \<Rightarrow> auth_flow_row \<Rightarrow> bool" where
  "consumable state_digest cookie_digest at f \<longleftrightarrow>
     af_state_digest f = state_digest \<and> af_browser_cookie_digest f = cookie_digest \<and>
     af_consumed_at f = None \<and> at < af_expires_at f"

definition consumeAuthFlow ::
  "bytes \<Rightarrow> bytes \<Rightarrow> instant \<Rightarrow> identity_db \<Rightarrow> (ConsumeAuthFlowRow \<times> identity_db) result" where
  "consumeAuthFlow state_digest cookie_digest at db =
     (case find (consumable state_digest cookie_digest at) (idb_flows db) of
        None \<Rightarrow> Inl ErrNoRows
      | Some f \<Rightarrow> guard_identity (consume_row (f\<lparr>af_consumed_at := Some at\<rparr>))
          (db\<lparr>idb_flows := update_where (consumable state_digest cookie_digest at)
             (\<lambda>f. f\<lparr>af_consumed_at := Some at\<rparr>) (idb_flows db)\<rparr>))"

definition createAuthFlow :: "auth_flow_row \<Rightarrow> identity_db \<Rightarrow> (auth_flow_row \<times> identity_db) result" where
  \<comment> \<open>The inserted columns are those of the row; \<^verbatim>\<open>consumed_at\<close> starts as NULL.\<close>
  "createAuthFlow params db =
     (let row = params\<lparr>af_consumed_at := None\<rparr>
      in guard_identity row (db\<lparr>idb_flows := idb_flows db @ [row]\<rparr>))"

section \<open>Audit\<close>

definition createAuthenticationAuditEvent :: "audit_row \<Rightarrow> identity_db \<Rightarrow> (unit \<times> identity_db) result" where
  "createAuthenticationAuditEvent row db = guard_identity () (db\<lparr>idb_audit := idb_audit db @ [row]\<rparr>)"

section \<open>Principals\<close>

record ActivePrincipalRow =
  apr_ID :: uuid
  apr_TenantID :: uuid
  apr_AccountType :: string
  apr_MailboxID :: "uuid option"
  apr_DisplayName :: string
  apr_MailboxLocalPart :: "string option"
  apr_MailboxDomain :: "string option"

definition joined_mailbox :: "identity_db \<Rightarrow> principal_row \<Rightarrow> mailbox_row option" where
  "joined_mailbox db p = (case ip_mailbox_id p of None \<Rightarrow> None
     | Some m \<Rightarrow> find_row mb_id m (db_mailboxes (idb_control db)))"

definition joined_domain :: "identity_db \<Rightarrow> principal_row \<Rightarrow> domain_row option" where
  "joined_domain db p = (case joined_mailbox db p of None \<Rightarrow> None
     | Some m \<Rightarrow> find_row d_id (mb_domain_id m) (db_domains (idb_control db)))"

definition has_permission :: "identity_db \<Rightarrow> uuid \<Rightarrow> string \<Rightarrow> bool" where
  "has_permission db p name \<longleftrightarrow>
     list_ex (\<lambda>r. pp_principal_id r = p \<and> pp_permission_name r = name) (idb_permissions db)"

definition active_account :: "identity_db \<Rightarrow> principal_row \<Rightarrow> bool" where
  \<comment> \<open>The condition both queries put on the principal, its tenant, its mailbox and its
    permission to enter the administration portal.\<close>
  "active_account db p \<longleftrightarrow>
     ip_status p = ''active'' \<and>
     (case find_row t_id (ip_tenant_id p) (db_tenants (idb_control db)) of None \<Rightarrow> False
        | Some t \<Rightarrow> t_status t = ''active'') \<and>
     ((ip_account_type p = ''mailbox'' \<and> (case joined_mailbox db p of None \<Rightarrow> False
         | Some m \<Rightarrow> mb_tenant_id m = ip_tenant_id p \<and> mb_desired_status m = ''active'')) \<or>
      (ip_account_type p = ''administrator'' \<and> has_permission db (ip_id p) ''portal.admin.access''))"

definition active_principal_row :: "identity_db \<Rightarrow> principal_row \<Rightarrow> ActivePrincipalRow" where
  "active_principal_row db p =
     \<lparr>apr_ID = ip_id p, apr_TenantID = ip_tenant_id p, apr_AccountType = ip_account_type p,
      apr_MailboxID = ip_mailbox_id p, apr_DisplayName = ip_display_name p,
      apr_MailboxLocalPart = map_option mb_local_part (joined_mailbox db p),
      apr_MailboxDomain = map_option d_name (joined_domain db p)\<rparr>"

definition getActivePrincipalByExternalIdentity ::
  "string \<Rightarrow> string \<Rightarrow> identity_db \<Rightarrow> ActivePrincipalRow result" where
  "getActivePrincipalByExternalIdentity issuer subject db =
     (case find (\<lambda>p. ip_oidc_issuer p = issuer \<and> ip_oidc_subject p = subject \<and> active_account db p)
             (idb_principals db) of
        None \<Rightarrow> Inl ErrNoRows
      | Some p \<Rightarrow> Inr (active_principal_row db p))"

definition listPrincipalPermissions :: "(string \<Rightarrow> nat) \<Rightarrow> uuid \<Rightarrow> identity_db \<Rightarrow> string list" where
  "listPrincipalPermissions collation p db =
     sort_key collation (map pp_permission_name (filter (\<lambda>r. pp_principal_id r = p) (idb_permissions db)))"

section \<open>Sessions\<close>

record CreateUserSessionRow =
  cur_ID :: uuid
  cur_PrincipalID :: uuid
  cur_CreatedAt :: instant
  cur_LastSeenAt :: instant
  cur_IdleExpiresAt :: instant
  cur_AbsoluteExpiresAt :: instant

definition createUserSession :: "user_session_row \<Rightarrow> identity_db \<Rightarrow> (CreateUserSessionRow \<times> identity_db) result" where
  \<comment> \<open>\<^verbatim>\<open>last_seen_at\<close> is the creation time; the revocation columns start as NULL.\<close>
  "createUserSession params db =
     (let row = params\<lparr>us_last_seen_at := us_created_at params, us_revoked_at := None,
                 us_revocation_reason := None\<rparr>
      in guard_identity
           \<lparr>cur_ID = us_id row, cur_PrincipalID = us_principal_id row, cur_CreatedAt = us_created_at row,
            cur_LastSeenAt = us_last_seen_at row, cur_IdleExpiresAt = us_idle_expires_at row,
            cur_AbsoluteExpiresAt = us_absolute_expires_at row\<rparr>
           (db\<lparr>idb_sessions := idb_sessions db @ [row]\<rparr>))"

record ActiveSessionRow =
  asr_SessionID :: uuid
  asr_Principal :: ActivePrincipalRow
  asr_CreatedAt :: instant
  asr_LastSeenAt :: instant
  asr_IdleExpiresAt :: instant
  asr_AbsoluteExpiresAt :: instant
  asr_CsrfDigest :: bytes

definition live_session :: "instant \<Rightarrow> user_session_row \<Rightarrow> bool" where
  "live_session at s \<longleftrightarrow>
     us_revoked_at s = None \<and> at < us_idle_expires_at s \<and> at < us_absolute_expires_at s"

definition session_account :: "identity_db \<Rightarrow> user_session_row \<Rightarrow> principal_row option" where
  "session_account db s = (case find_row ip_id (us_principal_id s) (idb_principals db) of
     None \<Rightarrow> None | Some p \<Rightarrow> if active_account db p then Some p else None)"

definition active_session_row :: "identity_db \<Rightarrow> user_session_row \<Rightarrow> principal_row \<Rightarrow> ActiveSessionRow" where
  "active_session_row db s p =
     \<lparr>asr_SessionID = us_id s, asr_Principal = active_principal_row db p,
      asr_CreatedAt = us_created_at s, asr_LastSeenAt = us_last_seen_at s,
      asr_IdleExpiresAt = us_idle_expires_at s, asr_AbsoluteExpiresAt = us_absolute_expires_at s,
      asr_CsrfDigest = us_csrf_digest s\<rparr>"

definition getActiveSessionByDigest :: "bytes \<Rightarrow> instant \<Rightarrow> identity_db \<Rightarrow> ActiveSessionRow result" where
  "getActiveSessionByDigest digest at db =
     (case find (\<lambda>s. us_session_digest s = digest \<and> live_session at s \<and> session_account db s \<noteq> None)
             (idb_sessions db) of
        None \<Rightarrow> Inl ErrNoRows
      | Some s \<Rightarrow> (case session_account db s of
          None \<Rightarrow> Inl ErrNoRows
        | Some p \<Rightarrow> Inr (active_session_row db s p)))"

definition revoke_sessions ::
  "(user_session_row \<Rightarrow> bool) \<Rightarrow> instant \<Rightarrow> string \<Rightarrow> identity_db \<Rightarrow> (int \<times> identity_db) result" where
  \<comment> \<open>The common part of the three revoking updates; the result counts the changed rows.\<close>
  "revoke_sessions p at reason db =
     (let hit = (\<lambda>s. p s \<and> us_revoked_at s = None)
      in guard_identity (int (length (filter hit (idb_sessions db))))
           (db\<lparr>idb_sessions := update_where hit
              (\<lambda>s. s\<lparr>us_revoked_at := Some at, us_revocation_reason := Some reason\<rparr>) (idb_sessions db)\<rparr>))"

definition revokeSessionByDigest ::
  "bytes \<Rightarrow> instant \<Rightarrow> string \<Rightarrow> identity_db \<Rightarrow> (int \<times> identity_db) result" where
  "revokeSessionByDigest digest = revoke_sessions (\<lambda>s. us_session_digest s = digest)"

definition revokeSessionsByOidcSessionID ::
  "string \<Rightarrow> string \<Rightarrow> instant \<Rightarrow> string \<Rightarrow> identity_db \<Rightarrow> (int \<times> identity_db) result" where
  "revokeSessionsByOidcSessionID issuer sid =
     revoke_sessions (\<lambda>s. us_oidc_issuer s = issuer \<and> us_oidc_session_id s = Some sid)"

definition revokeSessionsByOidcSubject ::
  "string \<Rightarrow> string \<Rightarrow> instant \<Rightarrow> string \<Rightarrow> identity_db \<Rightarrow> (int \<times> identity_db) result" where
  "revokeSessionsByOidcSubject issuer subject =
     revoke_sessions (\<lambda>s. us_oidc_issuer s = issuer \<and> us_oidc_subject s = subject)"

definition touched_session :: "instant \<Rightarrow> duration \<Rightarrow> user_session_row \<Rightarrow> user_session_row" where
  "touched_session at idle_timeout s =
     s\<lparr>us_last_seen_at := at, us_idle_expires_at := min (at + idle_timeout) (us_absolute_expires_at s)\<rparr>"

definition touchActiveSession ::
  "instant \<Rightarrow> duration \<Rightarrow> uuid \<Rightarrow> identity_db \<Rightarrow> ((instant \<times> instant) \<times> identity_db) result" where
  "touchActiveSession at idle_timeout sid db =
     (case find (\<lambda>s. us_id s = sid \<and> live_session at s) (idb_sessions db) of
        None \<Rightarrow> Inl ErrNoRows
      | Some s \<Rightarrow> guard_identity (at, us_idle_expires_at (touched_session at idle_timeout s))
          (db\<lparr>idb_sessions := update_where (\<lambda>s. us_id s = sid \<and> live_session at s)
             (touched_session at idle_timeout) (idb_sessions db)\<rparr>))"

end
