(* ===== verification/Identity_Runs.thy ===== *)
theory Identity_Runs
  imports Identity_Statements
begin

text \<open>
  The identity tables as a transition system. A step is one statement of any API
  instance, or a change that administration makes to principals, permissions
  and the control-plane tables. \<open>identity_inv\<close> adds to the schema the bound on
  idle time that only the Go code enforces; \<open>identity_le\<close> says what a step can
  never undo: a consumed flow, a revoked session, a session's owner and its
  absolute end, an audit event.
\<close>

section \<open>Steps\<close>

definition session_lifetimes_ok :: "user_session_row \<Rightarrow> bool" where
  \<comment> \<open>The bound \<^verbatim>\<open>createSession\<close> checks before it inserts.\<close>
  "session_lifetimes_ok s \<longleftrightarrow> us_idle_expires_at s \<le> us_created_at s + DefaultSessionIdleTimeout"

inductive identity_step :: "identity_db \<Rightarrow> identity_db \<Rightarrow> bool" where
  flow_created: "createAuthFlow f db = Inr (x, db') \<Longrightarrow> identity_step db db'"
| flow_consumed: "consumeAuthFlow sd cd t db = Inr (x, db') \<Longrightarrow> identity_step db db'"
| session_created: "createUserSession s db = Inr (x, db') \<Longrightarrow> session_lifetimes_ok s \<Longrightarrow> identity_step db db'"
| session_touched: "touchActiveSession t idle sid db = Inr (x, db') \<Longrightarrow>
    idle \<le> DefaultSessionIdleTimeout \<Longrightarrow> identity_step db db'"
| sessions_revoked: "revoke_sessions p t reason db = Inr (n, db') \<Longrightarrow> identity_step db db'"
| audited: "createAuthenticationAuditEvent a db = Inr (x, db') \<Longrightarrow> identity_step db db'"
| administered: "identity_ok db' \<Longrightarrow> idb_flows db' = idb_flows db \<Longrightarrow>
    idb_sessions db' = idb_sessions db \<Longrightarrow> idb_audit db' = idb_audit db \<Longrightarrow> identity_step db db'"

inductive_cases identity_stepE: "identity_step db db'"

section \<open>Invariant and order\<close>

definition idle_bounded :: "user_session_row \<Rightarrow> bool" where
  "idle_bounded s \<longleftrightarrow> us_idle_expires_at s \<le> us_last_seen_at s + DefaultSessionIdleTimeout"

definition identity_inv :: "identity_db \<Rightarrow> bool" where
  "identity_inv db \<longleftrightarrow> identity_ok db \<and> (\<forall>s \<in> set (idb_sessions db). idle_bounded s)"

definition flow_le :: "auth_flow_row \<Rightarrow> auth_flow_row \<Rightarrow> bool" where
  "flow_le f g \<longleftrightarrow> g = f \<or> (af_consumed_at f = None \<and> (\<exists>t. g = f\<lparr>af_consumed_at := Some t\<rparr>))"

definition session_le :: "user_session_row \<Rightarrow> user_session_row \<Rightarrow> bool" where
  "session_le s r \<longleftrightarrow>
     (us_revoked_at s \<noteq> None \<longrightarrow> r = s) \<and>
     us_id r = us_id s \<and> us_session_digest r = us_session_digest s \<and>
     us_principal_id r = us_principal_id s \<and> us_oidc_issuer r = us_oidc_issuer s \<and>
     us_oidc_subject r = us_oidc_subject s \<and> us_oidc_session_id r = us_oidc_session_id s \<and>
     us_csrf_digest r = us_csrf_digest s \<and> us_created_at r = us_created_at s \<and>
     us_absolute_expires_at r = us_absolute_expires_at s"

definition identity_le :: "identity_db \<Rightarrow> identity_db \<Rightarrow> bool" where
  "identity_le db db' \<longleftrightarrow>
     (\<forall>f \<in> set (idb_flows db). \<exists>g \<in> set (idb_flows db'). flow_le f g) \<and>
     (\<forall>s \<in> set (idb_sessions db). \<exists>r \<in> set (idb_sessions db'). session_le s r) \<and>
     set (idb_audit db) \<subseteq> set (idb_audit db')"

lemma flow_le_refl [simp]: "flow_le f f" by (simp add: flow_le_def)

lemma session_le_refl [simp]: "session_le s s" by (simp add: session_le_def)

lemma flow_le_trans: "flow_le f g \<Longrightarrow> flow_le g h \<Longrightarrow> flow_le f h"
  by (auto simp: flow_le_def)

lemma session_le_trans: "session_le s r \<Longrightarrow> session_le r q \<Longrightarrow> session_le s q"
  by (auto simp: session_le_def)

lemma identity_le_refl: "identity_le db db"
  unfolding identity_le_def using flow_le_refl session_le_refl by blast

lemma identity_le_trans: "identity_le a b \<Longrightarrow> identity_le b c \<Longrightarrow> identity_le a c"
  unfolding identity_le_def by (meson flow_le_trans order_trans session_le_trans)

lemma rows_le_update:
  "(\<And>r. le r r) \<Longrightarrow> (\<And>r. p r \<Longrightarrow> le r (f r)) \<Longrightarrow> \<forall>r \<in> set rows. \<exists>q \<in> set (update_where p f rows). le r q"
proof
  fix r
  assume "\<And>r. le r r" "\<And>r. p r \<Longrightarrow> le r (f r)" "r \<in> set rows"
  then show "\<exists>q \<in> set (update_where p f rows). le r q"
    by (intro bexI [of _ "if p r then f r else r"]) (simp_all add: update_where_def)
qed

lemma identity_le_update_sessions:
  assumes "idb_sessions db' = update_where p f (idb_sessions db)" "\<And>s. p s \<Longrightarrow> session_le s (f s)"
    "idb_flows db' = idb_flows db" "idb_audit db' = idb_audit db"
  shows "identity_le db db'"
  using assms rows_le_update [of session_le p f "idb_sessions db"]
  by (auto simp: identity_le_def intro: flow_le_refl)

lemma touched_session_le: "live_session t s \<Longrightarrow> session_le s (touched_session t idle s)"
  by (simp add: session_le_def live_session_def touched_session_def)

lemma revoked_session_le:
  "us_revoked_at s = None \<Longrightarrow> session_le s (s\<lparr>us_revoked_at := Some t, us_revocation_reason := Some r\<rparr>)"
  by (simp add: session_le_def)

section \<open>The transition system\<close>

lemma identity_step_ok: "identity_step db db' \<Longrightarrow> identity_ok db'"
  by (erule identity_stepE)
     (auto simp: createAuthFlow_def consumeAuthFlow_def createUserSession_def touchActiveSession_def
        revoke_sessions_def createAuthenticationAuditEvent_def Let_def guard_identity_Inr split: option.splits)

lemma identity_step_idle:
  assumes "identity_step db db'" "\<forall>s \<in> set (idb_sessions db). idle_bounded s"
  shows "\<forall>s \<in> set (idb_sessions db'). idle_bounded s"
  using assms(1)
proof cases
  case (session_created s x)
  then show ?thesis using assms(2)
    by (auto simp: createUserSession_def Let_def guard_identity_Inr idle_bounded_def session_lifetimes_ok_def)
next
  case (session_touched t idle sid x)
  then show ?thesis using assms(2)
    by (auto simp: touchActiveSession_def guard_identity_Inr idle_bounded_def touched_session_def
        set_update_where split: option.splits)
next
  case (sessions_revoked p t reason n)
  then show ?thesis using assms(2)
    by (auto simp: revoke_sessions_def Let_def guard_identity_Inr idle_bounded_def set_update_where)
qed (use assms(2) in \<open>auto simp: createAuthFlow_def consumeAuthFlow_def createAuthenticationAuditEvent_def
       Let_def guard_identity_Inr split: option.splits\<close>)

lemma identity_step_le:
  assumes "identity_step db db'"
  shows "identity_le db db'"
  using assms
proof cases
  case (flow_consumed sd cd t x)
  then have "idb_flows db' = update_where (consumable sd cd t) (\<lambda>f. f\<lparr>af_consumed_at := Some t\<rparr>) (idb_flows db)"
    "idb_sessions db' = idb_sessions db" "idb_audit db' = idb_audit db"
    by (auto simp: consumeAuthFlow_def guard_identity_Inr split: option.splits)
  moreover have "flow_le f (f\<lparr>af_consumed_at := Some t\<rparr>)" if "consumable sd cd t f" for f
    using that by (auto simp: consumable_def flow_le_def)
  ultimately show ?thesis unfolding identity_le_def
    using rows_le_update [of flow_le] session_le_refl flow_le_refl by (metis order_refl)
next
  case (session_touched t idle sid x)
  then show ?thesis
    by (intro identity_le_update_sessions [of _ "\<lambda>s. us_id s = sid \<and> live_session t s" "touched_session t idle"])
       (auto simp: touchActiveSession_def guard_identity_Inr intro: touched_session_le split: option.splits)
next
  case (sessions_revoked p t reason n)
  then show ?thesis
    by (intro identity_le_update_sessions [of _ "\<lambda>s. p s \<and> us_revoked_at s = None"
          "\<lambda>s. s\<lparr>us_revoked_at := Some t, us_revocation_reason := Some reason\<rparr>"])
       (auto simp: revoke_sessions_def Let_def guard_identity_Inr intro: revoked_session_le)
qed (auto simp: createAuthFlow_def createUserSession_def createAuthenticationAuditEvent_def Let_def
      guard_identity_Inr identity_le_def intro: flow_le_refl session_le_refl)

interpretation identities: step_monotone identity_step identity_inv identity_le
proof
  show "identity_inv t" if "identity_step s t" "identity_inv s" for s t
    using that identity_step_ok identity_step_idle by (auto simp: identity_inv_def)
qed (auto intro: identity_le_refl identity_le_trans identity_step_le)

end
