(* ===== verification/Identity_Repository.thy ===== *)
theory Identity_Repository
  imports Postgres_Link Identity_Runs Identity_Secrets
begin

text \<open>
  \<^verbatim>\<open>internal/data/postgres/identity_repository.go\<close>: the identity repository over the
  statements of \<open>Identity_Statements\<close>. A statement outside a transaction commits
  by itself. Inside a transaction the rows written stay apart until the commit;
  what other transactions commit after the first write cannot touch the rows the
  transaction has locked and is counted before it.
\<close>

section \<open>Conversions\<close>

record IdentityRepository =
  ir_idleTimeout :: duration
  ir_touchInterval :: duration

record identity_env = "identity_db pg_link" +
  pi_collation :: "string \<Rightarrow> nat"
  pi_lower :: "nat \<Rightarrow> nat"

definition NewIdentityRepository :: "bool \<Rightarrow> duration \<Rightarrow> duration \<Rightarrow> IdentityRepository result" where
  "NewIdentityRepository pool idleTimeout touchInterval =
     (if \<not> pool then Inl (OtherError ''pool'')
      else if idleTimeout \<le> 0 \<or> DefaultSessionIdleTimeout < idleTimeout then Inl (OtherError ''idle timeout'')
      else if touchInterval \<le> 0 \<or> idleTimeout < touchInterval then Inl (OtherError ''touch interval'')
      else Inr \<lparr>ir_idleTimeout = idleTimeout, ir_touchInterval = touchInterval\<rparr>)"

definition nullableText :: "string \<Rightarrow> string option" where
  "nullableText value = (if value = '''' then None else Some value)"

definition fixedDigest :: "bytes \<Rightarrow> bytes result" where
  "fixedDigest value =
     (if length value \<noteq> 32 then Inl (identity_NewError identity_PersistenceUnavailable) else Inr value)"

definition identityPersistenceError :: "go_error \<Rightarrow> go_error" where
  "identityPersistenceError err =
     (if is_context_error err then err else identity_NewError identity_PersistenceUnavailable)"

definition interval_microseconds :: "duration \<Rightarrow> duration" where
  \<comment> \<open>\<^verbatim>\<open>Duration.Microseconds\<close>, back in nanoseconds.\<close>
  "interval_microseconds d = go_quot d 1000 * 1000"

definition principalFromRow :: "ActivePrincipalRow \<Rightarrow> Principal result" where
  "principalFromRow row =
     (let accountType = AccountType_of (apr_AccountType row);
          without = \<lparr>pr_ID = apr_ID row, pr_TenantID = apr_TenantID row, pr_AccountType = accountType,
             pr_DisplayName = apr_DisplayName row, pr_Mailbox = None\<rparr>
      in if \<not> AccountType_Valid accountType then Inl (identity_NewError identity_AuthForbidden)
         else case (apr_MailboxID row, apr_MailboxLocalPart row, apr_MailboxDomain row) of
           (Some m, Some local, Some domain) \<Rightarrow>
             if accountType = AccountTypeMailbox
             then Inr (without\<lparr>pr_Mailbox := Some \<lparr>mbx_ID = m, mbx_Address = local @ ''@'' @ domain\<rparr>\<rparr>)
             else Inl (identity_NewError identity_AuthForbidden)
         | (None, None, None) \<Rightarrow>
             if accountType = AccountTypeMailbox then Inl (identity_NewError identity_AuthForbidden)
             else Inr without
         | _ \<Rightarrow> Inl (identity_NewError identity_AuthForbidden))"

section \<open>Login flows\<close>

definition flow_row :: "AuthFlowToCreate \<Rightarrow> auth_flow_row" where
  "flow_row flow =
     \<lparr>af_id = afc_ID flow, af_state_digest = afc_StateDigest flow,
      af_browser_cookie_digest = afc_BrowserCookieDigest flow, af_nonce_digest = afc_NonceDigest flow,
      af_pkce_verifier_ciphertext = afc_PKCEVerifierCiphertext flow,
      af_encryption_key_id = afc_EncryptionKeyID flow, af_return_to = afc_ReturnTo flow,
      af_created_at = afc_CreatedAt flow, af_expires_at = afc_ExpiresAt flow, af_consumed_at = None\<rparr>"

definition flow_acceptable :: "(nat \<Rightarrow> nat) \<Rightarrow> AuthFlowToCreate \<Rightarrow> bool" where
  "flow_acceptable uc flow \<longleftrightarrow>
     afc_ID flow \<noteq> uuid_Nil \<and>
     32 \<le> length (afc_PKCEVerifierCiphertext flow) \<and> length (afc_PKCEVerifierCiphertext flow) \<le> 4096 \<and>
     afc_EncryptionKeyID flow \<noteq> '''' \<and> afc_EncryptionKeyID flow = TrimSpace (afc_EncryptionKeyID flow) \<and>
     NormalizeReturnPath uc (afc_ReturnTo flow) = Inr (afc_ReturnTo flow) \<and>
     \<not> IsZero (afc_CreatedAt flow) \<and> afc_CreatedAt flow < afc_ExpiresAt flow \<and>
     afc_ExpiresAt flow \<le> afc_CreatedAt flow + DefaultAuthFlowLifetime"

definition repository_CreateAuthFlow ::
  "identity_env \<Rightarrow> AuthFlowToCreate \<Rightarrow> identity_db \<Rightarrow> go_error option \<times> identity_db" where
  "repository_CreateAuthFlow env flow db =
     (if \<not> flow_acceptable (pi_lower env) flow
      then (Some (identity_NewError identity_InvalidRequest), db)
      else case autocommit env 0 (createAuthFlow (flow_row flow)) db of
        (Inl e, db1) \<Rightarrow> (Some (identityPersistenceError e), db1)
      | (Inr _, db1) \<Rightarrow> (None, db1))"

definition consumed_flow :: "ConsumeAuthFlowRow \<Rightarrow> bytes \<Rightarrow> ConsumedAuthFlow" where
  \<comment> \<open>A NULL timestamp reads as Go's zero time.\<close>
  "consumed_flow row nonceDigest =
     \<lparr>caf_ID = cfr_ID row, caf_NonceDigest = nonceDigest,
      caf_PKCEVerifierCiphertext = cfr_PkceVerifierCiphertext row,
      caf_EncryptionKeyID = cfr_EncryptionKeyID row, caf_ReturnTo = cfr_ReturnTo row,
      caf_ExpiresAt = cfr_ExpiresAt row,
      caf_ConsumedAt = (case cfr_ConsumedAt row of None \<Rightarrow> 0 | Some t \<Rightarrow> t)\<rparr>"

definition repository_ConsumeAuthFlow ::
  "identity_env \<Rightarrow> bytes \<Rightarrow> bytes \<Rightarrow> instant \<Rightarrow> identity_db \<Rightarrow> ConsumedAuthFlow result \<times> identity_db" where
  "repository_ConsumeAuthFlow env stateDigest browserCookieDigest consumedAt db =
     (if IsZero consumedAt then (Inl (identity_NewError identity_InvalidRequest), db)
      else case autocommit env 0 (consumeAuthFlow stateDigest browserCookieDigest consumedAt) db of
        (Inl e, db1) \<Rightarrow>
          (Inl (if errors_Is e ErrNoRows then identity_NewError identity_AuthFlowInvalid
                else identityPersistenceError e), db1)
      | (Inr row, db1) \<Rightarrow> (case fixedDigest (cfr_NonceDigest row) of
          Inl e \<Rightarrow> (Inl e, db1)
        | Inr nonceDigest \<Rightarrow> (Inr (consumed_flow row nonceDigest), db1)))"

definition repository_ResolvePrincipal ::
  "identity_env \<Rightarrow> string \<Rightarrow> string \<Rightarrow> identity_db \<Rightarrow> Principal result \<times> identity_db" where
  "repository_ResolvePrincipal env issuer subject db =
     (if issuer = '''' \<or> subject = '''' then (Inl (identity_NewError identity_InvalidRequest), db)
      else let db1 = pe_race env 0 db in
        case query env 0 (getActivePrincipalByExternalIdentity issuer subject db1) of
          Inl e \<Rightarrow> (Inl (if errors_Is e ErrNoRows then identity_NewError identity_AuthForbidden
                        else identityPersistenceError e), db1)
        | Inr row \<Rightarrow> (principalFromRow row, db1))"

section \<open>Audit\<close>

definition audit_acceptable :: "AuditEvent \<Rightarrow> bool" where
  "audit_acceptable event \<longleftrightarrow>
     ae_ID event \<noteq> uuid_Nil \<and> ae_Action event \<noteq> '''' \<and>
     (ae_Result event = ''succeeded'' \<or> ae_Result event = ''failed'') \<and>
     \<not> (ae_Result event = ''succeeded'' \<and> ae_FailureCategory event \<noteq> '''') \<and>
     \<not> (ae_Result event = ''failed'' \<and> ae_FailureCategory event = '''') \<and>
     ae_RequestID event \<noteq> '''' \<and> \<not> IsZero (ae_OccurredAt event)"

definition audit_event_row :: "AuditEvent \<Rightarrow> audit_row" where
  "audit_event_row event =
     \<lparr>au_id = ae_ID event, au_principal_id = ae_PrincipalID event, au_action = ae_Action event,
      au_result = ae_Result event, au_failure_category = nullableText (ae_FailureCategory event),
      au_source_digest = ae_SourceDigest event, au_request_id = ae_RequestID event,
      au_occurred_at = ae_OccurredAt event\<rparr>"

definition createAudit :: "AuditEvent \<Rightarrow> (audit_row \<Rightarrow> (unit \<times> identity_db) result) \<Rightarrow> (unit \<times> identity_db) result" where
  \<comment> \<open>The check and the error mapping around the query it is given.\<close>
  "createAudit event store =
     (if \<not> audit_acceptable event then Inl (identity_NewError identity_InvalidRequest)
      else case store (audit_event_row event) of
        Inl e \<Rightarrow> Inl (identityPersistenceError e)
      | Inr r \<Rightarrow> Inr r)"

definition repository_RecordAudit :: "identity_env \<Rightarrow> AuditEvent \<Rightarrow> identity_db \<Rightarrow> go_error option \<times> identity_db" where
  "repository_RecordAudit env event db =
     (if \<not> audit_acceptable event then (Some (identity_NewError identity_InvalidRequest), db)
      else case autocommit env 0 (createAuthenticationAuditEvent (audit_event_row event)) db of
        (Inl e, db1) \<Rightarrow> (Some (identityPersistenceError e), db1)
      | (Inr _, db1) \<Rightarrow> (None, db1))"

section \<open>Sessions\<close>

definition session_acceptable :: "SessionToCreate \<Rightarrow> bool" where
  "session_acceptable session \<longleftrightarrow>
     stc_ID session \<noteq> uuid_Nil \<and> stc_PrincipalID session \<noteq> uuid_Nil \<and>
     stc_OIDCIssuer session \<noteq> '''' \<and> stc_OIDCSubject session \<noteq> '''' \<and>
     \<not> IsZero (stc_CreatedAt session) \<and>
     stc_CreatedAt session < stc_IdleExpiresAt session \<and>
     stc_IdleExpiresAt session \<le> stc_CreatedAt session + DefaultSessionIdleTimeout \<and>
     stc_CreatedAt session < stc_AbsoluteExpiresAt session \<and>
     stc_IdleExpiresAt session \<le> stc_AbsoluteExpiresAt session \<and>
     stc_AbsoluteExpiresAt session \<le> stc_CreatedAt session + DefaultSessionAbsoluteTimeout"

definition session_row :: "SessionToCreate \<Rightarrow> user_session_row" where
  "session_row session =
     \<lparr>us_id = stc_ID session, us_session_digest = stc_SessionDigest session,
      us_principal_id = stc_PrincipalID session, us_oidc_issuer = stc_OIDCIssuer session,
      us_oidc_subject = stc_OIDCSubject session, us_oidc_session_id = nullableText (stc_OIDCSessionID session),
      us_csrf_digest = stc_CSRFDigest session, us_created_at = stc_CreatedAt session,
      us_last_seen_at = stc_CreatedAt session, us_idle_expires_at = stc_IdleExpiresAt session,
      us_absolute_expires_at = stc_AbsoluteExpiresAt session, us_revoked_at = None,
      us_revocation_reason = None\<rparr>"

definition created_session :: "CreateUserSessionRow \<Rightarrow> CreatedSession" where
  "created_session row =
     \<lparr>cs_ID = cur_ID row, cs_PrincipalID = cur_PrincipalID row, cs_CreatedAt = cur_CreatedAt row,
      cs_IdleExpiresAt = cur_IdleExpiresAt row, cs_AbsoluteExpiresAt = cur_AbsoluteExpiresAt row\<rparr>"

definition repository_CreateSession ::
  "identity_env \<Rightarrow> SessionToCreate \<Rightarrow> identity_db \<Rightarrow> CreatedSession result \<times> identity_db" where
  "repository_CreateSession env session db =
     (if \<not> session_acceptable session then (Inl (identity_NewError identity_InvalidRequest), db)
      else case autocommit env 0 (createUserSession (session_row session)) db of
        (Inl e, db1) \<Rightarrow> (Inl (identityPersistenceError e), db1)
      | (Inr row, db1) \<Rightarrow> (Inr (created_session row), db1))"

definition repository_CreateSessionWithAudit ::
  "identity_env \<Rightarrow> SessionToCreate \<Rightarrow> AuditEvent \<Rightarrow> identity_db \<Rightarrow> CreatedSession result \<times> identity_db" where
  "repository_CreateSessionWithAudit env session event db =
     (if ae_Action event \<noteq> ''login'' \<or> ae_Result event \<noteq> ''succeeded'' \<or>
         ae_PrincipalID event \<noteq> Some (stc_PrincipalID session)
      then (Inl (identity_NewError identity_InvalidRequest), db)
      else case pe_fault env 0 of Some e \<Rightarrow> (Inl (identityPersistenceError e), db) | None \<Rightarrow>
      if \<not> session_acceptable session then (Inl (identity_NewError identity_InvalidRequest), db)
      else let db1 = pe_race env 1 db in
      case query env 1 (createUserSession (session_row session) db1) of
        Inl e \<Rightarrow> (Inl (identityPersistenceError e), db1)
      | Inr (row, view1) \<Rightarrow>
        (case createAudit event (\<lambda>a. query env 2 (createAuthenticationAuditEvent a view1)) of
           Inl e \<Rightarrow> (Inl e, db1)
         | Inr (_, view2) \<Rightarrow>
           (case commit env 3 view2 db1 of
              (Some e, db2) \<Rightarrow> (Inl (identityPersistenceError e), db2)
            | (None, db2) \<Rightarrow> (Inr (created_session row), db2))))"

definition session_of_row :: "ActiveSessionRow \<Rightarrow> Principal \<Rightarrow> string list \<Rightarrow> bytes \<Rightarrow> Session" where
  "session_of_row row account permissions csrfDigest =
     \<lparr>ses_ID = asr_SessionID row, ses_Principal = account, ses_Permissions = permissions,
      ses_CreatedAt = asr_CreatedAt row, ses_LastSeenAt = asr_LastSeenAt row,
      ses_IdleExpiresAt = asr_IdleExpiresAt row, ses_AbsoluteExpiresAt = asr_AbsoluteExpiresAt row,
      ses_CSRFDigest = csrfDigest\<rparr>"

definition touch_session ::
  "IdentityRepository \<Rightarrow> identity_env \<Rightarrow> instant \<Rightarrow> Session \<Rightarrow> identity_db \<Rightarrow> Session result \<times> identity_db" where
  \<comment> \<open>The rate-limited tail of \<^verbatim>\<open>ResolveSession\<close>.\<close>
  "touch_session repository env checkedAt session db =
     (if checkedAt < ses_LastSeenAt session + ir_touchInterval repository then (Inr session, db)
      else case autocommit env 2 (touchActiveSession checkedAt
             (interval_microseconds (ir_idleTimeout repository)) (ses_ID session)) db of
        (Inl e, db1) \<Rightarrow>
          (Inl (if errors_Is e ErrNoRows then identity_NewError identity_AuthRequired
                else identityPersistenceError e), db1)
      | (Inr (lastSeenAt, idleExpiresAt), db1) \<Rightarrow>
          (Inr (session\<lparr>ses_LastSeenAt := lastSeenAt, ses_IdleExpiresAt := idleExpiresAt\<rparr>), db1))"

definition repository_ResolveSession ::
  "IdentityRepository \<Rightarrow> identity_env \<Rightarrow> bytes \<Rightarrow> instant \<Rightarrow> identity_db \<Rightarrow> Session result \<times> identity_db" where
  "repository_ResolveSession repository env sessionDigest checkedAt db =
     (if IsZero checkedAt then (Inl (identity_NewError identity_InvalidRequest), db)
      else let db1 = pe_race env 0 db in
      case query env 0 (getActiveSessionByDigest sessionDigest checkedAt db1) of
        Inl e \<Rightarrow> (Inl (if errors_Is e ErrNoRows then identity_NewError identity_AuthRequired
                      else identityPersistenceError e), db1)
      | Inr row \<Rightarrow> (case principalFromRow (asr_Principal row) of
          Inl e \<Rightarrow> (Inl e, db1)
        | Inr account \<Rightarrow>
          let db2 = pe_race env 1 db1 in
          case query env 1 (Inr (listPrincipalPermissions (pi_collation env) (apr_ID (asr_Principal row)) db2)) of
            Inl e \<Rightarrow> (Inl (identityPersistenceError e), db2)
          | Inr permissions \<Rightarrow> (case fixedDigest (asr_CsrfDigest row) of
              Inl e \<Rightarrow> (Inl e, db2)
            | Inr csrfDigest \<Rightarrow>
                touch_session repository env checkedAt (session_of_row row account permissions csrfDigest) db2)))"

definition repository_RevokeSession ::
  "identity_env \<Rightarrow> bytes \<Rightarrow> instant \<Rightarrow> RevocationReason \<Rightarrow> identity_db \<Rightarrow> go_error option \<times> identity_db" where
  "repository_RevokeSession env sessionDigest revokedAt reason db =
     (if IsZero revokedAt \<or> \<not> RevocationReason_Valid reason
      then (Some (identity_NewError identity_InvalidRequest), db)
      else case autocommit env 0 (revokeSessionByDigest sessionDigest revokedAt (reason_text reason)) db of
        (Inl e, db1) \<Rightarrow> (Some (identityPersistenceError e), db1)
      | (Inr _, db1) \<Rightarrow> (None, db1))"

definition repository_RevokeSessionWithAudit ::
  "identity_env \<Rightarrow> bytes \<Rightarrow> instant \<Rightarrow> RevocationReason \<Rightarrow> AuditEvent \<Rightarrow> identity_db \<Rightarrow>
   go_error option \<times> identity_db" where
  "repository_RevokeSessionWithAudit env sessionDigest revokedAt reason event db =
     (if ae_Action event \<noteq> ''logout'' \<or> ae_Result event \<noteq> ''succeeded'' \<or> ae_PrincipalID event = None
      then (Some (identity_NewError identity_InvalidRequest), db)
      else case pe_fault env 0 of Some e \<Rightarrow> (Some (identityPersistenceError e), db) | None \<Rightarrow>
      if IsZero revokedAt \<or> \<not> RevocationReason_Valid reason
      then (Some (identity_NewError identity_InvalidRequest), db)
      else let db1 = pe_race env 1 db in
      case query env 1 (revokeSessionByDigest sessionDigest revokedAt (reason_text reason) db1) of
        Inl e \<Rightarrow> (Some (identityPersistenceError e), db1)
      | Inr (_, view1) \<Rightarrow>
        (case createAudit event (\<lambda>a. query env 2 (createAuthenticationAuditEvent a view1)) of
           Inl e \<Rightarrow> (Some e, db1)
         | Inr (_, view2) \<Rightarrow>
           (case commit env 3 view2 db1 of
              (Some e, db2) \<Rightarrow> (Some (identityPersistenceError e), db2)
            | (None, db2) \<Rightarrow> (None, db2))))"

definition repository_RevokeByOIDCSessionID ::
  "identity_env \<Rightarrow> string \<Rightarrow> string \<Rightarrow> instant \<Rightarrow> identity_db \<Rightarrow> int result \<times> identity_db" where
  "repository_RevokeByOIDCSessionID env issuer sessionID revokedAt db =
     (if issuer = '''' \<or> sessionID = '''' \<or> IsZero revokedAt
      then (Inl (identity_NewError identity_InvalidRequest), db)
      else case autocommit env 0 (revokeSessionsByOidcSessionID issuer sessionID revokedAt
             (reason_text RevocationReasonBackchannelSID)) db of
        (Inl e, db1) \<Rightarrow> (Inl (identityPersistenceError e), db1)
      | (Inr n, db1) \<Rightarrow> (Inr n, db1))"

definition repository_RevokeByOIDCSubject ::
  "identity_env \<Rightarrow> string \<Rightarrow> string \<Rightarrow> instant \<Rightarrow> identity_db \<Rightarrow> int result \<times> identity_db" where
  "repository_RevokeByOIDCSubject env issuer subject revokedAt db =
     (if issuer = '''' \<or> subject = '''' \<or> IsZero revokedAt
      then (Inl (identity_NewError identity_InvalidRequest), db)
      else case autocommit env 0 (revokeSessionsByOidcSubject issuer subject revokedAt
             (reason_text RevocationReasonBackchannelSubject)) db of
        (Inl e, db1) \<Rightarrow> (Inl (identityPersistenceError e), db1)
      | (Inr n, db1) \<Rightarrow> (Inr n, db1))"

section \<open>The interface\<close>

record identity_world =
  iw_db :: identity_db
  iw_envs :: "nat \<Rightarrow> identity_env"
  iw_calls :: nat

definition identity_call ::
  "(identity_env \<Rightarrow> identity_db \<Rightarrow> 'a \<times> identity_db) \<Rightarrow> 'x identity_world_scheme \<Rightarrow>
   'a \<times> 'x identity_world_scheme" where
  "identity_call f w = (let (x, db) = f (iw_envs w (iw_calls w)) (iw_db w)
     in (x, w\<lparr>iw_db := db, iw_calls := iw_calls w + 1\<rparr>))"

definition identity_repository :: "IdentityRepository \<Rightarrow> 'x identity_world_scheme identity_Repository" where
  "identity_repository repository =
     \<lparr>CreateAuthFlow = (\<lambda>ctx flow. identity_call (\<lambda>env. repository_CreateAuthFlow env flow)),
      ConsumeAuthFlow = (\<lambda>ctx sd cd at. identity_call (\<lambda>env. repository_ConsumeAuthFlow env sd cd at)),
      ResolvePrincipal = (\<lambda>ctx issuer subject. identity_call (\<lambda>env. repository_ResolvePrincipal env issuer subject)),
      CreateSession = (\<lambda>ctx session. identity_call (\<lambda>env. repository_CreateSession env session)),
      CreateSessionWithAudit = (\<lambda>ctx session event.
        identity_call (\<lambda>env. repository_CreateSessionWithAudit env session event)),
      ResolveSession = (\<lambda>ctx digest at. identity_call (\<lambda>env. repository_ResolveSession repository env digest at)),
      RevokeSession = (\<lambda>ctx digest at reason. identity_call (\<lambda>env. repository_RevokeSession env digest at reason)),
      RevokeSessionWithAudit = (\<lambda>ctx digest at reason event.
        identity_call (\<lambda>env. repository_RevokeSessionWithAudit env digest at reason event)),
      RevokeByOIDCSessionID = (\<lambda>ctx issuer sid at.
        identity_call (\<lambda>env. repository_RevokeByOIDCSessionID env issuer sid at)),
      RevokeByOIDCSubject = (\<lambda>ctx issuer subject at.
        identity_call (\<lambda>env. repository_RevokeByOIDCSubject env issuer subject at)),
      RecordAudit = (\<lambda>ctx event. identity_call (\<lambda>env. repository_RecordAudit env event))\<rparr>"

end
