(* ===== verification/Identity_System.thy ===== *)
theory Identity_System
  imports Identity_Repository Identity_Service
begin

text \<open>
  The identity service over its repository. First, every repository call is a run
  of \<open>identity_step\<close>; what a consumed flow, a revoked session and an unknown digest
  mean for later calls follows from the order of the runs. Then the frame of the
  service: a handler only moves the database along such runs.
\<close>

section \<open>Facts that last\<close>

lemma identity_keysD:
  assumes "identity_ok db"
  shows "distinct (map af_state_digest (idb_flows db))" "distinct (map us_id (idb_sessions db))"
    "distinct (map us_session_digest (idb_sessions db))" "distinct (map ip_id (idb_principals db))"
  using assms by (simp_all add: identity_ok_iff identity_keys_def)

lemma consumed_flow_stays:
  assumes "identity_inv db" "identity_step\<^sup>*\<^sup>* db db'" "f \<in> set (idb_flows db)" "af_consumed_at f \<noteq> None"
  shows "f \<in> set (idb_flows db')"
proof -
  obtain g where "g \<in> set (idb_flows db')" "flow_le f g"
    using identities.run_rel [OF assms(2,1)] assms(3) by (auto simp: identity_le_def)
  with assms(4) show ?thesis by (auto simp: flow_le_def)
qed

lemma consumed_flow_not_consumable:
  assumes "identity_ok db" "f \<in> set (idb_flows db)" "af_consumed_at f \<noteq> None"
  shows "consumeAuthFlow (af_state_digest f) cookie t db = Inl ErrNoRows"
proof -
  have "\<not> consumable (af_state_digest f) cookie t g" if "g \<in> set (idb_flows db)" for g
    using distinct_map_eqD [OF identity_keysD(1) [OF assms(1)] that assms(2)] assms(3)
    by (auto simp: consumable_def)
  then have "find (consumable (af_state_digest f) cookie t) (idb_flows db) = None"
    by (simp add: find_None_iff)
  then show ?thesis by (simp add: consumeAuthFlow_def)
qed

lemma revoked_session_stays:
  assumes "identity_inv db" "identity_step\<^sup>*\<^sup>* db db'" "s \<in> set (idb_sessions db)" "us_revoked_at s \<noteq> None"
  shows "s \<in> set (idb_sessions db')"
proof -
  obtain r where "r \<in> set (idb_sessions db')" "session_le s r"
    using identities.run_rel [OF assms(2,1)] assms(3) by (auto simp: identity_le_def)
  with assms(4) show ?thesis by (auto simp: session_le_def)
qed

lemma revoked_session_inactive:
  assumes "identity_ok db" "s \<in> set (idb_sessions db)" "us_revoked_at s \<noteq> None"
  shows "getActiveSessionByDigest (us_session_digest s) t db = Inl ErrNoRows"
proof -
  have "\<not> live_session t r" if "r \<in> set (idb_sessions db)" "us_session_digest r = us_session_digest s" for r
    using distinct_map_eqD [OF identity_keysD(3) [OF assms(1)] that(1) assms(2) that(2)] assms(3)
    by (auto simp: live_session_def)
  then have "find (\<lambda>r. us_session_digest r = us_session_digest s \<and> live_session t r \<and>
      session_account db r \<noteq> None) (idb_sessions db) = None"
    by (auto simp: find_None_iff)
  then show ?thesis by (simp add: getActiveSessionByDigest_def)
qed

section \<open>Repository calls are runs\<close>

definition identity_races :: "identity_env \<Rightarrow> bool" where
  "identity_races env \<longleftrightarrow> (\<forall>n db. identity_step\<^sup>*\<^sup>* db (pe_race env n db))"

lemma race_run [intro]: "identity_races env \<Longrightarrow> identity_step\<^sup>*\<^sup>* db (pe_race env n db)"
  by (simp add: identity_races_def)

lemma autocommit_identity_run:
  assumes "identity_races env" "autocommit env n statement db = (res, db')"
    and "\<And>d x d'. statement d = Inr (x, d') \<Longrightarrow> identity_step d d'"
  shows "identity_step\<^sup>*\<^sup>* db db'"
proof -
  have race: "identity_step\<^sup>*\<^sup>* db (pe_race env n db)" using assms(1) by blast
  show ?thesis
  proof (cases "statement (pe_race env n db)")
    case (Inl e)
    then show ?thesis using assms(2) race by (simp add: autocommit_def Let_def)
  next
    case (Inr r)
    then have "identity_step (pe_race env n db) (snd r)" using assms(3) by (cases r) auto
    then show ?thesis using assms(2) Inr race
      by (auto simp: autocommit_def Let_def split: prod.splits if_splits intro: rtranclp.rtrancl_into_rtrancl)
  qed
qed

text \<open>A call of one statement returns the tables that the statement left.\<close>

lemmas call_splits = if_splits sum.splits option.splits prod.splits

lemma flow_calls_run:
  assumes "identity_races env"
  shows "repository_CreateAuthFlow env flow db = (r, db') \<Longrightarrow> identity_step\<^sup>*\<^sup>* db db'"
    and "repository_ConsumeAuthFlow env sd cd t db = (c, db') \<Longrightarrow> identity_step\<^sup>*\<^sup>* db db'"
    and "repository_ResolvePrincipal env i s db = (p, db') \<Longrightarrow> identity_step\<^sup>*\<^sup>* db db'"
    and "repository_RecordAudit env event db = (r, db') \<Longrightarrow> identity_step\<^sup>*\<^sup>* db db'"
  using assms
  by (auto simp: repository_CreateAuthFlow_def repository_ConsumeAuthFlow_def repository_ResolvePrincipal_def
      repository_RecordAudit_def Let_def split: call_splits
      intro: autocommit_identity_run identity_step.flow_created identity_step.flow_consumed identity_step.audited)

lemma revoke_calls_run:
  assumes "identity_races env"
  shows "repository_RevokeSession env d t reason db = (r, db') \<Longrightarrow> identity_step\<^sup>*\<^sup>* db db'"
    and "repository_RevokeByOIDCSessionID env i x t db = (n, db') \<Longrightarrow> identity_step\<^sup>*\<^sup>* db db'"
    and "repository_RevokeByOIDCSubject env i x t db = (n, db') \<Longrightarrow> identity_step\<^sup>*\<^sup>* db db'"
  using assms
  by (auto simp: repository_RevokeSession_def repository_RevokeByOIDCSessionID_def
      repository_RevokeByOIDCSubject_def revokeSessionByDigest_def revokeSessionsByOidcSessionID_def
      revokeSessionsByOidcSubject_def split: call_splits
      intro: autocommit_identity_run identity_step.sessions_revoked)

lemma session_row_lifetimes: "session_acceptable session \<Longrightarrow> session_lifetimes_ok (session_row session)"
  by (simp add: session_acceptable_def session_lifetimes_ok_def session_row_def)

lemma CreateSession_run:
  "identity_races env \<Longrightarrow> repository_CreateSession env session db = (r, db') \<Longrightarrow> identity_step\<^sup>*\<^sup>* db db'"
  by (auto simp: repository_CreateSession_def split: call_splits
      intro: autocommit_identity_run identity_step.session_created session_row_lifetimes)

text \<open>A transaction of two statements is the two steps or none; where its commit fails it may
  have landed.\<close>

lemma createAudit_step:
  "createAudit event (\<lambda>a. query env n (createAuthenticationAuditEvent a view)) = Inr (x, view') \<Longrightarrow>
   createAuthenticationAuditEvent (audit_event_row event) view = Inr ((), view')"
  by (auto simp: createAudit_def query_def split: call_splits)

lemma query_Inr_iff: "query env n r = Inr x \<longleftrightarrow> pe_fault env n = None \<and> r = Inr x"
  by (auto simp: query_def split: option.splits)

lemma CreateSessionWithAudit_cases:
  assumes "repository_CreateSessionWithAudit env session event db = (r, db')"
  obtains (refused) e where "r = Inl e" "db' = db \<or> db' = pe_race env 1 db"
  | (written) row mid where "session_acceptable session"
      "createUserSession (session_row session) (pe_race env 1 db) = Inr (row, mid)"
      "createAuthenticationAuditEvent (audit_event_row event) mid = Inr ((), db')"
      "r = Inr (created_session row) \<or> (\<exists>e. r = Inl e)"
  using assms
  by (auto simp: repository_CreateSessionWithAudit_def Let_def query_Inr_iff commit_def
      split: call_splits dest!: createAudit_step)

lemma RevokeSessionWithAudit_cases:
  assumes "repository_RevokeSessionWithAudit env digest at reason event db = (r, db')"
  obtains (refused) e where "r = Some e" "db' = db \<or> db' = pe_race env 1 db"
  | (written) n mid where
      "revokeSessionByDigest digest at (reason_text reason) (pe_race env 1 db) = Inr (n, mid)"
      "createAuthenticationAuditEvent (audit_event_row event) mid = Inr ((), db')"
  using assms
  by (auto simp: repository_RevokeSessionWithAudit_def Let_def query_Inr_iff commit_def
      split: call_splits dest!: createAudit_step)

lemma run_step2:
  "identity_step\<^sup>*\<^sup>* db a \<Longrightarrow> identity_step a b \<Longrightarrow> identity_step b c \<Longrightarrow> identity_step\<^sup>*\<^sup>* db c"
  by (meson rtranclp.rtrancl_into_rtrancl)

lemma CreateSessionWithAudit_run:
  assumes "identity_races env" "repository_CreateSessionWithAudit env session event db = (r, db')"
  shows "identity_step\<^sup>*\<^sup>* db db'"
  using assms(2)
proof (cases rule: CreateSessionWithAudit_cases)
  case refused
  then show ?thesis using assms(1) by auto
next
  case (written row mid)
  then show ?thesis using run_step2 [OF race_run [OF assms(1)]]
    by (meson identity_step.audited identity_step.session_created session_row_lifetimes)
qed

lemma RevokeSessionWithAudit_run:
  assumes "identity_races env" "repository_RevokeSessionWithAudit env digest at reason event db = (r, db')"
  shows "identity_step\<^sup>*\<^sup>* db db'"
  using assms(2)
proof (cases rule: RevokeSessionWithAudit_cases)
  case refused
  then show ?thesis using assms(1) by auto
next
  case (written n mid)
  then have "identity_step (pe_race env 1 db) mid" "identity_step mid db'"
    by (auto simp: revokeSessionByDigest_def intro: identity_step.sessions_revoked identity_step.audited)
  with run_step2 [OF race_run [OF assms(1)]] show ?thesis by blast
qed

definition repository_wf :: "IdentityRepository \<Rightarrow> bool" where
  \<comment> \<open>What \<open>NewIdentityRepository\<close> guarantees.\<close>
  "repository_wf repository \<longleftrightarrow>
     0 < ir_idleTimeout repository \<and> ir_idleTimeout repository \<le> DefaultSessionIdleTimeout \<and>
     0 < ir_touchInterval repository \<and> ir_touchInterval repository \<le> ir_idleTimeout repository"

lemma NewIdentityRepository_wf: "NewIdentityRepository pool i t = Inr repository \<Longrightarrow> repository_wf repository"
  by (auto simp: NewIdentityRepository_def repository_wf_def split: if_splits)

lemma interval_le: "repository_wf repository \<Longrightarrow>
  interval_microseconds (ir_idleTimeout repository) \<le> DefaultSessionIdleTimeout"
proof -
  assume wf: "repository_wf repository"
  then have "interval_microseconds (ir_idleTimeout repository) \<le> ir_idleTimeout repository"
    by (simp add: interval_microseconds_def repository_wf_def)
  with wf show ?thesis by (simp add: repository_wf_def)
qed

lemma touch_session_run:
  "identity_races env \<Longrightarrow> repository_wf repository \<Longrightarrow>
   touch_session repository env t session db = (r, db') \<Longrightarrow> identity_step\<^sup>*\<^sup>* db db'"
  by (auto simp: touch_session_def split: call_splits
      intro: autocommit_identity_run identity_step.session_touched interval_le)

lemma ResolveSession_run:
  assumes "identity_races env" "repository_wf repository"
    "repository_ResolveSession repository env digest t db = (r, db')"
  shows "identity_step\<^sup>*\<^sup>* db db'"
proof -
  let ?db1 = "pe_race env 0 db" let ?db2 = "pe_race env 1 ?db1"
  have 1: "identity_step\<^sup>*\<^sup>* db ?db1" and 2: "identity_step\<^sup>*\<^sup>* db ?db2"
    using race_run [OF assms(1)] rtranclp_trans by metis+
  have "identity_step\<^sup>*\<^sup>* db d" if "touch_session repository env t session ?db2 = (x, d)" for session x d
    using touch_session_run [OF assms(1,2) that] 2 by (rule rtranclp_trans [rotated])
  then show ?thesis using assms(3) 1 2
    by (auto simp: repository_ResolveSession_def Let_def split: call_splits)
qed

section \<open>The frame of the service\<close>

text \<open>
  The handlers of the service as a client of their collaborators: whatever reflexive and transitive
  relation every call of the repository, the provider, the clock and the generators keeps,
  each handler keeps.
\<close>

locale identity_frame =
  fixes service :: "'w identity_Service" and rel :: "'w \<Rightarrow> 'w \<Rightarrow> bool"
  assumes rel_refl: "rel w w"
    and rel_trans: "rel w1 w2 \<Longrightarrow> rel w2 w3 \<Longrightarrow> rel w1 w3"
    and now_rel: "rel w (snd (is_now service w))"
    and token_rel: "rel w (snd (is_newToken service w))"
    and id_rel: "rel w (snd (is_newID service w))"
    and random_rel: "rel w (snd (pc_random (is_pkce service) n w))"
    and exchange_rel: "rel w (snd (Exchange (is_provider service) ctx code verifier w))"
    and create_flow_rel: "rel w (snd (CreateAuthFlow (is_repository service) ctx flow w))"
    and consume_flow_rel: "rel w (snd (ConsumeAuthFlow (is_repository service) ctx sd cd t w))"
    and resolve_principal_rel: "rel w (snd (ResolvePrincipal (is_repository service) ctx i s w))"
    and create_session_rel: "rel w (snd (CreateSessionWithAudit (is_repository service) ctx session event w))"
    and resolve_session_rel: "rel w (snd (ResolveSession (is_repository service) ctx digest t w))"
    and revoke_session_rel: "rel w (snd (RevokeSessionWithAudit (is_repository service) ctx digest t reason event w))"
    and audit_rel: "rel w (snd (RecordAudit (is_repository service) ctx event w))"
begin

lemma on_result_rel:
  "rel w (snd r) \<Longrightarrow> (\<And>e v. rel v (snd (fail e v))) \<Longrightarrow> (\<And>x v. rel v (snd (ok x v))) \<Longrightarrow>
   rel w (snd (on_result r fail ok))"
  unfolding on_result_def by (cases "fst r") (auto intro: rel_trans)

lemma on_error_rel:
  "rel w (snd r) \<Longrightarrow> (\<And>e v. rel v (snd (fail e v))) \<Longrightarrow> (\<And>v. rel v (snd (ok v))) \<Longrightarrow>
   rel w (snd (on_error r fail ok))"
  unfolding on_error_def by (cases "fst r") (auto intro: rel_trans)

lemma from_world_rel:
  "rel w (snd r) \<Longrightarrow> (\<And>x v. rel v (snd (ok x v))) \<Longrightarrow> rel w (snd (from_world r ok))"
  unfolding from_world_def by (auto intro: rel_trans)

lemmas flow_rels = on_result_rel on_error_rel from_world_rel

lemma done_rel: "rel w (snd (x, w))"
  by (simp add: rel_refl)

lemma auditEvent_rel: "rel w (snd (auditEvent service m p a r f t w))"
  unfolding auditEvent_def by (intro flow_rels id_rel done_rel)

lemma loginFailure_rel: "rel w (snd (loginFailure service ctx m cause w))"
  unfolding loginFailure_def by (intro flow_rels now_rel auditEvent_rel audit_rel done_rel)

lemma fail_login_rel: "rel w (snd (fail_login service ctx m cause w))"
  unfolding fail_login_def Let_def snd_conv by (rule loginFailure_rel)

lemma draw_tokens_rel: "rel w (snd (draw_tokens service n w))"
  by (induction n arbitrary: w) (auto intro!: rel_refl flow_rels token_rel done_rel)

lemma Encrypt_rel: "rel w (snd (Encrypt (is_pkce service) verifier w))"
  using random_rel [of w gcm_NonceSize]
  by (auto simp: Encrypt_def ReadFull_def rel_refl split: option.splits prod.splits)

lemma StartLogin_rel: "rel w (snd (StartLogin uc service ctx returnTo metadata w))"
  unfolding StartLogin_def newFlowSecrets_def
  by (auto split: prod.splits if_splits
      intro!: rel_refl flow_rels fail_login_rel draw_tokens_rel Encrypt_rel now_rel id_rel create_flow_rel done_rel)

lemma open_session_rel: "rel w (snd (open_session service ctx input flow ext account now w))"
  unfolding open_session_def
  by (intro flow_rels token_rel id_rel auditEvent_rel create_session_rel fail_login_rel done_rel)

lemma CompleteLogin_rel: "rel w (snd (CompleteLogin service ctx input w))"
  unfolding CompleteLogin_def
  by (auto split: if_splits intro!: rel_refl flow_rels now_rel consume_flow_rel exchange_rel resolve_principal_rel
      fail_login_rel open_session_rel done_rel)

lemma RejectLogin_rel: "rel w (snd (RejectLogin service ctx state cookie metadata w))"
  unfolding RejectLogin_def
  by (auto split: if_splits intro!: rel_refl flow_rels now_rel consume_flow_rel loginFailure_rel done_rel)

lemma service_ResolveSession_rel: "rel w (snd (service_ResolveSession service ctx token w))"
  unfolding service_ResolveSession_def Let_def
  by (auto split: if_splits intro!: rel_refl flow_rels now_rel resolve_session_rel done_rel)

lemma Logout_rel: "rel w (snd (Logout service ctx token csrf metadata w))"
  unfolding Logout_def Let_def
  by (auto split: if_splits option.splits intro!: rel_refl flow_rels service_ResolveSession_rel now_rel auditEvent_rel
      revoke_session_rel done_rel)

end

section \<open>The service over the database\<close>

text \<open>
  The composition of \<^verbatim>\<open>cmd/api\<close>: the repository works on the database of the world;
  the provider, the clock and the sources of randomness on the rest of it.
\<close>

record 'a api_world = identity_world +
  aw_rest :: 'a

definition on_rest :: "('a \<Rightarrow> 'b \<times> 'a) \<Rightarrow> 'a api_world \<Rightarrow> 'b \<times> 'a api_world" where
  "on_rest f w = (let (b, x) = f (aw_rest w) in (b, w\<lparr>aw_rest := x\<rparr>))"

definition api_identity_service ::
  "IdentityRepository \<Rightarrow> 'a OIDCProvider \<Rightarrow> SecretHasher \<Rightarrow> 'a PKCECipher \<Rightarrow> MFAPolicy \<Rightarrow>
   ('a \<Rightarrow> instant \<times> 'a) \<Rightarrow> 'a reader \<Rightarrow> ('a \<Rightarrow> uuid \<times> 'a) \<Rightarrow> 'a api_world identity_Service" where
  "api_identity_service repository provider hasher pkce policy clock random uuids =
     \<lparr>is_repository = identity_repository repository,
      is_provider = \<lparr>AuthorizationURL = AuthorizationURL provider,
        Exchange = (\<lambda>ctx code verifier. on_rest (Exchange provider ctx code verifier)),
        ProviderLogoutURL = ProviderLogoutURL provider\<rparr>,
      is_providerLogoutURL = ProviderLogoutURL provider, is_hasher = hasher,
      is_pkce = \<lparr>pc_currentKeyID = pc_currentKeyID pkce, pc_keys = pc_keys pkce,
        pc_random = (\<lambda>n. on_rest (pc_random pkce n))\<rparr>,
      is_mfaPolicy = policy, is_now = on_rest clock,
      is_newToken = NewOpaqueToken (\<lambda>n. on_rest (random n)), is_newID = on_rest uuids\<rparr>"

definition identity_move :: "IdentityRepository \<Rightarrow> 'a api_world \<Rightarrow> 'a api_world \<Rightarrow> bool" where
  "identity_move repository w w' \<longleftrightarrow> iw_envs w' = iw_envs w \<and>
     (repository_wf repository \<longrightarrow> (\<forall>n. identity_races (iw_envs w n)) \<longrightarrow>
      identity_step\<^sup>*\<^sup>* (iw_db w) (iw_db w'))"

lemma identity_call_move:
  assumes "\<And>env db y db'. identity_races env \<Longrightarrow> repository_wf repository \<Longrightarrow>
    f env db = (y, db') \<Longrightarrow> identity_step\<^sup>*\<^sup>* db db'"
  shows "identity_move repository w (snd (identity_call f w))"
proof -
  obtain y db' where f: "f (iw_envs w (iw_calls w)) (iw_db w) = (y, db')" by force
  show ?thesis using assms [OF _ _ f] by (simp add: identity_call_def f identity_move_def)
qed

lemma on_rest_move: "identity_move repository w (snd (on_rest f w))"
  by (simp add: on_rest_def identity_move_def split: prod.splits)

lemma ReadFull_snd: "snd (ReadFull random n w) = snd (random n w)"
  by (auto simp: ReadFull_def split: prod.splits option.splits)

lemma NewOpaqueToken_snd: "snd (NewOpaqueToken random w) = snd (random opaqueTokenBytes w)"
  using ReadFull_snd [of random opaqueTokenBytes w]
  by (auto simp: NewOpaqueToken_def split: prod.splits option.splits)

interpretation api_identity:
  identity_frame "api_identity_service repository provider hasher pkce policy clock random uuids"
    "identity_move repository"
  for repository provider hasher pkce policy clock random uuids
proof
  show "identity_move repository w w" for w :: "'a api_world" by (simp add: identity_move_def)
  show "identity_move repository w1 w3" if "identity_move repository w1 w2" "identity_move repository w2 w3"
    for w1 w2 w3 :: "'a api_world"
    using that by (auto simp: identity_move_def intro: rtranclp_trans)
qed (auto simp: api_identity_service_def identity_repository_def NewOpaqueToken_snd intro!: on_rest_move
      identity_call_move intro: flow_calls_run CreateSessionWithAudit_run ResolveSession_run
      RevokeSessionWithAudit_run)

end
