(* ===== verification/Ledger_Statements.thy ===== *)
theory Ledger_Statements
  imports Ledger_Schema
begin

text \<open>
  The SQL statements of \<^verbatim>\<open>generated/provisioning.sql.go\<close> as functions on the
  tables. Every statement reads one snapshot; the parts of a
  \<^verbatim>\<open>WITH\<close> statement all see that snapshot and their changes are joined in the
  result. \<open>now\<close> is \<^verbatim>\<open>statement_timestamp()\<close>, \<open>attempt_id\<close> the value
  of \<^verbatim>\<open>gen_random_uuid()\<close>, and \<open>skip\<close> the joined rows that are locked by other
  transactions (\<^verbatim>\<open>FOR UPDATE ... SKIP LOCKED\<close> passes over them). A \<^verbatim>\<open>:one\<close> query
  without a row is \<^verbatim>\<open>pgx.ErrNoRows\<close>.
\<close>

section \<open>Claiming\<close>

record ClaimMailboxOperationParams =
  cp_MaxAttempts :: int
  cp_OwnerID :: uuid
  cp_LeaseDurationMicroseconds :: int

record ClaimMailboxOperationRow =
  crow_OperationID :: uuid
  crow_TenantID :: uuid
  crow_MailboxID :: uuid
  crow_DomainID :: uuid
  crow_Address :: string
  crow_DesiredRevision :: int
  crow_ConfigurationHash :: bytes
  crow_AttemptNumber :: int
  crow_PriorStatus :: Status
  crow_LeaseOwnerID :: uuid
  crow_LeaseEpoch :: int
  crow_LeaseExpiresAt :: "instant option"

type_synonym skip_locked = "operation_row \<Rightarrow> mailbox_row \<Rightarrow> bool"

definition sql_le :: "instant option \<Rightarrow> instant \<Rightarrow> bool" where
  \<comment> \<open>A comparison with NULL is not true.\<close>
  "sql_le t now = (case t of None \<Rightarrow> False | Some x \<Rightarrow> x \<le> now)"

definition nulls_last :: "instant option \<Rightarrow> bool \<times> instant" where
  "nulls_last t = (case t of None \<Rightarrow> (True, 0) | Some x \<Rightarrow> (False, x))"

definition operation_mailbox_join :: "db \<Rightarrow> (operation_row \<times> mailbox_row) list" where
  "operation_mailbox_join db =
     [(r, m). r \<leftarrow> db_operations db, m \<leftarrow> db_mailboxes db,
        mb_id m = op_resource_id r \<and> mb_tenant_id m = op_tenant_id r]"

definition claimable :: "int \<Rightarrow> instant \<Rightarrow> operation_row \<Rightarrow> mailbox_row \<Rightarrow> bool" where
  "claimable max_attempts now r m \<longleftrightarrow>
     op_kind r = ''mailbox.provision'' \<and> op_resource_type r = ''mailbox'' \<and>
     mb_desired_status m = ''active'' \<and> mb_revision m = op_desired_revision r \<and>
     op_attempt_count r < max_attempts \<and>
     ((op_status r \<in> {StatusPending, StatusRetryWait, StatusUnknown} \<and> op_next_attempt_at r \<le> now) \<or>
      (op_status r = StatusRunning \<and> sql_le (op_lease_expires_at r) now))"

definition claim_candidates ::
  "skip_locked \<Rightarrow> int \<Rightarrow> instant \<Rightarrow> db \<Rightarrow> (operation_row \<times> mailbox_row \<times> domain_row) list" where
  "claim_candidates skip max_attempts now db =
     [(r, m, d). (r, m) \<leftarrow> operation_mailbox_join db, d \<leftarrow> db_domains db,
        d_id d = mb_domain_id m \<and> d_tenant_id d = mb_tenant_id m \<and>
        claimable max_attempts now r m \<and> \<not> skip r m]"

definition claim_order :: "operation_row \<Rightarrow> (bool \<times> instant) \<times> instant \<times> uuid" where
  "claim_order r =
     (if op_status r = StatusRunning then nulls_last (op_lease_expires_at r)
      else (False, op_next_attempt_at r), op_created_at r, op_id r)"

definition claimed_operation ::
  "ClaimMailboxOperationParams \<Rightarrow> instant \<Rightarrow> operation_row \<Rightarrow> operation_row" where
  "claimed_operation p now r =
     r\<lparr>op_status := StatusRunning,
       op_attempt_count := op_attempt_count r + 1,
       op_lease_owner_id := Some (cp_OwnerID p),
       op_lease_epoch := op_lease_epoch r + 1,
       op_lease_expires_at := Some (now + cp_LeaseDurationMicroseconds p * 1000),
       op_updated_at := now\<rparr>"

definition open_attempt_of :: "operation_row \<Rightarrow> attempt_row \<Rightarrow> bool" where
  "open_attempt_of r a \<longleftrightarrow>
     op_status r = StatusRunning \<and> at_operation_id a = op_id r \<and>
     at_attempt_number a = op_attempt_count r \<and> at_lease_epoch a = op_lease_epoch r \<and>
     at_completed_at a = None"

definition complete_attempt :: "instant \<Rightarrow> Status \<Rightarrow> string \<Rightarrow> attempt_row \<Rightarrow> attempt_row" where
  "complete_attempt now status code a =
     a\<lparr>at_completed_at := Some now, at_result_status := Some status, at_error_code := Some code\<rparr>"

definition new_attempt ::
  "uuid \<Rightarrow> ClaimMailboxOperationParams \<Rightarrow> instant \<Rightarrow> operation_row \<Rightarrow> attempt_row" where
  "new_attempt attempt_id p now r =
     \<lparr>at_id = attempt_id, at_operation_id = op_id r, at_tenant_id = op_tenant_id r,
      at_attempt_number = op_attempt_count r + 1, at_lease_owner_id = cp_OwnerID p,
      at_lease_epoch = op_lease_epoch r + 1, at_prior_status = op_status r,
      at_desired_revision = op_desired_revision r,
      at_configuration_hash = op_configuration_hash r, at_started_at = now,
      at_completed_at = None, at_result_status = None, at_error_code = None,
      at_observed_status = None, at_observed_revision = None,
      at_observed_configuration_hash = None, at_observed_at = None\<rparr>"

definition deliver_wakeup :: "instant \<Rightarrow> operation_row \<Rightarrow> outbox_row list \<Rightarrow> outbox_row list" where
  "deliver_wakeup now r =
     update_where (\<lambda>e. ob_operation_id e = op_id r \<and> ob_tenant_id e = op_tenant_id r \<and>
                       ob_status e \<in> {''pending'', ''processing''})
       (\<lambda>e. e\<lparr>ob_status := ''delivered'', ob_attempts := ob_attempts e + 1,
              ob_delivered_at := Some now\<rparr>)"

definition claim_effect ::
  "uuid \<Rightarrow> ClaimMailboxOperationParams \<Rightarrow> instant \<Rightarrow> operation_row \<Rightarrow> db \<Rightarrow> db" where
  "claim_effect attempt_id p now r db =
     db\<lparr>db_operations := update_where (\<lambda>q. op_id q = op_id r) (claimed_operation p now) (db_operations db),
        db_attempts :=
          update_where (open_attempt_of r)
            (complete_attempt now StatusUnknown ''WORKER_LEASE_EXPIRED'') (db_attempts db)
          @ [new_attempt attempt_id p now r],
        db_outbox := deliver_wakeup now r (db_outbox db)\<rparr>"

definition claim_row ::
  "ClaimMailboxOperationParams \<Rightarrow> instant \<Rightarrow> operation_row \<Rightarrow> mailbox_row \<Rightarrow> domain_row \<Rightarrow>
   ClaimMailboxOperationRow" where
  "claim_row p now r m d =
     (let c = claimed_operation p now r in
      \<lparr>crow_OperationID = op_id c, crow_TenantID = op_tenant_id c,
       crow_MailboxID = op_resource_id r, crow_DomainID = mb_domain_id m,
       crow_Address = mb_local_part m @ ''@'' @ d_name d,
       crow_DesiredRevision = op_desired_revision c,
       crow_ConfigurationHash = op_configuration_hash c,
       crow_AttemptNumber = op_attempt_count c, crow_PriorStatus = op_status r,
       crow_LeaseOwnerID = cp_OwnerID p, crow_LeaseEpoch = op_lease_epoch c,
       crow_LeaseExpiresAt = op_lease_expires_at c\<rparr>)"

definition claimMailboxOperation ::
  "skip_locked \<Rightarrow> instant \<Rightarrow> uuid \<Rightarrow> ClaimMailboxOperationParams \<Rightarrow> db \<Rightarrow>
   (ClaimMailboxOperationRow \<times> db) result" where
  "claimMailboxOperation skip now attempt_id p db =
     (case first_by (\<lambda>(r, m, d). claim_order r) (claim_candidates skip (cp_MaxAttempts p) now db) of
        None \<Rightarrow> Inl ErrNoRows
      | Some (r, m, d) \<Rightarrow> guard_schema (claim_row p now r m d) (claim_effect attempt_id p now r db))"

section \<open>Finalizing before a claim\<close>

definition superseded :: "operation_row \<Rightarrow> mailbox_row \<Rightarrow> bool" where
  "superseded r m \<longleftrightarrow> op_desired_revision r < mb_revision m"

definition finalizable :: "int \<Rightarrow> instant \<Rightarrow> operation_row \<Rightarrow> mailbox_row \<Rightarrow> bool" where
  "finalizable max_attempts now r m \<longleftrightarrow>
     op_kind r = ''mailbox.provision'' \<and> op_resource_type r = ''mailbox'' \<and>
     op_status r \<in> {StatusPending, StatusRunning, StatusRetryWait, StatusUnknown} \<and>
     (superseded r m \<or>
      (mb_revision m = op_desired_revision r \<and> max_attempts \<le> op_attempt_count r \<and>
       (op_status r \<in> {StatusPending, StatusRetryWait, StatusUnknown} \<or>
        sql_le (op_lease_expires_at r) now)))"

definition finalize_order :: "operation_row \<times> mailbox_row \<Rightarrow> nat \<times> instant \<times> uuid" where
  "finalize_order c =
     (if superseded (fst c) (snd c) then 0 else 1, op_created_at (fst c), op_id (fst c))"

definition finalize_result :: "operation_row \<Rightarrow> mailbox_row \<Rightarrow> Status \<times> string" where
  "finalize_result r m =
     (if superseded r m then (StatusSuperseded, ''OPERATION_REVISION_SUPERSEDED'')
      else (StatusDead, ''WORKER_ATTEMPTS_EXHAUSTED''))"

definition finalized_operation :: "instant \<Rightarrow> Status \<Rightarrow> string \<Rightarrow> operation_row \<Rightarrow> operation_row" where
  "finalized_operation now status code r =
     r\<lparr>op_status := status, op_next_attempt_at := now, op_lease_owner_id := None,
       op_lease_expires_at := None, op_last_error_code := Some code, op_updated_at := now\<rparr>"

definition finalize_effect :: "instant \<Rightarrow> Status \<Rightarrow> string \<Rightarrow> operation_row \<Rightarrow> db \<Rightarrow> db" where
  "finalize_effect now status code r db =
     db\<lparr>db_operations := update_where (\<lambda>q. op_id q = op_id r) (finalized_operation now status code)
          (db_operations db),
        db_attempts := update_where (open_attempt_of r) (complete_attempt now status code) (db_attempts db),
        db_outbox := deliver_wakeup now r (db_outbox db)\<rparr>"

definition finalizeMailboxOperationBeforeClaim ::
  "skip_locked \<Rightarrow> instant \<Rightarrow> int \<Rightarrow> db \<Rightarrow> (bool \<times> db) result" where
  "finalizeMailboxOperationBeforeClaim skip now max_attempts db =
     (case first_by finalize_order
             [(r, m). (r, m) \<leftarrow> operation_mailbox_join db,
                finalizable max_attempts now r m \<and> \<not> skip r m] of
        None \<Rightarrow> Inr (False, db)
      | Some (r, m) \<Rightarrow>
          (let (status, code) = finalize_result r m
           in guard_schema True (finalize_effect now status code r db)))"

section \<open>Resolving an attempt\<close>

record ResolveMailboxOperationParams =
  rp_OperationID :: uuid
  rp_LeaseOwnerID :: uuid
  rp_LeaseEpoch :: int
  rp_AttemptNumber :: int
  rp_DesiredRevision :: int
  rp_HasObservation :: bool
  rp_ObservedMailboxID :: uuid
  rp_ResultStatus :: Status
  rp_ObservedStatus :: MailboxStatus
  rp_ObservedRevision :: int
  rp_ObservedConfigurationHash :: bytes
  rp_ObservedAt :: instant
  rp_NextAttemptDelayMicroseconds :: int
  rp_ErrorCode :: string

definition sql_gt :: "instant option \<Rightarrow> instant \<Rightarrow> bool" where
  "sql_gt t now = (case t of None \<Rightarrow> False | Some x \<Rightarrow> now < x)"

definition nullif_empty :: "string \<Rightarrow> string option" where
  "nullif_empty s = (if s = '''' then None else Some s)"

definition resolvable ::
  "instant \<Rightarrow> ResolveMailboxOperationParams \<Rightarrow> operation_row \<Rightarrow> mailbox_row \<Rightarrow> bool" where
  "resolvable now p r m \<longleftrightarrow>
     op_id r = rp_OperationID p \<and> op_status r = StatusRunning \<and>
     op_lease_owner_id r = Some (rp_LeaseOwnerID p) \<and> op_lease_epoch r = rp_LeaseEpoch p \<and>
     op_attempt_count r = rp_AttemptNumber p \<and> op_desired_revision r = rp_DesiredRevision p \<and>
     sql_gt (op_lease_expires_at r) now \<and>
     (\<not> rp_HasObservation p \<or> rp_ObservedMailboxID p = op_resource_id r) \<and>
     (rp_ResultStatus p \<noteq> StatusSucceeded \<or>
      (rp_HasObservation p \<and> rp_ObservedStatus p = MailboxStatusActive \<and>
       rp_ObservedRevision p = op_desired_revision r \<and>
       rp_ObservedConfigurationHash p = op_configuration_hash r \<and>
       mb_revision m = op_desired_revision r \<and> mb_desired_status m = ''active''))"

definition observed_mailbox ::
  "instant \<Rightarrow> ResolveMailboxOperationParams \<Rightarrow> mailbox_row \<Rightarrow> mailbox_row" where
  "observed_mailbox now p m =
     m\<lparr>mb_observed_status := ''active'', mb_observed_revision := Some (rp_ObservedRevision p),
       mb_observed_configuration_hash := Some (rp_ObservedConfigurationHash p),
       mb_observed_at := Some (rp_ObservedAt p), mb_updated_at := now\<rparr>"

definition updates_mailbox ::
  "ResolveMailboxOperationParams \<Rightarrow> operation_row \<Rightarrow> mailbox_row \<Rightarrow> bool" where
  "updates_mailbox p r m \<longleftrightarrow>
     rp_ResultStatus p = StatusSucceeded \<and> mb_id m = op_resource_id r \<and>
     mb_tenant_id m = op_tenant_id r \<and> mb_revision m = op_desired_revision r"

definition resolved_operation ::
  "instant \<Rightarrow> ResolveMailboxOperationParams \<Rightarrow> operation_row \<Rightarrow> operation_row" where
  "resolved_operation now p r =
     r\<lparr>op_status := rp_ResultStatus p,
       op_next_attempt_at :=
         (if rp_ResultStatus p \<in> {StatusRetryWait, StatusUnknown}
          then now + rp_NextAttemptDelayMicroseconds p * 1000 else now),
       op_lease_owner_id := None, op_lease_expires_at := None,
       op_last_error_code := nullif_empty (rp_ErrorCode p),
       op_observed_status :=
         (if rp_HasObservation p then Some (rp_ObservedStatus p) else op_observed_status r),
       op_observed_revision :=
         (if rp_HasObservation p then Some (rp_ObservedRevision p) else op_observed_revision r),
       op_observed_configuration_hash :=
         (if rp_HasObservation p then Some (rp_ObservedConfigurationHash p)
          else op_observed_configuration_hash r),
       op_observed_at := (if rp_HasObservation p then Some (rp_ObservedAt p) else op_observed_at r),
       op_updated_at := now\<rparr>"

definition resolves_attempt :: "ResolveMailboxOperationParams \<Rightarrow> operation_row \<Rightarrow> attempt_row \<Rightarrow> bool" where
  "resolves_attempt p r a \<longleftrightarrow>
     at_operation_id a = op_id r \<and> at_attempt_number a = rp_AttemptNumber p \<and>
     at_lease_owner_id a = rp_LeaseOwnerID p \<and> at_lease_epoch a = rp_LeaseEpoch p \<and>
     at_completed_at a = None"

definition resolved_attempt ::
  "instant \<Rightarrow> ResolveMailboxOperationParams \<Rightarrow> attempt_row \<Rightarrow> attempt_row" where
  "resolved_attempt now p a =
     a\<lparr>at_completed_at := Some now, at_result_status := Some (rp_ResultStatus p),
       at_error_code := nullif_empty (rp_ErrorCode p),
       at_observed_status := (if rp_HasObservation p then Some (rp_ObservedStatus p) else None),
       at_observed_revision := (if rp_HasObservation p then Some (rp_ObservedRevision p) else None),
       at_observed_configuration_hash :=
         (if rp_HasObservation p then Some (rp_ObservedConfigurationHash p) else None),
       at_observed_at := (if rp_HasObservation p then Some (rp_ObservedAt p) else None)\<rparr>"

definition resolve_effect ::
  "instant \<Rightarrow> ResolveMailboxOperationParams \<Rightarrow> operation_row \<Rightarrow> db \<Rightarrow> db" where
  "resolve_effect now p r db =
     (let updated_mailbox = list_ex (updates_mailbox p r) (db_mailboxes db);
          updated_operation = (rp_ResultStatus p \<noteq> StatusSucceeded \<or> updated_mailbox)
      in db\<lparr>db_mailboxes := update_where (updates_mailbox p r) (observed_mailbox now p) (db_mailboxes db),
            db_operations := update_where (\<lambda>q. updated_operation \<and> op_id q = op_id r)
              (resolved_operation now p) (db_operations db),
            db_attempts := update_where (\<lambda>a. updated_operation \<and> resolves_attempt p r a)
              (resolved_attempt now p) (db_attempts db)\<rparr>)"

definition resolve_applied :: "ResolveMailboxOperationParams \<Rightarrow> operation_row \<Rightarrow> db \<Rightarrow> bool" where
  "resolve_applied p r db \<longleftrightarrow>
     (rp_ResultStatus p \<noteq> StatusSucceeded \<or> list_ex (updates_mailbox p r) (db_mailboxes db)) \<and>
     list_ex (resolves_attempt p r) (db_attempts db)"

definition resolveMailboxOperation ::
  "instant \<Rightarrow> ResolveMailboxOperationParams \<Rightarrow> db \<Rightarrow> (bool \<times> db) result" where
  "resolveMailboxOperation now p db =
     (case find (\<lambda>(r, m). resolvable now p r m) (operation_mailbox_join db) of
        None \<Rightarrow> Inr (False, db)
      | Some (r, m) \<Rightarrow> guard_schema (resolve_applied p r db) (resolve_effect now p r db))"

section \<open>Requesting a mailbox\<close>

definition getOperationByIdempotencyKey :: "uuid \<Rightarrow> string \<Rightarrow> db \<Rightarrow> operation_row result" where
  "getOperationByIdempotencyKey tenant key db =
     (case find (\<lambda>r. op_tenant_id r = tenant \<and> op_idempotency_key r = key) (db_operations db) of
        None \<Rightarrow> Inl ErrNoRows | Some r \<Rightarrow> Inr r)"

definition getOperationForTenant :: "uuid \<Rightarrow> uuid \<Rightarrow> db \<Rightarrow> operation_row result" where
  "getOperationForTenant tenant operation db =
     (case find (\<lambda>r. op_tenant_id r = tenant \<and> op_id r = operation) (db_operations db) of
        None \<Rightarrow> Inl ErrNoRows | Some r \<Rightarrow> Inr r)"

definition getProvisionableDomain :: "uuid \<Rightarrow> uuid \<Rightarrow> db \<Rightarrow> uuid result" where
  "getProvisionableDomain domain tenant db =
     (case find (\<lambda>d. d_id d = domain \<and> d_tenant_id d = tenant \<and> d_status d = ''active'' \<and>
                     list_ex (\<lambda>t. t_id t = d_tenant_id d \<and> t_status t = ''active'') (db_tenants db))
             (db_domains db) of
        None \<Rightarrow> Inl ErrNoRows | Some d \<Rightarrow> Inr (d_id d))"

definition new_operation :: "instant \<Rightarrow> uuid \<Rightarrow> uuid \<Rightarrow> uuid \<Rightarrow> string \<Rightarrow> bytes \<Rightarrow> operation_row" where
  "new_operation now ident tenant resource key request_hash =
     \<lparr>op_id = ident, op_tenant_id = tenant, op_kind = ''mailbox.provision'',
      op_resource_type = ''mailbox'', op_resource_id = resource, op_status = StatusPending,
      op_idempotency_key = key, op_request_hash = request_hash,
      op_created_at = now, op_updated_at = now, op_desired_revision = 1,
      op_configuration_hash = request_hash, op_attempt_count = 0, op_next_attempt_at = now,
      op_lease_owner_id = None, op_lease_epoch = 0, op_lease_expires_at = None,
      op_last_error_code = None, op_observed_status = None, op_observed_revision = None,
      op_observed_configuration_hash = None, op_observed_at = None\<rparr>"

definition insertOperation ::
  "instant \<Rightarrow> uuid \<Rightarrow> uuid \<Rightarrow> uuid \<Rightarrow> string \<Rightarrow> bytes \<Rightarrow> db \<Rightarrow> (operation_row \<times> db) result" where
  "insertOperation now ident tenant resource key request_hash db =
     (if list_ex (\<lambda>r. op_tenant_id r = tenant \<and> op_idempotency_key r = key) (db_operations db)
      then Inl ErrNoRows
      else let r = new_operation now ident tenant resource key request_hash
           in guard_schema r (db\<lparr>db_operations := db_operations db @ [r]\<rparr>))"

definition new_mailbox :: "instant \<Rightarrow> uuid \<Rightarrow> uuid \<Rightarrow> uuid \<Rightarrow> string \<Rightarrow> string option \<Rightarrow> mailbox_row" where
  "new_mailbox now ident tenant domain local_part display_name =
     \<lparr>mb_id = ident, mb_tenant_id = tenant, mb_domain_id = domain, mb_local_part = local_part,
      mb_display_name = display_name, mb_desired_status = ''active'',
      mb_observed_status = ''unknown'', mb_revision = 1, mb_created_at = now, mb_updated_at = now,
      mb_observed_revision = None, mb_observed_configuration_hash = None, mb_observed_at = None\<rparr>"

definition insertMailbox ::
  "instant \<Rightarrow> uuid \<Rightarrow> uuid \<Rightarrow> uuid \<Rightarrow> string \<Rightarrow> string option \<Rightarrow> db \<Rightarrow> (mailbox_row \<times> db) result" where
  "insertMailbox now ident tenant domain local_part display_name db =
     (let m = new_mailbox now ident tenant domain local_part display_name
      in guard_schema m (db\<lparr>db_mailboxes := db_mailboxes db @ [m]\<rparr>))"

definition insertOutboxEvent ::
  "instant \<Rightarrow> uuid \<Rightarrow> uuid \<Rightarrow> uuid \<Rightarrow> outbox_payload \<Rightarrow> db \<Rightarrow> (unit \<times> db) result" where
  "insertOutboxEvent now ident tenant operation payload db =
     guard_schema ()
       (db\<lparr>db_outbox := db_outbox db @
          [\<lparr>ob_id = ident, ob_tenant_id = tenant, ob_operation_id = operation,
            ob_event_type = ''mailbox.provision.requested'', ob_payload = payload,
            ob_status = ''pending'', ob_attempts = 0, ob_next_attempt_at = now,
            ob_delivered_at = None, ob_created_at = now\<rparr>]\<rparr>)"

end
