(* ===== verification/Ledger_Invariants.thy ===== *)
theory Ledger_Invariants
  imports Ledger_Statements
begin

text \<open>
  The invariant of the ledger beyond what the schema states, and its
  preservation by every statement: the lease epoch of an operation is its
  number of attempts, attempts are numbered within it, an attempt is open only
  while its operation is running under the same owner, and a running operation
  has its open attempt. From it follow the fencing of receipts, the absorption
  of terminal states, and that no statement of the worker can fail on a
  constraint.
\<close>

section \<open>The invariant\<close>

definition attempt_consistent :: "attempt_row \<Rightarrow> operation_row \<Rightarrow> bool" where
  "attempt_consistent a r \<longleftrightarrow>
     op_id r = at_operation_id a \<and> op_tenant_id r = at_tenant_id a \<and>
     at_lease_epoch a = at_attempt_number a \<and> at_attempt_number a \<le> op_attempt_count r \<and>
     (at_completed_at a = None \<longrightarrow>
        op_status r = StatusRunning \<and> at_attempt_number a = op_attempt_count r \<and>
        op_lease_owner_id r = Some (at_lease_owner_id a))"

definition ledger_inv :: "db \<Rightarrow> bool" where
  "ledger_inv db \<longleftrightarrow>
     (\<forall>r \<in> set (db_operations db). op_lease_epoch r = op_attempt_count r) \<and>
     (\<forall>a \<in> set (db_attempts db). \<exists>r \<in> set (db_operations db). attempt_consistent a r) \<and>
     (\<forall>r \<in> set (db_operations db). op_status r = StatusRunning \<longrightarrow>
        (\<exists>a \<in> set (db_attempts db). open_attempt_of r a))"

definition ledger_ok :: "db \<Rightarrow> bool" where
  "ledger_ok db \<longleftrightarrow> schema_ok db \<and> ledger_inv db"

lemma ledger_okD [dest]:
  assumes "ledger_ok db"
  shows "schema_ok db" "ledger_inv db"
  using assms by (auto simp: ledger_ok_def)

lemma keysD:
  assumes "schema_ok db"
  shows "distinct (map op_id (db_operations db))" "distinct (map mb_id (db_mailboxes db))"
    "distinct (map at_id (db_attempts db))"
    "distinct (map (\<lambda>a. (at_operation_id a, at_attempt_number a)) (db_attempts db))"
    "distinct (map (\<lambda>a. (at_operation_id a, at_lease_epoch a)) (db_attempts db))"
    "distinct (map d_id (db_domains db))"
  using assms by (auto simp: schema_ok_iff key_constraints_def)

lemma rows_okD:
  assumes "schema_ok db"
  shows "r \<in> set (db_operations db) \<Longrightarrow> row_ok operation_checks r"
    "m \<in> set (db_mailboxes db) \<Longrightarrow> row_ok mailbox_checks m"
    "a \<in> set (db_attempts db) \<Longrightarrow> row_ok attempt_checks a"
    "e \<in> set (db_outbox db) \<Longrightarrow> row_ok outbox_checks e"
  using assms by (auto simp: schema_ok_iff)

lemma operation_unique:
  "schema_ok db \<Longrightarrow> r \<in> set (db_operations db) \<Longrightarrow> q \<in> set (db_operations db) \<Longrightarrow>
   op_id r = op_id q \<Longrightarrow> r = q"
  using distinct_map_eqD keysD(1) by metis

lemma join_iff [row_simps]:
  "(r, m) \<in> set (operation_mailbox_join db) \<longleftrightarrow>
     r \<in> set (db_operations db) \<and> m \<in> set (db_mailboxes db) \<and>
     mb_id m = op_resource_id r \<and> mb_tenant_id m = op_tenant_id r"
  by (auto simp: operation_mailbox_join_def)

section \<open>Which row a statement picks\<close>

lemma claim_cases:
  assumes "claimMailboxOperation skip now aid p db = res"
  obtains (empty) "res = Inl ErrNoRows" "claim_candidates skip (cp_MaxAttempts p) now db = []"
  | (picked) r m d where "r \<in> set (db_operations db)" "m \<in> set (db_mailboxes db)"
      "d \<in> set (db_domains db)" "mb_id m = op_resource_id r" "mb_tenant_id m = op_tenant_id r"
      "d_id d = mb_domain_id m" "claimable (cp_MaxAttempts p) now r m" "\<not> skip r m"
      "res = guard_schema (claim_row p now r m d) (claim_effect aid p now r db)"
proof (cases "first_by (\<lambda>(r, m, d). claim_order r) (claim_candidates skip (cp_MaxAttempts p) now db)")
  case None
  with assms empty show thesis by (auto simp: claimMailboxOperation_def)
next
  case (Some c)
  obtain r m d where c: "c = (r, m, d)" by (cases c) auto
  have "c \<in> set (claim_candidates skip (cp_MaxAttempts p) now db)"
    using first_by_SomeD(1) [OF Some] .
  then show thesis
    using assms Some c by (intro picked [of r m d])
      (auto simp: claim_candidates_def join_iff claimMailboxOperation_def)
qed

lemma finalize_cases:
  assumes "finalizeMailboxOperationBeforeClaim skip now mx db = res"
  obtains (empty) "res = Inr (False, db)"
  | (picked) r m status code where "r \<in> set (db_operations db)" "m \<in> set (db_mailboxes db)"
      "mb_id m = op_resource_id r" "mb_tenant_id m = op_tenant_id r"
      "finalizable mx now r m" "finalize_result r m = (status, code)"
      "res = guard_schema True (finalize_effect now status code r db)"
proof (cases "first_by finalize_order
    [(r, m). (r, m) \<leftarrow> operation_mailbox_join db, finalizable mx now r m \<and> \<not> skip r m]")
  case None
  with assms empty show thesis by (auto simp: finalizeMailboxOperationBeforeClaim_def)
next
  case (Some c)
  obtain r m where c: "c = (r, m)" by (cases c) auto
  obtain status code where sc: "finalize_result r m = (status, code)" by force
  from first_by_SomeD(1) [OF Some] c
  have "(r, m) \<in> set (operation_mailbox_join db)" "finalizable mx now r m"
    by (auto split: if_splits)
  then show thesis
    using assms Some c sc by (intro picked [of r m status code])
      (auto simp: join_iff finalizeMailboxOperationBeforeClaim_def)
qed

lemma resolve_cases:
  assumes "resolveMailboxOperation now p db = res"
  obtains (empty) "res = Inr (False, db)"
      "\<And>r m. (r, m) \<in> set (operation_mailbox_join db) \<Longrightarrow> \<not> resolvable now p r m"
  | (picked) r m where "r \<in> set (db_operations db)" "m \<in> set (db_mailboxes db)"
      "mb_id m = op_resource_id r" "mb_tenant_id m = op_tenant_id r" "resolvable now p r m"
      "res = guard_schema (resolve_applied p r db) (resolve_effect now p r db)"
proof (cases "find (\<lambda>(r, m). resolvable now p r m) (operation_mailbox_join db)")
  case None
  then have "\<And>r m. (r, m) \<in> set (operation_mailbox_join db) \<Longrightarrow> \<not> resolvable now p r m"
    by (auto simp: find_None_iff)
  with assms None empty show thesis by (auto simp: resolveMailboxOperation_def)
next
  case (Some c)
  obtain r m where c: "c = (r, m)" by (cases c) auto
  with Some have "(r, m) \<in> set (operation_mailbox_join db)" "resolvable now p r m"
    by (auto simp: find_Some_iff) (metis nth_mem)
  then show thesis
    using assms Some c by (intro picked [of r m]) (auto simp: join_iff resolveMailboxOperation_def)
qed


section \<open>Preservation\<close>

lemma ledger_invD:
  assumes "ledger_inv db"
  shows "q \<in> set (db_operations db) \<Longrightarrow> op_lease_epoch q = op_attempt_count q"
    and "a \<in> set (db_attempts db) \<Longrightarrow> \<exists>r \<in> set (db_operations db). attempt_consistent a r"
    and "q \<in> set (db_operations db) \<Longrightarrow> op_status q = StatusRunning \<Longrightarrow>
      \<exists>a \<in> set (db_attempts db). open_attempt_of q a"
  using assms by (auto simp: ledger_inv_def)

lemma attempt_of_operation:
  assumes "schema_ok db" "ledger_inv db" "r \<in> set (db_operations db)" "a \<in> set (db_attempts db)"
    "at_operation_id a = op_id r"
  shows "attempt_consistent a r"
proof -
  obtain q where "q \<in> set (db_operations db)" "attempt_consistent a q"
    using ledger_invD(2) assms by blast
  moreover from this have "q = r"
    using operation_unique [OF assms(1)] assms by (simp add: attempt_consistent_def)
  ultimately show ?thesis by simp
qed

lemma open_attempt_iff:
  assumes "schema_ok db" "ledger_inv db" "r \<in> set (db_operations db)" "a \<in> set (db_attempts db)"
  shows "open_attempt_of r a \<longleftrightarrow> at_operation_id a = op_id r \<and> at_completed_at a = None"
proof (cases "at_operation_id a = op_id r")
  case True
  then have "attempt_consistent a r" by (rule attempt_of_operation [OF assms])
  with True show ?thesis
    using ledger_invD(1) [OF assms(2,3)] by (auto simp: open_attempt_of_def attempt_consistent_def)
qed (simp add: open_attempt_of_def)

lemma ledger_inv_update:
  assumes ok: "schema_ok db" "ledger_inv db" and r: "r \<in> set (db_operations db)"
    and ops: "db_operations db' = update_where (\<lambda>q. op_id q = op_id r) f (db_operations db)"
    and f: "op_id (f r) = op_id r" "op_tenant_id (f r) = op_tenant_id r"
      "op_lease_epoch (f r) = op_attempt_count (f r)" "op_attempt_count r \<le> op_attempt_count (f r)"
    and ats: "db_attempts db' = update_where P g (db_attempts db) @ new"
    and P: "\<And>a. P a \<Longrightarrow> at_operation_id a = op_id r"
      "\<And>a. a \<in> set (db_attempts db) \<Longrightarrow> open_attempt_of r a \<Longrightarrow> P a"
    and g: "\<And>a. at_operation_id (g a) = at_operation_id a" "\<And>a. at_tenant_id (g a) = at_tenant_id a"
      "\<And>a. at_attempt_number (g a) = at_attempt_number a"
      "\<And>a. at_lease_epoch (g a) = at_lease_epoch a" "\<And>a. at_completed_at (g a) \<noteq> None"
    and new: "\<And>a. a \<in> set new \<Longrightarrow> attempt_consistent a (f r)"
      "op_status (f r) = StatusRunning \<Longrightarrow> \<exists>a \<in> set new. open_attempt_of (f r) a"
  shows "ledger_inv db'"
proof -
  have fr: "f r \<in> set (db_operations db')"
    using r by (force simp: ops set_update_where)
  have op: "q = f r \<or> (q \<in> set (db_operations db) \<and> op_id q \<noteq> op_id r)"
    if "q \<in> set (db_operations db')" for q
    using that unfolding ops
    by (rule in_update_where_cases) (use operation_unique [OF ok(1) _ r] in auto)
  have kept: "q \<in> set (db_operations db')" if "q \<in> set (db_operations db)" "op_id q \<noteq> op_id r" for q
    using that by (force simp: ops set_update_where)
  have moved: "attempt_consistent a' (f r)"
    if "attempt_consistent a r" "at_completed_at a' \<noteq> None" "at_operation_id a' = at_operation_id a"
      "at_tenant_id a' = at_tenant_id a" "at_attempt_number a' = at_attempt_number a"
      "at_lease_epoch a' = at_lease_epoch a" for a a'
    using that f by (auto simp: attempt_consistent_def)
  have att: "\<exists>q \<in> set (db_operations db'). attempt_consistent a q" if "a \<in> set (db_attempts db')" for a
  proof -
    from that consider "a \<in> set new" | "a \<in> set (update_where P g (db_attempts db))"
      by (auto simp: ats)
    then show ?thesis
    proof cases
      case 1
      then show ?thesis using fr new(1) by blast
    next
      case 2
      then show ?thesis
      proof (cases rule: in_update_where_cases)
        case kept: kept
        then obtain q where q: "q \<in> set (db_operations db)" "attempt_consistent a q"
          using ledger_invD(2) [OF ok(2)] by blast
        show ?thesis
        proof (cases "op_id q = op_id r")
          case True
          then have "q = r" using operation_unique [OF ok(1) q(1) r] by simp
          moreover from this have "at_completed_at a \<noteq> None"
            using kept P(2) open_attempt_iff [OF ok r kept(1)] q(2)
            by (auto simp: attempt_consistent_def)
          ultimately show ?thesis using fr moved q(2) by blast
        qed (use q \<open>\<And>q. q \<in> set (db_operations db) \<Longrightarrow> op_id q \<noteq> op_id r \<Longrightarrow> q \<in> set (db_operations db')\<close> in blast)
      next
        case (changed b)
        then have "attempt_consistent b r" using attempt_of_operation [OF ok r] P(1) by blast
        then show ?thesis using fr moved changed(3) g by metis
      qed
    qed
  qed
  have run: "\<exists>a \<in> set (db_attempts db'). open_attempt_of q a"
    if q: "q \<in> set (db_operations db')" "op_status q = StatusRunning" for q
  proof (cases "q = f r")
    case True
    then show ?thesis using new(2) q(2) by (auto simp: ats)
  next
    case False
    with op q have q': "q \<in> set (db_operations db)" "op_id q \<noteq> op_id r" by blast+
    then obtain a where a: "a \<in> set (db_attempts db)" "open_attempt_of q a"
      using ledger_invD(3) [OF ok(2)] q(2) by blast
    then have "\<not> P a" using P(1) q'(2) by (auto simp: open_attempt_of_def)
    then have "a \<in> set (db_attempts db')" using a(1) by (force simp: ats set_update_where)
    then show ?thesis using a(2) by blast
  qed
  show ?thesis
    unfolding ledger_inv_def
  proof (intro conjI ballI impI)
    fix q assume "q \<in> set (db_operations db')"
    with op show "op_lease_epoch q = op_attempt_count q"
      using f(3) ledger_invD(1) [OF ok(2)] by metis
  qed (use att run in \<open>simp_all\<close>)
qed

lemma claimed_operation_simps [simp]:
  "op_id (claimed_operation p now r) = op_id r"
  "op_tenant_id (claimed_operation p now r) = op_tenant_id r"
  "op_status (claimed_operation p now r) = StatusRunning"
  "op_attempt_count (claimed_operation p now r) = op_attempt_count r + 1"
  "op_lease_epoch (claimed_operation p now r) = op_lease_epoch r + 1"
  "op_lease_owner_id (claimed_operation p now r) = Some (cp_OwnerID p)"
  by (simp_all add: claimed_operation_def)

lemma complete_attempt_simps [simp]:
  "at_id (complete_attempt now s c a) = at_id a"
  "at_operation_id (complete_attempt now s c a) = at_operation_id a"
  "at_tenant_id (complete_attempt now s c a) = at_tenant_id a"
  "at_attempt_number (complete_attempt now s c a) = at_attempt_number a"
  "at_lease_epoch (complete_attempt now s c a) = at_lease_epoch a"
  "at_completed_at (complete_attempt now s c a) = Some now"
  by (simp_all add: complete_attempt_def)

lemma resolved_attempt_simps [simp]:
  "at_id (resolved_attempt now p a) = at_id a"
  "at_operation_id (resolved_attempt now p a) = at_operation_id a"
  "at_tenant_id (resolved_attempt now p a) = at_tenant_id a"
  "at_attempt_number (resolved_attempt now p a) = at_attempt_number a"
  "at_lease_epoch (resolved_attempt now p a) = at_lease_epoch a"
  "at_completed_at (resolved_attempt now p a) = Some now"
  by (simp_all add: resolved_attempt_def)

lemma finalized_operation_simps [simp]:
  "op_id (finalized_operation now s c r) = op_id r"
  "op_tenant_id (finalized_operation now s c r) = op_tenant_id r"
  "op_status (finalized_operation now s c r) = s"
  "op_attempt_count (finalized_operation now s c r) = op_attempt_count r"
  "op_lease_epoch (finalized_operation now s c r) = op_lease_epoch r"
  "op_lease_owner_id (finalized_operation now s c r) = None"
  by (simp_all add: finalized_operation_def)

lemma resolved_operation_simps [simp]:
  "op_id (resolved_operation now p r) = op_id r"
  "op_tenant_id (resolved_operation now p r) = op_tenant_id r"
  "op_status (resolved_operation now p r) = rp_ResultStatus p"
  "op_attempt_count (resolved_operation now p r) = op_attempt_count r"
  "op_lease_epoch (resolved_operation now p r) = op_lease_epoch r"
  "op_lease_owner_id (resolved_operation now p r) = None"
  by (simp_all add: resolved_operation_def)

lemma open_attempt_ofD: "open_attempt_of r a \<Longrightarrow> at_operation_id a = op_id r"
  by (simp add: open_attempt_of_def)

lemma resolve_updates:
  assumes "m \<in> set (db_mailboxes db)" "mb_id m = op_resource_id r" "mb_tenant_id m = op_tenant_id r"
    and "resolvable now p r m"
  shows "rp_ResultStatus p = StatusSucceeded \<Longrightarrow> list_ex (updates_mailbox p r) (db_mailboxes db)"
  using assms by (auto simp: list_ex_iff updates_mailbox_def resolvable_def)

lemma resolve_effect_eq:
  assumes "m \<in> set (db_mailboxes db)" "mb_id m = op_resource_id r" "mb_tenant_id m = op_tenant_id r"
    and "resolvable now p r m"
  shows "resolve_effect now p r db =
    db\<lparr>db_mailboxes := update_where (updates_mailbox p r) (observed_mailbox now p) (db_mailboxes db),
       db_operations := update_where (\<lambda>q. op_id q = op_id r) (resolved_operation now p) (db_operations db),
       db_attempts := update_where (resolves_attempt p r) (resolved_attempt now p) (db_attempts db)\<rparr>"
  using resolve_updates [OF assms] by (auto simp: resolve_effect_def Let_def)

lemma resolves_open_attempt:
  assumes "schema_ok db" "ledger_inv db" "r \<in> set (db_operations db)" "a \<in> set (db_attempts db)"
    and "resolvable now p r m" "open_attempt_of r a"
  shows "resolves_attempt p r a"
  using attempt_of_operation [OF assms(1-4)] assms(5,6)
  by (auto simp: resolves_attempt_def open_attempt_of_def attempt_consistent_def resolvable_def)

lemma resolve_applied_iff:
  assumes "schema_ok db" "ledger_inv db" "r \<in> set (db_operations db)"
    and "m \<in> set (db_mailboxes db)" "mb_id m = op_resource_id r" "mb_tenant_id m = op_tenant_id r"
    and "resolvable now p r m"
  shows "resolve_applied p r db"
proof -
  have "op_status r = StatusRunning" using assms(7) by (simp add: resolvable_def)
  then obtain a where "a \<in> set (db_attempts db)" "open_attempt_of r a"
    using ledger_invD(3) [OF assms(2,3)] by blast
  then have "list_ex (resolves_attempt p r) (db_attempts db)"
    using resolves_open_attempt [OF assms(1-3) _ assms(7)] by (auto simp: list_ex_iff)
  then show ?thesis using resolve_updates [OF assms(4-7)] by (auto simp: resolve_applied_def)
qed

lemma claim_effect_inv:
  assumes "schema_ok db" "ledger_inv db" "r \<in> set (db_operations db)"
  shows "ledger_inv (claim_effect aid p now r db)"
proof (rule ledger_inv_update [OF assms, where f = "claimed_operation p now" and P = "open_attempt_of r"
      and g = "complete_attempt now StatusUnknown ''WORKER_LEASE_EXPIRED''"
      and new = "[new_attempt aid p now r]"])
  have epoch: "op_lease_epoch r = op_attempt_count r" using ledger_invD(1) assms by blast
  then show "op_lease_epoch (claimed_operation p now r) = op_attempt_count (claimed_operation p now r)"
    by simp
  show "\<And>a. a \<in> set [new_attempt aid p now r] \<Longrightarrow> attempt_consistent a (claimed_operation p now r)"
    using epoch by (simp add: new_attempt_def attempt_consistent_def)
  show "\<exists>a \<in> set [new_attempt aid p now r]. open_attempt_of (claimed_operation p now r) a"
    by (simp add: new_attempt_def open_attempt_of_def)
qed (simp_all add: claim_effect_def open_attempt_ofD)

lemma finalize_effect_inv:
  assumes "schema_ok db" "ledger_inv db" "r \<in> set (db_operations db)" "s \<noteq> StatusRunning"
  shows "ledger_inv (finalize_effect now s c r db)"
proof (rule ledger_inv_update [OF assms(1-3), where f = "finalized_operation now s c"
      and P = "open_attempt_of r" and g = "complete_attempt now s c" and new = "[]"])
  show "op_lease_epoch (finalized_operation now s c r) = op_attempt_count (finalized_operation now s c r)"
    using ledger_invD(1) [OF assms(2,3)] by simp
qed (simp_all add: finalize_effect_def open_attempt_ofD assms(4))

lemma resolve_effect_inv:
  assumes "schema_ok db" "ledger_inv db" "r \<in> set (db_operations db)" "rp_ResultStatus p \<noteq> StatusRunning"
    and m: "m \<in> set (db_mailboxes db)" "mb_id m = op_resource_id r" "mb_tenant_id m = op_tenant_id r"
      "resolvable now p r m"
  shows "ledger_inv (resolve_effect now p r db)"
proof (rule ledger_inv_update [OF assms(1-3), where f = "resolved_operation now p"
      and P = "resolves_attempt p r" and g = "resolved_attempt now p" and new = "[]"])
  show "op_lease_epoch (resolved_operation now p r) = op_attempt_count (resolved_operation now p r)"
    using ledger_invD(1) [OF assms(2,3)] by simp
  show "\<And>a. a \<in> set (db_attempts db) \<Longrightarrow> open_attempt_of r a \<Longrightarrow> resolves_attempt p r a"
    by (rule resolves_open_attempt [OF assms(1-3) _ m(4)])
  show "\<And>a. resolves_attempt p r a \<Longrightarrow> at_operation_id a = op_id r" by (simp add: resolves_attempt_def)
qed (simp_all add: resolve_effect_eq [OF m] assms(4))

section \<open>No statement of the worker violates a constraint\<close>

lemma list_all_image_set: "list_all (\<lambda>x. f x \<in> S) xs \<longleftrightarrow> set (map f xs) \<subseteq> S"
  by (auto simp: list_all_iff)

lemma keys_iff:
  "list_all snd (key_constraints db) \<longleftrightarrow>
     distinct (map t_id (db_tenants db)) \<and> distinct (map d_id (db_domains db)) \<and>
     distinct (map mb_id (db_mailboxes db)) \<and>
     distinct (map (\<lambda>m. (mb_domain_id m, mb_local_part m)) (db_mailboxes db)) \<and>
     distinct (map op_id (db_operations db)) \<and>
     distinct (map (\<lambda>r. (op_tenant_id r, op_idempotency_key r)) (db_operations db)) \<and>
     distinct (map at_id (db_attempts db)) \<and>
     distinct (map (\<lambda>a. (at_operation_id a, at_attempt_number a)) (db_attempts db)) \<and>
     distinct (map (\<lambda>a. (at_operation_id a, at_lease_epoch a)) (db_attempts db)) \<and>
     distinct (map ob_id (db_outbox db)) \<and> distinct (map ob_operation_id (db_outbox db)) \<and>
     set (map (\<lambda>m. (mb_domain_id m, mb_tenant_id m)) (db_mailboxes db)) \<subseteq>
       set (map (\<lambda>d. (d_id d, d_tenant_id d)) (db_domains db)) \<and>
     set (map op_tenant_id (db_operations db)) \<subseteq> set (map t_id (db_tenants db)) \<and>
     set (map (\<lambda>a. (at_operation_id a, at_tenant_id a)) (db_attempts db)) \<subseteq>
       set (map (\<lambda>r. (op_id r, op_tenant_id r)) (db_operations db)) \<and>
     set (map (\<lambda>e. (ob_operation_id e, ob_tenant_id e)) (db_outbox db)) \<subseteq>
       set (map (\<lambda>r. (op_id r, op_tenant_id r)) (db_operations db))"
  unfolding key_constraints_def list_all_image_set by simp

lemma keys_same:
  assumes "list_all snd (key_constraints db)"
    and "db_tenants db' = db_tenants db" "db_domains db' = db_domains db"
    and "map (\<lambda>m. (mb_id m, mb_domain_id m, mb_local_part m, mb_tenant_id m)) (db_mailboxes db') =
      map (\<lambda>m. (mb_id m, mb_domain_id m, mb_local_part m, mb_tenant_id m)) (db_mailboxes db)"
    and "map (\<lambda>r. (op_id r, op_tenant_id r, op_idempotency_key r)) (db_operations db') =
      map (\<lambda>r. (op_id r, op_tenant_id r, op_idempotency_key r)) (db_operations db)"
    and "map (\<lambda>a. (at_id a, at_operation_id a, at_attempt_number a, at_lease_epoch a, at_tenant_id a)) (db_attempts db') =
      map (\<lambda>a. (at_id a, at_operation_id a, at_attempt_number a, at_lease_epoch a, at_tenant_id a)) (db_attempts db)"
    and "map (\<lambda>e. (ob_id e, ob_operation_id e, ob_tenant_id e)) (db_outbox db') =
      map (\<lambda>e. (ob_id e, ob_operation_id e, ob_tenant_id e)) (db_outbox db)"
  shows "list_all snd (key_constraints db')"
proof -
  have proj: "map (\<lambda>x. h (k x)) xs = map (\<lambda>x. h (k x)) ys" if "map k xs = map k ys" for h k xs ys
    using arg_cong [OF that, of "map h"] by (simp add: comp_def)
  note mb = proj [OF assms(4)] and op = proj [OF assms(5)] and at = proj [OF assms(6)]
    and ob = proj [OF assms(7)]
  have "map mb_id (db_mailboxes db') = map mb_id (db_mailboxes db)"
    "map (\<lambda>m. (mb_domain_id m, mb_local_part m)) (db_mailboxes db') =
     map (\<lambda>m. (mb_domain_id m, mb_local_part m)) (db_mailboxes db)"
    "map (\<lambda>m. (mb_domain_id m, mb_tenant_id m)) (db_mailboxes db') =
     map (\<lambda>m. (mb_domain_id m, mb_tenant_id m)) (db_mailboxes db)"
    using mb [of fst] mb [of "\<lambda>(i, d, l, t). (d, l)"] mb [of "\<lambda>(i, d, l, t). (d, t)"] by simp_all
  moreover have "map op_id (db_operations db') = map op_id (db_operations db)"
    "map op_tenant_id (db_operations db') = map op_tenant_id (db_operations db)"
    "map (\<lambda>r. (op_id r, op_tenant_id r)) (db_operations db') =
     map (\<lambda>r. (op_id r, op_tenant_id r)) (db_operations db)"
    "map (\<lambda>r. (op_tenant_id r, op_idempotency_key r)) (db_operations db') =
     map (\<lambda>r. (op_tenant_id r, op_idempotency_key r)) (db_operations db)"
    using op [of fst] op [of "fst \<circ> snd"] op [of "\<lambda>(i, t, k). (i, t)"] op [of snd] by simp_all
  moreover have "map at_id (db_attempts db') = map at_id (db_attempts db)"
    "map (\<lambda>a. (at_operation_id a, at_attempt_number a)) (db_attempts db') =
     map (\<lambda>a. (at_operation_id a, at_attempt_number a)) (db_attempts db)"
    "map (\<lambda>a. (at_operation_id a, at_lease_epoch a)) (db_attempts db') =
     map (\<lambda>a. (at_operation_id a, at_lease_epoch a)) (db_attempts db)"
    "map (\<lambda>a. (at_operation_id a, at_tenant_id a)) (db_attempts db') =
     map (\<lambda>a. (at_operation_id a, at_tenant_id a)) (db_attempts db)"
    using at [of fst] at [of "\<lambda>(i, p, n, e, t). (p, n)"] at [of "\<lambda>(i, p, n, e, t). (p, e)"]
      at [of "\<lambda>(i, p, n, e, t). (p, t)"] by simp_all
  moreover have "map ob_id (db_outbox db') = map ob_id (db_outbox db)"
    "map ob_operation_id (db_outbox db') = map ob_operation_id (db_outbox db)"
    "map (\<lambda>e. (ob_operation_id e, ob_tenant_id e)) (db_outbox db') =
     map (\<lambda>e. (ob_operation_id e, ob_tenant_id e)) (db_outbox db)"
    using ob [of fst] ob [of "fst \<circ> snd"] ob [of snd] by simp_all
  ultimately show ?thesis
    using assms(1-3) unfolding keys_iff by (simp only:)
qed

lemma key_new_attempt:
  assumes "list_all snd (key_constraints db)"
    and "at_id a \<notin> set (map at_id (db_attempts db))"
    and "\<And>b. b \<in> set (db_attempts db) \<Longrightarrow> at_operation_id b = at_operation_id a \<Longrightarrow>
      at_attempt_number b \<noteq> at_attempt_number a \<and> at_lease_epoch b \<noteq> at_lease_epoch a"
    and "r \<in> set (db_operations db)" "at_operation_id a = op_id r" "at_tenant_id a = op_tenant_id r"
  shows "list_all snd (key_constraints (db\<lparr>db_attempts := db_attempts db @ [a]\<rparr>))"
proof -
  have "(at_operation_id a, at_attempt_number a) \<notin>
      (\<lambda>b. (at_operation_id b, at_attempt_number b)) ` set (db_attempts db)"
    "(at_operation_id a, at_lease_epoch a) \<notin>
      (\<lambda>b. (at_operation_id b, at_lease_epoch b)) ` set (db_attempts db)"
    using assms(3) by fastforce+
  then show ?thesis using assms(1,2,4-6) unfolding keys_iff by simp
qed


lemma keys_claim:
  assumes ok: "schema_ok db" "ledger_inv db" and r: "r \<in> set (db_operations db)"
    and fresh: "aid \<notin> set (map at_id (db_attempts db))"
  shows "list_all snd (key_constraints (claim_effect aid p now r db))"
proof -
  let ?a = "new_attempt aid p now r"
  define base where "base = claim_effect aid p now r db
    \<lparr>db_attempts := update_where (open_attempt_of r)
        (complete_attempt now StatusUnknown ''WORKER_LEASE_EXPIRED'') (db_attempts db)\<rparr>"
  have attempts: "map (\<lambda>a. (at_id a, at_operation_id a, at_attempt_number a, at_lease_epoch a, at_tenant_id a))
      (db_attempts base) =
    map (\<lambda>a. (at_id a, at_operation_id a, at_attempt_number a, at_lease_epoch a, at_tenant_id a)) (db_attempts db)"
    by (simp add: base_def map_update_where)
  have "list_all snd (key_constraints base)"
    by (rule keys_same [of db])
      (use ok in \<open>simp_all add: schema_ok_iff base_def claim_effect_def deliver_wakeup_def
         map_update_where claimed_operation_def\<close>)
  moreover have "claim_effect aid p now r db = base\<lparr>db_attempts := db_attempts base @ [?a]\<rparr>"
    by (simp add: base_def claim_effect_def)
  moreover have "list_all snd (key_constraints (base\<lparr>db_attempts := db_attempts base @ [?a]\<rparr>))"
  proof (rule key_new_attempt [where r = "claimed_operation p now r"])
    show "at_id ?a \<notin> set (map at_id (db_attempts base))"
      using fresh arg_cong [OF attempts, of "\<lambda>l. set (map fst l)"]
      by (simp add: new_attempt_def image_image)
    show "claimed_operation p now r \<in> set (db_operations base)"
      using r by (force simp: base_def claim_effect_def set_update_where)
    fix b assume b: "b \<in> set (db_attempts base)" "at_operation_id b = at_operation_id ?a"
    then obtain c where c: "c \<in> set (db_attempts db)" "at_operation_id c = at_operation_id b"
      "at_attempt_number c = at_attempt_number b" "at_lease_epoch c = at_lease_epoch b"
      by (auto simp: base_def elim!: in_update_where_cases)
    then have "attempt_consistent c r"
      using attempt_of_operation [OF ok r] b(2) by (simp add: new_attempt_def)
    then show "at_attempt_number b \<noteq> at_attempt_number ?a \<and> at_lease_epoch b \<noteq> at_lease_epoch ?a"
      using c ledger_invD(1) [OF ok(2) r] by (auto simp: attempt_consistent_def new_attempt_def)
  qed (use calculation in \<open>simp_all add: new_attempt_def\<close>)
  ultimately show ?thesis by simp
qed

lemma keys_finalize:
  "schema_ok db \<Longrightarrow> list_all snd (key_constraints (finalize_effect now s c r db))"
  by (rule keys_same [of db])
    (simp_all add: schema_ok_iff finalize_effect_def deliver_wakeup_def map_update_where
      finalized_operation_def)

lemma keys_resolve:
  "schema_ok db \<Longrightarrow> list_all snd (key_constraints (resolve_effect now p r db))"
  by (rule keys_same [of db])
    (simp_all add: schema_ok_iff resolve_effect_def Let_def map_update_where
      resolved_operation_def observed_mailbox_def)

definition clock_ok :: "instant \<Rightarrow> db \<Rightarrow> bool" where
  "clock_ok now db \<longleftrightarrow> list_all (\<lambda>a. at_started_at a \<le> now) (db_attempts db)"

definition receipt_params_ok :: "ResolveMailboxOperationParams \<Rightarrow> bool" where
  "receipt_params_ok p \<longleftrightarrow>
     rp_ResultStatus p \<in> {StatusSucceeded, StatusFailed, StatusDead, StatusRetryWait, StatusUnknown} \<and>
     (if rp_ResultStatus p = StatusSucceeded then rp_ErrorCode p = '''' else errorCodePattern (rp_ErrorCode p)) \<and>
     (rp_HasObservation p \<longrightarrow> stored_mailbox_status (rp_ObservedStatus p) \<and> 0 \<le> rp_ObservedRevision p \<and>
        length (rp_ObservedConfigurationHash p) = 32)"

lemma code_constants [simp]:
  "errorCodePattern ''WORKER_LEASE_EXPIRED''"
  "errorCodePattern ''WORKER_ATTEMPTS_EXHAUSTED''"
  "errorCodePattern ''OPERATION_REVISION_SUPERSEDED''"
  by (simp_all add: errorCodePattern_def is_upper_def is_digit_def byte_val_def)

lemma claimed_row_ok:
  assumes "row_ok operation_checks r" "op_lease_epoch r = op_attempt_count r"
    "claimable mx now r m" "mx \<le> MaxInt32"
  shows "row_ok operation_checks (claimed_operation p now r)"
  using assms by (auto simp: row_ok_def operation_checks_def claimed_operation_def claimable_def
      MaxInt32_def MaxInt64_def)

lemma new_attempt_row_ok:
  assumes "row_ok operation_checks r" "claimable mx now r m"
  shows "row_ok attempt_checks (new_attempt aid p now r)"
  using operation_row_okD [OF assms(1)] assms(2)
  by (auto simp: row_ok_def attempt_checks_def new_attempt_def claimable_def hash_ok_def
      revision_ok_def code_ok_def observed_ok_def observation_complete_def)

lemma complete_attempt_row_ok:
  assumes "row_ok attempt_checks a" "at_started_at a \<le> now" "errorCodePattern c"
    "s \<in> {StatusUnknown, StatusDead, StatusSuperseded}"
  shows "row_ok attempt_checks (complete_attempt now s c a)"
  using assms by (auto simp: row_ok_def attempt_checks_def complete_attempt_def code_ok_def)

lemma deliver_wakeup_row_ok:
  assumes "\<forall>e \<in> set es. row_ok outbox_checks e"
  shows "\<forall>e \<in> set (deliver_wakeup now r es). row_ok outbox_checks e"
  unfolding deliver_wakeup_def
  by (rule ball_update_where) (use assms in \<open>auto simp: row_ok_def outbox_checks_def\<close>)

lemma finalized_row_ok:
  assumes "row_ok operation_checks r" "errorCodePattern c" "s \<in> {StatusDead, StatusSuperseded}"
  shows "row_ok operation_checks (finalized_operation now s c r)"
  using assms by (auto simp: row_ok_def operation_checks_def finalized_operation_def code_ok_def)

text \<open>What a valid receipt gives for the columns it fills.\<close>

lemma receipt_params_okD:
  assumes "receipt_params_ok p"
  shows "stored_status (rp_ResultStatus p)" "rp_ResultStatus p \<noteq> StatusRunning"
    "rp_ResultStatus p \<in> {StatusRetryWait, StatusUnknown, StatusSucceeded, StatusFailed, StatusDead,
       StatusSuperseded}"
    "code_ok (nullif_empty (rp_ErrorCode p))"
    "rp_ResultStatus p = StatusSucceeded \<Longrightarrow> nullif_empty (rp_ErrorCode p) = None"
    "rp_HasObservation p \<Longrightarrow> observed_ok (Some (rp_ObservedStatus p))"
    "rp_HasObservation p \<Longrightarrow> revision_ok (Some (rp_ObservedRevision p))"
    "rp_HasObservation p \<Longrightarrow> hash_ok (Some (rp_ObservedConfigurationHash p))"
  using assms
  by (auto simp: receipt_params_ok_def code_ok_def nullif_empty_def observed_ok_def revision_ok_def
      hash_ok_def split: if_splits)

lemma no_observation_ok [simp]:
  "observation_complete None None None" "observation_complete (Some x) (Some y) (Some z)"
  "hash_ok None" "revision_ok None" "observed_ok None" "code_ok None"
  by (simp_all add: observation_complete_def hash_ok_def revision_ok_def observed_ok_def code_ok_def)

lemma resolved_row_ok:
  assumes "row_ok operation_checks r" "receipt_params_ok p" "resolvable now p r m"
  shows "row_ok operation_checks (resolved_operation now p r)"
proof -
  have "rp_ResultStatus p = StatusSucceeded \<Longrightarrow>
      rp_HasObservation p \<and> rp_ObservedStatus p = MailboxStatusActive \<and>
      rp_ObservedRevision p = op_desired_revision r \<and>
      rp_ObservedConfigurationHash p = op_configuration_hash r"
    using assms(3) by (simp add: resolvable_def)
  then show ?thesis
    using assms(1) receipt_params_okD [OF assms(2)]
    by (simp add: row_ok_def operation_checks_def resolved_operation_def)
qed

lemma resolved_attempt_row_ok:
  assumes "row_ok attempt_checks a" "receipt_params_ok p" "at_started_at a \<le> now"
  shows "row_ok attempt_checks (resolved_attempt now p a)"
  using assms(1,3) receipt_params_okD [OF assms(2)]
  by (simp add: row_ok_def attempt_checks_def resolved_attempt_def)

lemma observed_mailbox_row_ok:
  assumes "row_ok mailbox_checks m'" "receipt_params_ok p" "resolvable now p r m" "updates_mailbox p r m'"
  shows "row_ok mailbox_checks (observed_mailbox now p m')"
  using assms by (auto simp: row_ok_def mailbox_checks_def observed_mailbox_def receipt_params_ok_def
      resolvable_def updates_mailbox_def hash_ok_def revision_ok_def observation_complete_def)

text \<open>Since the epochs are in step, the clock does not run backwards and the attempt id is
  fresh, no constraint can stop the three statements of the worker.\<close>

lemma claim_effect_schema:
  assumes ok: "schema_ok db" "ledger_inv db" and r: "r \<in> set (db_operations db)"
    and c: "claimable mx now r m" "mx \<le> MaxInt32" "clock_ok now db"
      "aid \<notin> set (map at_id (db_attempts db))"
  shows "schema_ok (claim_effect aid p now r db)"
proof -
  note rows = rows_okD [OF ok(1)]
  have "\<forall>q \<in> set (db_operations (claim_effect aid p now r db)). row_ok operation_checks q"
    unfolding claim_effect_def
    using rows(1) claimed_row_ok [OF rows(1) [OF r] ledger_invD(1) [OF ok(2) r] c(1,2)]
      operation_unique [OF ok(1) _ r]
    by (auto simp: set_update_where)
  moreover have "\<forall>a \<in> set (db_attempts (claim_effect aid p now r db)). row_ok attempt_checks a"
    using rows(3) new_attempt_row_ok [OF rows(1) [OF r] c(1)] c(3)
    by (auto simp: claim_effect_def set_update_where clock_ok_def list_all_iff
        intro!: complete_attempt_row_ok)
  ultimately show ?thesis
    using rows(2,4) keys_claim [OF ok r c(4)] deliver_wakeup_row_ok [of "db_outbox db"]
    by (simp add: schema_ok_iff claim_effect_def)
qed

lemma finalize_result_cases:
  assumes "finalize_result r m = (s, c)"
  shows "errorCodePattern c" "s \<in> {StatusDead, StatusSuperseded}"
  using assms by (auto simp: finalize_result_def split: if_splits)

lemma finalize_effect_schema:
  assumes ok: "schema_ok db" and r: "r \<in> set (db_operations db)"
    and c: "errorCodePattern c" "s \<in> {StatusDead, StatusSuperseded}" "clock_ok now db"
  shows "schema_ok (finalize_effect now s c r db)"
proof -
  note rows = rows_okD [OF ok]
  have "\<forall>q \<in> set (db_operations (finalize_effect now s c r db)). row_ok operation_checks q"
    using rows(1) finalized_row_ok [OF rows(1) c(1,2)]
    by (auto simp: finalize_effect_def set_update_where)
  moreover have "\<forall>a \<in> set (db_attempts (finalize_effect now s c r db)). row_ok attempt_checks a"
    using rows(3) c by (auto simp: finalize_effect_def set_update_where clock_ok_def list_all_iff
        intro!: complete_attempt_row_ok)
  ultimately show ?thesis
    using rows(2,4) keys_finalize [OF ok] deliver_wakeup_row_ok [of "db_outbox db"]
    by (simp add: schema_ok_iff finalize_effect_def)
qed

lemma resolve_effect_schema:
  assumes ok: "schema_ok db" and r: "r \<in> set (db_operations db)"
    and m: "m \<in> set (db_mailboxes db)" "mb_id m = op_resource_id r" "mb_tenant_id m = op_tenant_id r"
      "resolvable now p r m"
    and c: "receipt_params_ok p" "clock_ok now db"
  shows "schema_ok (resolve_effect now p r db)"
proof -
  note rows = rows_okD [OF ok]
  have "\<forall>q \<in> set (db_operations (resolve_effect now p r db)). row_ok operation_checks q"
    unfolding resolve_effect_eq [OF m]
    using rows(1) resolved_row_ok [OF rows(1) [OF r] c(1) m(4)] operation_unique [OF ok _ r]
    by (auto simp: set_update_where)
  moreover have "\<forall>a \<in> set (db_attempts (resolve_effect now p r db)). row_ok attempt_checks a"
    unfolding resolve_effect_eq [OF m]
    using rows(3) c by (auto simp: set_update_where clock_ok_def list_all_iff
        intro!: resolved_attempt_row_ok)
  moreover have "\<forall>a \<in> set (db_mailboxes (resolve_effect now p r db)). row_ok mailbox_checks a"
    unfolding resolve_effect_eq [OF m]
    using rows(2) observed_mailbox_row_ok [OF rows(2) c(1) m(4)] by (auto simp: set_update_where)
  ultimately show ?thesis
    using rows(4) keys_resolve [OF ok] by (simp add: schema_ok_iff resolve_effect_def Let_def)
qed

end
