(* ===== verification/Ledger_Runs.thy ===== *)
theory Ledger_Runs
  imports Ledger_Invariants
begin

text \<open>
  Runs of the ledger: the statements as steps of a transition system, the
  invariant of \<^verbatim>\<open>Ledger_Invariants\<close> over all runs, and the order in which an
  operation and its attempts can only grow. The locales \<open>step_invariant\<close> and
  \<open>step_monotone\<close> are interpreted on it. Fencing of stale receipts, the
  absorption of terminal states and the uniqueness of the open attempt follow.
\<close>

section \<open>Runs of the ledger\<close>

text \<open>The statements as steps: whatever interleaving of workers and requests
  commits, the tables change by these steps, in some order.\<close>

inductive ledger_step :: "db \<Rightarrow> db \<Rightarrow> bool" where
  claim: "claimMailboxOperation skip now aid p db = Inr (row, db') \<Longrightarrow> ledger_step db db'"
| finalize: "finalizeMailboxOperationBeforeClaim skip now mx db = Inr (b, db') \<Longrightarrow> ledger_step db db'"
| resolve: "resolveMailboxOperation now rp db = Inr (b, db') \<Longrightarrow> ledger_step db db'"
| insert_operation: "insertOperation now ident tenant resource key h db = Inr (r, db') \<Longrightarrow> ledger_step db db'"
| insert_mailbox: "insertMailbox now ident tenant domain lp dn db = Inr (m, db') \<Longrightarrow> ledger_step db db'"
| insert_outbox: "insertOutboxEvent now ident tenant opid payload db = Inr (u, db') \<Longrightarrow> ledger_step db db'"

definition terminal_status :: "Status \<Rightarrow> bool" where
  "terminal_status s \<longleftrightarrow> s \<in> {StatusSucceeded, StatusFailed, StatusDead, StatusSuperseded}"

definition operation_request :: "operation_row \<Rightarrow> uuid \<times> uuid \<times> uuid \<times> string \<times> bytes \<times> bytes \<times> int" where
  "operation_request r =
     (op_id r, op_tenant_id r, op_resource_id r, op_idempotency_key r, op_request_hash r,
      op_configuration_hash r, op_desired_revision r)"

definition lease_of :: "operation_row \<Rightarrow> Status \<times> uuid option \<times> instant option" where
  "lease_of r = (op_status r, op_lease_owner_id r, op_lease_expires_at r)"

definition operation_le :: "operation_row \<Rightarrow> operation_row \<Rightarrow> bool" where
  "operation_le r r' \<longleftrightarrow>
     operation_request r' = operation_request r \<and>
     op_attempt_count r \<le> op_attempt_count r' \<and>
     (terminal_status (op_status r) \<longrightarrow> r' = r) \<and>
     (op_attempt_count r' = op_attempt_count r \<and> op_status r' = StatusRunning \<longrightarrow>
        lease_of r' = lease_of r)"

definition attempt_claim :: "attempt_row \<Rightarrow> uuid \<times> uuid \<times> int \<times> uuid \<times> int \<times> Status \<times> instant" where
  "attempt_claim a =
     (at_id a, at_operation_id a, at_attempt_number a, at_lease_owner_id a, at_lease_epoch a,
      at_prior_status a, at_started_at a)"

definition attempt_le :: "attempt_row \<Rightarrow> attempt_row \<Rightarrow> bool" where
  "attempt_le a a' \<longleftrightarrow>
     attempt_claim a' = attempt_claim a \<and> (at_completed_at a \<noteq> None \<longrightarrow> a' = a)"

definition ledger_le :: "db \<Rightarrow> db \<Rightarrow> bool" where
  "ledger_le db db' \<longleftrightarrow>
     (\<forall>r \<in> set (db_operations db). \<exists>r' \<in> set (db_operations db'). operation_le r r') \<and>
     (\<forall>a \<in> set (db_attempts db). \<exists>a' \<in> set (db_attempts db'). attempt_le a a')"

lemma operation_le_refl: "operation_le r r"
  by (simp add: operation_le_def)

lemma operation_le_trans: "operation_le r q \<Longrightarrow> operation_le q s \<Longrightarrow> operation_le r s"
proof -
  assume rq: "operation_le r q" and qs: "operation_le q s"
  have "lease_of s = lease_of r"
    if "op_attempt_count s = op_attempt_count r" "op_status s = StatusRunning"
  proof -
    have same: "op_attempt_count q = op_attempt_count r"
      using that(1) rq qs unfolding operation_le_def by linarith
    then have "lease_of s = lease_of q" using that qs unfolding operation_le_def by metis
    moreover from this have "op_status q = StatusRunning" using that(2) by (simp add: lease_of_def)
    ultimately show ?thesis using that rq same unfolding operation_le_def by metis
  qed
  then show ?thesis
    using rq qs unfolding operation_le_def by (metis order_trans)
qed

lemma attempt_le_refl: "attempt_le a a"
  by (simp add: attempt_le_def)

lemma attempt_le_trans: "attempt_le a b \<Longrightarrow> attempt_le b c \<Longrightarrow> attempt_le a c"
  unfolding attempt_le_def by metis

lemma ledger_le_refl: "ledger_le db db"
  unfolding ledger_le_def using operation_le_refl attempt_le_refl by blast

lemma ledger_le_trans: "ledger_le a b \<Longrightarrow> ledger_le b c \<Longrightarrow> ledger_le a c"
  unfolding ledger_le_def by (meson operation_le_trans attempt_le_trans)

lemma ledger_le_update:
  assumes "db_operations db' = update_where P f (db_operations db) @ news"
    and "db_attempts db' = update_where Q g (db_attempts db) @ newa"
    and "\<And>r. r \<in> set (db_operations db) \<Longrightarrow> P r \<Longrightarrow> operation_le r (f r)"
    and "\<And>a. a \<in> set (db_attempts db) \<Longrightarrow> Q a \<Longrightarrow> attempt_le a (g a)"
  shows "ledger_le db db'"
proof -
  have "\<exists>r' \<in> set (db_operations db'). operation_le r r'" if "r \<in> set (db_operations db)" for r
    using that assms(1,3) operation_le_refl
    by (cases "P r") (force simp: set_update_where)+
  moreover have "\<exists>a' \<in> set (db_attempts db'). attempt_le a a'" if "a \<in> set (db_attempts db)" for a
    using that assms(2,4) attempt_le_refl
    by (cases "Q a") (force simp: set_update_where)+
  ultimately show ?thesis by (auto simp: ledger_le_def)
qed

lemma ledger_le_grow:
  assumes "db_operations db' = db_operations db @ news" "db_attempts db' = db_attempts db"
  shows "ledger_le db db'"
  by (rule ledger_le_update [where P = "\<lambda>_. False" and Q = "\<lambda>_. False"])
    (use assms in \<open>auto simp: update_where_none\<close>)

lemma claim_effect_le:
  assumes "schema_ok db" "r \<in> set (db_operations db)" "claimable mx now r m"
  shows "ledger_le db (claim_effect aid p now r db)"
proof (rule ledger_le_update)
  have open_status: "\<not> terminal_status (op_status r)"
    using assms(3) by (auto simp: terminal_status_def claimable_def)
  show "db_operations (claim_effect aid p now r db) =
    update_where (\<lambda>q. op_id q = op_id r) (claimed_operation p now) (db_operations db) @ []"
    by (simp add: claim_effect_def)
  show "db_attempts (claim_effect aid p now r db) =
    update_where (open_attempt_of r) (complete_attempt now StatusUnknown ''WORKER_LEASE_EXPIRED'')
      (db_attempts db) @ [new_attempt aid p now r]"
    by (simp add: claim_effect_def)
  fix q assume "q \<in> set (db_operations db)" "op_id q = op_id r"
  then have "q = r" using operation_unique assms by blast
  then show "operation_le q (claimed_operation p now q)"
    using assms(3) open_status by (simp add: operation_le_def operation_request_def claimed_operation_def)
qed (simp_all add: attempt_le_def attempt_claim_def open_attempt_of_def complete_attempt_def)

lemma finalize_effect_le:
  assumes "schema_ok db" "r \<in> set (db_operations db)" "finalizable mx now r m"
    "s \<in> {StatusDead, StatusSuperseded}"
  shows "ledger_le db (finalize_effect now s c r db)"
proof (rule ledger_le_update)
  have open_status: "\<not> terminal_status (op_status r)"
    using assms(3) by (auto simp: terminal_status_def finalizable_def)
  show "db_operations (finalize_effect now s c r db) =
    update_where (\<lambda>q. op_id q = op_id r) (finalized_operation now s c) (db_operations db) @ []"
    by (simp add: finalize_effect_def)
  show "db_attempts (finalize_effect now s c r db) =
    update_where (open_attempt_of r) (complete_attempt now s c) (db_attempts db) @ []"
    by (simp add: finalize_effect_def)
  fix q assume "q \<in> set (db_operations db)" "op_id q = op_id r"
  then have "q = r" using operation_unique assms by blast
  then show "operation_le q (finalized_operation now s c q)"
    using assms(4) open_status by (elim insertE) (simp_all add: operation_le_def operation_request_def finalized_operation_def)
qed (simp_all add: attempt_le_def attempt_claim_def open_attempt_of_def complete_attempt_def)

lemma resolve_effect_le:
  assumes "schema_ok db" "r \<in> set (db_operations db)" "rp_ResultStatus p \<noteq> StatusRunning"
    and m: "m \<in> set (db_mailboxes db)" "mb_id m = op_resource_id r" "mb_tenant_id m = op_tenant_id r"
      "resolvable now p r m"
  shows "ledger_le db (resolve_effect now p r db)"
proof (rule ledger_le_update)
  have open_status: "\<not> terminal_status (op_status r)"
    using m(4) by (auto simp: terminal_status_def resolvable_def)
  show "db_operations (resolve_effect now p r db) =
    update_where (\<lambda>q. op_id q = op_id r) (resolved_operation now p) (db_operations db) @ []"
    by (simp add: resolve_effect_eq [OF m])
  show "db_attempts (resolve_effect now p r db) =
    update_where (resolves_attempt p r) (resolved_attempt now p) (db_attempts db) @ []"
    by (simp add: resolve_effect_eq [OF m])
  fix q assume "q \<in> set (db_operations db)" "op_id q = op_id r"
  then have "q = r" using operation_unique assms by blast
  then show "operation_le q (resolved_operation now p q)"
    using assms(3) open_status by (simp add: operation_le_def operation_request_def resolved_operation_def)
qed (simp_all add: attempt_le_def attempt_claim_def resolves_attempt_def resolved_attempt_def)

lemma schema_running_lease:
  assumes "schema_ok db" "r \<in> set (db_operations db)"
  shows "op_status r = StatusRunning \<longleftrightarrow> op_lease_owner_id r \<noteq> None"
  using operation_row_okD(10) rows_okD(1) assms by blast

lemma claim_step:
  assumes "ledger_ok db" "claimMailboxOperation skip now aid p db = Inr (row, db')"
  shows "ledger_ok db' \<and> ledger_le db db'"
  using assms(2)
proof (cases rule: claim_cases)
  case (picked r m d)
  then have "schema_ok db'" "db' = claim_effect aid p now r db"
    using guard_schema_Inr by metis+
  then show ?thesis
    using picked assms(1) claim_effect_inv claim_effect_le by (simp add: ledger_ok_def)
qed simp

lemma finalize_step:
  assumes "ledger_ok db" "finalizeMailboxOperationBeforeClaim skip now mx db = Inr (b, db')"
  shows "ledger_ok db' \<and> ledger_le db db'"
  using assms(2)
proof (cases rule: finalize_cases)
  case empty
  then show ?thesis using assms(1) ledger_le_refl by simp
next
  case (picked r m status code)
  then have db': "schema_ok db'" "db' = finalize_effect now status code r db"
    using guard_schema_Inr by metis+
  moreover have s: "status \<in> {StatusDead, StatusSuperseded}"
    using picked finalize_result_cases(2) by blast
  moreover have "ledger_inv db'"
    using db' picked assms(1) s by (auto simp: ledger_ok_def intro!: finalize_effect_inv)
  ultimately show ?thesis
    using picked assms(1) finalize_effect_le [OF _ picked(1,5) s] by (simp add: ledger_ok_def)
qed

lemma resolve_status_not_running:
  assumes "schema_ok (resolve_effect now p r db)" "r \<in> set (db_operations db)"
    and "m \<in> set (db_mailboxes db)" "mb_id m = op_resource_id r" "mb_tenant_id m = op_tenant_id r"
      "resolvable now p r m"
  shows "rp_ResultStatus p \<noteq> StatusRunning"
proof -
  have "resolved_operation now p r \<in> set (db_operations (resolve_effect now p r db))"
    using assms(2) by (force simp: resolve_effect_eq [OF assms(3-6)] set_update_where)
  then show ?thesis using schema_running_lease [OF assms(1)] by fastforce
qed

lemma resolve_step:
  assumes "ledger_ok db" "resolveMailboxOperation now p db = Inr (b, db')"
  shows "ledger_ok db' \<and> ledger_le db db'"
  using assms(2)
proof (cases rule: resolve_cases)
  case empty
  then show ?thesis using assms(1) ledger_le_refl by simp
next
  case (picked r m)
  then have db': "schema_ok db'" "db' = resolve_effect now p r db"
    using guard_schema_Inr by metis+
  then have "rp_ResultStatus p \<noteq> StatusRunning"
    using resolve_status_not_running picked by blast
  then show ?thesis
    using db' picked assms(1) resolve_effect_inv resolve_effect_le by (simp add: ledger_ok_def)
qed

lemma ledger_inv_new_operation:
  assumes "ledger_inv db" "db_operations db' = db_operations db @ [r]" "db_attempts db' = db_attempts db"
    "op_lease_epoch r = op_attempt_count r" "op_status r \<noteq> StatusRunning"
  shows "ledger_inv db'"
  using assms by (auto simp: ledger_inv_def)

lemma insertOperation_InrD:
  assumes "insertOperation now ident tenant resource key h db = Inr (r, db')"
  shows "r = new_operation now ident tenant resource key h"
    "db' = db\<lparr>db_operations := db_operations db @ [r]\<rparr>" "schema_ok db'"
    "\<not> (\<exists>q \<in> set (db_operations db). op_tenant_id q = tenant \<and> op_idempotency_key q = key)"
  using assms
  by (auto simp: insertOperation_def Let_def list_ex_iff dest!: guard_schema_Inr split: if_splits)

lemma insert_operation_step:
  assumes "ledger_ok db" "insertOperation now ident tenant resource key h db = Inr (r, db')"
  shows "ledger_ok db' \<and> ledger_le db db'"
proof -
  note new = insertOperation_InrD [OF assms(2)]
  have "ledger_inv db'"
    by (rule ledger_inv_new_operation [of db _ r])
      (use assms(1) new in \<open>auto simp: ledger_ok_def new_operation_def\<close>)
  moreover have "ledger_le db db'"
    by (rule ledger_le_grow [of _ _ "[r]"]) (simp_all add: new(2))
  ultimately show ?thesis using new(3) by (simp add: ledger_ok_def)
qed

lemma other_insert_step:
  assumes "ledger_ok db" "db_operations db' = db_operations db" "db_attempts db' = db_attempts db"
    "schema_ok db'"
  shows "ledger_ok db' \<and> ledger_le db db'"
proof -
  have "ledger_le db db'" by (rule ledger_le_grow [of _ _ "[]"]) (simp_all add: assms(2,3))
  then show ?thesis using assms by (simp add: ledger_ok_def ledger_inv_def)
qed

lemma ledger_step_ok:
  assumes "ledger_step db db'" "ledger_ok db"
  shows "ledger_ok db' \<and> ledger_le db db'"
  using assms
proof cases
  case (insert_mailbox now ident tenant domain lp dn m)
  then show ?thesis
    by (intro other_insert_step [OF assms(2)])
      (auto simp: insertMailbox_def Let_def dest!: guard_schema_Inr)
next
  case (insert_outbox now ident tenant opid payload u)
  then show ?thesis
    by (intro other_insert_step [OF assms(2)])
      (auto simp: insertOutboxEvent_def dest!: guard_schema_Inr)
next
  case claim
  then show ?thesis by (rule claim_step [OF assms(2)])
next
  case finalize
  then show ?thesis by (rule finalize_step [OF assms(2)])
next
  case resolve
  then show ?thesis by (rule resolve_step [OF assms(2)])
next
  case insert_operation
  then show ?thesis by (rule insert_operation_step [OF assms(2)])
qed

interpretation ledger: step_monotone ledger_step ledger_ok ledger_le
  by unfold_locales (use ledger_step_ok ledger_le_refl ledger_le_trans in blast)+

section \<open>Consequences\<close>

lemma open_attempt_unique:
  assumes "ledger_ok db" "a \<in> set (db_attempts db)" "b \<in> set (db_attempts db)"
    "at_completed_at a = None" "at_completed_at b = None" "at_operation_id a = at_operation_id b"
  shows "a = b"
proof -
  note ok = ledger_okD [OF assms(1)]
  obtain r where r: "r \<in> set (db_operations db)" "attempt_consistent a r"
    using ledger_invD(2) ok(2) assms(2) by blast
  then have "attempt_consistent b r"
    using attempt_of_operation [OF ok r(1) assms(3)] assms(6) by (simp add: attempt_consistent_def)
  with r(2) have "at_attempt_number a = at_attempt_number b"
    using assms(4,5) by (simp add: attempt_consistent_def)
  then show ?thesis
    using distinct_map_eqD [OF keysD(4) [OF ok(1)] assms(2,3)] assms(6) by simp
qed

text \<open>A receipt is stale once its operation has a higher epoch, or the same epoch
  without its lease.\<close>

definition stale :: "db \<Rightarrow> uuid \<Rightarrow> int \<Rightarrow> bool" where
  "stale db operation epoch \<longleftrightarrow>
     (\<exists>r \<in> set (db_operations db). op_id r = operation \<and>
        (epoch < op_lease_epoch r \<or> (epoch = op_lease_epoch r \<and> op_status r \<noteq> StatusRunning)))"

lemma operation_leD:
  assumes "operation_le r r'"
  shows "op_id r' = op_id r" "op_attempt_count r \<le> op_attempt_count r'"
    "op_attempt_count r' = op_attempt_count r \<Longrightarrow> op_status r' = StatusRunning \<Longrightarrow>
     op_status r = StatusRunning"
    "terminal_status (op_status r) \<Longrightarrow> r' = r"
proof -
  have "operation_request r' = operation_request r" using assms unfolding operation_le_def by blast
  then show "op_id r' = op_id r" by (simp add: operation_request_def)
  show "op_attempt_count r \<le> op_attempt_count r'" using assms unfolding operation_le_def by blast
  show "terminal_status (op_status r) \<Longrightarrow> r' = r" using assms unfolding operation_le_def by blast
  assume same: "op_attempt_count r' = op_attempt_count r" "op_status r' = StatusRunning"
  then have "lease_of r' = lease_of r" using assms unfolding operation_le_def by blast
  with same(2) show "op_status r = StatusRunning" by (simp add: lease_of_def)
qed

lemma stale_forever:
  assumes "ledger_step\<^sup>*\<^sup>* db db'" "ledger_ok db" "stale db operation epoch"
  shows "stale db' operation epoch"
proof -
  obtain r where r: "r \<in> set (db_operations db)" "op_id r = operation"
    "epoch < op_lease_epoch r \<or> (epoch = op_lease_epoch r \<and> op_status r \<noteq> StatusRunning)"
    using assms(3) by (auto simp: stale_def)
  obtain r' where r': "r' \<in> set (db_operations db')" "operation_le r r'"
    using ledger.run_rel [OF assms(1,2)] r(1) by (auto simp: ledger_le_def)
  have "ledger_inv db" "ledger_inv db'" using assms(1,2) ledger.run_inv by blast+
  then have epochs: "op_lease_epoch r = op_attempt_count r" "op_lease_epoch r' = op_attempt_count r'"
    using ledger_invD(1) r(1) r'(1) by blast+
  note le = operation_leD [OF r'(2)]
  have "epoch < op_lease_epoch r' \<or> (epoch = op_lease_epoch r' \<and> op_status r' \<noteq> StatusRunning)"
    using r(3) le(2,3) unfolding epochs by linarith
  then have "op_id r' = operation \<and> (epoch < op_lease_epoch r' \<or>
      (epoch = op_lease_epoch r' \<and> op_status r' \<noteq> StatusRunning))"
    using le(1) r(2) by simp
  then show ?thesis using r'(1) unfolding stale_def by blast
qed

lemma stale_rejected:
  assumes "ledger_ok db" "stale db (rp_OperationID p) (rp_LeaseEpoch p)"
  shows "resolveMailboxOperation now p db = Inr (False, db)"
proof (cases rule: resolve_cases [OF refl, of now p db])
  case (2 r m)
  obtain q where q: "q \<in> set (db_operations db)" "op_id q = rp_OperationID p"
    "rp_LeaseEpoch p < op_lease_epoch q \<or> (rp_LeaseEpoch p = op_lease_epoch q \<and> op_status q \<noteq> StatusRunning)"
    using assms(2) by (auto simp: stale_def)
  have "q = r" using operation_unique [of db q r] assms(1) q 2 by (auto simp: resolvable_def)
  then show ?thesis using q(3) 2 by (auto simp: resolvable_def)
qed

lemma applied_stale:
  assumes "ledger_ok db" "resolveMailboxOperation now p db = Inr (True, db')"
  shows "stale db' (rp_OperationID p) (rp_LeaseEpoch p)"
  using assms(2)
proof (cases rule: resolve_cases)
  case (picked r m)
  then have db': "schema_ok db'" "db' = resolve_effect now p r db"
    using guard_schema_Inr by metis+
  then have "rp_ResultStatus p \<noteq> StatusRunning"
    using resolve_status_not_running picked by blast
  moreover have "resolved_operation now p r \<in> set (db_operations db')"
    using picked by (force simp: db' resolve_effect_eq [OF picked(2-5)] set_update_where)
  ultimately show ?thesis
    using picked(5) unfolding stale_def
    by (intro bexI [of _ "resolved_operation now p r"]) (auto simp: resolvable_def)
qed simp

end
