(* ===== verification/Ledger_Samples.thy ===== *)
theory Ledger_Samples
  imports Ledger_Runs
begin

text \<open>Concrete tables on which the witnesses evaluate the model: one tenant with
  one domain, one mailbox and its operation, as a request leaves them and as a
  claim leaves them.\<close>

definition sample_hash :: bytes where
  "sample_hash = replicate 32 (CHR ''h'')"

definition sample_request_tables :: db where
  "sample_request_tables =
     \<lparr>db_tenants = [\<lparr>t_id = 1, t_name = ''acme'', t_status = ''active''\<rparr>],
      db_domains = [\<lparr>d_id = 2, d_tenant_id = 1, d_name = ''acme.test'', d_status = ''active''\<rparr>],
      db_mailboxes = [], db_operations = [], db_attempts = [], db_outbox = []\<rparr>"

definition sample_operation :: operation_row where
  "sample_operation = new_operation 100 4 1 3 ''request-key-0001'' sample_hash"

definition sample_mailbox :: mailbox_row where
  "sample_mailbox = new_mailbox 100 3 1 2 ''ada'' None"

definition sample_pending :: db where
  "sample_pending = sample_request_tables\<lparr>db_mailboxes := [sample_mailbox],
     db_operations := [sample_operation]\<rparr>"

definition sample_claim :: ClaimMailboxOperationParams where
  "sample_claim = \<lparr>cp_MaxAttempts = 3, cp_OwnerID = 9, cp_LeaseDurationMicroseconds = 60\<rparr>"

definition sample_running :: db where
  "sample_running = claim_effect 7 sample_claim 200 sample_operation sample_pending"

definition sample_receipt :: ResolveMailboxOperationParams where
  "sample_receipt =
     \<lparr>rp_OperationID = 4, rp_LeaseOwnerID = 9, rp_LeaseEpoch = 1, rp_AttemptNumber = 1,
      rp_DesiredRevision = 1, rp_HasObservation = True, rp_ObservedMailboxID = 3,
      rp_ResultStatus = StatusSucceeded, rp_ObservedStatus = MailboxStatusActive,
      rp_ObservedRevision = 1, rp_ObservedConfigurationHash = sample_hash, rp_ObservedAt = 250,
      rp_NextAttemptDelayMicroseconds = 0, rp_ErrorCode = ''''\<rparr>"

lemma sample_pending_ok: "schema_ok sample_pending"
  by code_simp

lemma sample_pending_inv: "ledger_inv sample_pending"
  by code_simp

lemma sample_running_ok: "schema_ok sample_running"
  by code_simp

lemma sample_pending_ledger: "ledger_ok sample_pending"
  unfolding ledger_ok_def using sample_pending_ok sample_pending_inv ..

lemma sample_claims:
  "claimMailboxOperation (\<lambda>_ _. False) 200 7 sample_claim sample_pending =
   Inr (claim_row sample_claim 200 sample_operation sample_mailbox (hd (db_domains sample_pending)),
        sample_running)"
  by code_simp

lemma sample_running_ledger: "ledger_ok sample_running"
  using claim_step [OF sample_pending_ledger sample_claims] by blast

definition sample_resolved :: db where
  "sample_resolved = resolve_effect 300 sample_receipt (hd (db_operations sample_running)) sample_running"

lemma sample_resolves:
  "resolveMailboxOperation 300 sample_receipt sample_running = Inr (True, sample_resolved)"
  by code_simp

lemma sample_resolved_ledger: "ledger_ok sample_resolved"
  using resolve_step [OF sample_running_ledger sample_resolves] by blast

end
