(* ===== verification/Identity_Samples.thy ===== *)
theory Identity_Samples
  imports Identity_System Ledger_Samples
begin

text \<open>Concrete identity tables for the witnesses: an administrator with the portal
  permission, a mailbox account, one open login flow and one session.\<close>

definition sample_admin :: principal_row where
  "sample_admin = \<lparr>ip_id = 20, ip_tenant_id = 1, ip_oidc_issuer = ''https://idp.test'', ip_oidc_subject = ''root'',
     ip_account_type = ''administrator'', ip_mailbox_id = None, ip_status = ''active'',
     ip_display_name = ''Root'', ip_created_at = 900, ip_updated_at = 900\<rparr>"

definition sample_user :: principal_row where
  "sample_user = \<lparr>ip_id = 21, ip_tenant_id = 1, ip_oidc_issuer = ''https://idp.test'', ip_oidc_subject = ''ada'',
     ip_account_type = ''mailbox'', ip_mailbox_id = Some 3, ip_status = ''active'',
     ip_display_name = ''Ada'', ip_created_at = 900, ip_updated_at = 900\<rparr>"

definition sample_flow :: auth_flow_row where
  "sample_flow = \<lparr>af_id = 30, af_state_digest = replicate 32 (CHR ''s''),
     af_browser_cookie_digest = replicate 32 (CHR ''c''), af_nonce_digest = replicate 32 (CHR ''n''),
     af_pkce_verifier_ciphertext = replicate 71 (CHR ''x''), af_encryption_key_id = ''k1'',
     af_return_to = ''/mail/inbox'', af_created_at = 1000, af_expires_at = 1000 + DefaultAuthFlowLifetime,
     af_consumed_at = None\<rparr>"

definition sample_session :: user_session_row where
  "sample_session = \<lparr>us_id = 40, us_session_digest = replicate 32 (CHR ''d''), us_principal_id = 21,
     us_oidc_issuer = ''https://idp.test'', us_oidc_subject = ''ada'', us_oidc_session_id = None,
     us_csrf_digest = replicate 32 (CHR ''f''), us_created_at = 1000, us_last_seen_at = 1000,
     us_idle_expires_at = 1000 + DefaultSessionIdleTimeout,
     us_absolute_expires_at = 1000 + DefaultSessionAbsoluteTimeout, us_revoked_at = None,
     us_revocation_reason = None\<rparr>"

definition sample_identities :: identity_db where
  "sample_identities = \<lparr>idb_control = sample_pending, idb_principals = [sample_admin, sample_user],
     idb_permissions = [\<lparr>pp_principal_id = 20, pp_permission_name = ''portal.admin.access'', pp_granted_at = 900\<rparr>],
     idb_flows = [sample_flow], idb_sessions = [sample_session], idb_audit = []\<rparr>"

definition quiet_env :: identity_env where
  "quiet_env = \<lparr>pe_fault = (\<lambda>_. None), pe_landed = (\<lambda>_. True), pe_race = (\<lambda>_ db. db),
     pi_collation = length, pi_lower = (\<lambda>r. r)\<rparr>"

lemmas sample_identity_defs = sample_admin_def sample_user_def sample_flow_def sample_session_def
  sample_identities_def

lemmas check_defs = row_ok_def principal_checks_def permission_checks_def flow_checks_def session_checks_def
  audit_checks_def issuer_ok_def external_id_ok_def btrimmed_def char_length_between_def no_cntrl_def

lemma quiet_races: "identity_races quiet_env"
  by (simp add: identity_races_def quiet_env_def)

lemma sample_identity_rows:
  "row_ok principal_checks sample_admin" "row_ok principal_checks sample_user"
  "row_ok flow_checks sample_flow" "row_ok session_checks sample_session"
  by (simp_all add: check_defs sample_identity_defs ascii_eval lifetime_defs del: runes.simps)

lemma sample_permission_row:
  "row_ok permission_checks \<lparr>pp_principal_id = 20, pp_permission_name = ''portal.admin.access'', pp_granted_at = 900\<rparr>"
  by (simp add: check_defs ascii_eval del: runes.simps)

lemma sample_identity_keys: "list_all snd (identity_keys sample_identities)"
  by (simp add: identity_keys_def sample_identity_defs sample_pending_def sample_request_tables_def
      sample_mailbox_def new_mailbox_def)

lemma sample_identities_ok: "identity_ok sample_identities"
  unfolding identity_ok_iff
  using sample_identity_rows sample_permission_row sample_identity_keys sample_pending_ok
  by (simp add: sample_identities_def)

lemma sample_identities_inv: "identity_inv sample_identities"
  using sample_identities_ok by (simp add: identity_inv_def idle_bounded_def sample_identity_defs)

end
