(* ===== verification/Identity_Theorems.thy ===== *)
theory Identity_Theorems
  imports Identity_Samples
begin

text \<open>
  What the identity part promises: sealed verifiers come back, tokens are fit for
  their use, a login flow is consumed once, a session never outlives its bounds
  or its revocation, a login only succeeds with every check passed, and the
  browser is sent to the portal of its account.
\<close>

section \<open>Secrets\<close>

text \<open>Sealing and opening the PKCE verifier: what \<^verbatim>\<open>Encrypt\<close> stored under the current key,
  \<^verbatim>\<open>Decrypt\<close> gives back, also after a rotation, as long as the cipher box still holds that key under its
  identifier.\<close>

lemma pkce_round_trip:
  assumes "NewPKCECipher currentKeyID keys random = Inr box"
    and "Encrypt box verifier w = (Inr (ciphertext, keyID), w')"
    and "map_of (pc_keys later) keyID = map_of (pc_keys box) keyID"
  shows "Decrypt later ciphertext keyID = Inr verifier"
proof -
  from assms(1) have box: "pc_keys box = keys" "list_all pkce_key_ok keys"
    by (auto simp: NewPKCECipher_def split: if_splits)
  from assms(2) obtain key nonce where key: "map_of (pc_keys box) keyID = Some key"
    and nonce: "length nonce = gcm_NonceSize" and valid: "validPKCEVerifier verifier"
    and ct: "ciphertext = nonce @ gcm_Seal key nonce verifier (pkce_associated_data keyID)"
    by (auto simp: Encrypt_def split: if_splits option.splits prod.splits dest: ReadFull_length)
  have "length key = 32" using map_of_SomeD [OF key] box by (auto simp: list_all_iff pkce_key_ok_def)
  then show ?thesis
    using gcm_Open_Seal [of key nonce verifier "pkce_associated_data keyID"]
      length_gcm_Seal [of key nonce verifier] key nonce valid assms(3)
    by (simp add: Decrypt_def ct)
qed

text \<open>An opaque token is fit for every use the service makes of it: it has 43 characters of the URL-safe
  alphabet, decodes to the 32 random bytes it was made of and is a valid PKCE verifier, so that drawing the
  login secrets never leads to a refused challenge.\<close>

lemma opaque_token_fit:
  assumes "NewOpaqueToken random w = (Inr token, w')"
  shows "length token = 43 \<and> validPKCEVerifier token \<and>
    (\<exists>bs. fst (random 32 w) = Some bs \<and> RawURL_DecodeString token = Some (take 32 bs)) \<and>
    PKCEChallenge token = Inr (RawURL_EncodeToString (Sum256 token))"
proof -
  from assms obtain buffer w1 where read: "ReadFull random 32 w = (Some buffer, w1)"
    and buffer: "token = RawURL_EncodeToString buffer"
    by (auto simp: NewOpaqueToken_def opaqueTokenBytes_def split: prod.splits option.splits)
  have "\<exists>bs. fst (random 32 w) = Some bs \<and> RawURL_DecodeString token = Some (take 32 bs)"
    using read by (auto simp: ReadFull_def buffer RawURL_round_trip split: prod.splits option.splits if_splits)
  note decodes = this
  have "length buffer = 32" using ReadFull_length [OF read] .
  then have len: "length token = 43" by (simp add: buffer)
  have "byte_val c < 128 \<and> unreserved (byte_val c)" if "c \<in> set token" for c
    using RawURL_alphabet [of c buffer] that buffer
    by (auto simp: unreserved_def is_upper_def is_lower_def is_digit_def byte_val_def)
  then have "is_ascii token" "list_all (\<lambda>c. unreserved (byte_val c)) token"
    by (auto simp: is_ascii_def list_all_iff)
  then have "validPKCEVerifier token"
    by (simp add: validPKCEVerifier_def len runes_ascii list_all_iff)
  then show ?thesis using len decodes by (simp add: PKCEChallenge_def)
qed

definition portal_path :: "string \<Rightarrow> string" where
  "portal_path location = takeWhile (\<lambda>c. c \<noteq> CHR ''?'') location"

text \<open>After a login the browser is sent into the portal of its account type, whatever return path the
  flow carried: the path in front of the query lies under \<^verbatim>\<open>/mail\<close> for a mailbox account and
  under \<^verbatim>\<open>/admin\<close> for an administrator.\<close>

lemma landing_stays_in_portal:
  "portal_path (landingFor AccountTypeMailbox candidate) \<in> {''/mail''} \<union> {p. HasPrefix p ''/mail/''} \<and>
   portal_path (landingFor AccountTypeAdministrator candidate) \<in> {''/admin''} \<union> {p. HasPrefix p ''/admin/''} \<and>
   landingFor (AccountTypeOther other) candidate = ''/forbidden''"
  by (auto simp: portal_path_def landingFor_def Let_def defaultMailboxLanding_def defaultAdminLanding_def
      HasPrefix_def)

section \<open>Login flows\<close>

lemma consumeAuthFlow_InrD:
  assumes "consumeAuthFlow sd cd t db = Inr (row, db')"
  obtains f where "f \<in> set (idb_flows db)" "consumable sd cd t f" "identity_ok db'"
    "f\<lparr>af_consumed_at := Some t\<rparr> \<in> set (idb_flows db')" "row = consume_row (f\<lparr>af_consumed_at := Some t\<rparr>)"
proof -
  from assms obtain f where f: "find (consumable sd cd t) (idb_flows db) = Some f"
    and row: "row = consume_row (f\<lparr>af_consumed_at := Some t\<rparr>)" "identity_ok db'"
    and flows: "idb_flows db' = update_where (consumable sd cd t) (\<lambda>f. f\<lparr>af_consumed_at := Some t\<rparr>) (idb_flows db)"
    by (auto simp: consumeAuthFlow_def guard_identity_Inr split: option.splits)
  from f have "f \<in> set (idb_flows db)" "consumable sd cd t f" by (auto simp: find_Some_iff)
  then show thesis using that row flows by (auto simp: set_update_where)
qed

lemma repository_ConsumeAuthFlow_InrD:
  assumes "repository_ConsumeAuthFlow env sd cd t db = (Inr flow, db')"
  obtains f where "f \<in> set (idb_flows (pe_race env 0 db))" "consumable sd cd t f" "identity_ok db'"
    "f\<lparr>af_consumed_at := Some t\<rparr> \<in> set (idb_flows db')"
    "flow = consumed_flow (consume_row (f\<lparr>af_consumed_at := Some t\<rparr>)) (af_nonce_digest f)"
proof -
  from assms obtain row where row: "consumeAuthFlow sd cd t (pe_race env 0 db) = Inr (row, db')"
    and flow: "flow = consumed_flow row (cfr_NonceDigest row)"
    by (auto simp: repository_ConsumeAuthFlow_def autocommit_def Let_def query_def fixedDigest_def
        split: call_splits)
  from row show thesis
    by (rule consumeAuthFlow_InrD) (use that flow in \<open>auto simp: consume_row_def\<close>)
qed

text \<open>(C23) A login flow is consumed at most once: after a successful \<^verbatim>\<open>ConsumeAuthFlow\<close>, which needs the state and
  the browser cookie of the flow before its end, at most ten minutes after its start, no later call of any
  API instance consumes it again, whatever cookie it presents and whatever happened in between.\<close>

theorem auth_flow_consumed_once:
  assumes "identity_inv db" "identity_races env"
    and "repository_ConsumeAuthFlow env stateDigest cookieDigest at db = (Inr flow, db1)"
    and "identity_step\<^sup>*\<^sup>* db1 db2" "identity_races later"
  shows "(\<exists>f \<in> set (idb_flows db1). af_id f = caf_ID flow \<and> af_state_digest f = stateDigest \<and>
       af_browser_cookie_digest f = cookieDigest \<and> af_consumed_at f = Some at \<and> at < af_expires_at f \<and>
       af_expires_at f \<le> af_created_at f + DefaultAuthFlowLifetime) \<and>
    fst (repository_ConsumeAuthFlow later stateDigest otherCookie at2 db2) \<noteq> Inr again"
proof -
  obtain f where f: "consumable stateDigest cookieDigest at f" "identity_ok db1"
    "f\<lparr>af_consumed_at := Some at\<rparr> \<in> set (idb_flows db1)"
    "flow = consumed_flow (consume_row (f\<lparr>af_consumed_at := Some at\<rparr>)) (af_nonce_digest f)"
    using repository_ConsumeAuthFlow_InrD [OF assms(3)] by metis
  let ?g = "f\<lparr>af_consumed_at := Some at\<rparr>"
  have inv1: "identity_inv db1"
    using identities.run_inv [OF flow_calls_run(2) [OF assms(2,3)] assms(1)] .
  have row: "row_ok flow_checks ?g" using f(2,3) by (auto simp: identity_ok_iff)
  have "?g \<in> set (idb_flows (pe_race later 0 db2))"
    using consumed_flow_stays [OF inv1 rtranclp_trans [OF assms(4) race_run [OF assms(5)]] f(3)] by simp
  moreover have "identity_ok (pe_race later 0 db2)"
    using identities.run_inv [OF rtranclp_trans [OF assms(4) race_run [OF assms(5)]] inv1]
    by (simp add: identity_inv_def)
  ultimately have none: "consumeAuthFlow stateDigest otherCookie at2 (pe_race later 0 db2) = Inl ErrNoRows"
    using consumed_flow_not_consumable [of _ ?g] f(1) by (simp add: consumable_def)
  have "fst (repository_ConsumeAuthFlow later stateDigest otherCookie at2 db2) \<noteq> Inr again"
    by (auto simp: repository_ConsumeAuthFlow_def autocommit_def none query_def split: call_splits)
  moreover have "caf_ID flow = af_id ?g" using f(4) by (simp add: consumed_flow_def consume_row_def)
  ultimately show ?thesis using f(1,3) row
    by (auto simp: consumable_def row_ok_def flow_checks_def DefaultAuthFlowLifetime_def intro!: bexI [of _ ?g])
qed

section \<open>Sessions\<close>

text \<open>An account as the queries promise it: in an active tenant, and either bound to an active mailbox of
  that tenant or an administrator with the permission to enter the portal.\<close>

definition account_sound :: "identity_db \<Rightarrow> Principal \<Rightarrow> bool" where
  "account_sound db a \<longleftrightarrow>
     (\<exists>t \<in> set (db_tenants (idb_control db)). t_id t = pr_TenantID a \<and> t_status t = ''active'') \<and>
     (case pr_AccountType a of
        AccountTypeMailbox \<Rightarrow> \<exists>m \<in> set (db_mailboxes (idb_control db)).
          map_option mbx_ID (pr_Mailbox a) = Some (mb_id m) \<and> mb_tenant_id m = pr_TenantID a \<and>
          mb_desired_status m = ''active''
      | AccountTypeAdministrator \<Rightarrow> pr_Mailbox a = None \<and> has_permission db (pr_ID a) PermissionPortalAdminAccess
      | AccountTypeOther _ \<Rightarrow> False)"

lemma active_tenant:
  assumes "active_account db p"
  obtains t where "t \<in> set (db_tenants (idb_control db))" "t_id t = ip_tenant_id p" "t_status t = ''active''"
  using assms by (auto simp: active_account_def split: option.splits dest!: find_row_SomeD)

lemma active_mailbox:
  assumes "active_account db p" "ip_account_type p = ''mailbox''"
  obtains m where "m \<in> set (db_mailboxes (idb_control db))" "ip_mailbox_id p = Some (mb_id m)"
    "mb_tenant_id m = ip_tenant_id p" "mb_desired_status m = ''active''"
  using assms by (auto simp: active_account_def joined_mailbox_def split: option.splits dest!: find_row_SomeD)

lemma principalFromRow_sound:
  assumes active: "active_account db p" and row: "principalFromRow (active_principal_row db p) = Inr a"
  shows "account_sound db a" "pr_ID a = ip_id p" "pr_TenantID a = ip_tenant_id p"
proof -
  show ids: "pr_ID a = ip_id p" "pr_TenantID a = ip_tenant_id p"
    using row by (auto simp: principalFromRow_def active_principal_row_def Let_def split: call_splits)
  obtain t where t: "t \<in> set (db_tenants (idb_control db))" "t_id t = ip_tenant_id p" "t_status t = ''active''"
    using active_tenant [OF active] .
  from active consider "ip_account_type p = ''mailbox''" |
    "ip_account_type p = ''administrator''" "has_permission db (ip_id p) ''portal.admin.access''"
    by (auto simp: active_account_def)
  then show "account_sound db a"
  proof cases
    case 1
    obtain m where m: "m \<in> set (db_mailboxes (idb_control db))" "ip_mailbox_id p = Some (mb_id m)"
      "mb_tenant_id m = ip_tenant_id p" "mb_desired_status m = ''active''"
      using active_mailbox [OF active 1] .
    have "pr_AccountType a = AccountTypeMailbox" "map_option mbx_ID (pr_Mailbox a) = Some (mb_id m)"
      using row 1 m(2) by (auto simp: principalFromRow_def active_principal_row_def Let_def AccountType_of_def
          split: call_splits)
    with t m ids show ?thesis by (auto simp: account_sound_def)
  next
    case 2
    have "pr_AccountType a = AccountTypeAdministrator" "pr_Mailbox a = None"
      using row 2(1) by (auto simp: principalFromRow_def active_principal_row_def Let_def AccountType_of_def
          split: call_splits)
    with t 2 ids show ?thesis by (auto simp: account_sound_def PermissionPortalAdminAccess_def)
  qed
qed

lemma getActiveSession_InrD:
  assumes "getActiveSessionByDigest digest t db = Inr row"
  obtains s p where "s \<in> set (idb_sessions db)" "us_session_digest s = digest" "live_session t s"
    "session_account db s = Some p" "row = active_session_row db s p"
  using assms by (auto simp: getActiveSessionByDigest_def split: option.splits dest!: find_SomeD)

lemma getActivePrincipal_InrD:
  assumes "getActivePrincipalByExternalIdentity issuer subject db = Inr row"
  obtains p where "p \<in> set (idb_principals db)" "ip_oidc_issuer p = issuer" "ip_oidc_subject p = subject"
    "active_account db p" "row = active_principal_row db p"
  using assms by (auto simp: getActivePrincipalByExternalIdentity_def split: option.splits dest!: find_SomeD)

lemma session_account_active: "session_account db s = Some p \<Longrightarrow> active_account db p \<and> ip_id p = us_principal_id s"
  by (auto simp: session_account_def split: option.splits if_splits dest!: find_row_SomeD)

text \<open>A successful \<^verbatim>\<open>ResolveSession\<close>: the row it read, and the row it touched, if it did.\<close>

lemma ResolveSession_InrD:
  assumes "repository_ResolveSession repository env digest t db = (Inr session, db')"
  obtains s p a where "s \<in> set (idb_sessions (pe_race env 0 db))" "us_session_digest s = digest"
    "live_session t s" "session_account (pe_race env 0 db) s = Some p"
    "principalFromRow (active_principal_row (pe_race env 0 db) p) = Inr a"
    "ses_Principal session = a" "ses_ID session = us_id s" "ses_CreatedAt session = us_created_at s"
    "ses_AbsoluteExpiresAt session = us_absolute_expires_at s" "ses_CSRFDigest session = us_csrf_digest s"
    "(ses_LastSeenAt session = us_last_seen_at s \<and> ses_IdleExpiresAt session = us_idle_expires_at s \<and>
        db' = pe_race env 1 (pe_race env 0 db)) \<or>
     (\<exists>x. touchActiveSession t (interval_microseconds (ir_idleTimeout repository)) (us_id s)
        (pe_race env 2 (pe_race env 1 (pe_race env 0 db))) = Inr (x, db') \<and>
        ses_LastSeenAt session = fst x \<and> ses_IdleExpiresAt session = snd x)"
proof -
  from assms obtain row permissions a csrf where
    row: "getActiveSessionByDigest digest t (pe_race env 0 db) = Inr row"
    "principalFromRow (asr_Principal row) = Inr a" "fixedDigest (asr_CsrfDigest row) = Inr csrf"
    and touch: "touch_session repository env t (session_of_row row a permissions csrf)
      (pe_race env 1 (pe_race env 0 db)) = (Inr session, db')"
    by (auto simp: repository_ResolveSession_def Let_def query_Inr_iff split: call_splits)
  from row(1) obtain s p where s: "s \<in> set (idb_sessions (pe_race env 0 db))" "us_session_digest s = digest"
    "live_session t s" "session_account (pe_race env 0 db) s = Some p"
    "row = active_session_row (pe_race env 0 db) s p"
    by (rule getActiveSession_InrD)
  have csrf: "csrf = us_csrf_digest s"
    using row(3) s(5) by (auto simp: fixedDigest_def active_session_row_def split: if_splits)
  show thesis
    by (rule that [OF s(1-4), of a])
       (use row(2) s(5) csrf touch in \<open>auto simp: touch_session_def session_of_row_def active_session_row_def
          autocommit_def Let_def query_def split: call_splits\<close>)
qed

lemma touch_InrD:
  assumes "touchActiveSession t idle sid db = Inr (x, db')"
  obtains s where "s \<in> set (idb_sessions db)" "us_id s = sid" "live_session t s" "identity_ok db'"
    "fst x = t" "snd x = min (t + idle) (us_absolute_expires_at s)"
  using assms
  by (auto simp: touchActiveSession_def guard_identity_Inr touched_session_def split: option.splits
      dest!: find_SomeD)

lemma session_persists:
  assumes "identity_inv db" "identity_step\<^sup>*\<^sup>* db db'" "s \<in> set (idb_sessions db)" "r \<in> set (idb_sessions db')"
    "us_id r = us_id s"
  shows "session_le s r"
proof -
  obtain q where q: "q \<in> set (idb_sessions db')" "session_le s q"
    using identities.run_rel [OF assms(2,1)] assms(3) by (auto simp: identity_le_def)
  have "distinct (map us_id (idb_sessions db'))"
    using identities.run_inv [OF assms(2,1)] by (simp add: identity_inv_def identity_keysD)
  moreover have "us_id r = us_id q" using q(2) assms(5) by (simp add: session_le_def)
  ultimately have "r = q" by (rule distinct_map_eqD [OF _ assms(4) q(1)])
  with q(2) show ?thesis by simp
qed

text \<open>(C24) No session outlives its bounds: a session that resolves is within its absolute lifetime of at most
  eight hours from its creation, its idle end is at most thirty minutes after the last recorded access and
  never beyond the absolute end, and the check time is not past the expiry reported to the
  client.\<close>

theorem resolved_session_bounded:
  assumes "identity_inv db" "identity_races env" "repository_wf repository"
    and "repository_ResolveSession repository env digest at db = (Inr session, db')"
  shows "at < ses_AbsoluteExpiresAt session \<and>
    ses_AbsoluteExpiresAt session \<le> ses_CreatedAt session + DefaultSessionAbsoluteTimeout \<and>
    ses_IdleExpiresAt session \<le> ses_AbsoluteExpiresAt session \<and>
    ses_IdleExpiresAt session \<le> ses_LastSeenAt session + DefaultSessionIdleTimeout \<and>
    at \<le> ExpiresAt session"
proof -
  let ?db1 = "pe_race env 0 db" let ?db3 = "pe_race env 2 (pe_race env 1 ?db1)"
  have inv1: "identity_inv ?db1" using identities.run_inv [OF race_run [OF assms(2)] assms(1)] .
  have run: "identity_step\<^sup>*\<^sup>* ?db1 ?db3" using race_run [OF assms(2)] rtranclp_trans by metis
  obtain s where s: "s \<in> set (idb_sessions ?db1)" "live_session at s"
    and ses: "ses_CreatedAt session = us_created_at s" "ses_AbsoluteExpiresAt session = us_absolute_expires_at s"
    and touch: "(ses_LastSeenAt session = us_last_seen_at s \<and> ses_IdleExpiresAt session = us_idle_expires_at s \<and>
        db' = pe_race env 1 ?db1) \<or>
     (\<exists>x. touchActiveSession at (interval_microseconds (ir_idleTimeout repository)) (us_id s) ?db3 = Inr (x, db') \<and>
        ses_LastSeenAt session = fst x \<and> ses_IdleExpiresAt session = snd x)"
    using ResolveSession_InrD [OF assms(4)] by metis
  have "row_ok session_checks s" "idle_bounded s" using s(1) inv1 by (auto simp: identity_inv_def identity_ok_iff)
  then have row: "us_idle_expires_at s \<le> us_absolute_expires_at s"
    "us_absolute_expires_at s \<le> us_created_at s + DefaultSessionAbsoluteTimeout"
    "us_idle_expires_at s \<le> us_last_seen_at s + DefaultSessionIdleTimeout"
    by (auto simp: row_ok_def session_checks_def idle_bounded_def DefaultSessionAbsoluteTimeout_def)
  have idle: "0 \<le> interval_microseconds (ir_idleTimeout repository)"
    "interval_microseconds (ir_idleTimeout repository) \<le> DefaultSessionIdleTimeout"
    using interval_le [OF assms(3)] assms(3) by (auto simp: interval_microseconds_def repository_wf_def)
  from touch show ?thesis
  proof
    assume "ses_LastSeenAt session = us_last_seen_at s \<and> ses_IdleExpiresAt session = us_idle_expires_at s \<and>
      db' = pe_race env 1 ?db1"
    with s ses row show ?thesis by (auto simp: live_session_def ExpiresAt_def)
  next
    assume "\<exists>x. touchActiveSession at (interval_microseconds (ir_idleTimeout repository)) (us_id s) ?db3 = Inr (x, db') \<and>
        ses_LastSeenAt session = fst x \<and> ses_IdleExpiresAt session = snd x"
    then obtain x where x: "touchActiveSession at (interval_microseconds (ir_idleTimeout repository)) (us_id s) ?db3 = Inr (x, db')"
      "ses_LastSeenAt session = fst x" "ses_IdleExpiresAt session = snd x" by blast
    from x(1) obtain r where r: "r \<in> set (idb_sessions ?db3)" "us_id r = us_id s" "fst x = at"
      "snd x = min (at + interval_microseconds (ir_idleTimeout repository)) (us_absolute_expires_at r)"
      by (rule touch_InrD)
    have "us_absolute_expires_at r = us_absolute_expires_at s"
      using session_persists [OF inv1 run s(1) r(1,2)] by (simp add: session_le_def)
    with s ses row idle r x show ?thesis by (auto simp: live_session_def ExpiresAt_def)
  qed
qed

lemma ResolvePrincipal_sound:
  assumes "repository_ResolvePrincipal env issuer subject db = (Inr account, db')"
  shows "account_sound (pe_race env 0 db) account"
proof -
  from assms obtain row where "getActivePrincipalByExternalIdentity issuer subject (pe_race env 0 db) = Inr row"
    "principalFromRow row = Inr account"
    by (auto simp: repository_ResolvePrincipal_def Let_def query_Inr_iff split: call_splits)
  then show ?thesis by (auto elim!: getActivePrincipal_InrD intro: principalFromRow_sound(1))
qed

text \<open>Every session and every login is tied to a sound account at the moment it is looked up: the tenant is
  active, a mailbox account is bound to an active mailbox of its own tenant, an administrator holds
  the permission to enter the portal and has no mailbox; nothing else resolves.\<close>

lemma resolved_account_sound:
  assumes "repository_ResolveSession repository env digest at db = (Inr session, db')"
    and "repository_ResolvePrincipal env2 issuer subject db2 = (Inr account, db2')"
  shows "account_sound (pe_race env 0 db) (ses_Principal session) \<and> account_sound (pe_race env2 0 db2) account"
proof
  show "account_sound (pe_race env 0 db) (ses_Principal session)"
    using assms(1) by (rule ResolveSession_InrD) (metis principalFromRow_sound(1) session_account_active)
  show "account_sound (pe_race env2 0 db2) account" by (rule ResolvePrincipal_sound [OF assms(2)])
qed

text \<open>A session and the audit record of its login appear together or not at all: after
  \<^verbatim>\<open>CreateSessionWithAudit\<close> the tables either hold both new rows, or are what other transactions made of them and
  the call reports an error.\<close>

lemma session_and_audit_atomic:
  assumes "repository_CreateSessionWithAudit env session event db = (r, db')"
  shows "(db' \<in> {db, pe_race env 1 db} \<and> (\<exists>e. r = Inl e)) \<or>
    db' = (pe_race env 1 db)
      \<lparr>idb_sessions := idb_sessions (pe_race env 1 db) @ [session_row session],
       idb_audit := idb_audit (pe_race env 1 db) @ [audit_event_row event]\<rparr>"
  using assms
proof (cases rule: CreateSessionWithAudit_cases)
  case refused
  then show ?thesis by auto
next
  case (written row mid)
  have "(session_row session)\<lparr>us_last_seen_at := us_created_at (session_row session), us_revoked_at := None,
      us_revocation_reason := None\<rparr> = session_row session" by (simp add: session_row_def)
  with written show ?thesis
    by (auto simp: createUserSession_def createAuthenticationAuditEvent_def guard_identity_Inr Let_def)
qed

end
