(* ===== verification/Login_Theorems.thy ===== *)
theory Login_Theorems
  imports Identity_Theorems
begin

text \<open>
  The handlers of the identity service over the database: what a successful login
  has checked and left behind, and what a logout ends.
\<close>

section \<open>Successful handlers\<close>

lemma on_result_Inr_iff:
  assumes "\<And>e w. fst (fail e w) \<noteq> Inr y"
  shows "on_result r fail ok = (Inr y, w') \<longleftrightarrow> (\<exists>x w1. r = (Inr x, w1) \<and> ok x w1 = (Inr y, w'))"
proof -
  obtain a v where r: "r = (a, v)" by force
  have "fail e w \<noteq> (Inr y, w')" for e w using assms [of e w] by auto
  then show ?thesis by (cases a) (auto simp: r)
qed

lemma fail_login_not_Inr: "fst (fail_login service ctx m cause w) \<noteq> Inr y"
  by (simp add: fail_login_def Let_def)

lemma success_iff:
  "fail_login service ctx m cause w = (Inr y, w') \<longleftrightarrow> False"
  "on_result r (fail_login service ctx m) ok = (Inr y, w') \<longleftrightarrow> (\<exists>x w1. r = (Inr x, w1) \<and> ok x w1 = (Inr y, w'))"
  "on_result r (\<lambda>e. fail_login service ctx m (g e)) ok = (Inr y, w') \<longleftrightarrow>
     (\<exists>x w1. r = (Inr x, w1) \<and> ok x w1 = (Inr y, w'))"
  "on_result q (\<lambda>e w. (Inl e, w)) ok2 = (Inr z, w'') \<longleftrightarrow>
     (\<exists>x w1. q = (Inr x, w1) \<and> ok2 x w1 = (Inr z, w''))"
  by (simp add: fail_login_def Let_def, (rule on_result_Inr_iff, simp add: fail_login_not_Inr)+)

lemma open_session_InrD:
  assumes "open_session service ctx input flow ext account now w = (Inr res, w')"
  obtains token w1 ident w2 audit w3 created where
    "is_newToken service w = (Inr token, w1)" "is_newID service w1 = (ident, w2)"
    "auditEvent service (ci_Metadata input) (Some (pr_ID account)) ''login'' ''succeeded'' '''' now w2 = (audit, w3)"
    "CreateSessionWithAudit (is_repository service) ctx
       (session_to_create service ident token account ext now) audit w3 = (Inr created, w')"
    "res = \<lparr>cbr_SessionToken = token, cbr_ExpiresAt = cs_AbsoluteExpiresAt created,
       cbr_RedirectTo = landingFor (pr_AccountType account) (caf_ReturnTo flow)\<rparr>"
  using assms unfolding open_session_def success_iff from_world_def
  by (metis (no_types, lifting) Pair_inject prod.collapse sum.inject(2))

lemma CompleteLogin_InrD:
  assumes "CompleteLogin service ctx input w = (Inr res, w')"
  obtains now w1 flow w2 verifier ext w3 account w4 where
    "is_now service w = (now, w1)"
    "ConsumeAuthFlow (is_repository service) ctx
       (Digest (is_hasher service) SecretPurposeAuthFlowState (ci_State input))
       (Digest (is_hasher service) SecretPurposeAuthFlowCookie (ci_BrowserCookie input)) now w1 = (Inr flow, w2)"
    "Decrypt (is_pkce service) (caf_PKCEVerifierCiphertext flow) (caf_EncryptionKeyID flow) = Inr verifier"
    "Exchange (is_provider service) ctx (ci_Code input) verifier w2 = (Inr ext, w3)"
    "Digest (is_hasher service) SecretPurposeOIDCNonce (oid_Nonce ext) = caf_NonceDigest flow"
    "ResolvePrincipal (is_repository service) ctx (oid_Issuer ext) (oid_Subject ext) w3 = (Inr account, w4)"
    "pr_AccountType account = AccountTypeAdministrator \<longrightarrow> mfaSatisfied (is_mfaPolicy service) ext"
    "open_session service ctx input flow ext account now w4 = (Inr res, w')"
proof -
  obtain now w1 where n: "is_now service w = (now, w1)" by force
  show thesis
    using assms that [OF n]
    by (auto simp: CompleteLogin_def n success_iff split: if_splits)
qed

section \<open>A successful login\<close>

lemma mfaSatisfied_iff:
  "mfaSatisfied policy ext \<longleftrightarrow> (mfa_AllowedACR policy \<noteq> [] \<longrightarrow> oid_ACR ext \<in> set (mfa_AllowedACR policy)) \<and>
     set (mfa_RequiredAMR policy) \<subseteq> set (oid_AMR ext)"
  by (auto simp: mfaSatisfied_def list_all_iff)

lemma identity_call_eq:
  "identity_call f w = (x, w') \<Longrightarrow> f (iw_envs w (iw_calls w)) (iw_db w) = (x, iw_db w')"
  by (auto simp: identity_call_def split: prod.splits)

lemma CreateSessionWithAudit_written:
  assumes "repository_CreateSessionWithAudit env session event db = (Inr created, db')"
  shows "session_row session \<in> set (idb_sessions db')" "audit_event_row event \<in> set (idb_audit db')"
    "cs_AbsoluteExpiresAt created = stc_AbsoluteExpiresAt session"
  using assms
  by (auto elim!: CreateSessionWithAudit_cases simp: createUserSession_def createAuthenticationAuditEvent_def
      guard_identity_Inr Let_def session_row_def created_session_def)

lemma identity_moveD:
  assumes "identity_move repository w w'" "repository_wf repository" "\<forall>n. identity_races (iw_envs w n)"
  shows "identity_step\<^sup>*\<^sup>* (iw_db w) (iw_db w')" "\<forall>n. identity_races (iw_envs w' n)"
  using assms by (auto simp: identity_move_def)

text \<open>What the identity provider answered in a login that starts in \<open>w\<close>: the flow of the presented state
  and browser cookie is consumed, its verifier decrypted, and the code exchanged in the world this leaves.\<close>

definition provider_answer ::
  "'w identity_Service \<Rightarrow> go_context \<Rightarrow> CallbackInput \<Rightarrow> 'w \<Rightarrow> string \<Rightarrow> OIDCIdentity \<Rightarrow> bool" where
  "provider_answer service ctx input w verifier ext \<longleftrightarrow>
     (\<exists>now w1 flow w2 w3. is_now service w = (now, w1) \<and>
        ConsumeAuthFlow (is_repository service) ctx
          (Digest (is_hasher service) SecretPurposeAuthFlowState (ci_State input))
          (Digest (is_hasher service) SecretPurposeAuthFlowCookie (ci_BrowserCookie input)) now w1 = (Inr flow, w2) \<and>
        Decrypt (is_pkce service) (caf_PKCEVerifierCiphertext flow) (caf_EncryptionKeyID flow) = Inr verifier \<and>
        Exchange (is_provider service) ctx (ci_Code input) verifier w2 = (Inr ext, w3))"

lemma provider_answer_unique:
  "provider_answer service ctx input w verifier ext \<Longrightarrow> provider_answer service ctx input w verifier' ext' \<Longrightarrow>
   verifier' = verifier \<and> ext' = ext"
  by (auto simp: provider_answer_def)

text \<open>The repository calls behind a successful login, with the runs between them.\<close>

lemma CompleteLogin_trace:
  assumes "service = api_identity_service repository provider hasher pkce policy clock random uuids"
    and wf: "repository_wf repository" and races: "\<forall>n. identity_races (iw_envs w n)"
    and "CompleteLogin service ctx input w = (Inr res, w')"
  obtains now flow verifier ext account token ident audit created e1 e2 e3 d1 d2 d3 d4 d5 where
    "provider_answer service ctx input w verifier ext"
    "Decrypt pkce (caf_PKCEVerifierCiphertext flow) (caf_EncryptionKeyID flow) = Inr verifier"
    "repository_ConsumeAuthFlow e1 (Digest hasher SecretPurposeAuthFlowState (ci_State input))
       (Digest hasher SecretPurposeAuthFlowCookie (ci_BrowserCookie input)) now d1 = (Inr flow, d2)"
    "repository_ResolvePrincipal e2 (oid_Issuer ext) (oid_Subject ext) d3 = (Inr account, d4)"
    "repository_CreateSessionWithAudit e3 (session_to_create service ident token account ext now) audit d5 =
       (Inr created, iw_db w')"
    "identity_step\<^sup>*\<^sup>* (iw_db w) d1" "identity_step\<^sup>*\<^sup>* d2 d3" "identity_step\<^sup>*\<^sup>* d4 d5"
    "identity_races e1" "identity_races e2" "identity_races e3"
    "Digest hasher SecretPurposeOIDCNonce (oid_Nonce ext) = caf_NonceDigest flow"
    "pr_AccountType account = AccountTypeAdministrator \<longrightarrow> mfaSatisfied policy ext"
    "ae_Action audit = ''login''" "ae_Result audit = ''succeeded''" "ae_PrincipalID audit = Some (pr_ID account)"
    "res = \<lparr>cbr_SessionToken = token, cbr_ExpiresAt = cs_AbsoluteExpiresAt created,
       cbr_RedirectTo = landingFor (pr_AccountType account) (caf_ReturnTo flow)\<rparr>"
proof -
  have svc: "is_repository service = identity_repository repository" "is_hasher service = hasher"
    "is_mfaPolicy service = policy" "Decrypt (is_pkce service) = Decrypt pkce"
    by (simp_all add: assms(1) api_identity_service_def Decrypt_def fun_eq_iff)
  obtain now w1 flow w2 verifier ext w3 account w4 where now: "is_now service w = (now, w1)"
    and consume: "ConsumeAuthFlow (is_repository service) ctx
       (Digest (is_hasher service) SecretPurposeAuthFlowState (ci_State input))
       (Digest (is_hasher service) SecretPurposeAuthFlowCookie (ci_BrowserCookie input)) now w1 = (Inr flow, w2)"
    and decrypt: "Decrypt (is_pkce service) (caf_PKCEVerifierCiphertext flow) (caf_EncryptionKeyID flow) = Inr verifier"
    and exchange: "Exchange (is_provider service) ctx (ci_Code input) verifier w2 = (Inr ext, w3)"
    and nonce: "Digest (is_hasher service) SecretPurposeOIDCNonce (oid_Nonce ext) = caf_NonceDigest flow"
    and resolve: "ResolvePrincipal (is_repository service) ctx (oid_Issuer ext) (oid_Subject ext) w3 = (Inr account, w4)"
    and mfa: "pr_AccountType account = AccountTypeAdministrator \<longrightarrow> mfaSatisfied (is_mfaPolicy service) ext"
    and opened: "open_session service ctx input flow ext account now w4 = (Inr res, w')"
    using CompleteLogin_InrD [OF assms(4)] by metis
  obtain token w5 ident w6 audit w7 created where token: "is_newToken service w4 = (Inr token, w5)"
    and ident: "is_newID service w5 = (ident, w6)"
    and audit: "auditEvent service (ci_Metadata input) (Some (pr_ID account)) ''login'' ''succeeded'' '''' now w6 = (audit, w7)"
    and create: "CreateSessionWithAudit (is_repository service) ctx
       (session_to_create service ident token account ext now) audit w7 = (Inr created, w')"
    and res: "res = \<lparr>cbr_SessionToken = token, cbr_ExpiresAt = cs_AbsoluteExpiresAt created,
       cbr_RedirectTo = landingFor (pr_AccountType account) (caf_ReturnTo flow)\<rparr>"
    using open_session_InrD [OF opened] by metis
  note rels = api_identity.now_rel api_identity.consume_flow_rel api_identity.exchange_rel
    api_identity.resolve_principal_rel api_identity.token_rel api_identity.id_rel api_identity.auditEvent_rel
  have m: "identity_move repository w w1" "identity_move repository w1 w2" "identity_move repository w2 w3"
    "identity_move repository w3 w4" "identity_move repository w4 w5" "identity_move repository w5 w6"
    "identity_move repository w6 w7"
    using rels [of repository] now consume exchange resolve token ident audit
    unfolding assms(1) by (metis snd_conv)+
  note r1 = identity_moveD [OF m(1) wf races] note r2 = identity_moveD [OF m(2) wf r1(2)]
  note r3 = identity_moveD [OF m(3) wf r2(2)] note r4 = identity_moveD [OF m(4) wf r3(2)]
  note r5 = identity_moveD [OF m(5) wf r4(2)] note r6 = identity_moveD [OF m(6) wf r5(2)]
  note r7 = identity_moveD [OF m(7) wf r6(2)]
  have aud: "ae_Action audit = ''login''" "ae_Result audit = ''succeeded''" "ae_PrincipalID audit = Some (pr_ID account)"
    using audit by (auto simp: auditEvent_def from_world_def)
  have run: "identity_step\<^sup>*\<^sup>* (iw_db w4) (iw_db w7)" using r5(1) r6(1) r7(1) by (meson rtranclp_trans)
  have calls: "repository_ConsumeAuthFlow (iw_envs w1 (iw_calls w1))
      (Digest hasher SecretPurposeAuthFlowState (ci_State input))
      (Digest hasher SecretPurposeAuthFlowCookie (ci_BrowserCookie input)) now (iw_db w1) = (Inr flow, iw_db w2)"
    "repository_ResolvePrincipal (iw_envs w3 (iw_calls w3)) (oid_Issuer ext) (oid_Subject ext) (iw_db w3) =
      (Inr account, iw_db w4)"
    "repository_CreateSessionWithAudit (iw_envs w7 (iw_calls w7))
      (session_to_create service ident token account ext now) audit (iw_db w7) = (Inr created, iw_db w')"
    using consume resolve create by (auto simp: svc identity_repository_def dest: identity_call_eq)
  have answer: "provider_answer service ctx input w verifier ext"
    using now consume decrypt exchange unfolding provider_answer_def by blast
  show thesis
    using that [OF answer decrypt [unfolded svc] calls r1(1) r3(1) run] r1(2) r3(2) r7(2) nonce mfa aud res by (simp add: svc)
qed

text \<open>What a successful login has established: the flow bound to the presented state and browser cookie was
  consumed in time and its nonce is the one in the identity the provider answered for the code and the flow's own
  verifier; the account was sound when it was looked up, and for an administrator that answer satisfied the MFA
  policy; the database holds the new session under the digest of the
  returned token, ending eight hours later as told to the browser, together with its audit record; and the
  browser lands where its account type allows.\<close>

lemma CompleteLogin_sound:
  assumes "service = api_identity_service repository provider hasher pkce policy clock random uuids"
    and "repository_wf repository" "\<forall>n. identity_races (iw_envs w n)" "identity_inv (iw_db w)"
    and "CompleteLogin service ctx input w = (Inr res, w')"
  shows "\<exists>f s a verifier ext account seen.
    Decrypt pkce (af_pkce_verifier_ciphertext f) (af_encryption_key_id f) = Inr verifier \<and>
    provider_answer service ctx input w verifier ext \<and>
    f \<in> set (idb_flows (iw_db w')) \<and>
    af_state_digest f = Digest hasher SecretPurposeAuthFlowState (ci_State input) \<and>
    af_browser_cookie_digest f = Digest hasher SecretPurposeAuthFlowCookie (ci_BrowserCookie input) \<and>
    af_consumed_at f = Some (us_created_at s) \<and> us_created_at s < af_expires_at f \<and>
    af_nonce_digest f = Digest hasher SecretPurposeOIDCNonce (oid_Nonce ext) \<and>
    identity_step\<^sup>*\<^sup>* (iw_db w) seen \<and> account_sound seen account \<and>
    (pr_AccountType account = AccountTypeAdministrator \<longrightarrow> mfaSatisfied policy ext) \<and>
    s \<in> set (idb_sessions (iw_db w')) \<and>
    us_session_digest s = Digest hasher SecretPurposeSessionCookie (cbr_SessionToken res) \<and>
    us_principal_id s = pr_ID account \<and> us_oidc_issuer s = oid_Issuer ext \<and> us_oidc_subject s = oid_Subject ext \<and>
    us_absolute_expires_at s = us_created_at s + DefaultSessionAbsoluteTimeout \<and> us_revoked_at s = None \<and>
    a \<in> set (idb_audit (iw_db w')) \<and> au_action a = ''login'' \<and> au_result a = ''succeeded'' \<and>
    au_principal_id a = Some (pr_ID account) \<and>
    cbr_ExpiresAt res = us_absolute_expires_at s \<and>
    cbr_RedirectTo res = landingFor (pr_AccountType account) (af_return_to f)"
proof -
  obtain now flow verifier ext account token ident audit created e1 e2 e3 d1 d2 d3 d4 d5 where
    answer: "provider_answer service ctx input w verifier ext"
      "Decrypt pkce (caf_PKCEVerifierCiphertext flow) (caf_EncryptionKeyID flow) = Inr verifier"
    and consume: "repository_ConsumeAuthFlow e1 (Digest hasher SecretPurposeAuthFlowState (ci_State input))
       (Digest hasher SecretPurposeAuthFlowCookie (ci_BrowserCookie input)) now d1 = (Inr flow, d2)"
    and resolve: "repository_ResolvePrincipal e2 (oid_Issuer ext) (oid_Subject ext) d3 = (Inr account, d4)"
    and create: "repository_CreateSessionWithAudit e3 (session_to_create service ident token account ext now) audit d5 =
       (Inr created, iw_db w')"
    and runs: "identity_step\<^sup>*\<^sup>* (iw_db w) d1" "identity_step\<^sup>*\<^sup>* d2 d3" "identity_step\<^sup>*\<^sup>* d4 d5"
    and envs: "identity_races e1" "identity_races e2" "identity_races e3"
    and checks: "Digest hasher SecretPurposeOIDCNonce (oid_Nonce ext) = caf_NonceDigest flow"
      "pr_AccountType account = AccountTypeAdministrator \<longrightarrow> mfaSatisfied policy ext"
    and audit: "ae_Action audit = ''login''" "ae_Result audit = ''succeeded''" "ae_PrincipalID audit = Some (pr_ID account)"
    and res: "res = \<lparr>cbr_SessionToken = token, cbr_ExpiresAt = cs_AbsoluteExpiresAt created,
       cbr_RedirectTo = landingFor (pr_AccountType account) (caf_ReturnTo flow)\<rparr>"
    using CompleteLogin_trace [OF assms(1,2,3,5)] by metis
  have to_d2: "identity_step\<^sup>*\<^sup>* (iw_db w) d2" using runs(1) flow_calls_run(2) [OF envs(1) consume] by (rule rtranclp_trans)
  have d2_end: "identity_step\<^sup>*\<^sup>* d2 (iw_db w')"
    using runs(2,3) flow_calls_run(3) [OF envs(2) resolve] CreateSessionWithAudit_run [OF envs(3) create]
    by (meson rtranclp_trans)
  have seen: "identity_step\<^sup>*\<^sup>* (iw_db w) (pe_race e2 0 d3)" using to_d2 runs(2) race_run [OF envs(2)] by (meson rtranclp_trans)
  obtain f where f: "consumable (Digest hasher SecretPurposeAuthFlowState (ci_State input))
      (Digest hasher SecretPurposeAuthFlowCookie (ci_BrowserCookie input)) now f"
    "f\<lparr>af_consumed_at := Some now\<rparr> \<in> set (idb_flows d2)"
    "flow = consumed_flow (consume_row (f\<lparr>af_consumed_at := Some now\<rparr>)) (af_nonce_digest f)"
    using repository_ConsumeAuthFlow_InrD [OF consume] by metis
  have kept: "f\<lparr>af_consumed_at := Some now\<rparr> \<in> set (idb_flows (iw_db w'))"
    using consumed_flow_stays [OF identities.run_inv [OF to_d2 assms(4)] d2_end f(2)] by simp
  have sound: "account_sound (pe_race e2 0 d3) account" using ResolvePrincipal_sound [OF resolve] .
  note written = CreateSessionWithAudit_written [OF create]
  have svc: "is_hasher service = hasher" by (simp add: assms(1) api_identity_service_def)
  show ?thesis
    by (rule exI [of _ "f\<lparr>af_consumed_at := Some now\<rparr>"],
        rule exI [of _ "session_row (session_to_create service ident token account ext now)"],
        rule exI [of _ "audit_event_row audit"], rule exI [of _ verifier], rule exI [of _ ext], rule exI [of _ account],
        rule exI [of _ "pe_race e2 0 d3"])
       (use answer f(1,3) kept sound seen written checks audit res in
         \<open>simp add: consumable_def consumed_flow_def consume_row_def session_row_def session_to_create_def
            audit_event_row_def svc\<close>)
qed

section \<open>Logout\<close>

lemma service_ResolveSession_SomeD:
  assumes "service_ResolveSession service ctx token w = (Inr (Some v), w')"
  obtains now w1 where "is_now service w = (now, w1)"
    "ResolveSession (is_repository service) ctx (Digest (is_hasher service) SecretPurposeSessionCookie token) now w1 =
       (Inr (sv_Session v), w')"
proof -
  obtain now w1 where n: "is_now service w = (now, w1)" by force
  obtain r w2 where r: "ResolveSession (is_repository service) ctx
      (Digest (is_hasher service) SecretPurposeSessionCookie token) now w1 = (r, w2)" by force
  show thesis using assms that [OF n] r
    by (cases r) (auto simp: service_ResolveSession_def n Let_def split: if_splits)
qed

lemma Logout_InrD:
  assumes "Logout service ctx token csrf metadata w = (Inr result, w')"
    and "fst (service_ResolveSession service ctx token w) = Inr (Some v)"
  obtains w1 now w2 audit w3 where "service_ResolveSession service ctx token w = (Inr (Some v), w1)"
    "csrf \<noteq> ''''" "Digest (is_hasher service) SecretPurposeCSRFToken csrf = ses_CSRFDigest (sv_Session v)"
    "is_now service w1 = (now, w2)"
    "auditEvent service metadata (Some (pr_ID (ses_Principal (sv_Session v)))) ''logout'' ''succeeded'' '''' now w2 = (audit, w3)"
    "RevokeSessionWithAudit (is_repository service) ctx (Digest (is_hasher service) SecretPurposeSessionCookie token) now
       RevocationReasonLogout audit w3 = (None, w')"
proof -
  obtain w1 where v: "service_ResolveSession service ctx token w = (Inr (Some v), w1)"
    using assms(2) by (metis prod.collapse)
  obtain now w2 where n: "is_now service w1 = (now, w2)" by force
  obtain audit w3 where a: "auditEvent service metadata (Some (pr_ID (ses_Principal (sv_Session v))))
     ''logout'' ''succeeded'' '''' now w2 = (audit, w3)" by force
  obtain e w4 where e: "RevokeSessionWithAudit (is_repository service) ctx
     (Digest (is_hasher service) SecretPurposeSessionCookie token) now RevocationReasonLogout audit w3 = (e, w4)" by force
  have "token \<noteq> ''''" using v by (auto simp: service_ResolveSession_def)
  then show thesis using assms(1) that [OF v _ _ n a] e
    by (cases e) (auto simp: Logout_def Let_def v n a split: if_splits)
qed

lemma revoked_after:
  assumes "revokeSessionByDigest digest at reason db = Inr (n, mid)"
    and "s \<in> set (idb_sessions db)" "us_session_digest s = digest"
  obtains r where "r \<in> set (idb_sessions mid)" "us_session_digest r = digest" "us_revoked_at r \<noteq> None"
proof -
  let ?hit = "\<lambda>s. us_session_digest s = digest \<and> us_revoked_at s = None"
  let ?set = "\<lambda>s. s\<lparr>us_revoked_at := Some at, us_revocation_reason := Some reason\<rparr>"
  have mid: "idb_sessions mid = update_where ?hit ?set (idb_sessions db)"
    using assms(1) by (auto simp: revokeSessionByDigest_def revoke_sessions_def Let_def guard_identity_Inr)
  show thesis
    by (rule that [of "if ?hit s then ?set s else s"]) (use assms(2,3) in \<open>auto simp: mid update_where_def\<close>)
qed

lemma revoked_never_resolves:
  assumes "identity_inv db" "r \<in> set (idb_sessions db)" "us_revoked_at r \<noteq> None"
    and "identity_step\<^sup>*\<^sup>* db db2" "identity_races env"
  shows "fst (repository_ResolveSession repository env (us_session_digest r) at db2) \<noteq> Inr session"
proof -
  have run: "identity_step\<^sup>*\<^sup>* db (pe_race env 0 db2)" using assms(4) race_run [OF assms(5)] by (rule rtranclp_trans)
  have "identity_ok (pe_race env 0 db2)" using identities.run_inv [OF run assms(1)] by (simp add: identity_inv_def)
  from revoked_session_inactive [OF this revoked_session_stays [OF assms(1) run assms(2,3)] assms(3)]
  have "getActiveSessionByDigest (us_session_digest r) at (pe_race env 0 db2) = Inl ErrNoRows" .
  then show ?thesis
    by (auto simp: repository_ResolveSession_def Let_def query_def split: call_splits)
qed

lemma resolved_session_stays:
  assumes "repository_ResolveSession repository env digest at db = (Inr session, db')"
    and "identity_inv db" "identity_races env" "repository_wf repository" "identity_step\<^sup>*\<^sup>* db' db2"
  obtains r where "r \<in> set (idb_sessions db2)" "us_session_digest r = digest"
proof -
  let ?db1 = "pe_race env 0 db" let ?db3 = "pe_race env 2 (pe_race env 1 ?db1)"
  have race: "identity_step\<^sup>*\<^sup>* ?db1 (pe_race env 1 ?db1)" "identity_step\<^sup>*\<^sup>* ?db1 ?db3"
    using race_run [OF assms(3)] rtranclp_trans by metis+
  obtain s where s: "s \<in> set (idb_sessions ?db1)" "us_session_digest s = digest"
    and touch: "db' = pe_race env 1 ?db1 \<or>
      (\<exists>x. touchActiveSession at (interval_microseconds (ir_idleTimeout repository)) (us_id s) ?db3 = Inr (x, db'))"
    using ResolveSession_InrD [OF assms(1)] by metis
  from touch have "identity_step\<^sup>*\<^sup>* ?db1 db'"
  proof
    assume "\<exists>x. touchActiveSession at (interval_microseconds (ir_idleTimeout repository)) (us_id s) ?db3 = Inr (x, db')"
    then have "identity_step ?db3 db'" using identity_step.session_touched interval_le [OF assms(4)] by blast
    with race(2) show ?thesis by (rule rtranclp.rtrancl_into_rtrancl)
  qed (use race in simp)
  then have run: "identity_step\<^sup>*\<^sup>* (pe_race env 0 db) db2" using assms(5) by (rule rtranclp_trans)
  have "identity_inv (pe_race env 0 db)" using identities.run_inv [OF race_run [OF assms(3)] assms(2)] .
  from identities.run_rel [OF run this] s that show thesis by (auto simp: identity_le_def session_le_def)
qed

lemma Logout_trace:
  assumes "service = api_identity_service repository provider hasher pkce policy clock random uuids"
    and wf: "repository_wf repository" and races: "\<forall>n. identity_races (iw_envs w n)"
    and "fst (service_ResolveSession service ctx token w) = Inr (Some v)"
    and "Logout service ctx token csrf metadata w = (Inr result, w')"
  obtains e0 t0 d0 d1 now audit e3 d3 where
    "repository_ResolveSession repository e0 (Digest hasher SecretPurposeSessionCookie token) t0 d0 = (Inr (sv_Session v), d1)"
    "repository_RevokeSessionWithAudit e3 (Digest hasher SecretPurposeSessionCookie token) now RevocationReasonLogout
       audit d3 = (None, iw_db w')"
    "identity_step\<^sup>*\<^sup>* (iw_db w) d0" "identity_step\<^sup>*\<^sup>* d1 d3" "identity_races e0" "identity_races e3"
    "Digest hasher SecretPurposeCSRFToken csrf = ses_CSRFDigest (sv_Session v)"
    "ae_Action audit = ''logout''" "ae_PrincipalID audit = Some (pr_ID (ses_Principal (sv_Session v)))"
proof -
  let ?digest = "Digest hasher SecretPurposeSessionCookie token"
  have svc: "is_repository service = identity_repository repository" "is_hasher service = hasher"
    by (simp_all add: assms(1) api_identity_service_def)
  obtain w1 now w2 audit w3 where view: "service_ResolveSession service ctx token w = (Inr (Some v), w1)"
    and csrf: "Digest hasher SecretPurposeCSRFToken csrf = ses_CSRFDigest (sv_Session v)"
    and now: "is_now service w1 = (now, w2)"
    and audit: "auditEvent service metadata (Some (pr_ID (ses_Principal (sv_Session v)))) ''logout'' ''succeeded'' '''' now w2 = (audit, w3)"
    and revoke: "RevokeSessionWithAudit (is_repository service) ctx ?digest now RevocationReasonLogout audit w3 = (None, w')"
    using Logout_InrD [OF assms(5,4)] svc(2) by metis
  obtain t0 w0 where t0: "is_now service w = (t0, w0)"
    and found: "ResolveSession (is_repository service) ctx ?digest t0 w0 = (Inr (sv_Session v), w1)"
    using service_ResolveSession_SomeD [OF view] svc(2) by metis
  have m: "identity_move repository w w0" "identity_move repository w0 w1" "identity_move repository w1 w3"
    using api_identity.now_rel [of repository w] api_identity.resolve_session_rel [of repository w0]
      api_identity.now_rel [of repository w1] api_identity.auditEvent_rel [of repository w2]
      api_identity.rel_trans [of repository w1 w2 w3] t0 found now audit
    unfolding assms(1) by (metis snd_conv)+
  note r0 = identity_moveD [OF m(1) wf races] note r1 = identity_moveD [OF m(2) wf r0(2)]
  note r3 = identity_moveD [OF m(3) wf r1(2)]
  have calls: "repository_ResolveSession repository (iw_envs w0 (iw_calls w0)) ?digest t0 (iw_db w0) =
      (Inr (sv_Session v), iw_db w1)"
    "repository_RevokeSessionWithAudit (iw_envs w3 (iw_calls w3)) ?digest now RevocationReasonLogout audit
      (iw_db w3) = (None, iw_db w')"
    using found revoke by (auto simp: svc identity_repository_def dest: identity_call_eq)
  have "ae_Action audit = ''logout''" "ae_PrincipalID audit = Some (pr_ID (ses_Principal (sv_Session v)))"
    using audit by (auto simp: auditEvent_def from_world_def)
  then show thesis using that [OF calls r0(1) r3(1)] r0(2) r3(2) csrf by blast
qed

lemma service_never_resolves:
  assumes "service = api_identity_service repository provider hasher pkce policy clock random uuids"
    and "identity_inv db" "r \<in> set (idb_sessions db)" "us_revoked_at r \<noteq> None"
    and "us_session_digest r = Digest hasher SecretPurposeSessionCookie token"
    and "identity_step\<^sup>*\<^sup>* db (iw_db w)" "\<forall>n. identity_races (iw_envs w n)"
  shows "fst (service_ResolveSession service ctx token w) \<noteq> Inr (Some v)"
proof
  have svc: "is_repository service = identity_repository repository" "is_hasher service = hasher"
    "is_now service = on_rest clock" by (simp_all add: assms(1) api_identity_service_def)
  assume "fst (service_ResolveSession service ctx token w) = Inr (Some v)"
  then obtain w2 where "service_ResolveSession service ctx token w = (Inr (Some v), w2)" by (metis prod.collapse)
  then obtain t w1 where n: "is_now service w = (t, w1)"
    and l: "ResolveSession (is_repository service) ctx (us_session_digest r) t w1 = (Inr (sv_Session v), w2)"
    using service_ResolveSession_SomeD svc(2) assms(5) by metis
  have same: "iw_db w1 = iw_db w" "iw_envs w1 = iw_envs w" using n by (auto simp: svc on_rest_def split: prod.splits)
  have "repository_ResolveSession repository (iw_envs w1 (iw_calls w1)) (us_session_digest r) t (iw_db w1) =
      (Inr (sv_Session v), iw_db w2)"
    using l by (auto simp: svc identity_repository_def dest: identity_call_eq)
  moreover have "identity_races (iw_envs w1 (iw_calls w1))" using assms(7) same by simp
  ultimately show False
    using revoked_never_resolves [OF assms(2-4,6)] same by (metis fst_conv)
qed

lemma Logout_revokes:
  assumes "service = api_identity_service repository provider hasher pkce policy clock random uuids"
    and "repository_wf repository" "\<forall>n. identity_races (iw_envs w n)" "identity_inv (iw_db w)"
    and "fst (service_ResolveSession service ctx token w) = Inr (Some v)"
    and "Logout service ctx token csrf metadata w = (Inr result, w')"
  obtains r a where "identity_inv (iw_db w')" "r \<in> set (idb_sessions (iw_db w'))" "us_revoked_at r \<noteq> None"
    "us_session_digest r = Digest hasher SecretPurposeSessionCookie token"
    "Digest hasher SecretPurposeCSRFToken csrf = ses_CSRFDigest (sv_Session v)"
    "a \<in> set (idb_audit (iw_db w'))" "au_action a = ''logout''"
    "au_principal_id a = Some (pr_ID (ses_Principal (sv_Session v)))"
proof -
  let ?digest = "Digest hasher SecretPurposeSessionCookie token"
  obtain e0 t0 d0 d1 now audit e3 d3 where
    found: "repository_ResolveSession repository e0 ?digest t0 d0 = (Inr (sv_Session v), d1)"
    and revoke: "repository_RevokeSessionWithAudit e3 ?digest now RevocationReasonLogout audit d3 = (None, iw_db w')"
    and runs: "identity_step\<^sup>*\<^sup>* (iw_db w) d0" "identity_step\<^sup>*\<^sup>* d1 d3" and envs: "identity_races e0" "identity_races e3"
    and csrf: "Digest hasher SecretPurposeCSRFToken csrf = ses_CSRFDigest (sv_Session v)"
    and audit: "ae_Action audit = ''logout''" "ae_PrincipalID audit = Some (pr_ID (ses_Principal (sv_Session v)))"
    using Logout_trace [OF assms(1,2,3,5,6)] by metis
  have inv0: "identity_inv d0" using identities.run_inv [OF runs(1) assms(4)] .
  have "identity_inv d3"
    using identities.run_inv [OF rtranclp_trans [OF ResolveSession_run [OF envs(1) assms(2) found] runs(2)] inv0] .
  then have inv': "identity_inv (iw_db w')"
    using identities.run_inv [OF RevokeSessionWithAudit_run [OF envs(2) revoke]] by blast
  obtain s where s: "s \<in> set (idb_sessions (pe_race e3 1 d3))" "us_session_digest s = ?digest"
    using resolved_session_stays [OF found inv0 envs(1) assms(2) rtranclp_trans [OF runs(2) race_run [OF envs(2)]]] .
  from revoke obtain n mid where mid: "revokeSessionByDigest ?digest now ''logout'' (pe_race e3 1 d3) = Inr (n, mid)"
    "createAuthenticationAuditEvent (audit_event_row audit) mid = Inr ((), iw_db w')"
    by (rule RevokeSessionWithAudit_cases) auto
  obtain r where r: "r \<in> set (idb_sessions mid)" "us_session_digest r = ?digest" "us_revoked_at r \<noteq> None"
    using revoked_after [OF mid(1) s] .
  have final: "r \<in> set (idb_sessions (iw_db w'))" "audit_event_row audit \<in> set (idb_audit (iw_db w'))"
    using mid(2) r(1) by (auto simp: createAuthenticationAuditEvent_def guard_identity_Inr)
  show thesis by (rule that [OF inv' final(1) r(3,2) csrf final(2)]) (simp_all add: audit_event_row_def audit)
qed

section \<open>All handlers\<close>

text \<open>(C25) Every handler of the identity service, whatever it returns and wherever its calls fail, moves the
  identity tables along runs of statements only and keeps their invariant: the schema with its keys and
  references, and idle ends of at most thirty minutes after the last access.\<close>

theorem identity_handlers_keep_invariant:
  assumes "service = api_identity_service repository provider hasher pkce policy clock random uuids"
    and "repository_wf repository" "\<forall>n. identity_races (iw_envs w n)" "identity_inv (iw_db w)"
    and "w' \<in> {snd (StartLogin uc service ctx returnTo metadata w), snd (CompleteLogin service ctx input w),
      snd (RejectLogin service ctx state cookie metadata w), snd (service_ResolveSession service ctx token w),
      snd (Logout service ctx token csrf metadata w)}"
  shows "identity_step\<^sup>*\<^sup>* (iw_db w) (iw_db w') \<and> identity_inv (iw_db w')"
proof -
  have "identity_move repository w w'"
    using assms(5) api_identity.StartLogin_rel api_identity.CompleteLogin_rel api_identity.RejectLogin_rel
      api_identity.service_ResolveSession_rel api_identity.Logout_rel
    unfolding assms(1) by auto
  from identity_moveD(1) [OF this assms(2,3)] identities.run_inv assms(4) show ?thesis by blast
qed

end
