(* ===== verification/Authorization_Theorems.thy ===== *)
theory Authorization_Theorems
  imports Authorization Login_Theorems
begin

text \<open>
  What the authorisation boundary guarantees: the bisection over the sorted
  permissions decides membership, resources of another tenant or mailbox stay
  hidden, and a handler behind \<^verbatim>\<open>Protect\<close> runs for an authorised request of a live
  session only. The boundary sees the identity service through the interface
  \<open>session_source\<close>.
\<close>

section \<open>Permissions\<close>

lemma search_between_bounds:
  assumes "sorted xs" "i \<le> j" "j \<le> length xs" "\<forall>k < i. xs ! k < x" "\<forall>k < length xs. j \<le> k \<longrightarrow> x \<le> xs ! k"
  shows "(\<forall>k < search_between xs x i j. xs ! k < x) \<and> search_between xs x i j \<le> length xs \<and>
    (\<forall>k < length xs. search_between xs x i j \<le> k \<longrightarrow> x \<le> xs ! k)"
  using assms
proof (induction xs x i j rule: search_between.induct)
  case (1 xs x i j)
  let ?h = "(i + j) div 2"
  show ?case
  proof (cases "i < j")
    case False
    then show ?thesis using 1(3-) by (subst (1 2 3) search_between.simps) auto
  next
    case True
    have h: "i \<le> ?h" "?h < j" using True by auto
    show ?thesis
    proof (cases "xs ! ?h < x")
      case below: True
      have "xs ! k < x" if "k < ?h + 1" for k
        using sorted_nth_mono [OF 1(3), of k ?h] that h(2) 1(5) below by (simp add: le_less_trans)
      then have "\<forall>k < ?h + 1. xs ! k < x" by blast
      from 1(1) [OF True refl below 1(3) _ 1(5) this 1(7)] h below True show ?thesis
        by (subst (1 2 3) search_between.simps) (simp add: Let_def)
    next
      case above: False
      have "x \<le> xs ! k" if "k < length xs" "?h \<le> k" for k
        using sorted_nth_mono [OF 1(3) that(2,1)] above by (simp add: not_less order_trans)
      then have "\<forall>k < length xs. ?h \<le> k \<longrightarrow> x \<le> xs ! k" by blast
      moreover have "?h \<le> length xs" using h 1(5) by linarith
      ultimately show ?thesis using 1(2) [OF True refl above 1(3) h(1) _ 1(6)] above True
        by (subst (1 2 3) search_between.simps) (simp add: Let_def)
    qed
  qed
qed

lemma HasPermission_iff:
  assumes "sorted (azc_permissions authorized)"
  shows "HasPermission authorized p \<longleftrightarrow> p \<in> set (azc_permissions authorized)"
proof -
  let ?xs = "azc_permissions authorized" let ?k = "SearchStrings ?xs p"
  have k: "\<forall>k < ?k. ?xs ! k < p" "\<forall>k < length ?xs. ?k \<le> k \<longrightarrow> p \<le> ?xs ! k"
    using search_between_bounds [OF assms, of 0 "length ?xs" p] by (auto simp: SearchStrings_def)
  have "?k < length ?xs \<and> ?xs ! ?k = p" if "p \<in> set ?xs"
  proof -
    from that obtain m where m: "m < length ?xs" "?xs ! m = p" by (auto simp: in_set_conv_nth)
    then have "?k \<le> m" using k(1) by (metis less_irrefl not_le_imp_less)
    moreover from this have "?xs ! ?k \<le> p" using sorted_nth_mono [OF assms] m by metis
    ultimately show ?thesis using k(2) m(1) by (metis antisym le_less_trans order_refl)
  qed
  then show ?thesis by (auto simp: HasPermission_def Let_def) (metis nth_mem)
qed

lemma NewContext_InrD:
  assumes "NewContext (Some v) requestID = Inr authorized"
  shows "sorted (azc_permissions authorized)" "set (azc_permissions authorized) = set (ses_Permissions (sv_Session v))"
    "azc_principalID authorized = pr_ID (ses_Principal (sv_Session v))"
    "azc_tenantID authorized = pr_TenantID (ses_Principal (sv_Session v))" "azc_tenantID authorized \<noteq> uuid_Nil"
    "azc_accountType authorized = pr_AccountType (ses_Principal (sv_Session v))"
    "AccountType_Valid (azc_accountType authorized)"
    "azc_mailboxID authorized = mailboxID (pr_Mailbox (ses_Principal (sv_Session v)))"
    "azc_accountType authorized = AccountTypeMailbox \<longleftrightarrow> azc_mailboxID authorized \<noteq> uuid_Nil"
    "azc_csrfDigest authorized = Sum256 (sv_CSRFToken v)" "\<not> azc_csrfVerified authorized"
  using assms by (auto simp: NewContext_def Let_def mailboxID_def split: if_splits option.splits)

text \<open>(C26) In a context made from a session, the bisection over the sorted permissions agrees with
  membership in the permissions the session carries.\<close>

theorem has_permission_membership:
  assumes "NewContext (Some v) requestID = Inr authorized"
  shows "HasPermission authorized p \<longleftrightarrow> p \<in> set (ses_Permissions (sv_Session v))"
  using HasPermission_iff NewContext_InrD(1,2) [OF assms] by simp

section \<open>Resources\<close>

lemma authorization_NewError_simps [simp]:
  "authorization_NewError authorization_AuthRequired = AuthorizationErr authorization_AuthRequired"
  "authorization_NewError authorization_AuthForbidden = AuthorizationErr authorization_AuthForbidden"
  "authorization_NewError authorization_NotFound = AuthorizationErr authorization_NotFound"
  by (simp_all add: authorization_NewError_def authorization_error_codes_def)

text \<open>Access to a resource is granted exactly to an administrator of its tenant who holds the entry
  permission, and to the mailbox account of its tenant that is bound to its mailbox. A resource of another
  tenant, and another mailbox of the same tenant, are both answered as not found.\<close>

lemma resource_access_isolated:
  assumes "NewContext (Some v) requestID = Inr authorized"
  defines "account \<equiv> ses_Principal (sv_Session v)"
  shows "(RequireResource authorized resource = None \<longleftrightarrow>
      pr_TenantID account = res_TenantID resource \<and>
      (case pr_AccountType account of
         AccountTypeAdministrator \<Rightarrow> PermissionPortalAdminAccess \<in> set (ses_Permissions (sv_Session v))
       | AccountTypeMailbox \<Rightarrow> map_option mbx_ID (pr_Mailbox account) = Some (res_MailboxID resource)
       | AccountTypeOther _ \<Rightarrow> False)) \<and>
    (pr_TenantID account \<noteq> res_TenantID resource \<or> pr_AccountType account = AccountTypeMailbox \<longrightarrow>
      RequireResource authorized resource \<in> {None, Some (AuthorizationErr authorization_NotFound)})"
proof -
  note ctx = NewContext_InrD [OF assms(1), folded account_def]
  have perm: "HasPermission authorized p \<longleftrightarrow> p \<in> set (ses_Permissions (sv_Session v))" for p
    using HasPermission_iff ctx(1,2) by simp
  show ?thesis using ctx(3-9)
    by (cases "pr_AccountType account"; cases "pr_Mailbox account")
      (auto simp: RequireResource_def RequireAdministrator_def RequireMailbox_def perm mailboxID_def)
qed

section \<open>Requests that pass the boundary\<close>

lemma ValidateMutationRequest_InrD:
  assumes "ValidateMutationRequest uc authority (Some r) origin authorized requireIdempotency = Inr verified"
  shows "verified = authorized\<lparr>azc_csrfVerified := True\<rparr>" "trustedBrowserRequest uc authority r origin"
    "\<exists>token. header_Values (req_Header r) ''X-CSRF-Token'' = [token] \<and> VerifyCSRF authorized token"
    "requireIdempotency \<longrightarrow> (\<exists>key. header_Values (req_Header r) ''Idempotency-Key'' = [key] \<and> validIdempotencyKey key)"
  using assms
  by (auto simp: ValidateMutationRequest_def Let_def singleHeader_def VerifyCSRF_def
      split: if_splits option.splits prod.splits list.splits)

lemma boundJSONBody_InrD:
  assumes "boundJSONBody r = Inr r'"
  shows "length (body_bytes (req_Body r')) \<le> DefaultMaxJSONBodyBytes"
    "body_bytes (req_Body r') = body_bytes (req_Body r)"
    "req_Method r' = req_Method r" "req_Header r' = req_Header r"
  using assms
  by (cases "req_Body r"; auto simp: boundJSONBody_def split: if_splits)+

definition guarded_write ::
  "(nat \<Rightarrow> nat) \<Rightarrow> parse_authority \<Rightarrow> string \<Rightarrow> string \<Rightarrow> bool \<Rightarrow> http_Request \<Rightarrow> bool" where
  \<comment> \<open>A write from the trusted site with the session's nonce, and an idempotency key where one is required.\<close>
  "guarded_write uc authority trustedOrigin csrf requireIdempotency request \<longleftrightarrow>
     trustedBrowserRequest uc authority request trustedOrigin \<and>
     (\<exists>token. header_Values (req_Header request) ''X-CSRF-Token'' = [token] \<and> Sum256 token = Sum256 csrf) \<and>
     (requireIdempotency \<longrightarrow>
       (\<exists>key. header_Values (req_Header request) ''Idempotency-Key'' = [key] \<and> validIdempotencyKey key))"

lemma admit_request_InrD:
  assumes "admit_request uc authority origin authorized requireIdempotency r = Inr (admitted, r')"
    and "azc_csrfDigest authorized = Sum256 csrf"
  shows "admitted = authorized\<lparr>azc_csrfVerified := azc_csrfVerified authorized \<or> isMutation (req_Method r)\<rparr> \<and>
    req_Method r' = req_Method r \<and> body_bytes (req_Body r') = body_bytes (req_Body r) \<and>
    (if isMutation (req_Method r) then guarded_write uc authority origin csrf requireIdempotency r \<and>
       length (body_bytes (req_Body r')) \<le> DefaultMaxJSONBodyBytes
     else req_Method r \<in> {''GET'', ''HEAD'', ''OPTIONS''} \<and> body_bytes (req_Body r) = [])"
proof (cases "isMutation (req_Method r)")
  case True
  then have "req_Method r \<notin> {''GET'', ''HEAD'', ''OPTIONS''}" by (auto simp: isMutation_def)
  with assms(1) True obtain
    v: "ValidateMutationRequest uc authority (Some r) origin authorized requireIdempotency = Inr admitted"
    and b: "boundJSONBody r = Inr r'"
    by (auto simp: admit_request_def split: sum.splits)
  show ?thesis using ValidateMutationRequest_InrD [OF v] boundJSONBody_InrD [OF b] True assms(2)
    by (auto simp: guarded_write_def VerifyCSRF_def)
next
  case False
  with assms(1) show ?thesis by (auto simp: admit_request_def split: if_splits)
qed

lemma Protect_NextD:
  assumes "fst (Protect uc authority boundary accountType requireIdempotency ctx w) = Next admitted request"
  obtains v authorized where "fst (bd_service boundary (gin_context ctx) (gin_sessionCookie ctx) w) = Inr (Some v)"
    "NewContext (Some v) (gin_request_id ctx) = Inr authorized" "azc_accountType authorized = accountType"
    "accountType = AccountTypeAdministrator \<longrightarrow> HasPermission authorized PermissionPortalAdminAccess"
    "admit_request uc authority (bd_trustedOrigin boundary) authorized requireIdempotency (gin_request ctx) =
       Inr (admitted, request)"
  using assms that
  by (fastforce simp: Protect_def on_result_def RequireAdministrator_def
      split: sum.splits option.splits if_splits prod.splits)

text \<open>(C20) The handler behind \<^verbatim>\<open>Protect\<close> runs only for a session the identity service resolved from the
  cookie, with the account type the route asks for and, for an administrator, the entry permission. It sees
  the account of that session and no other. A write carries exactly one anti-forgery token, that of the
  session, comes from the trusted site, has a valid idempotency key where the route requires one and at most
  one megabyte of body, none of which is lost; every other request is a read without a body.\<close>

theorem protect_admits_authorised:
  assumes "fst (Protect uc authority boundary accountType requireIdempotency ctx w) = Next admitted request"
  shows "\<exists>v. fst (bd_service boundary (gin_context ctx) (gin_sessionCookie ctx) w) = Inr (Some v) \<and>
    (let account = ses_Principal (sv_Session v) in
      azc_principalID admitted = pr_ID account \<and> azc_tenantID admitted = pr_TenantID account \<and>
      pr_AccountType account = accountType \<and> AccountType_Valid accountType \<and>
      azc_mailboxID admitted = mailboxID (pr_Mailbox account) \<and>
      (accountType = AccountTypeMailbox \<longleftrightarrow> azc_mailboxID admitted \<noteq> uuid_Nil) \<and>
      (accountType = AccountTypeAdministrator \<longrightarrow>
        PermissionPortalAdminAccess \<in> set (ses_Permissions (sv_Session v)))) \<and>
    body_bytes (req_Body request) = body_bytes (req_Body (gin_request ctx)) \<and>
    (if isMutation (req_Method (gin_request ctx))
     then azc_csrfVerified admitted \<and> length (body_bytes (req_Body request)) \<le> DefaultMaxJSONBodyBytes \<and>
       guarded_write uc authority (bd_trustedOrigin boundary) (sv_CSRFToken v) requireIdempotency (gin_request ctx)
     else \<not> azc_csrfVerified admitted \<and> req_Method (gin_request ctx) \<in> {''GET'', ''HEAD'', ''OPTIONS''} \<and>
       body_bytes (req_Body request) = [])"
  using assms
proof (rule Protect_NextD)
  fix v authorized
  assume view: "fst (bd_service boundary (gin_context ctx) (gin_sessionCookie ctx) w) = Inr (Some v)"
    and ctx: "NewContext (Some v) (gin_request_id ctx) = Inr authorized" "azc_accountType authorized = accountType"
    and perm: "accountType = AccountTypeAdministrator \<longrightarrow> HasPermission authorized PermissionPortalAdminAccess"
    and admit: "admit_request uc authority (bd_trustedOrigin boundary) authorized requireIdempotency (gin_request ctx) =
       Inr (admitted, request)"
  note c = NewContext_InrD [OF ctx(1)]
  show ?thesis using admit_request_InrD [OF admit c(10)] c ctx(2) perm HasPermission_iff [OF c(1)]
    by (intro exI [of _ v] conjI view) (auto simp: Let_def)
qed

end
