(* ===== verification/Login_Witnesses.thy ===== *)
theory Login_Witnesses
  imports Login_Theorems
begin

text \<open>The identity properties at concrete inputs: an administrator's login from an
  open flow, the session it leaves and its logout.\<close>

section \<open>A login\<close>

definition sample_hasher :: SecretHasher where
  "sample_hasher = \<lparr>sh_pepper = replicate 32 (CHR ''p'')\<rparr>"

definition sample_pkce :: "unit PKCECipher" where
  "sample_pkce = \<lparr>pc_currentKeyID = ''k1'', pc_keys = [(''k1'', replicate 32 (CHR ''k''))],
     pc_random = (\<lambda>n w. (Some (replicate n (CHR ''r'')), w))\<rparr>"

definition sample_verifier :: string where
  "sample_verifier = replicate 43 (CHR ''v'')"

definition sample_ciphertext :: bytes where
  "sample_ciphertext = replicate 12 (CHR ''r'') @ gcm_Seal (replicate 32 (CHR ''k'')) (replicate 12 (CHR ''r''))
     sample_verifier (pkce_associated_data ''k1'')"

definition sample_identity :: OIDCIdentity where
  "sample_identity = \<lparr>oid_Issuer = ''https://idp.test'', oid_Subject = ''root'', oid_SessionID = '''',
     oid_Nonce = ''nonce'', oid_ACR = ''gold'', oid_AMR = [''pwd'', ''otp'']\<rparr>"

definition sample_provider :: "unit OIDCProvider" where
  "sample_provider = \<lparr>AuthorizationURL = (\<lambda>_ _ _. Inr ''https://idp.test/authorize''),
     Exchange = (\<lambda>_ _ _ w. (Inr sample_identity, w)), ProviderLogoutURL = ''https://idp.test/logout''\<rparr>"

definition sample_repository :: IdentityRepository where
  "sample_repository = \<lparr>ir_idleTimeout = DefaultSessionIdleTimeout, ir_touchInterval = DefaultSessionTouchInterval\<rparr>"

definition sample_identity_service :: "uuid \<Rightarrow> unit api_world identity_Service" where
  "sample_identity_service fresh = api_identity_service sample_repository sample_provider sample_hasher sample_pkce
     \<lparr>mfa_AllowedACR = [], mfa_RequiredAMR = [''otp'']\<rparr> (\<lambda>w. (2000, w))
     (\<lambda>n w. (Some (replicate n (CHR ''t'')), w)) (\<lambda>w. (fresh, w))"

definition sample_login_flow :: auth_flow_row where
  "sample_login_flow = sample_flow\<lparr>
     af_state_digest := Digest sample_hasher SecretPurposeAuthFlowState ''state'',
     af_browser_cookie_digest := Digest sample_hasher SecretPurposeAuthFlowCookie ''cookie'',
     af_nonce_digest := Digest sample_hasher SecretPurposeOIDCNonce ''nonce'',
     af_pkce_verifier_ciphertext := sample_ciphertext, af_return_to := ''/admin/users''\<rparr>"

definition sample_login_db :: identity_db where
  "sample_login_db = sample_identities\<lparr>idb_flows := [sample_login_flow], idb_sessions := []\<rparr>"

definition identity_world_of :: "identity_db \<Rightarrow> unit api_world" where
  "identity_world_of db = \<lparr>iw_db = db, iw_envs = (\<lambda>_. quiet_env), iw_calls = 0, aw_rest = ()\<rparr>"

definition sample_metadata :: RequestMetadata where
  "sample_metadata = \<lparr>rm_RequestID = ''req-1'', rm_Source = (''198.51.100.7'' @ [CHR 0x00] @ ''agent'')\<rparr>"

definition sample_callback :: CallbackInput where
  "sample_callback = \<lparr>ci_State = ''state'', ci_BrowserCookie = ''cookie'', ci_Code = ''code'',
     ci_Metadata = sample_metadata\<rparr>"

definition sample_token :: string where
  "sample_token = RawURL_EncodeToString (replicate 32 (CHR ''t''))"

definition sample_account :: Principal where
  "sample_account = \<lparr>pr_ID = 20, pr_TenantID = 1, pr_AccountType = AccountTypeAdministrator,
     pr_DisplayName = ''Root'', pr_Mailbox = None\<rparr>"

definition sample_new_session :: SessionToCreate where
  "sample_new_session = session_to_create (sample_identity_service 50) 50 sample_token sample_account sample_identity 2000"

definition sample_login_audit :: AuditEvent where
  "sample_login_audit = \<lparr>ae_ID = 50, ae_PrincipalID = Some 20, ae_Action = ''login'', ae_Result = ''succeeded'',
     ae_FailureCategory = '''', ae_SourceDigest = Digest sample_hasher SecretPurposeSource (''198.51.100.7'' @ [CHR 0x00] @ ''agent''),
     ae_RequestID = ''req-1'', ae_OccurredAt = 2000\<rparr>"

definition sample_consumed_db :: identity_db where
  "sample_consumed_db = sample_login_db\<lparr>idb_flows := [sample_login_flow\<lparr>af_consumed_at := Some 2000\<rparr>]\<rparr>"

definition sample_logged_in :: identity_db where
  "sample_logged_in = sample_consumed_db\<lparr>idb_sessions := [session_row sample_new_session],
     idb_audit := [audit_event_row sample_login_audit]\<rparr>"

lemma sample_ciphertext_length: "length sample_ciphertext = 71"
  by (simp add: sample_ciphertext_def length_gcm_Seal sample_verifier_def)

lemma sample_verifier_valid: "validPKCEVerifier sample_verifier"
  by (simp add: validPKCEVerifier_def sample_verifier_def runes_ascii is_ascii_def list_all_iff unreserved_def
      byte_val_def del: runes.simps)

lemma sample_flow_rows:
  "row_ok flow_checks sample_login_flow" "row_ok flow_checks (sample_login_flow\<lparr>af_consumed_at := Some 2000\<rparr>)"
  by (simp_all add: check_defs sample_login_flow_def sample_flow_def sample_ciphertext_length ascii_eval
      lifetime_defs del: runes.simps)

lemma sample_new_session_row: "row_ok session_checks (session_row sample_new_session)"
  by (simp add: check_defs sample_new_session_def session_row_def session_to_create_def sample_identity_def
      sample_account_def nullableText_def ascii_eval lifetime_defs del: runes.simps)

lemma sample_login_audit_row: "row_ok audit_checks (audit_event_row sample_login_audit)"
  by (simp add: check_defs audit_event_row_def sample_login_audit_def nullableText_def audit_actions_def ascii_eval
      del: runes.simps)

lemma sample_login_keys:
  "list_all snd (identity_keys sample_login_db)" "list_all snd (identity_keys sample_consumed_db)"
  "list_all snd (identity_keys (sample_consumed_db\<lparr>idb_sessions := [session_row sample_new_session]\<rparr>))"
  "list_all snd (identity_keys sample_logged_in)"
  using sample_identity_keys
  by (simp_all add: identity_keys_def sample_login_db_def sample_consumed_db_def sample_logged_in_def
      sample_identities_def sample_admin_def sample_user_def sample_new_session_def session_row_def
      session_to_create_def sample_identity_def sample_account_def audit_event_row_def sample_login_audit_def)

lemma sample_login_ok:
  "identity_ok sample_login_db" "identity_ok sample_consumed_db"
  "identity_ok (sample_consumed_db\<lparr>idb_sessions := [session_row sample_new_session]\<rparr>)" "identity_ok sample_logged_in"
  unfolding identity_ok_iff
  using sample_identity_rows sample_permission_row sample_login_keys sample_pending_ok sample_flow_rows
    sample_new_session_row sample_login_audit_row
  by (simp_all add: sample_identities_def sample_login_db_def sample_consumed_db_def sample_logged_in_def)

section \<open>Its calls\<close>

lemma guard_identity_ok: "identity_ok db \<Longrightarrow> guard_identity x db = Inr (x, db)"
  by (simp add: guard_identity_Inr)

lemma quiet_link [simp]:
  "pe_fault quiet_env n = None" "pe_race quiet_env n db = db" "query quiet_env n r = r"
  "commit quiet_env n view db = (None, view)"
  by (simp_all add: quiet_env_def query_def commit_def)

lemma quiet_autocommit [simp]:
  "autocommit quiet_env n st db = (case st db of Inl e \<Rightarrow> (Inl e, db) | Inr (x, db') \<Rightarrow> (Inr x, db'))"
  by (simp add: autocommit_def split: sum.splits)

lemma sample_consume:
  "repository_ConsumeAuthFlow quiet_env (Digest sample_hasher SecretPurposeAuthFlowState ''state'')
     (Digest sample_hasher SecretPurposeAuthFlowCookie ''cookie'') 2000 sample_login_db =
   (Inr (consumed_flow (consume_row (sample_login_flow\<lparr>af_consumed_at := Some 2000\<rparr>))
      (Digest sample_hasher SecretPurposeOIDCNonce ''nonce'')), sample_consumed_db)"
proof -
  have "consumable (Digest sample_hasher SecretPurposeAuthFlowState ''state'')
      (Digest sample_hasher SecretPurposeAuthFlowCookie ''cookie'') 2000 sample_login_flow"
    by (simp add: consumable_def sample_login_flow_def sample_flow_def lifetime_defs)
  then have "consumeAuthFlow (Digest sample_hasher SecretPurposeAuthFlowState ''state'')
      (Digest sample_hasher SecretPurposeAuthFlowCookie ''cookie'') 2000 sample_login_db =
    Inr (consume_row (sample_login_flow\<lparr>af_consumed_at := Some 2000\<rparr>), sample_consumed_db)"
    using guard_identity_ok [OF sample_login_ok(2)]
    by (simp add: consumeAuthFlow_def sample_login_db_def sample_consumed_db_def update_where_def)
  then show ?thesis
    by (simp add: repository_ConsumeAuthFlow_def IsZero_def fixedDigest_def consume_row_def sample_login_flow_def)
qed

lemma sample_decrypt: "Decrypt (is_pkce (sample_identity_service 50)) sample_ciphertext ''k1'' = Inr sample_verifier"
  using gcm_Open_Seal [of "replicate 32 (CHR ''k'')" "replicate 12 (CHR ''r'')" sample_verifier] sample_verifier_valid
    sample_ciphertext_length
  by (simp add: Decrypt_def sample_identity_service_def api_identity_service_def sample_pkce_def gcm_NonceSize_def
      sample_ciphertext_def)

lemma sample_resolve:
  "repository_ResolvePrincipal quiet_env ''https://idp.test'' ''root'' sample_consumed_db =
   (Inr sample_account, sample_consumed_db)"
  by (simp add: repository_ResolvePrincipal_def getActivePrincipalByExternalIdentity_def sample_consumed_db_def
      sample_login_db_def sample_identities_def sample_admin_def active_account_def find_row_def sample_pending_def
      sample_request_tables_def has_permission_def principalFromRow_def active_principal_row_def AccountType_of_def
      joined_mailbox_def joined_domain_def sample_account_def)

lemma sample_create:
  "repository_CreateSessionWithAudit quiet_env sample_new_session sample_login_audit sample_consumed_db =
   (Inr \<lparr>cs_ID = 50, cs_PrincipalID = 20, cs_CreatedAt = 2000, cs_IdleExpiresAt = 2000 + DefaultSessionIdleTimeout,
      cs_AbsoluteExpiresAt = 2000 + DefaultSessionAbsoluteTimeout\<rparr>, sample_logged_in)"
proof -
  have "session_acceptable sample_new_session"
    by (simp add: session_acceptable_def sample_new_session_def session_to_create_def sample_account_def
        sample_identity_def uuid_Nil_def IsZero_def lifetime_defs)
  moreover have "createUserSession (session_row sample_new_session) sample_consumed_db =
     Inr (\<lparr>cur_ID = 50, cur_PrincipalID = 20, cur_CreatedAt = 2000, cur_LastSeenAt = 2000,
       cur_IdleExpiresAt = 2000 + DefaultSessionIdleTimeout,
       cur_AbsoluteExpiresAt = 2000 + DefaultSessionAbsoluteTimeout\<rparr>,
       sample_consumed_db\<lparr>idb_sessions := [session_row sample_new_session]\<rparr>)"
    using guard_identity_ok [OF sample_login_ok(3)]
    by (simp add: createUserSession_def session_row_def sample_new_session_def session_to_create_def
        sample_account_def sample_consumed_db_def sample_login_db_def)
  moreover have "createAuthenticationAuditEvent (audit_event_row sample_login_audit)
      (sample_consumed_db\<lparr>idb_sessions := [session_row sample_new_session]\<rparr>) = Inr ((), sample_logged_in)"
    using guard_identity_ok [OF sample_login_ok(4)]
    by (simp add: createAuthenticationAuditEvent_def sample_logged_in_def sample_consumed_db_def sample_login_db_def
        sample_identities_def)
  moreover have "audit_acceptable sample_login_audit"
    by (simp add: audit_acceptable_def sample_login_audit_def uuid_Nil_def IsZero_def)
  ultimately show ?thesis
    by (simp add: repository_CreateSessionWithAudit_def createAudit_def created_session_def)
       (simp add: sample_login_audit_def sample_new_session_def session_to_create_def sample_account_def)
qed

lemmas sample_service_defs = sample_identity_service_def api_identity_service_def identity_repository_def
  identity_call_def identity_world_of_def on_rest_def

lemma sample_service_fields:
  "is_hasher (sample_identity_service u) = sample_hasher"
  "is_mfaPolicy (sample_identity_service u) = \<lparr>mfa_AllowedACR = [], mfa_RequiredAMR = [''otp'']\<rparr>"
  "is_now (sample_identity_service u) w = (2000, w)" "is_newID (sample_identity_service u) w = (u, w)"
  "is_newToken (sample_identity_service u) w = (Inr sample_token, w)"
  "Exchange (is_provider (sample_identity_service u)) ctx c v w = (Inr sample_identity, w)"
  by (simp_all add: sample_service_defs NewOpaqueToken_def ReadFull_def opaqueTokenBytes_def sample_token_def
      sample_provider_def)

lemma sample_login:
  "CompleteLogin (sample_identity_service 50) background sample_callback (identity_world_of sample_login_db) =
   (Inr \<lparr>cbr_SessionToken = sample_token, cbr_ExpiresAt = 2000 + DefaultSessionAbsoluteTimeout,
      cbr_RedirectTo = ''/admin/users''\<rparr>, (identity_world_of sample_logged_in)\<lparr>iw_calls := 3\<rparr>)"
proof -
  let ?flow = "consumed_flow (consume_row (sample_login_flow\<lparr>af_consumed_at := Some 2000\<rparr>))
      (Digest sample_hasher SecretPurposeOIDCNonce ''nonce'')"
  have consume: "ConsumeAuthFlow (is_repository (sample_identity_service 50)) background
      (Digest sample_hasher SecretPurposeAuthFlowState ''state'')
      (Digest sample_hasher SecretPurposeAuthFlowCookie ''cookie'') 2000 (identity_world_of sample_login_db) =
      (Inr ?flow, (identity_world_of sample_consumed_db)\<lparr>iw_calls := Suc 0\<rparr>)"
    using sample_consume by (simp add: sample_service_defs)
  have resolve: "ResolvePrincipal (is_repository (sample_identity_service 50)) background ''https://idp.test'' ''root''
      ((identity_world_of sample_consumed_db)\<lparr>iw_calls := Suc 0\<rparr>) =
      (Inr sample_account, (identity_world_of sample_consumed_db)\<lparr>iw_calls := 2\<rparr>)"
    using sample_resolve by (simp add: sample_service_defs)
  have create: "CreateSessionWithAudit (is_repository (sample_identity_service 50)) background sample_new_session
      sample_login_audit ((identity_world_of sample_consumed_db)\<lparr>iw_calls := 2\<rparr>) =
      (Inr \<lparr>cs_ID = 50, cs_PrincipalID = 20, cs_CreatedAt = 2000, cs_IdleExpiresAt = 2000 + DefaultSessionIdleTimeout,
         cs_AbsoluteExpiresAt = 2000 + DefaultSessionAbsoluteTimeout\<rparr>,
       (identity_world_of sample_logged_in)\<lparr>iw_calls := 3\<rparr>)"
    using sample_create by (simp add: sample_service_defs)
  have flow: "caf_PKCEVerifierCiphertext ?flow = sample_ciphertext" "caf_EncryptionKeyID ?flow = ''k1''"
    "caf_NonceDigest ?flow = Digest sample_hasher SecretPurposeOIDCNonce ''nonce''" "caf_ReturnTo ?flow = ''/admin/users''"
    by (simp_all add: consumed_flow_def consume_row_def sample_login_flow_def sample_flow_def)
  have audit: "auditEvent (sample_identity_service 50) sample_metadata (Some 20) ''login'' ''succeeded'' '''' 2000 w =
      (sample_login_audit, w)" for w
    by (simp add: auditEvent_def sample_service_fields sample_login_audit_def sample_metadata_def)
  have fields: "oid_Nonce sample_identity = ''nonce''" "oid_Issuer sample_identity = ''https://idp.test''"
    "oid_Subject sample_identity = ''root''" "pr_AccountType sample_account = AccountTypeAdministrator"
    "pr_ID sample_account = 20" "mfaSatisfied \<lparr>mfa_AllowedACR = [], mfa_RequiredAMR = [''otp'']\<rparr> sample_identity"
    "ci_State sample_callback = ''state''" "ci_BrowserCookie sample_callback = ''cookie''" "ci_Code sample_callback = ''code''"
    "ci_Metadata sample_callback = sample_metadata" "rm_RequestID sample_metadata = ''req-1''"
    "landingFor AccountTypeAdministrator ''/admin/users'' = ''/admin/users''"
    by (simp_all add: sample_identity_def sample_account_def mfaSatisfied_def sample_callback_def sample_metadata_def
        landingFor_def HasPrefix_def)
  have opened: "open_session (sample_identity_service 50) background sample_callback ?flow sample_identity sample_account 2000
      ((identity_world_of sample_consumed_db)\<lparr>iw_calls := 2\<rparr>) =
     (Inr \<lparr>cbr_SessionToken = sample_token, cbr_ExpiresAt = 2000 + DefaultSessionAbsoluteTimeout,
      cbr_RedirectTo = ''/admin/users''\<rparr>, (identity_world_of sample_logged_in)\<lparr>iw_calls := 3\<rparr>)"
    by (simp add: open_session_def sample_service_fields fields audit sample_new_session_def [symmetric] create flow)
  show ?thesis
    by (simp add: CompleteLogin_def fields sample_service_fields consume flow sample_decrypt resolve opened)
qed

section \<open>A logout\<close>

definition sample_view :: SessionView where
  "sample_view = \<lparr>sv_Session = \<lparr>ses_ID = 50, ses_Principal = sample_account,
       ses_Permissions = [''portal.admin.access''], ses_CreatedAt = 2000, ses_LastSeenAt = 2000,
       ses_IdleExpiresAt = 2000 + DefaultSessionIdleTimeout,
       ses_AbsoluteExpiresAt = 2000 + DefaultSessionAbsoluteTimeout,
       ses_CSRFDigest = Digest sample_hasher SecretPurposeCSRFToken (DeriveCSRFToken sample_hasher sample_token)\<rparr>,
     sv_CSRFToken = DeriveCSRFToken sample_hasher sample_token\<rparr>"

definition sample_logout_audit :: AuditEvent where
  "sample_logout_audit = sample_login_audit\<lparr>ae_ID := 51, ae_Action := ''logout''\<rparr>"

definition sample_revoked :: identity_db where
  "sample_revoked = sample_logged_in\<lparr>idb_sessions := [(session_row sample_new_session)
     \<lparr>us_revoked_at := Some 2000, us_revocation_reason := Some ''logout''\<rparr>]\<rparr>"

definition sample_logged_out :: identity_db where
  "sample_logged_out = sample_revoked\<lparr>idb_audit := [audit_event_row sample_login_audit, audit_event_row sample_logout_audit]\<rparr>"

lemma sample_logout_rows:
  "row_ok session_checks ((session_row sample_new_session)\<lparr>us_revoked_at := Some 2000, us_revocation_reason := Some ''logout''\<rparr>)"
  "row_ok audit_checks (audit_event_row sample_logout_audit)"
  by (simp_all add: check_defs sample_new_session_def session_row_def session_to_create_def sample_identity_def
      sample_account_def nullableText_def audit_event_row_def sample_logout_audit_def sample_login_audit_def
      audit_actions_def ascii_eval lifetime_defs del: runes.simps)

lemma sample_logout_keys: "list_all snd (identity_keys sample_revoked)" "list_all snd (identity_keys sample_logged_out)"
  using sample_login_keys(4)
  by (simp_all add: identity_keys_def sample_revoked_def sample_logged_out_def sample_logged_in_def
      sample_consumed_db_def sample_login_db_def sample_identities_def sample_admin_def sample_user_def
      sample_new_session_def session_row_def session_to_create_def sample_identity_def sample_account_def
      audit_event_row_def sample_login_audit_def sample_logout_audit_def)

lemma sample_logout_ok: "identity_ok sample_revoked" "identity_ok sample_logged_out"
  using sample_login_ok(4) sample_logout_rows sample_logout_keys
  by (simp_all add: identity_ok_iff sample_revoked_def sample_logged_out_def sample_logged_in_def)

lemma sample_session_found:
  "repository_ResolveSession sample_repository quiet_env (Digest sample_hasher SecretPurposeSessionCookie sample_token)
     2000 sample_logged_in = (Inr (sv_Session sample_view), sample_logged_in)"
proof -
  let ?s = "session_row sample_new_session"
  have s: "us_session_digest ?s = Digest sample_hasher SecretPurposeSessionCookie sample_token" "live_session 2000 ?s"
    by (simp_all add: session_row_def sample_new_session_def session_to_create_def sample_service_fields
        live_session_def lifetime_defs)
  have active: "active_account sample_logged_in sample_admin"
    by (simp add: active_account_def sample_admin_def sample_logged_in_def sample_consumed_db_def sample_login_db_def
        sample_identities_def find_row_def sample_pending_def sample_request_tables_def has_permission_def)
  have account: "session_account sample_logged_in ?s = Some sample_admin"
    using active by (simp add: session_account_def find_row_def sample_logged_in_def sample_consumed_db_def
        sample_login_db_def sample_identities_def sample_admin_def session_row_def sample_new_session_def
        session_to_create_def sample_account_def)
  have row: "getActiveSessionByDigest (Digest sample_hasher SecretPurposeSessionCookie sample_token) 2000 sample_logged_in =
      Inr (active_session_row sample_logged_in ?s sample_admin)"
    using s account by (simp add: getActiveSessionByDigest_def sample_logged_in_def)
  have "principalFromRow (active_principal_row sample_logged_in sample_admin) = Inr sample_account"
    by (simp add: principalFromRow_def active_principal_row_def AccountType_of_def joined_mailbox_def joined_domain_def
        sample_account_def sample_admin_def)
  moreover have "listPrincipalPermissions c 20 sample_logged_in = [''portal.admin.access'']" for c
    by (simp add: listPrincipalPermissions_def sample_logged_in_def sample_consumed_db_def sample_login_db_def
        sample_identities_def)
  ultimately show ?thesis using row
    by (simp add: repository_ResolveSession_def IsZero_def active_session_row_def active_principal_row_def
        sample_admin_def fixedDigest_def touch_session_def session_of_row_def session_row_def sample_new_session_def
        session_to_create_def sample_service_fields sample_repository_def lifetime_defs sample_view_def)
qed

lemma sample_revoke:
  "repository_RevokeSessionWithAudit quiet_env (Digest sample_hasher SecretPurposeSessionCookie sample_token) 2000
     RevocationReasonLogout sample_logout_audit sample_logged_in = (None, sample_logged_out)"
proof -
  let ?s = "session_row sample_new_session"
  have s: "us_session_digest ?s = Digest sample_hasher SecretPurposeSessionCookie sample_token" "us_revoked_at ?s = None"
    by (simp_all add: session_row_def sample_new_session_def session_to_create_def sample_service_fields)
  have "revokeSessionByDigest (Digest sample_hasher SecretPurposeSessionCookie sample_token) 2000 ''logout''
      sample_logged_in = Inr (1, sample_revoked)"
    using s guard_identity_ok [OF sample_logout_ok(1)]
    by (simp add: revokeSessionByDigest_def revoke_sessions_def sample_logged_in_def sample_revoked_def update_where_def)
  moreover have "createAuthenticationAuditEvent (audit_event_row sample_logout_audit) sample_revoked =
      Inr ((), sample_logged_out)"
    using guard_identity_ok [OF sample_logout_ok(2)]
    by (simp add: createAuthenticationAuditEvent_def sample_logged_out_def sample_revoked_def sample_logged_in_def)
  moreover have "audit_acceptable sample_logout_audit" "ae_Action sample_logout_audit = ''logout''"
    "ae_Result sample_logout_audit = ''succeeded''" "ae_PrincipalID sample_logout_audit = Some 20"
    by (simp_all add: audit_acceptable_def sample_logout_audit_def sample_login_audit_def uuid_Nil_def IsZero_def)
  ultimately show ?thesis by (simp add: repository_RevokeSessionWithAudit_def createAudit_def IsZero_def)
qed

lemma tokens_nonempty: "sample_token \<noteq> ''''" "DeriveCSRFToken hasher token \<noteq> ''''"
proof -
  have "length sample_token = 43" "length (DeriveCSRFToken hasher token) = 43"
    by (simp_all add: sample_token_def DeriveCSRFToken_def)
  then show "sample_token \<noteq> ''''" "DeriveCSRFToken hasher token \<noteq> ''''" by auto
qed

lemma sample_session_resolves:
  "service_ResolveSession (sample_identity_service 51) background sample_token (identity_world_of sample_logged_in) =
   (Inr (Some sample_view), (identity_world_of sample_logged_in)\<lparr>iw_calls := Suc 0\<rparr>)"
proof -
  note tokens_nonempty
  moreover have "ResolveSession (is_repository (sample_identity_service 51)) background
      (Digest sample_hasher SecretPurposeSessionCookie sample_token) 2000 (identity_world_of sample_logged_in) =
      (Inr (sv_Session sample_view), (identity_world_of sample_logged_in)\<lparr>iw_calls := Suc 0\<rparr>)"
    using sample_session_found by (simp add: sample_service_defs)
  ultimately show ?thesis
    by (simp add: service_ResolveSession_def sample_service_fields) (simp add: sample_view_def Let_def)
qed

lemma sample_logout:
  "Logout (sample_identity_service 51) background sample_token (DeriveCSRFToken sample_hasher sample_token)
     sample_metadata (identity_world_of sample_logged_in) =
   (Inr \<lparr>lr_ProviderLogoutURL = ''https://idp.test/logout''\<rparr>, (identity_world_of sample_logged_out)\<lparr>iw_calls := 2\<rparr>)"
proof -
  note tokens_nonempty
  moreover have "auditEvent (sample_identity_service 51) sample_metadata (Some 20) ''logout'' ''succeeded'' '''' 2000 w =
      (sample_logout_audit, w)" for w
    by (simp add: auditEvent_def sample_service_fields sample_logout_audit_def sample_login_audit_def sample_metadata_def)
  moreover have "RevokeSessionWithAudit (is_repository (sample_identity_service 51)) background
      (Digest sample_hasher SecretPurposeSessionCookie sample_token) 2000 RevocationReasonLogout sample_logout_audit
      ((identity_world_of sample_logged_in)\<lparr>iw_calls := Suc 0\<rparr>) =
      (None, (identity_world_of sample_logged_out)\<lparr>iw_calls := 2\<rparr>)"
    using sample_revoke by (simp add: sample_service_defs)
  moreover have "ses_CSRFDigest (sv_Session sample_view) =
      Digest sample_hasher SecretPurposeCSRFToken (DeriveCSRFToken sample_hasher sample_token)"
    "pr_ID (ses_Principal (sv_Session sample_view)) = 20"
    by (simp_all add: sample_view_def sample_account_def)
  moreover have "is_providerLogoutURL (sample_identity_service 51) = ''https://idp.test/logout''"
    by (simp add: sample_service_defs sample_provider_def)
  ultimately show ?thesis by (simp add: Logout_def sample_session_resolves sample_service_fields)
qed

section \<open>Witnesses\<close>

lemma sample_repository_wf: "repository_wf sample_repository"
  by (simp add: repository_wf_def sample_repository_def lifetime_defs)

lemma sample_worlds: "\<forall>n. identity_races (iw_envs (identity_world_of db) n)" "iw_db (identity_world_of db) = db"
  by (simp_all add: identity_world_of_def quiet_races)

lemma sample_login_invs: "identity_inv sample_login_db" "identity_inv sample_logged_in" "identity_inv sample_logged_out"
  using sample_login_ok sample_logout_ok
  by (simp_all add: identity_inv_def idle_bounded_def sample_login_db_def sample_logged_in_def sample_logged_out_def
      sample_revoked_def session_row_def sample_new_session_def session_to_create_def lifetime_defs)

lemma pkce_round_trip_witness:
  "\<exists>ciphertext. Encrypt sample_pkce sample_verifier () = (Inr (ciphertext, ''k1''), ()) \<and>
     Decrypt sample_pkce ciphertext ''k1'' = Inr sample_verifier"
proof -
  have box: "NewPKCECipher ''k1'' [(''k1'', replicate 32 (CHR ''k''))] (pc_random sample_pkce) = Inr sample_pkce"
    by (simp add: NewPKCECipher_def sample_pkce_def pkce_key_ok_def ascii_eval del: runes.simps)
  have seal: "Encrypt sample_pkce sample_verifier () = (Inr (sample_ciphertext, ''k1''), ())"
    using sample_verifier_valid
    by (simp add: Encrypt_def sample_pkce_def ReadFull_def gcm_NonceSize_def sample_ciphertext_def)
  show ?thesis using pkce_round_trip [OF box seal refl] seal by blast
qed

lemma opaque_token_fit_witness:
  "NewOpaqueToken (\<lambda>n w. (Some (replicate n (CHR ''t'')), w)) () = (Inr sample_token, ()) \<and>
   validPKCEVerifier sample_token \<and> RawURL_DecodeString sample_token = Some (replicate 32 (CHR ''t''))"
proof -
  have draw: "NewOpaqueToken (\<lambda>n w. (Some (replicate n (CHR ''t'')), w)) () = (Inr sample_token, ())"
    by (simp add: NewOpaqueToken_def ReadFull_def opaqueTokenBytes_def sample_token_def)
  show ?thesis using opaque_token_fit [OF draw] draw by auto
qed

theorem auth_flow_consumed_once_witness:
  "\<exists>flow. fst (repository_ConsumeAuthFlow quiet_env (Digest sample_hasher SecretPurposeAuthFlowState ''state'')
       (Digest sample_hasher SecretPurposeAuthFlowCookie ''cookie'') 2000 sample_login_db) = Inr flow \<and>
     fst (repository_ConsumeAuthFlow quiet_env (Digest sample_hasher SecretPurposeAuthFlowState ''state'')
       (Digest sample_hasher SecretPurposeAuthFlowCookie ''cookie'') 2000 sample_consumed_db) \<noteq> Inr flow"
  using auth_flow_consumed_once [OF sample_login_invs(1) quiet_races sample_consume rtranclp.rtrancl_refl quiet_races]
    sample_consume by auto

theorem resolved_session_bounded_witness:
  "fst (repository_ResolveSession sample_repository quiet_env
      (Digest sample_hasher SecretPurposeSessionCookie sample_token) 2000 sample_logged_in) = Inr (sv_Session sample_view) \<and>
   2000 \<le> ExpiresAt (sv_Session sample_view)"
  using resolved_session_bounded [OF sample_login_invs(2) quiet_races sample_repository_wf sample_session_found]
    sample_session_found by auto

theorem identity_handlers_keep_invariant_witness:
  "identity_inv (iw_db (snd (CompleteLogin (sample_identity_service 50) background sample_callback
     (identity_world_of sample_login_db))))"
  using identity_handlers_keep_invariant [OF sample_identity_service_def sample_repository_wf sample_worlds(1), of
      sample_login_db "snd (CompleteLogin (sample_identity_service 50) background sample_callback
        (identity_world_of sample_login_db))" id 50 background "''''" sample_metadata sample_callback]
    sample_login_invs(1) by (simp add: sample_worlds)

end
