(* ===== verification/Boundary_System.thy ===== *)
theory Boundary_System
  imports Authorization_Theorems Login_Witnesses
begin

text \<open>
  The boundary on top of the identity service and its tables. The interface
  \<open>session_source\<close> says what the boundary may rely on: a resolved token is
  \<open>backed\<close>, and an \<open>ended\<close> one no longer resolves. The identity service on the
  PostgreSQL tables provides it.
\<close>

section \<open>The interface\<close>

locale session_source =
  fixes resolve :: "'w sessionResolver"
    and backed :: "string \<Rightarrow> SessionView \<Rightarrow> 'w \<Rightarrow> bool"
    and ended :: "string \<Rightarrow> 'w \<Rightarrow> bool"
  assumes resolve_backed: "fst (resolve ctx token w) = Inr (Some v) \<Longrightarrow> backed token v w"
    and ended_unresolved: "ended token w \<Longrightarrow> fst (resolve ctx token w) \<noteq> Inr (Some v)"
begin

lemma protect_backed:
  assumes "fst (Protect uc authority boundary accountType requireIdempotency ctx w) = Next admitted request"
    and "bd_service boundary = resolve"
  obtains v authorized where "backed (gin_sessionCookie ctx) v w"
    "NewContext (Some v) (gin_request_id ctx) = Inr authorized"
    "azc_principalID admitted = azc_principalID authorized" "azc_tenantID admitted = azc_tenantID authorized"
    "azc_accountType admitted = azc_accountType authorized" "azc_mailboxID admitted = azc_mailboxID authorized"
  using assms(1)
proof (rule Protect_NextD)
  fix v authorized
  assume view: "fst (bd_service boundary (gin_context ctx) (gin_sessionCookie ctx) w) = Inr (Some v)"
    and made: "NewContext (Some v) (gin_request_id ctx) = Inr authorized"
    and admit: "admit_request uc authority (bd_trustedOrigin boundary) authorized requireIdempotency
      (gin_request ctx) = Inr (admitted, request)"
  have "backed (gin_sessionCookie ctx) v w" using view assms(2) by (auto intro: resolve_backed)
  from that [OF this made] admit_request_InrD [OF admit NewContext_InrD(10) [OF made]] show thesis by simp
qed

lemma protect_ended:
  assumes "ended (gin_sessionCookie ctx) w" "bd_service boundary = resolve"
  shows "\<exists>response. fst (Protect uc authority boundary accountType requireIdempotency ctx w) = Aborted response"
proof (cases "fst (Protect uc authority boundary accountType requireIdempotency ctx w)")
  case (Next admitted request)
  then show ?thesis by (rule Protect_NextD) (use assms ended_unresolved in metis)
qed blast

end

section \<open>The identity service provides it\<close>

definition session_backed :: "SecretHasher \<Rightarrow> string \<Rightarrow> SessionView \<Rightarrow> identity_db \<Rightarrow> bool" where
  "session_backed hasher token v db \<longleftrightarrow>
     (\<exists>s \<in> set (idb_sessions db). us_session_digest s = Digest hasher SecretPurposeSessionCookie token \<and>
        us_revoked_at s = None \<and> us_principal_id s = pr_ID (ses_Principal (sv_Session v))) \<and>
     account_sound db (ses_Principal (sv_Session v))"

definition session_ended :: "SecretHasher \<Rightarrow> string \<Rightarrow> 'a api_world \<Rightarrow> bool" where
  "session_ended hasher token w \<longleftrightarrow> (\<forall>n. identity_races (iw_envs w n)) \<and>
     (\<exists>db. \<exists>r \<in> set (idb_sessions db). identity_inv db \<and> us_revoked_at r \<noteq> None \<and>
        us_session_digest r = Digest hasher SecretPurposeSessionCookie token \<and> identity_step\<^sup>*\<^sup>* db (iw_db w))"

lemma service_resolve_backed:
  assumes "service = api_identity_service repository provider hasher pkce policy clock random uuids"
    and "fst (service_ResolveSession service ctx token w) = Inr (Some v)" "\<forall>n. identity_races (iw_envs w n)"
  shows "\<exists>db. identity_step\<^sup>*\<^sup>* (iw_db w) db \<and> session_backed hasher token v db"
proof -
  have svc: "is_repository service = identity_repository repository" "is_hasher service = hasher"
    "is_now service = on_rest clock" by (simp_all add: assms(1) api_identity_service_def)
  from assms(2) obtain w2 where "service_ResolveSession service ctx token w = (Inr (Some v), w2)"
    by (metis prod.collapse)
  then obtain t w1 where n: "is_now service w = (t, w1)" and l: "ResolveSession (is_repository service) ctx
      (Digest hasher SecretPurposeSessionCookie token) t w1 = (Inr (sv_Session v), w2)"
    using service_ResolveSession_SomeD svc(2) by metis
  have same: "iw_db w1 = iw_db w" "iw_envs w1 = iw_envs w" using n by (auto simp: svc on_rest_def split: prod.splits)
  let ?env = "iw_envs w (iw_calls w1)"
  have "repository_ResolveSession repository ?env (Digest hasher SecretPurposeSessionCookie token) t (iw_db w) =
      (Inr (sv_Session v), iw_db w2)"
    using identity_call_eq l same by (fastforce simp: svc identity_repository_def)
  then obtain s p where s: "s \<in> set (idb_sessions (pe_race ?env 0 (iw_db w)))"
    "us_session_digest s = Digest hasher SecretPurposeSessionCookie token" "live_session t s"
    "session_account (pe_race ?env 0 (iw_db w)) s = Some p"
    "principalFromRow (active_principal_row (pe_race ?env 0 (iw_db w)) p) = Inr (ses_Principal (sv_Session v))"
    by (rule ResolveSession_InrD) simp
  then have "session_backed hasher token v (pe_race ?env 0 (iw_db w))"
    using principalFromRow_sound session_account_active
    by (auto simp: session_backed_def live_session_def intro!: bexI [of _ s]) metis+
  then show ?thesis using race_run assms(3) by blast
qed

interpretation api_sessions: session_source
    "service_ResolveSession (api_identity_service repository provider hasher pkce policy clock random uuids)"
    "\<lambda>token v w. (\<forall>n. identity_races (iw_envs w n)) \<longrightarrow>
       (\<exists>db. identity_step\<^sup>*\<^sup>* (iw_db w) db \<and> session_backed hasher token v db)"
    "session_ended hasher"
  for repository provider hasher pkce policy clock random uuids
proof
  show "(\<forall>n. identity_races (iw_envs w n)) \<longrightarrow>
      (\<exists>db. identity_step\<^sup>*\<^sup>* (iw_db w) db \<and> session_backed hasher token v db)"
    if "fst (service_ResolveSession (api_identity_service repository provider hasher pkce policy clock random uuids)
      ctx token w) = Inr (Some v)" for ctx token v and w :: "'a api_world"
    using service_resolve_backed [OF refl that] by blast
  show "fst (service_ResolveSession (api_identity_service repository provider hasher pkce policy clock random uuids)
      ctx token w) \<noteq> Inr (Some v)" if "session_ended hasher token w" for ctx token v and w :: "'a api_world"
  proof -
    from that obtain db r where "\<forall>n. identity_races (iw_envs w n)" "identity_inv db" "r \<in> set (idb_sessions db)"
      "us_revoked_at r \<noteq> None" "us_session_digest r = Digest hasher SecretPurposeSessionCookie token"
      "identity_step\<^sup>*\<^sup>* db (iw_db w)" unfolding session_ended_def by blast
    with service_never_resolves [OF refl] show ?thesis by metis
  qed
qed

section \<open>Properties\<close>

text \<open>A request that passes the boundary is backed by the tables at the moment of the request: the
  cookie names a session that is not revoked, it belongs to the account the handler sees, that account's
  tenant is active, and the account is an administrator holding the entry permission there, or a mailbox
  account of an active mailbox of that tenant, which is the one the handler sees.\<close>

lemma protected_request_backed:
  assumes "bd_service boundary = service_ResolveSession
      (api_identity_service repository provider hasher pkce policy clock random uuids)"
    and "\<forall>n. identity_races (iw_envs w n)"
    and "fst (Protect uc authority boundary accountType requireIdempotency ctx w) = Next admitted request"
  shows "\<exists>db. identity_step\<^sup>*\<^sup>* (iw_db w) db \<and>
    (\<exists>s \<in> set (idb_sessions db). us_revoked_at s = None \<and> us_principal_id s = azc_principalID admitted \<and>
       us_session_digest s = Digest hasher SecretPurposeSessionCookie (gin_sessionCookie ctx)) \<and>
    (\<exists>t \<in> set (db_tenants (idb_control db)). t_id t = azc_tenantID admitted \<and> t_status t = ''active'') \<and>
    (azc_accountType admitted = AccountTypeAdministrator \<and>
       has_permission db (azc_principalID admitted) PermissionPortalAdminAccess \<or>
     azc_accountType admitted = AccountTypeMailbox \<and>
       (\<exists>m \<in> set (db_mailboxes (idb_control db)). mb_id m = azc_mailboxID admitted \<and>
          mb_tenant_id m = azc_tenantID admitted \<and> mb_desired_status m = ''active''))"
proof -
  obtain v authorized where backed: "\<exists>db. identity_step\<^sup>*\<^sup>* (iw_db w) db \<and>
      session_backed hasher (gin_sessionCookie ctx) v db"
    and made: "NewContext (Some v) (gin_request_id ctx) = Inr authorized"
    and same: "azc_principalID admitted = azc_principalID authorized"
      "azc_tenantID admitted = azc_tenantID authorized" "azc_accountType admitted = azc_accountType authorized"
      "azc_mailboxID admitted = azc_mailboxID authorized"
    using api_sessions.protect_backed [OF assms(3,1)] assms(2) by metis
  from backed obtain db where db: "identity_step\<^sup>*\<^sup>* (iw_db w) db"
    "session_backed hasher (gin_sessionCookie ctx) v db" by blast
  show ?thesis using db same NewContext_InrD(3,4,6,8) [OF made]
    by (intro exI [of _ db])
      (cases "pr_AccountType (ses_Principal (sv_Session v))"; fastforce simp: session_backed_def account_sound_def mailboxID_def)
qed

text \<open>A logout whose token does not resolve at that moment - because its tenant, mailbox or entry permission
  is withdrawn - is answered like a success, but calls nothing that revokes: the session row stays open and
  admits the same cookie again once the account is restored.\<close>

lemma logout_unresolved:
  assumes "service_ResolveSession service ctx token w = (Inr None, w1)" "token \<noteq> ''''"
  shows "Logout service ctx token csrf metadata w = (Inr \<lparr>lr_ProviderLogoutURL = is_providerLogoutURL service\<rparr>, w1)"
  using assms by (simp add: Logout_def Let_def)

text \<open>(C21) A logout of a session that resolves closes the boundary: after it succeeded for a token that
  resolved at that moment, no route lets a request with that session cookie through any more, at any later time and
  on any API instance; the request is answered with an error. (Without that condition it fails: see
  \<open>logout_unresolved\<close>.)\<close>

theorem logout_closes_boundary:
  assumes "service = api_identity_service repository provider hasher pkce policy clock random uuids"
    and "repository_wf repository" "\<forall>n. identity_races (iw_envs w n)" "identity_inv (iw_db w)"
    and "fst (service_ResolveSession service ctx token w) = Inr (Some v)"
    and "Logout service ctx token csrf metadata w = (Inr result, w')"
    and "identity_step\<^sup>*\<^sup>* (iw_db w') (iw_db later)" "\<forall>n. identity_races (iw_envs later n)"
    and "bd_service boundary = service_ResolveSession service" "gin_sessionCookie request = token"
  shows "\<exists>response. fst (Protect uc authority boundary accountType requireIdempotency request later) =
    Aborted response"
proof (rule api_sessions.protect_ended)
  show "session_ended hasher (gin_sessionCookie request) later"
    using Logout_revokes [OF assms(1-6)] assms(7,8,10) unfolding session_ended_def by metis
  show "bd_service boundary = service_ResolveSession
      (api_identity_service repository provider hasher pkce policy clock random uuids)"
    using assms(1,9) by simp
qed

end
