(* ===== verification/Boundary_Witnesses.thy ===== *)
theory Boundary_Witnesses
  imports Boundary_System
begin

text \<open>The properties of the boundary at concrete inputs: an administrator of the sample
  tenant writes with the session of the sample login, then logs out.\<close>

definition plain_authority :: parse_authority where
  "plain_authority scheme a = (if a = '''' then None else Some (False, a))"

definition sample_write :: http_Request where
  "sample_write = \<lparr>req_Method = ''POST'', req_ContentLength = 2,
     req_Header = (\<lambda>name. if name = ''X-Csrf-Token'' then [DeriveCSRFToken sample_hasher sample_token]
       else if name = ''Origin'' then [''https://mail.test'']
       else if name = ''Content-Type'' then [''application/json; charset=utf-8'']
       else if name = ''Idempotency-Key'' then [''request-0123456789''] else []),
     req_TransferEncoding = [], req_Body = Body ''{}'' False\<rparr>"

definition sample_gin :: gin_Context where
  "sample_gin = \<lparr>gin_request = sample_write, gin_context = background, gin_sessionCookie = sample_token,
     gin_request_id = ''req-1''\<rparr>"

definition sample_boundary :: "unit api_world Boundary" where
  "sample_boundary = \<lparr>bd_service = service_ResolveSession (sample_identity_service 51),
     bd_trustedOrigin = ''https://mail.test''\<rparr>"

definition sample_authorized :: authorization_Context where
  "sample_authorized = \<lparr>azc_principalID = 20, azc_tenantID = 1, azc_accountType = AccountTypeAdministrator,
     azc_mailboxID = uuid_Nil, azc_permissions = [''portal.admin.access''],
     azc_csrfDigest = Sum256 (DeriveCSRFToken sample_hasher sample_token), azc_csrfVerified = False,
     azc_requestID = ''req-1''\<rparr>"

lemma TrimSpace_token: "TrimSpace (DeriveCSRFToken hasher token) = DeriveCSRFToken hasher token"
proof -
  let ?s = "DeriveCSRFToken hasher token"
  have c: "\<forall>c \<in> set ?s. byte_val c < 128 \<and> \<not> IsSpace (byte_val c)"
    using RawURL_alphabet unfolding DeriveCSRFToken_def
    by (fastforce simp: is_upper_def is_lower_def is_digit_def IsSpace_def byte_val_def)
  have keep: "dropWhile P xs = xs" if "\<forall>c \<in> set xs. \<not> P c" for P and xs :: string using that by (cases xs) auto
  have "dropWhile (\<lambda>c. IsSpace (byte_val c)) ?s = ?s" "dropWhile (\<lambda>c. IsSpace (byte_val c)) (rev ?s) = rev ?s"
    using c by (simp_all add: keep)
  then show ?thesis using c TrimSpace_ascii [of ?s] by (simp add: is_ascii_def trim_list_def list_all_iff)
qed

lemma sample_request_id: "TrimSpace ''req-1'' = ''req-1''" by code_simp

lemma sample_NewContext: "NewContext (Some sample_view) ''req-1'' = Inr sample_authorized"
  by (simp add: NewContext_def sample_view_def sample_account_def TrimSpace_token tokens_nonempty(2)
      sample_request_id uuid_Nil_def mailboxID_def sample_authorized_def)

lemma sample_origin: "trustedBrowserRequest id plain_authority sample_write ''https://mail.test''"
proof -
  have "url_ParseRequestURI id plain_authority ''https://mail.test'' =
    Some \<lparr>url_Path = '''', url_RawPath = '''', url_RawQuery = '''', url_Scheme = ''https'', url_Opaque = '''',
      url_User = False, url_Host = ''mail.test''\<rparr>"
    by (simp add: url_ParseRequestURI_def parse_reference_def absolute_URL_def set_path_def cut_query_def
        plain_authority_def escape_path_def URL.defs ascii_eval)
  moreover have "CanonicalHeaderKey ''Origin'' = ''Origin''" by code_simp
  ultimately show ?thesis
    by (simp add: trustedBrowserRequest_def singleHeader_def header_Values_def sample_write_def)
qed

lemma sample_validated:
  "ValidateMutationRequest id plain_authority (Some sample_write) ''https://mail.test'' sample_authorized True =
     Inr (sample_authorized\<lparr>azc_csrfVerified := True\<rparr>)"
proof -
  have keys: "CanonicalHeaderKey ''X-CSRF-Token'' = ''X-Csrf-Token''"
    "CanonicalHeaderKey ''Content-Type'' = ''Content-Type''"
    "CanonicalHeaderKey ''Idempotency-Key'' = ''Idempotency-Key''" by code_simp+
  have check: "checkMediaTypeDisposition ''application/json''" by code_simp
  have "consumeMediaParam id ''; charset=utf-8'' = Some (''charset'', ''utf-8'', '''')"
    by (simp add: consumeMediaParam_def consumeToken_def consumeValue_def isTokenChar_def isTSpecial_def
        TrimLeftSpace_ascii ascii_eval)
  then have "media_params id [] ''; charset=utf-8''"
    by (simp add: media_params.simps TrimLeftSpace_ascii ascii_eval)
  with check have "ParseMediaType id ''application/json; charset=utf-8'' = Some ''application/json''"
    by (simp add: ParseMediaType_def Let_def ascii_eval)
  then have "validateContentType id sample_write = None"
    by (simp add: validateContentType_def singleHeader_def header_Values_def keys sample_write_def)
  moreover have "validIdempotencyKey ''request-0123456789''" by code_simp
  moreover have "singleHeader sample_write ''X-CSRF-Token'' = (DeriveCSRFToken sample_hasher sample_token, True)"
    "singleHeader sample_write ''Idempotency-Key'' = (''request-0123456789'', True)"
    "isMutation (req_Method sample_write)" "req_ContentLength sample_write \<le> int DefaultMaxJSONBodyBytes"
    by (simp_all add: singleHeader_def header_Values_def keys sample_write_def isMutation_def
        DefaultMaxJSONBodyBytes_def)
  moreover have "VerifyCSRF sample_authorized (DeriveCSRFToken sample_hasher sample_token)"
    using tokens_nonempty(2) by (simp add: VerifyCSRF_def sample_authorized_def)
  ultimately show ?thesis using sample_origin by (simp add: ValidateMutationRequest_def)
qed

lemma sample_protect:
  "fst (Protect id plain_authority sample_boundary AccountTypeAdministrator True sample_gin
     (identity_world_of sample_logged_in)) = Next (sample_authorized\<lparr>azc_csrfVerified := True\<rparr>) sample_write"
proof -
  have "HasPermission sample_authorized PermissionPortalAdminAccess"
    using HasPermission_iff by (simp add: sample_authorized_def PermissionPortalAdminAccess_def)
  moreover have "boundJSONBody sample_write = Inr sample_write"
    by (simp add: boundJSONBody_def sample_write_def DefaultMaxJSONBodyBytes_def)
  moreover have "req_Method sample_write = ''POST''" by (simp add: sample_write_def)
  ultimately show ?thesis using sample_session_resolves sample_validated
    by (simp add: Protect_def sample_boundary_def sample_gin_def on_result_def sample_NewContext
        RequireAdministrator_def admit_request_def isMutation_def)
      (simp add: sample_authorized_def)
qed

theorem has_permission_membership_witness:
  "NewContext (Some sample_view) ''req-1'' = Inr sample_authorized \<and>
   HasPermission sample_authorized ''portal.admin.access'' \<and> \<not> HasPermission sample_authorized ''portal.admin''"
  using has_permission_membership [OF sample_NewContext] sample_NewContext by (simp add: sample_view_def)

lemma resource_access_isolated_witness:
  "RequireResource sample_authorized \<lparr>res_TenantID = 1, res_MailboxID = 7\<rparr> = None \<and>
   RequireResource sample_authorized \<lparr>res_TenantID = 2, res_MailboxID = 7\<rparr> =
     Some (AuthorizationErr authorization_NotFound)"
  using resource_access_isolated [OF sample_NewContext, of "\<lparr>res_TenantID = 1, res_MailboxID = 7\<rparr>"]
    resource_access_isolated [OF sample_NewContext, of "\<lparr>res_TenantID = 2, res_MailboxID = 7\<rparr>"]
  by (auto simp: sample_view_def sample_account_def PermissionPortalAdminAccess_def)

theorem protect_admits_authorised_witness:
  "\<exists>admitted request. fst (Protect id plain_authority sample_boundary AccountTypeAdministrator True sample_gin
     (identity_world_of sample_logged_in)) = Next admitted request \<and> azc_csrfVerified admitted \<and>
     length (body_bytes (req_Body request)) \<le> DefaultMaxJSONBodyBytes"
  using protect_admits_authorised [OF sample_protect] sample_protect
  by (auto simp: sample_gin_def sample_write_def isMutation_def)

lemma protected_request_backed_witness:
  "\<exists>db. identity_step\<^sup>*\<^sup>* sample_logged_in db \<and> (\<exists>s \<in> set (idb_sessions db). us_principal_id s = 20)"
proof -
  have "bd_service sample_boundary = service_ResolveSession (api_identity_service sample_repository sample_provider
      sample_hasher sample_pkce \<lparr>mfa_AllowedACR = [], mfa_RequiredAMR = [''otp'']\<rparr> (\<lambda>w. (2000, w))
      (\<lambda>n w. (Some (replicate n (CHR ''t'')), w)) (\<lambda>w. (51, w)))"
    by (simp add: sample_boundary_def sample_identity_service_def)
  from protected_request_backed [OF this sample_worlds(1) sample_protect] show ?thesis
    by (auto simp: sample_worlds sample_authorized_def)
qed

theorem logout_closes_boundary_witness:
  "\<exists>r w' response. Logout (sample_identity_service 51) background sample_token
     (DeriveCSRFToken sample_hasher sample_token) sample_metadata (identity_world_of sample_logged_in) = (Inr r, w') \<and>
     fst (Protect id plain_authority sample_boundary AccountTypeAdministrator True sample_gin w') = Aborted response"
proof -
  have "fst (service_ResolveSession (sample_identity_service 51) background sample_token (identity_world_of sample_logged_in)) =
      Inr (Some sample_view)" using sample_session_resolves by simp
  moreover have "bd_service sample_boundary = service_ResolveSession (sample_identity_service 51)"
    "gin_sessionCookie sample_gin = sample_token" by (simp_all add: sample_boundary_def sample_gin_def)
  ultimately show ?thesis using logout_closes_boundary [OF sample_identity_service_def sample_repository_wf
      sample_worlds(1) _ _ sample_logout rtranclp.rtrancl_refl] sample_logout sample_login_invs(2)
    by (fastforce simp: sample_worlds)
qed

end
