(* ===== verification/Stalwart_Wire.thy ===== *)
theory Stalwart_Wire
  imports Mailcore Go_Web
begin

text \<open>
  How the Stalwart adapter (\<^verbatim>\<open>internal/mailcore/stalwart/adapter.go\<close>) talks to the
  mail core: JSON documents and their decoding into Go values, one bounded HTTPS
  request, one JMAP method call, and the classification of every failure. The HTTP
  client, the clock and the source of random bytes are arguments of the adapter over a
  world \<open>'w\<close>; the text of JSON documents, of UUIDs and of times is the business of library
  functions collected in a record.
\<close>

section \<open>JSON\<close>

datatype json =
    JNull | JBool bool | JNumber string | JString string | JArray "json list" | JObject "(string \<times> json) list"

text \<open>The folding by which \<^verbatim>\<open>encoding/json\<close> matches member names and
  \<^verbatim>\<open>strings.EqualFold\<close> compares with an ASCII text: besides the letters only the long s
  and the Kelvin sign fold into ASCII.\<close>

definition foldRune :: "nat \<Rightarrow> nat" where
  "foldRune r = (if 97 \<le> r \<and> r \<le> 122 then r - 32 else if r = 383 then 83 else if r = 8490 then 75 else r)"

definition foldName :: "string \<Rightarrow> nat list" where
  "foldName s = map (\<lambda>p. foldRune (fst p)) (runes s)"

definition EqualFold :: "string \<Rightarrow> string \<Rightarrow> bool" where
  "EqualFold s t \<longleftrightarrow> foldName s = foldName t"

fun object_members :: "json \<Rightarrow> (string \<times> json) list option" where
  \<comment> \<open>The members a struct is decoded from; null leaves the struct as it is.\<close>
  "object_members (JObject kvs) = Some kvs"
| "object_members JNull = Some []"
| "object_members _ = None"

definition field_values :: "string \<Rightarrow> (string \<times> json) list \<Rightarrow> json list" where
  "field_values name kvs = map snd (filter (\<lambda>kv. EqualFold (fst kv) name) kvs)"

fun decode_values :: "('a \<Rightarrow> json \<Rightarrow> 'a option) \<Rightarrow> 'a \<Rightarrow> json list \<Rightarrow> 'a option" where
  \<comment> \<open>A repeated member is decoded again over the value so far.\<close>
  "decode_values d cur [] = Some cur"
| "decode_values d cur (v # vs) = (case d cur v of None \<Rightarrow> None | Some x \<Rightarrow> decode_values d x vs)"

fun decode_string :: "string \<Rightarrow> json \<Rightarrow> string option" where
  "decode_string cur (JString s) = Some s"
| "decode_string cur JNull = Some cur"
| "decode_string cur _ = None"

fun decode_array :: "(json \<Rightarrow> 'a option) \<Rightarrow> json \<Rightarrow> 'a list option" where
  "decode_array d (JArray vs) = all_values (map d vs)"
| "decode_array d JNull = Some []"
| "decode_array d _ = None"

fun decode_entries :: "(json \<Rightarrow> 'a option) \<Rightarrow> (string \<rightharpoonup> 'a) \<Rightarrow> (string \<times> json) list \<Rightarrow> (string \<rightharpoonup> 'a) option" where
  "decode_entries d m [] = Some m"
| "decode_entries d m (kv # kvs) =
     (case d (snd kv) of None \<Rightarrow> None | Some x \<Rightarrow> decode_entries d (m(fst kv \<mapsto> x)) kvs)"

fun decode_map :: "(json \<Rightarrow> 'a option) \<Rightarrow> (string \<rightharpoonup> 'a) \<Rightarrow> json \<Rightarrow> (string \<rightharpoonup> 'a) option" where
  "decode_map d m (JObject kvs) = decode_entries d m kvs"
| "decode_map d m JNull = Some Map.empty"
| "decode_map d m _ = None"

definition string_field :: "string \<Rightarrow> (string \<times> json) list \<Rightarrow> string option" where
  "string_field name kvs = decode_values decode_string '''' (field_values name kvs)"

definition strings_field :: "string \<Rightarrow> (string \<times> json) list \<Rightarrow> string list option" where
  "strings_field name kvs =
     decode_values (\<lambda>_. decode_array (decode_string '''')) [] (field_values name kvs)"

definition map_field :: "(json \<Rightarrow> 'a option) \<Rightarrow> string \<Rightarrow> (string \<times> json) list \<Rightarrow> (string \<rightharpoonup> 'a) option" where
  "map_field d name kvs = decode_values (decode_map d) Map.empty (field_values name kvs)"

definition raw_field :: "string \<Rightarrow> (string \<times> json) list \<Rightarrow> json option" where
  \<comment> \<open>A \<^verbatim>\<open>json.RawMessage\<close>: the member as it stands, None where there is none.\<close>
  "raw_field name kvs = (case field_values name kvs of [] \<Rightarrow> None | vs \<Rightarrow> Some (last vs))"

definition decode_setError :: "json \<Rightarrow> string option" where
  "decode_setError j = Option.bind (object_members j) (string_field ''type'')"

definition decode_createdObject :: "json \<Rightarrow> string option" where
  "decode_createdObject j = Option.bind (object_members j) (string_field ''id'')"

section \<open>Error codes\<close>

definition ErrorCodeAuthentication :: string where
  "ErrorCodeAuthentication = ''MAIL_CORE_AUTHENTICATION_FAILED''"

definition ErrorCodeRateLimited :: string where
  "ErrorCodeRateLimited = ''MAIL_CORE_RATE_LIMITED''"

definition ErrorCodeUnavailable :: string where
  "ErrorCodeUnavailable = ''MAIL_CORE_UNAVAILABLE''"

definition ErrorCodeProtocolInvalid :: string where
  "ErrorCodeProtocolInvalid = ''MAIL_CORE_PROTOCOL_INVALID''"

definition ErrorCodeDomainMissing :: string where
  "ErrorCodeDomainMissing = ''MAIL_CORE_DOMAIN_MISSING''"

definition ErrorCodeResourceConflict :: string where
  "ErrorCodeResourceConflict = ''MAIL_CORE_RESOURCE_CONFLICT''"

definition ErrorCodeConfiguration :: string where
  "ErrorCodeConfiguration = ''MAIL_CORE_CONFIGURATION_INVALID''"

definition ErrorCodeTimeout :: string where
  "ErrorCodeTimeout = ''MAIL_CORE_TIMEOUT''"

lemmas stalwart_codes = ErrorCodeAuthentication_def ErrorCodeRateLimited_def ErrorCodeUnavailable_def
  ErrorCodeProtocolInvalid_def ErrorCodeDomainMissing_def ErrorCodeResourceConflict_def
  ErrorCodeConfiguration_def ErrorCodeTimeout_def

definition stalwart_error :: "ErrorClass \<Rightarrow> string \<Rightarrow> go_error" where
  "stalwart_error class code = MailcoreErr (mailcore_NewError class code)"

definition uncertainClass :: "bool \<Rightarrow> ErrorClass" where
  "uncertainClass mutation = (if mutation then ErrorClassUnknown else ErrorClassRetryable)"

definition protocolError :: go_error where
  "protocolError = stalwart_error ErrorClassPermanent ErrorCodeProtocolInvalid"

definition classifySetError :: "string \<Rightarrow> go_error" where
  "classifySetError errorType =
     (if errorType = ''rateLimit'' then stalwart_error ErrorClassRetryable ErrorCodeRateLimited
      else if errorType = ''serverUnavailable'' then stalwart_error ErrorClassRetryable ErrorCodeUnavailable
      else if errorType = ''forbidden'' then stalwart_error ErrorClassPermanent ErrorCodeAuthentication
      else stalwart_error ErrorClassPermanent ErrorCodeResourceConflict)"

definition classifyMethodError :: "string \<Rightarrow> bool \<Rightarrow> go_error" where
  "classifyMethodError errorType mutation =
     (if errorType = ''rateLimit'' then stalwart_error ErrorClassRetryable ErrorCodeRateLimited
      else if errorType = ''forbidden'' \<or> errorType = ''accountNotFound''
      then stalwart_error ErrorClassPermanent ErrorCodeAuthentication
      else if errorType = ''serverUnavailable'' then stalwart_error (uncertainClass mutation) ErrorCodeUnavailable
      else stalwart_error (uncertainClass mutation) ErrorCodeProtocolInvalid)"

definition statusError :: "int \<Rightarrow> bool \<Rightarrow> go_error" where
  "statusError status mutation =
     (if status = 504 then
        (if \<not> mutation then stalwart_error ErrorClassRetryable ErrorCodeTimeout
         else stalwart_error ErrorClassUnknown ErrorCodeUnavailable)
      else if status = 401 \<or> status = 403 then stalwart_error ErrorClassPermanent ErrorCodeAuthentication
      else if status = 429 then stalwart_error ErrorClassRetryable ErrorCodeRateLimited
      else if status = 502 \<or> status = 503 then stalwart_error (uncertainClass mutation) ErrorCodeUnavailable
      else if 500 \<le> status then stalwart_error (uncertainClass mutation) ErrorCodeUnavailable
      else stalwart_error ErrorClassPermanent ErrorCodeProtocolInvalid)"

section \<open>One request\<close>

record http_call =
  hc_Method :: string
  hc_Path :: string
  hc_Username :: string
  hc_Password :: string
  hc_Body :: "json option"

datatype http_outcome =
    DoFailed bool \<comment> \<open>the client's error, and whether it is a timeout\<close>
  | Response int go_body bool \<comment> \<open>status and body, and whether a failing read of it is a timeout\<close>

record go_library =
  lib_lower :: "nat \<Rightarrow> nat"
  lib_authority :: parse_authority
  lib_json :: "bytes \<Rightarrow> json option"
  lib_marshal :: "json \<Rightarrow> bytes"
  lib_RFC3339 :: "string \<Rightarrow> instant option"
  lib_uuid_String :: "uuid \<Rightarrow> string"
  lib_uuid_Parse :: "string \<Rightarrow> uuid option"

record 'w stalwart_Adapter =
  sa_lib :: go_library
  sa_endpoint :: go_URL
  sa_adminUsername :: string
  sa_adminPassword :: string
  sa_mailboxKey :: bytes
  sa_Do :: "go_context \<Rightarrow> http_call \<Rightarrow> 'w \<Rightarrow> http_outcome \<times> 'w"
  sa_ctxErr :: "go_context \<Rightarrow> 'w \<Rightarrow> go_error option"
  sa_now :: "'w \<Rightarrow> instant \<times> 'w"
  sa_random :: "'w reader"

definition maximumResponseBytes :: nat where
  "maximumResponseBytes = 1048576"

definition readTimeoutError :: "go_error option \<Rightarrow> bool option \<Rightarrow> bool \<Rightarrow> go_error option" where
  \<comment> \<open>The context's error, and whether the error at hand, if any, is a timeout.\<close>
  "readTimeoutError ctxErr err mutation = (case err of
     None \<Rightarrow> None
   | Some timeout \<Rightarrow>
       if mutation then None
       else if (case ctxErr of None \<Rightarrow> False | Some e \<Rightarrow> errors_Is e ContextDeadlineExceeded) \<or> timeout
       then Some (stalwart_error ErrorClassRetryable ErrorCodeTimeout) else None)"

definition transportError :: "go_error option \<Rightarrow> bool \<Rightarrow> go_error" where
  "transportError ctxErr mutation = (case ctxErr of
     Some e \<Rightarrow> e | None \<Rightarrow> stalwart_error (uncertainClass mutation) ErrorCodeUnavailable)"

definition requestJSONAs ::
  "'w stalwart_Adapter \<Rightarrow> go_context \<Rightarrow> string \<Rightarrow> string \<Rightarrow> json option \<Rightarrow> bool \<Rightarrow> string \<Rightarrow> string \<Rightarrow>
   (json \<Rightarrow> 'a option) \<Rightarrow> 'w \<Rightarrow> 'a result \<times> 'w" where
  \<comment> \<open>The bodies always encode and the URLs always parse, so that those two branches are gone.\<close>
  "requestJSONAs adapter ctx method path body mutation username password target w =
     from_world (sa_Do adapter ctx \<lparr>hc_Method = method, hc_Path = path, hc_Username = username,
         hc_Password = password, hc_Body = body\<rparr> w) (\<lambda>outcome w.
       (case outcome of
          DoFailed timeout \<Rightarrow>
            (case readTimeoutError (sa_ctxErr adapter ctx w) (Some timeout) mutation of
               Some e \<Rightarrow> Inl e
             | None \<Rightarrow> Inl (transportError (sa_ctxErr adapter ctx w) mutation))
        | Response status content timeout \<Rightarrow>
            if status < 200 \<or> 300 \<le> status then Inl (statusError status mutation)
            else (case ReadAll_limited (maximumResponseBytes + 1) content of
                None \<Rightarrow> (case readTimeoutError (sa_ctxErr adapter ctx w) (Some timeout) mutation of
                    Some e \<Rightarrow> Inl e
                  | None \<Rightarrow> Inl (stalwart_error (uncertainClass mutation) ErrorCodeProtocolInvalid))
              | Some encoded \<Rightarrow>
                  if encoded = [] \<or> maximumResponseBytes < length encoded
                  then Inl (stalwart_error (uncertainClass mutation) ErrorCodeProtocolInvalid)
                  else (case Option.bind (lib_json (sa_lib adapter) encoded) target of
                      None \<Rightarrow> Inl (stalwart_error (uncertainClass mutation) ErrorCodeProtocolInvalid)
                    | Some x \<Rightarrow> Inr x)), w))"

definition requestJSON ::
  "'w stalwart_Adapter \<Rightarrow> go_context \<Rightarrow> string \<Rightarrow> string \<Rightarrow> json option \<Rightarrow> bool \<Rightarrow> (json \<Rightarrow> 'a option) \<Rightarrow>
   'w \<Rightarrow> 'a result \<times> 'w" where
  "requestJSON adapter ctx method path body mutation target w =
     requestJSONAs adapter ctx method path body mutation (sa_adminUsername adapter) (sa_adminPassword adapter)
       target w"

section \<open>One method call\<close>

definition method_call :: "string list \<Rightarrow> string \<Rightarrow> json \<Rightarrow> json" where
  "method_call using methodName arguments = JObject
     [(''using'', JArray (map JString using)),
      (''methodCalls'', JArray [JArray [JString methodName, arguments, JString ''c0'']])]"

definition decode_envelope :: "json \<Rightarrow> json list option" where
  "decode_envelope j = Option.bind (object_members j) (\<lambda>kvs.
     decode_values (\<lambda>_. decode_array Some) [] (field_values ''methodResponses'' kvs))"

definition read_response :: "string \<Rightarrow> bool \<Rightarrow> (json \<Rightarrow> 'a option) \<Rightarrow> json list \<Rightarrow> 'a result" where
  \<comment> \<open>What \<^verbatim>\<open>callAs\<close> makes of the method responses.\<close>
  "read_response methodName mutation target responses = (case responses of
     [response] \<Rightarrow> (case decode_array Some response of
         Some [name, arguments, callID] \<Rightarrow>
           (case (decode_string '''' name, decode_string '''' callID) of
              (Some responseName, Some call) \<Rightarrow>
                if call \<noteq> ''c0'' then Inl protocolError
                else if responseName = ''error'' then (case decode_setError arguments of
                    None \<Rightarrow> Inl protocolError
                  | Some type \<Rightarrow> Inl (classifyMethodError type mutation))
                else if responseName \<noteq> methodName then Inl protocolError
                else (case target arguments of None \<Rightarrow> Inl protocolError | Some x \<Rightarrow> Inr x)
            | _ \<Rightarrow> Inl protocolError)
       | _ \<Rightarrow> Inl protocolError)
   | _ \<Rightarrow> Inl protocolError)"

definition callAs ::
  "'w stalwart_Adapter \<Rightarrow> go_context \<Rightarrow> string \<Rightarrow> string \<Rightarrow> json \<Rightarrow> bool \<Rightarrow> string \<Rightarrow> string \<Rightarrow> string list \<Rightarrow>
   (json \<Rightarrow> 'a option) \<Rightarrow> 'w \<Rightarrow> 'a result \<times> 'w" where
  "callAs adapter ctx apiPath methodName arguments mutation username password using target w =
     on_result (requestJSONAs adapter ctx ''POST'' apiPath (Some (method_call using methodName arguments)) mutation
         username password decode_envelope w)
       (\<lambda>e w. (Inl e, w))
       (\<lambda>responses w. (read_response methodName mutation target responses, w))"

definition jmap_call ::
  "'w stalwart_Adapter \<Rightarrow> go_context \<Rightarrow> string \<Rightarrow> string \<Rightarrow> json \<Rightarrow> bool \<Rightarrow> (json \<Rightarrow> 'a option) \<Rightarrow> 'w \<Rightarrow>
   'a result \<times> 'w" where
  "jmap_call adapter ctx apiPath methodName arguments mutation target w =
     callAs adapter ctx apiPath methodName arguments mutation (sa_adminUsername adapter)
       (sa_adminPassword adapter) [''urn:ietf:params:jmap:core'', ''urn:stalwart:jmap''] target w"

end
