(* ===== verification/Go_Text.thy ===== *)
theory Go_Text
  imports Go_Encoding
begin

text \<open>
  Texts of values as Go's \<^verbatim>\<open>strings\<close>, \<^verbatim>\<open>strconv\<close> and \<^verbatim>\<open>time\<close> read and write
  them: splitting and joining, decimal numbers, durations (\<^verbatim>\<open>time.ParseDuration\<close>) and
  times in RFC 3339. The one step of \<^verbatim>\<open>ParseDuration\<close> that computes in floating point,
  the value of the digits after a decimal point, is the argument \<open>fraction\<close>.
\<close>

section \<open>Splitting and joining\<close>

fun split_on :: "char \<Rightarrow> string \<Rightarrow> string list" where
  "split_on sep [] = [[]]"
| "split_on sep (c # s) =
     (if c = sep then [] # split_on sep s
      else (case split_on sep s of [] \<Rightarrow> [[c]] | w # ws \<Rightarrow> (c # w) # ws))"

fun join_with :: "char \<Rightarrow> string list \<Rightarrow> string" where
  "join_with sep [] = []"
| "join_with sep [w] = w"
| "join_with sep (w # ws) = w @ sep # join_with sep ws"

function FieldsFunc :: "(char \<Rightarrow> bool) \<Rightarrow> string \<Rightarrow> string list" where
  \<comment> \<open>\<^verbatim>\<open>strings.FieldsFunc\<close> with separators that are single bytes.\<close>
  "FieldsFunc f s =
     (let rest = dropWhile f s in
      if rest = '''' then []
      else takeWhile (\<lambda>c. \<not> f c) rest # FieldsFunc f (dropWhile (\<lambda>c. \<not> f c) rest))"
  by pat_completeness auto
termination
proof (relation "measure (\<lambda>(f, s). length s)", goal_cases)
  case (2 f s rest)
  then obtain c t where "rest = c # t" "\<not> f c" by (metis hd_dropWhile list.collapse)
  then have "length (dropWhile (\<lambda>c. \<not> f c) rest) \<le> length t" by (simp add: length_dropWhile_le)
  moreover have "length rest \<le> length s" using 2(1) by (simp add: length_dropWhile_le)
  ultimately show ?case using \<open>rest = c # t\<close> by simp
qed simp

declare FieldsFunc.simps [simp del]

section \<open>Decimal numbers\<close>

fun dec_nat :: "nat \<Rightarrow> string" where
  "dec_nat n = (if n < 10 then [char_of (48 + n)] else dec_nat (n div 10) @ [char_of (48 + n mod 10)])"

declare dec_nat.simps [simp del]

definition dec_int :: "int \<Rightarrow> string" where
  \<comment> \<open>\<^verbatim>\<open>%d\<close>\<close>
  "dec_int i = (if i < 0 then CHR ''-'' # dec_nat (nat (- i)) else dec_nat (nat i))"

definition digits_value :: "string \<Rightarrow> nat" where
  "digits_value s = foldl (\<lambda>v c. 10 * v + (byte_val c - 48)) 0 s"

definition ParseInt :: "string \<Rightarrow> int option" where
  \<comment> \<open>\<^verbatim>\<open>strconv.ParseInt(s, 10, 64)\<close>\<close>
  "ParseInt s =
     (let negative = HasPrefix s ''-''; digits = (if negative \<or> HasPrefix s ''+'' then tl s else s);
          n = int (digits_value digits)
      in if digits = '''' \<or> \<not> list_all is_digit digits then None
         else if negative then (if n \<le> 2 ^ 63 then Some (- n) else None)
         else (if n < 2 ^ 63 then Some n else None))"

definition ParseInt32 :: "string \<Rightarrow> int option" where
  \<comment> \<open>\<^verbatim>\<open>strconv.ParseInt(s, 10, 32)\<close>\<close>
  "ParseInt32 s = (case ParseInt s of
     None \<Rightarrow> None | Some n \<Rightarrow> if - (2 ^ 31) \<le> n \<and> n < 2 ^ 31 then Some n else None)"

section \<open>Durations\<close>

fun leadingInt :: "nat \<Rightarrow> string \<Rightarrow> (nat \<times> string) option" where
  \<comment> \<open>The loop of \<^verbatim>\<open>leadingInt\<close> after the value \<open>x\<close>; None is its overflow.\<close>
  "leadingInt x [] = Some (x, [])"
| "leadingInt x (c # s) =
     (if \<not> is_digit c then Some (x, c # s)
      else if 2 ^ 63 div 10 < x then None
      else let y = 10 * x + (byte_val c - 48) in if 2 ^ 63 < y then None else leadingInt y s)"

fun leadingFraction :: "nat \<Rightarrow> nat \<Rightarrow> bool \<Rightarrow> string \<Rightarrow> nat \<times> nat \<times> string" where
  \<comment> \<open>The digits after the decimal point: their value, the power of ten they are over, the rest.\<close>
  "leadingFraction x scale overflow [] = (x, scale, [])"
| "leadingFraction x scale overflow (c # s) =
     (if \<not> is_digit c then (x, scale, c # s)
      else if overflow \<or> (2 ^ 63 - 1) div 10 < x then leadingFraction x scale True s
      else let y = 10 * x + (byte_val c - 48) in
        if 2 ^ 63 < y then leadingFraction x scale True s else leadingFraction y (scale * 10) False s)"

definition unitMap :: "string \<Rightarrow> nat option" where
  "unitMap = map_of [(''ns'', 1), (''us'', 1000), (CHR 0xC2 # CHR 0xB5 # ''s'', 1000),
     (CHR 0xCE # CHR 0xBC # ''s'', 1000), (''ms'', 1000000), (''s'', 1000000000),
     (''m'', 60000000000), (''h'', 3600000000000)]"

definition duration_number :: "string \<Rightarrow> (nat \<times> nat \<times> nat \<times> string) option" where
  \<comment> \<open>The number before a unit: the integer, the digits of the fraction and their scale.\<close>
  "duration_number s =
     (if s = '''' \<or> \<not> (hd s = CHR ''.'' \<or> is_digit (hd s)) then None
      else (case leadingInt 0 s of
          None \<Rightarrow> None
        | Some (v, rest) \<Rightarrow>
            if HasPrefix rest ''.'' then
              (case leadingFraction 0 1 False (tl rest) of (f, scale, rest2) \<Rightarrow>
                 if length rest = length s \<and> length rest2 = length (tl rest) then None
                 else Some (v, f, scale, rest2))
            else if length rest = length s then None else Some (v, 0, 1, rest)))"

definition duration_term :: "(nat \<Rightarrow> nat \<Rightarrow> nat \<Rightarrow> nat) \<Rightarrow> string \<Rightarrow> (nat \<times> string) option" where
  \<comment> \<open>One number with its unit, in nanoseconds, as an unsigned 64-bit number.\<close>
  "duration_term fraction s = (case duration_number s of
     None \<Rightarrow> None
   | Some (v, f, scale, rest) \<Rightarrow>
       (let u = takeWhile (\<lambda>c. c \<noteq> CHR ''.'' \<and> \<not> is_digit c) rest;
            rest2 = dropWhile (\<lambda>c. c \<noteq> CHR ''.'' \<and> \<not> is_digit c) rest
        in if u = '''' then None
           else (case unitMap u of
               None \<Rightarrow> None
             | Some unit \<Rightarrow>
                 if 2 ^ 63 div unit < v then None
                 else if 0 < f then
                   (let w = (v * unit + fraction f unit scale) mod 2 ^ 64 in
                    if 2 ^ 63 < w then None else Some (w, rest2))
                 else Some (v * unit, rest2))))"

lemma length_leadingInt: "leadingInt x s = Some (v, rest) \<Longrightarrow> length rest \<le> length s"
  by (induction x s rule: leadingInt.induct) (auto simp: Let_def split: if_splits)

lemma length_leadingFraction: "leadingFraction x scale b s = (f, scale', rest) \<Longrightarrow> length rest \<le> length s"
  by (induction x scale b s rule: leadingFraction.induct) (auto simp: Let_def le_Suc_eq split: if_splits)

lemma length_duration_number: "duration_number s = Some (v, f, scale, rest) \<Longrightarrow> length rest \<le> length s"
  by (auto simp: duration_number_def split: if_splits option.splits prod.splits
    dest!: length_leadingInt length_leadingFraction)

lemma length_duration_term:
  assumes "duration_term fraction s = Some (v, rest)"
  shows "length rest < length s"
proof -
  obtain n f scale r where r: "duration_number s = Some (n, f, scale, r)"
    "rest = dropWhile (\<lambda>c. c \<noteq> CHR ''.'' \<and> \<not> is_digit c) r"
    "takeWhile (\<lambda>c. c \<noteq> CHR ''.'' \<and> \<not> is_digit c) r \<noteq> ''''"
    using assms by (auto simp: duration_term_def Let_def split: option.splits prod.splits if_splits)
  have "length (takeWhile (\<lambda>c. c \<noteq> CHR ''.'' \<and> \<not> is_digit c) r) + length rest = length r"
    unfolding r(2) by (metis length_append takeWhile_dropWhile_id)
  then show ?thesis using r(3) length_duration_number [OF r(1)]
    by (simp flip: length_greater_0_conv)
qed

function duration_sum :: "(nat \<Rightarrow> nat \<Rightarrow> nat \<Rightarrow> nat) \<Rightarrow> nat \<Rightarrow> string \<Rightarrow> nat option" where
  \<comment> \<open>The loop over the terms, after the sum \<open>d\<close>.\<close>
  "duration_sum fraction d s =
     (if s = '''' then Some d
      else (case duration_term fraction s of
          None \<Rightarrow> None
        | Some (v, rest) \<Rightarrow>
            let d2 = (d + v) mod 2 ^ 64 in if 2 ^ 63 < d2 then None else duration_sum fraction d2 rest))"
  by pat_completeness auto
termination
  by (relation "measure (\<lambda>(fraction, d, s). length s)") (auto dest: length_duration_term)

declare duration_sum.simps [simp del]

definition ParseDuration :: "(nat \<Rightarrow> nat \<Rightarrow> nat \<Rightarrow> nat) \<Rightarrow> string \<Rightarrow> duration option" where
  "ParseDuration fraction s =
     (let neg = HasPrefix s ''-''; t = (if neg \<or> HasPrefix s ''+'' then tl s else s)
      in if t = ''0'' then Some 0
         else if t = '''' then None
         else (case duration_sum fraction 0 t of
             None \<Rightarrow> None
           | Some d \<Rightarrow> if neg then Some (- int d) else if 2 ^ 63 - 1 < d then None else Some (int d)))"

section \<open>Times\<close>

definition civil_date :: "int \<Rightarrow> int \<times> int \<times> int" where
  \<comment> \<open>Year, month and day of the proleptic Gregorian calendar, from the days since 1 January of year 1.\<close>
  "civil_date days =
     (let z = days + 306; era = z div 146097; doe = z mod 146097;
          yoe = (doe - doe div 1460 + doe div 36524 - doe div 146096) div 365;
          doy = doe - (365 * yoe + yoe div 4 - yoe div 100);
          mp = (5 * doy + 2) div 153; day = doy - (153 * mp + 2) div 5 + 1;
          month = (if mp < 10 then mp + 3 else mp - 9)
      in (yoe + era * 400 + (if month \<le> 2 then 1 else 0), month, day))"

definition pad_nat :: "nat \<Rightarrow> nat \<Rightarrow> string" where
  "pad_nat width n = (let s = dec_nat n in replicate (width - length s) (CHR ''0'') @ s)"

definition format_RFC3339Nano :: "instant \<Rightarrow> string" where
  \<comment> \<open>\<^verbatim>\<open>t.UTC().Format("2006-01-02T15:04:05.999999999Z07:00")\<close>\<close>
  "format_RFC3339Nano t =
     (let seconds = t div 1000000000; nanos = t mod 1000000000; clock = seconds mod 86400;
          (year, month, day) = civil_date (seconds div 86400);
          digits = rev (dropWhile (\<lambda>c. c = CHR ''0'') (rev (pad_nat 9 (nat nanos))))
      in (if year < 0 then CHR ''-'' # pad_nat 4 (nat (- year)) else pad_nat 4 (nat year)) @ ''-'' @
         pad_nat 2 (nat month) @ ''-'' @ pad_nat 2 (nat day) @ ''T'' @ pad_nat 2 (nat (clock div 3600)) @ '':'' @
         pad_nat 2 (nat (clock mod 3600 div 60)) @ '':'' @ pad_nat 2 (nat (clock mod 60)) @
         (if digits = '''' then '''' else CHR ''.'' # digits) @ ''Z'')"

section \<open>Padded base64\<close>

definition Std_value :: "char \<Rightarrow> nat option" where
  "Std_value c = (if c = CHR ''+'' then Some 62 else if c = CHR ''/'' then Some 63
     else if c = CHR ''-'' \<or> c = CHR ''_'' then None else base64_value c)"

definition Std_DecodeString :: "string \<Rightarrow> bytes option" where
  \<comment> \<open>\<^verbatim>\<open>base64.StdEncoding.DecodeString\<close>: line breaks are skipped, groups of four are padded with \<^verbatim>\<open>=\<close>.\<close>
  "Std_DecodeString s =
     (let t = filter (\<lambda>c. byte_val c \<noteq> 10 \<and> byte_val c \<noteq> 13) s;
          digits = rev (dropWhile (\<lambda>c. c = CHR ''='') (rev t))
      in if length t mod 4 \<noteq> 0 \<or> 2 < length t - length digits then None
         else (case all_values (map Std_value digits) of
             None \<Rightarrow> None
           | Some vs \<Rightarrow> map_option (map char_of) (octets vs)))"

end
