(* ===== verification/Stalwart_Adapter.thy ===== *)
theory Stalwart_Adapter
  imports Stalwart_Wire Go_Aead Go_Text
begin

text \<open>
  \<^verbatim>\<open>internal/mailcore/stalwart/adapter.go\<close>: the adapter that ensures and observes
  mailboxes through Stalwart's JMAP management methods. The description of an account
  carries the control plane's metadata; the adapter touches only accounts whose
  metadata names its own mailbox.
\<close>

section \<open>Configuration\<close>

definition maximumRequestTimeout :: duration where
  "maximumRequestTimeout = 30000000000"

record stalwart_Config =
  scf_Endpoint :: "string option" \<comment> \<open>the text of the URL\<close>
  scf_AdminUsername :: string
  scf_AdminPassword :: string
  scf_MailboxKey :: bytes
  scf_RootCAs :: bool \<comment> \<open>present\<close>
  scf_RequestTimeout :: duration

definition parseEndpoint :: "go_library \<Rightarrow> string \<Rightarrow> go_URL option" where
  "parseEndpoint lib raw = (case url_ParseRequestURI (lib_lower lib) (lib_authority lib) (TrimSpace raw) of
     None \<Rightarrow> None
   | Some parsed \<Rightarrow>
       if url_Scheme parsed \<noteq> ''https'' \<or> url_Host parsed = '''' \<or> url_User parsed \<or>
          (url_Path parsed \<noteq> '''' \<and> url_Path parsed \<noteq> ''/'') \<or> url_RawQuery parsed \<noteq> ''''
       then None else Some (parsed\<lparr>url_Path := ''''\<rparr>))"

definition stalwart_New ::
  "go_library \<Rightarrow> (go_context \<Rightarrow> http_call \<Rightarrow> 'w \<Rightarrow> http_outcome \<times> 'w) \<Rightarrow>
   (go_context \<Rightarrow> 'w \<Rightarrow> go_error option) \<Rightarrow> ('w \<Rightarrow> instant \<times> 'w) \<Rightarrow> 'w reader \<Rightarrow> stalwart_Config \<Rightarrow>
   'w stalwart_Adapter result" where
  "stalwart_New lib client ctxErr now random config =
     (if scf_Endpoint config = None \<or> scf_AdminUsername config = '''' \<or> scf_AdminPassword config = '''' \<or>
         length (scf_MailboxKey config) \<noteq> 32 \<or> \<not> scf_RootCAs config \<or>
         scf_RequestTimeout config \<le> 0 \<or> maximumRequestTimeout < scf_RequestTimeout config
      then Inl (OtherError ''stalwart adapter'')
      else (case parseEndpoint lib (the (scf_Endpoint config)) of
          None \<Rightarrow> Inl (OtherError ''stalwart adapter'')
        | Some endpoint \<Rightarrow> Inr \<lparr>sa_lib = lib, sa_endpoint = endpoint,
            sa_adminUsername = scf_AdminUsername config, sa_adminPassword = scf_AdminPassword config,
            sa_mailboxKey = scf_MailboxKey config, sa_Do = client, sa_ctxErr = ctxErr, sa_now = now,
            sa_random = random\<rparr>))"

section \<open>Metadata\<close>

fun DecodeHex :: "string \<Rightarrow> bytes option" where
  "DecodeHex [] = Some []"
| "DecodeHex [c] = None"
| "DecodeHex (h # l # s) = (case (hex_value h, hex_value l) of
     (Some x, Some y) \<Rightarrow> map_option ((#) (char_of (16 * x + y))) (DecodeHex s)
   | _ \<Rightarrow> None)"

definition metadataPrefix :: string where
  "metadataPrefix = ''mail-suite:v1''"

record mailboxMetadata =
  mm_MailboxID :: uuid
  mm_DomainID :: uuid
  mm_OperationID :: uuid
  mm_Revision :: int
  mm_ConfigurationHash :: bytes

definition formatMetadata :: "go_library \<Rightarrow> EnsureMailboxCommand \<Rightarrow> string" where
  "formatMetadata lib command = join_with (CHR '':'')
     [metadataPrefix, lib_uuid_String lib (ens_MailboxID command), lib_uuid_String lib (ens_DomainID command),
      lib_uuid_String lib (ens_OperationID command), dec_int (ens_DesiredRevision command),
      EncodeToHex (ens_ConfigurationHash command)]"

definition parseMetadata :: "go_library \<Rightarrow> string \<Rightarrow> mailboxMetadata option" where
  "parseMetadata lib raw =
     (let parts = split_on (CHR '':'') raw in
      if length parts \<noteq> 7 \<or> join_with (CHR '':'') (take 2 parts) \<noteq> metadataPrefix then None
      else (case (lib_uuid_Parse lib (parts ! 2), lib_uuid_Parse lib (parts ! 3), lib_uuid_Parse lib (parts ! 4),
            ParseInt (parts ! 5), DecodeHex (parts ! 6)) of
          (Some mailboxID, Some domainID, Some operationID, Some revision, Some configurationHash) \<Rightarrow>
            if revision \<le> 0 \<or> length configurationHash \<noteq> 32 then None
            else Some \<lparr>mm_MailboxID = mailboxID, mm_DomainID = domainID, mm_OperationID = operationID,
              mm_Revision = revision, mm_ConfigurationHash = configurationHash\<rparr>
        | _ \<Rightarrow> None))"

definition mailboxPassword :: "'w stalwart_Adapter \<Rightarrow> uuid \<Rightarrow> int \<Rightarrow> string" where
  "mailboxPassword adapter mailboxID revision =
     ''ms1_'' @ RawURL_EncodeToString (hmac_sha256 (sa_mailboxKey adapter)
       (big_endian 16 (unat mailboxID) @ big_endian 8 (unat (word_of_int revision :: 64 word))))"

section \<open>Validation\<close>

definition splitAddress :: "go_library \<Rightarrow> string \<Rightarrow> (string \<times> string) result" where
  "splitAddress lib address =
     (if address \<noteq> ToLower (lib_lower lib) (TrimSpace address) \<or> count_list address (CHR ''@'') \<noteq> 1
      then Inl (stalwart_error ErrorClassPermanent ErrorCodeConfiguration)
      else let localPart = takeWhile (\<lambda>c. c \<noteq> CHR ''@'') address;
               domainName = drop 1 (dropWhile (\<lambda>c. c \<noteq> CHR ''@'') address)
           in if localPart = '''' \<or> domainName = '''' \<or> 320 < length address \<or>
                 contains_rune (\<lambda>r. r < 33 \<or> 126 < r) address
              then Inl (stalwart_error ErrorClassPermanent ErrorCodeConfiguration)
              else Inr (localPart, domainName))"

definition validateEnsureCommand :: "go_library \<Rightarrow> EnsureMailboxCommand \<Rightarrow> (string \<times> string) result" where
  "validateEnsureCommand lib command =
     (if ens_OperationID command = uuid_Nil \<or> ens_MailboxID command = uuid_Nil \<or>
         ens_DomainID command = uuid_Nil \<or> ens_DesiredRevision command \<le> 0 \<or>
         ens_PayloadVersion command \<noteq> PayloadVersion \<or> IsZero (ens_Deadline command)
      then Inl (stalwart_error ErrorClassPermanent ErrorCodeConfiguration)
      else splitAddress lib (ens_Address command))"

definition validateInspectQuery :: "go_library \<Rightarrow> InspectMailboxQuery \<Rightarrow> (string \<times> string) result" where
  "validateInspectQuery lib query =
     (if insp_MailboxID query = uuid_Nil \<or> insp_DomainID query = uuid_Nil \<or>
         insp_DesiredRevision query \<le> 0 \<or> IsZero (insp_Deadline query)
      then Inl (stalwart_error ErrorClassPermanent ErrorCodeConfiguration)
      else splitAddress lib (insp_Address query))"

section \<open>Session and lookups\<close>

definition decode_session :: "json \<Rightarrow> (string \<times> (string \<rightharpoonup> json)) option" where
  "decode_session j = Option.bind (object_members j) (\<lambda>kvs.
     Option.bind (string_field ''apiUrl'' kvs) (\<lambda>apiURL.
     map_option (Pair apiURL) (map_field Some ''capabilities'' kvs)))"

definition api_path :: "'w stalwart_Adapter \<Rightarrow> string \<Rightarrow> string option" where
  \<comment> \<open>The path of an API URL on the adapter's own origin, without query and fragment.\<close>
  "api_path adapter raw =
     (let before = takeWhile (\<lambda>c. c \<noteq> CHR ''#'') raw; fragment = drop 1 (dropWhile (\<lambda>c. c \<noteq> CHR ''#'') raw) in
      case url_ParseRequestURI (lib_lower (sa_lib adapter)) (lib_authority (sa_lib adapter)) before of
        None \<Rightarrow> None
      | Some u \<Rightarrow>
          if url_Scheme u = '''' \<or> url_Scheme u \<noteq> url_Scheme (sa_endpoint adapter) \<or>
             url_Host u \<noteq> url_Host (sa_endpoint adapter) \<or> url_User u \<or> url_RawQuery u \<noteq> '''' \<or>
             fragment \<noteq> '''' \<or> \<not> HasPrefix (url_Path u) ''/''
          then None else Some (url_Path u))"

definition fetchSession :: "'w stalwart_Adapter \<Rightarrow> go_context \<Rightarrow> 'w \<Rightarrow> string result \<times> 'w" where
  "fetchSession adapter ctx w =
     on_result (requestJSON adapter ctx ''GET'' ''/jmap/session'' None False decode_session w)
       (\<lambda>e w. (Inl e, w))
       (\<lambda>response w.
         (if snd response ''urn:ietf:params:jmap:core'' = None then Inl protocolError
          else (case api_path adapter (fst response) of None \<Rightarrow> Inl protocolError | Some p \<Rightarrow> Inr p), w))"

record domainObject =
  do_ID :: string
  do_Name :: string

record accountObject =
  ao_ID :: string
  ao_Name :: string
  ao_DomainID :: string
  ao_Description :: string

definition decode_domainObject :: "json \<Rightarrow> domainObject option" where
  "decode_domainObject j = Option.bind (object_members j) (\<lambda>kvs.
     Option.bind (string_field ''id'' kvs) (\<lambda>i. Option.bind (string_field ''name'' kvs) (\<lambda>n.
     Some \<lparr>do_ID = i, do_Name = n\<rparr>)))"

definition decode_accountObject :: "json \<Rightarrow> accountObject option" where
  "decode_accountObject j = Option.bind (object_members j) (\<lambda>kvs.
     Option.bind (string_field ''id'' kvs) (\<lambda>i. Option.bind (string_field ''name'' kvs) (\<lambda>n.
     Option.bind (string_field ''domainId'' kvs) (\<lambda>d. Option.bind (string_field ''description'' kvs) (\<lambda>t.
     Some \<lparr>ao_ID = i, ao_Name = n, ao_DomainID = d, ao_Description = t\<rparr>)))))"

definition queryIDs ::
  "'w stalwart_Adapter \<Rightarrow> go_context \<Rightarrow> string \<Rightarrow> string \<Rightarrow> json \<Rightarrow> 'w \<Rightarrow> string list result \<times> 'w" where
  "queryIDs adapter ctx apiPath objectName criteria w =
     on_result (jmap_call adapter ctx apiPath (objectName @ ''/query'')
         (JObject [(''filter'', criteria), (''limit'', JNumber ''2''), (''calculateTotal'', JBool True)]) False
         (\<lambda>j. Option.bind (object_members j) (strings_field ''ids'')) w)
       (\<lambda>e w. (Inl e, w))
       (\<lambda>ids w. (if list_ex (\<lambda>i. TrimSpace i = '''') ids then Inl protocolError else Inr ids, w))"

definition getObjects ::
  "'w stalwart_Adapter \<Rightarrow> go_context \<Rightarrow> string \<Rightarrow> string \<Rightarrow> string list \<Rightarrow> string list \<Rightarrow> (json \<Rightarrow> 'a option) \<Rightarrow>
   'w \<Rightarrow> 'a list result \<times> 'w" where
  "getObjects adapter ctx apiPath objectName ids properties target w =
     on_result (jmap_call adapter ctx apiPath (objectName @ ''/get'')
         (JObject [(''ids'', JArray (map JString ids)), (''properties'', JArray (map JString properties))]) False
         (\<lambda>j. map_option (raw_field ''list'') (object_members j)) w)
       (\<lambda>e w. (Inl e, w))
       (\<lambda>list w. (case Option.bind list (decode_array target) of
           None \<Rightarrow> Inl protocolError | Some xs \<Rightarrow> Inr xs, w))"

definition findDomain ::
  "'w stalwart_Adapter \<Rightarrow> go_context \<Rightarrow> string \<Rightarrow> string \<Rightarrow> 'w \<Rightarrow> domainObject option result \<times> 'w" where
  "findDomain adapter ctx apiPath name w =
     on_result (queryIDs adapter ctx apiPath ''x:Domain'' (JObject [(''name'', JString name)]) w)
       (\<lambda>e w. (Inl e, w))
       (\<lambda>ids w.
         if ids = [] then (Inr None, w)
         else if length ids \<noteq> 1 then (Inl protocolError, w)
         else on_result (getObjects adapter ctx apiPath ''x:Domain'' ids [''id'', ''name''] decode_domainObject w)
           (\<lambda>e w. (Inl e, w))
           (\<lambda>domains w. (case domains of
               [d] \<Rightarrow> if do_ID d = '''' \<or> \<not> EqualFold (do_Name d) name then Inl protocolError else Inr (Some d)
             | _ \<Rightarrow> Inl protocolError, w)))"

definition findAccount ::
  "'w stalwart_Adapter \<Rightarrow> go_context \<Rightarrow> string \<Rightarrow> string \<Rightarrow> string \<Rightarrow> 'w \<Rightarrow> accountObject option result \<times> 'w" where
  "findAccount adapter ctx apiPath localPart domainID w =
     on_result (queryIDs adapter ctx apiPath ''x:Account''
         (JObject [(''name'', JString localPart), (''domainId'', JString domainID)]) w)
       (\<lambda>e w. (Inl e, w))
       (\<lambda>ids w.
         if ids = [] then (Inr None, w)
         else if length ids \<noteq> 1 then (Inl protocolError, w)
         else on_result (getObjects adapter ctx apiPath ''x:Account'' ids
             [''id'', ''name'', ''domainId'', ''description''] decode_accountObject w)
           (\<lambda>e w. (Inl e, w))
           (\<lambda>accounts w. (case accounts of
               [a] \<Rightarrow> if ao_ID a = '''' \<or> ao_Name a \<noteq> localPart \<or> ao_DomainID a \<noteq> domainID
                 then Inl protocolError else Inr (Some a)
             | _ \<Rightarrow> Inl protocolError, w)))"

section \<open>Changes\<close>

record setResult =
  sr_Created :: "string \<rightharpoonup> string"
  sr_Updated :: "string \<rightharpoonup> json"
  sr_NotCreated :: "string \<rightharpoonup> string"
  sr_NotUpdated :: "string \<rightharpoonup> string"

definition decode_setResult :: "json \<Rightarrow> setResult option" where
  "decode_setResult j = Option.bind (object_members j) (\<lambda>kvs.
     Option.bind (map_field decode_createdObject ''created'' kvs) (\<lambda>c.
     Option.bind (map_field Some ''updated'' kvs) (\<lambda>u.
     Option.bind (map_field decode_setError ''notCreated'' kvs) (\<lambda>nc.
     Option.bind (map_field decode_setError ''notUpdated'' kvs) (\<lambda>nu.
     Some \<lparr>sr_Created = c, sr_Updated = u, sr_NotCreated = nc, sr_NotUpdated = nu\<rparr>)))))"

definition credentials :: "'w stalwart_Adapter \<Rightarrow> EnsureMailboxCommand \<Rightarrow> json" where
  "credentials adapter command = JObject [(''0'', JObject [(''@type'', JString ''Password''),
     (''secret'', JString (mailboxPassword adapter (ens_MailboxID command) (ens_DesiredRevision command)))])]"

definition create_arguments :: "'w stalwart_Adapter \<Rightarrow> string \<Rightarrow> string \<Rightarrow> EnsureMailboxCommand \<Rightarrow> json" where
  "create_arguments adapter localPart domainID command = JObject [(''create'', JObject [(''mail-suite'', JObject
     [(''@type'', JString ''User''), (''name'', JString localPart), (''domainId'', JString domainID),
      (''description'', JString (formatMetadata (sa_lib adapter) command)),
      (''credentials'', credentials adapter command)])])]"

definition update_arguments :: "'w stalwart_Adapter \<Rightarrow> string \<Rightarrow> EnsureMailboxCommand \<Rightarrow> json" where
  "update_arguments adapter accountID command = JObject [(''update'', JObject [(accountID, JObject
     [(''description'', JString (formatMetadata (sa_lib adapter) command)),
      (''credentials'', credentials adapter command)])])]"

definition updateAccount ::
  "'w stalwart_Adapter \<Rightarrow> go_context \<Rightarrow> string \<Rightarrow> string \<Rightarrow> EnsureMailboxCommand \<Rightarrow> 'w \<Rightarrow> go_error option \<times> 'w" where
  "updateAccount adapter ctx apiPath accountID command w =
     on_result (jmap_call adapter ctx apiPath ''x:Account/set'' (update_arguments adapter accountID command) True
         decode_setResult w)
       (\<lambda>e w. (Some e, w))
       (\<lambda>result w.
         (if sr_Updated result accountID \<noteq> None then None
          else (case sr_NotUpdated result accountID of
              Some type \<Rightarrow> Some (classifySetError type) | None \<Rightarrow> Some protocolError), w))"

definition ensureExistingAccount ::
  "'w stalwart_Adapter \<Rightarrow> go_context \<Rightarrow> string \<Rightarrow> accountObject \<Rightarrow> EnsureMailboxCommand \<Rightarrow> 'w \<Rightarrow>
   go_error option \<times> 'w" where
  "ensureExistingAccount adapter ctx apiPath account command w =
     (case parseMetadata (sa_lib adapter) (ao_Description account) of
        None \<Rightarrow> (Some (stalwart_error ErrorClassPermanent ErrorCodeResourceConflict), w)
      | Some metadata \<Rightarrow>
          if mm_MailboxID metadata \<noteq> ens_MailboxID command \<or> mm_DomainID metadata \<noteq> ens_DomainID command
          then (Some (stalwart_error ErrorClassPermanent ErrorCodeResourceConflict), w)
          else if ens_DesiredRevision command < mm_Revision metadata then (None, w)
          else if mm_Revision metadata = ens_DesiredRevision command \<and>
             mm_ConfigurationHash metadata \<noteq> ens_ConfigurationHash command
          then (Some (stalwart_error ErrorClassPermanent ErrorCodeResourceConflict), w)
          else if mm_Revision metadata = ens_DesiredRevision command then (None, w)
          else updateAccount adapter ctx apiPath (ao_ID account) command w)"

definition createAccount ::
  "'w stalwart_Adapter \<Rightarrow> go_context \<Rightarrow> string \<Rightarrow> string \<Rightarrow> string \<Rightarrow> EnsureMailboxCommand \<Rightarrow> 'w \<Rightarrow>
   go_error option \<times> 'w" where
  "createAccount adapter ctx apiPath localPart domainID command w =
     on_result (jmap_call adapter ctx apiPath ''x:Account/set''
         (create_arguments adapter localPart domainID command) True decode_setResult w)
       (\<lambda>e w. (Some e, w))
       (\<lambda>result w.
         if sr_Created result ''mail-suite'' \<notin> {None, Some ''''} then (None, w)
         else (case sr_NotCreated result ''mail-suite'' of
             Some type \<Rightarrow>
               on_result (findAccount adapter ctx apiPath localPart domainID w)
                 (\<lambda>e w. (Some e, w))
                 (\<lambda>found w. case found of
                    Some account \<Rightarrow> ensureExistingAccount adapter ctx apiPath account command w
                  | None \<Rightarrow> (Some (classifySetError type), w))
           | None \<Rightarrow> (Some protocolError, w)))"

section \<open>The adapter's operations\<close>

definition stalwart_Check :: "'w stalwart_Adapter \<Rightarrow> go_context \<Rightarrow> 'w \<Rightarrow> go_error option \<times> 'w" where
  "stalwart_Check adapter ctx w =
     on_result (fetchSession adapter ctx w) (\<lambda>e w. (Some e, w)) (\<lambda>apiPath w.
     on_result (queryIDs adapter ctx apiPath ''x:Domain'' (JObject []) w)
       (\<lambda>e w. (Some (if snd (ClassifyError (Some e)) = ErrorCodeProtocolInvalid then protocolError else e), w))
       (\<lambda>_ w. (None, w)))"

definition stalwart_EnsureMailbox ::
  "'w stalwart_Adapter \<Rightarrow> go_context \<Rightarrow> EnsureMailboxCommand \<Rightarrow> 'w \<Rightarrow> go_error option \<times> 'w" where
  "stalwart_EnsureMailbox adapter ctx command w = (case validateEnsureCommand (sa_lib adapter) command of
     Inl e \<Rightarrow> (Some e, w)
   | Inr (localPart, domainName) \<Rightarrow>
      let ctx = with_deadline ctx (ens_Deadline command) in
      on_result (fetchSession adapter ctx w) (\<lambda>e w. (Some e, w)) (\<lambda>apiPath w.
      on_result (findDomain adapter ctx apiPath domainName w) (\<lambda>e w. (Some e, w)) (\<lambda>domain w.
      case domain of
        None \<Rightarrow> (Some (stalwart_error ErrorClassPermanent ErrorCodeDomainMissing), w)
      | Some d \<Rightarrow>
          on_result (findAccount adapter ctx apiPath localPart (do_ID d) w) (\<lambda>e w. (Some e, w)) (\<lambda>found w.
          case found of
            Some account \<Rightarrow> ensureExistingAccount adapter ctx apiPath account command w
          | None \<Rightarrow> createAccount adapter ctx apiPath localPart (do_ID d) command w))))"

definition absentObservation :: "uuid \<Rightarrow> instant \<Rightarrow> ObservedMailbox" where
  "absentObservation mailboxID inspectedAt = \<lparr>obs_MailboxID = mailboxID, obs_Status = MailboxStatusAbsent,
     obs_Revision = 0, obs_ConfigurationHash = replicate 32 (CHR 0x00), obs_InspectedAt = inspectedAt\<rparr>"

definition observe_absent ::
  "'w stalwart_Adapter \<Rightarrow> InspectMailboxQuery \<Rightarrow> 'w \<Rightarrow> ObservedMailbox result \<times> 'w" where
  "observe_absent adapter query w =
     from_world (sa_now adapter w) (\<lambda>now w. (Inr (absentObservation (insp_MailboxID query) now), w))"

definition observe_account ::
  "'w stalwart_Adapter \<Rightarrow> InspectMailboxQuery \<Rightarrow> accountObject \<Rightarrow> 'w \<Rightarrow> ObservedMailbox result \<times> 'w" where
  "observe_account adapter query account w = (case parseMetadata (sa_lib adapter) (ao_Description account) of
     None \<Rightarrow> (Inl (stalwart_error ErrorClassPermanent ErrorCodeResourceConflict), w)
   | Some metadata \<Rightarrow>
       if mm_MailboxID metadata \<noteq> insp_MailboxID query \<or> mm_DomainID metadata \<noteq> insp_DomainID query
       then (Inl (stalwart_error ErrorClassPermanent ErrorCodeResourceConflict), w)
       else from_world (sa_now adapter w) (\<lambda>now w.
         (Inr \<lparr>obs_MailboxID = insp_MailboxID query, obs_Status = MailboxStatusActive,
            obs_Revision = mm_Revision metadata, obs_ConfigurationHash = mm_ConfigurationHash metadata,
            obs_InspectedAt = now\<rparr>, w)))"

definition stalwart_InspectMailbox ::
  "'w stalwart_Adapter \<Rightarrow> go_context \<Rightarrow> InspectMailboxQuery \<Rightarrow> 'w \<Rightarrow> ObservedMailbox result \<times> 'w" where
  "stalwart_InspectMailbox adapter ctx query w = (case validateInspectQuery (sa_lib adapter) query of
     Inl e \<Rightarrow> (Inl e, w)
   | Inr (localPart, domainName) \<Rightarrow>
      let ctx = with_deadline ctx (insp_Deadline query) in
      on_result (fetchSession adapter ctx w) (\<lambda>e w. (Inl e, w)) (\<lambda>apiPath w.
      on_result (findDomain adapter ctx apiPath domainName w) (\<lambda>e w. (Inl e, w)) (\<lambda>domain w.
      case domain of
        None \<Rightarrow> observe_absent adapter query w
      | Some d \<Rightarrow>
          on_result (findAccount adapter ctx apiPath localPart (do_ID d) w) (\<lambda>e w. (Inl e, w)) (\<lambda>found w.
          case found of
            None \<Rightarrow> observe_absent adapter query w
          | Some account \<Rightarrow> observe_account adapter query account w))))"

definition stalwart_adapter :: "'w stalwart_Adapter \<Rightarrow> 'w Adapter" where
  "stalwart_adapter adapter =
     \<lparr>EnsureMailbox = stalwart_EnsureMailbox adapter, InspectMailbox = stalwart_InspectMailbox adapter\<rparr>"

end
