(* ===== verification/Stalwart_Read.thy ===== *)
theory Stalwart_Read
  imports Stalwart_Adapter
begin

text \<open>
  Reading mail through Stalwart: the contract of \<^verbatim>\<open>internal/mailcore/read.go\<close>, the sealed
  references and cursors of \<^verbatim>\<open>stalwart/read_tokens.go\<close> and the operations
  \<^verbatim>\<open>ListMessages\<close> and \<^verbatim>\<open>GetMessage\<close> of \<^verbatim>\<open>stalwart/read_adapter.go\<close>. JMAP identifiers
  leave the adapter only inside sealed tokens.
\<close>

section \<open>The read contract\<close>

record ReadScope =
  rs_MailboxID :: uuid
  rs_DomainID :: uuid
  rs_Address :: string
  rs_Revision :: int
  rs_ConfigurationHash :: bytes
  rs_Deadline :: instant

record MailAddress =
  ma_Name :: string
  ma_Email :: string

record MessageSummary =
  ms_ID :: string
  ms_ReceivedAt :: instant
  ms_From :: "MailAddress list"
  ms_Subject :: string
  ms_Preview :: string
  ms_Size :: int
  ms_HasAttachment :: bool

record ListMessagesQuery =
  lm_Scope :: ReadScope
  lm_Limit :: int
  lm_Cursor :: string

record MessagePage =
  mp_Messages :: "MessageSummary list"
  mp_NextCursor :: string

record MessageAttachment =
  mat_Name :: string
  mat_MediaType :: string
  mat_Size :: int
  mat_Reference :: string

record MessageDetail =
  md_Summary :: MessageSummary
  md_To :: "MailAddress list"
  md_Cc :: "MailAddress list"
  md_Text :: string
  md_TextTruncated :: bool
  md_HasHTML :: bool
  md_Attachments :: "MessageAttachment list"

section \<open>Constants and error codes\<close>

definition ErrorCodeMailboxNotFound :: string where
  "ErrorCodeMailboxNotFound = ''MAIL_CORE_MAILBOX_NOT_FOUND''"

definition ErrorCodeMessageNotFound :: string where
  "ErrorCodeMessageNotFound = ''MAIL_CORE_MESSAGE_NOT_FOUND''"

definition ErrorCodeCursorInvalid :: string where
  "ErrorCodeCursorInvalid = ''MAIL_CORE_CURSOR_INVALID''"

definition ErrorCodeReferenceInvalid :: string where
  "ErrorCodeReferenceInvalid = ''MAIL_CORE_REFERENCE_INVALID''"

definition cursorLifetime :: duration where
  "cursorLifetime = 600000000000"

definition referenceLifetime :: duration where
  "referenceLifetime = 900000000000"

definition maximumTokenBytes :: nat where
  "maximumTokenBytes = 4096"

definition mailCapability :: string where
  "mailCapability = ''urn:ietf:params:jmap:mail''"

definition coreCapability :: string where
  "coreCapability = ''urn:ietf:params:jmap:core''"

definition maximumPageSize :: int where
  "maximumPageSize = 50"

definition maximumPagePosition :: int where
  "maximumPagePosition = 10000"

definition maximumTextBytes :: nat where
  "maximumTextBytes = 65536"

definition maximumAttachments :: nat where
  "maximumAttachments = 100"

section \<open>Decoding numbers and flags\<close>

fun decode_int :: "int \<Rightarrow> json \<Rightarrow> int option" where
  "decode_int cur (JNumber s) = ParseInt s"
| "decode_int cur JNull = Some cur"
| "decode_int cur _ = None"

fun decode_bool :: "bool \<Rightarrow> json \<Rightarrow> bool option" where
  "decode_bool cur (JBool b) = Some b"
| "decode_bool cur JNull = Some cur"
| "decode_bool cur _ = None"

fun decode_byte :: "json \<Rightarrow> char option" where
  "decode_byte (JNumber s) =
     (if s \<noteq> '''' \<and> list_all is_digit s \<and> digits_value s \<le> 255 then Some (char_of (digits_value s)) else None)"
| "decode_byte JNull = Some (CHR 0x00)"
| "decode_byte _ = None"

fun decode_hash :: "bytes \<Rightarrow> json \<Rightarrow> bytes option" where
  \<comment> \<open>A \<^verbatim>\<open>[32]byte\<close>: further elements are skipped, missing ones are zero.\<close>
  "decode_hash cur (JArray vs) = map_option (\<lambda>bs. bs @ replicate (32 - length bs) (CHR 0x00))
     (all_values (map decode_byte (take 32 vs)))"
| "decode_hash cur JNull = Some cur"
| "decode_hash cur _ = None"

fun decode_uuid :: "go_library \<Rightarrow> uuid \<Rightarrow> json \<Rightarrow> uuid option" where
  "decode_uuid lib cur (JString s) = lib_uuid_Parse lib s"
| "decode_uuid lib cur JNull = Some cur"
| "decode_uuid lib cur _ = None"

definition int_field :: "string \<Rightarrow> (string \<times> json) list \<Rightarrow> int option" where
  "int_field name kvs = decode_values decode_int 0 (field_values name kvs)"

definition bool_field :: "string \<Rightarrow> (string \<times> json) list \<Rightarrow> bool option" where
  "bool_field name kvs = decode_values decode_bool False (field_values name kvs)"

definition array_field :: "(json \<Rightarrow> 'a option) \<Rightarrow> string \<Rightarrow> (string \<times> json) list \<Rightarrow> 'a list option" where
  "array_field d name kvs = decode_values (\<lambda>_. decode_array d) [] (field_values name kvs)"

section \<open>Read tokens\<close>

record readToken =
  rt_Version :: int
  rt_Purpose :: string
  rt_MailboxID :: uuid
  rt_DomainID :: uuid
  rt_Revision :: int
  rt_ConfigurationHash :: bytes
  rt_ExpiresAt :: int
  rt_MessageID :: string
  rt_BlobID :: string
  rt_QueryState :: string
  rt_Position :: int

definition encode_token :: "go_library \<Rightarrow> readToken \<Rightarrow> json" where
  "encode_token lib t = JObject (
     [(''v'', JNumber (dec_int (rt_Version t))), (''p'', JString (rt_Purpose t)),
      (''m'', JString (lib_uuid_String lib (rt_MailboxID t))), (''d'', JString (lib_uuid_String lib (rt_DomainID t))),
      (''r'', JNumber (dec_int (rt_Revision t))),
      (''h'', JArray (map (\<lambda>c. JNumber (dec_nat (byte_val c))) (rt_ConfigurationHash t))),
      (''e'', JNumber (dec_int (rt_ExpiresAt t)))] @
     (if rt_MessageID t = '''' then [] else [(''i'', JString (rt_MessageID t))]) @
     (if rt_BlobID t = '''' then [] else [(''b'', JString (rt_BlobID t))]) @
     (if rt_QueryState t = '''' then [] else [(''q'', JString (rt_QueryState t))]) @
     (if rt_Position t = 0 then [] else [(''n'', JNumber (dec_int (rt_Position t)))]))"

definition decode_token :: "go_library \<Rightarrow> json \<Rightarrow> readToken option" where
  "decode_token lib j = Option.bind (object_members j) (\<lambda>kvs.
     Option.bind (int_field ''v'' kvs) (\<lambda>v. Option.bind (string_field ''p'' kvs) (\<lambda>p.
     Option.bind (decode_values (decode_uuid lib) uuid_Nil (field_values ''m'' kvs)) (\<lambda>m.
     Option.bind (decode_values (decode_uuid lib) uuid_Nil (field_values ''d'' kvs)) (\<lambda>d.
     Option.bind (int_field ''r'' kvs) (\<lambda>r.
     Option.bind (decode_values decode_hash (replicate 32 (CHR 0x00)) (field_values ''h'' kvs)) (\<lambda>h.
     Option.bind (int_field ''e'' kvs) (\<lambda>e. Option.bind (string_field ''i'' kvs) (\<lambda>i.
     Option.bind (string_field ''b'' kvs) (\<lambda>b. Option.bind (string_field ''q'' kvs) (\<lambda>q.
     Option.bind (int_field ''n'' kvs) (\<lambda>n.
     Some \<lparr>rt_Version = v, rt_Purpose = p, rt_MailboxID = m, rt_DomainID = d, rt_Revision = r,
       rt_ConfigurationHash = h, rt_ExpiresAt = e, rt_MessageID = i, rt_BlobID = b, rt_QueryState = q,
       rt_Position = n\<rparr>))))))))))))"

definition Unix :: "instant \<Rightarrow> int" where
  \<comment> \<open>Whole seconds since 1970; Go's zero time is the first of January of the year 1.\<close>
  "Unix t = t div 1000000000 - 62135596800"

definition newReadToken ::
  "'w stalwart_Adapter \<Rightarrow> ReadScope \<Rightarrow> string \<Rightarrow> duration \<Rightarrow> 'w \<Rightarrow> readToken \<times> 'w" where
  "newReadToken adapter scope purpose lifetime w = from_world (sa_now adapter w) (\<lambda>now w.
     (\<lparr>rt_Version = 1, rt_Purpose = purpose, rt_MailboxID = rs_MailboxID scope, rt_DomainID = rs_DomainID scope,
       rt_Revision = rs_Revision scope, rt_ConfigurationHash = rs_ConfigurationHash scope,
       rt_ExpiresAt = Unix (now + lifetime), rt_MessageID = '''', rt_BlobID = '''', rt_QueryState = '''',
       rt_Position = 0\<rparr>, w))"

definition tokenCipher :: "'w stalwart_Adapter \<Rightarrow> bytes" where
  \<comment> \<open>The key of the cipher; 32 bytes always give one.\<close>
  "tokenCipher adapter = hmac_sha256 (sa_mailboxKey adapter) ''mail-suite:mail-read-token:v1''"

definition sealReadToken :: "'w stalwart_Adapter \<Rightarrow> readToken \<Rightarrow> 'w \<Rightarrow> string result \<times> 'w" where
  "sealReadToken adapter value w =
     (let plaintext = lib_marshal (sa_lib adapter) (encode_token (sa_lib adapter) value) in
      from_world (ReadFull (sa_random adapter) 12 w) (\<lambda>nonce w.
        (case nonce of
           None \<Rightarrow> Inl protocolError
         | Some n \<Rightarrow>
             let sealed = n @ gcm_Seal (tokenCipher adapter) n plaintext '''' in
             if maximumTokenBytes < length sealed then Inl protocolError
             else Inr (RawURL_EncodeToString sealed), w)))"

definition tokenError :: "string \<Rightarrow> go_error" where
  "tokenError purpose =
     (if purpose = ''cursor'' then stalwart_error ErrorClassPermanent ErrorCodeCursorInvalid
      else stalwart_error ErrorClassPermanent ErrorCodeReferenceInvalid)"

definition token_matches :: "readToken \<Rightarrow> ReadScope \<Rightarrow> string \<Rightarrow> bool" where
  "token_matches t scope purpose \<longleftrightarrow> rt_Version t = 1 \<and> rt_Purpose t = purpose \<and>
     rt_MailboxID t = rs_MailboxID scope \<and> rt_DomainID t = rs_DomainID scope \<and>
     rt_Revision t = rs_Revision scope \<and> rt_ConfigurationHash t = rs_ConfigurationHash scope"

definition openReadToken ::
  "'w stalwart_Adapter \<Rightarrow> string \<Rightarrow> ReadScope \<Rightarrow> string \<Rightarrow> 'w \<Rightarrow> readToken result \<times> 'w" where
  "openReadToken adapter raw scope purpose w =
     (let invalid = Inl (tokenError purpose) in
      if raw = '''' \<or> (maximumTokenBytes * 8 + 5) div 6 < length raw then (invalid, w)
      else (case RawURL_DecodeString raw of
          None \<Rightarrow> (invalid, w)
        | Some encoded \<Rightarrow>
            if maximumTokenBytes < length encoded \<or> length encoded < 12 + gcm_Overhead then (invalid, w)
            else (case gcm_Open (tokenCipher adapter) (take 12 encoded) (drop 12 encoded) '''' of
                None \<Rightarrow> (invalid, w)
              | Some plaintext \<Rightarrow>
                  (case Option.bind (lib_json (sa_lib adapter) plaintext) (decode_token (sa_lib adapter)) of
                     None \<Rightarrow> (invalid, w)
                   | Some t \<Rightarrow>
                       if \<not> token_matches t scope purpose then (invalid, w)
                       else from_world (sa_now adapter w) (\<lambda>now w.
                         (if rt_ExpiresAt t \<le> Unix now then invalid else Inr t, w))))))"

section \<open>Mailbox sessions\<close>

record mailboxSession =
  mse_APIPath :: string
  mse_AccountID :: string
  mse_Username :: string
  mse_Password :: string

definition validateReadScope :: "go_library \<Rightarrow> ReadScope \<Rightarrow> go_error option" where
  "validateReadScope lib scope =
     (if rs_MailboxID scope = uuid_Nil \<or> rs_DomainID scope = uuid_Nil \<or> rs_Revision scope \<le> 0 \<or>
         IsZero (rs_Deadline scope)
      then Some (stalwart_error ErrorClassPermanent ErrorCodeConfiguration)
      else (case splitAddress lib (rs_Address scope) of Inl e \<Rightarrow> Some e | Inr _ \<Rightarrow> None))"

definition decode_mailbox_session ::
  "json \<Rightarrow> (string \<times> (string \<rightharpoonup> json) \<times> (string \<rightharpoonup> string)) option" where
  "decode_mailbox_session j = Option.bind (object_members j) (\<lambda>kvs.
     Option.bind (string_field ''apiUrl'' kvs) (\<lambda>u. Option.bind (map_field Some ''capabilities'' kvs) (\<lambda>c.
     Option.bind (map_field (decode_string '''') ''primaryAccounts'' kvs) (\<lambda>p. Some (u, c, p)))))"

definition read_mailbox_session ::
  "'w stalwart_Adapter \<Rightarrow> ReadScope \<Rightarrow> string \<Rightarrow> string \<times> (string \<rightharpoonup> json) \<times> (string \<rightharpoonup> string) \<Rightarrow>
   mailboxSession result" where
  "read_mailbox_session adapter scope password response =
     (let (apiURL, capabilities, primaryAccounts) = response in
      if capabilities coreCapability = None then Inl protocolError
      else if capabilities mailCapability = None \<or> primaryAccounts mailCapability \<in> {None, Some ''''}
      then Inl protocolError
      else (case api_path adapter apiURL of
          None \<Rightarrow> Inl protocolError
        | Some apiPath \<Rightarrow> Inr \<lparr>mse_APIPath = apiPath, mse_AccountID = the (primaryAccounts mailCapability),
            mse_Username = rs_Address scope, mse_Password = password\<rparr>))"

definition metadata_current :: "go_library \<Rightarrow> ReadScope \<Rightarrow> accountObject \<Rightarrow> bool" where
  "metadata_current lib scope account \<longleftrightarrow> (case parseMetadata lib (ao_Description account) of
     None \<Rightarrow> False
   | Some m \<Rightarrow> mm_MailboxID m = rs_MailboxID scope \<and> mm_DomainID m = rs_DomainID scope \<and>
       mm_Revision m = rs_Revision scope \<and> mm_ConfigurationHash m = rs_ConfigurationHash scope)"

definition openMailboxSession ::
  "'w stalwart_Adapter \<Rightarrow> go_context \<Rightarrow> ReadScope \<Rightarrow> 'w \<Rightarrow> mailboxSession result \<times> 'w" where
  "openMailboxSession adapter ctx scope w =
     (let (localPart, domainName) = (case splitAddress (sa_lib adapter) (rs_Address scope) of
          Inl _ \<Rightarrow> ('''', '''') | Inr parts \<Rightarrow> parts) in
      on_result (fetchSession adapter ctx w) (\<lambda>e w. (Inl e, w)) (\<lambda>apiPath w.
      on_result (findDomain adapter ctx apiPath domainName w) (\<lambda>e w. (Inl e, w)) (\<lambda>domain w.
      case domain of
        None \<Rightarrow> (Inl (stalwart_error ErrorClassPermanent ErrorCodeMailboxNotFound), w)
      | Some d \<Rightarrow>
          on_result (findAccount adapter ctx apiPath localPart (do_ID d) w) (\<lambda>e w. (Inl e, w)) (\<lambda>found w.
          case found of
            None \<Rightarrow> (Inl (stalwart_error ErrorClassPermanent ErrorCodeMailboxNotFound), w)
          | Some account \<Rightarrow>
              if \<not> metadata_current (sa_lib adapter) scope account
              then (Inl (stalwart_error ErrorClassPermanent ErrorCodeResourceConflict), w)
              else let password = mailboxPassword adapter (rs_MailboxID scope) (rs_Revision scope) in
                on_result (requestJSONAs adapter ctx ''GET'' ''/jmap/session'' None False (rs_Address scope) password
                    decode_mailbox_session w)
                  (\<lambda>e w. (Inl e, w))
                  (\<lambda>response w. (read_mailbox_session adapter scope password response, w))))))"

definition callMailbox ::
  "'w stalwart_Adapter \<Rightarrow> go_context \<Rightarrow> mailboxSession \<Rightarrow> string \<Rightarrow> json \<Rightarrow> (json \<Rightarrow> 'a option) \<Rightarrow> 'w \<Rightarrow>
   'a result \<times> 'w" where
  "callMailbox adapter ctx session method arguments target w =
     callAs adapter ctx (mse_APIPath session) method arguments False (mse_Username session) (mse_Password session)
       [coreCapability, mailCapability] target w"

section \<open>Messages\<close>

record emailBodyPart =
  ebp_PartID :: string
  ebp_BlobID :: string
  ebp_Name :: string
  ebp_Type :: string
  ebp_Size :: int

record bodyValue =
  bv_Value :: string
  bv_IsTruncated :: bool

record emailObject =
  eo_ID :: string
  eo_ReceivedAt :: string
  eo_From :: "MailAddress list"
  eo_To :: "MailAddress list"
  eo_Cc :: "MailAddress list"
  eo_Subject :: string
  eo_Preview :: string
  eo_Size :: int
  eo_HasAttachment :: bool
  eo_TextBody :: "emailBodyPart list"
  eo_HTMLBody :: "emailBodyPart list"
  eo_BodyValues :: "string \<rightharpoonup> bodyValue"
  eo_Attachments :: "emailBodyPart list"

definition decode_address :: "json \<Rightarrow> MailAddress option" where
  "decode_address j = Option.bind (object_members j) (\<lambda>kvs.
     Option.bind (string_field ''Name'' kvs) (\<lambda>n. Option.bind (string_field ''Email'' kvs) (\<lambda>e.
     Some \<lparr>ma_Name = n, ma_Email = e\<rparr>)))"

definition decode_part :: "json \<Rightarrow> emailBodyPart option" where
  "decode_part j = Option.bind (object_members j) (\<lambda>kvs.
     Option.bind (string_field ''partId'' kvs) (\<lambda>p. Option.bind (string_field ''blobId'' kvs) (\<lambda>b.
     Option.bind (string_field ''name'' kvs) (\<lambda>n. Option.bind (string_field ''type'' kvs) (\<lambda>t.
     Option.bind (int_field ''size'' kvs) (\<lambda>s.
     Some \<lparr>ebp_PartID = p, ebp_BlobID = b, ebp_Name = n, ebp_Type = t, ebp_Size = s\<rparr>))))))"

definition decode_body_value :: "json \<Rightarrow> bodyValue option" where
  "decode_body_value j = Option.bind (object_members j) (\<lambda>kvs.
     Option.bind (string_field ''value'' kvs) (\<lambda>v. Option.bind (bool_field ''isTruncated'' kvs) (\<lambda>t.
     Some \<lparr>bv_Value = v, bv_IsTruncated = t\<rparr>)))"

definition decode_email :: "json \<Rightarrow> emailObject option" where
  "decode_email j = Option.bind (object_members j) (\<lambda>kvs.
     Option.bind (string_field ''id'' kvs) (\<lambda>i. Option.bind (string_field ''receivedAt'' kvs) (\<lambda>r.
     Option.bind (array_field decode_address ''from'' kvs) (\<lambda>f.
     Option.bind (array_field decode_address ''to'' kvs) (\<lambda>t.
     Option.bind (array_field decode_address ''cc'' kvs) (\<lambda>c.
     Option.bind (string_field ''subject'' kvs) (\<lambda>s. Option.bind (string_field ''preview'' kvs) (\<lambda>p.
     Option.bind (int_field ''size'' kvs) (\<lambda>z. Option.bind (bool_field ''hasAttachment'' kvs) (\<lambda>h.
     Option.bind (array_field decode_part ''textBody'' kvs) (\<lambda>tb.
     Option.bind (array_field decode_part ''htmlBody'' kvs) (\<lambda>hb.
     Option.bind (map_field decode_body_value ''bodyValues'' kvs) (\<lambda>bv.
     Option.bind (array_field decode_part ''attachments'' kvs) (\<lambda>a.
     Some \<lparr>eo_ID = i, eo_ReceivedAt = r, eo_From = f, eo_To = t, eo_Cc = c, eo_Subject = s, eo_Preview = p,
       eo_Size = z, eo_HasAttachment = h, eo_TextBody = tb, eo_HTMLBody = hb, eo_BodyValues = bv,
       eo_Attachments = a\<rparr>))))))))))))))"

definition summaryProperties :: "string list" where
  "summaryProperties = [''id'', ''receivedAt'', ''from'', ''subject'', ''preview'', ''size'', ''hasAttachment'']"

definition get_arguments :: "mailboxSession \<Rightarrow> string list \<Rightarrow> string list \<Rightarrow> bool \<Rightarrow> json" where
  "get_arguments session ids properties detail = JObject (
     [(''accountId'', JString (mse_AccountID session)), (''ids'', JArray (map JString ids)),
      (''properties'', JArray (map JString properties))] @
     (if detail then
        [(''bodyProperties'', JArray (map JString [''partId'', ''blobId'', ''name'', ''type'', ''size''])),
         (''fetchTextBodyValues'', JBool True), (''fetchHTMLBodyValues'', JBool False),
         (''maxBodyValueBytes'', JNumber (dec_nat maximumTextBytes))] else []))"

definition getEmails ::
  "'w stalwart_Adapter \<Rightarrow> go_context \<Rightarrow> mailboxSession \<Rightarrow> string list \<Rightarrow> string list \<Rightarrow> bool \<Rightarrow> 'w \<Rightarrow>
   emailObject list result \<times> 'w" where
  "getEmails adapter ctx session ids properties detail w =
     on_result (callMailbox adapter ctx session ''Email/get'' (get_arguments session ids properties detail)
         (\<lambda>j. Option.bind (object_members j) (\<lambda>kvs. Option.bind (array_field decode_email ''list'' kvs) (\<lambda>l.
            map_option (Pair l) (strings_field ''notFound'' kvs)))) w)
       (\<lambda>e w. (Inl e, w))
       (\<lambda>(list, notFound) w.
         (if length list + length notFound \<noteq> length ids then Inl protocolError
          else if notFound \<noteq> [] \<and> (length ids \<noteq> 1 \<or> hd notFound \<noteq> hd ids) then Inl protocolError
          else Inr list, w))"

definition messageSummary ::
  "'w stalwart_Adapter \<Rightarrow> ReadScope \<Rightarrow> emailObject \<Rightarrow> 'w \<Rightarrow> MessageSummary result \<times> 'w" where
  "messageSummary adapter scope email w =
     (case lib_RFC3339 (sa_lib adapter) (eo_ReceivedAt email) of
        None \<Rightarrow> (Inl protocolError, w)
      | Some receivedAt \<Rightarrow>
          if eo_ID email = '''' \<or> eo_Size email < 0 then (Inl protocolError, w)
          else from_world (newReadToken adapter scope ''message'' referenceLifetime w) (\<lambda>token w.
            on_result (sealReadToken adapter (token\<lparr>rt_MessageID := eo_ID email\<rparr>) w) (\<lambda>e w. (Inl e, w)) (\<lambda>opaqueID w.
              (Inr \<lparr>ms_ID = opaqueID, ms_ReceivedAt = receivedAt, ms_From = eo_From email,
                 ms_Subject = eo_Subject email, ms_Preview = eo_Preview email, ms_Size = eo_Size email,
                 ms_HasAttachment = eo_HasAttachment email\<rparr>, w))))"

section \<open>Listing\<close>

fun index_emails :: "(string \<rightharpoonup> emailObject) \<Rightarrow> emailObject list \<Rightarrow> (string \<rightharpoonup> emailObject) option" where
  "index_emails byID [] = Some byID"
| "index_emails byID (email # emails) =
     (if eo_ID email = '''' \<or> byID (eo_ID email) \<noteq> None then None
      else index_emails (byID(eo_ID email \<mapsto> email)) emails)"

fun summarize_page ::
  "'w stalwart_Adapter \<Rightarrow> ReadScope \<Rightarrow> (string \<rightharpoonup> emailObject) \<Rightarrow> string list \<Rightarrow> 'w \<Rightarrow>
   MessageSummary list result \<times> 'w" where
  "summarize_page adapter scope byID [] w = (Inr [], w)"
| "summarize_page adapter scope byID (i # ids) w = (case byID i of
     None \<Rightarrow> (Inl (tokenError ''cursor''), w)
   | Some email \<Rightarrow>
       on_result (messageSummary adapter scope email w) (\<lambda>e w. (Inl e, w)) (\<lambda>summary w.
       on_result (summarize_page adapter scope byID ids w) (\<lambda>e w. (Inl e, w)) (\<lambda>summaries w.
         (Inr (summary # summaries), w))))"

definition list_page ::
  "'w stalwart_Adapter \<Rightarrow> go_context \<Rightarrow> ReadScope \<Rightarrow> mailboxSession \<Rightarrow> string list \<Rightarrow> 'w \<Rightarrow>
   MessageSummary list result \<times> 'w" where
  "list_page adapter ctx scope session ids w =
     (if ids = [] then (Inr [], w)
      else on_result (getEmails adapter ctx session ids summaryProperties False w) (\<lambda>e w. (Inl e, w)) (\<lambda>emails w.
        case index_emails Map.empty emails of
          None \<Rightarrow> (Inl protocolError, w)
        | Some byID \<Rightarrow> summarize_page adapter scope byID ids w))"

definition page_start ::
  "'w stalwart_Adapter \<Rightarrow> ListMessagesQuery \<Rightarrow> 'w \<Rightarrow> (int \<times> string) result \<times> 'w" where
  \<comment> \<open>The position and the query state a cursor carries.\<close>
  "page_start adapter query w =
     (if lm_Cursor query = '''' then (Inr (0, ''''), w)
      else from_world (openReadToken adapter (lm_Cursor query) (lm_Scope query) ''cursor'' w) (\<lambda>r w.
        (case r of
           Inl _ \<Rightarrow> Inl (tokenError ''cursor'')
         | Inr cursor \<Rightarrow>
             if rt_Position cursor \<le> 0 \<or> maximumPagePosition < rt_Position cursor \<or> rt_QueryState cursor = ''''
             then Inl (tokenError ''cursor'')
             else Inr (rt_Position cursor, rt_QueryState cursor), w)))"

definition query_arguments :: "mailboxSession \<Rightarrow> int \<Rightarrow> int \<Rightarrow> json" where
  "query_arguments session position limit = JObject
     [(''accountId'', JString (mse_AccountID session)), (''filter'', JObject []),
      (''sort'', JArray [JObject [(''property'', JString ''receivedAt''), (''isAscending'', JBool False)]]),
      (''position'', JNumber (dec_int position)), (''limit'', JNumber (dec_int (limit + 1)))]"

definition decode_query_result :: "json \<Rightarrow> (string list \<times> string \<times> int) option" where
  "decode_query_result j = Option.bind (object_members j) (\<lambda>kvs.
     Option.bind (strings_field ''ids'' kvs) (\<lambda>ids. Option.bind (string_field ''queryState'' kvs) (\<lambda>s.
     Option.bind (int_field ''position'' kvs) (\<lambda>p. Some (ids, s, p)))))"

definition finish_page ::
  "'w stalwart_Adapter \<Rightarrow> ReadScope \<Rightarrow> string \<Rightarrow> int \<Rightarrow> bool \<Rightarrow> MessageSummary list \<Rightarrow> 'w \<Rightarrow>
   MessagePage result \<times> 'w" where
  "finish_page adapter scope queryState next hasMore messages w =
     (if \<not> hasMore then (Inr \<lparr>mp_Messages = messages, mp_NextCursor = ''''\<rparr>, w)
      else from_world (newReadToken adapter scope ''cursor'' cursorLifetime w) (\<lambda>cursor w.
        on_result (sealReadToken adapter (cursor\<lparr>rt_QueryState := queryState, rt_Position := next\<rparr>) w)
          (\<lambda>e w. (Inl e, w)) (\<lambda>sealed w. (Inr \<lparr>mp_Messages = messages, mp_NextCursor = sealed\<rparr>, w))))"

definition read_page ::
  "'w stalwart_Adapter \<Rightarrow> go_context \<Rightarrow> ListMessagesQuery \<Rightarrow> int \<Rightarrow> string \<Rightarrow> mailboxSession \<Rightarrow>
   string list \<times> string \<times> int \<Rightarrow> 'w \<Rightarrow> MessagePage result \<times> 'w" where
  \<comment> \<open>The part of \<^verbatim>\<open>ListMessages\<close> after the query.\<close>
  "read_page adapter ctx query position previousState session result w =
     (let (ids, queryState, start) = result in
      if queryState = '''' \<or> start \<noteq> position \<or> lm_Limit query + 1 < int (length ids)
      then (Inl protocolError, w)
      else if previousState \<noteq> '''' \<and> previousState \<noteq> queryState then (Inl (tokenError ''cursor''), w)
      else
       let hasMore = lm_Limit query < int (length ids);
           ids = (if hasMore then take (nat (lm_Limit query)) ids else ids) in
       on_result (list_page adapter ctx (lm_Scope query) session ids w) (\<lambda>e w. (Inl e, w)) (\<lambda>messages w.
       finish_page adapter (lm_Scope query) queryState (position + int (length ids)) hasMore messages w))"

definition ListMessages ::
  "'w stalwart_Adapter \<Rightarrow> go_context \<Rightarrow> ListMessagesQuery \<Rightarrow> 'w \<Rightarrow> MessagePage result \<times> 'w" where
  "ListMessages adapter ctx query w = (case validateReadScope (sa_lib adapter) (lm_Scope query) of
     Some e \<Rightarrow> (Inl e, w)
   | None \<Rightarrow>
      if lm_Limit query < 1 \<or> maximumPageSize < lm_Limit query
      then (Inl (stalwart_error ErrorClassPermanent ErrorCodeConfiguration), w)
      else on_result (page_start adapter query w) (\<lambda>e w. (Inl e, w)) (\<lambda>(position, previousState) w.
        if maximumPagePosition < position + lm_Limit query then (Inl (tokenError ''cursor''), w)
        else
         let ctx = with_deadline ctx (rs_Deadline (lm_Scope query)) in
         on_result (openMailboxSession adapter ctx (lm_Scope query) w) (\<lambda>e w. (Inl e, w)) (\<lambda>session w.
         on_result (callMailbox adapter ctx session ''Email/query''
             (query_arguments session position (lm_Limit query)) decode_query_result w)
           (\<lambda>e w. (Inl e, w)) (\<lambda>result w.
         read_page adapter ctx query position previousState session result w))))"

section \<open>One message\<close>

definition ToValidUTF8 :: "string \<Rightarrow> string" where
  \<comment> \<open>\<^verbatim>\<open>strings.ToValidUTF8(s, "")\<close>\<close>
  "ToValidUTF8 s = concat (map snd (filter (\<lambda>p. \<not> is_invalid_rune p) (runes s)))"

fun collect_text ::
  "(string \<rightharpoonup> bodyValue) \<Rightarrow> emailBodyPart list \<Rightarrow> string \<times> bool \<Rightarrow> (string \<times> bool) option" where
  \<comment> \<open>The loop over the text parts; None is the protocol error.\<close>
  "collect_text values [] (text, truncated) = Some (text, truncated)"
| "collect_text values (part # parts) (text, truncated) = (case values (ebp_PartID part) of
     None \<Rightarrow> None
   | Some v \<Rightarrow>
       if ebp_PartID part = '''' then None
       else
        let text = (if text \<noteq> '''' then text @ [CHR 0x0A] else text) in
        if maximumTextBytes \<le> length text then Some (text, True)
        else let remaining = maximumTextBytes - length text in
          if remaining < length (bv_Value v)
          then Some (text @ ToValidUTF8 (take remaining (bv_Value v)), True)
          else collect_text values parts (text @ bv_Value v, truncated \<or> bv_IsTruncated v))"

fun attach ::
  "'w stalwart_Adapter \<Rightarrow> ReadScope \<Rightarrow> string \<Rightarrow> emailBodyPart list \<Rightarrow> 'w \<Rightarrow>
   MessageAttachment list result \<times> 'w" where
  "attach adapter scope messageID [] w = (Inr [], w)"
| "attach adapter scope messageID (part # parts) w =
     (if ebp_BlobID part = '''' \<or> ebp_Size part < 0 then (Inl protocolError, w)
      else from_world (newReadToken adapter scope ''attachment'' referenceLifetime w) (\<lambda>token w.
        on_result (sealReadToken adapter (token\<lparr>rt_MessageID := messageID, rt_BlobID := ebp_BlobID part\<rparr>) w)
          (\<lambda>e w. (Inl e, w)) (\<lambda>reference w.
        on_result (attach adapter scope messageID parts w) (\<lambda>e w. (Inl e, w)) (\<lambda>rest w.
          (Inr (\<lparr>mat_Name = ebp_Name part, mat_MediaType = ebp_Type part, mat_Size = ebp_Size part,
             mat_Reference = reference\<rparr> # rest), w)))))"

definition message_detail ::
  "'w stalwart_Adapter \<Rightarrow> ReadScope \<Rightarrow> string \<Rightarrow> emailObject \<Rightarrow> 'w \<Rightarrow> MessageDetail result \<times> 'w" where
  "message_detail adapter scope opaqueID email w =
     on_result (messageSummary adapter scope email w) (\<lambda>e w. (Inl e, w)) (\<lambda>summary w.
     case collect_text (eo_BodyValues email) (eo_TextBody email) ('''', False) of
       None \<Rightarrow> (Inl protocolError, w)
     | Some (text, truncated) \<Rightarrow>
         if maximumAttachments < length (eo_Attachments email) then (Inl protocolError, w)
         else on_result (attach adapter scope (eo_ID email) (eo_Attachments email) w) (\<lambda>e w. (Inl e, w)) (\<lambda>attachments w.
           (Inr \<lparr>md_Summary = summary\<lparr>ms_ID := opaqueID\<rparr>, md_To = eo_To email, md_Cc = eo_Cc email, md_Text = text,
              md_TextTruncated = truncated, md_HasHTML = (eo_HTMLBody email \<noteq> []), md_Attachments = attachments\<rparr>, w)))"

definition GetMessage ::
  "'w stalwart_Adapter \<Rightarrow> go_context \<Rightarrow> ReadScope \<Rightarrow> string \<Rightarrow> 'w \<Rightarrow> MessageDetail result \<times> 'w" where
  "GetMessage adapter ctx scope opaqueID w = (case validateReadScope (sa_lib adapter) scope of
     Some e \<Rightarrow> (Inl e, w)
   | None \<Rightarrow>
      from_world (openReadToken adapter opaqueID scope ''message'' w) (\<lambda>opened w.
      case opened of
        Inl _ \<Rightarrow> (Inl (tokenError ''message''), w)
      | Inr token \<Rightarrow>
         if rt_MessageID token = '''' then (Inl (tokenError ''message''), w)
         else
          let ctx = with_deadline ctx (rs_Deadline scope) in
          on_result (openMailboxSession adapter ctx scope w) (\<lambda>e w. (Inl e, w)) (\<lambda>session w.
          on_result (getEmails adapter ctx session [rt_MessageID token] (summaryProperties @
              [''to'', ''cc'', ''textBody'', ''htmlBody'', ''attachments'', ''bodyValues'']) True w)
            (\<lambda>e w. (Inl e, w)) (\<lambda>emails w.
          if emails = [] then (Inl (stalwart_error ErrorClassPermanent ErrorCodeMessageNotFound), w)
          else if length emails \<noteq> 1 \<or> eo_ID (hd emails) \<noteq> rt_MessageID token then (Inl protocolError, w)
          else message_detail adapter scope opaqueID (hd emails) w))))"

end
