(* ===== verification/Stalwart_Theorems.thy ===== *)
theory Stalwart_Theorems
  imports Stalwart_Adapter
begin

text \<open>
  What the Stalwart adapter guarantees: the metadata it writes is what it reads back, a
  request that may have changed the mail core is never reported as anything but an
  unknown outcome, and \<^verbatim>\<open>EnsureMailbox\<close> changes only the account of its own mailbox, and
  only forward.
\<close>

section \<open>Metadata\<close>

lemma split_on_word: "sep \<notin> set w \<Longrightarrow> split_on sep (w @ sep # s) = w # split_on sep s"
  by (induction w) auto

lemma split_on_last: "sep \<notin> set w \<Longrightarrow> split_on sep w = [w]"
  by (induction w) auto

lemma split_on_join:
  assumes "ws \<noteq> []" "\<forall>w \<in> set ws. sep \<notin> set w"
  shows "split_on sep (join_with sep ws) = ws"
  using assms by (induction sep ws rule: join_with.induct) (auto simp: split_on_word split_on_last)

lemma digits_value_snoc: "digits_value (s @ [c]) = 10 * digits_value s + (byte_val c - 48)"
  by (simp add: digits_value_def)

lemma dec_nat_digits: "list_all is_digit (dec_nat n) \<and> dec_nat n \<noteq> [] \<and> digits_value (dec_nat n) = n"
proof (induction n rule: dec_nat.induct)
  case (1 n)
  have digit: "is_digit (char_of (48 + k))" "byte_val (char_of (48 + k)) = 48 + k" if "k < 10" for k :: nat
    using that by (simp_all add: is_digit_def)
  show ?case
  proof (cases "n < 10")
    case True
    then show ?thesis using digit [OF True] by (simp add: dec_nat.simps [of n] digits_value_def)
  next
    case False
    then show ?thesis using 1 digit [of "n mod 10"] by (simp add: dec_nat.simps [of n] digits_value_snoc)
  qed
qed

lemma digit_not_sign: "is_digit c \<Longrightarrow> c \<noteq> CHR ''-'' \<and> c \<noteq> CHR ''+'' \<and> c \<noteq> CHR '':''"
  by (auto simp: is_digit_def byte_val_def)

lemma ParseInt_dec:
  assumes "- (2 ^ 63) \<le> i" "i < 2 ^ 63"
  shows "ParseInt (dec_int i) = Some i"
proof (cases "i < 0")
  case True
  then show ?thesis using dec_nat_digits [of "nat (- i)"] assms
    by (simp add: ParseInt_def dec_int_def HasPrefix_def Let_def)
next
  case False
  let ?s = "dec_nat (nat i)"
  note d = dec_nat_digits [of "nat i"]
  obtain c t where s: "?s = c # t" "is_digit c" using d by (cases ?s) auto
  have "\<not> HasPrefix ?s ''-''" "\<not> HasPrefix ?s ''+''" using s digit_not_sign [OF s(2)] by (auto simp: HasPrefix_iff)
  then show ?thesis using d False assms(2) by (simp add: ParseInt_def dec_int_def Let_def)
qed

text \<open>Member names in ASCII.\<close>

lemma foldName_ascii: "is_ascii s \<Longrightarrow> foldName s = map (\<lambda>c. foldRune (byte_val c)) s"
  by (simp add: foldName_def runes_ascii comp_def)

lemmas fold_eval = EqualFold_def foldName_ascii foldRune_def field_values_def string_field_def strings_field_def
  map_field_def raw_field_def is_ascii_def byte_val_def

lemma hex_value_digit: "n < 16 \<Longrightarrow> hex_value (hex_digit n) = Some n"
proof -
  have "\<forall>n \<in> set [0..<16]. hex_value (hex_digit n) = Some n" by code_simp
  then show "n < 16 \<Longrightarrow> hex_value (hex_digit n) = Some n" by simp
qed

lemma hex_digit_not_colon: "n < 16 \<Longrightarrow> hex_digit n \<noteq> CHR '':''"
proof -
  have "\<forall>n \<in> set [0..<16]. hex_digit n \<noteq> CHR '':''" by code_simp
  then show "n < 16 \<Longrightarrow> hex_digit n \<noteq> CHR '':''" by simp
qed

lemma byte_nibble: "byte_val c div 16 < 16"
  by (rule less_mult_imp_div_less) simp

lemma DecodeHex_Encode: "DecodeHex (EncodeToHex bs) = Some bs"
proof (induction bs)
  case (Cons c bs)
  show ?case using Cons byte_nibble by (simp add: EncodeToHex_def hex_value_digit)
qed (simp add: EncodeToHex_def)

lemma EncodeToHex_no_colon: "CHR '':'' \<notin> set (EncodeToHex bs)"
  using hex_digit_not_colon [OF byte_nibble, THEN not_sym] hex_digit_not_colon [of "n mod 16" for n, THEN not_sym]
  by (auto simp: EncodeToHex_def)

text \<open>What the adapter relies on from \<^verbatim>\<open>github.com/google/uuid\<close>: a UUID is parsed from its own
  text, and the text has no colon.\<close>

locale uuid_text =
  fixes lib :: go_library
  assumes parse_String: "lib_uuid_Parse lib (lib_uuid_String lib u) = Some u"
    and String_no_colon: "CHR '':'' \<notin> set (lib_uuid_String lib u)"
begin

lemma parse_format:
  assumes "0 < ens_DesiredRevision command" "ens_DesiredRevision command < 2 ^ 63"
    and "length (ens_ConfigurationHash command) = 32"
  shows "parseMetadata lib (formatMetadata lib command) =
    Some \<lparr>mm_MailboxID = ens_MailboxID command, mm_DomainID = ens_DomainID command,
      mm_OperationID = ens_OperationID command, mm_Revision = ens_DesiredRevision command,
      mm_ConfigurationHash = ens_ConfigurationHash command\<rparr>"
proof -
  let ?parts = "[''mail-suite'', ''v1'', lib_uuid_String lib (ens_MailboxID command),
    lib_uuid_String lib (ens_DomainID command), lib_uuid_String lib (ens_OperationID command),
    dec_int (ens_DesiredRevision command), EncodeToHex (ens_ConfigurationHash command)]"
  have "CHR '':'' \<notin> set (dec_nat n)" for n
    using dec_nat_digits [of n] digit_not_sign by (fastforce simp: list_all_iff)
  then have "CHR '':'' \<notin> set (dec_int (ens_DesiredRevision command))" using assms(1) by (simp add: dec_int_def)
  then have "split_on (CHR '':'') (join_with (CHR '':'') ?parts) = ?parts"
    by (intro split_on_join) (simp_all add: String_no_colon EncodeToHex_no_colon)
  moreover have "formatMetadata lib command = join_with (CHR '':'') ?parts"
    by (simp add: formatMetadata_def metadataPrefix_def)
  ultimately show ?thesis using assms
    by (simp add: parseMetadata_def Let_def metadataPrefix_def parse_String ParseInt_dec DecodeHex_Encode
        numeral_nat)
qed

end

text \<open>The adapter reads back the metadata it writes: the description made from a command with a
  positive 64-bit revision and a 32-byte hash parses to the command's own identifiers, revision and hash.\<close>

lemma metadata_round_trip:
  assumes "\<forall>u. lib_uuid_Parse lib (lib_uuid_String lib u) = Some u"
    and "\<forall>u. CHR '':'' \<notin> set (lib_uuid_String lib u)"
    and "0 < ens_DesiredRevision command" "ens_DesiredRevision command < 2 ^ 63"
    and "length (ens_ConfigurationHash command) = 32"
  shows "parseMetadata lib (formatMetadata lib command) =
    Some \<lparr>mm_MailboxID = ens_MailboxID command, mm_DomainID = ens_DomainID command,
      mm_OperationID = ens_OperationID command, mm_Revision = ens_DesiredRevision command,
      mm_ConfigurationHash = ens_ConfigurationHash command\<rparr>"
proof -
  have "uuid_text lib" using assms(1,2) by unfold_locales simp_all
  from uuid_text.parse_format [OF this assms(3-5)] show ?thesis .
qed

section \<open>Failures\<close>

lemma stalwart_codes_ok [simp]:
  "errorCodePattern ErrorCodeAuthentication" "errorCodePattern ErrorCodeRateLimited"
  "errorCodePattern ErrorCodeUnavailable" "errorCodePattern ErrorCodeProtocolInvalid"
  "errorCodePattern ErrorCodeDomainMissing" "errorCodePattern ErrorCodeResourceConflict"
  "errorCodePattern ErrorCodeConfiguration" "errorCodePattern ErrorCodeTimeout"
  by (simp_all add: errorCodePattern_def stalwart_codes is_upper_def is_digit_def byte_val_def)

lemma Classify_stalwart_error [simp]:
  "validErrorClass class \<Longrightarrow> errorCodePattern code \<Longrightarrow>
   ClassifyError (Some (stalwart_error class code)) = (class, code)"
  by (simp add: stalwart_error_def mailcore_NewError_def ClassifyError_def)

lemma uncertainClass_simps [simp]:
  "uncertainClass True = ErrorClassUnknown" "uncertainClass False = ErrorClassRetryable"
  by (simp_all add: uncertainClass_def)

text \<open>(C10) A changing request that did not end in a definite refusal is reported as an unknown outcome:
  whenever the transport failed, the server answered with a 5xx status, or a successful answer could not be
  read in full or decoded, the error's class is unknown, so that the worker inspects before it writes again.
  Only a 1xx, 3xx or 4xx status is a definite refusal: retryable for 429, permanent otherwise. A read, in
  contrast, is never reported as unknown, whatever the server answers, unless its caller gave up.\<close>

theorem uncertain_request_is_unknown:
  assumes "\<forall>ctx w e. sa_ctxErr adapter ctx w = Some e \<longrightarrow> e \<in> {ContextCanceled, ContextDeadlineExceeded}"
    and "requestJSONAs adapter ctx method path body mutation username password target w = (Inl e, w')"
  shows "if mutation then
      (case fst (sa_Do adapter ctx \<lparr>hc_Method = method, hc_Path = path, hc_Username = username,
           hc_Password = password, hc_Body = body\<rparr> w) of
         DoFailed timeout \<Rightarrow> fst (ClassifyError (Some e)) = ErrorClassUnknown
       | Response status content timeout \<Rightarrow>
           if status < 500 \<and> \<not> (200 \<le> status \<and> status < 300)
           then fst (ClassifyError (Some e)) = (if status = 429 then ErrorClassRetryable else ErrorClassPermanent)
           else fst (ClassifyError (Some e)) = ErrorClassUnknown)
    else fst (ClassifyError (Some e)) \<noteq> ErrorClassUnknown \<or> sa_ctxErr adapter ctx w' = Some e"
proof -
  let ?call = "\<lparr>hc_Method = method, hc_Path = path, hc_Username = username, hc_Password = password, hc_Body = body\<rparr>"
  obtain outcome w1 where out: "sa_Do adapter ctx ?call w = (outcome, w1)" by force
  have w1: "w1 = w'" using assms(2) by (auto simp: requestJSONAs_def out)
  have ctx: "ClassifyError (Some x) = (ErrorClassUnknown, ErrorCodeUnknown)" if "sa_ctxErr adapter ctx w' = Some x" for x
    using assms(1) that by (fastforce simp: ClassifyError_def)
  show ?thesis
  proof (cases outcome)
    case (DoFailed timeout)
    then show ?thesis using assms(2) ctx
      by (cases mutation; cases "sa_ctxErr adapter ctx w'")
        (auto simp: requestJSONAs_def out w1 readTimeoutError_def transportError_def split: if_splits option.splits)
  next
    case (Response status content timeout)
    then show ?thesis using assms(2)
      by (cases mutation)
        (auto simp: requestJSONAs_def out w1 statusError_def readTimeoutError_def
          split: if_splits option.splits)
  qed
qed

section \<open>Ownership\<close>

text \<open>The calls of a run, read off the world by \<open>log\<close>: those that change accounts satisfy \<open>P\<close> and
  number at most \<open>n\<close>.\<close>

definition sets_account :: "json \<Rightarrow> http_call \<Rightarrow> bool" where
  "sets_account args call \<longleftrightarrow> (\<exists>using. hc_Body call = Some (method_call using ''x:Account/set'' args))"

definition changes_account :: "http_call \<Rightarrow> bool" where
  "changes_account call \<longleftrightarrow> (\<exists>args. sets_account args call)"

definition sends :: "('w \<Rightarrow> http_call list) \<Rightarrow> (http_call \<Rightarrow> bool) \<Rightarrow> nat \<Rightarrow> 'w \<Rightarrow> 'w \<Rightarrow> bool" where
  "sends log P n w w' \<longleftrightarrow> (\<exists>calls. log w' = log w @ calls \<and>
     (\<forall>c \<in> set calls. changes_account c \<longrightarrow> P c) \<and> length (filter changes_account calls) \<le> n)"

lemma method_call_iff: "(\<exists>using'. method_call using m a = method_call using' m' a') \<longleftrightarrow> m = m' \<and> a = a'"
  by (auto simp: method_call_def)

text \<open>A change the control plane owns: the creation of the commanded account, or the update of an account
  that was just looked up under the commanded name and whose metadata names the commanded mailbox and domain
  with an older revision.\<close>

definition own_change :: "'w stalwart_Adapter \<Rightarrow> EnsureMailboxCommand \<Rightarrow> string \<Rightarrow> http_call \<Rightarrow> bool" where
  "own_change adapter command localPart call \<longleftrightarrow>
     (\<exists>domainID. sets_account (create_arguments adapter localPart domainID command) call) \<or>
     (\<exists>account metadata ctx apiPath domainID w1 w2.
        findAccount adapter ctx apiPath localPart domainID w1 = (Inr (Some account), w2) \<and>
        parseMetadata (sa_lib adapter) (ao_Description account) = Some metadata \<and>
        mm_MailboxID metadata = ens_MailboxID command \<and> mm_DomainID metadata = ens_DomainID command \<and>
        mm_Revision metadata < ens_DesiredRevision command \<and>
        sets_account (update_arguments adapter (ao_ID account) command) call)"

lemma sends_refl [simp]: "sends log P n w w"
  by (auto simp: sends_def)

lemma sends_trans: "sends log P n w1 w2 \<Longrightarrow> sends log P m w2 w3 \<Longrightarrow> sends log P (n + m) w1 w3"
proof -
  assume "sends log P n w1 w2" "sends log P m w2 w3"
  then obtain c1 c2 where "log w2 = log w1 @ c1" "log w3 = log w2 @ c2"
    "\<forall>c \<in> set (c1 @ c2). changes_account c \<longrightarrow> P c" "length (filter changes_account (c1 @ c2)) \<le> n + m"
    by (fastforce simp: sends_def)
  then show ?thesis unfolding sends_def by (intro exI [of _ "c1 @ c2"]) auto
qed

lemma sends_after_read: "sends log P 0 w1 w2 \<Longrightarrow> sends log P n w2 w3 \<Longrightarrow> sends log P n w1 w3"
  using sends_trans [of log P 0 w1 w2 n w3] by simp

lemma sends_le: "sends log P n w w' \<Longrightarrow> n \<le> m \<Longrightarrow> sends log P m w w'"
  by (fastforce simp: sends_def)

lemma sends_on_result:
  assumes "sends log P 0 w (snd r)" "\<And>e. r = (Inl e, snd r) \<Longrightarrow> sends log P n (snd r) (snd (fail e (snd r)))"
    and "\<And>x. r = (Inr x, snd r) \<Longrightarrow> sends log P n (snd r) (snd (ok x (snd r)))"
  shows "sends log P n w (snd (on_result r fail ok))"
  using assms by (cases r; cases "fst r") (auto intro: sends_after_read)

locale recorded_calls =
  fixes adapter :: "'w stalwart_Adapter" and log :: "'w \<Rightarrow> http_call list"
  assumes do_logged: "log (snd (sa_Do adapter ctx call w)) = log w @ [call]"
begin

lemma request_logged:
  "log (snd (requestJSONAs adapter ctx method path body mutation username password target w)) =
   log w @ [\<lparr>hc_Method = method, hc_Path = path, hc_Username = username, hc_Password = password, hc_Body = body\<rparr>]"
  by (simp add: requestJSONAs_def from_world_def do_logged)

lemma call_logged: "\<exists>call. log (snd (jmap_call adapter ctx apiPath name args mutation target w)) = log w @ [call] \<and>
  (\<forall>a. sets_account a call \<longleftrightarrow> name = ''x:Account/set'' \<and> a = args)"
proof -
  have "snd (jmap_call adapter ctx apiPath name args mutation target w) = snd (requestJSONAs adapter ctx ''POST''
      apiPath (Some (method_call [''urn:ietf:params:jmap:core'', ''urn:stalwart:jmap''] name args)) mutation
      (sa_adminUsername adapter) (sa_adminPassword adapter) decode_envelope w)"
    by (simp add: jmap_call_def callAs_def on_result_def split: sum.splits)
  then show ?thesis by (auto simp: request_logged sets_account_def method_call_iff)
qed

lemma call_reads: "name \<noteq> ''x:Account/set'' \<Longrightarrow>
  sends log P 0 w (snd (jmap_call adapter ctx apiPath name args mutation target w))"
  using call_logged [of ctx apiPath name args mutation target w] by (auto simp: sends_def changes_account_def)

lemma call_sets: "(\<And>call. sets_account args call \<Longrightarrow> P call) \<Longrightarrow>
  sends log P 1 w (snd (jmap_call adapter ctx apiPath ''x:Account/set'' args mutation target w))"
  using call_logged [of ctx apiPath "''x:Account/set''" args mutation target w]
  by (auto simp: sends_def changes_account_def)

lemma fetchSession_reads: "sends log P 0 w (snd (fetchSession adapter ctx w))"
proof -
  have "sends log P 0 w (snd (requestJSON adapter ctx ''GET'' ''/jmap/session'' None False decode_session w))"
    by (simp add: sends_def requestJSON_def request_logged changes_account_def sets_account_def)
  then show ?thesis unfolding fetchSession_def by (rule sends_on_result) simp_all
qed

lemma lookup_names: "s @ ''/query'' \<noteq> ''x:Account/set''" "s @ ''/get'' \<noteq> ''x:Account/set''"
  by (auto dest: arg_cong [of _ _ rev])

lemma queryIDs_reads: "sends log P 0 w (snd (queryIDs adapter ctx apiPath objectName criteria w))"
  unfolding queryIDs_def by (rule sends_on_result) (simp_all add: call_reads lookup_names)

lemma getObjects_reads: "sends log P 0 w (snd (getObjects adapter ctx apiPath objectName ids properties target w))"
  unfolding getObjects_def by (rule sends_on_result) (simp_all add: call_reads lookup_names)

lemma findDomain_reads: "sends log P 0 w (snd (findDomain adapter ctx apiPath name w))"
  unfolding findDomain_def
  by (rule sends_on_result) (auto simp: queryIDs_reads intro!: sends_on_result getObjects_reads)

lemma findAccount_reads: "sends log P 0 w (snd (findAccount adapter ctx apiPath localPart domainID w))"
  unfolding findAccount_def
  by (rule sends_on_result) (auto simp: queryIDs_reads intro!: sends_on_result getObjects_reads)

lemma updateAccount_sends: "(\<And>call. sets_account (update_arguments adapter accountID command) call \<Longrightarrow> P call) \<Longrightarrow>
  sends log P 1 w (snd (updateAccount adapter ctx apiPath accountID command w))"
proof -
  let ?set = "jmap_call adapter ctx apiPath ''x:Account/set'' (update_arguments adapter accountID command) True
    decode_setResult w"
  assume "\<And>call. sets_account (update_arguments adapter accountID command) call \<Longrightarrow> P call"
  moreover have "snd (updateAccount adapter ctx apiPath accountID command w) = snd ?set"
    by (simp add: updateAccount_def on_result_def split: sum.splits)
  ultimately show ?thesis using call_sets by metis
qed

lemma ensureExistingAccount_sends:
  assumes "findAccount adapter ctx' apiPath' localPart domainID w1 = (Inr (Some account), w2)"
  shows "sends log (own_change adapter command localPart) 1 w
    (snd (ensureExistingAccount adapter ctx apiPath account command w))"
proof (cases "parseMetadata (sa_lib adapter) (ao_Description account)")
  case (Some metadata)
  show ?thesis
  proof (cases "mm_MailboxID metadata = ens_MailboxID command \<and> mm_DomainID metadata = ens_DomainID command \<and>
      mm_Revision metadata < ens_DesiredRevision command")
    case True
    then have "sends log (own_change adapter command localPart) 1 w
        (snd (updateAccount adapter ctx apiPath (ao_ID account) command w))"
      using assms Some by (intro updateAccount_sends) (unfold own_change_def, blast)
    with True Some show ?thesis by (simp add: ensureExistingAccount_def)
  qed (auto simp: ensureExistingAccount_def Some)
qed (simp add: ensureExistingAccount_def)

lemma createAccount_sends:
  "sends log (own_change adapter command localPart) 2 w
     (snd (createAccount adapter ctx apiPath localPart domainID command w))"
proof -
  let ?P = "own_change adapter command localPart"
  let ?set = "jmap_call adapter ctx apiPath ''x:Account/set'' (create_arguments adapter localPart domainID command)
    True decode_setResult w"
  let ?rest = "\<lambda>type w. on_result (findAccount adapter ctx apiPath localPart domainID w) (\<lambda>e w. (Some e, w))
    (\<lambda>found w. case found of Some account \<Rightarrow> ensureExistingAccount adapter ctx apiPath account command w
      | None \<Rightarrow> (Some (classifySetError type), w))"
  have first: "sends log ?P 1 w (snd ?set)" by (rule call_sets) (auto simp: own_change_def)
  have rest: "sends log ?P 1 w1 (snd (?rest type w1))" for type w1
    by (rule sends_on_result)
      (auto simp: findAccount_reads simp del: One_nat_def split: option.splits intro!: ensureExistingAccount_sends)
  have "sends log ?P 1 (snd ?set) (snd (createAccount adapter ctx apiPath localPart domainID command w))"
    using rest by (auto simp: createAccount_def on_result_def [of ?set] split: sum.splits option.splits)
  from sends_trans [OF first this] show ?thesis by (simp add: numeral_2_eq_2)
qed

lemma EnsureMailbox_sends:
  assumes "validateEnsureCommand (sa_lib adapter) command = Inr (localPart, domainName)"
  shows "sends log (own_change adapter command localPart) 2 w (snd (stalwart_EnsureMailbox adapter ctx command w))"
  unfolding stalwart_EnsureMailbox_def assms Let_def sum.case prod.case
  by (intro sends_on_result fetchSession_reads)
    (auto simp: findDomain_reads findAccount_reads createAccount_sends split: option.splits
      intro!: sends_on_result sends_le [OF ensureExistingAccount_sends])

lemma EnsureMailbox_refused:
  "validateEnsureCommand (sa_lib adapter) command = Inl e \<Longrightarrow>
   stalwart_EnsureMailbox adapter ctx command w = (Some e, w)"
  by (simp add: stalwart_EnsureMailbox_def)

end

text \<open>(C9) Whatever the mail core answers, \<^verbatim>\<open>EnsureMailbox\<close> changes accounts by at most two calls, and each
  of them creates the commanded account, or updates an account it has looked up under the commanded name
  whose metadata names the commanded mailbox and domain with an older revision. An account of another mailbox,
  a foreign account without metadata, and an account of the same or a newer revision are never changed; a
  command that fails validation sends nothing.\<close>

theorem ensure_changes_own_account:
  assumes "\<forall>ctx call w. log (snd (sa_Do adapter ctx call w)) = log w @ [call]"
    and "stalwart_EnsureMailbox adapter ctx command w = (result, w')"
  shows "\<exists>calls. log w' = log w @ calls \<and> length (filter changes_account calls) \<le> 2 \<and>
    (case validateEnsureCommand (sa_lib adapter) command of
       Inl e \<Rightarrow> calls = [] \<and> result = Some e
     | Inr (localPart, domainName) \<Rightarrow>
         \<forall>call \<in> set calls. changes_account call \<longrightarrow> own_change adapter command localPart call)"
proof -
  have rec: "recorded_calls adapter log" using assms(1) by unfold_locales simp
  show ?thesis
  proof (cases "validateEnsureCommand (sa_lib adapter) command")
    case (Inl e)
    then show ?thesis using recorded_calls.EnsureMailbox_refused [OF rec Inl] assms(2) by simp
  next
    case (Inr names)
    then show ?thesis using recorded_calls.EnsureMailbox_sends [OF rec, of command "fst names" "snd names" w ctx] assms(2)
      by (cases names) (auto simp: sends_def)
  qed
qed

section \<open>The contract of the mail core\<close>

text \<open>With a clock that does not show the zero time, the adapter keeps the contract the worker relies on.\<close>

locale stalwart_clock =
  fixes stalwart :: "'w stalwart_Adapter"
  assumes now_nonzero: "\<not> IsZero (fst (sa_now stalwart w))"

lemma parseMetadata_wf:
  "parseMetadata lib raw = Some m \<Longrightarrow> 0 < mm_Revision m \<and> length (mm_ConfigurationHash m) = 32"
  by (auto simp: parseMetadata_def Let_def split: if_splits option.splits)

sublocale stalwart_clock \<subseteq> mail_adapter "stalwart_adapter stalwart"
proof
  fix ctx q w obs w'
  assume "InspectMailbox (stalwart_adapter stalwart) ctx q w = (Inr obs, w')"
  then show "observation_wf (insp_MailboxID q) obs"
    using now_nonzero
    by (auto simp: stalwart_adapter_def stalwart_InspectMailbox_def Let_def on_result_def from_world_def
        observe_absent_def observe_account_def absentObservation_def observation_wf_def
        split: sum.splits option.splits if_splits prod.splits dest!: parseMetadata_wf)
qed

end
