(* ===== verification/Stalwart_Read_Theorems.thy ===== *)
theory Stalwart_Read_Theorems
  imports Stalwart_Read Stalwart_Theorems
begin

text \<open>
  Properties of reading mail: a sealed reference opens for its own mailbox, configuration,
  purpose and time only, and what a reader gets is bounded.
\<close>

section \<open>Sealed references\<close>

lemma field_values_append: "field_values name (xs @ ys) = field_values name xs @ field_values name ys"
  by (simp add: field_values_def)

lemma decode_values_append:
  "decode_values d cur (xs @ ys) = Option.bind (decode_values d cur xs) (\<lambda>x. decode_values d x ys)"
  by (induction d cur xs rule: decode_values.induct) (auto split: option.splits)

lemma decode_hash_encoded:
  assumes "length bs = 32"
  shows "decode_hash cur (JArray (map (\<lambda>c. JNumber (dec_nat (byte_val c))) bs)) = Some bs"
proof -
  have "decode_byte (JNumber (dec_nat (byte_val c))) = Some c" for c
    using dec_nat_digits [of "byte_val c"] byte_val_less [of c] by (simp add: less_Suc_eq_le [symmetric])
  then have "all_values (map decode_byte (map (\<lambda>c. JNumber (dec_nat (byte_val c))) bs)) = Some bs"
    using all_values_map_Some [of bs] by (simp add: comp_def)
  then show ?thesis using assms by simp
qed

definition token_wf :: "readToken \<Rightarrow> bool" where
  \<comment> \<open>A value of the Go type: 64-bit integers and a digest of 32 bytes.\<close>
  "token_wf t \<longleftrightarrow> length (rt_ConfigurationHash t) = 32 \<and>
     (\<forall>i \<in> {rt_Version t, rt_Revision t, rt_ExpiresAt t, rt_Position t}. - (2 ^ 63) \<le> i \<and> i < 2 ^ 63)"

lemma decode_token_encode:
  assumes "\<forall>u. lib_uuid_Parse lib (lib_uuid_String lib u) = Some u" "token_wf t"
  shows "decode_token lib (encode_token lib t) = Some t"
proof -
  have ints: "ParseInt (dec_int (rt_Version t)) = Some (rt_Version t)" "ParseInt (dec_int (rt_Revision t)) = Some (rt_Revision t)"
    "ParseInt (dec_int (rt_ExpiresAt t)) = Some (rt_ExpiresAt t)" "ParseInt (dec_int (rt_Position t)) = Some (rt_Position t)"
    using assms(2) by (simp_all add: token_wf_def ParseInt_dec)
  define hs where "hs = map (\<lambda>c. JNumber (dec_nat (byte_val c))) (rt_ConfigurationHash t)"
  have "decode_hash cur (JArray hs) = Some (rt_ConfigurationHash t)" for cur
    using assms(2) unfolding hs_def by (intro decode_hash_encoded) (simp add: token_wf_def)
  then show ?thesis using assms(1) ints unfolding encode_token_def hs_def [symmetric]
    by (cases "rt_MessageID t = ''''"; cases "rt_BlobID t = ''''"; cases "rt_QueryState t = ''''"; cases "rt_Position t = 0")
      (simp_all add: decode_token_def int_field_def fold_eval del: decode_hash.simps)
qed

lemma length_tokenCipher: "length (tokenCipher adapter) = 32"
  by (simp add: tokenCipher_def)

lemma sealed_token_opens:
  assumes "\<forall>u. lib_uuid_Parse (sa_lib adapter) (lib_uuid_String (sa_lib adapter) u) = Some u"
    and "lib_json (sa_lib adapter) (lib_marshal (sa_lib adapter) (encode_token (sa_lib adapter) token)) =
      Some (encode_token (sa_lib adapter) token)"
    and "token_wf token" "sealReadToken adapter token w = (Inr raw, w1)"
  shows "openReadToken adapter raw scope purpose w2 =
    (if token_matches token scope purpose
     then from_world (sa_now adapter w2) (\<lambda>now w.
       (if rt_ExpiresAt token \<le> Unix now then Inl (tokenError purpose) else Inr token, w))
     else (Inl (tokenError purpose), w2))"
proof -
  let ?plain = "lib_marshal (sa_lib adapter) (encode_token (sa_lib adapter) token)"
  obtain n where n: "length n = 12" and raw: "raw = RawURL_EncodeToString (n @ gcm_Seal (tokenCipher adapter) n ?plain '''')"
    and len: "length (n @ gcm_Seal (tokenCipher adapter) n ?plain '''') \<le> maximumTokenBytes"
    using assms(4) ReadFull_length [of "sa_random adapter" 12 w]
    by (cases "ReadFull (sa_random adapter) 12 w")
      (auto simp: sealReadToken_def Let_def split: option.splits if_splits)
  have sealed: "length (gcm_Seal (tokenCipher adapter) n ?plain '''') = length ?plain + 16"
    by (rule length_gcm_Seal [OF length_tokenCipher])
  have "length raw \<le> (maximumTokenBytes * 8 + 5) div 6" "0 < length raw"
    using len n sealed by (simp_all add: raw maximumTokenBytes_def)
  then have fits: "raw \<noteq> ''''" "\<not> (maximumTokenBytes * 8 + 5) div 6 < length raw" by auto
  have "RawURL_DecodeString raw = Some (n @ gcm_Seal (tokenCipher adapter) n ?plain '''')"
    by (simp add: raw RawURL_round_trip)
  then show ?thesis using fits len n sealed assms(2) decode_token_encode [OF assms(1,3)]
    by (simp add: openReadToken_def Let_def gcm_Overhead_def gcm_Open_Seal [OF length_tokenCipher])
qed

text \<open>(C22) A reference or cursor the adapter has sealed opens to exactly what was sealed, and only for the
  mailbox, domain, revision and configuration it was made for, under its own purpose and before it expires;
  otherwise it is refused with the stable error of that purpose. So a reference of one mailbox is worthless
  for another, and one made before a reconfiguration dies with it.\<close>

theorem read_token_opens_iff:
  assumes "\<forall>u. lib_uuid_Parse (sa_lib adapter) (lib_uuid_String (sa_lib adapter) u) = Some u"
    and "lib_json (sa_lib adapter) (lib_marshal (sa_lib adapter) (encode_token (sa_lib adapter) token)) =
      Some (encode_token (sa_lib adapter) token)"
    and "token_wf token" "sealReadToken adapter token w = (Inr raw, w1)"
  shows "fst (openReadToken adapter raw scope purpose w2) =
    (if rt_Version token = 1 \<and> rt_Purpose token = purpose \<and>
        rt_MailboxID token = rs_MailboxID scope \<and> rt_DomainID token = rs_DomainID scope \<and>
        rt_Revision token = rs_Revision scope \<and>
        rt_ConfigurationHash token = rs_ConfigurationHash scope \<and>
        Unix (fst (sa_now adapter w2)) < rt_ExpiresAt token
     then Inr token else Inl (tokenError purpose))"
  using sealed_token_opens [OF assms] by (auto simp: from_world_def not_less token_matches_def)

section \<open>Bounds\<close>

lemma length_ToValidUTF8: "length (ToValidUTF8 s) \<le> length s"
proof -
  have "length (concat (map snd (filter P ps))) \<le> length (concat (map snd ps))" for P and ps :: "(nat \<times> string) list"
    by (induction ps) auto
  from this [of _ "runes s"] show ?thesis by (simp add: ToValidUTF8_def runes_concat)
qed

text \<open>The text may exceed its limit by the separator in front of a part that no longer fits.\<close>

lemma collect_text_bounded:
  "collect_text vals parts start = Some (body, truncated) \<Longrightarrow> length (fst start) \<le> maximumTextBytes \<Longrightarrow>
   length body \<le> maximumTextBytes + 1 \<and> (\<not> truncated \<longrightarrow> length body \<le> maximumTextBytes)"
proof (induction vals parts start arbitrary: body truncated rule: collect_text.induct)
  case (2 vals part parts start cut)
  then obtain v where v: "vals (ebp_PartID part) = Some v" "ebp_PartID part \<noteq> ''''"
    by (auto split: option.splits if_splits)
  let ?s = "if start \<noteq> '''' then start @ [CHR 0x0A] else start"
  let ?cut = "take (maximumTextBytes - length ?s) (bv_Value v)"
  consider "maximumTextBytes \<le> length ?s" "(body, truncated) = (?s, True)"
    | "length ?s < maximumTextBytes" "(body, truncated) = (?s @ ToValidUTF8 ?cut, True)"
    | "length ?s < maximumTextBytes" "length (bv_Value v) \<le> maximumTextBytes - length ?s"
      "collect_text vals parts (?s @ bv_Value v, cut \<or> bv_IsTruncated v) = Some (body, truncated)"
    using 2(2) v by (auto simp: Let_def not_le not_less split: if_splits)
  then show ?case
  proof cases
    case 1
    then show ?thesis using 2(3) by auto
  next
    case 2
    then show ?thesis using length_ToValidUTF8 [of ?cut] by auto
  next
    case 3
    have "length (fst (?s @ bv_Value v, cut \<or> bv_IsTruncated v)) \<le> maximumTextBytes" using 3(1,2) by simp
    with 3 show ?thesis using 2(1) [OF v refl _ refl _ 3(3)] v by simp
  qed
qed simp

lemma on_result_InrD:
  "on_result r (\<lambda>e w. (Inl e, w)) ok = (Inr y, w') \<Longrightarrow> \<exists>x w1. r = (Inr x, w1) \<and> ok x w1 = (Inr y, w')"
  by (cases r; cases "fst r") auto

lemma summarize_page_length:
  "summarize_page adapter scope byID ids w = (Inr ms, w') \<Longrightarrow> length ms = length ids"
  by (induction ids arbitrary: w ms w') (auto split: option.splits dest!: on_result_InrD)

lemma list_page_length: "list_page adapter ctx scope session ids w = (Inr ms, w') \<Longrightarrow> length ms = length ids"
  by (auto simp: list_page_def split: if_splits option.splits dest!: on_result_InrD summarize_page_length)

lemma finish_page_InrD:
  "finish_page adapter scope state next further ms w = (Inr page, w') \<Longrightarrow>
   mp_Messages page = ms \<and> (mp_NextCursor page \<noteq> '''' \<longrightarrow> further)"
  by (auto simp: finish_page_def from_world_def split: if_splits dest!: on_result_InrD)

lemma read_page_InrD:
  assumes "read_page adapter ctx query position previous session result w = (Inr page, w')" "1 \<le> lm_Limit query"
  shows "int (length (mp_Messages page)) \<le> lm_Limit query"
    "mp_NextCursor page \<noteq> '''' \<longrightarrow> int (length (mp_Messages page)) = lm_Limit query"
  using assms
  by (auto simp: read_page_def Let_def split: prod.splits if_splits
      dest!: on_result_InrD list_page_length finish_page_InrD)

lemma ListMessages_InrD:
  assumes "ListMessages adapter ctx query w = (Inr page, w')"
  shows "1 \<le> lm_Limit query" "lm_Limit query \<le> maximumPageSize"
    "int (length (mp_Messages page)) \<le> lm_Limit query"
    "mp_NextCursor page \<noteq> '''' \<longrightarrow> int (length (mp_Messages page)) = lm_Limit query"
proof -
  show limit: "1 \<le> lm_Limit query" "lm_Limit query \<le> maximumPageSize"
    using assms by (auto simp: ListMessages_def not_less split: option.splits if_splits)
  obtain c position previous session result w1 where
    "read_page adapter c query position previous session result w1 = (Inr page, w')"
    using assms
    by (auto simp: ListMessages_def Let_def split: option.splits if_splits prod.splits dest!: on_result_InrD)
  from read_page_InrD [OF this limit(1)]
  show "int (length (mp_Messages page)) \<le> lm_Limit query"
    "mp_NextCursor page \<noteq> '''' \<longrightarrow> int (length (mp_Messages page)) = lm_Limit query" .
qed

lemma attach_length: "attach adapter scope messageID parts w = (Inr xs, w') \<Longrightarrow> length xs = length parts"
  by (induction parts arbitrary: w xs w')
    (auto simp: from_world_def split: if_splits dest!: on_result_InrD)

lemma message_detail_InrD:
  assumes "message_detail adapter scope opaqueID email w = (Inr detail, w')"
  shows "length (md_Text detail) \<le> maximumTextBytes + 1"
    "\<not> md_TextTruncated detail \<longrightarrow> length (md_Text detail) \<le> maximumTextBytes"
    "length (md_Attachments detail) \<le> maximumAttachments" "ms_ID (md_Summary detail) = opaqueID"
  using assms
  by (auto simp: message_detail_def split: option.splits if_splits dest!: on_result_InrD attach_length
      collect_text_bounded)

lemma GetMessage_InrD:
  assumes "GetMessage adapter ctx scope opaqueID w = (Inr detail, w')"
  obtains email w1 where "message_detail adapter scope opaqueID email w1 = (Inr detail, w')"
  using assms
  by (auto simp: GetMessage_def Let_def from_world_def split: option.splits sum.splits if_splits dest!: on_result_InrD)

text \<open>(C27) What a reader gets is bounded whatever the mail core sends. A page holds at most as many messages
  as were asked for, which is at most fifty, and carries a cursor only when it is full. A message carries at
  most a hundred attachments, and a text of at most 64 kilobytes, or one byte more when it is marked as
  truncated.\<close>

theorem read_results_bounded:
  shows "(\<forall>page w'. ListMessages adapter ctx query w = (Inr page, w') \<longrightarrow>
      1 \<le> lm_Limit query \<and> lm_Limit query \<le> 50 \<and> int (length (mp_Messages page)) \<le> lm_Limit query \<and>
      (mp_NextCursor page \<noteq> '''' \<longrightarrow> int (length (mp_Messages page)) = lm_Limit query)) \<and>
    (\<forall>detail w'. GetMessage adapter ctx scope opaqueID w = (Inr detail, w') \<longrightarrow>
      length (md_Text detail) \<le> 65537 \<and> (\<not> md_TextTruncated detail \<longrightarrow> length (md_Text detail) \<le> 65536) \<and>
      length (md_Attachments detail) \<le> 100 \<and> ms_ID (md_Summary detail) = opaqueID)"
proof (intro conjI allI impI)
  fix page w'
  assume l: "ListMessages adapter ctx query w = (Inr page, w')"
  show "1 \<le> lm_Limit query" "lm_Limit query \<le> 50" "int (length (mp_Messages page)) \<le> lm_Limit query"
    using ListMessages_InrD [OF l] by (simp_all add: maximumPageSize_def)
  show "int (length (mp_Messages page)) = lm_Limit query" if "mp_NextCursor page \<noteq> ''''"
    using ListMessages_InrD(4) [OF l] that by blast
next
  fix detail w'
  assume "GetMessage adapter ctx scope opaqueID w = (Inr detail, w')"
  then obtain email w1 where m: "message_detail adapter scope opaqueID email w1 = (Inr detail, w')"
    by (rule GetMessage_InrD)
  show "length (md_Text detail) \<le> 65537" "length (md_Attachments detail) \<le> 100" "ms_ID (md_Summary detail) = opaqueID"
    using message_detail_InrD [OF m] by (simp_all add: maximumTextBytes_def maximumAttachments_def)
  show "length (md_Text detail) \<le> 65536" if "\<not> md_TextTruncated detail"
    using message_detail_InrD(2) [OF m] that by (simp add: maximumTextBytes_def)
qed

end
