(* ===== verification/Stalwart_Witnesses.thy ===== *)
theory Stalwart_Witnesses
  imports Stalwart_Theorems
begin

text \<open>
  The Stalwart adapter at concrete inputs: the canonical text of UUIDs, the recording of
  calls by any adapter, and a mail core that answers every method with a fixed document.
  Here the interfaces of \<^verbatim>\<open>Stalwart_Theorems\<close> are interpreted.
\<close>

section \<open>The canonical text of a UUID\<close>

definition canonical_String :: "uuid \<Rightarrow> string" where
  "canonical_String u = (let h = EncodeToHex (big_endian 16 (unat u)) in
     take 8 h @ ''-'' @ take 4 (drop 8 h) @ ''-'' @ take 4 (drop 12 h) @ ''-'' @ take 4 (drop 16 h) @ ''-'' @
     drop 20 h)"

definition canonical_Parse :: "string \<Rightarrow> uuid option" where
  "canonical_Parse s =
     (if length s = 36 \<and> s ! 8 = CHR ''-'' \<and> s ! 13 = CHR ''-'' \<and> s ! 18 = CHR ''-'' \<and> s ! 23 = CHR ''-''
      then map_option (\<lambda>bs. of_nat (foldl (\<lambda>v c. 256 * v + byte_val c) 0 bs))
        (DecodeHex (take 8 s @ take 4 (drop 9 s) @ take 4 (drop 14 s) @ take 4 (drop 19 s) @ drop 24 s))
      else None)"

lemma big_endian_Suc: "big_endian (Suc k) n = big_endian k (n div 256) @ [char_of (n mod 256)]"
proof -
  have "rev [0..<Suc k] = map Suc (rev [0..<k]) @ [0]"
    by (simp add: rev_map [symmetric] map_Suc_upt upt_conv_Cons del: upt_Suc)
  then show ?thesis by (simp add: big_endian_def div_mult2_eq del: upt_Suc)
qed

lemma big_endian_value: "foldl (\<lambda>v c. 256 * v + byte_val c) 0 (big_endian k n) = n mod 256 ^ k"
proof (induction k arbitrary: n)
  case (Suc k)
  have "byte_val (char_of m) = m mod 256" for m :: nat by (simp add: byte_val_def)
  with Suc show ?case by (simp add: big_endian_Suc mod_mult2_eq add.commute)
qed (simp add: big_endian_def)

lemma length_EncodeToHex: "length (EncodeToHex bs) = 2 * length bs"
  by (induction bs) (simp_all add: EncodeToHex_def)

lemma take_drop_join: "take n (drop m xs) @ drop (m + n) xs = drop m xs"
  by (metis add.commute append_take_drop_id drop_drop)

lemma canonical_round_trip: "canonical_Parse (canonical_String u) = Some u"
proof -
  let ?h = "EncodeToHex (big_endian 16 (unat u))"
  have len: "length ?h = 32" by (simp add: length_EncodeToHex big_endian_def)
  have "unat u < 256 ^ 16" using unsigned_less [of u, where 'a = nat] by simp
  then have "of_nat (foldl (\<lambda>v c. 256 * v + byte_val c) 0 (big_endian 16 (unat u))) = u"
    by (simp add: big_endian_value)
  moreover have "take 8 ?h @ take 4 (drop 8 ?h) @ take 4 (drop 12 ?h) @ take 4 (drop 16 ?h) @ drop 20 ?h = ?h"
    using take_drop_join [of 4 16 ?h] take_drop_join [of 4 12 ?h] take_drop_join [of 4 8 ?h] by simp
  ultimately show ?thesis using len
    by (simp add: canonical_Parse_def canonical_String_def Let_def nth_append DecodeHex_Encode)
qed

lemma canonical_no_colon: "CHR '':'' \<notin> set (canonical_String u)"
  using EncodeToHex_no_colon [of "big_endian 16 (unat u)"]
  by (auto simp: canonical_String_def Let_def dest!: in_set_takeD in_set_dropD)

definition sample_library :: go_library where
  "sample_library = \<lparr>lib_lower = id, lib_authority = (\<lambda>scheme a. Some (False, a)),
     lib_json = (\<lambda>text.
       if text = ''session'' then Some (JObject [(''apiUrl'', JString ''https://core.test/jmap/''),
         (''capabilities'', JObject [(''urn:ietf:params:jmap:core'', JObject [])])])
       else if text = ''x:Domain/query'' then Some (JObject [(''methodResponses'', JArray [JArray
         [JString ''x:Domain/query'', JObject [(''ids'', JArray [JString ''d1''])], JString ''c0'']])])
       else if text = ''x:Domain/get'' then Some (JObject [(''methodResponses'', JArray [JArray
         [JString ''x:Domain/get'', JObject [(''list'', JArray [JObject [(''id'', JString ''d1''),
            (''name'', JString ''mail.test'')]])], JString ''c0'']])])
       else if text = ''x:Account/query'' then Some (JObject [(''methodResponses'', JArray [JArray
         [JString ''x:Account/query'', JObject [(''ids'', JArray [])], JString ''c0'']])])
       else if text = ''x:Account/set'' then Some (JObject [(''methodResponses'', JArray [JArray
         [JString ''x:Account/set'', JObject [(''created'', JObject [(''mail-suite'',
            JObject [(''id'', JString ''a1'')])])], JString ''c0'']])])
       else None),
     lib_marshal = (\<lambda>j. ''''), lib_RFC3339 = (\<lambda>s. None),
     lib_uuid_String = canonical_String, lib_uuid_Parse = canonical_Parse\<rparr>"

interpretation canonical: uuid_text sample_library
  by unfold_locales (simp_all add: sample_library_def canonical_round_trip canonical_no_colon)

section \<open>Recording calls\<close>

definition recorded :: "'w stalwart_Adapter \<Rightarrow> ('w \<times> http_call list) stalwart_Adapter" where
  "recorded a = \<lparr>sa_lib = sa_lib a, sa_endpoint = sa_endpoint a, sa_adminUsername = sa_adminUsername a,
     sa_adminPassword = sa_adminPassword a, sa_mailboxKey = sa_mailboxKey a,
     sa_Do = (\<lambda>ctx call w. (fst (sa_Do a ctx call (fst w)), snd (sa_Do a ctx call (fst w)), snd w @ [call])),
     sa_ctxErr = (\<lambda>ctx w. sa_ctxErr a ctx (fst w)),
     sa_now = (\<lambda>w. (fst (sa_now a (fst w)), snd (sa_now a (fst w)), snd w)),
     sa_random = (\<lambda>n w. (fst (sa_random a n (fst w)), snd (sa_random a n (fst w)), snd w))\<rparr>"

interpretation recording: recorded_calls "recorded a" snd for a
  by unfold_locales (simp add: recorded_def)

section \<open>A run\<close>

definition sample_reply :: "http_call \<Rightarrow> bytes" where
  \<comment> \<open>The sample mail core answers with a text that names the method.\<close>
  "sample_reply call = (case hc_Body call of
     Some (JObject [_, (_, JArray [JArray (JString name # _)])]) \<Rightarrow> name | _ \<Rightarrow> ''session'')"

definition sample_core :: "go_library \<Rightarrow> unit stalwart_Adapter" where
  "sample_core lib = \<lparr>sa_lib = lib,
     sa_endpoint = \<lparr>url_Path = '''', url_RawPath = '''', url_RawQuery = '''', url_Scheme = ''https'',
       url_Opaque = '''', url_User = False, url_Host = ''core.test''\<rparr>,
     sa_adminUsername = ''admin'', sa_adminPassword = ''secret'', sa_mailboxKey = replicate 32 (CHR ''m''),
     sa_Do = (\<lambda>ctx call w. (Response 200 (Body (sample_reply call) False) False, w)),
     sa_ctxErr = (\<lambda>ctx w. None), sa_now = (\<lambda>w. (2000, w)),
     sa_random = (\<lambda>n w. (Some (replicate n (CHR ''r'')), w))\<rparr>"

abbreviation sample_stalwart :: "unit stalwart_Adapter" where
  "sample_stalwart \<equiv> sample_core sample_library"

interpretation sample_clock: stalwart_clock "recorded (sample_core lib)" for lib
  by unfold_locales (simp add: recorded_def sample_core_def IsZero_def)

definition sample_ensure_command :: EnsureMailboxCommand where
  "sample_ensure_command = \<lparr>ens_OperationID = 9, ens_MailboxID = 7, ens_DomainID = 5, ens_Address = ''a@mail.test'',
     ens_DesiredRevision = 3, ens_ConfigurationHash = replicate 32 (CHR ''h''), ens_PayloadVersion = 1,
     ens_Deadline = 9000\<rparr>"

lemma metadata_round_trip_witness:
  "parseMetadata sample_library (formatMetadata sample_library sample_ensure_command) =
     Some \<lparr>mm_MailboxID = 7, mm_DomainID = 5, mm_OperationID = 9, mm_Revision = 3,
       mm_ConfigurationHash = replicate 32 (CHR ''h'')\<rparr>"
  using metadata_round_trip [of sample_library sample_ensure_command] canonical.parse_String canonical.String_no_colon
  by (simp add: sample_ensure_command_def)

theorem uncertain_request_is_unknown_witness:
  "\<exists>e. fst (requestJSONAs (sample_stalwart\<lparr>sa_Do := \<lambda>ctx call w. (DoFailed True, w)\<rparr>) background ''POST'' ''/jmap/''
     (Some JNull) True ''admin'' ''secret'' decode_envelope ()) = Inl e \<and>
     fst (ClassifyError (Some e)) = ErrorClassUnknown"
proof -
  let ?a = "sample_stalwart\<lparr>sa_Do := \<lambda>ctx call w. (DoFailed True, w)\<rparr>"
  have run: "requestJSONAs ?a background ''POST'' ''/jmap/'' (Some JNull) True ''admin'' ''secret'' decode_envelope () =
      (Inl (stalwart_error ErrorClassUnknown ErrorCodeUnavailable), ())"
    by (simp add: requestJSONAs_def sample_core_def readTimeoutError_def transportError_def)
  have "\<forall>ctx w e. sa_ctxErr ?a ctx w = Some e \<longrightarrow> e \<in> {ContextCanceled, ContextDeadlineExceeded}"
    by (simp add: sample_core_def)
  from uncertain_request_is_unknown [OF this run] show ?thesis unfolding run by simp
qed

lemma sample_fields [simp]:
  "sa_lib (recorded (sample_core lib)) = lib"
  "sa_Do (recorded (sample_core lib)) ctx call w = (Response 200 (Body (sample_reply call) False) False, (), snd w @ [call])"
  by (simp_all add: recorded_def sample_core_def)

lemma sample_reply_call: "hc_Body call = Some (method_call using name args) \<Longrightarrow> sample_reply call = name"
  by (simp add: sample_reply_def method_call_def)

lemma sample_request:
  assumes "sample_reply \<lparr>hc_Method = method, hc_Path = path, hc_Username = username, hc_Password = password,
      hc_Body = body\<rparr> = doc" "doc \<noteq> ''''" "length doc < 100"
    and "Option.bind (lib_json lib doc) target = Some x"
  shows "requestJSONAs (recorded (sample_core lib)) ctx method path body mutation username password target w =
    (Inr x, (), snd w @ [\<lparr>hc_Method = method, hc_Path = path, hc_Username = username, hc_Password = password,
      hc_Body = body\<rparr>])"
  using assms by (simp add: requestJSONAs_def maximumResponseBytes_def)

definition admin_call :: "string \<Rightarrow> string \<Rightarrow> json \<Rightarrow> http_call" where
  "admin_call path name args = \<lparr>hc_Method = ''POST'', hc_Path = path, hc_Username = ''admin'',
     hc_Password = ''secret'', hc_Body = Some (method_call [''urn:ietf:params:jmap:core'', ''urn:stalwart:jmap''] name args)\<rparr>"

lemma sample_call:
  assumes "Option.bind (lib_json lib name) decode_envelope = Some [JArray [JString name, reply, JString ''c0'']]"
    "name \<noteq> ''error''" "name \<noteq> ''''" "length name < 100" "target reply = Some x"
  shows "jmap_call (recorded (sample_core lib)) ctx path name args mutation target w =
    (Inr x, (), snd w @ [admin_call path name args])"
proof -
  have "sa_adminUsername (recorded (sample_core lib)) = ''admin''" "sa_adminPassword (recorded (sample_core lib)) = ''secret''"
    by (simp_all add: recorded_def sample_core_def)
  then show ?thesis using assms
    by (simp add: jmap_call_def callAs_def sample_request sample_reply_call read_response_def admin_call_def)
qed

lemma sample_replies:
  "Option.bind (lib_json sample_library ''x:Domain/query'') decode_envelope =
     Some [JArray [JString ''x:Domain/query'', JObject [(''ids'', JArray [JString ''d1''])], JString ''c0'']]"
  "Option.bind (lib_json sample_library ''x:Domain/get'') decode_envelope =
     Some [JArray [JString ''x:Domain/get'', JObject [(''list'', JArray [JObject [(''id'', JString ''d1''),
        (''name'', JString ''mail.test'')]])], JString ''c0'']]"
  "Option.bind (lib_json sample_library ''x:Account/query'') decode_envelope =
     Some [JArray [JString ''x:Account/query'', JObject [(''ids'', JArray [])], JString ''c0'']]"
  "Option.bind (lib_json sample_library ''x:Account/set'') decode_envelope =
     Some [JArray [JString ''x:Account/set'', JObject [(''created'', JObject [(''mail-suite'',
        JObject [(''id'', JString ''a1'')])])], JString ''c0'']]"
  by (simp_all add: sample_library_def decode_envelope_def field_values_def EqualFold_def)

lemma sample_api_path: "api_path (recorded sample_stalwart) ''https://core.test/jmap/'' = Some ''/jmap/''"
proof -
  have "url_ParseRequestURI id (\<lambda>scheme a. Some (False, a)) ''https://core.test/jmap/'' =
    Some \<lparr>url_Path = ''/jmap/'', url_RawPath = '''', url_RawQuery = '''', url_Scheme = ''https'', url_Opaque = '''',
      url_User = False, url_Host = ''core.test''\<rparr>"
    by (simp add: url_ParseRequestURI_def parse_reference_def absolute_URL_def set_path_def cut_query_def
        escape_path_def PathEscape_char_def path_unescaped_def URL.defs ascii_eval)
  then show ?thesis
    by (simp add: api_path_def recorded_def sample_core_def sample_library_def HasPrefix_def)
qed

lemma sample_fetch_session: "\<exists>call. fetchSession (recorded sample_stalwart) ctx w = (Inr ''/jmap/'', (), snd w @ [call]) \<and>
  \<not> changes_account call"
proof -
  have "Option.bind (lib_json sample_library ''session'') decode_session =
      Some (''https://core.test/jmap/'', [''urn:ietf:params:jmap:core'' \<mapsto> JObject []])"
    by (simp add: sample_library_def decode_session_def fold_eval)
  then have "\<exists>call. requestJSON (recorded sample_stalwart) ctx ''GET'' ''/jmap/session'' None False decode_session w =
      (Inr (''https://core.test/jmap/'', [''urn:ietf:params:jmap:core'' \<mapsto> JObject []]), (), snd w @ [call]) \<and>
      hc_Body call = None"
    by (simp add: requestJSON_def sample_request [where doc = "''session''"] sample_reply_def)
  then show ?thesis by (auto simp: fetchSession_def sample_api_path changes_account_def sets_account_def)
qed

lemma core_find_domain:
  assumes "Option.bind (lib_json lib ''x:Domain/query'') decode_envelope =
      Some [JArray [JString ''x:Domain/query'', JObject [(''ids'', JArray [JString ''d1''])], JString ''c0'']]"
    and "Option.bind (lib_json lib ''x:Domain/get'') decode_envelope =
      Some [JArray [JString ''x:Domain/get'', JObject [(''list'', JArray [JObject [(''id'', JString ''d1''),
        (''name'', JString ''mail.test'')]])], JString ''c0'']]"
  shows "findDomain (recorded (sample_core lib)) ctx path ''mail.test'' w =
  (Inr (Some \<lparr>do_ID = ''d1'', do_Name = ''mail.test''\<rparr>), (), snd w @
   [admin_call path ''x:Domain/query'' (JObject [(''filter'', JObject [(''name'', JString ''mail.test'')]),
      (''limit'', JNumber ''2''), (''calculateTotal'', JBool True)]),
    admin_call path ''x:Domain/get'' (JObject [(''ids'', JArray [JString ''d1'']),
      (''properties'', JArray [JString ''id'', JString ''name''])])])"
proof -
  have q: "jmap_call (recorded (sample_core lib)) ctx path ''x:Domain/query'' args False
      (\<lambda>j. Option.bind (object_members j) (strings_field ''ids'')) w =
      (Inr [''d1''], (), snd w @ [admin_call path ''x:Domain/query'' args])" for args w
    by (rule sample_call [OF assms(1)]) (simp_all add: fold_eval)
  have g: "jmap_call (recorded (sample_core lib)) ctx path ''x:Domain/get'' args False
      (\<lambda>j. map_option (raw_field ''list'') (object_members j)) w = (Inr (Some (JArray [JObject [(''id'', JString ''d1''),
        (''name'', JString ''mail.test'')]])), (), snd w @ [admin_call path ''x:Domain/get'' args])" for args w
    by (rule sample_call [OF assms(2)]) (simp_all add: fold_eval)
  have d: "decode_domainObject (JObject [(''id'', JString ''d1''), (''name'', JString ''mail.test'')]) =
      Some \<lparr>do_ID = ''d1'', do_Name = ''mail.test''\<rparr>" by (simp add: decode_domainObject_def fold_eval)
  have "TrimSpace ''d1'' = ''d1''" by (simp add: ascii_eval)
  then show ?thesis by (simp add: findDomain_def queryIDs_def getObjects_def q g d EqualFold_def)
qed

lemmas sample_find_domain = core_find_domain [OF sample_replies(1,2)]

lemma sample_no_account: "findAccount (recorded sample_stalwart) ctx path ''a'' ''d1'' w =
  (Inr None, (), snd w @ [admin_call path ''x:Account/query'' (JObject [(''filter'',
      JObject [(''name'', JString ''a''), (''domainId'', JString ''d1'')]),
      (''limit'', JNumber ''2''), (''calculateTotal'', JBool True)])])"
proof -
  have q: "jmap_call (recorded sample_stalwart) ctx path ''x:Account/query'' args False
      (\<lambda>j. Option.bind (object_members j) (strings_field ''ids'')) w =
      (Inr [], (), snd w @ [admin_call path ''x:Account/query'' args])" for args w
    by (rule sample_call [OF sample_replies(3)]) (simp_all add: fold_eval)
  show ?thesis by (simp add: findAccount_def queryIDs_def q)
qed

lemma sample_create_account: "createAccount (recorded sample_stalwart) ctx path ''a'' ''d1'' sample_ensure_command w =
  (None, (), snd w @ [admin_call path ''x:Account/set''
     (create_arguments (recorded sample_stalwart) ''a'' ''d1'' sample_ensure_command)])"
proof -
  have s: "jmap_call (recorded sample_stalwart) ctx path ''x:Account/set'' args True decode_setResult w =
      (Inr \<lparr>sr_Created = [''mail-suite'' \<mapsto> ''a1''], sr_Updated = Map.empty, sr_NotCreated = Map.empty,
        sr_NotUpdated = Map.empty\<rparr>, (), snd w @ [admin_call path ''x:Account/set'' args])" for args w
    by (rule sample_call [OF sample_replies(4)]) (simp_all add: decode_setResult_def decode_createdObject_def fold_eval)
  show ?thesis by (simp add: createAccount_def s)
qed

lemma sample_address: "validateEnsureCommand sample_library sample_ensure_command = Inr (''a'', ''mail.test'')"
proof -
  have "\<not> contains_rune (\<lambda>r. r < 33 \<or> 126 < r) ''a@mail.test''"
    by (simp add: contains_rune_def runes_ascii is_ascii_def byte_val_def del: runes.simps)
  moreover have "ToLower id (TrimSpace ''a@mail.test'') = ''a@mail.test''" by (simp add: ascii_eval)
  ultimately show ?thesis
    by (simp add: validateEnsureCommand_def sample_ensure_command_def splitAddress_def PayloadVersion_def IsZero_def
        uuid_Nil_def sample_library_def)
qed

text \<open>The sample run creates the account: five calls, the last of them a change.\<close>

lemma sample_ensure:
  "\<exists>calls. stalwart_EnsureMailbox (recorded sample_stalwart) background sample_ensure_command ((), []) =
     (None, (), calls @ [admin_call ''/jmap/'' ''x:Account/set''
        (create_arguments (recorded sample_stalwart) ''a'' ''d1'' sample_ensure_command)])"
proof -
  obtain call where s: "fetchSession (recorded sample_stalwart) (with_deadline background (ens_Deadline sample_ensure_command))
      ((), []) = (Inr ''/jmap/'', (), [call])" using sample_fetch_session [of _ "((), [])"] by auto
  show ?thesis by (simp add: stalwart_EnsureMailbox_def sample_address s sample_find_domain sample_no_account sample_create_account)
qed

theorem ensure_changes_own_account_witness:
  "\<exists>calls. stalwart_EnsureMailbox (recorded sample_stalwart) background sample_ensure_command ((), []) = (None, (), calls) \<and>
     (\<exists>call \<in> set calls. changes_account call \<and> own_change (recorded sample_stalwart) sample_ensure_command ''a'' call) \<and>
     length (filter changes_account calls) \<le> 2"
proof -
  obtain calls where run: "stalwart_EnsureMailbox (recorded sample_stalwart) background sample_ensure_command ((), []) =
      (None, (), calls @ [admin_call ''/jmap/'' ''x:Account/set''
        (create_arguments (recorded sample_stalwart) ''a'' ''d1'' sample_ensure_command)])" (is "_ = (_, _, ?all)")
    using sample_ensure by blast
  have log: "\<forall>ctx call w. snd (snd (sa_Do (recorded sample_stalwart) ctx call w)) = snd w @ [call]" by simp
  have "changes_account (last ?all)"
    by (auto simp: changes_account_def sets_account_def admin_call_def)
  then show ?thesis
    using ensure_changes_own_account [where log = snd, OF log run] run by (auto simp: sample_address)
qed

end
