(* ===== verification/Stalwart_Read_Witnesses.thy ===== *)
theory Stalwart_Read_Witnesses
  imports Stalwart_Read_Theorems Stalwart_Witnesses
begin

text \<open>Reading one message of the sample mailbox: the properties of \<^verbatim>\<open>Stalwart_Read_Theorems\<close> at
  concrete inputs.\<close>

section \<open>The sample mailbox\<close>

definition sample_scope :: ReadScope where
  "sample_scope = \<lparr>rs_MailboxID = 7, rs_DomainID = 5, rs_Address = ''a@mail.test'', rs_Revision = 3,
     rs_ConfigurationHash = replicate 32 (CHR ''h''), rs_Deadline = 9000\<rparr>"

definition sample_reference :: readToken where
  "sample_reference = \<lparr>rt_Version = 1, rt_Purpose = ''message'', rt_MailboxID = 7, rt_DomainID = 5, rt_Revision = 3,
     rt_ConfigurationHash = replicate 32 (CHR ''h''), rt_ExpiresAt = Unix (2000 + referenceLifetime),
     rt_MessageID = ''m1'', rt_BlobID = '''', rt_QueryState = '''', rt_Position = 0\<rparr>"

definition reading_library :: go_library where
  "reading_library = sample_library\<lparr>
     lib_json := (\<lambda>doc.
       if doc = ''session'' then Some (JObject [(''apiUrl'', JString ''https://core.test/jmap/''),
         (''capabilities'', JObject [(''urn:ietf:params:jmap:core'', JObject []), (''urn:ietf:params:jmap:mail'', JObject [])]),
         (''primaryAccounts'', JObject [(''urn:ietf:params:jmap:mail'', JString ''u1'')])])
       else if doc = ''x:Account/query'' then Some (JObject [(''methodResponses'', JArray [JArray
         [JString ''x:Account/query'', JObject [(''ids'', JArray [JString ''a1''])], JString ''c0'']])])
       else if doc = ''x:Account/get'' then Some (JObject [(''methodResponses'', JArray [JArray
         [JString ''x:Account/get'', JObject [(''list'', JArray [JObject [(''id'', JString ''a1''), (''name'', JString ''a''),
            (''domainId'', JString ''d1''),
            (''description'', JString (formatMetadata sample_library sample_ensure_command))]])], JString ''c0'']])])
       else if doc = ''Email/get'' then Some (JObject [(''methodResponses'', JArray [JArray
         [JString ''Email/get'', JObject [(''list'', JArray [JObject [(''id'', JString ''m1''),
            (''receivedAt'', JString ''2026-01-01T00:00:00Z''), (''subject'', JString ''Hello''),
            (''size'', JNumber ''5'')]])], JString ''c0'']])])
       else if doc = ''token'' then Some (encode_token sample_library sample_reference)
       else lib_json sample_library doc),
     lib_marshal := (\<lambda>j. ''token''), lib_RFC3339 := (\<lambda>s. Some 1000)\<rparr>"

interpretation reading: uuid_text reading_library
  by unfold_locales (simp_all add: reading_library_def sample_library_def canonical_round_trip canonical_no_colon)

abbreviation sample_reader :: "(unit \<times> http_call list) stalwart_Adapter" where
  "sample_reader \<equiv> recorded (sample_core reading_library)"

lemma reading_texts: "encode_token reading_library t = encode_token sample_library t"
  "formatMetadata reading_library c = formatMetadata sample_library c"
  by (simp_all add: encode_token_def formatMetadata_def reading_library_def)

definition sample_opaque :: string where
  "sample_opaque = RawURL_EncodeToString (replicate 12 (CHR ''r'') @
     gcm_Seal (tokenCipher sample_reader) (replicate 12 (CHR ''r'')) ''token'' '''')"

lemma sample_seal: "sealReadToken sample_reader t w = (Inr sample_opaque, w)"
proof -
  have "ReadFull (sa_random sample_reader) 12 w = (Some (replicate 12 (CHR ''r'')), w)"
    by (cases w) (simp add: ReadFull_def recorded_def sample_core_def)
  moreover have "length (gcm_Seal (tokenCipher sample_reader) (replicate 12 (CHR ''r'')) ''token'' '''') = 21"
    by (simp add: length_gcm_Seal [OF length_tokenCipher])
  moreover have "lib_marshal reading_library j = ''token''" for j by (simp add: reading_library_def)
  ultimately show ?thesis
    by (simp add: sealReadToken_def maximumTokenBytes_def sample_opaque_def)
qed

lemma sample_reference_wf: "token_wf sample_reference"
  by (simp add: token_wf_def sample_reference_def Unix_def referenceLifetime_def)

lemma reading_token_json: "lib_json (sa_lib sample_reader) (lib_marshal (sa_lib sample_reader)
   (encode_token (sa_lib sample_reader) sample_reference)) = Some (encode_token (sa_lib sample_reader) sample_reference)"
  by (simp add: reading_texts) (simp add: reading_library_def)

lemma reading_uuids: "\<forall>u. lib_uuid_Parse (sa_lib sample_reader) (lib_uuid_String (sa_lib sample_reader) u) = Some u"
  by (simp add: reading.parse_String)

theorem read_token_opens_iff_witness:
  "fst (openReadToken sample_reader sample_opaque sample_scope ''message'' ((), [])) = Inr sample_reference \<and>
   fst (openReadToken sample_reader sample_opaque (sample_scope\<lparr>rs_MailboxID := 8\<rparr>) ''message'' ((), [])) =
     Inl (tokenError ''message'')"
proof -
  have now: "fst (sa_now sample_reader ((), [])) = 2000" by (simp add: recorded_def sample_core_def)
  show ?thesis
    using read_token_opens_iff [OF reading_uuids reading_token_json sample_reference_wf sample_seal] now
    by (simp add: sample_reference_def sample_scope_def Unix_def referenceLifetime_def)
qed

section \<open>The reads\<close>

lemma reading_replies:
  "Option.bind (lib_json reading_library ''x:Domain/query'') decode_envelope =
     Some [JArray [JString ''x:Domain/query'', JObject [(''ids'', JArray [JString ''d1''])], JString ''c0'']]"
  "Option.bind (lib_json reading_library ''x:Domain/get'') decode_envelope =
     Some [JArray [JString ''x:Domain/get'', JObject [(''list'', JArray [JObject [(''id'', JString ''d1''),
        (''name'', JString ''mail.test'')]])], JString ''c0'']]"
  "Option.bind (lib_json reading_library ''x:Account/query'') decode_envelope =
     Some [JArray [JString ''x:Account/query'', JObject [(''ids'', JArray [JString ''a1''])], JString ''c0'']]"
  "Option.bind (lib_json reading_library ''x:Account/get'') decode_envelope =
     Some [JArray [JString ''x:Account/get'', JObject [(''list'', JArray [JObject [(''id'', JString ''a1''),
        (''name'', JString ''a''), (''domainId'', JString ''d1''),
        (''description'', JString (formatMetadata sample_library sample_ensure_command))]])], JString ''c0'']]"
  "Option.bind (lib_json reading_library ''Email/get'') decode_envelope =
     Some [JArray [JString ''Email/get'', JObject [(''list'', JArray [JObject [(''id'', JString ''m1''),
        (''receivedAt'', JString ''2026-01-01T00:00:00Z''), (''subject'', JString ''Hello''),
        (''size'', JNumber ''5'')]])], JString ''c0'']]"
  by (simp_all add: reading_library_def sample_library_def decode_envelope_def field_values_def EqualFold_def)

lemma reading_session: "\<exists>w'. fetchSession sample_reader ctx w = (Inr ''/jmap/'', w')"
  and reading_mailbox_session: "\<exists>w'. requestJSONAs sample_reader ctx ''GET'' ''/jmap/session'' None False username password
    decode_mailbox_session w = (Inr (''https://core.test/jmap/'',
      [''urn:ietf:params:jmap:core'' \<mapsto> JObject [], ''urn:ietf:params:jmap:mail'' \<mapsto> JObject []],
      [''urn:ietf:params:jmap:mail'' \<mapsto> ''u1'']), w')"
  and reading_api_path: "api_path sample_reader ''https://core.test/jmap/'' = Some ''/jmap/''"
proof -
  have "url_ParseRequestURI id (\<lambda>scheme a. Some (False, a)) ''https://core.test/jmap/'' =
    Some \<lparr>url_Path = ''/jmap/'', url_RawPath = '''', url_RawQuery = '''', url_Scheme = ''https'', url_Opaque = '''',
      url_User = False, url_Host = ''core.test''\<rparr>"
    by (simp add: url_ParseRequestURI_def parse_reference_def absolute_URL_def set_path_def cut_query_def
        escape_path_def PathEscape_char_def path_unescaped_def URL.defs ascii_eval)
  then show path: "api_path sample_reader ''https://core.test/jmap/'' = Some ''/jmap/''"
    by (simp add: api_path_def recorded_def sample_core_def reading_library_def sample_library_def HasPrefix_def)
  have "Option.bind (lib_json reading_library ''session'') decode_session = Some (''https://core.test/jmap/'',
      [''urn:ietf:params:jmap:core'' \<mapsto> JObject [], ''urn:ietf:params:jmap:mail'' \<mapsto> JObject []])"
    by (simp add: reading_library_def decode_session_def fold_eval)
  then show "\<exists>w'. fetchSession sample_reader ctx w = (Inr ''/jmap/'', w')"
    by (simp add: fetchSession_def requestJSON_def sample_request [where doc = "''session''"] sample_reply_def path)
  have "Option.bind (lib_json reading_library ''session'') decode_mailbox_session = Some (''https://core.test/jmap/'',
      [''urn:ietf:params:jmap:core'' \<mapsto> JObject [], ''urn:ietf:params:jmap:mail'' \<mapsto> JObject []],
      [''urn:ietf:params:jmap:mail'' \<mapsto> ''u1''])"
    by (simp add: reading_library_def decode_mailbox_session_def fold_eval)
  then show "\<exists>w'. requestJSONAs sample_reader ctx ''GET'' ''/jmap/session'' None False username password
    decode_mailbox_session w = (Inr (''https://core.test/jmap/'',
      [''urn:ietf:params:jmap:core'' \<mapsto> JObject [], ''urn:ietf:params:jmap:mail'' \<mapsto> JObject []],
      [''urn:ietf:params:jmap:mail'' \<mapsto> ''u1'']), w')"
    by (simp add: sample_request [where doc = "''session''"] sample_reply_def)
qed

lemma reading_domain: "\<exists>w'. findDomain sample_reader ctx path ''mail.test'' w =
  (Inr (Some \<lparr>do_ID = ''d1'', do_Name = ''mail.test''\<rparr>), w')"
  by (simp add: core_find_domain [OF reading_replies(1,2)])

definition sample_stored :: accountObject where
  "sample_stored = \<lparr>ao_ID = ''a1'', ao_Name = ''a'', ao_DomainID = ''d1'',
     ao_Description = formatMetadata sample_library sample_ensure_command\<rparr>"

lemma reading_account: "\<exists>w'. findAccount sample_reader ctx path ''a'' ''d1'' w = (Inr (Some sample_stored), w')"
proof -
  let ?list = "JArray [JObject [(''id'', JString ''a1''), (''name'', JString ''a''), (''domainId'', JString ''d1''),
    (''description'', JString (formatMetadata sample_library sample_ensure_command))]]"
  have q: "jmap_call sample_reader ctx path ''x:Account/query'' args False
      (\<lambda>j. Option.bind (object_members j) (strings_field ''ids'')) w =
      (Inr [''a1''], (), snd w @ [admin_call path ''x:Account/query'' args])" for args w
    by (rule sample_call [OF reading_replies(3)]) (simp_all add: fold_eval)
  have g: "jmap_call sample_reader ctx path ''x:Account/get'' args False
      (\<lambda>j. map_option (raw_field ''list'') (object_members j)) w =
      (Inr (Some ?list), (), snd w @ [admin_call path ''x:Account/get'' args])" for args w
    by (rule sample_call [OF reading_replies(4)]) (simp_all add: fold_eval)
  have d: "decode_array decode_accountObject ?list = Some [sample_stored]"
    by (simp add: decode_accountObject_def fold_eval sample_stored_def)
  have "TrimSpace ''a1'' = ''a1''" by (simp add: ascii_eval)
  then show ?thesis
    by (simp add: findAccount_def queryIDs_def getObjects_def q g d del: decode_array.simps)
      (simp add: sample_stored_def)
qed

lemma reading_address: "splitAddress reading_library ''a@mail.test'' = Inr (''a'', ''mail.test'')"
  using sample_address
  by (simp add: validateEnsureCommand_def sample_ensure_command_def splitAddress_def reading_library_def
      split: if_splits)

lemma reading_current: "metadata_current reading_library sample_scope sample_stored"
proof -
  have "parseMetadata reading_library (formatMetadata reading_library sample_ensure_command) =
    Some \<lparr>mm_MailboxID = 7, mm_DomainID = 5, mm_OperationID = 9, mm_Revision = 3,
      mm_ConfigurationHash = replicate 32 (CHR ''h'')\<rparr>"
    using reading.parse_format [of sample_ensure_command] by (simp add: sample_ensure_command_def)
  then show ?thesis
    by (simp add: metadata_current_def sample_stored_def sample_scope_def reading_texts)
qed

lemma reading_open: "\<exists>s w'. openMailboxSession sample_reader ctx sample_scope w = (Inr s, w')"
proof -
  obtain w1 where 1: "fetchSession sample_reader ctx w = (Inr ''/jmap/'', w1)" using reading_session by blast
  obtain w2 where 2: "findDomain sample_reader ctx ''/jmap/'' ''mail.test'' w1 =
      (Inr (Some \<lparr>do_ID = ''d1'', do_Name = ''mail.test''\<rparr>), w2)" using reading_domain by blast
  obtain w3 where 3: "findAccount sample_reader ctx ''/jmap/'' ''a'' ''d1'' w2 = (Inr (Some sample_stored), w3)"
    using reading_account by blast
  have address: "rs_Address sample_scope = ''a@mail.test''" by (simp add: sample_scope_def)
  obtain w4 where "requestJSONAs sample_reader ctx ''GET'' ''/jmap/session'' None False ''a@mail.test''
      (mailboxPassword sample_reader (rs_MailboxID sample_scope) (rs_Revision sample_scope)) decode_mailbox_session w3 =
      (Inr (''https://core.test/jmap/'', [''urn:ietf:params:jmap:core'' \<mapsto> JObject [],
        ''urn:ietf:params:jmap:mail'' \<mapsto> JObject []], [''urn:ietf:params:jmap:mail'' \<mapsto> ''u1'']), w4)"
    using reading_mailbox_session by blast
  then show ?thesis
    by (cases w4) (simp add: openMailboxSession_def address reading_address 1 2 3 reading_current Let_def read_mailbox_session_def
        reading_api_path coreCapability_def mailCapability_def)
qed

definition sample_email :: emailObject where
  "sample_email = \<lparr>eo_ID = ''m1'', eo_ReceivedAt = ''2026-01-01T00:00:00Z'', eo_From = [], eo_To = [], eo_Cc = [],
     eo_Subject = ''Hello'', eo_Preview = '''', eo_Size = 5, eo_HasAttachment = False, eo_TextBody = [],
     eo_HTMLBody = [], eo_BodyValues = Map.empty, eo_Attachments = []\<rparr>"

lemma reading_emails: "\<exists>l. getEmails sample_reader ctx session [''m1''] properties detail w = (Inr [sample_email], (), l)"
proof -
  have size: "ParseInt ''5'' = Some 5" by code_simp
  have "decode_email (JObject [(''id'', JString ''m1''), (''receivedAt'', JString ''2026-01-01T00:00:00Z''),
      (''subject'', JString ''Hello''), (''size'', JNumber ''5'')]) = Some sample_email"
    by (simp add: decode_email_def array_field_def int_field_def bool_field_def fold_eval size sample_email_def)
  then have "\<exists>l. callMailbox sample_reader ctx session ''Email/get''
      (get_arguments session [''m1''] properties detail) (\<lambda>j. Option.bind (object_members j) (\<lambda>kvs. Option.bind (array_field decode_email ''list'' kvs) (\<lambda>l.
        map_option (Pair l) (strings_field ''notFound'' kvs)))) w = (Inr ([sample_email], []), (), l)"
    unfolding callMailbox_def callAs_def
    by (subst sample_request [where doc = "''Email/get''", OF sample_reply_call _ _ reading_replies(5)])
      (simp_all add: read_response_def array_field_def fold_eval)
  then show ?thesis by (auto simp: getEmails_def)
qed

lemma sample_now: "sa_now sample_reader w = (2000, w)"
  by (cases w) (simp add: recorded_def sample_core_def)

lemma reading_summary: "\<exists>s. messageSummary sample_reader sample_scope sample_email w = (Inr s, w)"
proof -
  have "lib_RFC3339 reading_library x = Some 1000" for x by (simp add: reading_library_def)
  then show ?thesis
    by (simp add: messageSummary_def newReadToken_def sample_now sample_seal from_world_def) (simp add: sample_email_def)
qed

lemma reading_message: "\<exists>detail w'. GetMessage sample_reader ctx sample_scope sample_opaque w = (Inr detail, w')"
proof -
  have scope: "validateReadScope reading_library sample_scope = None"
    using reading_address by (simp add: validateReadScope_def sample_scope_def uuid_Nil_def IsZero_def)
  have opened: "openReadToken sample_reader sample_opaque sample_scope ''message'' w = (Inr sample_reference, w)"
    using sealed_token_opens [OF reading_uuids reading_token_json sample_reference_wf sample_seal]
    by (simp add: sample_now from_world_def)
      (simp add: token_matches_def sample_reference_def sample_scope_def Unix_def referenceLifetime_def)
  let ?ctx = "with_deadline ctx (rs_Deadline sample_scope)"
  obtain s w1 where s: "openMailboxSession sample_reader ?ctx sample_scope w = (Inr s, w1)" using reading_open by blast
  obtain l where e: "getEmails sample_reader ?ctx s [''m1''] (summaryProperties @
      [''to'', ''cc'', ''textBody'', ''htmlBody'', ''attachments'', ''bodyValues'']) True w1 = (Inr [sample_email], (), l)"
    using reading_emails by blast
  obtain m where m: "messageSummary sample_reader sample_scope sample_email ((), l) = (Inr m, (), l)" using reading_summary by blast
  have "rt_MessageID sample_reference = ''m1''" "eo_ID sample_email = ''m1''" "eo_TextBody sample_email = []"
    "eo_Attachments sample_email = []" by (simp_all add: sample_reference_def sample_email_def)
  then show ?thesis using e by (simp add: GetMessage_def scope opened Let_def s message_detail_def m)
qed

theorem read_results_bounded_witness:
  "\<exists>detail. fst (GetMessage sample_reader background sample_scope sample_opaque ((), [])) = Inr detail \<and>
     length (md_Text detail) \<le> 65537 \<and> ms_ID (md_Summary detail) = sample_opaque"
proof -
  obtain detail w' where g: "GetMessage sample_reader background sample_scope sample_opaque ((), []) = (Inr detail, w')"
    using reading_message by blast
  have "length (md_Text detail) \<le> 65537 \<and> ms_ID (md_Summary detail) = sample_opaque"
    using read_results_bounded [of sample_reader background
      "\<lparr>lm_Scope = sample_scope, lm_Limit = 10, lm_Cursor = ''''\<rparr>" "((), [])" sample_scope sample_opaque] g by blast
  with g show ?thesis by simp
qed

end
