(* ===== verification/Identity_Http.thy ===== *)
theory Identity_Http
  imports Authorization Go_Text
begin

text \<open>
  \<^verbatim>\<open>internal/identity/httpapi/handler.go\<close>: the four browser endpoints of the
  authentication. What a handler reads from its \<^verbatim>\<open>gin.Context\<close> (the query, the cookies,
  the request identifier, the client's address) is a record, what it writes is a
  response; \<open>uuid_text\<close> is \<^verbatim>\<open>uuid.UUID.String\<close>. As in the domain packages an error is its
  code, without the message text.
\<close>

section \<open>Requests and responses\<close>

definition SessionCookieName :: string where
  "SessionCookieName = ''__Host-mail_suite_session''"

definition AuthFlowCookieName :: string where
  "AuthFlowCookieName = ''__Host-mail_suite_auth_flow''"

fun AccountType_string :: "AccountType \<Rightarrow> string" where
  \<comment> \<open>The conversion \<^verbatim>\<open>string(value)\<close>.\<close>
  "AccountType_string AccountTypeMailbox = ''mailbox''"
| "AccountType_string AccountTypeAdministrator = ''administrator''"
| "AccountType_string (AccountTypeOther s) = s"

definition maximumStateBytes :: nat where
  "maximumStateBytes = 2048"

definition maximumAuthorizationCodeBytes :: nat where
  "maximumAuthorizationCodeBytes = 4096"

definition maximumProviderErrorBytes :: nat where
  "maximumProviderErrorBytes = 256"

record auth_Context =
  gc_request :: http_Request
  gc_context :: go_context
  gc_Query :: "string \<Rightarrow> string"
  gc_Cookie :: "string \<Rightarrow> string" \<comment> \<open>empty where the cookie is missing\<close>
  gc_request_id :: "string option" \<comment> \<open>None where the key is missing or no text\<close>
  gc_ClientIP :: string

datatype SameSite = SameSiteDefaultMode | SameSiteLaxMode | SameSiteStrictMode | SameSiteNoneMode

record http_Cookie =
  ck_Name :: string
  ck_Value :: string
  ck_Path :: string
  ck_Expires :: "instant option"
  ck_MaxAge :: int
  ck_Secure :: bool
  ck_HttpOnly :: bool
  ck_SameSite :: SameSite

record principalResponse =
  pre_ID :: string
  pre_DisplayName :: string

record mailboxResponse =
  mre_ID :: string
  mre_Address :: string

record authenticatedSessionResponse =
  asr_Authenticated :: bool
  asr_Principal :: principalResponse
  asr_AccountType :: string
  asr_TenantID :: string
  asr_Mailbox :: "mailboxResponse option"
  asr_Permissions :: "string list"
  asr_ExpiresAt :: string
  asr_CSRFToken :: string

record logoutResponse =
  lgr_LoggedOut :: bool
  lgr_ProviderLogoutURL :: string

record errorDetail =
  ed_Code :: string
  ed_RequestID :: string

datatype auth_body =
    RedirectTo string
  | anonymousSessionResponse bool
  | SessionBody authenticatedSessionResponse
  | LogoutBody logoutResponse
  | ErrorBody errorDetail

record auth_response =
  rsp_Header :: "(string \<times> string) list"
  rsp_Cookies :: "http_Cookie list"
  rsp_Status :: nat
  rsp_Body :: auth_body

section \<open>Helpers\<close>

definition header_Get :: "go_header \<Rightarrow> string \<Rightarrow> string" where
  "header_Get header name = (case header_Values header name of [] \<Rightarrow> '''' | v # _ \<Rightarrow> v)"

definition valueString :: "string option \<Rightarrow> string" where
  "valueString value = (case value of None \<Rightarrow> TrimSpace '''' | Some text \<Rightarrow> TrimSpace text)"

definition requestMetadata :: "auth_Context \<Rightarrow> RequestMetadata" where
  "requestMetadata ctx =
     \<lparr>rm_RequestID = valueString (gc_request_id ctx),
      rm_Source = gc_ClientIP ctx @ [CHR 0x00] @ header_Get (req_Header (gc_request ctx)) ''User-Agent''\<rparr>"

definition secureCookie :: "string \<Rightarrow> string \<Rightarrow> int \<Rightarrow> instant \<Rightarrow> http_Cookie" where
  \<comment> \<open>The cookie \<^verbatim>\<open>setSecureCookie\<close> adds to the response.\<close>
  "secureCookie name value maxAge expiresAt =
     \<lparr>ck_Name = name, ck_Value = value, ck_Path = ''/'', ck_Expires = Some expiresAt, ck_MaxAge = maxAge,
      ck_Secure = True, ck_HttpOnly = True, ck_SameSite = SameSiteLaxMode\<rparr>"

definition clearedCookie :: "string \<Rightarrow> http_Cookie" where
  \<comment> \<open>The cookie \<^verbatim>\<open>clearSecureCookie\<close> adds to the response.\<close>
  "clearedCookie name =
     \<lparr>ck_Name = name, ck_Value = '''', ck_Path = ''/'', ck_Expires = None, ck_MaxAge = - 1,
      ck_Secure = True, ck_HttpOnly = True, ck_SameSite = SameSiteLaxMode\<rparr>"

definition errorStatus :: "go_error option \<Rightarrow> nat \<times> string" where
  "errorStatus err = (case Option.bind err errors_As_identity of
     None \<Rightarrow> (503, identity_PersistenceUnavailable)
   | Some code \<Rightarrow>
       (if code \<in> {identity_InvalidRequest, identity_InvalidReturnTo, identity_AuthFlowInvalid} then 400
        else if code \<in> {identity_AuthForbidden, identity_CSRFInvalid} then 403
        else if code = identity_AuthRequired then 401 else 503, code))"

definition no_store :: "(string \<times> string) list" where
  "no_store = [(''Cache-Control'', ''no-store'')]"

definition writeError :: "auth_Context \<Rightarrow> http_Cookie list \<Rightarrow> go_error option \<Rightarrow> auth_response" where
  \<comment> \<open>The response with the cookies already written.\<close>
  "writeError ctx cookies err =
     \<lparr>rsp_Header = no_store, rsp_Cookies = cookies, rsp_Status = fst (errorStatus err),
      rsp_Body = ErrorBody \<lparr>ed_Code = snd (errorStatus err), ed_RequestID = valueString (gc_request_id ctx)\<rparr>\<rparr>"

section \<open>The handler\<close>

record 'w authService =
  as_StartLogin :: "go_context \<Rightarrow> string \<Rightarrow> RequestMetadata \<Rightarrow> 'w \<Rightarrow> LoginStart result \<times> 'w"
  as_CompleteLogin :: "go_context \<Rightarrow> CallbackInput \<Rightarrow> 'w \<Rightarrow> CallbackResult result \<times> 'w"
  as_RejectLogin :: "go_context \<Rightarrow> string \<Rightarrow> string \<Rightarrow> RequestMetadata \<Rightarrow> 'w \<Rightarrow> go_error option \<times> 'w"
  as_ResolveSession :: "go_context \<Rightarrow> string \<Rightarrow> 'w \<Rightarrow> SessionView option result \<times> 'w"
  as_Logout :: "go_context \<Rightarrow> string \<Rightarrow> string \<Rightarrow> RequestMetadata \<Rightarrow> 'w \<Rightarrow> LogoutResult result \<times> 'w"

record 'w auth_Handler =
  ah_service :: "'w authService"
  ah_trustedOrigin :: string

definition handler_New ::
  "(nat \<Rightarrow> nat) \<Rightarrow> parse_authority \<Rightarrow> 'w authService option \<Rightarrow> string \<Rightarrow> 'w auth_Handler result" where
  "handler_New uc authority service trustedOrigin =
     (case (service, url_ParseRequestURI uc authority trustedOrigin) of
        (Some s, Some parsed) \<Rightarrow>
          if url_Scheme parsed \<noteq> ''https'' \<or> url_Host parsed = '''' \<or> url_Path parsed \<noteq> '''' \<or>
             url_RawQuery parsed \<noteq> ''''
          then Inl (OtherError ''identity http handler'')
          else Inr \<lparr>ah_service = s, ah_trustedOrigin = trustedOrigin\<rparr>
      | _ \<Rightarrow> Inl (OtherError ''identity http handler''))"

definition login :: "'w auth_Handler \<Rightarrow> auth_Context \<Rightarrow> 'w \<Rightarrow> auth_response \<times> 'w" where
  "login handler ctx w =
     on_result (as_StartLogin (ah_service handler) (gc_context ctx) (gc_Query ctx ''return_to'') (requestMetadata ctx) w)
       (\<lambda>e w. (writeError ctx [] (Some e), w))
       (\<lambda>start w. (\<lparr>rsp_Header = no_store,
          rsp_Cookies = [secureCookie AuthFlowCookieName (ls_BrowserCookie start)
            (DefaultAuthFlowLifetime div 1000000000) (ls_ExpiresAt start)],
          rsp_Status = 302, rsp_Body = RedirectTo (ls_AuthorizationURL start)\<rparr>, w))"

definition callback_rejected :: "string \<Rightarrow> string \<Rightarrow> string \<Rightarrow> bool" where
  \<comment> \<open>The guard of \<^verbatim>\<open>callback\<close> on the three query parameters.\<close>
  "callback_rejected state code providerError \<longleftrightarrow>
     state = '''' \<or> maximumStateBytes < length state \<or> (code = '''') = (providerError = '''') \<or>
     maximumAuthorizationCodeBytes < length code \<or> maximumProviderErrorBytes < length providerError"

definition callback :: "'w auth_Handler \<Rightarrow> auth_Context \<Rightarrow> 'w \<Rightarrow> auth_response \<times> 'w" where
  "callback handler ctx w =
     (let state = gc_Query ctx ''state''; code = gc_Query ctx ''code''; providerError = gc_Query ctx ''error'';
          browserCookie = gc_Cookie ctx AuthFlowCookieName; cleared = [clearedCookie AuthFlowCookieName];
          reject = from_world (as_RejectLogin (ah_service handler) (gc_context ctx) state browserCookie
              (requestMetadata ctx) w) (\<lambda>err w. (writeError ctx cleared err, w))
      in if callback_rejected state code providerError then reject
         else if providerError \<noteq> '''' then reject
         else
           on_result (as_CompleteLogin (ah_service handler) (gc_context ctx)
               \<lparr>ci_State = state, ci_BrowserCookie = browserCookie, ci_Code = code,
                ci_Metadata = requestMetadata ctx\<rparr> w)
             (\<lambda>e w. (writeError ctx cleared (Some e), w))
             (\<lambda>result w. (\<lparr>rsp_Header = no_store,
                rsp_Cookies = cleared @ [secureCookie SessionCookieName (cbr_SessionToken result)
                  (DefaultSessionAbsoluteTimeout div 1000000000) (cbr_ExpiresAt result)],
                rsp_Status = 302, rsp_Body = RedirectTo (cbr_RedirectTo result)\<rparr>, w)))"

definition session_response :: "(uuid \<Rightarrow> string) \<Rightarrow> SessionView \<Rightarrow> authenticatedSessionResponse" where
  "session_response uuid_text view =
     (let principal = ses_Principal (sv_Session view) in
      \<lparr>asr_Authenticated = True,
       asr_Principal = \<lparr>pre_ID = uuid_text (pr_ID principal), pre_DisplayName = pr_DisplayName principal\<rparr>,
       asr_AccountType = AccountType_string (pr_AccountType principal),
       asr_TenantID = uuid_text (pr_TenantID principal),
       asr_Mailbox = map_option (\<lambda>m. \<lparr>mre_ID = uuid_text (mbx_ID m), mre_Address = mbx_Address m\<rparr>)
         (pr_Mailbox principal),
       asr_Permissions = sort (ses_Permissions (sv_Session view)),
       asr_ExpiresAt = format_RFC3339Nano (ExpiresAt (sv_Session view)),
       asr_CSRFToken = sv_CSRFToken view\<rparr>)"

definition session_handler ::
  "(uuid \<Rightarrow> string) \<Rightarrow> 'w auth_Handler \<Rightarrow> auth_Context \<Rightarrow> 'w \<Rightarrow> auth_response \<times> 'w" where
  "session_handler uuid_text handler ctx w =
     on_result (as_ResolveSession (ah_service handler) (gc_context ctx) (gc_Cookie ctx SessionCookieName) w)
       (\<lambda>e w. (writeError ctx [] (Some e), w))
       (\<lambda>view w. (\<lparr>rsp_Header = no_store, rsp_Cookies = [], rsp_Status = 200,
          rsp_Body = (case view of None \<Rightarrow> anonymousSessionResponse False
            | Some v \<Rightarrow> SessionBody (session_response uuid_text v))\<rparr>, w))"

definition validLogoutContent :: "(nat \<Rightarrow> nat) \<Rightarrow> http_Request \<Rightarrow> bool" where
  "validLogoutContent uc request =
     (if 0 < req_ContentLength request \<or> req_TransferEncoding request \<noteq> [] then False
      else let contentType = header_Get (req_Header request) ''Content-Type'' in
        contentType = '''' \<or> ParseMediaType uc contentType = Some ''application/json'')"

definition handler_trustedBrowserRequest ::
  "(nat \<Rightarrow> nat) \<Rightarrow> parse_authority \<Rightarrow> 'w auth_Handler \<Rightarrow> http_Request \<Rightarrow> bool" where
  "handler_trustedBrowserRequest uc authority handler request =
     (let origin = header_Get (req_Header request) ''Origin'' in
      if origin \<noteq> '''' then origin = ah_trustedOrigin handler
      else (case url_ParseRequestURI uc authority (header_Get (req_Header request) ''Referer'') of
          None \<Rightarrow> False
        | Some parsed \<Rightarrow>
            if url_Scheme parsed = '''' \<or> url_Host parsed = '''' then False
            else url_Scheme parsed @ ''://'' @ url_Host parsed = ah_trustedOrigin handler))"

definition logout_handler ::
  "(nat \<Rightarrow> nat) \<Rightarrow> parse_authority \<Rightarrow> 'w auth_Handler \<Rightarrow> auth_Context \<Rightarrow> 'w \<Rightarrow> auth_response \<times> 'w" where
  "logout_handler uc authority handler ctx w =
     (if \<not> validLogoutContent uc (gc_request ctx) \<or>
         \<not> handler_trustedBrowserRequest uc authority handler (gc_request ctx)
      then (writeError ctx [] (Some (identity_NewError identity_CSRFInvalid)), w)
      else
        on_result (as_Logout (ah_service handler) (gc_context ctx) (gc_Cookie ctx SessionCookieName)
            (header_Get (req_Header (gc_request ctx)) ''X-CSRF-Token'') (requestMetadata ctx) w)
          (\<lambda>e w. (writeError ctx [] (Some e), w))
          (\<lambda>result w.
            if lr_ProviderLogoutURL result = ''''
            then (writeError ctx [] (Some (identity_NewError identity_PersistenceUnavailable)), w)
            else (\<lparr>rsp_Header = no_store, rsp_Cookies = [clearedCookie SessionCookieName], rsp_Status = 200,
               rsp_Body = LogoutBody \<lparr>lgr_LoggedOut = True,
                 lgr_ProviderLogoutURL = lr_ProviderLogoutURL result\<rparr>\<rparr>, w)))"

section \<open>Routes\<close>

definition RegisterRoutes ::
  "(nat \<Rightarrow> nat) \<Rightarrow> parse_authority \<Rightarrow> (uuid \<Rightarrow> string) \<Rightarrow> 'w auth_Handler \<Rightarrow>
   (string \<times> string \<times> (auth_Context \<Rightarrow> 'w \<Rightarrow> auth_response \<times> 'w)) list" where
  "RegisterRoutes uc authority uuid_text handler =
     [(''GET'', ''/api/v1/auth/login'', login handler),
      (''GET'', ''/api/v1/auth/callback'', callback handler),
      (''GET'', ''/api/v1/session'', session_handler uuid_text handler),
      (''POST'', ''/api/v1/auth/logout'', logout_handler uc authority handler)]"

definition identity_authService :: "(nat \<Rightarrow> nat) \<Rightarrow> 'w identity_Service \<Rightarrow> 'w authService" where
  \<comment> \<open>The identity service as the handler's interface.\<close>
  "identity_authService uc service =
     \<lparr>as_StartLogin = StartLogin uc service, as_CompleteLogin = CompleteLogin service,
      as_RejectLogin = (\<lambda>ctx state browserCookie metadata w.
        from_world (RejectLogin service ctx state browserCookie metadata w) (\<lambda>e w. (Some e, w))),
      as_ResolveSession = service_ResolveSession service, as_Logout = Logout service\<rparr>"

end
