(* ===== verification/Identity_Http_Theorems.thy ===== *)
theory Identity_Http_Theorems
  imports Identity_Http Boundary_System
begin

text \<open>
  What a browser can rely on: the cookies and headers of every answer of the four
  endpoints, that the session cookie is handed out only for a session in the tables, and
  that a logout answered with success ends it.
\<close>

section \<open>Answers\<close>

definition host_cookie :: "http_Cookie \<Rightarrow> bool" where
  \<comment> \<open>What browsers demand of a cookie with the prefix \<^verbatim>\<open>__Host-\<close>, and hidden from scripts.\<close>
  "host_cookie c \<longleftrightarrow> HasPrefix (ck_Name c) ''__Host-'' \<and> ck_Secure c \<and> ck_HttpOnly c \<and> ck_Path c = ''/'' \<and>
     ck_SameSite c = SameSiteLaxMode"

lemma host_cookies [simp]:
  "host_cookie (secureCookie SessionCookieName v a e)" "host_cookie (secureCookie AuthFlowCookieName v a e)"
  "host_cookie (clearedCookie SessionCookieName)" "host_cookie (clearedCookie AuthFlowCookieName)"
  by (simp_all add: host_cookie_def secureCookie_def clearedCookie_def SessionCookieName_def AuthFlowCookieName_def
      HasPrefix_iff)

lemma cookie_names [simp]: "SessionCookieName \<noteq> AuthFlowCookieName" "AuthFlowCookieName \<noteq> SessionCookieName"
  by (simp_all add: SessionCookieName_def AuthFlowCookieName_def)

lemma cookie_simps [simp]:
  "ck_Name (secureCookie n v a e) = n" "ck_Value (secureCookie n v a e) = v" "ck_Expires (secureCookie n v a e) = Some e"
  "ck_Name (clearedCookie n) = n" "ck_Value (clearedCookie n) = []"
  "secureCookie n v a e \<noteq> clearedCookie m" "clearedCookie m \<noteq> secureCookie n v a e"
  "clearedCookie n = clearedCookie m \<longleftrightarrow> n = m"
  by (auto simp: secureCookie_def clearedCookie_def)

lemma errorStatus_range: "fst (errorStatus err) \<in> {400, 401, 403, 503}"
  by (simp add: errorStatus_def split: option.split)

definition session_value :: "auth_response \<Rightarrow> string list" where
  \<comment> \<open>The session tokens an answer hands to the browser.\<close>
  "session_value r = map ck_Value (filter (\<lambda>c. ck_Name c = SessionCookieName \<and> ck_Value c \<noteq> []) (rsp_Cookies r))"

definition guarded_answer :: "string \<Rightarrow> string \<Rightarrow> auth_response \<Rightarrow> bool" where
  "guarded_answer method path r \<longleftrightarrow> (''Cache-Control'', ''no-store'') \<in> set (rsp_Header r) \<and>
     list_all host_cookie (rsp_Cookies r) \<and> rsp_Status r \<in> {200, 302, 400, 401, 403, 503} \<and>
     (session_value r \<noteq> [] \<longrightarrow> path = ''/api/v1/auth/callback'' \<and> rsp_Status r = 302) \<and>
     (AuthFlowCookieName \<in> ck_Name ` set (rsp_Cookies r) \<longrightarrow>
        path \<in> {''/api/v1/auth/login'', ''/api/v1/auth/callback''}) \<and>
     (clearedCookie SessionCookieName \<in> set (rsp_Cookies r) \<longrightarrow>
        path = ''/api/v1/auth/logout'' \<and> method = ''POST'' \<and> rsp_Status r = 200)"

lemma guarded_writeError:
  "guarded_answer method path (writeError ctx [] err)"
  "guarded_answer method ''/api/v1/auth/callback'' (writeError ctx [clearedCookie AuthFlowCookieName] err)"
  using errorStatus_range [of err] by (auto simp: guarded_answer_def session_value_def writeError_def no_store_def)

lemma guarded_on_result:
  assumes "\<And>e w. guarded_answer method path (fst (fail e w))" "\<And>x w. guarded_answer method path (fst (ok x w))"
  shows "guarded_answer method path (fst (on_result r fail ok))"
  using assms by (simp add: on_result_def split: sum.split)

lemma endpoints_guarded:
  "guarded_answer ''GET'' ''/api/v1/auth/login'' (fst (login handler ctx w))"
  "guarded_answer ''GET'' ''/api/v1/auth/callback'' (fst (callback handler ctx w))"
  "guarded_answer ''GET'' ''/api/v1/session'' (fst (session_handler uuid_text handler ctx w))"
  "guarded_answer ''POST'' ''/api/v1/auth/logout'' (fst (logout_handler uc authority handler ctx w))"
  unfolding login_def callback_def session_handler_def logout_handler_def Let_def from_world_def
  by (auto intro!: guarded_on_result simp: guarded_writeError split: prod.split)
    (simp_all add: guarded_answer_def no_store_def session_value_def)

text \<open>(C19) Every answer of the authentication endpoints, success or error, forbids caching, carries only cookies
  that are bound to the host, sent over TLS alone and hidden from scripts, and has one of six status codes; only
  the callback hands out a session token, with a redirect; only the login and the callback touch the login flow's
  cookie; and only the logout takes the session cookie back, with a success.\<close>

theorem auth_answers_guarded:
  assumes "(method, path, endpoint) \<in> set (RegisterRoutes uc authority uuid_text handler)"
    and "endpoint ctx w = (response, w')"
  shows "(''Cache-Control'', ''no-store'') \<in> set (rsp_Header response) \<and>
    list_all host_cookie (rsp_Cookies response) \<and> rsp_Status response \<in> {200, 302, 400, 401, 403, 503} \<and>
    (session_value response \<noteq> [] \<longrightarrow> path = ''/api/v1/auth/callback'' \<and> rsp_Status response = 302) \<and>
    (AuthFlowCookieName \<in> ck_Name ` set (rsp_Cookies response) \<longrightarrow>
       path \<in> {''/api/v1/auth/login'', ''/api/v1/auth/callback''}) \<and>
    (clearedCookie SessionCookieName \<in> set (rsp_Cookies response) \<longrightarrow>
       path = ''/api/v1/auth/logout'' \<and> method = ''POST'' \<and> rsp_Status response = 200)"
proof -
  have "guarded_answer method path response"
    using assms endpoints_guarded [where ctx = ctx and w = w] by (auto simp: RegisterRoutes_def) (metis fst_conv)+
  then show ?thesis by (simp add: guarded_answer_def)
qed

section \<open>Sessions in the browser\<close>

lemma callback_session_cookie:
  assumes "callback handler ctx w = (response, w')" "cookie \<in> set (rsp_Cookies response)"
    and "ck_Name cookie = SessionCookieName"
  obtains result where "\<not> callback_rejected (gc_Query ctx ''state'') (gc_Query ctx ''code'') (gc_Query ctx ''error'')"
    "gc_Query ctx ''error'' = ''''"
    "as_CompleteLogin (ah_service handler) (gc_context ctx) \<lparr>ci_State = gc_Query ctx ''state'',
       ci_BrowserCookie = gc_Cookie ctx AuthFlowCookieName, ci_Code = gc_Query ctx ''code'',
       ci_Metadata = requestMetadata ctx\<rparr> w = (Inr result, w')"
    "cookie = secureCookie SessionCookieName (cbr_SessionToken result) (DefaultSessionAbsoluteTimeout div 1000000000)
       (cbr_ExpiresAt result)"
    "rsp_Status response = 302" "rsp_Body response = RedirectTo (cbr_RedirectTo result)"
proof -
  let ?input = "\<lparr>ci_State = gc_Query ctx ''state'', ci_BrowserCookie = gc_Cookie ctx AuthFlowCookieName,
    ci_Code = gc_Query ctx ''code'', ci_Metadata = requestMetadata ctx\<rparr>"
  obtain r w1 where r: "as_CompleteLogin (ah_service handler) (gc_context ctx) ?input w = (r, w1)" by force
  show thesis
    by (rule that [of "projr r"]; use assms in \<open>cases r; auto simp: callback_def Let_def r writeError_def from_world_def
      split: if_splits\<close>)
qed

text \<open>(C18) The callback gives a browser the session cookie only for a login that went all the way: the request was
  within its bounds; the flow it names, of this browser, was open and is consumed now; the identity the provider
  answered in this very call, for the presented code and the flow's own verifier, carries the flow's nonce and belongs
  to a sound active account; where that is an administrator, the answer's authentication context is an allowed one
  and it names every required method; the token's session is in the tables, not revoked, and the login on record; and the browser is
  sent to a page of that account's portal.\<close>

theorem callback_opens_session:
  assumes "service = api_identity_service repository provider hasher pkce policy clock random uuids"
    and "repository_wf repository" "\<forall>n. identity_races (iw_envs w n)" "identity_inv (iw_db w)"
    and "ah_service handler = identity_authService uc service" "callback handler ctx w = (response, w')"
    and "cookie \<in> set (rsp_Cookies response)" "ck_Name cookie = SessionCookieName"
  shows "rsp_Status response = 302 \<and> length (gc_Query ctx ''state'') \<le> 2048 \<and> length (gc_Query ctx ''code'') \<le> 4096 \<and>
    (\<exists>f s a verifier ext account seen.
      Decrypt pkce (af_pkce_verifier_ciphertext f) (af_encryption_key_id f) = Inr verifier \<and>
      provider_answer service (gc_context ctx) \<lparr>ci_State = gc_Query ctx ''state'',
        ci_BrowserCookie = gc_Cookie ctx AuthFlowCookieName, ci_Code = gc_Query ctx ''code'',
        ci_Metadata = requestMetadata ctx\<rparr> w verifier ext \<and>
      f \<in> set (idb_flows (iw_db w')) \<and>
      af_state_digest f = Digest hasher SecretPurposeAuthFlowState (gc_Query ctx ''state'') \<and>
      af_browser_cookie_digest f = Digest hasher SecretPurposeAuthFlowCookie (gc_Cookie ctx AuthFlowCookieName) \<and>
      af_consumed_at f = Some (us_created_at s) \<and> us_created_at s < af_expires_at f \<and>
      af_nonce_digest f = Digest hasher SecretPurposeOIDCNonce (oid_Nonce ext) \<and>
      identity_step\<^sup>*\<^sup>* (iw_db w) seen \<and> account_sound seen account \<and>
      (pr_AccountType account = AccountTypeAdministrator \<longrightarrow>
         (mfa_AllowedACR policy \<noteq> [] \<longrightarrow> oid_ACR ext \<in> set (mfa_AllowedACR policy)) \<and>
         set (mfa_RequiredAMR policy) \<subseteq> set (oid_AMR ext)) \<and>
      s \<in> set (idb_sessions (iw_db w')) \<and>
      us_session_digest s = Digest hasher SecretPurposeSessionCookie (ck_Value cookie) \<and>
      us_principal_id s = pr_ID account \<and> us_oidc_issuer s = oid_Issuer ext \<and> us_oidc_subject s = oid_Subject ext \<and>
      us_absolute_expires_at s = us_created_at s + DefaultSessionAbsoluteTimeout \<and> us_revoked_at s = None \<and>
      a \<in> set (idb_audit (iw_db w')) \<and> au_action a = ''login'' \<and> au_result a = ''succeeded'' \<and>
      au_principal_id a = Some (pr_ID account) \<and>
      ck_Expires cookie = Some (us_absolute_expires_at s) \<and>
      rsp_Body response = RedirectTo (landingFor (pr_AccountType account) (af_return_to f)))"
proof -
  let ?input = "\<lparr>ci_State = gc_Query ctx ''state'', ci_BrowserCookie = gc_Cookie ctx AuthFlowCookieName,
    ci_Code = gc_Query ctx ''code'', ci_Metadata = requestMetadata ctx\<rparr>"
  obtain result where bounds: "\<not> callback_rejected (gc_Query ctx ''state'') (gc_Query ctx ''code'') (gc_Query ctx ''error'')"
    and run: "CompleteLogin service (gc_context ctx) ?input w = (Inr result, w')"
    and answer: "ck_Value cookie = cbr_SessionToken result" "ck_Expires cookie = Some (cbr_ExpiresAt result)"
      "rsp_Status response = 302" "rsp_Body response = RedirectTo (cbr_RedirectTo result)"
    by (rule callback_session_cookie [OF assms(6-8)]) (simp_all add: assms(5) identity_authService_def)
  show ?thesis
    using CompleteLogin_sound [OF assms(1-4) run, unfolded mfaSatisfied_iff] bounds
    unfolding answer by (simp add: callback_rejected_def maximumStateBytes_def maximumAuthorizationCodeBytes_def)
qed

context session_source
begin

lemma session_answer_backed:
  assumes "fst (session_handler uuid_text handler ctx w) = response" "rsp_Body response = SessionBody body"
    and "as_ResolveSession (ah_service handler) = resolve"
  obtains v where "backed (gc_Cookie ctx SessionCookieName) v w" "body = session_response uuid_text v"
proof -
  obtain r w1 where r: "resolve (gc_context ctx) (gc_Cookie ctx SessionCookieName) w = (r, w1)" by force
  then obtain v where "r = Inr (Some v)" "body = session_response uuid_text v"
    using assms by (cases r) (auto simp: session_handler_def writeError_def split: option.splits)
  with that resolve_backed r show thesis by (metis fst_conv)
qed

lemma session_answer_ended:
  assumes "ended (gc_Cookie ctx SessionCookieName) w" "as_ResolveSession (ah_service handler) = resolve"
  shows "rsp_Body (fst (session_handler uuid_text handler ctx w)) \<noteq> SessionBody body"
proof -
  obtain r w1 where r: "resolve (gc_context ctx) (gc_Cookie ctx SessionCookieName) w = (r, w1)" by force
  with ended_unresolved [OF assms(1)] have "r \<noteq> Inr (Some v)" for v by (metis fst_conv)
  with r assms(2) show ?thesis
    by (cases r) (auto simp: session_handler_def writeError_def split: option.splits)
qed

end

lemma logout_answered:
  assumes "logout_handler uc authority handler ctx w = (response, w')" "rsp_Status response = 200"
  obtains result where "validLogoutContent uc (gc_request ctx)"
    "handler_trustedBrowserRequest uc authority handler (gc_request ctx)"
    "as_Logout (ah_service handler) (gc_context ctx) (gc_Cookie ctx SessionCookieName)
       (header_Get (req_Header (gc_request ctx)) ''X-CSRF-Token'') (requestMetadata ctx) w = (Inr result, w')"
    "rsp_Cookies response = [clearedCookie SessionCookieName]"
proof -
  obtain r w1 where r: "as_Logout (ah_service handler) (gc_context ctx) (gc_Cookie ctx SessionCookieName)
       (header_Get (req_Header (gc_request ctx)) ''X-CSRF-Token'') (requestMetadata ctx) w = (r, w1)" by force
  have "fst (errorStatus err) \<noteq> 200" for err using errorStatus_range [of err] by auto
  then show thesis
    by (intro that [of "projr r"]; use assms r in \<open>cases r; auto simp: logout_handler_def writeError_def split: if_splits\<close>)
qed

text \<open>A logout that the endpoint answered with success, for a browser that was logged in, came from the
  trusted origin with the session's own CSRF token, is on record, and is final: the browser is told to drop the
  cookie, and whoever still presents it to any API instance at any later time is never shown a session again.\<close>

lemma browser_logout_final:
  assumes "service = api_identity_service repository provider hasher pkce policy clock random uuids"
    and "repository_wf repository" "\<forall>n. identity_races (iw_envs w n)" "identity_inv (iw_db w)"
    and "ah_service handler = identity_authService uc service"
    and "fst (service_ResolveSession service (gc_context ctx) (gc_Cookie ctx SessionCookieName) w) = Inr (Some v)"
    and "logout_handler uc authority handler ctx w = (response, w')" "rsp_Status response = 200"
    and "identity_step\<^sup>*\<^sup>* (iw_db w') (iw_db later)" "\<forall>n. identity_races (iw_envs later n)"
    and "gc_Cookie later_ctx SessionCookieName = gc_Cookie ctx SessionCookieName"
  shows "handler_trustedBrowserRequest uc authority handler (gc_request ctx) \<and>
    Digest hasher SecretPurposeCSRFToken (header_Get (req_Header (gc_request ctx)) ''X-CSRF-Token'') =
      ses_CSRFDigest (sv_Session v) \<and>
    rsp_Cookies response = [clearedCookie SessionCookieName] \<and>
    (\<exists>a \<in> set (idb_audit (iw_db w')). au_action a = ''logout'' \<and>
       au_principal_id a = Some (pr_ID (ses_Principal (sv_Session v)))) \<and>
    rsp_Body (fst (session_handler uuid_text handler later_ctx later)) \<noteq> SessionBody body"
proof -
  let ?token = "gc_Cookie ctx SessionCookieName"
  obtain result where trusted: "handler_trustedBrowserRequest uc authority handler (gc_request ctx)"
    and run: "Logout service (gc_context ctx) ?token (header_Get (req_Header (gc_request ctx)) ''X-CSRF-Token'')
      (requestMetadata ctx) w = (Inr result, w')"
    and cookies: "rsp_Cookies response = [clearedCookie SessionCookieName]"
    by (rule logout_answered [OF assms(7,8)]) (simp_all add: assms(5) identity_authService_def)
  obtain r a where inv: "identity_inv (iw_db w')"
    and r: "r \<in> set (idb_sessions (iw_db w'))" "us_revoked_at r \<noteq> None"
      "us_session_digest r = Digest hasher SecretPurposeSessionCookie ?token"
    and proved: "Digest hasher SecretPurposeCSRFToken (header_Get (req_Header (gc_request ctx)) ''X-CSRF-Token'') =
      ses_CSRFDigest (sv_Session v)"
    and a: "a \<in> set (idb_audit (iw_db w'))" "au_action a = ''logout''"
      "au_principal_id a = Some (pr_ID (ses_Principal (sv_Session v)))"
    using Logout_revokes [OF assms(1-4,6) run] .
  have "session_ended hasher (gc_Cookie later_ctx SessionCookieName) later"
    using inv r assms(9-11) unfolding session_ended_def by metis
  moreover have "as_ResolveSession (ah_service handler) = service_ResolveSession
      (api_identity_service repository provider hasher pkce policy clock random uuids)"
    by (simp add: assms(1,5) identity_authService_def)
  ultimately have "rsp_Body (fst (session_handler uuid_text handler later_ctx later)) \<noteq> SessionBody body"
    by (rule api_sessions.session_answer_ended)
  with trusted proved cookies a show ?thesis by blast
qed

end
