(* ===== verification/Identity_Http_Witnesses.thy ===== *)
theory Identity_Http_Witnesses
  imports Identity_Http_Theorems Boundary_Witnesses
begin

text \<open>The properties of the authentication endpoints at concrete requests: the sample
  administrator comes back from the provider and later logs out.\<close>

definition sample_handler :: "uuid \<Rightarrow> unit api_world auth_Handler" where
  "sample_handler fresh = \<lparr>ah_service = identity_authService id (sample_identity_service fresh),
     ah_trustedOrigin = ''https://mail.test''\<rparr>"

definition sample_browser :: "string \<Rightarrow> auth_Context" where
  "sample_browser csrf = \<lparr>gc_request = \<lparr>req_Method = ''POST'', req_ContentLength = 0,
     req_Header = (\<lambda>name. if name = ''X-Csrf-Token'' then [csrf] else if name = ''Origin'' then [''https://mail.test'']
       else if name = ''User-Agent'' then [''agent''] else []),
     req_TransferEncoding = [], req_Body = NoBody\<rparr>,
     gc_context = background,
     gc_Query = (\<lambda>name. if name = ''state'' then ''state'' else if name = ''code'' then ''code'' else ''''),
     gc_Cookie = (\<lambda>name. if name = SessionCookieName then sample_token
       else if name = AuthFlowCookieName then ''cookie'' else ''''),
     gc_request_id = Some ''req-1'', gc_ClientIP = ''198.51.100.7''\<rparr>"

lemma header_keys: "CanonicalHeaderKey ''User-Agent'' = ''User-Agent''" "CanonicalHeaderKey ''Origin'' = ''Origin''"
  "CanonicalHeaderKey ''X-CSRF-Token'' = ''X-Csrf-Token''" "CanonicalHeaderKey ''Content-Type'' = ''Content-Type''"
  by code_simp+

lemma sample_browser_metadata: "requestMetadata (sample_browser csrf) = sample_metadata"
  by (simp add: requestMetadata_def sample_browser_def valueString_def sample_request_id header_Get_def
      header_Values_def header_keys sample_metadata_def)

lemma sample_callback_answer:
  "callback (sample_handler 50) (sample_browser csrf) (identity_world_of sample_login_db) =
     (\<lparr>rsp_Header = no_store, rsp_Cookies = [clearedCookie AuthFlowCookieName,
        secureCookie SessionCookieName sample_token (DefaultSessionAbsoluteTimeout div 1000000000)
          (2000 + DefaultSessionAbsoluteTimeout)],
        rsp_Status = 302, rsp_Body = RedirectTo ''/admin/users''\<rparr>,
      (identity_world_of sample_logged_in)\<lparr>iw_calls := 3\<rparr>)"
proof -
  have "gc_Query (sample_browser csrf) ''state'' = ''state''" "gc_Query (sample_browser csrf) ''code'' = ''code''"
    "gc_Query (sample_browser csrf) ''error'' = ''''" "gc_context (sample_browser csrf) = background"
    "gc_Cookie (sample_browser csrf) AuthFlowCookieName = ''cookie''"
    "as_CompleteLogin (ah_service (sample_handler 50)) = CompleteLogin (sample_identity_service 50)"
    by (simp_all add: sample_browser_def sample_handler_def identity_authService_def)
  then show ?thesis using sample_login
    by (simp add: callback_def Let_def sample_browser_metadata callback_rejected_def maximumStateBytes_def
        maximumAuthorizationCodeBytes_def sample_callback_def)
qed

lemma sample_logout_answer:
  "logout_handler id plain_authority (sample_handler 51) (sample_browser (DeriveCSRFToken sample_hasher sample_token))
     (identity_world_of sample_logged_in) =
   (\<lparr>rsp_Header = no_store, rsp_Cookies = [clearedCookie SessionCookieName], rsp_Status = 200,
      rsp_Body = LogoutBody \<lparr>lgr_LoggedOut = True, lgr_ProviderLogoutURL = ''https://idp.test/logout''\<rparr>\<rparr>,
    (identity_world_of sample_logged_out)\<lparr>iw_calls := 2\<rparr>)"
proof -
  let ?ctx = "sample_browser (DeriveCSRFToken sample_hasher sample_token)"
  have "validLogoutContent id (gc_request ?ctx)"
    "handler_trustedBrowserRequest id plain_authority (sample_handler 51) (gc_request ?ctx)"
    "header_Get (req_Header (gc_request ?ctx)) ''X-CSRF-Token'' = DeriveCSRFToken sample_hasher sample_token"
    by (simp_all add: validLogoutContent_def handler_trustedBrowserRequest_def sample_browser_def sample_handler_def
        header_Get_def header_Values_def header_keys)
  moreover have "gc_context ?ctx = background" "gc_Cookie ?ctx SessionCookieName = sample_token"
    "as_Logout (ah_service (sample_handler 51)) = Logout (sample_identity_service 51)"
    by (simp_all add: sample_browser_def sample_handler_def identity_authService_def)
  ultimately show ?thesis using sample_logout
    by (simp add: logout_handler_def sample_browser_metadata)
qed

theorem auth_answers_guarded_witness:
  "session_value (fst (callback (sample_handler 50) (sample_browser '''') (identity_world_of sample_login_db))) =
     [sample_token] \<and>
   list_all host_cookie (rsp_Cookies (fst (callback (sample_handler 50) (sample_browser '''')
     (identity_world_of sample_login_db))))"
proof -
  have "(''GET'', ''/api/v1/auth/callback'', callback (sample_handler 50)) \<in>
      set (RegisterRoutes id plain_authority (\<lambda>u. '''') (sample_handler 50))" by (simp add: RegisterRoutes_def)
  from auth_answers_guarded [OF this sample_callback_answer] tokens_nonempty show ?thesis
    by (simp add: sample_callback_answer session_value_def)
qed

theorem callback_opens_session_witness:
  "\<exists>response w'. callback (sample_handler 50) (sample_browser '''') (identity_world_of sample_login_db) = (response, w') \<and>
     rsp_Body response = RedirectTo ''/admin/users'' \<and> (\<exists>s \<in> set (idb_sessions (iw_db w')). us_revoked_at s = None)"
proof -
  have "ah_service (sample_handler 50) = identity_authService id (sample_identity_service 50)"
    by (simp add: sample_handler_def)
  from callback_opens_session [OF sample_identity_service_def sample_repository_wf sample_worlds(1) _ this
      sample_callback_answer, of "secureCookie SessionCookieName sample_token
        (DefaultSessionAbsoluteTimeout div 1000000000) (2000 + DefaultSessionAbsoluteTimeout)" "''''"]
  have "\<exists>s \<in> set (idb_sessions (iw_db ((identity_world_of sample_logged_in)\<lparr>iw_calls := 3\<rparr>))). us_revoked_at s = None"
    using sample_login_invs(1) by (simp add: sample_worlds) blast
  then show ?thesis using sample_callback_answer [of "''''"] by simp
qed

lemma browser_logout_final_witness:
  "\<exists>response w'. logout_handler id plain_authority (sample_handler 51)
       (sample_browser (DeriveCSRFToken sample_hasher sample_token)) (identity_world_of sample_logged_in) = (response, w') \<and>
     rsp_Status response = 200 \<and>
     rsp_Body (fst (session_handler (\<lambda>u. '''') (sample_handler 51) (sample_browser '''') w')) \<noteq>
       SessionBody (session_response (\<lambda>u. '''') sample_view)"
proof -
  let ?ctx = "sample_browser (DeriveCSRFToken sample_hasher sample_token)"
  have "fst (service_ResolveSession (sample_identity_service 51) (gc_context ?ctx) (gc_Cookie ?ctx SessionCookieName)
      (identity_world_of sample_logged_in)) = Inr (Some sample_view)"
    using sample_session_resolves by (simp add: sample_browser_def)
  moreover have "ah_service (sample_handler 51) = identity_authService id (sample_identity_service 51)"
    "gc_Cookie (sample_browser '''') SessionCookieName = gc_Cookie ?ctx SessionCookieName"
    by (simp_all add: sample_handler_def sample_browser_def)
  ultimately have "rsp_Body (fst (session_handler (\<lambda>u. '''') (sample_handler 51) (sample_browser '''')
      ((identity_world_of sample_logged_out)\<lparr>iw_calls := 2\<rparr>))) \<noteq> SessionBody (session_response (\<lambda>u. '''') sample_view)"
    using browser_logout_final [OF sample_identity_service_def sample_repository_wf sample_worlds(1) _ _ _
        sample_logout_answer _ rtranclp.rtrancl_refl] sample_login_invs(2)
    by (simp add: sample_worlds)
  then show ?thesis using sample_logout_answer by auto
qed

end
