(* ===== verification/Process_Config.thy ===== *)
theory Process_Config
  imports Go_Web Go_Text
begin

text \<open>
  The settings a process reads when it starts: \<^verbatim>\<open>internal/platform/config\<close> (every
  process), \<^verbatim>\<open>internal/operation/runtimeconfig\<close> (the worker) and
  \<^verbatim>\<open>internal/identity/runtimeconfig\<close> (the API). The environment is a function from
  variable names to texts, empty where a variable is not set, as \<^verbatim>\<open>os.Getenv\<close> reads it.
  Arguments: \<open>fraction\<close> of \<^verbatim>\<open>time.ParseDuration\<close>, the case table \<open>uc\<close> and the split of
  a URL's authority. An error is the name of the variable it is about.
\<close>

section \<open>Results in sequence\<close>

definition and_then :: "'a result \<Rightarrow> ('a \<Rightarrow> 'b result) \<Rightarrow> 'b result" where
  \<comment> \<open>\<^verbatim>\<open>if err != nil { return T{}, err }\<close>\<close>
  "and_then r f = (case r of Inl e \<Rightarrow> Inl e | Inr x \<Rightarrow> f x)"

lemma and_then_simps [simp]: "and_then (Inl e) f = Inl e" "and_then (Inr x) f = f x"
  by (simp_all add: and_then_def)

lemma and_then_Inr: "and_then r f = Inr y \<longleftrightarrow> (\<exists>x. r = Inr x \<and> f x = Inr y)"
  by (cases r) simp_all

lemma guard_Inr: "(if b then Inl e else r) = Inr y \<longleftrightarrow> \<not> b \<and> r = Inr y"
  by simp

type_synonym getenv = "string \<Rightarrow> string"

definition bounded_duration ::
  "(nat \<Rightarrow> nat \<Rightarrow> nat \<Rightarrow> nat) \<Rightarrow> getenv \<Rightarrow> (duration \<Rightarrow> bool) \<Rightarrow> string \<Rightarrow> duration \<Rightarrow> duration result" where
  \<comment> \<open>The three functions \<^verbatim>\<open>durationFromEnvironment\<close>, which differ in the accepted durations only.\<close>
  "bounded_duration fraction env accepted name fallback =
     (let raw = TrimSpace (env name) in
      if raw = '''' then Inr fallback
      else (case ParseDuration fraction raw of
          None \<Rightarrow> Inl (OtherError name)
        | Some value \<Rightarrow> if accepted value then Inr value else Inl (OtherError name)))"

lemma bounded_duration_InrD:
  "bounded_duration fraction env accepted name fallback = Inr d \<Longrightarrow> d = fallback \<or> accepted d"
  by (auto simp: bounded_duration_def Let_def split: if_splits option.splits)

section \<open>Every process\<close>

definition defaultShutdownTimeout :: duration where
  "defaultShutdownTimeout = 10000000000"

definition defaultProbeTimeout :: duration where
  "defaultProbeTimeout = 2000000000"

record platform_Config =
  pcf_ServiceName :: string
  pcf_HTTPAddress :: string
  pcf_DatabaseURL :: string
  pcf_ShutdownTimeout :: duration
  pcf_ProbeTimeout :: duration
  pcf_OTLPEndpoint :: string

definition platform_durationFromEnvironment ::
  "(nat \<Rightarrow> nat \<Rightarrow> nat \<Rightarrow> nat) \<Rightarrow> getenv \<Rightarrow> string \<Rightarrow> duration \<Rightarrow> duration result" where
  "platform_durationFromEnvironment fraction env = bounded_duration fraction env (\<lambda>value. \<not> value \<le> 0)"

definition validateEndpoint :: "(nat \<Rightarrow> nat) \<Rightarrow> parse_authority \<Rightarrow> string \<Rightarrow> go_error option" where
  "validateEndpoint uc authority endpoint =
     (if endpoint = '''' then None
      else (case url_ParseRequestURI uc authority endpoint of
          None \<Rightarrow> Some (OtherError ''MAIL_SUITE_OTEL_EXPORTER_OTLP_ENDPOINT'')
        | Some parsed \<Rightarrow>
            if (url_Scheme parsed \<noteq> ''http'' \<and> url_Scheme parsed \<noteq> ''https'') \<or> url_Host parsed = '''' \<or>
               url_User parsed
            then Some (OtherError ''MAIL_SUITE_OTEL_EXPORTER_OTLP_ENDPOINT'') else None))"

definition platform_Load ::
  "(nat \<Rightarrow> nat) \<Rightarrow> parse_authority \<Rightarrow> (nat \<Rightarrow> nat \<Rightarrow> nat \<Rightarrow> nat) \<Rightarrow> getenv \<Rightarrow> string \<Rightarrow> string \<Rightarrow>
   platform_Config result" where
  "platform_Load uc authority fraction env service defaultHTTPAddress =
     (let serviceName = TrimSpace service;
          databaseURL = TrimSpace (env ''MAIL_SUITE_DATABASE_URL'');
          configured = TrimSpace (env ''MAIL_SUITE_HTTP_ADDRESS'');
          httpAddress = (if configured = '''' then defaultHTTPAddress else configured);
          otlpEndpoint = TrimSpace (env ''MAIL_SUITE_OTEL_EXPORTER_OTLP_ENDPOINT'')
      in if serviceName = '''' then Inl (OtherError ''service name'')
         else if databaseURL = '''' then Inl (OtherError ''MAIL_SUITE_DATABASE_URL'')
         else if TrimSpace httpAddress = '''' then Inl (OtherError ''http address'')
         else
          and_then (platform_durationFromEnvironment fraction env ''MAIL_SUITE_SHUTDOWN_TIMEOUT'' defaultShutdownTimeout)
            (\<lambda>shutdownTimeout.
          and_then (platform_durationFromEnvironment fraction env ''MAIL_SUITE_PROBE_TIMEOUT'' defaultProbeTimeout)
            (\<lambda>probeTimeout.
          case validateEndpoint uc authority otlpEndpoint of
            Some e \<Rightarrow> Inl e
          | None \<Rightarrow> Inr \<lparr>pcf_ServiceName = serviceName, pcf_HTTPAddress = httpAddress, pcf_DatabaseURL = databaseURL,
              pcf_ShutdownTimeout = shutdownTimeout, pcf_ProbeTimeout = probeTimeout,
              pcf_OTLPEndpoint = otlpEndpoint\<rparr>)))"

section \<open>The worker\<close>

definition maximumConfiguredTiming :: duration where
  "maximumConfiguredTiming = 86400000000000"

definition durationEnvironmentNames :: "string list" where
  "durationEnvironmentNames =
     [''MAIL_SUITE_WORKER_POLL_INTERVAL'', ''MAIL_SUITE_WORKER_LEASE_DURATION'',
      ''MAIL_SUITE_WORKER_ATTEMPT_TIMEOUT'', ''MAIL_SUITE_WORKER_LEASE_SAFETY_MARGIN'',
      ''MAIL_SUITE_WORKER_BASE_RETRY_DELAY'', ''MAIL_SUITE_WORKER_MAX_RETRY_DELAY'']"

definition worker_defaults :: "duration list" where
  "worker_defaults = [1000000000, 30000000000, 20000000000, 5000000000, 5000000000, 300000000000]"

definition defaultMaximumAttempts :: int where
  "defaultMaximumAttempts = 8"

record worker_Config =
  wcf_PollInterval :: duration
  wcf_LeaseDuration :: duration
  wcf_AttemptTimeout :: duration
  wcf_LeaseSafetyMargin :: duration
  wcf_BaseRetryDelay :: duration
  wcf_MaxRetryDelay :: duration
  wcf_MaxAttempts :: int

definition worker_durationFromEnvironment ::
  "(nat \<Rightarrow> nat \<Rightarrow> nat \<Rightarrow> nat) \<Rightarrow> getenv \<Rightarrow> string \<Rightarrow> duration \<Rightarrow> duration result" where
  "worker_durationFromEnvironment fraction env =
     bounded_duration fraction env (\<lambda>value. \<not> (value \<le> 0 \<or> maximumConfiguredTiming < value))"

definition positiveIntegerFromEnvironment :: "getenv \<Rightarrow> string \<Rightarrow> int \<Rightarrow> int result" where
  "positiveIntegerFromEnvironment env name fallback =
     (let raw = TrimSpace (env name) in
      if raw = '''' then Inr fallback
      else (case ParseInt32 raw of
          None \<Rightarrow> Inl (OtherError name)
        | Some value \<Rightarrow> if value \<le> 0 \<or> MaxInt32 < value then Inl (OtherError name) else Inr value))"

fun read_durations ::
  "(nat \<Rightarrow> nat \<Rightarrow> nat \<Rightarrow> nat) \<Rightarrow> getenv \<Rightarrow> (string \<times> duration) list \<Rightarrow> duration list result" where
  "read_durations fraction env [] = Inr []"
| "read_durations fraction env ((name, fallback) # rest) =
     and_then (worker_durationFromEnvironment fraction env name fallback) (\<lambda>value.
     and_then (read_durations fraction env rest) (\<lambda>values. Inr (value # values)))"

definition worker_Load ::
  "(nat \<Rightarrow> nat \<Rightarrow> nat \<Rightarrow> nat) \<Rightarrow> getenv \<Rightarrow> duration \<Rightarrow> worker_Config result" where
  "worker_Load fraction env shutdownTimeout =
     (if TrimSpace (env ''MAIL_SUITE_MAIL_CORE_MODE'') \<noteq> ''stalwart''
      then Inl (OtherError ''MAIL_SUITE_MAIL_CORE_MODE'')
      else
       and_then (read_durations fraction env (zip durationEnvironmentNames worker_defaults)) (\<lambda>vals.
       and_then (positiveIntegerFromEnvironment env ''MAIL_SUITE_WORKER_MAX_ATTEMPTS'' defaultMaximumAttempts)
         (\<lambda>maximumAttempts.
       let config = \<lparr>wcf_PollInterval = vals ! 0, wcf_LeaseDuration = vals ! 1, wcf_AttemptTimeout = vals ! 2,
             wcf_LeaseSafetyMargin = vals ! 3, wcf_BaseRetryDelay = vals ! 4, wcf_MaxRetryDelay = vals ! 5,
             wcf_MaxAttempts = maximumAttempts\<rparr>
       in if wcf_LeaseDuration config \<le> wcf_LeaseSafetyMargin config \<or>
             wrap64 (wcf_LeaseDuration config - wcf_LeaseSafetyMargin config) < wcf_AttemptTimeout config
          then Inl (OtherError ''worker lease'')
          else if shutdownTimeout \<le> wcf_LeaseSafetyMargin config \<or>
             wrap64 (shutdownTimeout - wcf_LeaseSafetyMargin config) < wcf_AttemptTimeout config
          then Inl (OtherError ''MAIL_SUITE_SHUTDOWN_TIMEOUT'')
          else if wcf_MaxRetryDelay config < wcf_BaseRetryDelay config then Inl (OtherError ''worker retry'')
          else Inr config)))"

lemma read_durations_InrD:
  "read_durations fraction env ps = Inr values \<Longrightarrow> list_all2 (\<lambda>(name, fallback) d.
     d = fallback \<or> (0 < d \<and> d \<le> maximumConfiguredTiming)) ps values"
  by (induction ps arbitrary: "values")
    (auto simp: and_then_Inr worker_durationFromEnvironment_def dest!: bounded_duration_InrD)

section \<open>The API\<close>

definition defaultProviderTimeout :: duration where
  "defaultProviderTimeout = 5000000000"

definition minimumSecretBytes :: nat where
  "minimumSecretBytes = 32"

datatype auth_Mode = ModeDisabled | ModeOIDC

record identity_Config =
  icf_Mode :: auth_Mode
  icf_Issuer :: string
  icf_ClientID :: string
  icf_ClientSecret :: string
  icf_RedirectURI :: string
  icf_PostLogoutRedirectURI :: string
  icf_TrustedOrigin :: string
  icf_Scopes :: "string list"
  icf_SigningAlgorithms :: "string list"
  icf_AdminAllowedACR :: "string list"
  icf_AdminRequiredAMR :: "string list"
  icf_SecretPepper :: bytes
  icf_FlowEncryptionKey :: bytes
  icf_FlowEncryptionKeyID :: string
  icf_ProviderTimeout :: duration

definition disabled_config :: identity_Config where
  \<comment> \<open>\<^verbatim>\<open>Config{Mode: mode}\<close>\<close>
  "disabled_config = \<lparr>icf_Mode = ModeDisabled, icf_Issuer = '''', icf_ClientID = '''', icf_ClientSecret = '''',
     icf_RedirectURI = '''', icf_PostLogoutRedirectURI = '''', icf_TrustedOrigin = '''', icf_Scopes = [],
     icf_SigningAlgorithms = [], icf_AdminAllowedACR = [], icf_AdminRequiredAMR = [], icf_SecretPepper = '''',
     icf_FlowEncryptionKey = '''', icf_FlowEncryptionKeyID = '''', icf_ProviderTimeout = 0\<rparr>"

definition requiredTrimmed :: "getenv \<Rightarrow> string \<Rightarrow> string result" where
  "requiredTrimmed env name =
     (let raw = env name; value = TrimSpace raw in
      if value = '''' \<or> value \<noteq> raw then Inl (OtherError name) else Inr value)"

definition requiredHTTPSURL ::
  "(nat \<Rightarrow> nat) \<Rightarrow> parse_authority \<Rightarrow> getenv \<Rightarrow> string \<Rightarrow> bool \<Rightarrow> string result" where
  "requiredHTTPSURL uc authority env name originOnly =
     and_then (requiredTrimmed env name) (\<lambda>raw.
       case url_Parse uc authority raw of
         None \<Rightarrow> Inl (OtherError name)
       | Some (parsed, fragment) \<Rightarrow>
           if url_Scheme parsed \<noteq> ''https'' \<or> url_Host parsed = '''' \<or> url_User parsed \<or> fragment \<noteq> '''' \<or>
              url_Opaque parsed \<noteq> '''' then Inl (OtherError name)
           else if originOnly \<and> (url_Path parsed \<noteq> '''' \<or> url_RawQuery parsed \<noteq> '''') then Inl (OtherError name)
           else if \<not> originOnly \<and> url_RawQuery parsed \<noteq> '''' then Inl (OtherError name)
           else Inr raw)"

definition requiredBase64Secret :: "getenv \<Rightarrow> string \<Rightarrow> nat \<Rightarrow> bytes result" where
  "requiredBase64Secret env name minimumBytes =
     and_then (requiredTrimmed env name) (\<lambda>raw.
       case Std_DecodeString raw of
         None \<Rightarrow> Inl (OtherError name)
       | Some decoded \<Rightarrow> if length decoded < minimumBytes then Inl (OtherError name) else Inr decoded)"

fun first_occurrences :: "string list \<Rightarrow> string list \<Rightarrow> string list" where
  "first_occurrences seen [] = []"
| "first_occurrences seen (x # xs) =
     (if x \<in> set seen then first_occurrences seen xs else x # first_occurrences (x # seen) xs)"

definition uniqueFields :: "string \<Rightarrow> string list" where
  "uniqueFields raw = first_occurrences []
     (FieldsFunc (\<lambda>c. c \<in> {CHR '','', CHR '' '', CHR 0x09, CHR 0x0D, CHR 0x0A}) raw)"

definition fields_or :: "string list \<Rightarrow> string list \<Rightarrow> string list" where
  \<comment> \<open>A list with its default.\<close>
  "fields_or found defaults = (if found = [] then defaults else found)"

definition url_origin :: "(nat \<Rightarrow> nat) \<Rightarrow> parse_authority \<Rightarrow> string \<Rightarrow> string \<times> string \<times> string" where
  \<comment> \<open>Origin, path and query of a text that parses: \<^verbatim>\<open>parsed, _ := url.Parse(raw)\<close>.\<close>
  "url_origin uc authority raw = (case url_Parse uc authority raw of
     None \<Rightarrow> ('''', '''', '''')
   | Some (parsed, _) \<Rightarrow> (url_Scheme parsed @ ''://'' @ url_Host parsed, url_Path parsed, url_RawQuery parsed))"

definition load_urls ::
  "(nat \<Rightarrow> nat) \<Rightarrow> parse_authority \<Rightarrow> getenv \<Rightarrow> (string \<times> string \<times> string \<times> string) result" where
  \<comment> \<open>The first half of \<^verbatim>\<open>Load\<close>: issuer, redirect, logout redirect and trusted origin.\<close>
  "load_urls uc authority env =
     and_then (requiredHTTPSURL uc authority env ''MAIL_SUITE_OIDC_ISSUER'' False) (\<lambda>issuer.
     and_then (requiredHTTPSURL uc authority env ''MAIL_SUITE_OIDC_REDIRECT_URI'' False) (\<lambda>redirectURI.
     case url_origin uc authority redirectURI of (redirectOrigin, redirectPath, redirectQuery) \<Rightarrow>
     if redirectPath \<noteq> ''/api/v1/auth/callback'' \<or> redirectQuery \<noteq> ''''
     then Inl (OtherError ''MAIL_SUITE_OIDC_REDIRECT_URI'') else
     and_then (requiredHTTPSURL uc authority env ''MAIL_SUITE_OIDC_POST_LOGOUT_REDIRECT_URI'' False) (\<lambda>postLogout.
     case url_origin uc authority postLogout of (logoutOrigin, logoutPath, logoutQuery) \<Rightarrow>
     if logoutPath \<noteq> ''/'' \<or> logoutQuery \<noteq> '''' then Inl (OtherError ''MAIL_SUITE_OIDC_POST_LOGOUT_REDIRECT_URI'') else
     and_then (requiredHTTPSURL uc authority env ''MAIL_SUITE_AUTH_TRUSTED_ORIGIN'' True) (\<lambda>trustedOrigin.
     if redirectOrigin \<noteq> trustedOrigin then Inl (OtherError ''MAIL_SUITE_OIDC_REDIRECT_URI'')
     else if logoutOrigin \<noteq> trustedOrigin then Inl (OtherError ''MAIL_SUITE_OIDC_POST_LOGOUT_REDIRECT_URI'')
     else Inr (issuer, redirectURI, postLogout, trustedOrigin)))))"

definition identity_durationFromEnvironment ::
  "(nat \<Rightarrow> nat \<Rightarrow> nat \<Rightarrow> nat) \<Rightarrow> getenv \<Rightarrow> string \<Rightarrow> duration \<Rightarrow> duration result" where
  "identity_durationFromEnvironment fraction env =
     bounded_duration fraction env (\<lambda>value. \<not> (value \<le> 0 \<or> 30000000000 < value))"

definition load_oidc ::
  "(nat \<Rightarrow> nat) \<Rightarrow> parse_authority \<Rightarrow> (nat \<Rightarrow> nat \<Rightarrow> nat \<Rightarrow> nat) \<Rightarrow> getenv \<Rightarrow> identity_Config result" where
  \<comment> \<open>\<^verbatim>\<open>Load\<close> in the mode \<^verbatim>\<open>oidc\<close>.\<close>
  "load_oidc uc authority fraction env =
     (let scopes = fields_or (uniqueFields (env ''MAIL_SUITE_OIDC_SCOPES'')) [''openid'', ''profile'', ''email''];
          signingAlgorithms = fields_or (uniqueFields (env ''MAIL_SUITE_OIDC_SIGNING_ALGORITHMS'')) [''RS256''];
          allowedACR = uniqueFields (env ''MAIL_SUITE_OIDC_ADMIN_ALLOWED_ACR'');
          requiredAMR = uniqueFields (env ''MAIL_SUITE_OIDC_ADMIN_REQUIRED_AMR'')
      in and_then (load_urls uc authority env) (\<lambda>urls.
         and_then (requiredTrimmed env ''MAIL_SUITE_OIDC_CLIENT_ID'') (\<lambda>clientID.
         and_then (requiredTrimmed env ''MAIL_SUITE_OIDC_CLIENT_SECRET'') (\<lambda>clientSecret.
         and_then (requiredBase64Secret env ''MAIL_SUITE_AUTH_SECRET_PEPPER'' minimumSecretBytes) (\<lambda>pepper.
         and_then (requiredBase64Secret env ''MAIL_SUITE_AUTH_FLOW_ENCRYPTION_KEY'' minimumSecretBytes) (\<lambda>flowKey.
         if length flowKey \<noteq> 32 then Inl (OtherError ''MAIL_SUITE_AUTH_FLOW_ENCRYPTION_KEY'') else
         and_then (requiredTrimmed env ''MAIL_SUITE_AUTH_FLOW_ENCRYPTION_KEY_ID'') (\<lambda>keyID.
         if ''openid'' \<notin> set scopes then Inl (OtherError ''MAIL_SUITE_OIDC_SCOPES'')
         else if \<not> list_all (\<lambda>a. a \<in> {''RS256'', ''PS256'', ''ES256''}) signingAlgorithms
         then Inl (OtherError ''MAIL_SUITE_OIDC_SIGNING_ALGORITHMS'')
         else if allowedACR = [] \<and> requiredAMR = [] then Inl (OtherError ''MAIL_SUITE_OIDC_ADMIN_ALLOWED_ACR'')
         else
         and_then (identity_durationFromEnvironment fraction env ''MAIL_SUITE_OIDC_PROVIDER_TIMEOUT''
             defaultProviderTimeout) (\<lambda>providerTimeout.
         case urls of (issuer, redirectURI, postLogoutRedirectURI, trustedOrigin) \<Rightarrow>
         Inr \<lparr>icf_Mode = ModeOIDC, icf_Issuer = issuer, icf_ClientID = clientID, icf_ClientSecret = clientSecret,
           icf_RedirectURI = redirectURI, icf_PostLogoutRedirectURI = postLogoutRedirectURI,
           icf_TrustedOrigin = trustedOrigin, icf_Scopes = scopes, icf_SigningAlgorithms = signingAlgorithms,
           icf_AdminAllowedACR = allowedACR, icf_AdminRequiredAMR = requiredAMR, icf_SecretPepper = pepper,
           icf_FlowEncryptionKey = flowKey, icf_FlowEncryptionKeyID = keyID,
           icf_ProviderTimeout = providerTimeout\<rparr>))))))))"

definition identity_Load ::
  "(nat \<Rightarrow> nat) \<Rightarrow> parse_authority \<Rightarrow> (nat \<Rightarrow> nat \<Rightarrow> nat \<Rightarrow> nat) \<Rightarrow> getenv \<Rightarrow> identity_Config result" where
  "identity_Load uc authority fraction env =
     (let mode = TrimSpace (env ''MAIL_SUITE_AUTH_MODE'') in
      if mode = '''' then Inl (OtherError ''MAIL_SUITE_AUTH_MODE'')
      else if mode = ''disabled'' then Inr disabled_config
      else if mode \<noteq> ''oidc'' then Inl (OtherError ''MAIL_SUITE_AUTH_MODE'')
      else load_oidc uc authority fraction env)"

end
