(* ===== verification/Ledger_Theorems.thy ===== *)
theory Ledger_Theorems
  imports Ledger_Samples
begin

text \<open>
  The properties of the operation ledger: the invariant of every run, the
  fencing of receipts, exclusive leases, the attempt budget, the evidence a
  success needs, and that the worker's statements never fail on a constraint.
\<close>

section \<open>Invariant and history\<close>

text \<open>(C4) Every run of claims, finalizations, receipts and requests, in any interleaving,
  keeps the schema's constraints, keeps each operation's lease epoch equal to its number of attempts,
  keeps every attempt consistent with its operation, and leaves at most one attempt of an operation
  open, which exists exactly while the operation is running.\<close>

theorem ledger_invariant_runs:
  assumes "ledger_ok db" "ledger_step\<^sup>*\<^sup>* db db'"
  shows "ledger_ok db' \<and>
    (\<forall>r \<in> set (db_operations db'). op_lease_epoch r = op_attempt_count r \<and>
       length (filter (\<lambda>a. at_operation_id a = op_id r \<and> at_completed_at a = None) (db_attempts db')) =
         (if op_status r = StatusRunning then 1 else 0))"
proof -
  have ok: "ledger_ok db'" using ledger.run_inv assms by blast
  note inv = ledger_okD(2) [OF ok] and schema = ledger_okD(1) [OF ok]
  have "length (filter (\<lambda>a. at_operation_id a = op_id r \<and> at_completed_at a = None) (db_attempts db')) =
         (if op_status r = StatusRunning then 1 else 0)" if r: "r \<in> set (db_operations db')" for r
  proof -
    let ?open = "filter (\<lambda>a. at_operation_id a = op_id r \<and> at_completed_at a = None) (db_attempts db')"
    have distinct: "distinct ?open"
      using keysD(3) [OF schema] by (simp add: distinct_map)
    show ?thesis
    proof (cases "op_status r = StatusRunning")
      case True
      then obtain a where a: "a \<in> set (db_attempts db')" "open_attempt_of r a"
        using ledger_invD(3) [OF inv r] by blast
      then have "a \<in> set ?open" by (simp add: open_attempt_of_def)
      moreover have "b = a" if "b \<in> set ?open" for b
        by (rule open_attempt_unique [OF ok]) (use a that in \<open>simp_all add: open_attempt_of_def\<close>)
      ultimately have "set ?open = {a}" by blast
      then show ?thesis using distinct_card [OF distinct] True by simp
    next
      case False
      then have "?open = []"
        using open_attempt_iff [OF schema inv r] by (auto simp: filter_empty_conv open_attempt_of_def)
      then show ?thesis using False by simp
    qed
  qed
  then show ?thesis using ok ledger_invD(1) [OF inv] by blast
qed

theorem ledger_invariant_runs_witness:
  "ledger_ok sample_resolved \<and>
   length (filter (\<lambda>a. at_operation_id a = op_id (hd (db_operations sample_resolved)) \<and> at_completed_at a = None)
     (db_attempts sample_resolved)) = 0"
proof -
  have run: "ledger_step\<^sup>*\<^sup>* sample_running sample_resolved"
    by (rule r_into_rtranclp, rule ledger_step.resolve [OF sample_resolves])
  have "hd (db_operations sample_resolved) \<in> set (db_operations sample_resolved)"
    "op_status (hd (db_operations sample_resolved)) \<noteq> StatusRunning"
    by code_simp+
  then show ?thesis
    using ledger_invariant_runs [OF sample_running_ledger run] by simp
qed

text \<open>A terminal state (succeeded, failed, dead or superseded) is final: whatever runs
  afterwards, the operation's row stays as it is, and so does every completed attempt.\<close>

lemma terminal_operation_final:
  assumes "ledger_ok db" "ledger_step\<^sup>*\<^sup>* db db'" "r \<in> set (db_operations db)" "terminal_status (op_status r)"
  shows "r \<in> set (db_operations db') \<and>
    (\<forall>a \<in> set (db_attempts db). at_completed_at a \<noteq> None \<longrightarrow> a \<in> set (db_attempts db'))"
proof -
  have le: "ledger_le db db'" using ledger.run_rel assms by blast
  then obtain r' where "r' \<in> set (db_operations db')" "operation_le r r'"
    using assms(3) by (auto simp: ledger_le_def)
  then have "r \<in> set (db_operations db')" using operation_leD(4) assms(4) by blast
  moreover have "a \<in> set (db_attempts db')" if "a \<in> set (db_attempts db)" "at_completed_at a \<noteq> None" for a
    using le that by (auto simp: ledger_le_def attempt_le_def)
  ultimately show ?thesis by blast
qed

lemma terminal_operation_final_witness:
  "\<exists>u db'. insertOutboxEvent 400 50 1 4 \<lparr>pl_tenant_id = 1, pl_mailbox_id = 3, pl_domain_id = 2,
      pl_operation_id = 4, pl_revision = 1\<rparr> sample_resolved = Inr (u, db') \<and>
    hd (db_operations sample_resolved) \<in> set (db_operations db')"
proof -
  let ?ins = "insertOutboxEvent 400 50 1 4 \<lparr>pl_tenant_id = 1, pl_mailbox_id = 3, pl_domain_id = 2,
      pl_operation_id = 4, pl_revision = 1\<rparr> sample_resolved"
  have "case ?ins of Inr _ \<Rightarrow> True | Inl _ \<Rightarrow> False" by code_simp
  then obtain u db' where ins: "?ins = Inr (u, db')" by (cases ?ins) auto
  have run: "ledger_step\<^sup>*\<^sup>* sample_resolved db'"
    by (rule r_into_rtranclp, rule ledger_step.insert_outbox [OF ins])
  have "hd (db_operations sample_resolved) \<in> set (db_operations sample_resolved)"
    "terminal_status (op_status (hd (db_operations sample_resolved)))"
    by code_simp+
  from terminal_operation_final [OF sample_resolved_ledger run this] ins show ?thesis by blast
qed

section \<open>Fencing\<close>

text \<open>(C1) At most one receipt per lease: once a receipt has been applied, a receipt of the same
  or an earlier lease epoch of that operation is refused in every later state, and refusing it changes
  no table.\<close>

theorem receipt_applied_once:
  assumes "ledger_ok db" "resolveMailboxOperation now p db = Inr (True, db1)" "ledger_step\<^sup>*\<^sup>* db1 db2"
    and "rp_OperationID q = rp_OperationID p" "rp_LeaseEpoch q \<le> rp_LeaseEpoch p"
  shows "resolveMailboxOperation now' q db2 = Inr (False, db2)"
proof -
  have "ledger_ok db1" using resolve_step assms(1,2) by blast
  moreover have "stale db1 (rp_OperationID q) (rp_LeaseEpoch q)"
    using applied_stale [OF assms(1,2)] assms(4,5) by (fastforce simp: stale_def)
  ultimately show ?thesis
    using assms(3) stale_forever stale_rejected ledger.run_inv by blast
qed

theorem receipt_applied_once_witness:
  "resolveMailboxOperation 301 sample_receipt sample_resolved = Inr (False, sample_resolved)"
  by (rule receipt_applied_once [OF sample_running_ledger sample_resolves rtranclp.rtrancl_refl]) simp_all

text \<open>(C2) A claim fences its predecessors: it raises the lease epoch, and from then on every
  receipt with an older epoch of that operation is refused, whatever else commits in between.\<close>

theorem claim_fences_older_leases:
  assumes "ledger_ok db" "claimMailboxOperation skip now aid p db = Inr (row, db1)" "ledger_step\<^sup>*\<^sup>* db1 db2"
    and "rp_OperationID q = crow_OperationID row" "rp_LeaseEpoch q < crow_LeaseEpoch row"
  shows "resolveMailboxOperation now' q db2 = Inr (False, db2)"
proof -
  have ok: "ledger_ok db1" using claim_step assms(1,2) by blast
  have "stale db1 (rp_OperationID q) (rp_LeaseEpoch q)"
    using assms(2)
  proof (cases rule: claim_cases)
    case (picked r m d)
    then have db1: "db1 = claim_effect aid p now r db" and row: "row = claim_row p now r m d"
      using guard_schema_Inr by metis+
    have "claimed_operation p now r \<in> set (db_operations db1)"
      using picked(1) by (force simp: db1 claim_effect_def set_update_where)
    then show ?thesis
      using assms(4,5) unfolding stale_def
      by (intro bexI [of _ "claimed_operation p now r"]) (auto simp: row claim_row_def Let_def)
  qed simp
  then show ?thesis
    using ok assms(3) stale_forever stale_rejected ledger.run_inv by blast
qed

theorem claim_fences_older_leases_witness:
  "resolveMailboxOperation 210 (sample_receipt\<lparr>rp_LeaseEpoch := 0\<rparr>) sample_running = Inr (False, sample_running)"
  by (rule claim_fences_older_leases [OF sample_pending_ledger sample_claims rtranclp.rtrancl_refl])
    code_simp+

text \<open>A live lease is exclusive: a claim never returns an operation whose lease has not
  expired; it returns an operation that was due, opens an attempt with the next number and epoch under
  the claimer, and stays within the attempt budget.\<close>

lemma claim_respects_live_lease:
  assumes "ledger_ok db" "claimMailboxOperation skip now aid p db = Inr (row, db')"
  shows "\<exists>r \<in> set (db_operations db). \<exists>r' \<in> set (db_operations db').
    op_id r = crow_OperationID row \<and> op_id r' = op_id r \<and>
    (op_status r = StatusRunning \<longrightarrow> (\<exists>e. op_lease_expires_at r = Some e \<and> e \<le> now)) \<and>
    (op_status r \<noteq> StatusRunning \<longrightarrow> op_next_attempt_at r \<le> now) \<and>
    \<not> terminal_status (op_status r) \<and>
    op_status r' = StatusRunning \<and> op_lease_owner_id r' = Some (cp_OwnerID p) \<and>
    op_lease_expires_at r' = Some (now + cp_LeaseDurationMicroseconds p * 1000) \<and>
    crow_AttemptNumber row = op_attempt_count r + 1 \<and> crow_LeaseEpoch row = op_lease_epoch r + 1 \<and>
    crow_AttemptNumber row \<le> cp_MaxAttempts p \<and>
    (\<exists>a \<in> set (db_attempts db'). open_attempt_of r' a \<and> at_id a = aid \<and>
       at_lease_owner_id a = cp_OwnerID p \<and> at_prior_status a = op_status r)"
  using assms(2)
proof (cases rule: claim_cases)
  case (picked r m d)
  then have db': "db' = claim_effect aid p now r db" and row: "row = claim_row p now r m d"
    using guard_schema_Inr by metis+
  have "claimed_operation p now r \<in> set (db_operations db')"
    using picked(1) by (force simp: db' claim_effect_def set_update_where)
  moreover have "new_attempt aid p now r \<in> set (db_attempts db')"
    by (simp add: db' claim_effect_def)
  moreover have "open_attempt_of (claimed_operation p now r) (new_attempt aid p now r)"
    by (simp add: open_attempt_of_def new_attempt_def)
  moreover have "op_status r = StatusRunning \<longrightarrow> (\<exists>e. op_lease_expires_at r = Some e \<and> e \<le> now)"
    "op_status r \<noteq> StatusRunning \<longrightarrow> op_next_attempt_at r \<le> now" "\<not> terminal_status (op_status r)"
    "op_attempt_count r < cp_MaxAttempts p"
    using picked(7) by (auto simp: claimable_def sql_le_def terminal_status_def split: option.splits)
  ultimately show ?thesis
    using picked(1)
    by (intro bexI [of _ r] bexI [of _ "claimed_operation p now r"] conjI
        bexI [of _ "new_attempt aid p now r"])
      (simp_all add: row claim_row_def Let_def claimed_operation_def new_attempt_def)
qed simp

lemma claim_respects_live_lease_witness:
  "\<exists>r \<in> set (db_operations sample_pending). \<exists>r' \<in> set (db_operations sample_running).
     op_id r = 4 \<and> op_status r' = StatusRunning \<and> op_lease_owner_id r' = Some 9 \<and>
     \<not> terminal_status (op_status r)"
  using claim_respects_live_lease [OF sample_pending_ledger sample_claims]
  by (auto simp: claim_row_def claimed_operation_def sample_operation_def new_operation_def
      sample_claim_def)

section \<open>Progress and order\<close>

text \<open>What due work is, stated without the statement's own functions: a provisioning operation with
  attempts left, for an active mailbox that still has the requested revision and a domain of the same tenant,
  which waits with its next attempt time reached or runs under a lease that has ended.  It is due since that
  time or that end.\<close>

definition due_since :: "operation_row \<Rightarrow> instant" where
  "due_since r = (if op_status r = StatusRunning then the (op_lease_expires_at r) else op_next_attempt_at r)"

definition due_work :: "int \<Rightarrow> instant \<Rightarrow> db \<Rightarrow> operation_row \<Rightarrow> mailbox_row \<Rightarrow> bool" where
  "due_work max_attempts now db r m \<longleftrightarrow>
     r \<in> set (db_operations db) \<and> op_kind r = ''mailbox.provision'' \<and> op_resource_type r = ''mailbox'' \<and>
     op_attempt_count r < max_attempts \<and>
     m \<in> set (db_mailboxes db) \<and> mb_id m = op_resource_id r \<and> mb_tenant_id m = op_tenant_id r \<and>
     mb_desired_status m = ''active'' \<and> mb_revision m = op_desired_revision r \<and>
     (\<exists>d \<in> set (db_domains db). d_id d = mb_domain_id m \<and> d_tenant_id d = mb_tenant_id m) \<and>
     (op_status r = StatusRunning \<and> op_lease_expires_at r \<noteq> None \<or>
      op_status r = StatusPending \<or> op_status r = StatusRetryWait \<or> op_status r = StatusUnknown) \<and>
     due_since r \<le> now"

lemma candidate_due:
  "(\<exists>d. (r, m, d) \<in> set (claim_candidates skip max_attempts now db)) \<longleftrightarrow>
     due_work max_attempts now db r m \<and> \<not> skip r m"
  by (cases "op_lease_expires_at r")
    (auto simp: claim_candidates_def join_iff claimable_def due_work_def due_since_def sql_le_def)

lemma claim_order_due:
  assumes "claim_order r \<le> claim_order q" "due_work max_attempts now db r m" "due_work max_attempts now db q m'"
  shows "due_since r < due_since q \<or> due_since r = due_since q \<and>
    (op_created_at r < op_created_at q \<or> op_created_at r = op_created_at q \<and> op_id r \<le> op_id q)"
  using assms
  by (auto simp: claim_order_def due_since_def due_work_def nulls_last_def less_eq_prod_def less_prod_def
      split: if_splits option.splits)

text \<open>(C12) A claim makes progress and serves the oldest due work first: when some due operation is
  not locked by another transaction, the claim succeeds (no constraint stops it, given a clock that
  does not run backwards and a fresh attempt id). The operation it returns is itself due and not locked, for
  the mailbox it is returned with, and every other operation that is due and not locked has been due for a
  shorter time, or as long and was created later, or at the same time and has no smaller id.\<close>

theorem claim_takes_oldest_due:
  assumes "ledger_ok db" "clock_ok now db" "aid \<notin> set (map at_id (db_attempts db))"
    "cp_MaxAttempts p \<le> MaxInt32" "due_work (cp_MaxAttempts p) now db q n" "\<not> skip q n"
  shows "\<exists>row db' r m. claimMailboxOperation skip now aid p db = Inr (row, db') \<and>
    crow_OperationID row = op_id r \<and> crow_MailboxID row = mb_id m \<and>
    due_work (cp_MaxAttempts p) now db r m \<and> \<not> skip r m \<and>
    (\<forall>r' m'. due_work (cp_MaxAttempts p) now db r' m' \<and> \<not> skip r' m' \<longrightarrow>
       due_since r < due_since r' \<or> due_since r = due_since r' \<and>
       (op_created_at r < op_created_at r' \<or>
        op_created_at r = op_created_at r' \<and> op_id r \<le> op_id r'))"
proof -
  let ?key = "\<lambda>(r, m :: mailbox_row, d :: domain_row). claim_order r"
  let ?candidates = "claim_candidates skip (cp_MaxAttempts p) now db"
  have "?candidates \<noteq> []" using assms(5,6) candidate_due by (metis empty_iff empty_set)
  then obtain r m d where c: "first_by ?key ?candidates = Some (r, m, d)"
    using first_by_None by (metis not_None_eq prod_cases3)
  note cand = first_by_SomeD(1) [OF c]
  then have r: "r \<in> set (db_operations db)" "claimable (cp_MaxAttempts p) now r m"
    by (auto simp: claim_candidates_def join_iff)
  then have "schema_ok (claim_effect aid p now r db)"
    using claim_effect_schema assms(1-4) by blast
  then have claim: "claimMailboxOperation skip now aid p db = Inr (claim_row p now r m d, claim_effect aid p now r db)"
    using c by (simp add: claimMailboxOperation_def)
  have due: "due_work (cp_MaxAttempts p) now db r m" "\<not> skip r m"
    using cand candidate_due by blast+
  then have id: "op_resource_id r = mb_id m" by (simp add: due_work_def)
  have "claim_order r \<le> claim_order r'" if "due_work (cp_MaxAttempts p) now db r' m'" "\<not> skip r' m'" for r' m'
  proof -
    from that obtain d' where "(r', m', d') \<in> set ?candidates" using candidate_due by blast
    from first_by_SomeD(2) [OF c this] show ?thesis by simp
  qed
  with due claim show ?thesis
    by (intro exI [of _ "claim_row p now r m d"] exI [of _ "claim_effect aid p now r db"] exI [of _ r] exI [of _ m])
      (auto simp: claim_row_def Let_def id dest: claim_order_due)
qed

theorem claim_takes_oldest_due_witness:
  "\<exists>row db' r. claimMailboxOperation (\<lambda>_ _. False) 200 7 sample_claim sample_pending = Inr (row, db') \<and>
    r \<in> set (db_operations sample_pending) \<and> crow_OperationID row = op_id r \<and> due_since r \<le> 200"
proof -
  have "clock_ok 200 sample_pending" "7 \<notin> set (map at_id (db_attempts sample_pending))"
    "cp_MaxAttempts sample_claim \<le> MaxInt32"
    "due_work (cp_MaxAttempts sample_claim) 200 sample_pending sample_operation sample_mailbox"
    by code_simp+
  from claim_takes_oldest_due [OF sample_pending_ledger this, of "\<lambda>_ _. False"]
  show ?thesis by (auto simp: due_work_def)
qed

text \<open>Work that can no longer run: an unfinished operation whose mailbox has moved to a newer revision, or whose
  attempts are used up while no live lease runs it.\<close>

definition hopeless_work :: "int \<Rightarrow> instant \<Rightarrow> db \<Rightarrow> operation_row \<Rightarrow> mailbox_row \<Rightarrow> bool" where
  "hopeless_work max_attempts now db r m \<longleftrightarrow>
     r \<in> set (db_operations db) \<and> op_kind r = ''mailbox.provision'' \<and> op_resource_type r = ''mailbox'' \<and>
     m \<in> set (db_mailboxes db) \<and> mb_id m = op_resource_id r \<and> mb_tenant_id m = op_tenant_id r \<and>
     (op_status r = StatusPending \<or> op_status r = StatusRetryWait \<or> op_status r = StatusUnknown \<or>
      op_status r = StatusRunning) \<and>
     (op_desired_revision r < mb_revision m \<or>
      op_desired_revision r = mb_revision m \<and> max_attempts \<le> op_attempt_count r \<and>
      (op_status r = StatusRunning \<longrightarrow> (\<exists>e. op_lease_expires_at r = Some e \<and> e \<le> now)))"

lemma hopeless_candidate:
  "(r, m) \<in> set [(r, m). (r, m) \<leftarrow> operation_mailbox_join db, finalizable mx now r m \<and> \<not> skip r m] \<longleftrightarrow>
     hopeless_work mx now db r m \<and> \<not> skip r m"
  by (cases "op_lease_expires_at r")
    (auto simp: join_iff finalizable_def hopeless_work_def superseded_def sql_le_def)

text \<open>(C13) Before a claim, work that can no longer run is closed: the finalizing statement never fails, and it
  reports a change exactly when there is such an operation that no other transaction has locked; without one
  nothing is written. Otherwise one such operation is closed - as superseded where its mailbox has a newer
  revision, as dead where its attempts are used up -, its lease is gone, no attempt of it stays open, and all
  mailboxes and all other operations are as they were.\<close>

theorem finalize_closes_one:
  assumes "ledger_ok db" "clock_ok now db"
  shows "\<exists>b db'. finalizeMailboxOperationBeforeClaim skip now mx db = Inr (b, db') \<and>
    (b \<longleftrightarrow> (\<exists>r m. hopeless_work mx now db r m \<and> \<not> skip r m)) \<and> (\<not> b \<longrightarrow> db' = db) \<and>
    (b \<longrightarrow> (\<exists>r m. \<exists>r' \<in> set (db_operations db'). hopeless_work mx now db r m \<and> \<not> skip r m \<and>
       op_id r' = op_id r \<and> op_lease_owner_id r' = None \<and> op_lease_expires_at r' = None \<and>
       op_status r' = (if op_desired_revision r < mb_revision m then StatusSuperseded else StatusDead) \<and>
       (\<forall>a \<in> set (db_attempts db'). at_operation_id a = op_id r \<longrightarrow> at_completed_at a \<noteq> None) \<and>
       db_mailboxes db' = db_mailboxes db \<and>
       (\<forall>q. op_id q \<noteq> op_id r \<longrightarrow> q \<in> set (db_operations db') \<longleftrightarrow> q \<in> set (db_operations db))))"
proof (cases "first_by finalize_order [(r, m). (r, m) \<leftarrow> operation_mailbox_join db, finalizable mx now r m \<and> \<not> skip r m]")
  case None
  then have "finalizeMailboxOperationBeforeClaim skip now mx db = Inr (False, db)"
    by (simp only: finalizeMailboxOperationBeforeClaim_def option.case)
  moreover have "\<nexists>r m. hopeless_work mx now db r m \<and> \<not> skip r m"
    using hopeless_candidate [where mx = mx and now = now and db = db and skip = skip] None [unfolded first_by_None] by (simp only: list.set empty_iff) blast
  ultimately show ?thesis by auto
next
  case (Some c)
  obtain r m where c: "c = (r, m)" by (cases c)
  obtain s e where result: "finalize_result r m = (s, e)" by force
  have h: "hopeless_work mx now db r m" "\<not> skip r m"
    using first_by_SomeD(1) [OF Some] unfolding c hopeless_candidate by simp_all
  then have r: "r \<in> set (db_operations db)" by (simp add: hopeless_work_def)
  note ok = ledger_okD [OF assms(1)] and fin = finalize_result_cases [OF result]
  let ?db' = "finalize_effect now s e r db" and ?r' = "finalized_operation now s e r"
  have schema: "schema_ok ?db'" using finalize_effect_schema [OF ok(1) r fin assms(2)] .
  have run: "finalizeMailboxOperationBeforeClaim skip now mx db = Inr (True, ?db')"
    using Some schema by (simp add: finalizeMailboxOperationBeforeClaim_def c result)
  have r': "?r' \<in> set (db_operations ?db')"
    using r by (force simp: finalize_effect_def set_update_where)
  have inv: "ledger_inv ?db'" using finalize_effect_inv [OF ok r] fin(2) by auto
  have status: "s = (if op_desired_revision r < mb_revision m then StatusSuperseded else StatusDead)"
    using result by (auto simp: finalize_result_def superseded_def split: if_splits)
  have closed: "at_completed_at a \<noteq> None" if "a \<in> set (db_attempts ?db')" "at_operation_id a = op_id r" for a
    using attempt_of_operation [OF schema inv r' that(1)] that(2) fin(2)
    by (auto simp: attempt_consistent_def)
  have others: "q \<in> set (db_operations ?db') \<longleftrightarrow> q \<in> set (db_operations db)" if "op_id q \<noteq> op_id r" for q
    using that by (auto simp: finalize_effect_def set_update_where finalized_operation_def)
  have "db_mailboxes ?db' = db_mailboxes db" by (simp add: finalize_effect_def)
  with h r' status closed others run show ?thesis
    by (intro exI [of _ True] exI [of _ ?db'] conjI impI exI [of _ r] exI [of _ m] bexI [of _ ?r'])
      (auto simp: finalized_operation_def)
qed

theorem finalize_closes_one_witness:
  "\<exists>db'. finalizeMailboxOperationBeforeClaim (\<lambda>_ _. False) 60201 1 sample_running = Inr (True, db') \<and>
     (\<exists>r \<in> set (db_operations db'). op_status r = StatusSuperseded \<or> op_status r = StatusDead)"
proof -
  let ?r = "hd (db_operations sample_running)"
  have "clock_ok 60201 sample_running" by code_simp
  from finalize_closes_one [OF sample_running_ledger this, of "\<lambda>_ _. False" 1]
  obtain b db' where run: "finalizeMailboxOperationBeforeClaim (\<lambda>_ _. False) 60201 1 sample_running = Inr (b, db')"
    and iff: "b \<longleftrightarrow> (\<exists>r m. hopeless_work 1 60201 sample_running r m)"
    and closed: "b \<longrightarrow> (\<exists>r m. \<exists>r' \<in> set (db_operations db'). hopeless_work 1 60201 sample_running r m \<and>
      op_status r' = (if op_desired_revision r < mb_revision m then StatusSuperseded else StatusDead))" by blast
  have "hopeless_work 1 60201 sample_running ?r sample_mailbox"
    by (simp add: hopeless_work_def sample_running_def claim_effect_def sample_pending_def update_where_def
        sample_operation_def new_operation_def sample_mailbox_def new_mailbox_def claimed_operation_def sample_claim_def)
  then have b using iff by blast
  with run closed show ?thesis by (fastforce split: if_splits)
qed

section \<open>Receipts\<close>

text \<open>A receipt of a valid shape is decided by its lease alone: the statement never fails,
  and it reports applied exactly when the operation is running under the receipt's owner, epoch, attempt
  and revision with the lease still live, the observation is about the operation's mailbox and, for a
  success, the observation matches the desired revision and configuration of an active mailbox.\<close>

lemma receipt_applied_iff_fenced:
  assumes "ledger_ok db" "clock_ok now db" "receipt_params_ok p"
  shows "\<exists>db'. resolveMailboxOperation now p db =
    Inr (\<exists>(r, m) \<in> set (operation_mailbox_join db). resolvable now p r m, db')"
proof (cases rule: resolve_cases [OF refl, of now p db])
  case 1
  then show ?thesis by auto
next
  case (2 r m)
  note ok = ledger_okD [OF assms(1)]
  have "schema_ok (resolve_effect now p r db)"
    using resolve_effect_schema [OF ok(1) 2(1-5) assms(3,2)] .
  moreover have "resolve_applied p r db" using resolve_applied_iff [OF ok 2(1-5)] .
  ultimately show ?thesis using 2 by (auto simp: join_iff)
qed

lemma receipt_applied_iff_fenced_witness:
  "\<exists>db'. resolveMailboxOperation 300 sample_receipt sample_running =
    Inr (\<exists>(r, m) \<in> set (operation_mailbox_join sample_running). resolvable 300 sample_receipt r m, db')"
  by (rule receipt_applied_iff_fenced [OF sample_running_ledger]) code_simp+

text \<open>(C5) Success needs evidence: when a success is applied, the operation and its mailbox carry
  in the same commit the observation of an active mailbox at exactly the operation's desired revision
  and configuration, the mailbox's revision is still that revision, and the attempt records it.\<close>

theorem success_carries_evidence:
  assumes "ledger_ok db" "resolveMailboxOperation now p db = Inr (True, db')"
    "rp_ResultStatus p = StatusSucceeded"
  shows "\<exists>r \<in> set (db_operations db'). \<exists>m \<in> set (db_mailboxes db').
    op_id r = rp_OperationID p \<and> op_status r = StatusSucceeded \<and>
    op_observed_status r = Some MailboxStatusActive \<and>
    op_observed_revision r = Some (op_desired_revision r) \<and>
    op_observed_configuration_hash r = Some (op_configuration_hash r) \<and>
    mb_id m = op_resource_id r \<and> mb_tenant_id m = op_tenant_id r \<and>
    mb_observed_status m = ''active'' \<and> mb_revision m = op_desired_revision r \<and>
    mb_observed_revision m = Some (mb_revision m) \<and>
    mb_observed_configuration_hash m = Some (op_configuration_hash r)"
  using assms(2)
proof (cases rule: resolve_cases)
  case (picked r m)
  then have db': "db' = resolve_effect now p r db" using guard_schema_Inr by metis
  have upd: "updates_mailbox p r m" using picked(3-5) assms(3) by (auto simp: updates_mailbox_def resolvable_def)
  have "resolved_operation now p r \<in> set (db_operations db')"
    using picked(1) by (force simp: db' resolve_effect_eq [OF picked(2-5)] set_update_where)
  moreover have "observed_mailbox now p m \<in> set (db_mailboxes db')"
    using picked(2) upd by (force simp: db' resolve_effect_eq [OF picked(2-5)] set_update_where)
  ultimately show ?thesis
    using picked(3-5) assms(3)
    by (intro bexI [of _ "resolved_operation now p r"] bexI [of _ "observed_mailbox now p m"] conjI)
      (simp_all add: resolvable_def resolved_operation_def observed_mailbox_def)
qed simp

theorem success_carries_evidence_witness:
  "\<exists>r \<in> set (db_operations sample_resolved). \<exists>m \<in> set (db_mailboxes sample_resolved).
    op_id r = rp_OperationID sample_receipt \<and> op_status r = StatusSucceeded \<and>
    mb_id m = op_resource_id r \<and> mb_observed_status m = ''active'' \<and>
    mb_observed_revision m = Some (mb_revision m)"
proof -
  have "rp_ResultStatus sample_receipt = StatusSucceeded" by (simp add: sample_receipt_def)
  from success_carries_evidence [OF sample_running_ledger sample_resolves this]
  show ?thesis by blast
qed

end
