(* ===== verification/Provisioning.thy ===== *)
theory Provisioning
  imports Go_Crypto
begin

text \<open>
  Package \<^verbatim>\<open>internal/provisioning\<close> (\<^verbatim>\<open>provisioning.go\<close>): the command to open a
  mailbox, its validation and normalization with the request fingerprint
  (\<open>prepareRequest\<close>), and the application service over a repository interface.
  Errors carry their stable code; the fixed message that belongs to each code
  is not modelled. The Unicode lower-case table \<open>uc\<close> and \<^verbatim>\<open>uuid.UUID.String\<close>
  (\<open>uuid_string\<close>) are parameters.
\<close>

section \<open>Errors\<close>

definition ErrorCodeInvalidArgument :: string where
  "ErrorCodeInvalidArgument = ''INVALID_ARGUMENT''"

definition ErrorCodeDomainUnavailable :: string where
  "ErrorCodeDomainUnavailable = ''DOMAIN_UNAVAILABLE''"

definition ErrorCodeMailboxAlreadyExists :: string where
  "ErrorCodeMailboxAlreadyExists = ''MAILBOX_ALREADY_EXISTS''"

definition ErrorCodeIdempotencyConflict :: string where
  "ErrorCodeIdempotencyConflict = ''IDEMPOTENCY_CONFLICT''"

definition ErrorCodeOperationNotFound :: string where
  "ErrorCodeOperationNotFound = ''OPERATION_NOT_FOUND''"

definition ErrorCodePersistenceUnavailable :: string where
  "ErrorCodePersistenceUnavailable = ''PERSISTENCE_UNAVAILABLE''"

definition provisioning_codes :: "string list" where
  "provisioning_codes =
     [ErrorCodeInvalidArgument, ErrorCodeDomainUnavailable, ErrorCodeMailboxAlreadyExists,
      ErrorCodeIdempotencyConflict, ErrorCodeOperationNotFound, ErrorCodePersistenceUnavailable]"

lemmas provisioning_code_defs =
  ErrorCodeInvalidArgument_def ErrorCodeDomainUnavailable_def ErrorCodeMailboxAlreadyExists_def
  ErrorCodeIdempotencyConflict_def ErrorCodeOperationNotFound_def ErrorCodePersistenceUnavailable_def

definition provisioning_NewError :: "string \<Rightarrow> go_error" where
  "provisioning_NewError code =
     ProvisioningErr (if code \<in> set provisioning_codes then code else ErrorCodePersistenceUnavailable)"

definition HasErrorCode :: "go_error \<Rightarrow> string \<Rightarrow> bool" where
  "HasErrorCode err code \<longleftrightarrow> errors_As_provisioning err = Some code"

section \<open>Data\<close>

record RequestMailboxCommand =
  cmd_TenantID :: uuid
  cmd_DomainID :: uuid
  cmd_LocalPart :: string
  cmd_DisplayName :: string
  cmd_IdempotencyKey :: string

record PreparedRequest =
  pr_TenantID :: uuid
  pr_DomainID :: uuid
  pr_LocalPart :: string
  pr_DisplayName :: string
  pr_IdempotencyKey :: string
  pr_RequestHash :: bytes

record RequestMailboxResult =
  rr_MailboxID :: uuid
  rr_OperationID :: uuid
  rr_Replayed :: bool

record 's Operation =
  po_ID :: uuid
  po_TenantID :: uuid
  po_Kind :: string
  po_ResourceType :: string
  po_ResourceID :: uuid
  po_Status :: 's

record ('s, 'w) provisioning_Repository =
  repo_RequestMailbox :: "go_context \<Rightarrow> PreparedRequest \<Rightarrow> 'w \<Rightarrow> RequestMailboxResult result \<times> 'w"
  repo_GetOperation :: "go_context \<Rightarrow> uuid \<Rightarrow> uuid \<Rightarrow> 'w \<Rightarrow> 's Operation result \<times> 'w"

section \<open>Preparing a request\<close>

definition localPartPattern :: "string \<Rightarrow> bool" where
  "localPartPattern = matches_plus (\<lambda>c. is_lower c \<or> is_digit c \<or>
     c \<in> set (''.!#$%&'' @ [CHR 0x27] @ ''*+/=?^_`{|}~-''))"

definition idempotencyPattern :: "string \<Rightarrow> bool" where
  "idempotencyPattern = matches_plus (\<lambda>c. is_upper c \<or> is_lower c \<or> is_digit c \<or> c \<in> set ''._:-'')"

definition fingerprint :: "(uuid \<Rightarrow> string) \<Rightarrow> uuid \<Rightarrow> string \<Rightarrow> string \<Rightarrow> bytes" where
  "fingerprint uuid_string domain local_part display_name =
     Sum256 (json_object [(''domain_id'', uuid_string domain), (''local_part'', local_part),
       (''display_name'', display_name)])"

definition prepareRequest ::
  "(nat \<Rightarrow> nat) \<Rightarrow> (uuid \<Rightarrow> string) \<Rightarrow> RequestMailboxCommand \<Rightarrow> PreparedRequest result" where
  "prepareRequest uc uuid_string command =
     (if cmd_TenantID command = uuid_Nil \<or> cmd_DomainID command = uuid_Nil
      then Inl (provisioning_NewError ErrorCodeInvalidArgument)
      else
        let localPart = ToLower uc (cmd_LocalPart command) in
        if length localPart = 0 \<or> 64 < length localPart \<or> localPart \<noteq> TrimSpace localPart \<or>
           HasPrefix localPart ''.'' \<or> HasSuffix localPart ''.'' \<or> Contains localPart ''..'' \<or>
           \<not> localPartPattern localPart
        then Inl (provisioning_NewError ErrorCodeInvalidArgument)
        else
          let displayName = TrimSpace (cmd_DisplayName command) in
          if \<not> ValidString displayName \<or> 128 < RuneCountInString displayName \<or>
             contains_rune IsControl displayName
          then Inl (provisioning_NewError ErrorCodeInvalidArgument)
          else
            let idempotencyKey = TrimSpace (cmd_IdempotencyKey command) in
            if length idempotencyKey < 16 \<or> 128 < length idempotencyKey \<or>
               \<not> idempotencyPattern idempotencyKey
            then Inl (provisioning_NewError ErrorCodeInvalidArgument)
            else Inr \<lparr>pr_TenantID = cmd_TenantID command, pr_DomainID = cmd_DomainID command,
                   pr_LocalPart = localPart, pr_DisplayName = displayName,
                   pr_IdempotencyKey = idempotencyKey,
                   pr_RequestHash =
                     fingerprint uuid_string (cmd_DomainID command) localPart displayName\<rparr>)"

section \<open>The service\<close>

definition service_RequestMailbox ::
  "(nat \<Rightarrow> nat) \<Rightarrow> (uuid \<Rightarrow> string) \<Rightarrow> ('s, 'w) provisioning_Repository \<Rightarrow> go_context \<Rightarrow>
   RequestMailboxCommand \<Rightarrow> 'w \<Rightarrow> RequestMailboxResult result \<times> 'w" where
  "service_RequestMailbox uc uuid_string repository ctx command w =
     (case prepareRequest uc uuid_string command of
        Inl err \<Rightarrow> (Inl err, w)
      | Inr prepared \<Rightarrow> repo_RequestMailbox repository ctx prepared w)"

definition service_GetOperation ::
  "('s, 'w) provisioning_Repository \<Rightarrow> go_context \<Rightarrow> uuid \<Rightarrow> uuid \<Rightarrow> 'w \<Rightarrow>
   's Operation result \<times> 'w" where
  "service_GetOperation repository ctx tenant operation w =
     (if tenant = uuid_Nil \<or> operation = uuid_Nil
      then (Inl (provisioning_NewError ErrorCodeInvalidArgument), w)
      else repo_GetOperation repository ctx tenant operation w)"

section \<open>Facts about prepared requests\<close>

lemma prepareRequest_InrD:
  assumes "prepareRequest uc us c = Inr p"
  shows "pr_TenantID p = cmd_TenantID c" "pr_DomainID p = cmd_DomainID c"
    "pr_TenantID p \<noteq> uuid_Nil" "pr_DomainID p \<noteq> uuid_Nil"
    "pr_LocalPart p = ToLower uc (cmd_LocalPart c)" "pr_LocalPart p \<noteq> ''''"
    "length (pr_LocalPart p) \<le> 64" "localPartPattern (pr_LocalPart p)"
    "\<not> HasPrefix (pr_LocalPart p) ''.''" "\<not> HasSuffix (pr_LocalPart p) ''.''"
    "\<not> Contains (pr_LocalPart p) ''..''"
    "pr_DisplayName p = TrimSpace (cmd_DisplayName c)" "ValidString (pr_DisplayName p)"
    "RuneCountInString (pr_DisplayName p) \<le> 128" "\<not> contains_rune IsControl (pr_DisplayName p)"
    "pr_IdempotencyKey p = TrimSpace (cmd_IdempotencyKey c)"
    "16 \<le> length (pr_IdempotencyKey p)" "length (pr_IdempotencyKey p) \<le> 128"
    "idempotencyPattern (pr_IdempotencyKey p)"
    "pr_RequestHash p = fingerprint us (pr_DomainID p) (pr_LocalPart p) (pr_DisplayName p)"
  using assms by (auto simp: prepareRequest_def Let_def split: if_splits)

lemma prepareRequest_Inl:
  assumes "prepareRequest uc us c = Inl e"
  shows "e = ProvisioningErr ErrorCodeInvalidArgument"
  using assms
  by (auto simp: prepareRequest_def Let_def provisioning_NewError_def provisioning_codes_def split: if_splits)

lemma length_fingerprint [simp]: "length (fingerprint us d l n) = 32"
  by (simp add: fingerprint_def)

end
