(* ===== verification/Postgres_Repository.thy ===== *)
theory Postgres_Repository
  imports Postgres_Link Ledger_Theorems Provisioning
begin

text \<open>
  \<^verbatim>\<open>internal/data/postgres/provisioning_repository.go\<close>: the repository over the
  ledger's statements, with its transactions, its error mapping and the
  conversions at the driver's border.

  A call runs over a \<open>pg_link\<close> (faults, landed effects, races); \<open>pg_env\<close> adds
  the timestamp and the identifiers the database draws at the n-th round trip
  and the rows other transactions hold locked.
\<close>

section \<open>Round trips\<close>

record pg_env = "db pg_link" +
  pe_now :: "nat \<Rightarrow> instant"
  pe_uuid :: "nat \<Rightarrow> uuid"
  pe_skip :: skip_locked

section \<open>Errors and conversions\<close>

definition persistenceError :: "go_error \<Rightarrow> go_error" where
  "persistenceError err =
     (if is_context_error err then err else provisioning_NewError ErrorCodePersistenceUnavailable)"

definition operationPersistenceError :: "go_error \<Rightarrow> go_error" where
  "operationPersistenceError err =
     (if is_context_error err then err else OtherError ''operation persistence unavailable'')"

definition hasConstraint :: "go_error \<Rightarrow> string \<Rightarrow> bool" where
  "hasConstraint err name \<longleftrightarrow> errors_As_pg err = Some name"

definition idempotentResult :: "operation_row \<Rightarrow> bytes \<Rightarrow> RequestMailboxResult result" where
  "idempotentResult operation requestHash =
     (if op_request_hash operation \<noteq> requestHash
      then Inl (provisioning_NewError ErrorCodeIdempotencyConflict)
      else Inr \<lparr>rr_MailboxID = op_resource_id operation, rr_OperationID = op_id operation,
             rr_Replayed = True\<rparr>)"

definition toDomainOperation :: "operation_row \<Rightarrow> Status Operation" where
  "toDomainOperation operation =
     \<lparr>po_ID = op_id operation, po_TenantID = op_tenant_id operation, po_Kind = op_kind operation,
      po_ResourceType = op_resource_type operation, po_ResourceID = op_resource_id operation,
      po_Status = op_status operation\<rparr>"

definition leaseDurationMicroseconds :: "duration \<Rightarrow> int \<times> bool" where
  "leaseDurationMicroseconds d =
     (if d \<le> 0 then (0, False)
      else let microseconds = go_quot d 1000;
               microseconds = (if go_rem d 1000 \<noteq> 0 then microseconds + 1 else microseconds)
           in (microseconds, 0 < microseconds))"

definition durationMicroseconds :: "duration \<Rightarrow> int" where
  "durationMicroseconds d = (if d \<le> 0 then 0 else fst (leaseDurationMicroseconds d))"

section \<open>Requests\<close>

definition with_operation :: "operation_row \<Rightarrow> db \<Rightarrow> db" where
  "with_operation r db = db\<lparr>db_operations := db_operations db @ [r]\<rparr>"

text \<open>\<^verbatim>\<open>RequestMailbox\<close> in three parts: the mailbox, the outbox event and the commit;
  the operation row with its conflict branch; the lookups in front.\<close>

definition request_persist ::
  "pg_env \<Rightarrow> PreparedRequest \<Rightarrow> operation_row \<Rightarrow> db \<Rightarrow> RequestMailboxResult result \<times> db" where
  "request_persist env request operation db =
     (let mailboxID = pe_uuid env 0; operationID = pe_uuid env 1;
          displayName = (if pr_DisplayName request \<noteq> '''' then Some (pr_DisplayName request) else None) in
      case query env 4 (insertMailbox (pe_now env 0) mailboxID (pr_TenantID request)
             (pr_DomainID request) (pr_LocalPart request) displayName (with_operation operation db)) of
        Inl e4 \<Rightarrow>
          (Inl (if hasConstraint e4 ''mailboxes_domain_local_part_unique''
                then provisioning_NewError ErrorCodeMailboxAlreadyExists
                else persistenceError e4), db)
      | Inr (_, view4) \<Rightarrow>
        let payload = \<lparr>pl_tenant_id = pr_TenantID request, pl_mailbox_id = mailboxID,
              pl_domain_id = pr_DomainID request, pl_operation_id = operationID, pl_revision = 1\<rparr> in
        case query env 5 (insertOutboxEvent (pe_now env 0) (pe_uuid env 2) (pr_TenantID request)
               (op_id operation) payload view4) of
          Inl e5 \<Rightarrow> (Inl (persistenceError e5), db)
        | Inr (_, view5) \<Rightarrow>
          (case commit env 6 view5 db of
             (Some e6, db6) \<Rightarrow> (Inl (persistenceError e6), db6)
           | (None, db6) \<Rightarrow>
               (Inr \<lparr>rr_MailboxID = mailboxID, rr_OperationID = operationID, rr_Replayed = False\<rparr>, db6)))"

definition request_insert :: "pg_env \<Rightarrow> PreparedRequest \<Rightarrow> db \<Rightarrow> RequestMailboxResult result \<times> db" where
  "request_insert env request db =
     (let mailboxID = pe_uuid env 0; operationID = pe_uuid env 1; db3 = pe_race env 3 db in
      case query env 3 (insertOperation (pe_now env 0) operationID (pr_TenantID request) mailboxID
             (pr_IdempotencyKey request) (pr_RequestHash request) db3) of
        Inl e3 \<Rightarrow>
          if errors_Is e3 ErrNoRows
          then let db4 = pe_race env 4 db3 in
               case query env 4 (getOperationByIdempotencyKey (pr_TenantID request)
                      (pr_IdempotencyKey request) db4) of
                 Inl e4 \<Rightarrow> (Inl (persistenceError e4), db4)
               | Inr existing \<Rightarrow> (idempotentResult existing (pr_RequestHash request), db4)
          else (Inl (persistenceError e3), db3)
      | Inr (operation, _) \<Rightarrow> request_persist env request operation (pe_race env 4 db3))"

definition RequestMailbox :: "pg_env \<Rightarrow> PreparedRequest \<Rightarrow> db \<Rightarrow> RequestMailboxResult result \<times> db" where
  "RequestMailbox env request db =
     (case pe_fault env 0 of Some e \<Rightarrow> (Inl (persistenceError e), db) | None \<Rightarrow>
      let db1 = pe_race env 1 db in
      case query env 1 (getOperationByIdempotencyKey (pr_TenantID request)
             (pr_IdempotencyKey request) db1) of
        Inr existing \<Rightarrow> (idempotentResult existing (pr_RequestHash request), db1)
      | Inl e1 \<Rightarrow>
        if \<not> errors_Is e1 ErrNoRows then (Inl (persistenceError e1), db1) else
        let db2 = pe_race env 2 db1 in
        case query env 2 (getProvisionableDomain (pr_DomainID request) (pr_TenantID request) db2) of
          Inl e2 \<Rightarrow>
            (Inl (if errors_Is e2 ErrNoRows then provisioning_NewError ErrorCodeDomainUnavailable
                  else persistenceError e2), db2)
        | Inr _ \<Rightarrow> request_insert env request db2)"

definition GetOperation :: "pg_env \<Rightarrow> uuid \<Rightarrow> uuid \<Rightarrow> db \<Rightarrow> Status Operation result \<times> db" where
  "GetOperation env tenant operation db =
     (let db1 = pe_race env 0 db in
      case query env 0 (getOperationForTenant tenant operation db1) of
        Inl e \<Rightarrow> (Inl (if errors_Is e ErrNoRows then provisioning_NewError ErrorCodeOperationNotFound
                      else persistenceError e), db1)
      | Inr r \<Rightarrow> (Inr (toDomainOperation r), db1))"

section \<open>The worker's calls\<close>

definition claimed_of_row :: "ClaimMailboxOperationRow \<Rightarrow> instant \<Rightarrow> ClaimedMailboxOperation" where
  "claimed_of_row row expires =
     \<lparr>cl_OperationID = crow_OperationID row, cl_TenantID = crow_TenantID row,
      cl_MailboxID = crow_MailboxID row, cl_DomainID = crow_DomainID row,
      cl_Address = crow_Address row, cl_DesiredRevision = crow_DesiredRevision row,
      cl_ConfigurationHash = crow_ConfigurationHash row, cl_AttemptNumber = crow_AttemptNumber row,
      cl_PriorStatus = crow_PriorStatus row, cl_LeaseOwnerID = crow_LeaseOwnerID row,
      cl_LeaseEpoch = crow_LeaseEpoch row, cl_LeaseExpiresAt = expires\<rparr>"

definition repository_Claim ::
  "pg_env \<Rightarrow> ClaimRequest \<Rightarrow> db \<Rightarrow> ClaimedMailboxOperation option result \<times> db" where
  "repository_Claim env request db =
     (let (leaseMicroseconds, ok) = leaseDurationMicroseconds (cr_LeaseDuration request) in
      if cr_OwnerID request = uuid_Nil \<or> \<not> ok \<or> cr_MaxAttempts request \<le> 0 \<or>
         MaxInt32 < cr_MaxAttempts request
      then (Inl ErrInvalidConfiguration, db)
      else
        case autocommit env 0 (finalizeMailboxOperationBeforeClaim (pe_skip env) (pe_now env 0)
               (cr_MaxAttempts request)) db of
          (Inl e, db1) \<Rightarrow> (Inl (operationPersistenceError e), db1)
        | (Inr _, db1) \<Rightarrow>
          (case autocommit env 1 (claimMailboxOperation (pe_skip env) (pe_now env 1) (pe_uuid env 0)
                  \<lparr>cp_MaxAttempts = cr_MaxAttempts request, cp_OwnerID = cr_OwnerID request,
                   cp_LeaseDurationMicroseconds = leaseMicroseconds\<rparr>) db1 of
             (Inl e, db2) \<Rightarrow>
               (if errors_Is e ErrNoRows then Inr None else Inl (operationPersistenceError e), db2)
           | (Inr row, db2) \<Rightarrow>
               (case crow_LeaseExpiresAt row of
                  None \<Rightarrow> (Inl ErrInvalidClaim, db2)
                | Some expires \<Rightarrow>
                    if length (crow_ConfigurationHash row) \<noteq> 32 then (Inl ErrInvalidClaim, db2)
                    else (Inr (Some (claimed_of_row row expires)), db2))))"

fun validObservedMailboxStatus :: "MailboxStatus \<Rightarrow> bool" where
  "validObservedMailboxStatus MailboxStatusAbsent = True"
| "validObservedMailboxStatus MailboxStatusActive = True"
| "validObservedMailboxStatus MailboxStatusSuspended = True"
| "validObservedMailboxStatus _ = False"

definition validMailboxResolution :: "Resolution \<Rightarrow> bool" where
  "validMailboxResolution resolution =
     (if res_OperationID resolution = uuid_Nil \<or> res_LeaseOwnerID resolution = uuid_Nil \<or>
         res_LeaseEpoch resolution \<le> 0 \<or> res_AttemptNumber resolution \<le> 0 \<or>
         MaxInt32 < res_AttemptNumber resolution \<or> res_DesiredRevision resolution \<le> 0
      then False
      else
        let terminal = (res_Status resolution = StatusSucceeded \<or> res_Status resolution = StatusFailed \<or>
              res_Status resolution = StatusDead);
            retrying = (res_Status resolution = StatusRetryWait \<or> res_Status resolution = StatusUnknown)
        in if \<not> terminal \<and> \<not> retrying then False
           else if retrying \<noteq> (0 < res_NextAttemptDelay resolution) \<or>
                   (terminal \<and> res_NextAttemptDelay resolution \<noteq> 0) then False
           else if res_Status resolution = StatusSucceeded \<and>
                   (res_ErrorCode resolution \<noteq> '''' \<or> res_Observation resolution = None) then False
           else if res_Status resolution \<noteq> StatusSucceeded \<and>
                   \<not> errorCodePattern (res_ErrorCode resolution) then False
           else (case res_Observation resolution of
                   None \<Rightarrow> True
                 | Some obs \<Rightarrow> obs_MailboxID obs \<noteq> uuid_Nil \<and>
                     validObservedMailboxStatus (obs_Status obs) \<and> 0 \<le> obs_Revision obs \<and>
                     \<not> IsZero (obs_InspectedAt obs)))"

definition unix_epoch :: instant where
  "unix_epoch = 62135596800 * 1000000000"

definition resolve_params :: "Resolution \<Rightarrow> ResolveMailboxOperationParams" where
  "resolve_params resolution =
     (let (has, mailbox, status, revision, hash, at) =
            (case res_Observation resolution of
               None \<Rightarrow> (False, uuid_Nil, MailboxStatusOther '''', 0, [], unix_epoch)
             | Some obs \<Rightarrow> (True, obs_MailboxID obs, obs_Status obs, obs_Revision obs,
                 obs_ConfigurationHash obs, obs_InspectedAt obs))
      in \<lparr>rp_OperationID = res_OperationID resolution, rp_LeaseOwnerID = res_LeaseOwnerID resolution,
          rp_LeaseEpoch = res_LeaseEpoch resolution, rp_AttemptNumber = res_AttemptNumber resolution,
          rp_DesiredRevision = res_DesiredRevision resolution, rp_HasObservation = has,
          rp_ObservedMailboxID = mailbox, rp_ResultStatus = res_Status resolution,
          rp_ObservedStatus = status, rp_ObservedRevision = revision,
          rp_ObservedConfigurationHash = hash, rp_ObservedAt = at,
          rp_NextAttemptDelayMicroseconds = durationMicroseconds (res_NextAttemptDelay resolution),
          rp_ErrorCode = res_ErrorCode resolution\<rparr>)"

definition repository_Resolve :: "pg_env \<Rightarrow> Resolution \<Rightarrow> db \<Rightarrow> go_error option \<times> db" where
  "repository_Resolve env resolution db =
     (if \<not> validMailboxResolution resolution then (Some ErrInvalidClaim, db)
      else case pe_fault env 0 of Some e \<Rightarrow> (Some (operationPersistenceError e), db) | None \<Rightarrow>
        let db1 = pe_race env 1 db in
        case query env 1 (resolveMailboxOperation (pe_now env 1) (resolve_params resolution) db1) of
          Inl e \<Rightarrow> (Some (operationPersistenceError e), db1)
        | Inr (applied, view) \<Rightarrow>
            if \<not> applied then (Some ErrLeaseLost, db1)
            else (case commit env 2 view db1 of
                    (Some e, db2) \<Rightarrow> (Some (operationPersistenceError e), db2)
                  | (None, db2) \<Rightarrow> (None, db2)))"

section \<open>The interfaces\<close>

text \<open>A world with a database. Every repository call uses up the next
  environment; the rest of the world is left to the adapter and the clock.\<close>

record pg_world =
  pw_db :: db
  pw_envs :: "nat \<Rightarrow> pg_env"
  pw_calls :: nat

definition call ::
  "(pg_env \<Rightarrow> db \<Rightarrow> 'a \<times> db) \<Rightarrow> 'x pg_world_scheme \<Rightarrow> 'a \<times> 'x pg_world_scheme" where
  "call f w = (let (x, db) = f (pw_envs w (pw_calls w)) (pw_db w)
     in (x, w\<lparr>pw_db := db, pw_calls := pw_calls w + 1\<rparr>))"

definition operation_repository :: "'x pg_world_scheme Repository" where
  "operation_repository =
     \<lparr>ClaimMailboxOperation = (\<lambda>ctx request. call (\<lambda>env. repository_Claim env request)),
      ResolveMailboxOperation = (\<lambda>ctx resolution. call (\<lambda>env. repository_Resolve env resolution))\<rparr>"

definition provisioning_repository :: "(Status, 'x pg_world_scheme) provisioning_Repository" where
  "provisioning_repository =
     \<lparr>repo_RequestMailbox = (\<lambda>ctx request. call (\<lambda>env. RequestMailbox env request)),
      repo_GetOperation = (\<lambda>ctx tenant operation. call (\<lambda>env. GetOperation env tenant operation))\<rparr>"

end
