(* ===== verification/Repository_Runs.thy ===== *)
theory Repository_Runs
  imports Postgres_Repository
begin

text \<open>
  The repository's calls as runs of the ledger: how a request can end, what it
  writes, and that every call moves the tables along ledger steps only.
\<close>

section \<open>Outcomes of a request\<close>

primrec others :: "pg_env \<Rightarrow> nat \<Rightarrow> db \<Rightarrow> db" where
  \<comment> \<open>The database after what other transactions commit up to the n-th round trip.\<close>
  "others env 0 db = db"
| "others env (Suc n) db = pe_race env (Suc n) (others env n db)"

definition request_operation :: "pg_env \<Rightarrow> PreparedRequest \<Rightarrow> operation_row" where
  "request_operation env request =
     new_operation (pe_now env 0) (pe_uuid env 1) (pr_TenantID request) (pe_uuid env 0)
       (pr_IdempotencyKey request) (pr_RequestHash request)"

definition request_mailbox :: "pg_env \<Rightarrow> PreparedRequest \<Rightarrow> mailbox_row" where
  "request_mailbox env request =
     new_mailbox (pe_now env 0) (pe_uuid env 0) (pr_TenantID request) (pr_DomainID request)
       (pr_LocalPart request) (if pr_DisplayName request \<noteq> '''' then Some (pr_DisplayName request) else None)"

definition request_event :: "pg_env \<Rightarrow> PreparedRequest \<Rightarrow> outbox_row" where
  "request_event env request =
     \<lparr>ob_id = pe_uuid env 2, ob_tenant_id = pr_TenantID request, ob_operation_id = pe_uuid env 1,
      ob_event_type = ''mailbox.provision.requested'',
      ob_payload = \<lparr>pl_tenant_id = pr_TenantID request, pl_mailbox_id = pe_uuid env 0,
        pl_domain_id = pr_DomainID request, pl_operation_id = pe_uuid env 1, pl_revision = 1\<rparr>,
      ob_status = ''pending'', ob_attempts = 0, ob_next_attempt_at = pe_now env 0,
      ob_delivered_at = None, ob_created_at = pe_now env 0\<rparr>"

definition with_mailbox :: "mailbox_row \<Rightarrow> db \<Rightarrow> db" where
  "with_mailbox m db = db\<lparr>db_mailboxes := db_mailboxes db @ [m]\<rparr>"

definition with_event :: "outbox_row \<Rightarrow> db \<Rightarrow> db" where
  "with_event e db = db\<lparr>db_outbox := db_outbox db @ [e]\<rparr>"

definition with_request :: "pg_env \<Rightarrow> PreparedRequest \<Rightarrow> db \<Rightarrow> db" where
  "with_request env request db =
     with_event (request_event env request)
       (with_mailbox (request_mailbox env request) (with_operation (request_operation env request) db))"

lemmas with_defs = with_operation_def with_mailbox_def with_event_def

lemma insertOperation_eq:
  "insertOperation now ident tenant resource key h db = Inr (r, view) \<longleftrightarrow>
     \<not> list_ex (\<lambda>q. op_tenant_id q = tenant \<and> op_idempotency_key q = key) (db_operations db) \<and>
     r = new_operation now ident tenant resource key h \<and> view = with_operation r db \<and> schema_ok view"
  by (auto simp: insertOperation_def Let_def with_operation_def dest: guard_schema_Inr)

lemma insertMailbox_eq:
  "insertMailbox now ident tenant domain lp dn db = Inr (m, view) \<longleftrightarrow>
     m = new_mailbox now ident tenant domain lp dn \<and> view = with_mailbox m db \<and> schema_ok view"
  by (auto simp: insertMailbox_def Let_def with_mailbox_def dest: guard_schema_Inr)

lemma insertOutboxEvent_InrD:
  assumes "insertOutboxEvent now (pe_uuid env 2) (pr_TenantID request) (pe_uuid env 1)
     \<lparr>pl_tenant_id = pr_TenantID request, pl_mailbox_id = pe_uuid env 0,
        pl_domain_id = pr_DomainID request, pl_operation_id = pe_uuid env 1, pl_revision = 1\<rparr> db = Inr (u, view)"
    "now = pe_now env 0"
  shows "view = with_event (request_event env request) db" "schema_ok view"
  using assms by (auto simp: insertOutboxEvent_def with_event_def request_event_def dest: guard_schema_Inr)

text \<open>The four ways a request ends: an early error, an answer from an existing
  operation, a created request, or an error of the commit itself.\<close>

lemma query_Inr: "query env n r = Inr x \<longleftrightarrow> pe_fault env n = None \<and> r = Inr x"
  by (auto simp: query_def split: option.splits)

text \<open>How a request can end over the database \<open>base\<close> that it meets: refused with
  nothing written, created, or with a failed commit that may have landed.\<close>

definition request_written :: "pg_env \<Rightarrow> PreparedRequest \<Rightarrow> db \<Rightarrow> RequestMailboxResult result \<Rightarrow> db \<Rightarrow> bool" where
  "request_written env request base res db' \<longleftrightarrow>
     db' = with_request env request base \<and> schema_ok db' \<and>
     schema_ok (with_mailbox (request_mailbox env request)
       (with_operation (request_operation env request) base)) \<and>
     (case pe_fault env 6 of
        None \<Rightarrow> res = Inr \<lparr>rr_MailboxID = pe_uuid env 0, rr_OperationID = pe_uuid env 1, rr_Replayed = False\<rparr>
      | Some e \<Rightarrow> pe_landed env 6 \<and> res = Inl (persistenceError e))"

lemma request_operation_id [simp]: "op_id (request_operation env request) = pe_uuid env 1"
  by (simp add: request_operation_def new_operation_def)

lemma request_persist_cases:
  assumes "request_persist env request (request_operation env request) base = (res, db')"
  obtains (refused) e where "res = Inl e" "db' = base"
  | (written) "request_written env request base res db'"
proof -
  let ?view3 = "with_operation (request_operation env request) base"
  let ?mb = "insertMailbox (pe_now env 0) (pe_uuid env 0) (pr_TenantID request)
     (pr_DomainID request) (pr_LocalPart request)
     (if pr_DisplayName request \<noteq> '''' then Some (pr_DisplayName request) else None) ?view3"
  show thesis
  proof (cases "query env 4 ?mb")
    case (Inl e)
    then show thesis using assms refused by (auto simp: request_persist_def)
  next
    case (Inr mv)
    let ?view4 = "with_mailbox (request_mailbox env request) ?view3"
    from Inr have mv: "query env 4 ?mb = Inr (request_mailbox env request, ?view4)" and ok4: "schema_ok ?view4"
      by (cases mv; auto simp: query_Inr insertMailbox_eq request_mailbox_def)+
    let ?ob = "insertOutboxEvent (pe_now env 0) (pe_uuid env 2) (pr_TenantID request) (pe_uuid env 1)
       \<lparr>pl_tenant_id = pr_TenantID request, pl_mailbox_id = pe_uuid env 0,
        pl_domain_id = pr_DomainID request, pl_operation_id = pe_uuid env 1, pl_revision = 1\<rparr> ?view4"
    show thesis
    proof (cases "query env 5 ?ob")
      case (Inl e)
      then show thesis using assms mv refused by (auto simp: request_persist_def Let_def)
    next
      case (Inr ov)
      then obtain u v where ov: "query env 5 ?ob = Inr (u, v)" by (cases ov) simp
      then have "?ob = Inr (u, v)" by (simp add: query_Inr)
      then have v: "v = with_request env request base" "schema_ok v"
        using insertOutboxEvent_InrD [OF _ refl] by (auto simp: with_request_def)
      have "(res, db') = (case commit env 6 v base of (Some e6, db6) \<Rightarrow> (Inl (persistenceError e6), db6)
         | (None, db6) \<Rightarrow> (Inr \<lparr>rr_MailboxID = pe_uuid env 0, rr_OperationID = pe_uuid env 1,
             rr_Replayed = False\<rparr>, db6))"
        using assms mv ov by (simp add: request_persist_def Let_def del: One_nat_def)
      then show thesis
        using refused written v ok4
        by (auto simp: commit_def request_written_def split: option.splits if_splits)
    qed
  qed
qed

text \<open>A request that found no operation at its first look ends over the
  database of its last round trip.\<close>

definition request_outcome ::
  "pg_env \<Rightarrow> PreparedRequest \<Rightarrow> db \<Rightarrow> RequestMailboxResult result \<Rightarrow> db \<Rightarrow> bool" where
  "request_outcome env request base res db' \<longleftrightarrow>
     ((\<exists>e. res = Inl e) \<and> db' = base) \<or>
     (db' = base \<and> (\<exists>r. getOperationByIdempotencyKey (pr_TenantID request) (pr_IdempotencyKey request) base = Inr r \<and>
        res = idempotentResult r (pr_RequestHash request))) \<or>
     request_written env request base res db'"

lemma request_insert_outcome:
  assumes "request_insert env request db = (res, db')"
  shows "\<exists>base \<in> {pe_race env 3 db, pe_race env 4 (pe_race env 3 db)}. request_outcome env request base res db'"
proof -
  let ?ins = "insertOperation (pe_now env 0) (pe_uuid env 1) (pr_TenantID request) (pe_uuid env 0)
     (pr_IdempotencyKey request) (pr_RequestHash request) (pe_race env 3 db)"
  show ?thesis
  proof (cases "query env 3 ?ins")
    case (Inl e)
    then show ?thesis
      using assms by (auto simp: request_insert_def Let_def request_outcome_def query_Inr
          split: if_splits sum.splits)
  next
    case (Inr rv)
    then obtain v where "query env 3 ?ins = Inr (request_operation env request, v)"
      by (cases rv) (auto simp: query_Inr insertOperation_eq request_operation_def)
    then have "request_persist env request (request_operation env request) (pe_race env 4 (pe_race env 3 db)) = (res, db')"
      using assms by (simp add: request_insert_def)
    then show ?thesis
      by (cases rule: request_persist_cases) (auto simp: request_outcome_def)
  qed
qed

lemma RequestMailbox_outcome:
  assumes "RequestMailbox env request db = (res, db')"
  shows "\<exists>n \<le> 4. request_outcome env request (others env n db) res db'"
proof (cases "\<exists>n \<le> 2. request_outcome env request (others env n db) res db'")
  case True
  then obtain n where "n \<le> 2" "request_outcome env request (others env n db) res db'" by blast
  then show ?thesis by (intro exI [of _ n]) simp
next
  case False
  have num: "others env 1 db = pe_race env 1 db" "others env 2 db = pe_race env 2 (pe_race env 1 db)"
    by (simp_all add: numeral_eq_Suc)
  have no: "\<not> request_outcome env request (others env n db) res db'" if "n \<le> 2" for n
    using False that by blast
  have "request_insert env request (others env 2 db) = (res, db')"
    using assms no [of 0] no [of 1] no [of 2] unfolding num
    by (auto simp: RequestMailbox_def Let_def request_outcome_def query_Inr
        split: option.splits sum.splits if_splits)
  from request_insert_outcome [OF this] show ?thesis
  proof
    fix base assume "base \<in> {pe_race env 3 (others env 2 db), pe_race env 4 (pe_race env 3 (others env 2 db))}"
      "request_outcome env request base res db'"
    then consider "request_outcome env request (others env 3 db) res db'"
      | "request_outcome env request (others env 4 db) res db'"
      by (auto simp: numeral_eq_Suc)
    then show ?thesis by cases (auto intro: exI [of _ 3] exI [of _ 4])
  qed
qed

section \<open>Calls are runs of statements\<close>

definition races_run :: "pg_env \<Rightarrow> bool" where
  "races_run env \<longleftrightarrow> (\<forall>n db. ledger_step\<^sup>*\<^sup>* db (pe_race env n db))"

lemma others_run: "races_run env \<Longrightarrow> ledger_step\<^sup>*\<^sup>* db (others env n db)"
  by (induction n) (auto simp: races_run_def intro: rtranclp_trans)

lemma schema_ok_without_mailbox:
  assumes "schema_ok (with_mailbox m db)"
  shows "schema_ok db"
  using assms by (auto simp: schema_ok_iff keys_iff with_mailbox_def)

lemma with_request_run:
  assumes "schema_ok (with_mailbox (request_mailbox env request)
      (with_operation (request_operation env request) base))"
    and "schema_ok (with_request env request base)"
  shows "ledger_step\<^sup>*\<^sup>* base (with_request env request base)"
proof -
  let ?v3 = "with_operation (request_operation env request) base"
  let ?v4 = "with_mailbox (request_mailbox env request) ?v3"
  have ok3: "schema_ok ?v3" using schema_ok_without_mailbox assms(1) .
  then have "distinct (map (\<lambda>r. (op_tenant_id r, op_idempotency_key r)) (db_operations ?v3))"
    by (simp add: schema_ok_iff keys_iff)
  then have "\<not> list_ex (\<lambda>q. op_tenant_id q = pr_TenantID request \<and>
      op_idempotency_key q = pr_IdempotencyKey request) (db_operations base)"
    by (auto simp: with_operation_def request_operation_def new_operation_def list_ex_iff rev_image_eqI)
  then have "insertOperation (pe_now env 0) (pe_uuid env 1) (pr_TenantID request) (pe_uuid env 0)
      (pr_IdempotencyKey request) (pr_RequestHash request) base = Inr (request_operation env request, ?v3)"
    using ok3 by (simp add: insertOperation_eq request_operation_def)
  then have s1: "ledger_step base ?v3" by (rule ledger_step.insert_operation)
  have "insertMailbox (pe_now env 0) (pe_uuid env 0) (pr_TenantID request) (pr_DomainID request)
      (pr_LocalPart request) (if pr_DisplayName request \<noteq> '''' then Some (pr_DisplayName request) else None) ?v3 =
      Inr (request_mailbox env request, ?v4)"
    using assms(1) by (simp add: insertMailbox_eq request_mailbox_def)
  then have s2: "ledger_step ?v3 ?v4" by (rule ledger_step.insert_mailbox)
  have "insertOutboxEvent (pe_now env 0) (pe_uuid env 2) (pr_TenantID request) (pe_uuid env 1)
      \<lparr>pl_tenant_id = pr_TenantID request, pl_mailbox_id = pe_uuid env 0,
       pl_domain_id = pr_DomainID request, pl_operation_id = pe_uuid env 1, pl_revision = 1\<rparr> ?v4 =
      Inr ((), with_request env request base)"
    using assms(2) by (simp add: insertOutboxEvent_def with_request_def with_event_def request_event_def)
  then have "ledger_step ?v4 (with_request env request base)" by (rule ledger_step.insert_outbox)
  with s1 s2 show ?thesis by (meson converse_rtranclp_into_rtranclp rtranclp.rtrancl_refl)
qed

lemma request_outcome_run:
  assumes "request_outcome env request base res db'"
  shows "ledger_step\<^sup>*\<^sup>* base db'"
  using assms by (auto simp: request_outcome_def request_written_def intro: with_request_run)

lemma RequestMailbox_run:
  assumes "races_run env" "RequestMailbox env request db = (res, db')"
  shows "ledger_step\<^sup>*\<^sup>* db db'"
  using RequestMailbox_outcome [OF assms(2)] others_run [OF assms(1)] request_outcome_run
  by (meson rtranclp_trans)

lemma autocommit_run:
  assumes "races_run env" "autocommit env n statement db = (res, db')"
    and "\<And>d x d'. statement d = Inr (x, d') \<Longrightarrow> ledger_step d d'"
  shows "ledger_step\<^sup>*\<^sup>* db db'"
proof -
  have race: "ledger_step\<^sup>*\<^sup>* db (pe_race env n db)" using assms(1) by (simp add: races_run_def)
  have "db' = pe_race env n db \<or> ledger_step (pe_race env n db) db'"
    using assms(2,3) by (auto simp: autocommit_def Let_def split: sum.splits prod.splits if_splits)
  then show ?thesis using race by (auto intro: rtranclp.rtrancl_into_rtrancl)
qed

lemma repository_Claim_run:
  assumes "races_run env" "repository_Claim env request db = (res, db')"
  shows "ledger_step\<^sup>*\<^sup>* db db'"
proof -
  obtain us ok where us: "leaseDurationMicroseconds (cr_LeaseDuration request) = (us, ok)" by force
  let ?fin = "finalizeMailboxOperationBeforeClaim (pe_skip env) (pe_now env 0) (cr_MaxAttempts request)"
  let ?claim = "claimMailboxOperation (pe_skip env) (pe_now env 1) (pe_uuid env 0)
     \<lparr>cp_MaxAttempts = cr_MaxAttempts request, cp_OwnerID = cr_OwnerID request,
      cp_LeaseDurationMicroseconds = us\<rparr>"
  obtain r1 db1 where a1: "autocommit env 0 ?fin db = (r1, db1)" by force
  obtain r2 db2 where a2: "autocommit env 1 ?claim db1 = (r2, db2)" by force
  have "ledger_step\<^sup>*\<^sup>* db db1"
    by (rule autocommit_run [OF assms(1) a1]) (rule ledger_step.finalize)
  moreover have "ledger_step\<^sup>*\<^sup>* db1 db2"
    by (rule autocommit_run [OF assms(1) a2]) (rule ledger_step.claim)
  moreover have "db' \<in> {db, db1, db2}"
    using assms(2) us a1 a2
    by (auto simp: repository_Claim_def split: if_splits sum.splits option.splits)
  ultimately show ?thesis by (auto intro: rtranclp_trans)
qed

lemma repository_Resolve_run:
  assumes "races_run env" "repository_Resolve env resolution db = (res, db')"
  shows "ledger_step\<^sup>*\<^sup>* db db'"
proof -
  let ?db1 = "pe_race env 1 db"
  have race: "ledger_step\<^sup>*\<^sup>* db ?db1" using assms(1) by (simp add: races_run_def)
  have "db' = db \<or> db' = ?db1 \<or>
      (\<exists>b. resolveMailboxOperation (pe_now env 1) (resolve_params resolution) ?db1 = Inr (b, db'))"
    using assms(2)
    by (auto simp: repository_Resolve_def Let_def commit_def query_def
        split: if_splits option.splits sum.splits prod.splits)
  then show ?thesis using race by (auto intro: rtranclp.rtrancl_into_rtrancl ledger_step.resolve)
qed

section \<open>Existing operations answer\<close>

lemma getOperation_key_Inr:
  "getOperationByIdempotencyKey tenant key db = Inr r \<Longrightarrow>
   r \<in> set (db_operations db) \<and> op_tenant_id r = tenant \<and> op_idempotency_key r = key"
  by (auto simp: getOperationByIdempotencyKey_def find_Some_iff split: option.splits)

lemma getOperation_key_unique:
  assumes "schema_ok db" "r \<in> set (db_operations db)"
  shows "getOperationByIdempotencyKey (op_tenant_id r) (op_idempotency_key r) db = Inr r"
proof -
  let ?p = "\<lambda>q. op_tenant_id q = op_tenant_id r \<and> op_idempotency_key q = op_idempotency_key r"
  obtain q where q: "find ?p (db_operations db) = Some q"
    using assms(2) by (cases "find ?p (db_operations db)") (auto simp: find_None_iff)
  then have "q \<in> set (db_operations db)" "?p q" by (auto simp: find_Some_iff)
  moreover have "distinct (map (\<lambda>r. (op_tenant_id r, op_idempotency_key r)) (db_operations db))"
    using assms(1) by (simp add: schema_ok_iff keys_iff)
  ultimately have "q = r" using distinct_map_eqD [of _ _ q r] assms(2) by auto
  then show ?thesis using q by (simp add: getOperationByIdempotencyKey_def)
qed

lemma request_answered:
  assumes "schema_ok (pe_race env 1 db)" "pe_fault env 0 = None" "pe_fault env 1 = None"
    and "r \<in> set (db_operations (pe_race env 1 db))" "op_tenant_id r = pr_TenantID request"
      "op_idempotency_key r = pr_IdempotencyKey request"
  shows "RequestMailbox env request db = (idempotentResult r (pr_RequestHash request), pe_race env 1 db)"
  using getOperation_key_unique [OF assms(1,4)] assms
  by (simp add: RequestMailbox_def Let_def query_def)

end
