(* ===== verification/Repository_Theorems.thy ===== *)
theory Repository_Theorems
  imports Repository_Runs
begin

text \<open>
  The properties of the provisioning repository: atomic and idempotent
  requests, the fit of prepared requests to the schema, tenant isolation,
  public errors and the rounding of durations.
\<close>

section \<open>Prepared requests fit the schema\<close>

lemma localPart_normalized:
  assumes "prepareRequest uc us c = Inr p"
  shows "local_part_normalized (pr_LocalPart p)"
  using prepareRequest_InrD(6-11) [OF assms]
  by (cases "pr_LocalPart p")
    (auto simp: local_part_normalized_def localPartPattern_def local_part_char_def [abs_def])

lemma request_operation_ok:
  assumes "prepareRequest uc us c = Inr p"
  shows "row_ok operation_checks (request_operation env p)"
  using prepareRequest_InrD(17-20) [OF assms]
  by (simp add: row_ok_def operation_checks_def request_operation_def new_operation_def
      idempotencyPattern_def idempotency_key_char_def [abs_def] MaxInt32_def MaxInt64_def)

lemma request_mailbox_ok:
  assumes "prepareRequest uc us c = Inr p"
  shows "row_ok mailbox_checks (request_mailbox env p)"
proof -
  have "trim_list (\<lambda>c. c = CHR '' '') (pr_DisplayName p) = pr_DisplayName p"
    using TrimSpace_first TrimSpace_last prepareRequest_InrD(12) [OF assms]
    by (intro trim_list_id) metis+
  moreover have "1 \<le> RuneCountInString (pr_DisplayName p)" if "pr_DisplayName p \<noteq> ''''"
    using that by (cases "runes (pr_DisplayName p)") (auto simp: RuneCountInString_def)
  ultimately show ?thesis
    using localPart_normalized [OF assms] prepareRequest_InrD(14) [OF assms]
    by (simp add: row_ok_def mailbox_checks_def request_mailbox_def new_mailbox_def)
qed

text \<open>The conditions under which a request is new: its domain and tenant are active,
  its key and its address are not in use, and the drawn identifiers are fresh.\<close>

definition request_new :: "pg_env \<Rightarrow> PreparedRequest \<Rightarrow> db \<Rightarrow> bool" where
  "request_new env p db \<longleftrightarrow>
     getOperationByIdempotencyKey (pr_TenantID p) (pr_IdempotencyKey p) db = Inl ErrNoRows \<and>
     getProvisionableDomain (pr_DomainID p) (pr_TenantID p) db = Inr (pr_DomainID p) \<and>
     pe_uuid env 1 \<notin> set (map op_id (db_operations db)) \<and>
     pe_uuid env 0 \<notin> set (map mb_id (db_mailboxes db)) \<and>
     pe_uuid env 2 \<notin> set (map ob_id (db_outbox db))"

definition quiet :: "pg_env \<Rightarrow> bool" where
  "quiet env \<longleftrightarrow> pe_fault env = (\<lambda>_. None) \<and> pe_race env = (\<lambda>_ db. db)"

lemma provisionable_rows:
  assumes "getProvisionableDomain domain tenant db = Inr d"
  shows "(domain, tenant) \<in> set (map (\<lambda>d. (d_id d, d_tenant_id d)) (db_domains db))"
    "tenant \<in> set (map t_id (db_tenants db))"
  using assms
  by (force simp: getProvisionableDomain_def find_Some_iff list_ex_iff split: option.splits)+

lemma provisionable_domain:
  assumes "d \<in> set (db_domains db)" "d_tenant_id d = tenant" "d_status d = ''active''"
    and "t \<in> set (db_tenants db)" "t_id t = tenant" "t_status t = ''active''"
  shows "getProvisionableDomain (d_id d) tenant db = Inr (d_id d)"
proof -
  have "\<exists>d' \<in> set (db_domains db). d_id d' = d_id d \<and> d_tenant_id d' = tenant \<and> d_status d' = ''active'' \<and>
      list_ex (\<lambda>t. t_id t = d_tenant_id d' \<and> t_status t = ''active'') (db_tenants db)"
    using assms by (auto simp: list_ex_iff)
  then show ?thesis
    by (auto simp: getProvisionableDomain_def find_None_iff find_Some_iff split: option.splits)
qed

lemma lookup_none:
  "getOperationByIdempotencyKey tenant key db = Inl ErrNoRows \<longleftrightarrow>
   (\<forall>r \<in> set (db_operations db). \<not> (op_tenant_id r = tenant \<and> op_idempotency_key r = key))"
  by (auto simp: getOperationByIdempotencyKey_def find_None_iff find_Some_iff split: option.splits)

lemma request_operation_schema:
  assumes "schema_ok db" "prepareRequest uc us c = Inr p" "request_new env p db"
  shows "schema_ok (with_operation (request_operation env p) db)"
proof -
  note new = assms(3) [unfolded request_new_def lookup_none]
  have "(pr_TenantID p, pr_IdempotencyKey p) \<notin>
      (\<lambda>r. (op_tenant_id r, op_idempotency_key r)) ` set (db_operations db)"
    using new by auto
  then show ?thesis
    using assms(1) request_operation_ok [OF assms(2), of env] new provisionable_rows [of _ _ db]
    unfolding schema_ok_iff keys_iff
    by (auto simp: with_operation_def request_operation_def new_operation_def)
qed

lemma schema_with_mailbox:
  assumes "schema_ok db" "row_ok mailbox_checks m" "mb_id m \<notin> set (map mb_id (db_mailboxes db))"
    "(mb_domain_id m, mb_local_part m) \<notin> set (map (\<lambda>m. (mb_domain_id m, mb_local_part m)) (db_mailboxes db))"
    "(mb_domain_id m, mb_tenant_id m) \<in> set (map (\<lambda>d. (d_id d, d_tenant_id d)) (db_domains db))"
  shows "schema_ok (with_mailbox m db)"
  using assms unfolding schema_ok_iff keys_iff by (auto simp: with_mailbox_def)

lemma schema_with_event:
  assumes "schema_ok db" "row_ok outbox_checks e" "ob_id e \<notin> set (map ob_id (db_outbox db))"
    "ob_operation_id e \<notin> set (map ob_operation_id (db_outbox db))"
    "(ob_operation_id e, ob_tenant_id e) \<in> set (map (\<lambda>r. (op_id r, op_tenant_id r)) (db_operations db))"
  shows "schema_ok (with_event e db)"
  using assms unfolding schema_ok_iff keys_iff by (auto simp: with_event_def)

text \<open>A second mailbox at an address in use is refused by exactly that constraint.\<close>

lemma duplicate_address_violation:
  assumes "schema_ok db" "row_ok mailbox_checks m" "mb_id m \<notin> set (map mb_id (db_mailboxes db))"
    "(mb_domain_id m, mb_local_part m) \<in> set (map (\<lambda>m. (mb_domain_id m, mb_local_part m)) (db_mailboxes db))"
  shows "guard_schema x (with_mailbox m db) = Inl (PgError ''mailboxes_domain_local_part_unique'')"
proof -
  let ?db = "with_mailbox m db"
  have rows: "list_all snd (row_constraints mailbox_checks (db_mailboxes ?db))"
    "list_all snd (row_constraints operation_checks (db_operations ?db))"
    "list_all snd (row_constraints attempt_checks (db_attempts ?db))"
    "list_all snd (row_constraints outbox_checks (db_outbox ?db))"
    using assms(1,2) by (auto simp: row_constraints_iff schema_ok_iff with_mailbox_def)
  have skip: "find (\<lambda>c. \<not> snd c) (xs @ ys) = find (\<lambda>c. \<not> snd c) ys" if "list_all snd xs" for xs ys :: "(string \<times> bool) list"
    using that by (induction xs) auto
  have "find (\<lambda>c. \<not> snd c) (key_constraints ?db) = Some (''mailboxes_domain_local_part_unique'', False)"
    using assms(1,3,4) unfolding schema_ok_iff keys_iff
    by (auto simp: key_constraints_def with_mailbox_def)
  then show ?thesis
    using rows by (simp add: guard_schema_def first_violation_def schema_constraints_def skip)
qed

lemma quietD: "quiet env \<Longrightarrow> pe_fault env n = None" "quiet env \<Longrightarrow> pe_race env n db = db"
  by (simp_all add: quiet_def)

lemma quiet_query: "quiet env \<Longrightarrow> query env n r = r"
  by (simp add: query_def quiet_def)

lemma quiet_others: "quiet env \<Longrightarrow> others env n db = db"
  by (induction n) (simp_all add: quietD)

lemma quiet_races_run: "quiet env \<Longrightarrow> races_run env"
  by (simp add: races_run_def quietD)

lemma request_insert_new:
  assumes "schema_ok db" "prepareRequest uc us c = Inr p" "request_new env p db" "quiet env"
  shows "RequestMailbox env p db = request_persist env p (request_operation env p) db"
proof -
  have "insertOperation (pe_now env 0) (pe_uuid env 1) (pr_TenantID p) (pe_uuid env 0)
      (pr_IdempotencyKey p) (pr_RequestHash p) db =
      Inr (request_operation env p, with_operation (request_operation env p) db)"
    using request_operation_schema [OF assms(1-3)] assms(3)
    by (auto simp: insertOperation_eq request_operation_def request_new_def lookup_none list_ex_iff)
  then show ?thesis
    using assms(3) unfolding request_new_def
    by (simp add: RequestMailbox_def request_insert_def Let_def quietD [OF assms(4)]
        quiet_query [OF assms(4)])
qed

lemma fresh_operation_event:
  assumes "schema_ok db" "i \<notin> set (map op_id (db_operations db))"
  shows "i \<notin> set (map ob_operation_id (db_outbox db))"
proof
  assume "i \<in> set (map ob_operation_id (db_outbox db))"
  then obtain e where e: "e \<in> set (db_outbox db)" "ob_operation_id e = i" by auto
  have "set (map (\<lambda>e. (ob_operation_id e, ob_tenant_id e)) (db_outbox db)) \<subseteq>
      set (map (\<lambda>r. (op_id r, op_tenant_id r)) (db_operations db))"
    using assms(1) by (simp add: schema_ok_iff keys_iff)
  then have "(ob_operation_id e, ob_tenant_id e) \<in> (\<lambda>r. (op_id r, op_tenant_id r)) ` set (db_operations db)"
    using e(1) by auto
  then show False using e(2) assms(2) by auto
qed

section \<open>Properties of the repository\<close>

text \<open>Every changing call of the repository is a run of ledger statements, whatever round trips fail
  and whatever other transactions commit in between: requests, claims and receipts can only move the
  tables along steps of the ledger, so its invariant holds after every call.\<close>

lemma repository_calls_are_runs:
  assumes "races_run env" "ledger_ok db"
  shows "(\<forall>res db'. RequestMailbox env request db = (res, db') \<longrightarrow> ledger_step\<^sup>*\<^sup>* db db' \<and> ledger_ok db') \<and>
    (\<forall>res db'. repository_Claim env claim db = (res, db') \<longrightarrow> ledger_step\<^sup>*\<^sup>* db db' \<and> ledger_ok db') \<and>
    (\<forall>res db'. repository_Resolve env resolution db = (res, db') \<longrightarrow> ledger_step\<^sup>*\<^sup>* db db' \<and> ledger_ok db')"
  using RequestMailbox_run [OF assms(1)] repository_Claim_run [OF assms(1)]
    repository_Resolve_run [OF assms(1)] ledger.run_inv assms(2) by blast

definition sample_env :: pg_env where
  "sample_env =
     \<lparr>pe_fault = (\<lambda>_. None), pe_landed = (\<lambda>_. False), pe_race = (\<lambda>_ db. db), pe_now = (\<lambda>_. 200),
      pe_uuid = (\<lambda>n. word_of_nat (n + 20)), pe_skip = (\<lambda>_ _. False)\<rparr>"

lemma sample_env_quiet: "quiet sample_env"
  by (simp add: quiet_def sample_env_def)

definition sample_prepared :: PreparedRequest where
  "sample_prepared =
     \<lparr>pr_TenantID = 1, pr_DomainID = 2, pr_LocalPart = ''grace'', pr_DisplayName = ''Grace'',
      pr_IdempotencyKey = ''request-key-0002'', pr_RequestHash = sample_hash\<rparr>"

lemma repository_calls_are_runs_witness:
  "ledger_ok (snd (RequestMailbox sample_env sample_prepared sample_pending))"
  using repository_calls_are_runs [OF quiet_races_run [OF sample_env_quiet] sample_pending_ledger]
  by (metis prod.collapse)

text \<open>(C7) A request is atomic: over the tables as the other transactions leave them, it either
  writes nothing, or writes exactly the operation, the mailbox and the outbox event together. It
  writes them exactly when it reports a new mailbox, or when the commit itself fails after it has
  taken effect; an answer from an existing operation writes nothing.\<close>

theorem request_atomic:
  assumes "RequestMailbox env request db = (res, db')"
  shows "\<exists>n \<le> 4. case res of
      Inr rr \<Rightarrow> db' = (if rr_Replayed rr then others env n db else with_request env request (others env n db))
    | Inl e \<Rightarrow> db' = others env n db \<or>
        (pe_fault env 6 \<noteq> None \<and> pe_landed env 6 \<and> db' = with_request env request (others env n db))"
proof -
  obtain n where n: "n \<le> 4" "request_outcome env request (others env n db) res db'"
    using RequestMailbox_outcome [OF assms] by blast
  then show ?thesis
    by (intro exI [of _ n])
      (auto simp: request_outcome_def request_written_def idempotentResult_def
        split: sum.splits option.splits if_splits)
qed

theorem request_atomic_witness:
  "\<exists>n \<le> 4. snd (RequestMailbox sample_env sample_prepared sample_request_tables) =
      with_request sample_env sample_prepared (others sample_env n sample_request_tables)"
proof -
  have res: "fst (RequestMailbox sample_env sample_prepared sample_request_tables) =
      Inr \<lparr>rr_MailboxID = 20, rr_OperationID = 21, rr_Replayed = False\<rparr>"
    by code_simp
  show ?thesis
    using request_atomic [OF prod.collapse [symmetric],
        of sample_env sample_prepared sample_request_tables] unfolding res by simp
qed

lemma answered_operation:
  assumes "RequestMailbox env request db = (Inr rr, db')"
  shows "\<exists>r \<in> set (db_operations db'). op_tenant_id r = pr_TenantID request \<and>
    op_idempotency_key r = pr_IdempotencyKey request \<and> op_request_hash r = pr_RequestHash request \<and>
    op_id r = rr_OperationID rr \<and> op_resource_id r = rr_MailboxID rr"
proof -
  obtain n where "request_outcome env request (others env n db) (Inr rr) db'"
    using RequestMailbox_outcome [OF assms] by blast
  then consider (old) r where
      "getOperationByIdempotencyKey (pr_TenantID request) (pr_IdempotencyKey request) db' = Inr r"
      "Inr rr = idempotentResult r (pr_RequestHash request)"
    | (new) "db' = with_request env request (others env n db)"
      "rr = \<lparr>rr_MailboxID = pe_uuid env 0, rr_OperationID = pe_uuid env 1, rr_Replayed = False\<rparr>"
    by (auto simp: request_outcome_def request_written_def split: option.splits)
  then show ?thesis
  proof cases
    case old
    then show ?thesis
      using getOperation_key_Inr [OF old(1)] by (auto simp: idempotentResult_def split: if_splits)
  next
    case new
    then show ?thesis
      by (intro bexI [of _ "request_operation env request"])
        (simp_all add: with_request_def with_defs request_operation_def new_operation_def)
  qed
qed

lemma operation_survives:
  assumes "ledger_ok db" "ledger_step\<^sup>*\<^sup>* db db'" "r \<in> set (db_operations db)"
  shows "\<exists>r' \<in> set (db_operations db'). operation_request r' = operation_request r"
  using ledger.run_rel [OF assms(2,1)] assms(3) unfolding ledger_le_def operation_le_def by blast

text \<open>(C6) Requests are idempotent: after a request has been answered, any later request of the
  same tenant with the same key is answered from the same operation, whatever ran in between: with the
  same fingerprint it returns the same mailbox and operation as a replay, with another fingerprint it is
  a conflict; either way it writes nothing.\<close>

theorem request_idempotent:
  assumes "ledger_ok db" "races_run env" "RequestMailbox env request db = (Inr rr, db1)"
    and "ledger_step\<^sup>*\<^sup>* db1 db2" "races_run env'" "pe_fault env' 0 = None" "pe_fault env' 1 = None"
    and "pr_TenantID again = pr_TenantID request" "pr_IdempotencyKey again = pr_IdempotencyKey request"
  shows "RequestMailbox env' again db2 =
    (if pr_RequestHash again = pr_RequestHash request then Inr (rr\<lparr>rr_Replayed := True\<rparr>)
     else Inl (ProvisioningErr ErrorCodeIdempotencyConflict), pe_race env' 1 db2)"
proof -
  obtain r where r: "r \<in> set (db_operations db1)" "op_tenant_id r = pr_TenantID request"
    "op_idempotency_key r = pr_IdempotencyKey request" "op_request_hash r = pr_RequestHash request"
    "op_id r = rr_OperationID rr" "op_resource_id r = rr_MailboxID rr"
    using answered_operation [OF assms(3)] by blast
  have ok1: "ledger_ok db1" using RequestMailbox_run [OF assms(2,3)] assms(1) ledger.run_inv by blast
  have run: "ledger_step\<^sup>*\<^sup>* db1 (pe_race env' 1 db2)"
    using assms(4,5) by (meson races_run_def rtranclp_trans)
  obtain r' where r': "r' \<in> set (db_operations (pe_race env' 1 db2))"
    "operation_request r' = operation_request r"
    using operation_survives [OF ok1 run r(1)] by blast
  have "schema_ok (pe_race env' 1 db2)" using ledger.run_inv [OF run ok1] by blast
  moreover have fields: "op_tenant_id r' = pr_TenantID again" "op_idempotency_key r' = pr_IdempotencyKey again"
    "op_request_hash r' = pr_RequestHash request" "op_id r' = rr_OperationID rr"
    "op_resource_id r' = rr_MailboxID rr"
    using r'(2) r assms(8,9) by (simp_all add: operation_request_def)
  ultimately have "RequestMailbox env' again db2 =
      (idempotentResult r' (pr_RequestHash again), pe_race env' 1 db2)"
    using request_answered assms(6,7) r'(1) by metis
  then show ?thesis
    using fields by (auto simp: idempotentResult_def provisioning_NewError_def provisioning_codes_def)
qed

theorem request_idempotent_witness:
  "RequestMailbox sample_env (sample_prepared\<lparr>pr_RequestHash := ''''\<rparr>)
     (snd (RequestMailbox sample_env sample_prepared sample_request_tables)) =
   (Inl (ProvisioningErr ErrorCodeIdempotencyConflict),
    snd (RequestMailbox sample_env sample_prepared sample_request_tables))"
proof -
  have start: "ledger_ok sample_request_tables" by code_simp
  have res: "RequestMailbox sample_env sample_prepared sample_request_tables =
      (Inr \<lparr>rr_MailboxID = 20, rr_OperationID = 21, rr_Replayed = False\<rparr>,
       snd (RequestMailbox sample_env sample_prepared sample_request_tables))"
    by (rule prod_eqI) (code_simp, simp)
  have "pe_race sample_env 1 db = db" for db by (simp add: sample_env_def)
  then show ?thesis
    using request_idempotent [OF start _ res rtranclp.rtrancl_refl, of sample_env
        "sample_prepared\<lparr>pr_RequestHash := ''''\<rparr>"] quiet_races_run [OF sample_env_quiet]
    by (simp add: sample_env_def sample_prepared_def sample_hash_def)
qed

text \<open>A new request passes every constraint of the schema, but for an address in use.\<close>

lemma new_request_created:
  assumes "ledger_ok db" "prepareRequest uc us c = Inr p" "request_new env p db" "quiet env"
  shows "RequestMailbox env p db =
    (if (pr_DomainID p, pr_LocalPart p) \<in> set (map (\<lambda>m. (mb_domain_id m, mb_local_part m)) (db_mailboxes db))
     then (Inl (ProvisioningErr ErrorCodeMailboxAlreadyExists), db)
     else (Inr \<lparr>rr_MailboxID = pe_uuid env 0, rr_OperationID = pe_uuid env 1, rr_Replayed = False\<rparr>,
           with_request env p db))"
proof -
  let ?v3 = "with_operation (request_operation env p) db" and ?m = "request_mailbox env p"
  note new = assms(3) [unfolded request_new_def]
  have ok: "schema_ok db" using assms(1) by blast
  have ok3: "schema_ok ?v3" using request_operation_schema [OF ok assms(2,3)] .
  have m: "mb_id ?m = pe_uuid env 0" "mb_domain_id ?m = pr_DomainID p" "mb_local_part ?m = pr_LocalPart p"
    "mb_tenant_id ?m = pr_TenantID p"
    by (simp_all add: request_mailbox_def new_mailbox_def)
  have tables: "db_mailboxes ?v3 = db_mailboxes db" "db_outbox ?v3 = db_outbox db" "db_domains ?v3 = db_domains db"
    by (simp_all add: with_operation_def)
  have ins: "insertMailbox (pe_now env 0) (pe_uuid env 0) (pr_TenantID p) (pr_DomainID p) (pr_LocalPart p)
      (if pr_DisplayName p \<noteq> '''' then Some (pr_DisplayName p) else None) ?v3 =
      guard_schema ?m (with_mailbox ?m ?v3)"
    by (simp add: insertMailbox_def Let_def request_mailbox_def with_mailbox_def)
  have fresh: "mb_id ?m \<notin> set (map mb_id (db_mailboxes ?v3))" using new m tables by simp
  show ?thesis
  proof (cases "(pr_DomainID p, pr_LocalPart p) \<in> set (map (\<lambda>m. (mb_domain_id m, mb_local_part m)) (db_mailboxes db))")
    case True
    then have "guard_schema ?m (with_mailbox ?m ?v3) = Inl (PgError ''mailboxes_domain_local_part_unique'')"
      using duplicate_address_violation [OF ok3 request_mailbox_ok [OF assms(2)] fresh] m tables by simp
    then show ?thesis
      using True ins request_insert_new [OF ok assms(2,3,4)]
      by (simp add: request_persist_def Let_def quiet_query [OF assms(4)] hasConstraint_def
          provisioning_NewError_def provisioning_codes_def)
  next
    case False
    have ok4: "schema_ok (with_mailbox ?m ?v3)"
      using schema_with_mailbox [OF ok3 request_mailbox_ok [OF assms(2)] fresh] False m tables
        provisionable_rows(1) [of "pr_DomainID p" "pr_TenantID p" db] new by simp
    have "schema_ok (with_request env p db)"
      unfolding with_request_def
      by (rule schema_with_event [OF ok4])
        (use new fresh_operation_event [OF ok] in
          \<open>auto simp: request_event_def row_ok_def outbox_checks_def with_mailbox_def with_operation_def
             request_operation_def new_operation_def\<close>)
    then have "insertOutboxEvent (pe_now env 0) (pe_uuid env 2) (pr_TenantID p) (pe_uuid env 1)
        \<lparr>pl_tenant_id = pr_TenantID p, pl_mailbox_id = pe_uuid env 0,
         pl_domain_id = pr_DomainID p, pl_operation_id = pe_uuid env 1, pl_revision = 1\<rparr>
        (with_mailbox ?m ?v3) = Inr ((), with_request env p db)"
      by (simp add: insertOutboxEvent_def with_request_def with_event_def request_event_def)
    then show ?thesis
      using False ins ok4 request_insert_new [OF ok assms(2,3,4)]
      by (simp add: request_persist_def Let_def quiet_query [OF assms(4)] commit_def quietD(1) [OF assms(4)]
          del: One_nat_def)
  qed
qed

definition sample_command :: RequestMailboxCommand where
  "sample_command =
     \<lparr>cmd_TenantID = 1, cmd_DomainID = 2, cmd_LocalPart = ''Grace'', cmd_DisplayName = '' Grace '',
      cmd_IdempotencyKey = ''request-key-0002''\<rparr>"

text \<open>(C8) A valid new request succeeds: when the domain and its tenant are active and neither the key nor the
  address is in use, a prepared request passes every constraint of the schema and answers with the new mailbox and
  operation; it adds exactly one mailbox at the prepared address, one pending operation for the mailbox's first
  revision under the request's key, due at once and not leased, and one pending event that names both, and
  changes nothing else. When only the address is in use, the answer is the stable conflict code and nothing is
  written.\<close>

theorem valid_request_creates:
  assumes "ledger_ok db" "prepareRequest uc us c = Inr p" "quiet env"
    and "\<forall>r \<in> set (db_operations db). op_tenant_id r = pr_TenantID p \<longrightarrow> op_idempotency_key r \<noteq> pr_IdempotencyKey p"
    and "d \<in> set (db_domains db)" "d_id d = pr_DomainID p" "d_tenant_id d = pr_TenantID p" "d_status d = ''active''"
    and "t \<in> set (db_tenants db)" "t_id t = pr_TenantID p" "t_status t = ''active''"
    and "pe_uuid env 1 \<notin> set (map op_id (db_operations db))" "pe_uuid env 0 \<notin> set (map mb_id (db_mailboxes db))"
      "pe_uuid env 2 \<notin> set (map ob_id (db_outbox db))"
  shows "if \<exists>m \<in> set (db_mailboxes db). mb_domain_id m = pr_DomainID p \<and> mb_local_part m = pr_LocalPart p
    then RequestMailbox env p db = (Inl (ProvisioningErr ErrorCodeMailboxAlreadyExists), db)
    else \<exists>r m e. RequestMailbox env p db =
        (Inr \<lparr>rr_MailboxID = mb_id m, rr_OperationID = op_id r, rr_Replayed = False\<rparr>,
         db\<lparr>db_operations := db_operations db @ [r], db_mailboxes := db_mailboxes db @ [m],
            db_outbox := db_outbox db @ [e]\<rparr>) \<and>
      mb_tenant_id m = pr_TenantID p \<and> mb_domain_id m = pr_DomainID p \<and> mb_local_part m = pr_LocalPart p \<and>
      mb_display_name m = (if pr_DisplayName p = '''' then None else Some (pr_DisplayName p)) \<and>
      mb_desired_status m = ''active'' \<and> mb_observed_status m = ''unknown'' \<and> mb_revision m = 1 \<and>
      op_tenant_id r = pr_TenantID p \<and> op_kind r = ''mailbox.provision'' \<and> op_resource_type r = ''mailbox'' \<and>
      op_resource_id r = mb_id m \<and> op_status r = StatusPending \<and> op_idempotency_key r = pr_IdempotencyKey p \<and>
      op_request_hash r = pr_RequestHash p \<and> op_configuration_hash r = pr_RequestHash p \<and>
      op_desired_revision r = mb_revision m \<and> op_attempt_count r = 0 \<and> op_lease_epoch r = 0 \<and>
      op_lease_owner_id r = None \<and> op_lease_expires_at r = None \<and> op_next_attempt_at r = op_created_at r \<and>
      ob_tenant_id e = pr_TenantID p \<and> ob_operation_id e = op_id r \<and>
      ob_event_type e = ''mailbox.provision.requested'' \<and> ob_status e = ''pending'' \<and>
      ob_payload e = \<lparr>pl_tenant_id = pr_TenantID p, pl_mailbox_id = mb_id m, pl_domain_id = pr_DomainID p,
        pl_operation_id = op_id r, pl_revision = 1\<rparr>"
proof -
  have "getProvisionableDomain (pr_DomainID p) (pr_TenantID p) db = Inr (pr_DomainID p)"
    using provisionable_domain [OF assms(5) _ assms(8,9) _ assms(11)] assms(6,7,10) by simp
  then have new: "request_new env p db"
    using assms(4,12-14) by (auto simp: request_new_def lookup_none)
  note made = new_request_created [OF assms(1,2) new assms(3)]
  show ?thesis
  proof (cases "\<exists>m \<in> set (db_mailboxes db). mb_domain_id m = pr_DomainID p \<and> mb_local_part m = pr_LocalPart p")
    case True
    then have "RequestMailbox env p db = (Inl (ProvisioningErr ErrorCodeMailboxAlreadyExists), db)"
      using made by force
    with True show ?thesis by simp
  next
    case False
    then have "RequestMailbox env p db = (Inr \<lparr>rr_MailboxID = pe_uuid env 0, rr_OperationID = pe_uuid env 1,
        rr_Replayed = False\<rparr>, with_request env p db)"
      using made by force
    with False show ?thesis
      by (intro iffD2 [OF if_not_P] exI [of _ "request_operation env p"] exI [of _ "request_mailbox env p"]
          exI [of _ "request_event env p"])
        (simp_all add: with_request_def with_defs request_operation_def request_mailbox_def request_event_def
          new_operation_def new_mailbox_def)
  qed
qed

theorem valid_request_creates_witness:
  "\<exists>p r m e. prepareRequest id (\<lambda>_. ''u'') sample_command = Inr p \<and>
     RequestMailbox sample_env p sample_pending =
       (Inr \<lparr>rr_MailboxID = mb_id m, rr_OperationID = op_id r, rr_Replayed = False\<rparr>,
        sample_pending\<lparr>db_operations := db_operations sample_pending @ [r],
          db_mailboxes := db_mailboxes sample_pending @ [m], db_outbox := db_outbox sample_pending @ [e]\<rparr>) \<and>
     mb_local_part m = ''grace'' \<and> op_status r = StatusPending"
proof -
  let ?p = "\<lparr>pr_TenantID = 1, pr_DomainID = 2, pr_LocalPart = ''grace'', pr_DisplayName = ''Grace'',
    pr_IdempotencyKey = ''request-key-0002'',
    pr_RequestHash = fingerprint (\<lambda>_. ''u'') 2 ''grace'' ''Grace''\<rparr>"
  have parts: "ToLower id ''Grace'' = ''grace''" "TrimSpace '' Grace '' = ''Grace''"
    "TrimSpace ''grace'' = ''grace''" "TrimSpace ''request-key-0002'' = ''request-key-0002''"
    "localPartPattern ''grace''" "idempotencyPattern ''request-key-0002''" "ValidString ''Grace''"
    "RuneCountInString ''Grace'' = 5" "\<not> contains_rune IsControl ''Grace''"
    "\<not> HasPrefix ''grace'' ''.''" "\<not> HasSuffix ''grace'' ''.''" "\<not> Contains ''grace'' ''..''"
    by (simp_all add: ascii_eval localPartPattern_def idempotencyPattern_def del: runes.simps)
  have prep: "prepareRequest id (\<lambda>_. ''u'') sample_command = Inr ?p"
    unfolding prepareRequest_def sample_command_def using parts by (simp add: uuid_Nil_def Let_def)
  let ?d = "hd (db_domains sample_pending)" and ?t = "hd (db_tenants sample_pending)"
  have rows: "\<forall>r \<in> set (db_operations sample_pending). op_tenant_id r = pr_TenantID ?p \<longrightarrow>
      op_idempotency_key r \<noteq> pr_IdempotencyKey ?p"
    "?d \<in> set (db_domains sample_pending)" "d_id ?d = pr_DomainID ?p" "d_tenant_id ?d = pr_TenantID ?p"
    "d_status ?d = ''active''" "?t \<in> set (db_tenants sample_pending)" "t_id ?t = pr_TenantID ?p" "t_status ?t = ''active''"
    "pe_uuid sample_env 1 \<notin> set (map op_id (db_operations sample_pending))"
    "pe_uuid sample_env 0 \<notin> set (map mb_id (db_mailboxes sample_pending))"
    "pe_uuid sample_env 2 \<notin> set (map ob_id (db_outbox sample_pending))"
    by (simp_all add: sample_pending_def sample_request_tables_def sample_operation_def new_operation_def
        sample_mailbox_def new_mailbox_def sample_env_def)
  have unused: "\<not> (\<exists>m \<in> set (db_mailboxes sample_pending). mb_domain_id m = pr_DomainID ?p \<and>
      mb_local_part m = pr_LocalPart ?p)"
    by (simp add: sample_pending_def sample_mailbox_def new_mailbox_def)
  obtain r m e where "RequestMailbox sample_env ?p sample_pending =
       (Inr \<lparr>rr_MailboxID = mb_id m, rr_OperationID = op_id r, rr_Replayed = False\<rparr>,
        sample_pending\<lparr>db_operations := db_operations sample_pending @ [r],
          db_mailboxes := db_mailboxes sample_pending @ [m], db_outbox := db_outbox sample_pending @ [e]\<rparr>)"
    "mb_local_part m = pr_LocalPart ?p" "op_status r = StatusPending"
    using valid_request_creates [OF sample_pending_ledger prep sample_env_quiet rows] unfolding if_not_P [OF unused]
    by blast
  with prep show ?thesis
    by (intro exI [of _ ?p] exI [of _ r] exI [of _ m] exI [of _ e]) simp
qed

text \<open>Reading an operation is confined to the tenant: the answer is an operation of the
  tenant that was asked for, and it is the same as if no other tenant's operation existed, so a
  foreign operation cannot be told from a missing one; reading writes nothing.\<close>

lemma get_operation_tenant_isolated:
  assumes "pe_race env 0 = (\<lambda>db. db)"
  shows "snd (GetOperation env tenant operation db) = db \<and>
    fst (GetOperation env tenant operation db) =
      fst (GetOperation env tenant operation
        (db\<lparr>db_operations := filter (\<lambda>r. op_tenant_id r = tenant) (db_operations db)\<rparr>)) \<and>
    (\<forall>found. fst (GetOperation env tenant operation db) = Inr found \<longrightarrow>
       po_TenantID found = tenant \<and> po_ID found = operation)"
proof -
  have find_filter: "find (\<lambda>r. P r \<and> Q r) (filter P rows) = find (\<lambda>r. P r \<and> Q r) rows" for P Q
    and rows :: "operation_row list"
    by (induction rows) auto
  have same: "getOperationForTenant tenant operation
      (db\<lparr>db_operations := filter (\<lambda>r. op_tenant_id r = tenant) (db_operations db)\<rparr>) =
      getOperationForTenant tenant operation db"
    by (simp add: getOperationForTenant_def find_filter)
  have found: "op_tenant_id r = tenant \<and> op_id r = operation"
    if "getOperationForTenant tenant operation db = Inr r" for r
    using that by (auto simp: getOperationForTenant_def find_Some_iff split: option.splits)
  show ?thesis
  proof (cases "query env 0 (getOperationForTenant tenant operation db)")
    case (Inl e)
    then show ?thesis using assms same by (simp add: GetOperation_def Let_def)
  next
    case (Inr r)
    then have "getOperationForTenant tenant operation db = Inr r" "pe_fault env 0 = None"
      by (simp_all add: query_Inr)
    then show ?thesis
      using assms same found by (simp add: GetOperation_def Let_def query_def toDomainOperation_def)
  qed
qed

lemma get_operation_tenant_isolated_witness:
  "fst (GetOperation sample_env 8 4 sample_pending) = Inl (ProvisioningErr ErrorCodeOperationNotFound)"
proof -
  have "fst (GetOperation sample_env 8 4 sample_pending) =
      fst (GetOperation sample_env 8 4 (sample_pending\<lparr>db_operations := []\<rparr>))"
    using get_operation_tenant_isolated [of sample_env 8 4 sample_pending]
    by (simp add: sample_env_def sample_pending_def sample_operation_def new_operation_def)
  then show ?thesis
    by (simp add: GetOperation_def Let_def query_def sample_env_def getOperationForTenant_def
        provisioning_NewError_def provisioning_codes_def)
qed

definition public_error :: "go_error \<Rightarrow> bool" where
  "public_error e \<longleftrightarrow> is_context_error e \<or> (\<exists>c \<in> set provisioning_codes. e = ProvisioningErr c)"

definition worker_error :: "go_error \<Rightarrow> bool" where
  "worker_error e \<longleftrightarrow> is_context_error e \<or>
     e \<in> {ErrInvalidConfiguration, ErrInvalidClaim, ErrLeaseLost, OtherError ''operation persistence unavailable''}"

lemma public_errorI [simp]: "public_error (persistenceError e)" "public_error (provisioning_NewError c)"
  by (auto simp: public_error_def persistenceError_def provisioning_NewError_def provisioning_codes_def)

lemma worker_errorI [simp]: "worker_error (operationPersistenceError e)" "worker_error ErrInvalidClaim"
  "worker_error ErrLeaseLost" "worker_error ErrInvalidConfiguration"
  by (auto simp: worker_error_def operationPersistenceError_def)

lemma idempotentResult_public: "idempotentResult r h = Inl e \<Longrightarrow> public_error e"
  by (auto simp: idempotentResult_def split: if_splits)

lemma request_persist_public: "fst (request_persist env request r db) = Inl e \<Longrightarrow> public_error e"
  by (auto simp: request_persist_def Let_def split: sum.splits prod.splits option.splits if_splits)

lemma request_insert_public: "fst (request_insert env request db) = Inl e \<Longrightarrow> public_error e"
  by (auto simp: request_insert_def Let_def request_persist_public
      split: sum.splits prod.splits if_splits intro: idempotentResult_public)

text \<open>(C17) No driver detail leaves the repository: every error of a request is one of the
  package's stable codes or the caller's own cancellation, and every error of the worker's calls is a
  sentinel of the operation package, the fixed persistence error or the cancellation.\<close>

theorem repository_errors_are_public:
  "(\<forall>e. fst (RequestMailbox env request db) = Inl e \<longrightarrow> public_error e) \<and>
   (\<forall>e. fst (GetOperation env tenant operation db) = Inl e \<longrightarrow> public_error e) \<and>
   (\<forall>e. fst (repository_Claim env claim db) = Inl e \<longrightarrow> worker_error e) \<and>
   (\<forall>e. fst (repository_Resolve env resolution db) = Some e \<longrightarrow> worker_error e)"
proof (intro conjI allI impI)
  fix e assume "fst (RequestMailbox env request db) = Inl e"
  then show "public_error e"
    by (auto simp: RequestMailbox_def Let_def request_insert_public
        split: sum.splits option.splits if_splits intro: idempotentResult_public)
next
  fix e assume "fst (GetOperation env tenant operation db) = Inl e"
  then show "public_error e"
    by (auto simp: GetOperation_def Let_def split: sum.splits if_splits)
next
  fix e assume "fst (repository_Claim env claim db) = Inl e"
  then show "worker_error e"
    by (auto simp: repository_Claim_def split: sum.splits prod.splits option.splits if_splits)
next
  fix e assume "fst (repository_Resolve env resolution db) = Some e"
  then show "worker_error e"
    by (auto simp: repository_Resolve_def Let_def split: sum.splits prod.splits option.splits if_splits)
qed

theorem repository_errors_are_public_witness:
  "public_error (ProvisioningErr ErrorCodeOperationNotFound)"
proof -
  have "fst (GetOperation sample_env 8 4 sample_pending) = Inl (ProvisioningErr ErrorCodeOperationNotFound)"
    by code_simp
  then show ?thesis
    using repository_errors_are_public [of sample_env sample_prepared sample_pending 8 4
        "\<lparr>cr_OwnerID = 9, cr_LeaseDuration = 1, cr_MaxAttempts = 1\<rparr>"] by blast
qed

text \<open>Lease and retry durations are never shortened on their way to the database: the
  conversion to microseconds rounds up by less than one microsecond, is positive for every positive
  duration and stays in the 64-bit range.\<close>

lemma microseconds_round_up:
  assumes "0 < d" "d < 2 ^ 63"
  shows "snd (leaseDurationMicroseconds d) \<and> durationMicroseconds d = fst (leaseDurationMicroseconds d) \<and>
    d \<le> fst (leaseDurationMicroseconds d) * 1000 \<and> fst (leaseDurationMicroseconds d) * 1000 < d + 1000 \<and>
    fst (leaseDurationMicroseconds d) < 2 ^ 63"
proof -
  let ?us = "d div 1000 + (if d mod 1000 \<noteq> 0 then 1 else 0)"
  have us: "fst (leaseDurationMicroseconds d) = ?us" "snd (leaseDurationMicroseconds d) = (0 < ?us)"
    using assms by (simp_all add: leaseDurationMicroseconds_def Let_def)
  have "d div 1000 * 1000 + d mod 1000 = d" "0 \<le> d mod 1000" "d mod 1000 < 1000" by simp_all
  then have bounds: "d \<le> ?us * 1000" "?us * 1000 < d + 1000"
    by (cases "d mod 1000 = 0"; simp; linarith)+
  then show ?thesis
    using us assms by (auto simp: durationMicroseconds_def)
qed

end
