(* ===== verification/Worker_Theorems.thy ===== *)
theory Worker_Theorems
  imports Repository_Theorems
begin

text \<open>
  The worker over the repository: retry delays, the use of the lease, the
  inspection that must come first after an uncertain outcome, and the number and
  validity of claims and receipts at the border between the two components. The
  locale \<open>adapter_frame\<close> carries a relation from the start of an execution to its
  receipt; \<open>receipt_log\<close> is a record of the receipts a service submits.
\<close>

section \<open>Retry delays and the lease\<close>

lemma retryDelay_eq:
  assumes "config_ok config"
  shows "retryDelay config attempt =
    min (cfg_MaxRetryDelay config) (cfg_BaseRetryDelay config * 2 ^ nat (attempt - 1))"
  using assms by (simp add: retryDelay_def retry_loop_eq config_ok_def)

lemma retryDelay_pos: "config_ok config \<Longrightarrow> 0 < retryDelay config attempt"
  by (simp add: retryDelay_eq config_ok_def)

text \<open>With a configuration the constructor accepts, the retry delay is the base delay doubled
  once per earlier attempt and capped at the maximum; the doubling never overflows, and the delay is
  positive, at most the maximum and never shrinks with the attempt number.\<close>

lemma retry_delay_capped_doubling:
  assumes "newService repository adapter config now = Inr service"
    and "cfg_LeaseDuration config < 2 ^ 63" "cfg_MaxRetryDelay config < 2 ^ 63" "a \<le> b"
  shows "retryDelay config a = min (cfg_MaxRetryDelay config) (cfg_BaseRetryDelay config * 2 ^ nat (a - 1)) \<and>
    cfg_BaseRetryDelay config \<le> retryDelay config a \<and> retryDelay config a \<le> cfg_MaxRetryDelay config \<and>
    retryDelay config a \<le> retryDelay config b"
proof -
  have ok: "config_ok config" by (rule newService_config_ok [OF assms(1-3)])
  let ?b = "cfg_BaseRetryDelay config" and ?m = "cfg_MaxRetryDelay config"
  have b: "0 < ?b" "?b \<le> ?m" using ok by (simp_all add: config_ok_def)
  have "?b * 1 \<le> ?b * 2 ^ nat (a - 1)" using b(1) by (intro mult_left_mono) auto
  moreover have "?b * 2 ^ nat (a - 1) \<le> ?b * 2 ^ nat (b - 1)"
    using b(1) assms(4) by (intro mult_left_mono power_increasing) auto
  ultimately show ?thesis using b(2) by (simp add: retryDelay_eq [OF ok])
qed

definition sample_config :: Config where
  "sample_config =
     \<lparr>cfg_OwnerID = 9, cfg_LeaseDuration = 60000, cfg_AttemptTimeout = 30000,
      cfg_LeaseSafetyMargin = 5000, cfg_BaseRetryDelay = 1000, cfg_MaxRetryDelay = 6000,
      cfg_MaxAttempts = 3\<rparr>"

definition sample_observation :: "uuid \<Rightarrow> ObservedMailbox" where
  "sample_observation mailbox =
     \<lparr>obs_MailboxID = mailbox, obs_Status = MailboxStatusActive, obs_Revision = 1,
      obs_ConfigurationHash = sample_hash, obs_InspectedAt = 250\<rparr>"

definition sample_adapter :: "'w Adapter" where
  "sample_adapter =
     \<lparr>EnsureMailbox = (\<lambda>ctx c w. (None, w)),
      InspectMailbox = (\<lambda>ctx q w. (Inr (sample_observation (insp_MailboxID q)), w))\<rparr>"

definition sample_repository :: "Resolution list Repository" where
  "sample_repository =
     \<lparr>ClaimMailboxOperation = (\<lambda>ctx request w. (Inr None, w)),
      ResolveMailboxOperation = (\<lambda>ctx resolution w. (None, w @ [resolution]))\<rparr>"

definition sample_service :: "Resolution list Service" where
  "sample_service =
     \<lparr>svc_repository = sample_repository, svc_adapter = sample_adapter, svc_config = sample_config,
      svc_now = (\<lambda>w. (200, w))\<rparr>"

lemma sample_config_accepted:
  "newService (Some sample_repository) (Some sample_adapter) sample_config (Some (\<lambda>w. (200, w))) =
   Inr sample_service"
  by (simp add: newService_def sample_config_def sample_service_def uuid_Nil_def MaxInt32_def)

lemma sample_config_ok: "config_ok sample_config"
  by (simp add: config_ok_def sample_config_def uuid_Nil_def MaxInt32_def)

lemma retry_delay_capped_doubling_witness:
  "retryDelay sample_config 2 = 2000 \<and> retryDelay sample_config 2 \<le> retryDelay sample_config 5"
  using retry_delay_capped_doubling [OF sample_config_accepted, of 2 5]
  by (simp add: sample_config_def)

text \<open>Calls of the adapter that leave the safety margin of the lease unused.\<close>

definition within_lease :: "Config \<Rightarrow> ClaimedMailboxOperation \<Rightarrow> go_context \<Rightarrow> instant \<Rightarrow> bool" where
  "within_lease config claimed ctx deadline \<longleftrightarrow>
     deadline + cfg_LeaseSafetyMargin config \<le> cl_LeaseExpiresAt claimed \<and>
     (\<exists>d. ctx_deadline ctx = Some d \<and> d \<le> deadline)"

lemma adapter_within_lease:
  assumes "config_ok config"
  shows "within_lease config claimed
    (with_deadline (attempt_context config ctx claimed now) (adapter_deadline config ctx claimed now))
    (adapter_deadline config ctx claimed now)"
  using adapter_deadline_bounds(1) [OF assms, of ctx claimed now]
  by (auto simp: within_lease_def ctx_deadline_with_deadline split: option.splits)

lemma adapter_update:
  "svc_adapter (service\<lparr>svc_adapter := a\<rparr>) = a"
  "svc_config (service\<lparr>svc_adapter := a\<rparr>) = svc_config service"
  "svc_now (service\<lparr>svc_adapter := a\<rparr>) = svc_now service"
  by simp_all

lemma receipts_ignore_adapter:
  "resolve (service\<lparr>svc_adapter := a\<rparr>) = resolve service"
  "resolveUncertain (service\<lparr>svc_adapter := a\<rparr>) = resolveUncertain service"
  "resolveAdapterFailure (service\<lparr>svc_adapter := a\<rparr>) = resolveAdapterFailure service"
  by (intro ext, simp add: resolve_def resolveUncertain_def resolveAdapterFailure_def Let_def
      cong: ErrorClass.case_cong)+

lemma ensure_then_inspect_cong:
  assumes "EnsureMailbox a dctx (ensure_command claimed dl) = EnsureMailbox b dctx (ensure_command claimed dl)"
    and "InspectMailbox a dctx (inspect_query claimed dl) = InspectMailbox b dctx (inspect_query claimed dl)"
  shows "ensure_then_inspect (service\<lparr>svc_adapter := a\<rparr>) actx dctx dl claimed w =
    ensure_then_inspect (service\<lparr>svc_adapter := b\<rparr>) actx dctx dl claimed w"
  unfolding ensure_then_inspect_def inspect_def receipts_ignore_adapter adapter_update assms ..

text \<open>(C14) The worker only talks to the mail core inside its lease: every adapter call it makes
  carries a deadline that leaves the whole safety margin before the lease expires, and a context that ends
  by then. Stated as an independence: two adapters that agree on such calls give the same execution.\<close>

theorem execute_calls_within_lease:
  assumes "config_ok (svc_config service)"
    and "\<And>dctx c. within_lease (svc_config service) claimed dctx (ens_Deadline c) \<Longrightarrow>
      EnsureMailbox a dctx c = EnsureMailbox b dctx c"
    and "\<And>dctx q. within_lease (svc_config service) claimed dctx (insp_Deadline q) \<Longrightarrow>
      InspectMailbox a dctx q = InspectMailbox b dctx q"
  shows "Execute (service\<lparr>svc_adapter := a\<rparr>) ctx claimed w = Execute (service\<lparr>svc_adapter := b\<rparr>) ctx claimed w"
proof (cases "validClaim (svc_config service) claimed")
  case False
  then show ?thesis by (simp add: Execute_def)
next
  case True
  obtain now w1 where w1: "svc_now service w = (now, w1)" by force
  obtain now' w2 where w2: "svc_now service w1 = (now', w2)" by force
  define dl where "dl = adapter_deadline (svc_config service) ctx claimed now"
  define actx where "actx = attempt_context (svc_config service) ctx claimed now"
  have "within_lease (svc_config service) claimed (with_deadline actx dl) dl"
    unfolding actx_def dl_def by (rule adapter_within_lease [OF assms(1)])
  then have agree: "EnsureMailbox a (with_deadline actx dl) (ensure_command claimed dl) =
      EnsureMailbox b (with_deadline actx dl) (ensure_command claimed dl)"
    "InspectMailbox a (with_deadline actx dl) (inspect_query claimed dl) =
      InspectMailbox b (with_deadline actx dl) (inspect_query claimed dl)"
    using assms(2,3) by (simp_all add: ensure_command_def inspect_query_def)
  note parts = ensure_then_inspect_cong [OF agree, of service actx]
  have unf: "Execute (service\<lparr>svc_adapter := x\<rparr>) ctx claimed w =
    (if \<not> now' < dl then resolveUncertain service actx claimed ErrorCodeUnknown None w2
     else if cl_PriorStatus claimed = StatusUnknown \<or> cl_PriorStatus claimed = StatusRunning
     then (case InspectMailbox x (with_deadline actx dl) (inspect_query claimed dl) w2 of
             (Inl err, w3) \<Rightarrow> resolveAdapterFailure service actx claimed ErrorClassUnknown err None w3
           | (Inr obs, w3) \<Rightarrow>
               if matchesDesired claimed obs
               then resolve service actx claimed StatusSucceeded '''' (Some obs) w3
               else if cl_DesiredRevision claimed < obs_Revision obs
               then resolveUncertain service actx claimed ErrorCodeNewerRevision (Some obs) w3
               else ensure_then_inspect (service\<lparr>svc_adapter := x\<rparr>) actx (with_deadline actx dl) dl claimed w3)
     else ensure_then_inspect (service\<lparr>svc_adapter := x\<rparr>) actx (with_deadline actx dl) dl claimed w2)" for x
    using Execute_unfold [of "service\<lparr>svc_adapter := x\<rparr>" claimed w now w1 now' w2 ctx,
        unfolded adapter_update receipts_ignore_adapter inspect_def, OF True w1 w2]
    unfolding dl_def actx_def .
  show ?thesis unfolding unf agree(2) parts ..
qed

definition sample_claimed :: ClaimedMailboxOperation where
  "sample_claimed =
     \<lparr>cl_OperationID = 4, cl_TenantID = 1, cl_MailboxID = 3, cl_DomainID = 2,
      cl_Address = ''ada@acme.test'', cl_DesiredRevision = 1, cl_ConfigurationHash = sample_hash,
      cl_AttemptNumber = 1, cl_PriorStatus = StatusUnknown, cl_LeaseOwnerID = 9, cl_LeaseEpoch = 1,
      cl_LeaseExpiresAt = 60200\<rparr>"

lemma sample_claimed_valid: "validClaim sample_config sample_claimed"
  by (simp add: validClaim_def sample_claimed_def sample_config_def uuid_Nil_def IsZero_def)

definition strict_adapter :: "Resolution list Adapter" where
  "strict_adapter =
     \<lparr>EnsureMailbox = (\<lambda>ctx c w.
        if within_lease sample_config sample_claimed ctx (ens_Deadline c) then (None, w)
        else (Some ErrLeaseLost, w)),
      InspectMailbox = (\<lambda>ctx q w.
        if within_lease sample_config sample_claimed ctx (insp_Deadline q)
        then (Inr (sample_observation (insp_MailboxID q)), w) else (Inl ErrLeaseLost, w))\<rparr>"

theorem execute_calls_within_lease_witness:
  "Execute (sample_service\<lparr>svc_adapter := strict_adapter\<rparr>) background sample_claimed [] =
   Execute (sample_service\<lparr>svc_adapter := sample_adapter\<rparr>) background sample_claimed []"
  by (rule execute_calls_within_lease)
    (simp_all add: sample_service_def sample_config_ok strict_adapter_def sample_adapter_def)

section \<open>Inspection first\<close>

text \<open>(C15) After an uncertain attempt the worker looks before it acts: for a claim whose previous
  attempt ended unknown or lost its lease, when the inspection fails, already finds the desired state or
  finds a newer revision, the mail core is not asked to change anything: the execution is the same for
  every behaviour of the ensure call.\<close>

theorem uncertain_inspects_before_ensure:
  assumes "cl_PriorStatus claimed \<in> {StatusUnknown, StatusRunning}"
    and "\<And>dctx dl w obs w'. InspectMailbox (svc_adapter service) dctx (inspect_query claimed dl) w = (Inr obs, w') \<Longrightarrow>
      matchesDesired claimed obs \<or> cl_DesiredRevision claimed < obs_Revision obs"
  shows "Execute (service\<lparr>svc_adapter := (svc_adapter service)\<lparr>EnsureMailbox := e\<rparr>\<rparr>) ctx claimed w =
    Execute service ctx claimed w"
proof (cases "validClaim (svc_config service) claimed")
  case False
  then show ?thesis by (simp add: Execute_def)
next
  case True
  let ?s = "service\<lparr>svc_adapter := (svc_adapter service)\<lparr>EnsureMailbox := e\<rparr>\<rparr>"
  obtain now w1 where w1: "svc_now service w = (now, w1)" by force
  obtain now' w2 where w2: "svc_now service w1 = (now', w2)" by force
  note lhs = Execute_unfold [of ?s, unfolded adapter_update receipts_ignore_adapter inspect_def, OF True w1 w2, of ctx]
  note rhs = Execute_unfold [OF True w1 w2, of ctx, unfolded inspect_def]
  obtain r w3 where r: "InspectMailbox (svc_adapter service)
      (with_deadline (attempt_context (svc_config service) ctx claimed now) (adapter_deadline (svc_config service) ctx claimed now))
      (inspect_query claimed (adapter_deadline (svc_config service) ctx claimed now)) w2 = (r, w3)" by force
  show ?thesis
  proof (cases r)
    case (Inl err)
    then show ?thesis unfolding lhs rhs using assms(1) r by (auto simp: adapter_update)
  next
    case (Inr obs)
    with r assms(2) have "matchesDesired claimed obs \<or> cl_DesiredRevision claimed < obs_Revision obs" by blast
    then show ?thesis unfolding lhs rhs using assms(1) r Inr by (auto simp: adapter_update)
  qed
qed

theorem uncertain_inspects_before_ensure_witness:
  "Execute (sample_service\<lparr>svc_adapter := sample_adapter\<lparr>EnsureMailbox := \<lambda>ctx c w. (Some ErrLeaseLost, [])\<rparr>\<rparr>)
     background sample_claimed [] =
   Execute sample_service background sample_claimed []"
proof -
  have svc: "svc_adapter sample_service = sample_adapter" by (simp add: sample_service_def)
  have "cl_PriorStatus sample_claimed \<in> {StatusUnknown, StatusRunning}" by (simp add: sample_claimed_def)
  then show ?thesis
    using uncertain_inspects_before_ensure [of sample_claimed sample_service "\<lambda>ctx c w. (Some ErrLeaseLost, [])"]
    by (force simp: svc sample_adapter_def sample_observation_def matchesDesired_def
        sample_claimed_def inspect_query_def IsZero_def)
qed

section \<open>Before the receipt\<close>

text \<open>A relation that the clock and the mail core keep also relates the start of an execution to the
  world in which it submits its receipt.\<close>

locale adapter_frame =
  fixes service :: "'w Service" and rel :: "'w \<Rightarrow> 'w \<Rightarrow> bool"
  assumes rel_refl: "rel w w"
    and rel_trans: "rel w1 w2 \<Longrightarrow> rel w2 w3 \<Longrightarrow> rel w1 w3"
    and now_rel: "svc_now service w = (t, w') \<Longrightarrow> rel w w'"
    and ensure_rel: "EnsureMailbox (svc_adapter service) ctx c w = (e, w') \<Longrightarrow> rel w w'"
    and inspect_rel: "InspectMailbox (svc_adapter service) ctx q w = (r, w') \<Longrightarrow> rel w w'"
begin

lemma uncertain_submits:
  "submits_at service claimed actx w (resolveUncertain service actx claimed ErrorCodeUnknown None w)"
  "errorCodePattern code \<Longrightarrow>
   InspectMailbox (svc_adapter service) dctx (inspect_query claimed dl) v = (Inr obs, w) \<Longrightarrow>
   submits_at service claimed actx w (resolveUncertain service actx claimed code (Some obs) w)"
  by (rule resolveUncertain_submits; force)+

lemma ensure_then_inspect_submits_from:
  "\<exists>w1. rel w w1 \<and> submits_at service claimed actx w1 (ensure_then_inspect service actx dctx dl claimed w)"
proof -
  obtain x w1 where w1: "EnsureMailbox (svc_adapter service) dctx (ensure_command claimed dl) w = (x, w1)" by force
  obtain y w2 where w2: "InspectMailbox (svc_adapter service) dctx (inspect_query claimed dl) w1 = (y, w2)" by force
  have r: "rel w w1" "rel w w2"
    using ensure_rel [OF w1] inspect_rel [OF w2] rel_trans by blast+
  have "submits_at service claimed actx (if x = None then w2 else w1)
      (ensure_then_inspect service actx dctx dl claimed w)"
  proof (cases y)
    case (Inl e)
    then show ?thesis
      using w1 w2 resolveAdapterFailure_submits unfolding ensure_then_inspect_def inspect_def by (cases x) auto
  next
    case (Inr obs)
    note w2 = w2 [unfolded Inr]
    show ?thesis
      using w1 w2 uncertain_submits(2) [OF _ w2] resolve_success_submits [OF _ inspect_query_mailbox w2]
        resolveAdapterFailure_submits unfolding ensure_then_inspect_def inspect_def by (cases x) auto
  qed
  then show ?thesis using r by (cases "x = None") auto
qed

lemma Execute_submits_from:
  assumes "validClaim (svc_config service) claimed" "svc_now service w = (now, w0)"
  shows "\<exists>w1. rel w w1 \<and> submits_at service claimed (attempt_context (svc_config service) ctx claimed now) w1
    (Execute service ctx claimed w)"
proof -
  obtain now' w2 where w2: "svc_now service w0 = (now', w2)" by force
  define actx where "actx = attempt_context (svc_config service) ctx claimed now"
  define dl where "dl = adapter_deadline (svc_config service) ctx claimed now"
  have rw: "rel w w2" using now_rel [OF assms(2)] now_rel [OF w2] rel_trans by blast
  obtain y w3 where w3: "InspectMailbox (svc_adapter service) (with_deadline actx dl) (inspect_query claimed dl) w2 = (y, w3)"
    by force
  then have rw3: "rel w w3" using inspect_rel rw rel_trans by blast
  have ensure: "\<exists>w1. rel w w1 \<and> submits_at service claimed actx w1
      (ensure_then_inspect service actx (with_deadline actx dl) dl claimed v)" if "rel w v" for v
    using ensure_then_inspect_submits_from that rel_trans by blast
  note at2 = exI [where P = "\<lambda>w1. rel w w1 \<and> submits_at service claimed actx w1 o'" for o', OF conjI, OF rw]
  note at3 = exI [where P = "\<lambda>w1. rel w w1 \<and> submits_at service claimed actx w1 o'" for o', OF conjI, OF rw3]
  note unf = Execute_unfold [OF assms w2, of ctx, unfolded inspect_def, folded actx_def dl_def]
  show ?thesis
  proof (cases y)
    case (Inl e)
    then show ?thesis
      unfolding unf actx_def [symmetric]
      using at2 [OF uncertain_submits(1)] at3 [OF resolveAdapterFailure_submits] ensure [OF rw] w3 by simp
  next
    case (Inr obs)
    note w3 = w3 [unfolded Inr]
    show ?thesis
      unfolding unf actx_def [symmetric]
      using at2 [OF uncertain_submits(1)] at3 [OF uncertain_submits(2), OF _ w3]
        at3 [OF resolve_success_submits, OF _ inspect_query_mailbox w3] ensure [OF rw] ensure [OF rw3] w3
      by simp
  qed
qed

end

text \<open>A record of the receipts a service submits: the repository call that takes a receipt appends it, the
  clock and the mail core leave the record alone. Every service can be given one.\<close>

definition receipt_log :: "'w Service \<Rightarrow> ('w \<Rightarrow> Resolution list) \<Rightarrow> bool" where
  "receipt_log service log \<longleftrightarrow>
     (\<forall>ctx resolution w. log (snd (ResolveMailboxOperation (svc_repository service) ctx resolution w)) =
        log w @ [resolution]) \<and>
     (\<forall>w. log (snd (svc_now service w)) = log w) \<and>
     (\<forall>ctx c w. log (snd (EnsureMailbox (svc_adapter service) ctx c w)) = log w) \<and>
     (\<forall>ctx q w. log (snd (InspectMailbox (svc_adapter service) ctx q w)) = log w)"

definition beside_log :: "('w \<Rightarrow> 'a \<times> 'w) \<Rightarrow> 'w \<times> 'l \<Rightarrow> 'a \<times> 'w \<times> 'l" where
  "beside_log f w = (case f (fst w) of (x, v) \<Rightarrow> (x, v, snd w))"

definition logged_service :: "'w Service \<Rightarrow> ('w \<times> Resolution list) Service" where
  "logged_service service =
     \<lparr>svc_repository =
        \<lparr>ClaimMailboxOperation = (\<lambda>ctx request. beside_log (ClaimMailboxOperation (svc_repository service) ctx request)),
         ResolveMailboxOperation = (\<lambda>ctx resolution w.
           case ResolveMailboxOperation (svc_repository service) ctx resolution (fst w) of
             (e, v) \<Rightarrow> (e, v, snd w @ [resolution]))\<rparr>,
      svc_adapter =
        \<lparr>EnsureMailbox = (\<lambda>ctx c. beside_log (EnsureMailbox (svc_adapter service) ctx c)),
         InspectMailbox = (\<lambda>ctx q. beside_log (InspectMailbox (svc_adapter service) ctx q))\<rparr>,
      svc_config = svc_config service, svc_now = beside_log (svc_now service)\<rparr>"

lemma receipt_log_logged: "receipt_log (logged_service service) snd"
  by (auto simp: receipt_log_def logged_service_def beside_log_def split: prod.splits)

lemma receipt_log_frame:
  assumes "receipt_log service log"
  shows "adapter_frame service (\<lambda>w w'. log w' = log w)"
  using assms unfolding receipt_log_def by unfold_locales (metis snd_conv)+

interpretation logged: adapter_frame "logged_service service" "\<lambda>w w'. snd w' = snd w" for service
  by (rule receipt_log_frame [OF receipt_log_logged])

section \<open>Receipts and claims at the border\<close>

context mail_adapter
begin

lemma receipt_valid:
  assumes "svc_adapter service = adapter" "config_ok (svc_config service)"
    and "validClaim (svc_config service) claimed" "receipt_ok service claimed status code observation w"
  shows "validMailboxResolution (resolution_of (svc_config service) claimed status code observation)"
proof -
  have obs: "observation_wf (cl_MailboxID claimed) o'" if "observation = Some o'" for o'
    using assms(1,4) that inspect_wf unfolding receipt_ok_def by metis
  have "cl_LeaseOwnerID claimed \<noteq> uuid_Nil" "cl_AttemptNumber claimed \<le> MaxInt32"
    using assms(2,3) by (auto simp: validClaim_def config_ok_def)
  moreover have "validObservedMailboxStatus (obs_Status o')" "obs_MailboxID o' \<noteq> uuid_Nil" "0 \<le> obs_Revision o'"
    "\<not> IsZero (obs_InspectedAt o')" if "observation = Some o'" for o'
    using obs [OF that] assms(3) by (auto simp: observation_wf_def validClaim_def)
  ultimately show ?thesis
    using assms(3,4) retryDelay_pos [OF assms(2), of "cl_AttemptNumber claimed"]
    by (auto simp: validMailboxResolution_def Let_def resolution_of_def validClaim_def receipt_ok_def
        split: option.splits)
qed

end

interpretation sample: mail_adapter sample_adapter
  by unfold_locales
    (auto simp: sample_adapter_def sample_observation_def observation_wf_def sample_hash_def IsZero_def)

lemma logged_mail_adapter:
  assumes "mail_adapter (svc_adapter service)"
  shows "mail_adapter (svc_adapter (logged_service service))"
  using mail_adapter.inspect_wf [OF assms]
  by unfold_locales (auto simp: logged_service_def beside_log_def split: prod.splits)

text \<open>(C11) An execution submits exactly one receipt, and the repository never refuses it for its
  shape: with an adapter that keeps its contract, executing a valid claim makes one call of the repository's
  resolve operation, as its last step - the record of submitted receipts grows by that one receipt and by
  nothing else -, with a well-formed resolution that carries the claim's operation, owner, epoch, attempt and
  revision, under a deadline within the lease; it reports success only with an observation that matches the
  desired state, and gives the operation up only when the attempts are used up.\<close>

theorem execute_submits_valid_receipt:
  assumes "mail_adapter (svc_adapter service)" "config_ok (svc_config service)"
    "validClaim (svc_config service) claimed" "receipt_log service log"
  shows "\<exists>actx resolution w'.
    log (snd (Execute service ctx claimed w)) = log w @ [resolution] \<and> log w' = log w \<and>
    Execute service ctx claimed w = ResolveMailboxOperation (svc_repository service) actx resolution w' \<and>
    validMailboxResolution resolution \<and>
    res_OperationID resolution = cl_OperationID claimed \<and>
    res_LeaseOwnerID resolution = cl_LeaseOwnerID claimed \<and>
    res_LeaseEpoch resolution = cl_LeaseEpoch claimed \<and>
    res_AttemptNumber resolution = cl_AttemptNumber claimed \<and>
    res_DesiredRevision resolution = cl_DesiredRevision claimed \<and>
    (res_Status resolution = StatusSucceeded \<longrightarrow>
       (\<exists>obs. res_Observation resolution = Some obs \<and> matchesDesired claimed obs)) \<and>
    (res_Status resolution = StatusDead \<longrightarrow> cfg_MaxAttempts (svc_config service) \<le> cl_AttemptNumber claimed) \<and>
    (\<exists>d. ctx_deadline actx = Some d \<and> d \<le> cl_LeaseExpiresAt claimed)"
proof -
  obtain now w1 where now: "svc_now service w = (now, w1)" by force
  let ?actx = "attempt_context (svc_config service) ctx claimed now"
  obtain status code observation w' where r: "log w' = log w" "receipt_ok service claimed status code observation w'"
    "Execute service ctx claimed w = resolve service ?actx claimed status code observation w'"
    using adapter_frame.Execute_submits_from [OF receipt_log_frame [OF assms(4)] assms(3) now, of ctx]
    by (auto simp: submits_at_def)
  let ?res = "resolution_of (svc_config service) claimed status code observation"
  have "validMailboxResolution ?res"
    using mail_adapter.receipt_valid [OF assms(1) refl assms(2,3) r(2)] .
  moreover obtain d where "ctx_deadline ?actx = Some d" "d \<le> cl_LeaseExpiresAt claimed"
    using attempt_context_deadline by metis
  moreover have "log (snd (Execute service ctx claimed w)) = log w @ [?res]"
    using assms(4) r(1,3) by (simp add: receipt_log_def resolve_def)
  ultimately show ?thesis
    using r unfolding resolve_def
    by (intro exI [of _ ?actx] exI [of _ ?res] exI [of _ w'])
      (auto simp: resolution_of_def receipt_ok_def)
qed

theorem execute_submits_valid_receipt_witness:
  "\<exists>resolution. snd (snd (Execute (logged_service sample_service) background sample_claimed ([], []))) = [resolution] \<and>
     validMailboxResolution resolution \<and> res_OperationID resolution = cl_OperationID sample_claimed"
proof -
  have svc: "svc_config (logged_service sample_service) = sample_config"
    by (simp add: sample_service_def logged_service_def)
  have "svc_adapter sample_service = sample_adapter" by (simp add: sample_service_def)
  then have "mail_adapter (svc_adapter (logged_service sample_service))"
    using logged_mail_adapter sample.mail_adapter_axioms by metis
  from execute_submits_valid_receipt [OF this _ _ receipt_log_logged, unfolded svc,
      OF sample_config_ok sample_claimed_valid, of background "([], [])"]
  show ?thesis by auto
qed

definition ids_ok :: "db \<Rightarrow> bool" where
  "ids_ok db \<longleftrightarrow>
     list_all (\<lambda>r. op_id r \<noteq> uuid_Nil \<and> op_tenant_id r \<noteq> uuid_Nil \<and> op_resource_id r \<noteq> uuid_Nil)
       (db_operations db) \<and>
     list_all (\<lambda>m. mb_domain_id m \<noteq> uuid_Nil) (db_mailboxes db)"

lemma finalize_ids_ok:
  assumes "ids_ok db" "finalizeMailboxOperationBeforeClaim skip now mx db = Inr (b, db')"
  shows "ids_ok db'"
  using assms(2)
proof (cases rule: finalize_cases)
  case empty
  then show ?thesis using assms(1) by simp
next
  case (picked r m status code)
  then have "db' = finalize_effect now status code r db" using guard_schema_Inr by metis
  then show ?thesis
    using assms(1) by (auto simp: ids_ok_def list_all_iff finalize_effect_def set_update_where
        finalized_operation_def)
qed

text \<open>The claim as the service asks for it, over the database it meets.\<close>

definition claim_request :: "Config \<Rightarrow> ClaimRequest" where
  "claim_request config =
     \<lparr>cr_OwnerID = cfg_OwnerID config, cr_LeaseDuration = cfg_LeaseDuration config,
      cr_MaxAttempts = cfg_MaxAttempts config\<rparr>"

lemma repository_Claim_SomeD:
  assumes "repository_Claim env request db = (Inr (Some c), db')"
  shows "\<exists>us db1 db2 row e. leaseDurationMicroseconds (cr_LeaseDuration request) = (us, True) \<and>
    (\<exists>b. autocommit env 0 (finalizeMailboxOperationBeforeClaim (pe_skip env) (pe_now env 0)
       (cr_MaxAttempts request)) db = (Inr b, db1)) \<and>
    db2 = pe_race env 1 db1 \<and>
    claimMailboxOperation (pe_skip env) (pe_now env 1) (pe_uuid env 0)
      \<lparr>cp_MaxAttempts = cr_MaxAttempts request, cp_OwnerID = cr_OwnerID request,
       cp_LeaseDurationMicroseconds = us\<rparr> db2 = Inr (row, db') \<and>
    crow_LeaseExpiresAt row = Some e \<and> c = claimed_of_row row e"
  using assms
  by (auto simp: repository_Claim_def autocommit_def Let_def query_def
      split: prod.splits sum.splits if_splits option.splits)

lemma claim_row_valid:
  assumes "schema_ok db" "ids_ok db" "0 < now" "0 < us" "config_ok config"
    and "claimMailboxOperation skip now aid \<lparr>cp_MaxAttempts = cfg_MaxAttempts config,
      cp_OwnerID = cfg_OwnerID config, cp_LeaseDurationMicroseconds = us\<rparr> db = Inr (row, db')"
    and "crow_LeaseExpiresAt row = Some e"
  shows "validClaim config (claimed_of_row row e)"
  using assms(6)
proof (cases rule: claim_cases)
  case (picked r m d)
  let ?p = "\<lparr>cp_MaxAttempts = cfg_MaxAttempts config, cp_OwnerID = cfg_OwnerID config,
    cp_LeaseDurationMicroseconds = us\<rparr>"
  have row: "row = claim_row ?p now r m d" using picked(9) guard_schema_Inr by metis
  note rok = operation_row_okD [OF rows_okD(1) [OF assms(1) picked(1)]]
  have "op_id r \<noteq> uuid_Nil" "op_tenant_id r \<noteq> uuid_Nil" "op_resource_id r \<noteq> uuid_Nil"
    "mb_domain_id m \<noteq> uuid_Nil"
    using assms(2) picked(1,2) by (auto simp: ids_ok_def list_all_iff)
  moreover have "claimablePriorStatus (op_status r)" "op_attempt_count r < cfg_MaxAttempts config"
    using picked(7) by (auto simp: claimable_def)
  ultimately show ?thesis
    using rok assms(3-5,7)
    by (auto simp: row claim_row_def Let_def claimed_operation_def claimed_of_row_def validClaim_def IsZero_def)
qed simp

lemma repository_claim_valid:
  assumes "ledger_ok db" "ids_ok db" "races_run env" "\<And>n d. ids_ok d \<Longrightarrow> ids_ok (pe_race env n d)"
    and "0 < pe_now env 1" "config_ok config"
    and "repository_Claim env (claim_request config) db = (Inr (Some c), db')"
  shows "validClaim config c"
proof -
  obtain us db1 b row e where us: "leaseDurationMicroseconds (cfg_LeaseDuration config) = (us, True)"
    and fin: "autocommit env 0 (finalizeMailboxOperationBeforeClaim (pe_skip env) (pe_now env 0)
       (cfg_MaxAttempts config)) db = (Inr b, db1)"
    and claim: "claimMailboxOperation (pe_skip env) (pe_now env 1) (pe_uuid env 0)
      \<lparr>cp_MaxAttempts = cfg_MaxAttempts config, cp_OwnerID = cfg_OwnerID config,
       cp_LeaseDurationMicroseconds = us\<rparr> (pe_race env 1 db1) = Inr (row, db')"
    and e: "crow_LeaseExpiresAt row = Some e" and c: "c = claimed_of_row row e"
    using repository_Claim_SomeD [OF assms(7)] by (auto simp: claim_request_def)
  have "ledger_step\<^sup>*\<^sup>* db db1"
    by (rule autocommit_run [OF assms(3) fin]) (rule ledger_step.finalize)
  then have "ledger_step\<^sup>*\<^sup>* db (pe_race env 1 db1)"
    using assms(3) by (meson races_run_def rtranclp_trans)
  then have schema: "schema_ok (pe_race env 1 db1)" using ledger.run_inv assms(1) by blast
  have "ids_ok db1"
    using fin finalize_ids_ok [OF assms(4) [OF assms(2)]]
    by (auto simp: autocommit_def Let_def query_def split: sum.splits prod.splits option.splits if_splits)
  then have ids: "ids_ok (pe_race env 1 db1)" by (rule assms(4))
  have "0 < us" using us by (auto simp: leaseDurationMicroseconds_def Let_def split: if_splits)
  then show ?thesis
    using claim_row_valid [OF schema ids assms(5) _ assms(6) claim e] c by simp
qed

text \<open>Every claim the repository hands out is one the worker accepts: when the tables hold no
  nil identifiers and the clock is past the zero time, a claimed operation passes the worker's own validity
  check, under whatever faults and concurrent commits the call meets.\<close>

lemma claimed_operation_valid:
  assumes "ledger_ok db" "ids_ok db" "races_run env" "\<And>n d. ids_ok d \<Longrightarrow> ids_ok (pe_race env n d)"
    and "0 < pe_now env 1" "config_ok config"
    and "repository_Claim env \<lparr>cr_OwnerID = cfg_OwnerID config, cr_LeaseDuration = cfg_LeaseDuration config,
      cr_MaxAttempts = cfg_MaxAttempts config\<rparr> db = (Inr (Some c), db')"
  shows "validClaim config c"
  using repository_claim_valid [OF assms(1-6)] assms(7) by (simp add: claim_request_def)

lemma claimed_operation_valid_witness:
  "\<exists>c db'. repository_Claim sample_env \<lparr>cr_OwnerID = cfg_OwnerID sample_config,
      cr_LeaseDuration = cfg_LeaseDuration sample_config, cr_MaxAttempts = cfg_MaxAttempts sample_config\<rparr>
      sample_pending = (Inr (Some c), db') \<and> validClaim sample_config c"
proof -
  let ?r = "\<lparr>cr_OwnerID = cfg_OwnerID sample_config,
      cr_LeaseDuration = cfg_LeaseDuration sample_config, cr_MaxAttempts = cfg_MaxAttempts sample_config\<rparr>"
  have "case fst (repository_Claim sample_env ?r sample_pending) of Inr (Some c) \<Rightarrow> True | _ \<Rightarrow> False"
    by code_simp
  then obtain c db' where c: "repository_Claim sample_env ?r sample_pending = (Inr (Some c), db')"
    by (cases "repository_Claim sample_env ?r sample_pending") (auto split: sum.splits option.splits)
  have ids: "ids_ok sample_pending" by code_simp
  have "validClaim sample_config c"
    by (rule claimed_operation_valid [OF sample_pending_ledger ids quiet_races_run [OF sample_env_quiet] _ _
          sample_config_ok c])
      (simp_all add: sample_env_def)
  with c show ?thesis by blast
qed

end
