(* ===== verification/Worker_System.thy ===== *)
theory Worker_System
  imports Worker_Theorems
begin

text \<open>
  The worker process: \<^verbatim>\<open>internal/operation/runner.go\<close> and the composition of the
  runner with the service, the PostgreSQL repository and a mail core. The
  locale \<open>worker_frame\<close> extends \<open>adapter_frame\<close> and carries a relation between worlds through the calls of
  the service and the runner's loop; it is interpreted on the worker over the
  ledger, so that whatever the mail core, the clock and the network do, the
  worker moves the tables only along ledger steps.
\<close>

section \<open>The runner\<close>

record 'w Executor =
  ex_ClaimNext :: "go_context \<Rightarrow> 'w \<Rightarrow> ClaimedMailboxOperation option result \<times> 'w"
  ex_Execute :: "go_context \<Rightarrow> ClaimedMailboxOperation \<Rightarrow> 'w \<Rightarrow> go_error option \<times> 'w"

text \<open>What the loop reads of its context and its timer: whether the context is
  done, and whether its end came before the poll interval.\<close>

record 'w signals =
  sig_done :: "'w \<Rightarrow> bool \<times> 'w"
  sig_done_first :: "duration \<Rightarrow> 'w \<Rightarrow> bool \<times> 'w"

record 'w Runner =
  run_executor :: "'w Executor"
  run_pollInterval :: duration

definition NewRunner :: "'w Executor option \<Rightarrow> duration \<Rightarrow> 'w Runner result" where
  "NewRunner executor pollInterval = (case executor of
     None \<Rightarrow> Inl ErrInvalidConfiguration
   | Some e \<Rightarrow> if pollInterval \<le> 0 then Inl ErrInvalidConfiguration
       else Inr \<lparr>run_executor = e, run_pollInterval = pollInterval\<rparr>)"

definition WithoutCancel :: "go_context \<Rightarrow> go_context" where
  "WithoutCancel ctx = ctx\<lparr>ctx_deadline := None\<rparr>"

definition waitForNextPoll :: "'w signals \<Rightarrow> duration \<Rightarrow> 'w \<Rightarrow> bool \<times> 'w" where
  "waitForNextPoll sig interval w =
     (let (done_first, w') = sig_done_first sig interval w in (\<not> done_first, w'))"

text \<open>One pass of the loop: \<open>Inl\<close> returns, \<open>Inr\<close> continues.\<close>

definition run_pass ::
  "'w signals \<Rightarrow> 'w Runner \<Rightarrow> go_context \<Rightarrow> 'w \<Rightarrow> (go_error option \<times> 'w) + 'w" where
  "run_pass sig runner ctx w =
     (let (stop, w0) = sig_done sig w in
      if stop then Inl (None, w0)
      else case ex_ClaimNext (run_executor runner) ctx w0 of
        (Inl err, w1) \<Rightarrow>
          (let (stop, w2) = sig_done sig w1 in Inl (if stop then None else Some err, w2))
      | (Inr None, w1) \<Rightarrow>
          (let (go_on, w2) = waitForNextPoll sig (run_pollInterval runner) w1
           in if \<not> go_on then Inl (None, w2) else Inr w2)
      | (Inr (Some claimed), w1) \<Rightarrow>
          (case ex_Execute (run_executor runner) (WithoutCancel ctx) claimed w1 of
             (None, w2) \<Rightarrow> Inr w2
           | (Some err, w2) \<Rightarrow>
               if errors_Is err ErrLeaseLost then Inr w2
               else (let (stop, w3) = sig_done sig w2
                     in if stop \<and> errors_Is err ContextDeadlineExceeded then Inl (None, w3)
                        else Inl (Some err, w3))))"

partial_function (option) Run ::
  "'w signals \<Rightarrow> 'w Runner \<Rightarrow> go_context \<Rightarrow> 'w \<Rightarrow> (go_error option \<times> 'w) option" where
  "Run sig runner ctx w =
     (case run_pass sig runner ctx w of Inl result \<Rightarrow> Some result | Inr w' \<Rightarrow> Run sig runner ctx w')"

section \<open>Frames\<close>

definition service_executor :: "'w Service \<Rightarrow> 'w Executor" where
  "service_executor service = \<lparr>ex_ClaimNext = ClaimNext service, ex_Execute = Execute service\<rparr>"

locale worker_frame = adapter_frame service rel
  for service :: "'w Service" and rel :: "'w \<Rightarrow> 'w \<Rightarrow> bool" +
  assumes claim_rel: "ClaimMailboxOperation (svc_repository service) ctx request w = (c', w') \<Longrightarrow> rel w w'"
    and resolve_rel: "ResolveMailboxOperation (svc_repository service) ctx resolution w = (e, w') \<Longrightarrow> rel w w'"
begin

lemma receipt_rels:
  "resolve service ctx claimed s code obs w = (e, w') \<Longrightarrow> rel w w'"
  "resolveUncertain service ctx claimed code obs w = (e, w') \<Longrightarrow> rel w w'"
  "resolveAdapterFailure service ctx claimed class err obs w = (e, w') \<Longrightarrow> rel w w'"
  by (auto simp: resolve_def resolveUncertain_def resolveAdapterFailure_def Let_def
      split: if_splits ErrorClass.splits dest: resolve_rel)

lemma ensure_then_inspect_rel:
  assumes "ensure_then_inspect service actx dctx dl claimed w = (e, w')"
  shows "rel w w'"
proof -
  obtain x w1 where w1: "EnsureMailbox (svc_adapter service) dctx (ensure_command claimed dl) w = (x, w1)" by force
  obtain y w2 where w2: "inspect service dctx claimed dl w1 = (y, w2)" by force
  have 1: "rel w w1" and 2: "rel w1 w2"
    using ensure_rel [OF w1] inspect_rel w2 by (auto simp: inspect_def)
  have "rel w1 w' \<or> rel w2 w'"
    using assms w1 w2
    by (auto simp: ensure_then_inspect_def split: option.splits sum.splits if_splits dest: receipt_rels)
  then show ?thesis using 1 2 rel_trans by blast
qed

lemma Execute_rel:
  assumes "Execute service ctx claimed w = (e, w')"
  shows "rel w w'"
proof (cases "validClaim (svc_config service) claimed")
  case False
  then show ?thesis using assms rel_refl by (simp add: Execute_def)
next
  case True
  obtain now w1 where w1: "svc_now service w = (now, w1)" by force
  obtain now' w2 where w2: "svc_now service w1 = (now', w2)" by force
  have rw: "rel w w2" using now_rel [OF w1] now_rel [OF w2] rel_trans by blast
  let ?actx = "attempt_context (svc_config service) ctx claimed now"
  let ?dl = "adapter_deadline (svc_config service) ctx claimed now"
  obtain r w3 where w3: "inspect service (with_deadline ?actx ?dl) claimed ?dl w2 = (r, w3)" by force
  then have "rel w2 w3" using inspect_rel by (auto simp: inspect_def)
  moreover have "rel w2 w' \<or> rel w3 w'"
    using assms w3 unfolding Execute_unfold [OF True w1 w2]
    by (auto split: sum.splits if_splits dest: receipt_rels ensure_then_inspect_rel)
  ultimately show ?thesis using rw rel_trans by blast
qed

lemma ClaimNext_rel: "ClaimNext service ctx w = (c', w') \<Longrightarrow> rel w w'"
  by (auto simp: ClaimNext_def dest: claim_rel)

lemma run_pass_rel:
  assumes "\<And>w b w'. sig_done sig w = (b, w') \<Longrightarrow> rel w w'"
    and "\<And>i w b w'. sig_done_first sig i w = (b, w') \<Longrightarrow> rel w w'"
    and "run_executor runner = service_executor service"
    and "run_pass sig runner ctx w = r"
  shows "case r of Inl (e, w') \<Rightarrow> rel w w' | Inr w' \<Rightarrow> rel w w'"
proof -
  obtain b0 w0 where w0: "sig_done sig w = (b0, w0)" by force
  obtain c w1 where w1: "ClaimNext service ctx w0 = (c, w1)" by force
  have r0: "rel w w0" and r1: "rel w w1"
    using assms(1) [OF w0] ClaimNext_rel [OF w1] rel_trans by blast+
  have step: "rel w w''" if "rel w w'" "sig_done sig w' = (b, w'')" for w' b w''
    using that assms(1) rel_trans by blast
  have wait: "rel w w''" if "rel w w'" "sig_done_first sig i w' = (b, w'')" for w' i b w''
    using that assms(2) rel_trans by blast
  have exec: "rel w w''" if "Execute service (WithoutCancel ctx) claimed w1 = (e, w'')" for claimed e w''
    using that r1 Execute_rel rel_trans by blast
  show ?thesis
    using assms(3,4) w0 w1 r0 r1
    by (auto simp: run_pass_def service_executor_def waitForNextPoll_def Let_def
        split: sum.splits option.splits if_splits prod.splits intro: step wait exec)
qed

lemma Run_rel:
  assumes "Run sig runner ctx w = Some y"
    and "\<And>w b w'. sig_done sig w = (b, w') \<Longrightarrow> rel w w'"
    and "\<And>i w b w'. sig_done_first sig i w = (b, w') \<Longrightarrow> rel w w'"
    and "run_executor runner = service_executor service"
  shows "rel w (snd y)"
  using assms
proof (induction rule: Run.raw_induct [rotated, consumes 1, case_names step])
  case (step Run' sig runner ctx w y)
  have pass: "case run_pass sig runner ctx w of Inl (e, w1) \<Rightarrow> rel w w1 | Inr w1 \<Rightarrow> rel w w1"
    by (rule run_pass_rel [OF step.prems refl])
  show ?case
  proof (cases "run_pass sig runner ctx w")
    case (Inl result)
    then show ?thesis using pass step.hyps by (cases y) simp
  next
    case (Inr w1)
    then have "Run' sig runner ctx w1 = Some y" using step.hyps by simp
    then have "rel w1 (snd y)" using step.IH step.prems by blast
    then show ?thesis using pass Inr rel_trans by simp
  qed
qed

end

section \<open>The worker over the ledger\<close>

text \<open>
  The composition of \<^verbatim>\<open>cmd/worker\<close>: the repository works on the database of the
  world, the adapter and the clock on the rest of it (\<open>ww_core\<close>: the mail core,
  the network, the time of day).
\<close>

record 'a worker_world = pg_world +
  ww_core :: 'a

definition core_adapter :: "'a Adapter \<Rightarrow> 'a worker_world Adapter" where
  "core_adapter a =
     \<lparr>EnsureMailbox = (\<lambda>ctx c w. let (e, x) = EnsureMailbox a ctx c (ww_core w) in (e, w\<lparr>ww_core := x\<rparr>)),
      InspectMailbox = (\<lambda>ctx q w. let (r, x) = InspectMailbox a ctx q (ww_core w) in (r, w\<lparr>ww_core := x\<rparr>))\<rparr>"

definition on_core :: "('a \<Rightarrow> 'b \<times> 'a) \<Rightarrow> 'a worker_world \<Rightarrow> 'b \<times> 'a worker_world" where
  "on_core f w = (let (b, x) = f (ww_core w) in (b, w\<lparr>ww_core := x\<rparr>))"

definition worker_service ::
  "'a Adapter \<Rightarrow> ('a \<Rightarrow> instant \<times> 'a) \<Rightarrow> Config \<Rightarrow> 'a worker_world Service" where
  "worker_service a clock config =
     \<lparr>svc_repository = operation_repository, svc_adapter = core_adapter a, svc_config = config,
      svc_now = on_core clock\<rparr>"

definition core_signals :: "'a signals \<Rightarrow> 'a worker_world signals" where
  "core_signals sig =
     \<lparr>sig_done = on_core (sig_done sig), sig_done_first = (\<lambda>i. on_core (sig_done_first sig i))\<rparr>"

text \<open>What every call of the worker keeps: given environments whose races are
  runs, the database moves along ledger steps.\<close>

definition ledger_frame :: "'a worker_world \<Rightarrow> 'a worker_world \<Rightarrow> bool" where
  "ledger_frame w w' \<longleftrightarrow> pw_envs w' = pw_envs w \<and>
     ((\<forall>n. races_run (pw_envs w n)) \<longrightarrow> ledger_step\<^sup>*\<^sup>* (pw_db w) (pw_db w'))"

lemma call_frame:
  assumes "call f w = (x, w')"
    and "\<And>env db y db'. races_run env \<Longrightarrow> f env db = (y, db') \<Longrightarrow> ledger_step\<^sup>*\<^sup>* db db'"
  shows "ledger_frame w w'"
proof -
  obtain y db' where f: "f (pw_envs w (pw_calls w)) (pw_db w) = (y, db')" by force
  then have "w' = w\<lparr>pw_db := db', pw_calls := pw_calls w + 1\<rparr>" using assms(1) by (simp add: call_def)
  then show ?thesis using assms(2) [OF _ f] by (simp add: ledger_frame_def)
qed

lemma on_core_frame: "on_core f w = (x, w') \<Longrightarrow> ledger_frame w w'"
  by (auto simp: on_core_def Let_def ledger_frame_def split: prod.splits)

interpretation worker: worker_frame "worker_service a clock config" ledger_frame
  for a :: "'a Adapter" and clock config
proof
  show "ledger_frame w w" for w :: "'a worker_world" by (simp add: ledger_frame_def)
  show "ledger_frame w1 w3" if "ledger_frame w1 w2" "ledger_frame w2 w3" for w1 w2 w3 :: "'a worker_world"
    using that by (auto simp: ledger_frame_def intro: rtranclp_trans)
  show "ledger_frame w w'" if "svc_now (worker_service a clock config) w = (t, w')" for w t w'
    using that on_core_frame by (simp add: worker_service_def)
  show "ledger_frame w w'"
    if "EnsureMailbox (svc_adapter (worker_service a clock config)) ctx c w = (e, w')" for ctx c w e w'
    using that by (auto simp: worker_service_def core_adapter_def ledger_frame_def Let_def split: prod.splits)
  show "ledger_frame w w'"
    if "InspectMailbox (svc_adapter (worker_service a clock config)) ctx q w = (r, w')" for ctx q w r w'
    using that by (auto simp: worker_service_def core_adapter_def ledger_frame_def Let_def split: prod.splits)
  show "ledger_frame w w'"
    if "ClaimMailboxOperation (svc_repository (worker_service a clock config)) ctx request w = (c, w')"
    for ctx request w c w'
    by (rule call_frame [of "\<lambda>env. repository_Claim env request" w c])
      (use that repository_Claim_run in \<open>auto simp: worker_service_def operation_repository_def\<close>)
  show "ledger_frame w w'"
    if "ResolveMailboxOperation (svc_repository (worker_service a clock config)) ctx resolution w = (e, w')"
    for ctx resolution w e w'
    by (rule call_frame [of "\<lambda>env. repository_Resolve env resolution" w e])
      (use that repository_Resolve_run in \<open>auto simp: worker_service_def operation_repository_def\<close>)
qed

text \<open>The worker process keeps the ledger: whatever the mail core, the clock and the shutdown
  signal do, and whatever database calls fail or race, a run of the worker's loop that ends leaves tables
  reached by ledger steps only, with the ledger's invariant intact.\<close>

lemma worker_run_keeps_ledger:
  assumes "Run (core_signals sig) \<lparr>run_executor = service_executor (worker_service a clock config),
      run_pollInterval = interval\<rparr> ctx w = Some (err, w')"
    and "\<forall>n. races_run (pw_envs w n)" "ledger_ok (pw_db w)"
  shows "ledger_step\<^sup>*\<^sup>* (pw_db w) (pw_db w') \<and> ledger_ok (pw_db w')"
proof -
  have "ledger_frame w (snd (err, w'))"
    by (rule worker.Run_rel [OF assms(1)]) (auto simp: core_signals_def dest: on_core_frame)
  then have "ledger_step\<^sup>*\<^sup>* (pw_db w) (pw_db w')"
    using assms(2) by (simp add: ledger_frame_def)
  then show ?thesis using ledger.run_inv assms(3) by blast
qed

text \<open>A world whose mail core is the number of passes left before shutdown.\<close>

definition countdown :: "nat signals" where
  "countdown = \<lparr>sig_done = (\<lambda>n. (n = 0, n - 1)), sig_done_first = (\<lambda>i n. (False, n))\<rparr>"

definition sample_world :: "nat worker_world" where
  "sample_world = \<lparr>pw_db = sample_pending, pw_envs = (\<lambda>_. sample_env), pw_calls = 0, ww_core = 1\<rparr>"

definition sample_runner :: "nat worker_world Runner" where
  "sample_runner = \<lparr>run_executor = service_executor (worker_service sample_adapter (\<lambda>n. (200, n)) sample_config),
     run_pollInterval = 10\<rparr>"

lemma Run_pass_Inr: "run_pass sig runner ctx w = Inr w' \<Longrightarrow> Run sig runner ctx w = Run sig runner ctx w'"
  by (subst Run.simps) simp

lemma Run_pass_Inl: "run_pass sig runner ctx w = Inl r \<Longrightarrow> Run sig runner ctx w = Some r"
  by (subst Run.simps) simp

section \<open>Shutdown\<close>

lemma run_returns:
  assumes "\<And>w w'. sig_done sig w = (False, w') \<Longrightarrow> (left w' :: nat) < left w"
    and "\<And>c w w'. ex_ClaimNext (run_executor runner) ctx w = (c, w') \<Longrightarrow> left w' \<le> left w"
    and "\<And>cl e w w'. ex_Execute (run_executor runner) (WithoutCancel ctx) cl w = (e, w') \<Longrightarrow> left w' \<le> left w"
    and "\<And>b w w'. sig_done_first sig (run_pollInterval runner) w = (b, w') \<Longrightarrow> left w' \<le> left w"
  shows "\<exists>r. Run sig runner ctx w = Some r"
proof (induction "left w" arbitrary: w rule: less_induct)
  case less
  show ?case
  proof (cases "run_pass sig runner ctx w")
    case (Inl r)
    then show ?thesis by (simp add: Run_pass_Inl)
  next
    case (Inr w')
    obtain b w0 where w0: "sig_done sig w = (b, w0)" by force
    obtain c w1 where w1: "ex_ClaimNext (run_executor runner) ctx w0 = (c, w1)" by force
    have "left w' \<le> left w1"
      using Inr w0 w1 assms(3,4)
      by (auto simp: run_pass_def waitForNextPoll_def Let_def
          split: sum.splits option.splits if_splits prod.splits)
    moreover have "\<not> b" using Inr w0 by (auto simp: run_pass_def)
    ultimately have "left w' < left w" using assms(1) [of w w0] assms(2) [OF w1] w0 by auto
    then show ?thesis using less Run_pass_Inr [OF Inr] by metis
  qed
qed

text \<open>(C16) The runner stops: when the shutdown signal is seen after finitely many looks at the
  context (counted by a number that every look without the signal lowers and nothing raises), the loop
  returns, and a signal that is already there ends it before any claim.\<close>

theorem run_returns_on_shutdown:
  assumes "\<And>w w'. sig_done sig w = (False, w') \<Longrightarrow> (left w' :: nat) < left w"
    and "\<And>c w w'. ex_ClaimNext (run_executor runner) ctx w = (c, w') \<Longrightarrow> left w' \<le> left w"
    and "\<And>cl e w w'. ex_Execute (run_executor runner) (WithoutCancel ctx) cl w = (e, w') \<Longrightarrow> left w' \<le> left w"
    and "\<And>b w w'. sig_done_first sig (run_pollInterval runner) w = (b, w') \<Longrightarrow> left w' \<le> left w"
  shows "(\<exists>r. Run sig runner ctx w = Some r) \<and>
    (\<forall>w0. sig_done sig w = (True, w0) \<longrightarrow> Run sig runner ctx w = Some (None, w0))"
  using run_returns [OF assms] by (auto simp: run_pass_def Run_pass_Inl)

text \<open>The countdown of the sample world meets these conditions.\<close>

definition core_kept :: "'a worker_world \<Rightarrow> 'a worker_world \<Rightarrow> bool" where
  "core_kept w w' \<longleftrightarrow> ww_core w' = ww_core w"

lemma call_core: "call f w = (x, w') \<Longrightarrow> ww_core w' = ww_core w"
  by (auto simp: call_def Let_def split: prod.splits)

interpretation sample_worker: worker_frame
  "worker_service sample_adapter (\<lambda>n :: nat. (200, n)) sample_config" core_kept
  by unfold_locales
    (auto simp: core_kept_def worker_service_def core_adapter_def on_core_def sample_adapter_def
      operation_repository_def dest: call_core)

lemma sample_counts:
  "sig_done (core_signals countdown) w = (False, w') \<Longrightarrow> ww_core w' < ww_core w"
  "sig_done_first (core_signals countdown) i w = (b, w') \<Longrightarrow> ww_core w' \<le> ww_core w"
  "ex_ClaimNext (run_executor sample_runner) ctx w = (c, w') \<Longrightarrow> ww_core w' \<le> ww_core w"
  "ex_Execute (run_executor sample_runner) ctx cl w = (e, w') \<Longrightarrow> ww_core w' \<le> ww_core w"
  using sample_worker.ClaimNext_rel [of ctx w c w'] sample_worker.Execute_rel [of ctx cl w e w']
  by (auto simp: sample_runner_def service_executor_def core_signals_def countdown_def on_core_def core_kept_def)

lemma sample_run: "\<exists>err w'. Run (core_signals countdown) sample_runner background w = Some (err, w')"
proof -
  have "\<exists>r. Run (core_signals countdown) sample_runner background w = Some r"
    by (rule run_returns [where left = ww_core]) (erule sample_counts)+
  then show ?thesis by auto
qed

theorem run_returns_on_shutdown_witness:
  "\<exists>r. Run (core_signals countdown) sample_runner background sample_world = Some r"
proof -
  have "(\<exists>r. Run (core_signals countdown) sample_runner background sample_world = Some r) \<and>
    (\<forall>w0. sig_done (core_signals countdown) sample_world = (True, w0) \<longrightarrow>
      Run (core_signals countdown) sample_runner background sample_world = Some (None, w0))"
    by (rule run_returns_on_shutdown [where left = ww_core]) (erule sample_counts)+
  then show ?thesis ..
qed

lemma worker_run_keeps_ledger_witness:
  "\<exists>err w'. Run (core_signals countdown) sample_runner background sample_world = Some (err, w') \<and>
     ledger_ok (pw_db w')"
proof -
  have "pw_db sample_world = sample_pending" "pw_envs sample_world = (\<lambda>_. sample_env)"
    by (simp_all add: sample_world_def)
  then have start: "\<forall>n. races_run (pw_envs sample_world n)" "ledger_ok (pw_db sample_world)"
    using quiet_races_run [OF sample_env_quiet] sample_pending_ledger by simp_all
  obtain err w' where run: "Run (core_signals countdown) sample_runner background sample_world = Some (err, w')"
    using sample_run by blast
  have "ledger_ok (pw_db w')"
    using worker_run_keeps_ledger [OF run [unfolded sample_runner_def] start] ..
  with run show ?thesis by blast
qed

section \<open>An execution commits one receipt\<close>

lemma repository_Resolve_NoneD:
  assumes "repository_Resolve env resolution db = (None, db')"
  shows "validMailboxResolution resolution"
    "resolveMailboxOperation (pe_now env 1) (resolve_params resolution) (pe_race env 1 db) = Inr (True, db')"
  using assms
  by (auto simp: repository_Resolve_def Let_def commit_def query_def
      split: if_splits option.splits sum.splits prod.splits)

lemma stale_older: "stale db operation epoch \<Longrightarrow> e \<le> epoch \<Longrightarrow> stale db operation e"
  by (fastforce simp: stale_def)

lemma resolve_params_ids:
  "rp_OperationID (resolve_params resolution) = res_OperationID resolution"
  "rp_LeaseEpoch (resolve_params resolution) = res_LeaseEpoch resolution"
  by (simp_all add: resolve_params_def Let_def split: option.splits)

text \<open>(C3) When an execution reports no error, exactly its receipt is in the ledger: the tables
  moved along ledger steps to a state in which the receipt of the claim's operation, owner, epoch and attempt
  was applied as the last step; a success carries an observation that matches the claim; and from then on
  every receipt of that operation with this or an older epoch is refused.\<close>

theorem execute_commits_one_receipt:
  assumes "validClaim config claimed"
    and "\<forall>n. races_run (pw_envs w n)" "ledger_ok (pw_db w)"
    and "Execute (worker_service a clock config) ctx claimed w = (None, w')"
  shows "\<exists>now resolution db1. ledger_step\<^sup>*\<^sup>* (pw_db w) db1 \<and>
    resolveMailboxOperation now (resolve_params resolution) db1 = Inr (True, pw_db w') \<and>
    validMailboxResolution resolution \<and>
    res_OperationID resolution = cl_OperationID claimed \<and>
    res_LeaseOwnerID resolution = cl_LeaseOwnerID claimed \<and>
    res_LeaseEpoch resolution = cl_LeaseEpoch claimed \<and>
    res_AttemptNumber resolution = cl_AttemptNumber claimed \<and>
    (res_Status resolution = StatusSucceeded \<longrightarrow>
       (\<exists>obs. res_Observation resolution = Some obs \<and> matchesDesired claimed obs)) \<and>
    (\<forall>db2 q now'. ledger_step\<^sup>*\<^sup>* (pw_db w') db2 \<and> rp_OperationID q = cl_OperationID claimed \<and>
       rp_LeaseEpoch q \<le> cl_LeaseEpoch claimed \<longrightarrow>
       resolveMailboxOperation now' q db2 = Inr (False, db2))"
proof -
  let ?s = "worker_service a clock config"
  have cfg: "svc_config ?s = config" "svc_repository ?s = operation_repository"
    by (simp_all add: worker_service_def)
  obtain now w0 where now: "svc_now ?s w = (now, w0)" by force
  let ?actx = "attempt_context config ctx claimed now"
  obtain w1 where w1: "ledger_frame w w1" "submits_at ?s claimed ?actx w1 (None, w')"
    using worker.Execute_submits_from [of a clock config claimed w now w0 ctx] assms(1,4) now
    by (auto simp: cfg)
  obtain status code observation where r: "receipt_ok ?s claimed status code observation w1"
    "(None, w') = resolve ?s ?actx claimed status code observation w1"
    using w1(2) by (auto simp: submits_at_def)
  define res where "res = resolution_of config claimed status code observation"
  define env where "env = pw_envs w1 (pw_calls w1)"
  have "repository_Resolve env res (pw_db w1) = (None, pw_db w')"
    using r(2) by (auto simp: resolve_def cfg operation_repository_def call_def Let_def res_def env_def
        split: prod.splits)
  note applied = repository_Resolve_NoneD [OF this]
  have env: "races_run env" and run1: "ledger_step\<^sup>*\<^sup>* (pw_db w) (pw_db w1)"
    using w1(1) assms(2) by (auto simp: ledger_frame_def env_def)
  then have run: "ledger_step\<^sup>*\<^sup>* (pw_db w) (pe_race env 1 (pw_db w1))"
    by (meson races_run_def rtranclp_trans)
  have ids: "res_OperationID res = cl_OperationID claimed" "res_LeaseOwnerID res = cl_LeaseOwnerID claimed"
    "res_LeaseEpoch res = cl_LeaseEpoch claimed" "res_AttemptNumber res = cl_AttemptNumber claimed"
    "res_Status res = status" "res_Observation res = observation"
    by (simp_all add: res_def resolution_of_def)
  have ok1: "ledger_ok (pe_race env 1 (pw_db w1))" using ledger.run_inv [OF run assms(3)] .
  have ok2: "ledger_ok (pw_db w')" using resolve_step [OF ok1 applied(2)] by blast
  have stale: "stale (pw_db w') (cl_OperationID claimed) (cl_LeaseEpoch claimed)"
    using applied_stale [OF ok1 applied(2)] by (simp add: resolve_params_ids ids)
  have "resolveMailboxOperation now' q db2 = Inr (False, db2)"
    if q: "ledger_step\<^sup>*\<^sup>* (pw_db w') db2" "rp_OperationID q = cl_OperationID claimed"
      "rp_LeaseEpoch q \<le> cl_LeaseEpoch claimed" for db2 q now'
    using stale_rejected [OF ledger.run_inv [OF q(1) ok2]] stale_forever [OF q(1) ok2 stale_older [OF stale q(3)]]
      q(2) by simp
  then show ?thesis
    using run applied ids r(1)
    by (intro exI [of _ "pe_now env 1"] exI [of _ res] exI [of _ "pe_race env 1 (pw_db w1)"])
      (auto simp: receipt_ok_def)
qed


theorem execute_commits_one_receipt_witness:
  "\<exists>w'. Execute (worker_service sample_adapter (\<lambda>n :: nat. (200, n)) sample_config) background sample_claimed
      (sample_world\<lparr>pw_db := sample_running\<rparr>) = (None, w') \<and>
     resolveMailboxOperation 300 sample_receipt (pw_db w') = Inr (False, pw_db w')"
proof -
  let ?w = "sample_world\<lparr>pw_db := sample_running\<rparr>"
  let ?x = "Execute (worker_service sample_adapter (\<lambda>n :: nat. (200, n)) sample_config) background sample_claimed ?w"
  have "fst ?x = None" by code_simp
  then obtain w' where x: "?x = (None, w')" by (cases ?x) simp
  have start: "\<forall>n. races_run (pw_envs ?w n)" "ledger_ok (pw_db ?w)"
    using quiet_races_run [OF sample_env_quiet] sample_running_ledger by (simp_all add: sample_world_def)
  have "rp_OperationID sample_receipt = cl_OperationID sample_claimed"
    "rp_LeaseEpoch sample_receipt \<le> cl_LeaseEpoch sample_claimed"
    by (simp_all add: sample_receipt_def sample_claimed_def)
  then show ?thesis
    using execute_commits_one_receipt [OF sample_claimed_valid start x] x by blast
qed

end
