(* ===== verification/Worker_Build.thy ===== *)
theory Worker_Build
  imports Process_Config Worker_System Stalwart_Adapter
begin

text \<open>
  How the worker process is put together (\<^verbatim>\<open>cmd/worker/main.go\<close>): the Stalwart settings from
  restricted files (\<^verbatim>\<open>internal/mailcore/stalwart/config.go\<close>), the adapter, the operation
  service on the ledger and the runner. The file system is a record of what \<^verbatim>\<open>os.Stat\<close> and
  \<^verbatim>\<open>os.ReadFile\<close> answer; the system's certificate pool is no part of the model.
\<close>

section \<open>Restricted files\<close>

definition maximumSecretBytes :: nat where
  "maximumSecretBytes = 4096"

definition maximumCABundleBytes :: nat where
  "maximumCABundleBytes = 1048576"

record file_info =
  fi_regular :: bool
  fi_perm :: nat
  fi_size :: int

record file_system =
  os_Stat :: "string \<Rightarrow> file_info option"
  os_ReadFile :: "string \<Rightarrow> bytes option"
  os_windows :: bool
  os_validPEM :: "bytes \<Rightarrow> bool" \<comment> \<open>whether \<^verbatim>\<open>AppendCertsFromPEM\<close> finds a certificate\<close>

definition readRestrictedSecret :: "file_system \<Rightarrow> string \<Rightarrow> string \<Rightarrow> string result" where
  "readRestrictedSecret files environmentName rawPath =
     (let path = TrimSpace rawPath; fail = Inl (OtherError environmentName) in
      if path = '''' then fail
      else (case os_Stat files path of
          None \<Rightarrow> fail
        | Some info \<Rightarrow>
            if \<not> fi_regular info then fail
            else if \<not> os_windows files \<and> fi_perm info mod 64 \<noteq> 0 then fail
            else (case os_ReadFile files path of
                None \<Rightarrow> fail
              | Some content \<Rightarrow>
                  if maximumSecretBytes < length content then fail
                  else let secret = TrimSpace content in
                    if secret = '''' \<or> contains_rune IsControl secret then fail else Inr secret)))"

definition loadRootCAs :: "file_system \<Rightarrow> string \<Rightarrow> bool result" where
  "loadRootCAs files path =
     (let fail = Inl (OtherError ''MAIL_SUITE_STALWART_CA_FILE'') in
      case os_Stat files path of
        None \<Rightarrow> fail
      | Some info \<Rightarrow>
          if \<not> fi_regular info \<or> fi_size info \<le> 0 \<or> int maximumCABundleBytes < fi_size info then fail
          else (case os_ReadFile files path of
              None \<Rightarrow> fail
            | Some content \<Rightarrow>
                if content = '''' \<or> maximumCABundleBytes < length content then fail
                else if \<not> os_validPEM files content then fail else Inr True))"

definition stalwart_LoadConfig ::
  "go_library \<Rightarrow> (go_URL \<Rightarrow> string) \<Rightarrow> (nat \<Rightarrow> nat \<Rightarrow> nat \<Rightarrow> nat) \<Rightarrow> file_system \<Rightarrow> getenv \<Rightarrow> stalwart_Config result" where
  "stalwart_LoadConfig lib url_String fraction files env =
     (case parseEndpoint lib (env ''MAIL_SUITE_STALWART_ENDPOINT'') of
        None \<Rightarrow> Inl (OtherError ''MAIL_SUITE_STALWART_ENDPOINT'')
      | Some endpoint \<Rightarrow>
          let username = TrimSpace (env ''MAIL_SUITE_STALWART_ADMIN_USERNAME'') in
          if username = '''' \<or> 256 < length username \<or> CHR '':'' \<in> set username \<or> contains_rune IsControl username
          then Inl (OtherError ''MAIL_SUITE_STALWART_ADMIN_USERNAME'')
          else
           and_then (readRestrictedSecret files ''MAIL_SUITE_STALWART_ADMIN_PASSWORD_FILE''
               (env ''MAIL_SUITE_STALWART_ADMIN_PASSWORD_FILE'')) (\<lambda>password.
           and_then (readRestrictedSecret files ''MAIL_SUITE_STALWART_MAILBOX_KEY_FILE''
               (env ''MAIL_SUITE_STALWART_MAILBOX_KEY_FILE'')) (\<lambda>encodedMailboxKey.
           case Std_DecodeString encodedMailboxKey of
             None \<Rightarrow> Inl (OtherError ''MAIL_SUITE_STALWART_MAILBOX_KEY_FILE'')
           | Some mailboxKey \<Rightarrow>
               if length mailboxKey \<noteq> 32 then Inl (OtherError ''MAIL_SUITE_STALWART_MAILBOX_KEY_FILE'')
               else let rawTimeout = TrimSpace (env ''MAIL_SUITE_STALWART_TIMEOUT'') in
               if rawTimeout = '''' then Inl (OtherError ''MAIL_SUITE_STALWART_TIMEOUT'')
               else (case ParseDuration fraction rawTimeout of
                   None \<Rightarrow> Inl (OtherError ''MAIL_SUITE_STALWART_TIMEOUT'')
                 | Some requestTimeout \<Rightarrow>
                     if requestTimeout \<le> 0 \<or> maximumRequestTimeout < requestTimeout
                     then Inl (OtherError ''MAIL_SUITE_STALWART_TIMEOUT'')
                     else let caPath = TrimSpace (env ''MAIL_SUITE_STALWART_CA_FILE'') in
                     if caPath = '''' then Inl (OtherError ''MAIL_SUITE_STALWART_CA_FILE'')
                     else and_then (loadRootCAs files caPath) (\<lambda>rootCAs.
                       Inr \<lparr>scf_Endpoint = Some (url_String endpoint), scf_AdminUsername = username,
                         scf_AdminPassword = password, scf_MailboxKey = mailboxKey, scf_RootCAs = rootCAs,
                         scf_RequestTimeout = requestTimeout\<rparr>)))))"

section \<open>The worker\<close>

definition operation_config :: "uuid \<Rightarrow> worker_Config \<Rightarrow> Config" where
  "operation_config owner config =
     \<lparr>cfg_OwnerID = owner, cfg_LeaseDuration = wcf_LeaseDuration config,
      cfg_AttemptTimeout = wcf_AttemptTimeout config, cfg_LeaseSafetyMargin = wcf_LeaseSafetyMargin config,
      cfg_BaseRetryDelay = wcf_BaseRetryDelay config, cfg_MaxRetryDelay = wcf_MaxRetryDelay config,
      cfg_MaxAttempts = wcf_MaxAttempts config\<rparr>"

record 'w worker_parts =
  wp_lib :: go_library
  wp_url_String :: "go_URL \<Rightarrow> string"
  wp_fraction :: "nat \<Rightarrow> nat \<Rightarrow> nat \<Rightarrow> nat"
  wp_files :: file_system
  wp_env :: getenv
  wp_client :: "go_context \<Rightarrow> http_call \<Rightarrow> 'w \<Rightarrow> http_outcome \<times> 'w"
  wp_ctxErr :: "go_context \<Rightarrow> 'w \<Rightarrow> go_error option"
  wp_now :: "'w \<Rightarrow> instant \<times> 'w"
  wp_random :: "'w reader"
  wp_repository :: "'w Repository"
  wp_owner :: uuid \<comment> \<open>\<^verbatim>\<open>uuid.New()\<close>\<close>

definition buildWorker ::
  "'w worker_parts \<Rightarrow> platform_Config \<Rightarrow> ('w Runner \<times> 'w stalwart_Adapter) result" where
  "buildWorker parts serviceConfig =
     and_then (worker_Load (wp_fraction parts) (wp_env parts) (pcf_ShutdownTimeout serviceConfig)) (\<lambda>workerConfig.
     and_then (stalwart_LoadConfig (wp_lib parts) (wp_url_String parts) (wp_fraction parts) (wp_files parts) (wp_env parts))
       (\<lambda>mailCoreConfig.
     and_then (stalwart_New (wp_lib parts) (wp_client parts) (wp_ctxErr parts) (wp_now parts) (wp_random parts)
         mailCoreConfig) (\<lambda>adapter.
     and_then (newService (Some (wp_repository parts)) (Some (stalwart_adapter adapter))
         (operation_config (wp_owner parts) workerConfig) (Some (wp_now parts))) (\<lambda>operationService.
     and_then (NewRunner (Some (service_executor operationService)) (wcf_PollInterval workerConfig)) (\<lambda>runner.
     Inr (runner, adapter))))))"

section \<open>Properties\<close>

lemma ParseDuration_upper: "ParseDuration fraction s = Some d \<Longrightarrow> d < 2 ^ 63"
  by (auto simp: ParseDuration_def Let_def split: if_splits option.splits)

lemma platform_timeout:
  assumes "platform_Load uc authority fraction env service address = Inr config"
  shows "0 < pcf_ShutdownTimeout config \<and> pcf_ShutdownTimeout config < 2 ^ 63"
  using assms
  by (auto simp: platform_Load_def Let_def and_then_Inr platform_durationFromEnvironment_def bounded_duration_def
      defaultShutdownTimeout_def split: if_splits option.splits dest: ParseDuration_upper)

definition worker_timing :: "worker_Config \<Rightarrow> duration \<Rightarrow> bool" where
  "worker_timing config shutdown \<longleftrightarrow>
     0 < wcf_AttemptTimeout config \<and> 0 < wcf_LeaseSafetyMargin config \<and> 0 < wcf_PollInterval config \<and>
     0 < wcf_BaseRetryDelay config \<and> wcf_BaseRetryDelay config \<le> wcf_MaxRetryDelay config \<and>
     wcf_PollInterval config \<le> maximumConfiguredTiming \<and> wcf_LeaseDuration config \<le> maximumConfiguredTiming \<and>
     wcf_MaxRetryDelay config \<le> maximumConfiguredTiming \<and>
     wcf_AttemptTimeout config + wcf_LeaseSafetyMargin config \<le> wcf_LeaseDuration config \<and>
     wcf_AttemptTimeout config + wcf_LeaseSafetyMargin config \<le> shutdown \<and>
     0 < wcf_MaxAttempts config \<and> wcf_MaxAttempts config \<le> MaxInt32"

lemma durations_read:
  assumes "read_durations fraction env (zip durationEnvironmentNames worker_defaults) = Inr vals" "i < 6"
  shows "0 < vals ! i \<and> vals ! i \<le> maximumConfiguredTiming"
proof -
  let ?ps = "zip durationEnvironmentNames worker_defaults"
  have i: "i < length ?ps" using assms(2) by (simp add: durationEnvironmentNames_def worker_defaults_def)
  have "case ?ps ! i of (name, fallback) \<Rightarrow> vals ! i = fallback \<or> (0 < vals ! i \<and> vals ! i \<le> maximumConfiguredTiming)"
    using list_all2_nthD [OF read_durations_InrD [OF assms(1)] i] by (simp split: prod.splits)
  moreover have "\<forall>p \<in> set ?ps. 0 < snd p \<and> snd p \<le> maximumConfiguredTiming"
    by (simp add: durationEnvironmentNames_def worker_defaults_def maximumConfiguredTiming_def)
  ultimately show ?thesis using nth_mem [OF i] by (auto split: prod.splits)
qed

lemma worker_Load_timing:
  assumes "worker_Load fraction env shutdown = Inr config" "shutdown < 2 ^ 63"
  shows "worker_timing config shutdown"
proof -
  obtain vals attempts where vals: "read_durations fraction env (zip durationEnvironmentNames worker_defaults) = Inr vals"
    and attempts: "positiveIntegerFromEnvironment env ''MAIL_SUITE_WORKER_MAX_ATTEMPTS'' defaultMaximumAttempts = Inr attempts"
    and config: "config = \<lparr>wcf_PollInterval = vals ! 0, wcf_LeaseDuration = vals ! 1, wcf_AttemptTimeout = vals ! 2,
      wcf_LeaseSafetyMargin = vals ! 3, wcf_BaseRetryDelay = vals ! 4, wcf_MaxRetryDelay = vals ! 5,
      wcf_MaxAttempts = attempts\<rparr>"
    and checks: "vals ! 3 < vals ! 1" "vals ! 2 \<le> wrap64 (vals ! 1 - vals ! 3)" "vals ! 3 < shutdown"
      "vals ! 2 \<le> wrap64 (shutdown - vals ! 3)" "vals ! 4 \<le> vals ! 5"
    using assms(1) by (auto simp: worker_Load_def and_then_Inr Let_def not_less not_le split: if_splits)
  have n: "0 < attempts \<and> attempts \<le> MaxInt32"
    using attempts by (auto simp: positiveIntegerFromEnvironment_def Let_def defaultMaximumAttempts_def MaxInt32_def
        split: if_splits option.splits)
  have v: "0 < vals ! i \<and> vals ! i \<le> maximumConfiguredTiming" if "i \<in> {0, 1, 2, 3, 4, 5}" for i
    using durations_read [OF vals] that by force
  have "wrap64 (vals ! 1 - vals ! 3) = vals ! 1 - vals ! 3" "wrap64 (shutdown - vals ! 3) = shutdown - vals ! 3"
    using v [of 1] v [of 3] checks(1,3) assms(2)
    by (intro wrap64_id; simp add: maximumConfiguredTiming_def)+
  with checks n v [of 0] v [of 1] v [of 2] v [of 3] v [of 4] v [of 5] show ?thesis
    by (simp add: worker_timing_def config)
qed

text \<open>(C28) A worker whose settings load starts: when the settings of the process, of the worker and of the mail core
  were accepted and the adapter was made, \<^verbatim>\<open>buildWorker\<close> delivers a runner on that adapter and the ledger, whose
  service satisfies every bound the operation package relies on; and an attempt with its receipt fits into the
  lease and into the time the process has to stop.\<close>

theorem loaded_worker_starts:
  assumes "platform_Load uc authority fraction env name address = Inr serviceConfig"
    and "worker_Load (wp_fraction parts) (wp_env parts) (pcf_ShutdownTimeout serviceConfig) = Inr workerConfig"
    and "stalwart_LoadConfig (wp_lib parts) (wp_url_String parts) (wp_fraction parts) (wp_files parts) (wp_env parts) =
      Inr mailCoreConfig"
    and "stalwart_New (wp_lib parts) (wp_client parts) (wp_ctxErr parts) (wp_now parts) (wp_random parts) mailCoreConfig =
      Inr adapter"
    and "wp_owner parts \<noteq> uuid_Nil"
  shows "\<exists>runner service. buildWorker parts serviceConfig = Inr (runner, adapter) \<and>
    run_executor runner = service_executor service \<and> svc_adapter service = stalwart_adapter adapter \<and>
    svc_repository service = wp_repository parts \<and> config_ok (svc_config service) \<and>
    0 < run_pollInterval runner \<and> run_pollInterval runner \<le> maximumConfiguredTiming \<and>
    cfg_AttemptTimeout (svc_config service) + cfg_LeaseSafetyMargin (svc_config service) \<le>
      min (cfg_LeaseDuration (svc_config service)) (pcf_ShutdownTimeout serviceConfig)"
proof -
  have timing: "worker_timing workerConfig (pcf_ShutdownTimeout serviceConfig)"
    using worker_Load_timing [OF assms(2)] platform_timeout [OF assms(1)] by blast
  let ?config = "operation_config (wp_owner parts) workerConfig"
  let ?service = "\<lparr>svc_repository = wp_repository parts, svc_adapter = stalwart_adapter adapter, svc_config = ?config,
    svc_now = wp_now parts\<rparr>"
  have ok: "config_ok ?config"
    using timing assms(5) by (simp add: config_ok_def worker_timing_def operation_config_def maximumConfiguredTiming_def)
  then have "newService (Some (wp_repository parts)) (Some (stalwart_adapter adapter)) ?config (Some (wp_now parts)) =
      Inr ?service"
    by (simp add: newService_def config_ok_def not_less not_le)
  moreover have "NewRunner (Some (service_executor ?service)) (wcf_PollInterval workerConfig) =
      Inr \<lparr>run_executor = service_executor ?service, run_pollInterval = wcf_PollInterval workerConfig\<rparr>"
    using timing by (simp add: NewRunner_def worker_timing_def)
  ultimately have "buildWorker parts serviceConfig =
      Inr (\<lparr>run_executor = service_executor ?service, run_pollInterval = wcf_PollInterval workerConfig\<rparr>, adapter)"
    using assms(2-4) by (simp add: buildWorker_def)
  with ok timing show ?thesis
    by (intro exI [of _ ?service] exI conjI) (auto simp: worker_timing_def operation_config_def)
qed

text \<open>With none of the timing variables set a worker does not start: the default of ten seconds to stop is
  shorter than the default attempt.\<close>

lemma default_worker_refused:
  assumes "env ''MAIL_SUITE_MAIL_CORE_MODE'' = ''stalwart''"
    and "\<forall>name \<in> set (''MAIL_SUITE_WORKER_MAX_ATTEMPTS'' # durationEnvironmentNames). env name = ''''"
  shows "worker_Load fraction env defaultShutdownTimeout = Inl (OtherError ''MAIL_SUITE_SHUTDOWN_TIMEOUT'')"
proof -
  have "TrimSpace ''stalwart'' = ''stalwart''" "TrimSpace '''' = ''''" by code_simp+
  then show ?thesis using assms
    by (simp add: worker_Load_def durationEnvironmentNames_def worker_defaults_def worker_durationFromEnvironment_def
        bounded_duration_def positiveIntegerFromEnvironment_def defaultShutdownTimeout_def Let_def)
qed

end
