(* ===== verification/Worker_Build_Witnesses.thy ===== *)
theory Worker_Build_Witnesses
  imports Worker_Build Boundary_Witnesses
begin

text \<open>The start of a worker at concrete settings: an environment with a longer time to stop,
  and restricted files for the mail core's secrets.\<close>

definition start_library :: go_library where
  "start_library = \<lparr>lib_lower = id, lib_authority = plain_authority, lib_json = (\<lambda>b. None),
     lib_marshal = (\<lambda>j. ''''), lib_RFC3339 = (\<lambda>s. None), lib_uuid_String = (\<lambda>u. ''''),
     lib_uuid_Parse = (\<lambda>s. None)\<rparr>"

definition start_env :: getenv where
  "start_env name = (case map_of [(''MAIL_SUITE_DATABASE_URL'', ''postgres://db''),
     (''MAIL_SUITE_SHUTDOWN_TIMEOUT'', ''30s''), (''MAIL_SUITE_MAIL_CORE_MODE'', ''stalwart''),
     (''MAIL_SUITE_STALWART_ENDPOINT'', ''https://core.test''), (''MAIL_SUITE_STALWART_ADMIN_USERNAME'', ''admin''),
     (''MAIL_SUITE_STALWART_ADMIN_PASSWORD_FILE'', ''/password''), (''MAIL_SUITE_STALWART_MAILBOX_KEY_FILE'', ''/key''),
     (''MAIL_SUITE_STALWART_TIMEOUT'', ''10s''), (''MAIL_SUITE_STALWART_CA_FILE'', ''/ca'')] name of
       None \<Rightarrow> '''' | Some v \<Rightarrow> v)"

definition start_files :: file_system where
  "start_files = \<lparr>os_Stat = (\<lambda>p. Some \<lparr>fi_regular = True, fi_perm = 256, fi_size = 100\<rparr>),
     os_ReadFile = (\<lambda>p. Some (if p = ''/key'' then ''AAAAAAAAAAAAAAAAAAAAAAAAAAAAAAAAAAAAAAAAAAA='' else ''secret'')),
     os_windows = False, os_validPEM = (\<lambda>c. True)\<rparr>"

definition start_parts :: "unit worker_world worker_parts" where
  "start_parts = \<lparr>wp_lib = start_library, wp_url_String = (\<lambda>u. url_Scheme u @ ''://'' @ url_Host u),
     wp_fraction = (\<lambda>f u s. f * u div s), wp_files = start_files, wp_env = start_env,
     wp_client = (\<lambda>ctx c w. (DoFailed True, w)), wp_ctxErr = (\<lambda>ctx w. None), wp_now = (\<lambda>w. (1, w)),
     wp_random = (\<lambda>n w. (None, w)), wp_repository = operation_repository, wp_owner = 1\<rparr>"

lemma start_texts [simp]: "TrimSpace ''30s'' = ''30s''" "TrimSpace ''10s'' = ''10s''" "TrimSpace ''admin'' = ''admin''"
  "TrimSpace ''secret'' = ''secret''" "TrimSpace ''/key'' = ''/key''" "TrimSpace ''/password'' = ''/password''"
  "TrimSpace ''/ca'' = ''/ca''" "TrimSpace '''' = ''''" "TrimSpace ''stalwart'' = ''stalwart''"
  "TrimSpace ''https://core.test'' = ''https://core.test''" "TrimSpace ''worker'' = ''worker''"
  "TrimSpace ''postgres://db'' = ''postgres://db''" "TrimSpace ''127.0.0.1:8081'' = ''127.0.0.1:8081''"
  "TrimSpace ''AAAAAAAAAAAAAAAAAAAAAAAAAAAAAAAAAAAAAAAAAAA='' = ''AAAAAAAAAAAAAAAAAAAAAAAAAAAAAAAAAAAAAAAAAAA=''"
  "\<not> contains_rune IsControl ''admin''" "\<not> contains_rune IsControl ''secret''"
  "\<not> contains_rune IsControl ''AAAAAAAAAAAAAAAAAAAAAAAAAAAAAAAAAAAAAAAAAAA=''"
  by (simp_all add: ascii_eval del: runes.simps)

lemma start_durations: "ParseDuration f ''30s'' = Some 30000000000" "ParseDuration f ''10s'' = Some 10000000000"
  by (simp_all add: ParseDuration_def duration_sum.simps duration_term_def duration_number_def unitMap_def
      is_digit_def byte_val_def HasPrefix_def)

lemma start_env_simps:
  "start_env ''MAIL_SUITE_DATABASE_URL'' = ''postgres://db''" "start_env ''MAIL_SUITE_SHUTDOWN_TIMEOUT'' = ''30s''"
  "start_env ''MAIL_SUITE_MAIL_CORE_MODE'' = ''stalwart''"
  "start_env ''MAIL_SUITE_STALWART_ENDPOINT'' = ''https://core.test''"
  "start_env ''MAIL_SUITE_STALWART_ADMIN_USERNAME'' = ''admin''"
  "start_env ''MAIL_SUITE_STALWART_ADMIN_PASSWORD_FILE'' = ''/password''"
  "start_env ''MAIL_SUITE_STALWART_MAILBOX_KEY_FILE'' = ''/key''"
  "start_env ''MAIL_SUITE_STALWART_TIMEOUT'' = ''10s''" "start_env ''MAIL_SUITE_STALWART_CA_FILE'' = ''/ca''"
  "start_env ''MAIL_SUITE_HTTP_ADDRESS'' = ''''" "start_env ''MAIL_SUITE_PROBE_TIMEOUT'' = ''''"
  "start_env ''MAIL_SUITE_OTEL_EXPORTER_OTLP_ENDPOINT'' = ''''" "start_env ''MAIL_SUITE_WORKER_MAX_ATTEMPTS'' = ''''"
  "\<forall>name \<in> set durationEnvironmentNames. start_env name = ''''"
  by (simp_all add: start_env_def durationEnvironmentNames_def)

lemma start_platform: "\<exists>config. platform_Load id plain_authority f start_env ''worker'' ''127.0.0.1:8081'' = Inr config \<and>
  pcf_ShutdownTimeout config = 30000000000"
  by (simp add: platform_Load_def start_env_simps platform_durationFromEnvironment_def bounded_duration_def
      start_durations validateEndpoint_def)

lemma start_worker: "\<exists>config. worker_Load f start_env 30000000000 = Inr config"
  using start_env_simps(14)
  by (simp add: worker_Load_def start_env_simps durationEnvironmentNames_def worker_defaults_def
      worker_durationFromEnvironment_def bounded_duration_def positiveIntegerFromEnvironment_def Let_def)

lemma start_endpoint: "parseEndpoint start_library ''https://core.test'' = Some \<lparr>url_Path = '''', url_RawPath = '''',
  url_RawQuery = '''', url_Scheme = ''https'', url_Opaque = '''', url_User = False, url_Host = ''core.test''\<rparr>"
  by (simp add: parseEndpoint_def start_library_def url_ParseRequestURI_def parse_reference_def absolute_URL_def
      set_path_def cut_query_def plain_authority_def escape_path_def URL.defs ascii_eval)

lemma start_key: "Std_DecodeString ''AAAAAAAAAAAAAAAAAAAAAAAAAAAAAAAAAAAAAAAAAAA='' = Some (replicate 32 (CHR 0x00))"
  by code_simp

lemma start_core: "\<exists>config adapter. stalwart_LoadConfig start_library (\<lambda>u. url_Scheme u @ ''://'' @ url_Host u) f start_files
    start_env = Inr config \<and> stalwart_New start_library client ctxErr now random config = Inr adapter"
  by (simp add: stalwart_LoadConfig_def start_env_simps start_endpoint readRestrictedSecret_def start_files_def
      maximumSecretBytes_def start_key start_durations maximumRequestTimeout_def loadRootCAs_def
      maximumCABundleBytes_def stalwart_New_def Let_def)

theorem loaded_worker_starts_witness:
  "\<exists>serviceConfig runner adapter. platform_Load id plain_authority (\<lambda>f u s. f * u div s) start_env ''worker''
       ''127.0.0.1:8081'' = Inr serviceConfig \<and>
     buildWorker start_parts serviceConfig = Inr (runner, adapter) \<and> 0 < run_pollInterval runner"
proof -
  obtain serviceConfig where s: "platform_Load id plain_authority (\<lambda>f u s. f * u div s) start_env ''worker''
      ''127.0.0.1:8081'' = Inr serviceConfig" "pcf_ShutdownTimeout serviceConfig = 30000000000"
    using start_platform by blast
  obtain workerConfig where "worker_Load (wp_fraction start_parts) (wp_env start_parts)
      (pcf_ShutdownTimeout serviceConfig) = Inr workerConfig"
    using start_worker by (auto simp: start_parts_def s(2))
  moreover obtain mailCoreConfig adapter where "stalwart_LoadConfig (wp_lib start_parts) (wp_url_String start_parts)
      (wp_fraction start_parts) (wp_files start_parts) (wp_env start_parts) = Inr mailCoreConfig"
    "stalwart_New (wp_lib start_parts) (wp_client start_parts) (wp_ctxErr start_parts) (wp_now start_parts)
      (wp_random start_parts) mailCoreConfig = Inr adapter"
    using start_core [of "\<lambda>f u s. f * u div s"] by (fastforce simp: start_parts_def)
  moreover have "wp_owner start_parts \<noteq> uuid_Nil" by (simp add: start_parts_def uuid_Nil_def)
  ultimately show ?thesis using loaded_worker_starts [OF s(1)] s(1) by blast
qed

end
