(* ===== verification/Oidc_Client.thy ===== *)
theory Oidc_Client
  imports Process_Config Identity_Service
    "HOL-Library.Char_ord" "HOL-Library.List_Lexorder"
begin

text \<open>
  \<^verbatim>\<open>internal/identity/oidcclient/client.go\<close>: the client of the external identity provider.
  The packages \<^verbatim>\<open>go-oidc\<close> and \<^verbatim>\<open>oauth2\<close> it drives (discovery, the code exchange, the
  verification of the token's signature, audience and expiry) are a record of functions
  over a world \<open>'w\<close>; the client itself checks what they leave open. An error of theirs is
  known by the types found in its chain.
\<close>

section \<open>The libraries\<close>

definition maximumIssuedAtSkew :: duration where
  "maximumIssuedAtSkew = 60000000000"

definition maximumProviderResponse :: nat where
  "maximumProviderResponse = 1048576"

record library_error =
  le_context :: bool \<comment> \<open>\<^verbatim>\<open>context.Canceled\<close> or \<^verbatim>\<open>context.DeadlineExceeded\<close>\<close>
  le_network :: bool \<comment> \<open>a \<^verbatim>\<open>net.Error\<close>\<close>
  le_url :: bool \<comment> \<open>a \<^verbatim>\<open>*url.Error\<close>\<close>
  le_retrieve :: bool \<comment> \<open>an \<^verbatim>\<open>*oauth2.RetrieveError\<close>\<close>

record discoveryMetadata =
  dm_AuthorizationEndpoint :: string
  dm_TokenEndpoint :: string
  dm_JWKSURI :: string
  dm_EndSessionEndpoint :: string
  dm_ResponseTypesSupported :: "string list"
  dm_CodeChallengeMethodsSupported :: "string list"

record tokenClaims =
  tc_AuthorizedParty :: string
  tc_SessionID :: string
  tc_ACR :: string
  tc_AMR :: "string list"

record id_token =
  it_Issuer :: string
  it_Audience :: "string list"
  it_Subject :: string
  it_Nonce :: string
  it_IssuedAt :: instant
  it_Claims :: "tokenClaims option" \<comment> \<open>None where the claims do not decode\<close>

record oauth_config =
  oc_ClientID :: string
  oc_ClientSecret :: string
  oc_RedirectURL :: string
  oc_Scopes :: "string list"

record ('p, 'w) oidc_library =
  ol_NewProvider :: "go_context \<Rightarrow> string \<Rightarrow> 'w \<Rightarrow> 'p option \<times> 'w"
  ol_Metadata :: "'p \<Rightarrow> discoveryMetadata option"
  ol_AuthCodeURL :: "'p \<Rightarrow> oauth_config \<Rightarrow> string \<Rightarrow> (string \<times> string) list \<Rightarrow> string"
  ol_Exchange :: "'p \<Rightarrow> oauth_config \<Rightarrow> go_context \<Rightarrow> string \<Rightarrow> string \<Rightarrow> 'w \<Rightarrow>
    (library_error + string option) \<times> 'w" \<comment> \<open>the member \<^verbatim>\<open>id_token\<close> of the token, where it is a text\<close>
  ol_Verify :: "'p \<Rightarrow> string \<Rightarrow> string list \<Rightarrow> go_context \<Rightarrow> string \<Rightarrow> 'w \<Rightarrow> (library_error + id_token) \<times> 'w"

section \<open>Bounded responses\<close>

record 's boundedReadCloser =
  brc_body :: 's
  brc_remaining :: nat

datatype read_error = ReadOK | ReadFailed string | errProviderResponseTooLarge

type_synonym 's body_read = "nat \<Rightarrow> 's \<Rightarrow> (bytes \<times> read_error) \<times> 's"

definition bounded_Read ::
  "'s body_read \<Rightarrow> nat \<Rightarrow> 's boundedReadCloser \<Rightarrow> (bytes \<times> read_error) \<times> 's boundedReadCloser" where
  \<comment> \<open>\<^verbatim>\<open>Read\<close> into a buffer of \<open>n\<close> bytes: the bytes it delivers and its error.\<close>
  "bounded_Read rd n body =
     (if n = 0 then (([], ReadOK), body)
      else let maximumRead = (if brc_remaining body + 1 < n then brc_remaining body + 1 else n);
               ((got, err), s) = rd maximumRead (brc_body body)
           in if brc_remaining body < length got
              then ((take (brc_remaining body) got, errProviderResponseTooLarge),
                    body\<lparr>brc_body := s, brc_remaining := 0\<rparr>)
              else ((got, err), body\<lparr>brc_body := s, brc_remaining := brc_remaining body - length got\<rparr>))"

fun read_sizes :: "'s body_read \<Rightarrow> nat list \<Rightarrow> 's boundedReadCloser \<Rightarrow> (bytes \<times> read_error) \<times> 's boundedReadCloser" where
  \<comment> \<open>A client that reads into buffers of the given sizes until an error.\<close>
  "read_sizes rd [] body = (([], ReadOK), body)"
| "read_sizes rd (n # ns) body =
     (case bounded_Read rd n body of ((got, err), body2) \<Rightarrow>
        if err \<noteq> ReadOK then ((got, err), body2)
        else (case read_sizes rd ns body2 of ((more_bytes, err2), body3) \<Rightarrow> ((got @ more_bytes, err2), body3)))"

section \<open>Discovery\<close>

definition secure_endpoint :: "(nat \<Rightarrow> nat) \<Rightarrow> parse_authority \<Rightarrow> string \<Rightarrow> go_URL option" where
  \<comment> \<open>The conditions shared by the checks of \<^verbatim>\<open>validateDiscovery\<close>.\<close>
  "secure_endpoint uc authority endpoint = (case url_Parse uc authority endpoint of
     None \<Rightarrow> None
   | Some (parsed, fragment) \<Rightarrow>
       if url_Scheme parsed \<noteq> ''https'' \<or> url_Host parsed = '''' \<or> url_User parsed \<or> fragment \<noteq> '''' \<or>
          url_Opaque parsed \<noteq> '''' then None else Some parsed)"

definition validateDiscovery :: "(nat \<Rightarrow> nat) \<Rightarrow> parse_authority \<Rightarrow> discoveryMetadata \<Rightarrow> go_error option" where
  "validateDiscovery uc authority metadata =
     (if \<not> list_all (\<lambda>endpoint. secure_endpoint uc authority endpoint \<noteq> None)
         [dm_AuthorizationEndpoint metadata, dm_TokenEndpoint metadata, dm_JWKSURI metadata]
      then Some (OtherError ''oidc endpoint'')
      else (case secure_endpoint uc authority (dm_EndSessionEndpoint metadata) of
          None \<Rightarrow> Some (OtherError ''oidc end-session endpoint'')
        | Some parsed \<Rightarrow>
            if url_RawQuery parsed \<noteq> '''' then Some (OtherError ''oidc end-session endpoint'')
            else if ''code'' \<notin> set (dm_ResponseTypesSupported metadata) \<or>
               ''S256'' \<notin> set (dm_CodeChallengeMethodsSupported metadata)
            then Some (OtherError ''oidc capabilities'') else None))"

section \<open>Queries\<close>

definition QueryEscape_char :: "char \<Rightarrow> string" where
  "QueryEscape_char c =
     (if is_upper c \<or> is_lower c \<or> is_digit c \<or> c \<in> set ''-_.~'' then [c]
      else if c = CHR '' '' then ''+''
      else [CHR ''%'', upper_hex (byte_val c div 16), upper_hex (byte_val c mod 16)])"

definition QueryEscape :: "string \<Rightarrow> string" where
  "QueryEscape s = concat (map QueryEscape_char s)"

type_synonym url_Values = "(string \<times> string list) list"

definition values_Add :: "string \<Rightarrow> string \<Rightarrow> url_Values \<Rightarrow> url_Values" where
  "values_Add key v m = (case map_of m key of
     None \<Rightarrow> m @ [(key, [v])] | Some vs \<Rightarrow> map (\<lambda>(k, ws). if k = key then (k, ws @ [v]) else (k, ws)) m)"

definition values_Set :: "string \<Rightarrow> string \<Rightarrow> url_Values \<Rightarrow> url_Values" where
  "values_Set key v m = filter (\<lambda>p. fst p \<noteq> key) m @ [(key, [v])]"

definition query_member :: "string \<Rightarrow> url_Values \<Rightarrow> url_Values" where
  "query_member part m =
     (if part = '''' \<or> CHR '';'' \<in> set part then m
      else (case (unescape True (takeWhile (\<lambda>c. c \<noteq> CHR ''='') part),
                  unescape True (drop 1 (dropWhile (\<lambda>c. c \<noteq> CHR ''='') part))) of
          (Some key, Some v) \<Rightarrow> values_Add key v m
        | _ \<Rightarrow> m))"

definition url_Query :: "string \<Rightarrow> url_Values" where
  \<comment> \<open>\<^verbatim>\<open>parsed.Query()\<close>; malformed members are dropped.\<close>
  "url_Query raw = fold query_member (split_on (CHR ''&'') raw) []"

definition values_Encode :: "url_Values \<Rightarrow> string" where
  "values_Encode m = join_with (CHR ''&'') (concat (map (\<lambda>(key, vs).
     map (\<lambda>v. QueryEscape key @ ''='' @ QueryEscape v) vs) (sort_key fst m)))"

definition buildProviderLogoutURL ::
  "(nat \<Rightarrow> nat) \<Rightarrow> parse_authority \<Rightarrow> (go_URL \<Rightarrow> string \<Rightarrow> string) \<Rightarrow> string \<Rightarrow> string \<Rightarrow> string \<Rightarrow> string result" where
  \<comment> \<open>\<open>url_String\<close> is the text of a URL with its fragment.\<close>
  "buildProviderLogoutURL uc authority url_String endpoint clientID postLogoutRedirectURI =
     (let fail = Inl (OtherError ''oidc logout'') in
      if clientID = '''' \<or> postLogoutRedirectURI = '''' then fail
      else (case url_Parse uc authority endpoint of
          None \<Rightarrow> fail
        | Some (parsed, fragment) \<Rightarrow>
            (case secure_endpoint uc authority postLogoutRedirectURI of
               None \<Rightarrow> fail
             | Some postLogoutRedirect \<Rightarrow>
                 if url_Path postLogoutRedirect \<noteq> ''/'' \<or> url_RawQuery postLogoutRedirect \<noteq> '''' then fail
                 else Inr (url_String (parsed\<lparr>url_RawQuery :=
                   values_Encode (values_Set ''post_logout_redirect_uri'' postLogoutRedirectURI
                     (values_Set ''client_id'' clientID (url_Query (url_RawQuery parsed))))\<rparr>) fragment))))"

section \<open>The client\<close>

record ('p, 'w) oidc_Client =
  oc_library :: "('p, 'w) oidc_library"
  oc_provider :: 'p
  oc_oauthConfig :: oauth_config
  oc_algorithms :: "string list"
  oc_issuer :: string
  oc_clientID :: string
  oc_providerLogoutURL :: string
  oc_now :: "'w \<Rightarrow> instant \<times> 'w"

definition newWithHTTPClient ::
  "(nat \<Rightarrow> nat) \<Rightarrow> parse_authority \<Rightarrow> (go_URL \<Rightarrow> string \<Rightarrow> string) \<Rightarrow> ('p, 'w) oidc_library \<Rightarrow> ('w \<Rightarrow> instant \<times> 'w) \<Rightarrow>
   go_context \<Rightarrow> identity_Config \<Rightarrow> 'w \<Rightarrow> ('p, 'w) oidc_Client result \<times> 'w" where
  \<comment> \<open>With an HTTP client at hand; its timeout and its refusal of redirects are the library's business.\<close>
  "newWithHTTPClient uc authority url_String library now ctx config w =
     (if icf_Mode config \<noteq> ModeOIDC \<or> icf_ProviderTimeout config \<le> 0 then (Inl (OtherError ''oidc adapter''), w)
      else case ol_NewProvider library ctx (icf_Issuer config) w of
        (None, w) \<Rightarrow> (Inl (OtherError ''oidc discovery''), w)
      | (Some provider, w) \<Rightarrow>
          ((case ol_Metadata library provider of
             None \<Rightarrow> Inl (OtherError ''oidc discovery'')
           | Some metadata \<Rightarrow>
               (case validateDiscovery uc authority metadata of
                  Some e \<Rightarrow> Inl e
                | None \<Rightarrow>
                    and_then (buildProviderLogoutURL uc authority url_String (dm_EndSessionEndpoint metadata)
                        (icf_ClientID config) (icf_PostLogoutRedirectURI config)) (\<lambda>providerLogoutURL.
                      Inr \<lparr>oc_library = library, oc_provider = provider,
                        oc_oauthConfig = \<lparr>oc_ClientID = icf_ClientID config, oc_ClientSecret = icf_ClientSecret config,
                          oc_RedirectURL = icf_RedirectURI config, oc_Scopes = icf_Scopes config\<rparr>,
                        oc_algorithms = icf_SigningAlgorithms config, oc_issuer = icf_Issuer config,
                        oc_clientID = icf_ClientID config, oc_providerLogoutURL = providerLogoutURL,
                        oc_now = now\<rparr>))), w))"

definition client_AuthorizationURL :: "('p, 'w) oidc_Client \<Rightarrow> string \<Rightarrow> string \<Rightarrow> string \<Rightarrow> string result" where
  "client_AuthorizationURL client state nonce challenge =
     (if state = '''' \<or> nonce = '''' \<or> challenge = '''' then Inl (identity_NewError identity_InvalidRequest)
      else Inr (ol_AuthCodeURL (oc_library client) (oc_provider client) (oc_oauthConfig client) state
        [(''nonce'', nonce), (''code_challenge'', challenge), (''code_challenge_method'', ''S256'')]))"

definition isTransportError :: "library_error \<Rightarrow> bool" where
  "isTransportError err \<longleftrightarrow> le_context err \<or> le_network err \<or> le_url err"

definition exchangeError :: "library_error \<Rightarrow> go_error" where
  "exchangeError err =
     (if isTransportError err then identity_NewError identity_PersistenceUnavailable
      else if le_retrieve err then identity_NewError identity_AuthFlowInvalid
      else identity_NewError identity_PersistenceUnavailable)"

definition verificationError :: "library_error \<Rightarrow> go_error" where
  "verificationError err =
     (if isTransportError err then identity_NewError identity_PersistenceUnavailable
      else identity_NewError identity_AuthFlowInvalid)"

definition accept_token :: "('p, 'w) oidc_Client \<Rightarrow> id_token \<Rightarrow> tokenClaims \<Rightarrow> instant \<Rightarrow> OIDCIdentity result" where
  \<comment> \<open>The last checks of \<^verbatim>\<open>Exchange\<close>, at the time \<open>now\<close>.\<close>
  "accept_token client idToken claims now =
     (if now + maximumIssuedAtSkew < it_IssuedAt idToken then Inl (identity_NewError identity_AuthFlowInvalid)
      else if tc_AuthorizedParty claims \<noteq> '''' \<and> tc_AuthorizedParty claims \<noteq> oc_clientID client
      then Inl (identity_NewError identity_AuthFlowInvalid)
      else if 1 < length (it_Audience idToken) \<and> tc_AuthorizedParty claims \<noteq> oc_clientID client
      then Inl (identity_NewError identity_AuthFlowInvalid)
      else Inr \<lparr>oid_Issuer = it_Issuer idToken, oid_Subject = it_Subject idToken, oid_SessionID = tc_SessionID claims,
        oid_Nonce = it_Nonce idToken, oid_ACR = tc_ACR claims, oid_AMR = tc_AMR claims\<rparr>)"

definition client_Exchange ::
  "('p, 'w) oidc_Client \<Rightarrow> go_context \<Rightarrow> string \<Rightarrow> string \<Rightarrow> 'w \<Rightarrow> OIDCIdentity result \<times> 'w" where
  "client_Exchange client ctx code verifier w =
     (let library = oc_library client; invalid = Inl (identity_NewError identity_AuthFlowInvalid) in
      if code = '''' then (invalid, w)
      else case PKCEChallenge verifier of
        Inl _ \<Rightarrow> (invalid, w)
      | Inr _ \<Rightarrow>
          (case ol_Exchange library (oc_provider client) (oc_oauthConfig client) ctx code verifier w of
             (Inl err, w) \<Rightarrow> (Inl (exchangeError err), w)
           | (Inr raw, w) \<Rightarrow>
               if raw = None \<or> raw = Some '''' then (invalid, w)
               else (case ol_Verify library (oc_provider client) (oc_clientID client) (oc_algorithms client) ctx
                       (the raw) w of
                   (Inl err, w) \<Rightarrow> (Inl (verificationError err), w)
                 | (Inr idToken, w) \<Rightarrow>
                     (case it_Claims idToken of
                        None \<Rightarrow> (invalid, w)
                      | Some claims \<Rightarrow>
                          if it_Issuer idToken \<noteq> oc_issuer client \<or> it_Subject idToken = '''' \<or>
                             it_Nonce idToken = '''' \<or> IsZero (it_IssuedAt idToken) then (invalid, w)
                          else from_world (oc_now client w)
                            (\<lambda>now w. (accept_token client idToken claims now, w))))))"

definition client_provider :: "('p, 'w) oidc_Client \<Rightarrow> 'w OIDCProvider" where
  "client_provider client = \<lparr>AuthorizationURL = client_AuthorizationURL client, Exchange = client_Exchange client,
     ProviderLogoutURL = oc_providerLogoutURL client\<rparr>"

end
