(* ===== verification/Api_Build.thy ===== *)
theory Api_Build
  imports Oidc_Client Identity_Http Identity_System
begin

text \<open>
  How the API process assembles its authentication (\<^verbatim>\<open>internal/identity/bootstrap\<close>): settings,
  provider client, secrets, repository, identity service, and on it the endpoints and the
  boundary, which share the service and the trusted origin.
\<close>

section \<open>Assembly\<close>

record 'w apiRoutes =
  ar_authentication :: "'w auth_Handler"
  ar_authorization :: "'w Boundary"

record ('p, 'w) api_parts =
  ap_uc :: "nat \<Rightarrow> nat"
  ap_authority :: parse_authority
  ap_fraction :: "nat \<Rightarrow> nat \<Rightarrow> nat \<Rightarrow> nat"
  ap_env :: getenv
  ap_url_String :: "go_URL \<Rightarrow> string \<Rightarrow> string"
  ap_library :: "('p, 'w) oidc_library"
  ap_now :: "'w \<Rightarrow> instant \<times> 'w"
  ap_random :: "'w reader"
  ap_newID :: "'w \<Rightarrow> uuid \<times> 'w"
  ap_repository :: "IdentityRepository \<Rightarrow> 'w identity_Repository"

definition assemble ::
  "('p, 'w) api_parts \<Rightarrow> identity_Config \<Rightarrow> ('p, 'w) oidc_Client \<Rightarrow> 'w apiRoutes result" where
  \<comment> \<open>\<^verbatim>\<open>Routes\<close> after the provider client is made.\<close>
  "assemble parts config provider =
     and_then (NewSecretHasher (icf_SecretPepper config)) (\<lambda>hasher.
     and_then (NewPKCECipher (icf_FlowEncryptionKeyID config)
         [(icf_FlowEncryptionKeyID config, icf_FlowEncryptionKey config)] (ap_random parts)) (\<lambda>pkceCipher.
     and_then (NewIdentityRepository True DefaultSessionIdleTimeout DefaultSessionTouchInterval) (\<lambda>repository.
     and_then (identity_NewService (Some (ap_repository parts repository)) (Some (client_provider provider)) (Some hasher)
         (Some pkceCipher) \<lparr>mfa_AllowedACR = icf_AdminAllowedACR config, mfa_RequiredAMR = icf_AdminRequiredAMR config\<rparr>
         (ap_now parts) (ap_random parts) (ap_newID parts)) (\<lambda>authService.
     and_then (handler_New (ap_uc parts) (ap_authority parts) (Some (identity_authService (ap_uc parts) authService))
         (icf_TrustedOrigin config)) (\<lambda>authentication.
     and_then (boundary_New (ap_uc parts) (ap_authority parts) (Some (service_ResolveSession authService))
         (icf_TrustedOrigin config)) (\<lambda>authorization.
     Inr \<lparr>ar_authentication = authentication, ar_authorization = authorization\<rparr>))))))"

definition bootstrap_Routes :: "('p, 'w) api_parts \<Rightarrow> go_context \<Rightarrow> 'w \<Rightarrow> 'w apiRoutes option result \<times> 'w" where
  "bootstrap_Routes parts ctx w =
     (case identity_Load (ap_uc parts) (ap_authority parts) (ap_fraction parts) (ap_env parts) of
        Inl e \<Rightarrow> (Inl e, w)
      | Inr config \<Rightarrow>
          if icf_Mode config = ModeDisabled then (Inr None, w)
          else on_result (newWithHTTPClient (ap_uc parts) (ap_authority parts) (ap_url_String parts) (ap_library parts)
              (ap_now parts) ctx config w) (\<lambda>e w. (Inl e, w))
            (\<lambda>provider w. (and_then (assemble parts config provider) (\<lambda>routes. Inr (Some routes)), w)))"

section \<open>What loaded settings satisfy\<close>

definition secure_config :: "identity_Config \<Rightarrow> bool" where
  "secure_config config \<longleftrightarrow> icf_Mode config = ModeOIDC \<and>
     32 \<le> length (icf_SecretPepper config) \<and> length (icf_FlowEncryptionKey config) = 32 \<and>
     icf_FlowEncryptionKeyID config \<noteq> '''' \<and> TrimSpace (icf_FlowEncryptionKeyID config) = icf_FlowEncryptionKeyID config \<and>
     (icf_AdminAllowedACR config \<noteq> [] \<or> icf_AdminRequiredAMR config \<noteq> []) \<and>
     ''openid'' \<in> set (icf_Scopes config) \<and> icf_SigningAlgorithms config \<noteq> [] \<and>
     set (icf_SigningAlgorithms config) \<subseteq> {''RS256'', ''PS256'', ''ES256''} \<and>
     0 < icf_ProviderTimeout config \<and> icf_ProviderTimeout config \<le> 30000000000"

lemma requiredTrimmed_InrD: "requiredTrimmed env name = Inr v \<Longrightarrow> v \<noteq> '''' \<and> TrimSpace v = v"
  by (auto simp: requiredTrimmed_def Let_def split: if_splits)

lemma requiredBase64Secret_InrD: "requiredBase64Secret env name n = Inr v \<Longrightarrow> n \<le> length v"
  by (auto simp: requiredBase64Secret_def and_then_Inr split: option.splits if_splits)

lemma identity_Load_oidc:
  assumes "identity_Load uc authority fraction env = Inr config" "icf_Mode config \<noteq> ModeDisabled"
  shows "secure_config config"
    "load_urls uc authority env = Inr (icf_Issuer config, icf_RedirectURI config, icf_PostLogoutRedirectURI config,
       icf_TrustedOrigin config)"
proof -
  have oidc: "load_oidc uc authority fraction env = Inr config"
    using assms by (auto simp: identity_Load_def Let_def disabled_config_def split: if_split_asm)
  have timeout: "0 < d \<and> d \<le> 30000000000"
    if "identity_durationFromEnvironment fraction env name defaultProviderTimeout = Inr d" for name d
    using that by (auto simp: identity_durationFromEnvironment_def defaultProviderTimeout_def dest!: bounded_duration_InrD)
  let ?scopes = "fields_or (uniqueFields (env ''MAIL_SUITE_OIDC_SCOPES'')) [''openid'', ''profile'', ''email'']"
  let ?algorithms = "fields_or (uniqueFields (env ''MAIL_SUITE_OIDC_SIGNING_ALGORITHMS'')) [''RS256'']"
  let ?acr = "uniqueFields (env ''MAIL_SUITE_OIDC_ADMIN_ALLOWED_ACR'')"
  let ?amr = "uniqueFields (env ''MAIL_SUITE_OIDC_ADMIN_REQUIRED_AMR'')"
  obtain urls clientID secret pepper key keyID timeout where
    loaded: "load_urls uc authority env = Inr urls"
      "requiredBase64Secret env ''MAIL_SUITE_AUTH_SECRET_PEPPER'' minimumSecretBytes = Inr pepper" "length key = 32"
      "requiredTrimmed env ''MAIL_SUITE_AUTH_FLOW_ENCRYPTION_KEY_ID'' = Inr keyID"
      "identity_durationFromEnvironment fraction env ''MAIL_SUITE_OIDC_PROVIDER_TIMEOUT'' defaultProviderTimeout = Inr timeout"
    and checks: "''openid'' \<in> set ?scopes" "list_all (\<lambda>a. a \<in> {''RS256'', ''PS256'', ''ES256''}) ?algorithms"
      "\<not> (?acr = [] \<and> ?amr = [])"
    and config: "(case urls of (issuer, redirectURI, postLogoutRedirectURI, trustedOrigin) \<Rightarrow>
      Inr \<lparr>icf_Mode = ModeOIDC, icf_Issuer = issuer, icf_ClientID = clientID, icf_ClientSecret = secret,
       icf_RedirectURI = redirectURI, icf_PostLogoutRedirectURI = postLogoutRedirectURI,
       icf_TrustedOrigin = trustedOrigin, icf_Scopes = ?scopes, icf_SigningAlgorithms = ?algorithms,
       icf_AdminAllowedACR = ?acr, icf_AdminRequiredAMR = ?amr, icf_SecretPepper = pepper, icf_FlowEncryptionKey = key,
       icf_FlowEncryptionKeyID = keyID, icf_ProviderTimeout = timeout\<rparr>) = (Inr config :: identity_Config result)"
  proof -
    show thesis
      using oidc unfolding load_oidc_def Let_def and_then_Inr guard_Inr not_not
      by (elim exE conjE) (rule that, assumption+)
  qed
  obtain issuer redirect logout origin where urls: "urls = (issuer, redirect, logout, origin)" by (cases urls)
  note config = config [unfolded urls prod.case sum.inject]
  have fields: "icf_Mode config = ModeOIDC" "icf_SecretPepper config = pepper" "icf_FlowEncryptionKey config = key"
    "icf_FlowEncryptionKeyID config = keyID" "icf_AdminAllowedACR config = ?acr" "icf_AdminRequiredAMR config = ?amr"
    "icf_Scopes config = ?scopes" "icf_SigningAlgorithms config = ?algorithms" "icf_ProviderTimeout config = timeout"
    "urls = (icf_Issuer config, icf_RedirectURI config, icf_PostLogoutRedirectURI config, icf_TrustedOrigin config)"
    unfolding config [symmetric] urls by (simp_all only: identity_Config.simps)
  have "?algorithms \<noteq> []" by (simp add: fields_or_def)
  then show "secure_config config"
    using checks requiredTrimmed_InrD [OF loaded(4)] requiredBase64Secret_InrD [OF loaded(2)] loaded(3) timeout [OF loaded(5)]
    unfolding secure_config_def fields minimumSecretBytes_def list_all_iff by blast
  show "load_urls uc authority env = Inr (icf_Issuer config, icf_RedirectURI config, icf_PostLogoutRedirectURI config,
      icf_TrustedOrigin config)" using loaded(1) by (simp add: fields(10))
qed

section \<open>The trusted origin\<close>

lemma url_Scheme_kept: "absolute_URL scheme user host rest q = Some u \<Longrightarrow> url_Scheme u = scheme"
  "parse_reference authority scheme rest q = Some u \<Longrightarrow> url_Scheme u = scheme"
  by (auto simp: parse_reference_def absolute_URL_def URL.defs split: if_splits option.splits)

lemma url_Parse_request:
  assumes "url_Parse uc authority raw = Some (u, fragment)" "url_Scheme u \<noteq> ''''" "CHR ''#'' \<notin> set raw"
  shows "url_ParseRequestURI uc authority raw = Some u"
proof -
  have whole: "takeWhile (\<lambda>c. c \<noteq> CHR ''#'') raw = raw" using assms(3) by (auto simp: takeWhile_eq_all_conv)
  obtain scheme rest where g: "getScheme raw [] raw = Some (scheme, rest)" and plain: "raw \<noteq> ''*''"
      "\<not> list_ex (\<lambda>c. byte_val c < 32 \<or> byte_val c = 127) raw"
    and u: "parse_any_reference authority (ToLower uc scheme) (fst (cut_query rest)) (snd (cut_query rest)) = Some u"
    using assms(1,2) by (auto simp: url_Parse_def Let_def whole split: if_splits option.splits)
  have lower: "ToLower uc scheme \<noteq> ''''"
    using u assms(2) by (auto simp: parse_any_reference_def dest: url_Scheme_kept split: if_splits option.splits)
  then have "raw \<noteq> ''''" using g by (auto simp: ToLower_ascii is_ascii_def)
  with lower show ?thesis using g plain u
    by (simp add: url_ParseRequestURI_def parse_any_reference_def)
qed

text \<open>The law of the authority parser: cutting off a fragment first, it never invents a number sign.\<close>

definition no_new_hash :: "parse_authority \<Rightarrow> bool" where
  "no_new_hash authority \<longleftrightarrow> (\<forall>scheme a user host. authority scheme a = Some (user, host) \<longrightarrow>
     CHR ''#'' \<notin> set a \<longrightarrow> CHR ''#'' \<notin> set host)"

lemma cut_query_subset: "set (fst (cut_query s)) \<subseteq> set s"
  by (auto simp: cut_query_def dest: set_takeWhileD)

lemma getScheme_subset: "getScheme raw seen s = Some (scheme, rest) \<Longrightarrow> set rest \<subseteq> set raw \<union> set s"
  by (induction raw seen s rule: getScheme.induct) (auto split: if_splits)

lemma url_host_clean:
  assumes "url_Parse uc authority raw = Some (u, fragment)" "no_new_hash authority"
  shows "CHR ''#'' \<notin> set (url_Host u)"
proof -
  let ?s = "takeWhile (\<lambda>c. c \<noteq> CHR ''#'') raw"
  have clean: "CHR ''#'' \<notin> set ?s" by (auto dest: set_takeWhileD)
  have host: "CHR ''#'' \<notin> set (url_Host u)" if "CHR ''#'' \<notin> set rest"
    "parse_any_reference authority scheme rest q = Some u" for scheme rest q
  proof -
    have a: "CHR ''#'' \<notin> set (takeWhile (\<lambda>c. c \<noteq> CHR ''/'') (drop 2 rest))"
      using that(1) by (auto dest: set_takeWhileD in_set_dropD)
    show ?thesis using that(2) a assms(2)
      by (auto simp: parse_any_reference_def parse_reference_def absolute_URL_def URL.defs no_new_hash_def
          split: if_splits option.splits)
  qed
  show ?thesis using assms(1) clean getScheme_subset [of ?s "[]" ?s] cut_query_subset
    by (auto simp: url_Parse_def Let_def split: if_splits option.splits dest!: host [rotated]) blast
qed

lemma loaded_redirect:
  assumes "load_urls uc authority env = Inr (issuer, redirect, logout, origin)"
  obtains u fragment where "url_Parse uc authority redirect = Some (u, fragment)" "origin = ''https://'' @ url_Host u"
proof -
  have redirect: "requiredHTTPSURL uc authority env ''MAIL_SUITE_OIDC_REDIRECT_URI'' False = Inr redirect"
    and same: "fst (url_origin uc authority redirect) = origin"
    using assms by (auto simp: load_urls_def and_then_Inr case_prod_unfold split: if_splits)
  obtain u fragment where u: "url_Parse uc authority redirect = Some (u, fragment)" "url_Scheme u = ''https''"
    using redirect by (auto simp: requiredHTTPSURL_def and_then_Inr split: option.splits if_splits)
  with same that show thesis by (simp add: url_origin_def)
qed

lemma loaded_origin:
  assumes "load_urls uc authority env = Inr (issuer, redirect, logout, origin)" "no_new_hash authority"
  obtains parsed where "HasPrefix origin ''https://''" "url_ParseRequestURI uc authority origin = Some parsed"
    "url_Scheme parsed = ''https''" "url_Host parsed \<noteq> ''''" "\<not> url_User parsed" "url_Path parsed = ''''"
    "url_RawQuery parsed = ''''"
proof -
  have loaded: "requiredHTTPSURL uc authority env ''MAIL_SUITE_AUTH_TRUSTED_ORIGIN'' True = Inr origin"
    using assms(1) by (auto simp: load_urls_def and_then_Inr case_prod_unfold split: if_splits)
  obtain u fragment where u: "url_Parse uc authority redirect = Some (u, fragment)" "origin = ''https://'' @ url_Host u"
    using loaded_redirect [OF assms(1)] .
  have clean: "CHR ''#'' \<notin> set origin" using url_host_clean [OF u(1) assms(2)] u(2) by simp
  obtain o' where o': "url_Parse uc authority origin = Some (o', '''')" "url_Scheme o' = ''https''" "url_Host o' \<noteq> ''''"
    "\<not> url_User o'" "url_Path o' = ''''" "url_RawQuery o' = ''''"
    using loaded by (auto simp: requiredHTTPSURL_def and_then_Inr split: option.splits if_splits)
  from that [of o'] o' url_Parse_request [OF o'(1) _ clean] u(2) show thesis by (simp add: HasPrefix_iff)
qed

section \<open>Properties\<close>

text \<open>(C29) An API process whose settings load and whose provider was discovered starts: every later step of the
  assembly accepts what the settings contain; and then it never runs weaker than intended: at least 32 bytes of
  pepper and a 256-bit key for the login flows, a condition on the administrators' authentication, only
  asymmetric signature algorithms, and one HTTPS origin shared by the endpoints and the boundary.\<close>

theorem loaded_api_starts:
  assumes "identity_Load (ap_uc parts) (ap_authority parts) (ap_fraction parts) (ap_env parts) = Inr config"
    and "icf_Mode config \<noteq> ModeDisabled" "no_new_hash (ap_authority parts)"
    and "newWithHTTPClient (ap_uc parts) (ap_authority parts) (ap_url_String parts) (ap_library parts) (ap_now parts) ctx
      config w = (Inr provider, w')"
    and "oc_providerLogoutURL provider \<noteq> ''''"
  shows "\<exists>routes service. bootstrap_Routes parts ctx w = (Inr (Some routes), w') \<and>
    ah_service (ar_authentication routes) = identity_authService (ap_uc parts) service \<and>
    bd_service (ar_authorization routes) = service_ResolveSession service \<and>
    ah_trustedOrigin (ar_authentication routes) = bd_trustedOrigin (ar_authorization routes) \<and>
    HasPrefix (bd_trustedOrigin (ar_authorization routes)) ''https://'' \<and>
    32 \<le> length (sh_pepper (is_hasher service)) \<and>
    (\<forall>key \<in> set (pc_keys (is_pkce service)). length (snd key) = 32) \<and>
    (mfa_AllowedACR (is_mfaPolicy service) \<noteq> [] \<or> mfa_RequiredAMR (is_mfaPolicy service) \<noteq> []) \<and>
    set (icf_SigningAlgorithms config) \<subseteq> {''RS256'', ''PS256'', ''ES256''}"
proof -
  have secure: "secure_config config"
    and urls: "load_urls (ap_uc parts) (ap_authority parts) (ap_env parts) = Inr (icf_Issuer config, icf_RedirectURI config,
      icf_PostLogoutRedirectURI config, icf_TrustedOrigin config)"
    using identity_Load_oidc [OF assms(1,2)] .
  let ?hasher = "\<lparr>sh_pepper = icf_SecretPepper config\<rparr>"
  let ?pkce = "\<lparr>pc_currentKeyID = icf_FlowEncryptionKeyID config,
    pc_keys = [(icf_FlowEncryptionKeyID config, icf_FlowEncryptionKey config)], pc_random = ap_random parts\<rparr>"
  let ?repository = "\<lparr>ir_idleTimeout = DefaultSessionIdleTimeout, ir_touchInterval = DefaultSessionTouchInterval\<rparr>"
  let ?policy = "\<lparr>mfa_AllowedACR = icf_AdminAllowedACR config, mfa_RequiredAMR = icf_AdminRequiredAMR config\<rparr>"
  let ?service = "\<lparr>is_repository = ap_repository parts ?repository, is_provider = client_provider provider,
    is_providerLogoutURL = oc_providerLogoutURL provider, is_hasher = ?hasher, is_pkce = ?pkce, is_mfaPolicy = ?policy,
    is_now = ap_now parts, is_newToken = NewOpaqueToken (ap_random parts), is_newID = ap_newID parts\<rparr>"
  have parts: "NewSecretHasher (icf_SecretPepper config) = Inr ?hasher"
    "NewPKCECipher (icf_FlowEncryptionKeyID config) [(icf_FlowEncryptionKeyID config, icf_FlowEncryptionKey config)]
      (ap_random parts) = Inr ?pkce"
    "NewIdentityRepository True DefaultSessionIdleTimeout DefaultSessionTouchInterval = Inr ?repository"
    "identity_NewService (Some (ap_repository parts ?repository)) (Some (client_provider provider)) (Some ?hasher)
      (Some ?pkce) ?policy (ap_now parts) (ap_random parts) (ap_newID parts) = Inr ?service"
    using secure assms(5)
    by (auto simp: secure_config_def NewSecretHasher_def minimumPepperBytes_def NewPKCECipher_def pkce_key_ok_def
        NewIdentityRepository_def time_Minute_def DefaultSessionIdleTimeout_def DefaultSessionTouchInterval_def identity_NewService_def
        client_provider_def)
  obtain parsed where prefix: "HasPrefix (icf_TrustedOrigin config) ''https://''"
    and origin: "url_ParseRequestURI (ap_uc parts) (ap_authority parts) (icf_TrustedOrigin config) = Some parsed"
    "url_Scheme parsed = ''https''" "url_Host parsed \<noteq> ''''" "\<not> url_User parsed" "url_Path parsed = ''''"
    "url_RawQuery parsed = ''''" using loaded_origin [OF urls assms(3)] .
  have made: "assemble parts config provider = Inr \<lparr>ar_authentication = \<lparr>ah_service = identity_authService (ap_uc parts) ?service,
      ah_trustedOrigin = icf_TrustedOrigin config\<rparr>, ar_authorization = \<lparr>bd_service = service_ResolveSession ?service,
      bd_trustedOrigin = icf_TrustedOrigin config\<rparr>\<rparr>"
    using origin by (simp add: assemble_def parts handler_New_def boundary_New_def)
  have "bootstrap_Routes parts ctx w = (Inr (Some \<lparr>ar_authentication = \<lparr>ah_service = identity_authService (ap_uc parts) ?service,
      ah_trustedOrigin = icf_TrustedOrigin config\<rparr>, ar_authorization = \<lparr>bd_service = service_ResolveSession ?service,
      bd_trustedOrigin = icf_TrustedOrigin config\<rparr>\<rparr>), w')"
    using assms(1,2,4) made by (simp add: bootstrap_Routes_def)
  with secure prefix show ?thesis by (intro exI [of _ ?service] exI conjI) (auto simp: secure_config_def)
qed

end
