(* ===== verification/Oidc_Theorems.thy ===== *)
theory Oidc_Theorems
  imports Api_Build
begin

text \<open>
  The provider client: no more of a provider's answer is read than its limit, and an
  identity it returns has been verified and passed the product's own checks.
\<close>

section \<open>Bounded responses\<close>

text \<open>The contract of a response body: a read delivers some of the bytes that are left, in order, and no more
  than the buffer holds.\<close>

definition in_order :: "bytes body_read \<Rightarrow> bool" where
  "in_order rd \<longleftrightarrow> (\<forall>n s. \<exists>k e. k \<le> n \<and> e \<noteq> errProviderResponseTooLarge \<and> rd n s = ((take k s, e), drop k s))"

lemma bounded_Read_cases:
  assumes "in_order rd" "bounded_Read rd n body = ((got, err), body2)"
  shows "got @ brc_body body2 = brc_body body \<and> length got + brc_remaining body2 = brc_remaining body \<and>
      err \<noteq> errProviderResponseTooLarge \<or>
    got = take (brc_remaining body) (brc_body body) \<and> brc_remaining body < length (brc_body body) \<and>
      err = errProviderResponseTooLarge"
proof -
  let ?n = "if brc_remaining body + 1 < n then brc_remaining body + 1 else n"
  obtain k e where k: "k \<le> ?n" "e \<noteq> errProviderResponseTooLarge"
    "rd ?n (brc_body body) = ((take k (brc_body body), e), drop k (brc_body body))"
    using assms(1) unfolding in_order_def by meson
  show ?thesis using assms(2) k
    by (auto simp: bounded_Read_def Let_def min_def split: if_splits)
qed

lemma read_sizes_cases:
  assumes "in_order rd"
  shows "read_sizes rd ns body = ((got, err), body2) \<Longrightarrow>
    got @ brc_body body2 = brc_body body \<and> length got + brc_remaining body2 = brc_remaining body \<and>
      err \<noteq> errProviderResponseTooLarge \<or>
    got = take (brc_remaining body) (brc_body body) \<and> brc_remaining body < length (brc_body body) \<and>
      err = errProviderResponseTooLarge"
proof (induction ns arbitrary: body got err body2)
  case (Cons n ns)
  obtain g e b where first: "bounded_Read rd n body = ((g, e), b)" by (metis prod.exhaust)
  obtain g2 e2 b2 where rest: "read_sizes rd ns b = ((g2, e2), b2)" by (metis prod.exhaust)
  show ?case
  proof (cases "e = ReadOK")
    case True
    then have split: "brc_body body = g @ brc_body b" "brc_remaining body = length g + brc_remaining b"
      using bounded_Read_cases [OF assms first] by auto
    show ?thesis using Cons.prems True Cons.IH [OF rest] rest first by (auto simp: split)
  next
    case False
    then show ?thesis using Cons.prems first bounded_Read_cases [OF assms first] by simp
  qed
qed simp

text \<open>However a library reads a provider's response, with whatever buffers and whatever errors of the
  connection, it gets at most one mebibyte, always the beginning of the response; only a response that is longer
  is refused as too large, and from any other not a byte is lost or repeated.\<close>

lemma provider_response_bounded:
  assumes "in_order rd"
    and "read_sizes rd ns \<lparr>brc_body = response, brc_remaining = maximumProviderResponse\<rparr> = ((got, err), body)"
  shows "length got \<le> 1048576 \<and> got = take (length got) response \<and>
    (err = errProviderResponseTooLarge \<longrightarrow> 1048576 < length response) \<and>
    (err \<noteq> errProviderResponseTooLarge \<longrightarrow> got @ brc_body body = response)"
  using read_sizes_cases [OF assms] by (auto simp: maximumProviderResponse_def)

definition whole_read :: "bytes body_read" where
  "whole_read n s = ((take n s, if length s \<le> n then ReadFailed ''EOF'' else ReadOK), drop n s)"

lemma provider_response_bounded_witness:
  "in_order whole_read \<and> read_sizes whole_read [2, 4] \<lparr>brc_body = ''token'', brc_remaining = maximumProviderResponse\<rparr> =
     ((''token'', ReadFailed ''EOF''), \<lparr>brc_body = '''', brc_remaining = maximumProviderResponse - 5\<rparr>) \<and>
   length ''token'' \<le> (1048576 :: nat)"
proof -
  have order: "in_order whole_read" unfolding in_order_def whole_read_def by force
  have read: "read_sizes whole_read [2, 4] \<lparr>brc_body = ''token'', brc_remaining = maximumProviderResponse\<rparr> =
     ((''token'', ReadFailed ''EOF''), \<lparr>brc_body = '''', brc_remaining = maximumProviderResponse - 5\<rparr>)"
    by (simp add: bounded_Read_def whole_read_def maximumProviderResponse_def)
  show ?thesis using provider_response_bounded [OF order read] order read by blast
qed

section \<open>Identities\<close>

text \<open>(C30) An identity the client returns was verified: the provider exchanged the code for an ID token with the flow's
  verifier, the library verified that token for this client and the allowed algorithms, and the token's issuer is
  the configured one, its subject and nonce are present, it was not issued later than a minute from now, and it is
  meant for this client alone or names it as the authorised party; the identity is the token's. Every failure is
  one of two stable codes, and which one is exact: the provider counts as unavailable when the exchange or the
  fetch of the verification keys failed by the context or the network, or the exchange failed in a way the provider
  did not answer itself; everything else is an invalid login, so that a failing network is never called one.\<close>

theorem exchanged_identity_verified:
  assumes "client_Exchange client ctx code verifier w = (result, w')"
  shows "(case result of
     Inr external \<Rightarrow> (\<exists>raw token claims w1 w2 now.
       code \<noteq> '''' \<and> validPKCEVerifier verifier \<and>
       ol_Exchange (oc_library client) (oc_provider client) (oc_oauthConfig client) ctx code verifier w =
         (Inr (Some raw), w1) \<and>
       ol_Verify (oc_library client) (oc_provider client) (oc_clientID client) (oc_algorithms client) ctx raw w1 =
         (Inr token, w2) \<and> oc_now client w2 = (now, w') \<and> it_Claims token = Some claims \<and>
       it_Issuer token = oc_issuer client \<and> it_Subject token \<noteq> '''' \<and> it_Nonce token \<noteq> '''' \<and>
       it_IssuedAt token \<le> now + 60000000000 \<and>
       (length (it_Audience token) \<le> 1 \<and> tc_AuthorizedParty claims = '''' \<or>
        tc_AuthorizedParty claims = oc_clientID client) \<and>
       oid_Issuer external = it_Issuer token \<and> oid_Subject external = it_Subject token \<and>
       oid_Nonce external = it_Nonce token \<and> oid_ACR external = tc_ACR claims \<and> oid_AMR external = tc_AMR claims)
   | Inl err \<Rightarrow> err = identity_NewError
       (if code \<noteq> '''' \<and> validPKCEVerifier verifier \<and>
          ((\<exists>e w1. ol_Exchange (oc_library client) (oc_provider client) (oc_oauthConfig client) ctx code verifier w =
              (Inl e, w1) \<and> (le_context e \<or> le_network e \<or> le_url e \<or> \<not> le_retrieve e)) \<or>
           (\<exists>raw w1 e w2. raw \<noteq> '''' \<and>
              ol_Exchange (oc_library client) (oc_provider client) (oc_oauthConfig client) ctx code verifier w =
                (Inr (Some raw), w1) \<and>
              ol_Verify (oc_library client) (oc_provider client) (oc_clientID client) (oc_algorithms client) ctx raw w1 =
                (Inl e, w2) \<and> (le_context e \<or> le_network e \<or> le_url e)))
        then identity_PersistenceUnavailable else identity_AuthFlowInvalid))"
proof (cases "code = '''' \<or> \<not> validPKCEVerifier verifier")
  case True
  then show ?thesis using assms by (auto simp: client_Exchange_def Let_def PKCEChallenge_def split: sum.splits if_splits)
next
  case False
  then obtain challenge where checked: "PKCEChallenge verifier = Inr challenge" by (simp add: PKCEChallenge_def)
  obtain r w1 where r: "ol_Exchange (oc_library client) (oc_provider client) (oc_oauthConfig client) ctx code verifier w =
    (r, w1)" by force
  obtain v w2 where v: "ol_Verify (oc_library client) (oc_provider client) (oc_clientID client) (oc_algorithms client) ctx
    (the (projr r)) w1 = (v, w2)" by force
  obtain now w3 where now: "oc_now client w2 = (now, w3)" by force
  show ?thesis
    using assms False checked r v now
    by (cases r; cases v)
      (auto simp: client_Exchange_def Let_def accept_token_def maximumIssuedAtSkew_def exchangeError_def
        verificationError_def isTransportError_def not_less split: if_splits option.splits)
qed

end
