(* ===== verification/Api_Witnesses.thy ===== *)
theory Api_Witnesses
  imports Oidc_Theorems Boundary_Witnesses
begin

text \<open>The start of an API process at concrete settings, and one exchange with its provider.\<close>

definition api_env :: getenv where
  "api_env name = (case map_of [(''MAIL_SUITE_AUTH_MODE'', ''oidc''), (''MAIL_SUITE_OIDC_ISSUER'', ''https://idp.test''),
     (''MAIL_SUITE_OIDC_REDIRECT_URI'', ''https://mail.test/api/v1/auth/callback''),
     (''MAIL_SUITE_OIDC_POST_LOGOUT_REDIRECT_URI'', ''https://mail.test/''),
     (''MAIL_SUITE_AUTH_TRUSTED_ORIGIN'', ''https://mail.test''), (''MAIL_SUITE_OIDC_CLIENT_ID'', ''portal''),
     (''MAIL_SUITE_OIDC_CLIENT_SECRET'', ''secret''),
     (''MAIL_SUITE_AUTH_SECRET_PEPPER'', ''AAAAAAAAAAAAAAAAAAAAAAAAAAAAAAAAAAAAAAAAAAA=''),
     (''MAIL_SUITE_AUTH_FLOW_ENCRYPTION_KEY'', ''AAAAAAAAAAAAAAAAAAAAAAAAAAAAAAAAAAAAAAAAAAA=''),
     (''MAIL_SUITE_AUTH_FLOW_ENCRYPTION_KEY_ID'', ''k1''), (''MAIL_SUITE_OIDC_ADMIN_REQUIRED_AMR'', ''otp'')] name of
       None \<Rightarrow> '''' | Some v \<Rightarrow> v)"

definition api_claims :: tokenClaims where
  "api_claims = \<lparr>tc_AuthorizedParty = ''portal'', tc_SessionID = ''s1'', tc_ACR = '''', tc_AMR = [''otp'']\<rparr>"

definition api_token :: id_token where
  "api_token = \<lparr>it_Issuer = ''https://idp.test'', it_Audience = [''portal'', ''other''], it_Subject = ''root'',
     it_Nonce = ''nonce'', it_IssuedAt = 1000, it_Claims = Some api_claims\<rparr>"

definition api_metadata :: discoveryMetadata where
  "api_metadata = \<lparr>dm_AuthorizationEndpoint = ''https://idp.test'', dm_TokenEndpoint = ''https://idp.test'',
     dm_JWKSURI = ''https://idp.test'', dm_EndSessionEndpoint = ''https://idp.test'',
     dm_ResponseTypesSupported = [''code''], dm_CodeChallengeMethodsSupported = [''S256'']\<rparr>"

definition api_library :: "(unit, unit api_world) oidc_library" where
  "api_library = \<lparr>ol_NewProvider = (\<lambda>ctx issuer w. (Some (), w)), ol_Metadata = (\<lambda>p. Some api_metadata),
     ol_AuthCodeURL = (\<lambda>p c state params. ''https://idp.test''),
     ol_Exchange = (\<lambda>p c ctx code verifier w. (Inr (Some ''token''), w)),
     ol_Verify = (\<lambda>p c algorithms ctx raw w. (Inr api_token, w))\<rparr>"

definition api_parts :: "(unit, unit api_world) api_parts" where
  "api_parts = \<lparr>ap_uc = id, ap_authority = plain_authority, ap_fraction = (\<lambda>f u s. f * u div s), ap_env = api_env,
     ap_url_String = (\<lambda>u f. url_Scheme u @ ''://'' @ url_Host u @ ''?'' @ url_RawQuery u), ap_library = api_library,
     ap_now = (\<lambda>w. (2000, w)), ap_random = (\<lambda>n w. (None, w)), ap_newID = (\<lambda>w. (1, w)),
     ap_repository = identity_repository\<rparr>"

lemma api_env_simps:
  "api_env ''MAIL_SUITE_AUTH_MODE'' = ''oidc''" "api_env ''MAIL_SUITE_OIDC_ISSUER'' = ''https://idp.test''"
  "api_env ''MAIL_SUITE_OIDC_REDIRECT_URI'' = ''https://mail.test/api/v1/auth/callback''"
  "api_env ''MAIL_SUITE_OIDC_POST_LOGOUT_REDIRECT_URI'' = ''https://mail.test/''"
  "api_env ''MAIL_SUITE_AUTH_TRUSTED_ORIGIN'' = ''https://mail.test''" "api_env ''MAIL_SUITE_OIDC_CLIENT_ID'' = ''portal''"
  "api_env ''MAIL_SUITE_OIDC_CLIENT_SECRET'' = ''secret''"
  "api_env ''MAIL_SUITE_AUTH_SECRET_PEPPER'' = ''AAAAAAAAAAAAAAAAAAAAAAAAAAAAAAAAAAAAAAAAAAA=''"
  "api_env ''MAIL_SUITE_AUTH_FLOW_ENCRYPTION_KEY'' = ''AAAAAAAAAAAAAAAAAAAAAAAAAAAAAAAAAAAAAAAAAAA=''"
  "api_env ''MAIL_SUITE_AUTH_FLOW_ENCRYPTION_KEY_ID'' = ''k1''" "api_env ''MAIL_SUITE_OIDC_ADMIN_REQUIRED_AMR'' = ''otp''"
  "api_env ''MAIL_SUITE_OIDC_ADMIN_ALLOWED_ACR'' = ''''" "api_env ''MAIL_SUITE_OIDC_SCOPES'' = ''''"
  "api_env ''MAIL_SUITE_OIDC_SIGNING_ALGORITHMS'' = ''''" "api_env ''MAIL_SUITE_OIDC_PROVIDER_TIMEOUT'' = ''''"
  by (simp_all add: api_env_def)

lemma api_texts [simp]: "TrimSpace ''oidc'' = ''oidc''" "TrimSpace ''https://idp.test'' = ''https://idp.test''"
  "TrimSpace ''https://mail.test/api/v1/auth/callback'' = ''https://mail.test/api/v1/auth/callback''"
  "TrimSpace ''https://mail.test/'' = ''https://mail.test/''" "TrimSpace ''https://mail.test'' = ''https://mail.test''"
  "TrimSpace ''portal'' = ''portal''" "TrimSpace ''secret'' = ''secret''" "TrimSpace ''k1'' = ''k1''" "TrimSpace '''' = ''''"
  "TrimSpace ''AAAAAAAAAAAAAAAAAAAAAAAAAAAAAAAAAAAAAAAAAAA='' = ''AAAAAAAAAAAAAAAAAAAAAAAAAAAAAAAAAAAAAAAAAAA=''"
  by (simp_all add: ascii_eval del: runes.simps)

lemma api_url_eval:
  "url_Parse id plain_authority ''https://idp.test'' = Some (\<lparr>url_Path = '''', url_RawPath = '''', url_RawQuery = '''',
     url_Scheme = ''https'', url_Opaque = '''', url_User = False, url_Host = ''idp.test''\<rparr>, '''')"
  "url_Parse id plain_authority ''https://mail.test'' = Some (\<lparr>url_Path = '''', url_RawPath = '''', url_RawQuery = '''',
     url_Scheme = ''https'', url_Opaque = '''', url_User = False, url_Host = ''mail.test''\<rparr>, '''')"
  "url_Parse id plain_authority ''https://mail.test/'' = Some (\<lparr>url_Path = ''/'', url_RawPath = '''', url_RawQuery = '''',
     url_Scheme = ''https'', url_Opaque = '''', url_User = False, url_Host = ''mail.test''\<rparr>, '''')"
  "url_Parse id plain_authority ''https://mail.test/api/v1/auth/callback'' =
     Some (\<lparr>url_Path = ''/api/v1/auth/callback'', url_RawPath = '''', url_RawQuery = '''',
     url_Scheme = ''https'', url_Opaque = '''', url_User = False, url_Host = ''mail.test''\<rparr>, '''')"
  by (simp_all add: url_Parse_def parse_any_reference_def parse_reference_def absolute_URL_def set_path_def cut_query_def
      plain_authority_def escape_path_def PathEscape_char_def path_unescaped_def URL.defs ascii_eval)

lemma api_urls: "load_urls id plain_authority api_env = Inr (''https://idp.test'',
  ''https://mail.test/api/v1/auth/callback'', ''https://mail.test/'', ''https://mail.test'')"
  by (simp add: load_urls_def requiredHTTPSURL_def requiredTrimmed_def api_env_simps api_url_eval url_origin_def)

lemma api_key: "Std_DecodeString ''AAAAAAAAAAAAAAAAAAAAAAAAAAAAAAAAAAAAAAAAAAA='' = Some (replicate 32 (CHR 0x00))"
  by code_simp

lemma api_fields: "uniqueFields '''' = []" "uniqueFields ''otp'' = [''otp'']"
  by (simp_all add: uniqueFields_def FieldsFunc.simps)

definition api_config :: identity_Config where
  "api_config = \<lparr>icf_Mode = ModeOIDC, icf_Issuer = ''https://idp.test'', icf_ClientID = ''portal'',
     icf_ClientSecret = ''secret'', icf_RedirectURI = ''https://mail.test/api/v1/auth/callback'',
     icf_PostLogoutRedirectURI = ''https://mail.test/'', icf_TrustedOrigin = ''https://mail.test'',
     icf_Scopes = [''openid'', ''profile'', ''email''], icf_SigningAlgorithms = [''RS256''], icf_AdminAllowedACR = [],
     icf_AdminRequiredAMR = [''otp''], icf_SecretPepper = replicate 32 (CHR 0x00),
     icf_FlowEncryptionKey = replicate 32 (CHR 0x00), icf_FlowEncryptionKeyID = ''k1'',
     icf_ProviderTimeout = 5000000000\<rparr>"

lemma api_loaded: "identity_Load id plain_authority f api_env = Inr api_config"
  by (simp add: identity_Load_def load_oidc_def api_env_simps api_urls requiredTrimmed_def requiredBase64Secret_def api_key
      minimumSecretBytes_def api_fields fields_or_def identity_durationFromEnvironment_def bounded_duration_def
      defaultProviderTimeout_def api_config_def)

lemma api_client: "\<exists>client. newWithHTTPClient id plain_authority (ap_url_String api_parts) api_library
    (ap_now api_parts) ctx api_config w = (Inr client, w) \<and> oc_providerLogoutURL client \<noteq> '''' \<and>
    oc_library client = api_library \<and> oc_issuer client = ''https://idp.test'' \<and> oc_clientID client = ''portal'' \<and>
    oc_now client = (\<lambda>w. (2000, w))"
  by (simp add: newWithHTTPClient_def api_config_def api_library_def api_metadata_def validateDiscovery_def
      secure_endpoint_def api_url_eval buildProviderLogoutURL_def api_parts_def)

definition api_start :: "unit api_world" where
  "api_start = identity_world_of sample_login_db"

theorem loaded_api_starts_witness:
  "\<exists>routes. bootstrap_Routes api_parts background api_start = (Inr (Some routes), api_start) \<and>
     HasPrefix (bd_trustedOrigin (ar_authorization routes)) ''https://''"
proof -
  obtain client :: "(unit, unit api_world) oidc_Client" where
    client: "newWithHTTPClient id plain_authority (ap_url_String api_parts) api_library
      (ap_now api_parts) background api_config api_start = (Inr client, api_start)" "oc_providerLogoutURL client \<noteq> ''''"
    using api_client [of background api_start] by blast
  have "no_new_hash plain_authority" by (simp add: no_new_hash_def plain_authority_def)
  with loaded_api_starts [of api_parts api_config background api_start client api_start] client api_loaded show ?thesis
    by (auto simp: api_parts_def api_config_def)
qed

theorem exchanged_identity_verified_witness:
  "\<exists>(client :: (unit, unit api_world) oidc_Client) external. oc_issuer client = ''https://idp.test'' \<and>
     client_Exchange client background ''code'' (replicate 43 (CHR ''v'')) api_start = (Inr external, api_start) \<and>
     oid_Subject external = ''root'' \<and> oid_Issuer external = ''https://idp.test''"
proof -
  obtain client :: "(unit, unit api_world) oidc_Client" where
    c: "oc_library client = api_library" "oc_issuer client = ''https://idp.test''"
    "oc_clientID client = ''portal''" "oc_now client = (\<lambda>w. (2000, w))"
    using api_client [of background api_start] by blast
  have v: "validPKCEVerifier (replicate 43 (CHR ''v''))" by code_simp
  obtain external where e: "client_Exchange client background ''code'' (replicate 43 (CHR ''v'')) api_start =
      (Inr external, api_start)"
    by (simp add: client_Exchange_def c api_library_def PKCEChallenge_def v api_token_def api_claims_def IsZero_def
        accept_token_def maximumIssuedAtSkew_def)
  have "oid_Subject external = ''root''" "oid_Issuer external = ''https://idp.test''"
    using exchanged_identity_verified [OF e] c by (auto simp: api_library_def api_token_def)
  with e c show ?thesis by blast
qed

end
