(* ===== verification/Test_Manifest.thy ===== *)
theory Test_Manifest
  imports Repository_Theorems Identity_Store Go_Web Go_Text
begin

text \<open>
  \<^verbatim>\<open>internal/identity/testbootstrap/manifest.go\<close>: the manifest of the OIDC integration
  test identities, its loading and its validation. Decoding one JSON value into the
  manifest's structure (\<open>decode\<close>, giving the value and the bytes left over) and the
  splitting of a URL's authority are arguments; \<open>uc\<close> is the case table of non-ASCII
  runes. The lemmas show that what the validation accepts fits the constraints of the
  tables the fixture is written to.
\<close>

section \<open>The manifest\<close>

record TenantManifest =
  tm_ID :: uuid
  tm_Name :: string

record DomainManifest =
  dm_ID :: uuid
  dm_Name :: string

record MailboxPrincipalManifest =
  mpm_PrincipalID :: uuid
  mpm_Subject :: string
  mpm_MailboxID :: uuid
  mpm_LocalPart :: string
  mpm_DisplayName :: string

record AdministratorPrincipalManifest =
  apm_PrincipalID :: uuid
  apm_Subject :: string
  apm_DisplayName :: string

record Manifest =
  mf_SchemaVersion :: int
  mf_OIDCIssuer :: string
  mf_Tenant :: TenantManifest
  mf_Domain :: DomainManifest
  mf_Mailbox :: MailboxPrincipalManifest
  mf_Administrator :: AdministratorPrincipalManifest
  mf_Suspended :: MailboxPrincipalManifest
  mf_MFAInsufficient :: AdministratorPrincipalManifest
  mf_UnmappedSubject :: string

definition manifestSchemaVersion :: int where
  "manifestSchemaVersion = 1"

definition maxManifestBytes :: nat where
  "maxManifestBytes = 64 * 1024"

definition approvedOnlineTestDomain :: string where
  "approvedOnlineTestDomain = ''test.snowye.fun''"

section \<open>Validation\<close>

definition hasControl :: "string \<Rightarrow> bool" where
  "hasControl value = contains_rune IsControl value"

definition validDisplayName :: "string \<Rightarrow> bool" where
  "validDisplayName name \<longleftrightarrow> name = TrimSpace name \<and> 1 \<le> RuneCountInString name \<and>
     RuneCountInString name \<le> 128 \<and> \<not> hasControl name"

definition validSubject :: "string \<Rightarrow> bool" where
  "validSubject subject \<longleftrightarrow> 1 \<le> length subject \<and> length subject \<le> 255 \<and> \<not> hasControl subject"

definition validLocalPart :: "(nat \<Rightarrow> nat) \<Rightarrow> string \<Rightarrow> bool" where
  "validLocalPart uc localPart \<longleftrightarrow>
     localPart = ToLower uc localPart \<and> 1 \<le> length localPart \<and> length localPart \<le> 64 \<and>
     localPartPattern localPart \<and> \<not> HasPrefix localPart ''.'' \<and>
     \<not> HasSuffix localPart ''.'' \<and> \<not> Contains localPart ''..''"

definition domainLabelPattern :: "string \<Rightarrow> bool" where
  "domainLabelPattern = matches_plus (\<lambda>c. is_lower c \<or> is_digit c \<or> c = CHR ''-'')"

definition validTestDomain :: "(nat \<Rightarrow> nat) \<Rightarrow> string \<Rightarrow> bool" where
  "validTestDomain uc domain =
     (let approvedDomain = HasSuffix domain ''.test'' \<or> domain = approvedOnlineTestDomain in
      if domain \<noteq> ToLower uc domain \<or> domain \<noteq> TrimSpace domain \<or>
         length domain < length ''a.test'' \<or> 253 < length domain \<or> \<not> approvedDomain \<or>
         HasSuffix domain ''.'' \<or> hasControl domain then False
      else list_all (\<lambda>label. \<not> (length label < 1 \<or> 63 < length label \<or> \<not> domainLabelPattern label \<or>
             HasPrefix label ''-'' \<or> HasSuffix label ''-'')) (split_on CHR ''.'' domain))"

definition validateAdministratorPrincipal :: "string \<Rightarrow> AdministratorPrincipalManifest \<Rightarrow> go_error option" where
  "validateAdministratorPrincipal name account =
     (if apm_PrincipalID account = uuid_Nil \<or> \<not> validSubject (apm_Subject account) \<or>
         \<not> validDisplayName (apm_DisplayName account)
      then Some (OtherError name) else None)"

definition validateMailboxPrincipal ::
  "(nat \<Rightarrow> nat) \<Rightarrow> string \<Rightarrow> MailboxPrincipalManifest \<Rightarrow> go_error option" where
  "validateMailboxPrincipal uc name account =
     (if mpm_PrincipalID account = uuid_Nil \<or> mpm_MailboxID account = uuid_Nil \<or>
         \<not> validSubject (mpm_Subject account) \<or> \<not> validLocalPart uc (mpm_LocalPart account) \<or>
         \<not> validDisplayName (mpm_DisplayName account)
      then Some (OtherError name) else None)"

definition validateIssuer :: "(nat \<Rightarrow> nat) \<Rightarrow> parse_authority \<Rightarrow> string \<Rightarrow> go_error option" where
  \<comment> \<open>\<^verbatim>\<open>url.ParseRequestURI\<close> takes \<^verbatim>\<open>#\<close> as a character of the path, so the fragment
    the code also compares is always empty.\<close>
  "validateIssuer uc authority issuer =
     (if issuer \<noteq> TrimSpace issuer \<or> length issuer = 0 \<or> 2048 < length issuer \<or> hasControl issuer
      then Some (OtherError ''oidc_issuer'')
      else case url_ParseRequestURI uc authority issuer of
        None \<Rightarrow> Some (OtherError ''oidc_issuer'')
      | Some parsed \<Rightarrow>
          if url_Scheme parsed \<noteq> ''https'' \<or> url_Host parsed = '''' \<or> url_User parsed \<or>
             url_RawQuery parsed \<noteq> '''' then Some (OtherError ''oidc_issuer'') else None)"

fun seen_twice :: "'a list \<Rightarrow> 'a list \<Rightarrow> bool" where
  \<comment> \<open>The loop over a list with the map of the values \<open>seen\<close> so far.\<close>
  "seen_twice seen [] = False"
| "seen_twice seen (x # xs) = (x \<in> set seen \<or> seen_twice (x # seen) xs)"

definition manifest_identifiers :: "Manifest \<Rightarrow> uuid list" where
  "manifest_identifiers m =
     [tm_ID (mf_Tenant m), dm_ID (mf_Domain m), mpm_MailboxID (mf_Mailbox m), mpm_PrincipalID (mf_Mailbox m),
      apm_PrincipalID (mf_Administrator m), mpm_MailboxID (mf_Suspended m), mpm_PrincipalID (mf_Suspended m),
      apm_PrincipalID (mf_MFAInsufficient m)]"

definition allSubjects :: "Manifest \<Rightarrow> string list" where
  "allSubjects m =
     [mpm_Subject (mf_Mailbox m), apm_Subject (mf_Administrator m), mpm_Subject (mf_Suspended m),
      apm_Subject (mf_MFAInsufficient m), mf_UnmappedSubject m]"

fun first_error :: "go_error option list \<Rightarrow> go_error option" where
  \<comment> \<open>A sequence of checks that returns at the first error.\<close>
  "first_error [] = None"
| "first_error (None # checks) = first_error checks"
| "first_error (Some e # checks) = Some e"

definition refuse_if :: "bool \<Rightarrow> string \<Rightarrow> go_error option" where
  "refuse_if bad what = (if bad then Some (OtherError what) else None)"

definition manifest_Validate :: "(nat \<Rightarrow> nat) \<Rightarrow> parse_authority \<Rightarrow> Manifest \<Rightarrow> go_error option" where
  "manifest_Validate uc authority m = first_error
     [refuse_if (mf_SchemaVersion m \<noteq> manifestSchemaVersion) ''schema_version'',
      validateIssuer uc authority (mf_OIDCIssuer m),
      refuse_if (tm_ID (mf_Tenant m) = uuid_Nil \<or> \<not> validDisplayName (tm_Name (mf_Tenant m))) ''tenant'',
      refuse_if (dm_ID (mf_Domain m) = uuid_Nil \<or> \<not> validTestDomain uc (dm_Name (mf_Domain m))) ''domain'',
      validateMailboxPrincipal uc ''mailbox'' (mf_Mailbox m),
      validateAdministratorPrincipal ''administrator'' (mf_Administrator m),
      validateMailboxPrincipal uc ''suspended'' (mf_Suspended m),
      validateAdministratorPrincipal ''mfa_insufficient'' (mf_MFAInsufficient m),
      refuse_if (\<not> validSubject (mf_UnmappedSubject m)) ''unmapped_subject'',
      refuse_if (mpm_LocalPart (mf_Mailbox m) = mpm_LocalPart (mf_Suspended m)) ''local_part'',
      refuse_if (seen_twice [] (manifest_identifiers m)) ''identifiers'',
      refuse_if (seen_twice [] (allSubjects m)) ''subjects'']"

section \<open>Loading\<close>

definition json_space :: "char \<Rightarrow> bool" where
  "json_space c \<longleftrightarrow> byte_val c \<in> {9, 10, 13, 32}"

definition LoadManifest ::
  "(nat \<Rightarrow> nat) \<Rightarrow> parse_authority \<Rightarrow> (bytes \<Rightarrow> (Manifest \<times> bytes) option) \<Rightarrow> go_body option \<Rightarrow>
   Manifest result" where
  \<comment> \<open>The second \<^verbatim>\<open>Decode\<close> meets \<^verbatim>\<open>io.EOF\<close> exactly when only white space is left.\<close>
  "LoadManifest uc authority decode reader =
     (case reader of
        None \<Rightarrow> Inl (OtherError ''manifest'')
      | Some body \<Rightarrow>
          (case ReadAll_limited (maxManifestBytes + 1) body of
             None \<Rightarrow> Inl (OtherError ''manifest unreadable'')
           | Some content \<Rightarrow>
               if length content = 0 \<or> maxManifestBytes < length content
               then Inl (OtherError ''manifest size'')
               else (case decode content of
                   None \<Rightarrow> Inl (OtherError ''manifest json'')
                 | Some (manifest, rest) \<Rightarrow>
                     if \<not> list_all json_space rest then Inl (OtherError ''manifest trailing data'')
                     else (case manifest_Validate uc authority manifest of
                         Some err \<Rightarrow> Inl err
                       | None \<Rightarrow> Inr manifest))))"

section \<open>What the validation accepts\<close>

lemma seen_twice_iff: "seen_twice seen xs \<longleftrightarrow> \<not> (distinct xs \<and> set xs \<inter> set seen = {})"
  by (induction xs arbitrary: seen) auto

lemma first_error_None: "first_error checks = None \<longleftrightarrow> (\<forall>c \<in> set checks. c = None)"
  by (induction checks rule: first_error.induct) auto

lemma refuse_if_None [simp]: "refuse_if bad what = None \<longleftrightarrow> \<not> bad"
  by (simp add: refuse_if_def)

definition mailbox_valid :: "MailboxPrincipalManifest \<Rightarrow> bool" where
  "mailbox_valid p \<longleftrightarrow> validSubject (mpm_Subject p) \<and> local_part_normalized (mpm_LocalPart p) \<and>
     validDisplayName (mpm_DisplayName p)"

lemma localPartPattern_eq: "localPartPattern = matches_plus local_part_char"
  by (simp add: localPartPattern_def local_part_char_def [abs_def])

lemma validateMailbox_None:
  "validateMailboxPrincipal uc name p = None \<Longrightarrow> mailbox_valid p"
  by (simp add: validateMailboxPrincipal_def mailbox_valid_def validLocalPart_def local_part_normalized_def
      localPartPattern_eq split: if_splits)

lemma validate_None:
  assumes "manifest_Validate uc authority m = None"
  shows "mailbox_valid (mf_Mailbox m)" "mailbox_valid (mf_Suspended m)"
    "distinct (manifest_identifiers m)" "distinct (allSubjects m)"
    "mpm_LocalPart (mf_Mailbox m) \<noteq> mpm_LocalPart (mf_Suspended m)"
    "validSubject (apm_Subject (mf_Administrator m))" "validDisplayName (apm_DisplayName (mf_Administrator m))"
    "validSubject (apm_Subject (mf_MFAInsufficient m))" "validDisplayName (apm_DisplayName (mf_MFAInsufficient m))"
    "validDisplayName (tm_Name (mf_Tenant m))" "validTestDomain uc (dm_Name (mf_Domain m))"
    "validateIssuer uc authority (mf_OIDCIssuer m) = None"
  using assms validateMailbox_None
  by (auto simp: manifest_Validate_def first_error_None seen_twice_iff validateAdministratorPrincipal_def
      split: if_splits)

lemma rune_count_le: "RuneCountInString s \<le> length s"
proof -
  have "length ps \<le> length (concat (map snd ps))" if "\<forall>p \<in> set ps. snd p \<noteq> []" for ps :: "(nat \<times> string) list"
    using that
  proof (induction ps)
    case (Cons q ps)
    then have "1 \<le> length (snd q)" by (cases "snd q") auto
    with Cons show ?case by simp
  qed simp
  moreover have "\<forall>p \<in> set (runes s). snd p \<noteq> []" using runes_shape [of _ s] by (auto simp: rune_shape_def)
  ultimately show ?thesis by (metis RuneCountInString_def runes_concat)
qed

lemma rune_count_pos: "s \<noteq> [] \<Longrightarrow> 1 \<le> RuneCountInString s"
  by (simp add: RuneCountInString_def Suc_le_eq del: runes.simps)

lemma trimmed_btrimmed:
  assumes "s = TrimSpace s"
  shows "btrimmed s"
  unfolding btrimmed_def
  by (rule trim_list_id) (use assms TrimSpace_first [of s] TrimSpace_last [of s] in metis)+

lemma validSubject_ok: "validSubject s \<Longrightarrow> external_id_ok s"
  using rune_count_le [of s] rune_count_pos [of s]
  by (cases "s = []") (auto simp: validSubject_def external_id_ok_def char_length_between_def no_cntrl_def hasControl_def)

lemma validDisplayName_ok: "validDisplayName s \<Longrightarrow> btrimmed s \<and> char_length_between 1 128 s"
  by (auto simp: validDisplayName_def char_length_between_def intro: trimmed_btrimmed)

lemma validateIssuer_ok: "validateIssuer uc authority s = None \<Longrightarrow> issuer_ok s"
  using rune_count_le [of s] rune_count_pos [of s]
  by (cases "s = []") (auto simp: validateIssuer_def issuer_ok_def char_length_between_def no_cntrl_def hasControl_def
      intro: trimmed_btrimmed split: if_splits)

end
