(* ===== verification/Test_Tables.thy ===== *)
theory Test_Tables
  imports Test_Manifest Postgres_Link Identity_Statements
begin

text \<open>
  The tables \<^verbatim>\<open>internal/identity/testbootstrap/service.go\<close> writes, with the constraints
  the migrations put on tenants and domains beside those of \<open>Identity_Store\<close> and
  \<open>Ledger_Schema\<close>, the two kinds of statements the service uses, and its transactions.
  \<open>lower\<close> is the server's case table. The transaction state \<open>tx\<close> holds the rows as the
  transaction sees them and as they are committed. Until its first \<^verbatim>\<open>INSERT\<close> or
  \<^verbatim>\<open>DELETE\<close> other transactions commit between its statements; what they commit later
  is counted before it.
\<close>

section \<open>The tables\<close>

text \<open>The constraints of the tenants and the domains, and the constraints between them.\<close>

definition tenant_checks :: "(string \<times> (tenant_row \<Rightarrow> bool)) list" where
  "tenant_checks =
    [(''tenants_name_not_blank'', \<lambda>r. trim_list (\<lambda>c. c = CHR '' '') (t_name r) \<noteq> ''''),
     (''tenants_status_valid'', \<lambda>r. t_status r \<in> {''active'', ''suspended''})]"

definition domain_checks :: "(nat \<Rightarrow> nat) \<Rightarrow> (string \<times> (domain_row \<Rightarrow> bool)) list" where
  "domain_checks lower =
    [(''domains_name_normalized'', \<lambda>r. d_name r = ToLower lower (d_name r) \<and> btrimmed (d_name r) \<and>
        char_length_between 1 253 (d_name r) \<and> \<not> HasSuffix (d_name r) ''.''),
     (''domains_status_valid'', \<lambda>r. d_status r \<in> {''active'', ''suspended''})]"

definition directory_constraints :: "(nat \<Rightarrow> nat) \<Rightarrow> db \<Rightarrow> (string \<times> bool) list" where
  "directory_constraints lower db =
     row_constraints tenant_checks (db_tenants db) @ row_constraints (domain_checks lower) (db_domains db) @
     [(''domains_name_unique'', distinct (map d_name (db_domains db))),
      (''domains_tenant_id_fkey'', list_all (\<lambda>d. d_tenant_id d \<in> set (map t_id (db_tenants db))) (db_domains db))]"

definition fixture_constraints :: "(nat \<Rightarrow> nat) \<Rightarrow> identity_db \<Rightarrow> (string \<times> bool) list" where
  "fixture_constraints lower db = directory_constraints lower (idb_control db) @ identity_constraints db"

definition control_ok :: "(nat \<Rightarrow> nat) \<Rightarrow> identity_db \<Rightarrow> bool" where
  "control_ok lower db \<longleftrightarrow> list_all snd (fixture_constraints lower db)"

definition guard_control :: "(nat \<Rightarrow> nat) \<Rightarrow> 'a \<Rightarrow> identity_db \<Rightarrow> ('a \<times> identity_db) result" where
  "guard_control lower x db = (case first_violation (fixture_constraints lower db) of
     None \<Rightarrow> Inr (x, db) | Some name \<Rightarrow> Inl (PgError name))"

text \<open>A table of the database: its rows, how they are replaced, the checks of a row
  and when two rows clash in a unique index.\<close>

record 'r table =
  tb_rows :: "identity_db \<Rightarrow> 'r list"
  tb_update :: "('r list \<Rightarrow> 'r list) \<Rightarrow> identity_db \<Rightarrow> identity_db"
  tb_checks :: "(string \<times> ('r \<Rightarrow> bool)) list"
  tb_clash :: "'r \<Rightarrow> 'r \<Rightarrow> bool"

definition in_control :: "((db \<Rightarrow> db) \<Rightarrow> identity_db \<Rightarrow> identity_db)" where
  "in_control f db = db\<lparr>idb_control := f (idb_control db)\<rparr>"

definition tenants :: "tenant_row table" where
  "tenants = \<lparr>tb_rows = db_tenants \<circ> idb_control, tb_update = (\<lambda>f. in_control (db_tenants_update f)),
     tb_checks = tenant_checks, tb_clash = (\<lambda>a b. t_id a = t_id b)\<rparr>"

definition domains :: "(nat \<Rightarrow> nat) \<Rightarrow> domain_row table" where
  "domains lower = \<lparr>tb_rows = db_domains \<circ> idb_control, tb_update = (\<lambda>f. in_control (db_domains_update f)),
     tb_checks = domain_checks lower, tb_clash = (\<lambda>a b. d_id a = d_id b \<or> d_name a = d_name b)\<rparr>"

definition mailboxes :: "mailbox_row table" where
  "mailboxes = \<lparr>tb_rows = db_mailboxes \<circ> idb_control, tb_update = (\<lambda>f. in_control (db_mailboxes_update f)),
     tb_checks = mailbox_checks, tb_clash = (\<lambda>a b. mb_id a = mb_id b \<or>
       mb_domain_id a = mb_domain_id b \<and> mb_local_part a = mb_local_part b)\<rparr>"

definition operations :: "operation_row table" where
  "operations = \<lparr>tb_rows = db_operations \<circ> idb_control, tb_update = (\<lambda>f. in_control (db_operations_update f)),
     tb_checks = operation_checks, tb_clash = (\<lambda>a b. op_id a = op_id b \<or>
       op_tenant_id a = op_tenant_id b \<and> op_idempotency_key a = op_idempotency_key b)\<rparr>"

definition outbox_events :: "outbox_row table" where
  "outbox_events = \<lparr>tb_rows = db_outbox \<circ> idb_control, tb_update = (\<lambda>f. in_control (db_outbox_update f)),
     tb_checks = outbox_checks, tb_clash = (\<lambda>a b. ob_id a = ob_id b \<or> ob_operation_id a = ob_operation_id b)\<rparr>"

definition operation_attempts :: "attempt_row table" where
  "operation_attempts = \<lparr>tb_rows = db_attempts \<circ> idb_control,
     tb_update = (\<lambda>f. in_control (db_attempts_update f)), tb_checks = attempt_checks,
     tb_clash = (\<lambda>a b. at_id a = at_id b \<or> at_operation_id a = at_operation_id b \<and>
       (at_attempt_number a = at_attempt_number b \<or> at_lease_epoch a = at_lease_epoch b))\<rparr>"

definition identity_principals :: "principal_row table" where
  "identity_principals = \<lparr>tb_rows = idb_principals, tb_update = idb_principals_update,
     tb_checks = principal_checks, tb_clash = (\<lambda>a b. ip_id a = ip_id b \<or>
       ip_oidc_issuer a = ip_oidc_issuer b \<and> ip_oidc_subject a = ip_oidc_subject b)\<rparr>"

definition principal_permissions :: "permission_row table" where
  "principal_permissions = \<lparr>tb_rows = idb_permissions, tb_update = idb_permissions_update,
     tb_checks = permission_checks, tb_clash = (\<lambda>a b.
       pp_principal_id a = pp_principal_id b \<and> pp_permission_name a = pp_permission_name b)\<rparr>"

definition user_sessions :: "user_session_row table" where
  "user_sessions = \<lparr>tb_rows = idb_sessions, tb_update = idb_sessions_update, tb_checks = session_checks,
     tb_clash = (\<lambda>a b. us_id a = us_id b \<or> us_session_digest a = us_session_digest b)\<rparr>"

definition authentication_audit_events :: "audit_row table" where
  "authentication_audit_events = \<lparr>tb_rows = idb_audit, tb_update = idb_audit_update,
     tb_checks = audit_checks, tb_clash = (\<lambda>a b. au_id a = au_id b)\<rparr>"

type_synonym sql_command = "identity_db \<Rightarrow> (int \<times> identity_db) result"

definition insert_missing :: "(nat \<Rightarrow> nat) \<Rightarrow> 'r table \<Rightarrow> 'r \<Rightarrow> sql_command" where
  \<comment> \<open>\<^verbatim>\<open>INSERT ... ON CONFLICT DO NOTHING\<close>: the checks of the row come first, then the
    unique indexes decide, then the references are checked.\<close>
  "insert_missing lower tb r db =
     (case first_violation (row_constraints (tb_checks tb) [r]) of
        Some name \<Rightarrow> Inl (PgError name)
      | None \<Rightarrow>
          if list_ex (tb_clash tb r) (tb_rows tb db) then Inr (0, db)
          else guard_control lower 1 (tb_update tb (\<lambda>rows. rows @ [r]) db))"

definition delete_where :: "(nat \<Rightarrow> nat) \<Rightarrow> 'r table \<Rightarrow> ('r \<Rightarrow> bool) \<Rightarrow> sql_command" where
  "delete_where lower tb p db =
     guard_control lower (int (length (filter p (tb_rows tb db)))) (tb_update tb (filter (\<lambda>r. \<not> p r)) db)"

section \<open>The transaction\<close>

record bootstrap_env = "identity_db pg_link" +
  be_now :: instant
  be_schemaReady :: bool
  be_migrationApplied :: bool
  be_collation :: "string \<Rightarrow> nat"
  be_lower :: "nat \<Rightarrow> nat"

record uuid_library =
  ul_String :: "uuid \<Rightarrow> string"
  ul_NewSHA1 :: "bytes \<Rightarrow> uuid"

record tx =
  tx_trip :: nat
  tx_base :: identity_db
  tx_view :: identity_db
  tx_written :: bool

type_synonym 'a step = "tx \<Rightarrow> 'a result \<times> tx"

definition others_commit :: "bootstrap_env \<Rightarrow> tx \<Rightarrow> tx" where
  "others_commit env t = (if tx_written t then t
     else let d = pe_race env (tx_trip t) (tx_view t) in t\<lparr>tx_base := d, tx_view := d\<rparr>)"

definition tx_query :: "bootstrap_env \<Rightarrow> (identity_db \<Rightarrow> 'a result) \<Rightarrow> 'a step" where
  "tx_query env statement t =
     (let t1 = others_commit env t
      in (query env (tx_trip t) (statement (tx_view t1)), t1\<lparr>tx_trip := tx_trip t + 1\<rparr>))"

definition tx_exec :: "bootstrap_env \<Rightarrow> sql_command \<Rightarrow> int step" where
  "tx_exec env statement t =
     (let t1 = (others_commit env t)\<lparr>tx_trip := tx_trip t + 1, tx_written := True\<rparr>
      in case statement (tx_view t1) of
           Inl e \<Rightarrow> (query env (tx_trip t) (Inl e), t1)
         | Inr (n, view) \<Rightarrow> (query env (tx_trip t) (Inr n), t1\<lparr>tx_view := view\<rparr>))"

definition tx_then :: "'a result \<times> tx \<Rightarrow> ('a \<Rightarrow> 'b step) \<Rightarrow> 'b result \<times> tx" where
  "tx_then r k = on_result r (\<lambda>e t. (Inl e, t)) k"

definition databaseError :: go_error where
  "databaseError = OtherError ''database''"

definition ErrDrift :: go_error where
  "ErrDrift = OtherError ''fixture drift''"

definition ErrUnsafeRemoval :: go_error where
  "ErrUnsafeRemoval = OtherError ''unsafe removal''"

definition driftError :: "string \<Rightarrow> go_error" where
  "driftError resource = Wrapped resource ErrDrift"

definition rowVerificationError :: "go_error \<Rightarrow> string \<Rightarrow> go_error" where
  "rowVerificationError err resource =
     (if errors_Is err ErrNoRows then driftError resource else databaseError)"

definition or_database :: "'a result \<times> tx \<Rightarrow> ('a \<Rightarrow> 'b step) \<Rightarrow> 'b result \<times> tx" where
  \<comment> \<open>\<^verbatim>\<open>if err != nil { return databaseError() }\<close>\<close>
  "or_database r k = on_result r (\<lambda>e t. (Inl databaseError, t)) k"

definition prepareTransaction :: "bootstrap_env \<Rightarrow> unit step" where
  "prepareTransaction env t =
     or_database (tx_query env (\<lambda>_. Inr ()) t) (\<lambda>_ t.
     or_database (tx_query env (\<lambda>_. Inr (be_schemaReady env)) t) (\<lambda>schemaReady t.
       if \<not> schemaReady then (Inl (OtherError ''identity migration missing''), t)
       else or_database (tx_query env (\<lambda>_. Inr (be_migrationApplied env)) t) (\<lambda>migrationApplied t.
         if \<not> migrationApplied then (Inl (OtherError ''operation migration missing''), t)
         else (Inr (), t))))"

end
