(* ===== verification/Test_Bootstrap.thy ===== *)
theory Test_Bootstrap
  imports Test_Tables
begin

text \<open>
  \<^verbatim>\<open>internal/identity/testbootstrap/service.go\<close>: the service that creates, checks and
  removes the fixture of the OIDC integration tests. The texts and the name-based
  identifiers of \<^verbatim>\<open>google/uuid\<close> are arguments (\<open>uuid_library\<close>), the timestamps are the
  transaction's \<^verbatim>\<open>now()\<close>.
\<close>

section \<open>The fixture\<close>

record provisionFixture =
  pf_OperationID :: uuid
  pf_OutboxID :: uuid
  pf_IdempotencyKey :: string
  pf_RequestHash :: bytes
  pf_Payload :: outbox_payload

definition newProvisionFixture :: "uuid_library \<Rightarrow> Manifest \<Rightarrow> provisionFixture" where
  "newProvisionFixture lib m =
     (let mailbox = ul_String lib (mpm_MailboxID (mf_Mailbox m));
          operationID = ul_NewSHA1 lib (''mail-suite:test-bootstrap:operation:'' @ mailbox)
      in \<lparr>pf_OperationID = operationID,
          pf_OutboxID = ul_NewSHA1 lib (''mail-suite:test-bootstrap:outbox:'' @ mailbox),
          pf_IdempotencyKey = ''test-bootstrap-mailbox:'' @ mailbox,
          pf_RequestHash = fingerprint (ul_String lib) (dm_ID (mf_Domain m))
            (mpm_LocalPart (mf_Mailbox m)) (mpm_DisplayName (mf_Mailbox m)),
          pf_Payload = \<lparr>pl_tenant_id = tm_ID (mf_Tenant m), pl_mailbox_id = mpm_MailboxID (mf_Mailbox m),
            pl_domain_id = dm_ID (mf_Domain m), pl_operation_id = operationID, pl_revision = 1\<rparr>\<rparr>)"

definition principalIDs :: "Manifest \<Rightarrow> uuid list" where
  "principalIDs m = [mpm_PrincipalID (mf_Mailbox m), apm_PrincipalID (mf_Administrator m),
     mpm_PrincipalID (mf_Suspended m), apm_PrincipalID (mf_MFAInsufficient m)]"

definition mailboxIDs :: "Manifest \<Rightarrow> uuid list" where
  "mailboxIDs m = [mpm_MailboxID (mf_Mailbox m), mpm_MailboxID (mf_Suspended m)]"

definition tenant_fixture :: "Manifest \<Rightarrow> tenant_row" where
  "tenant_fixture m = \<lparr>t_id = tm_ID (mf_Tenant m), t_name = tm_Name (mf_Tenant m), t_status = ''active''\<rparr>"

definition domain_fixture :: "Manifest \<Rightarrow> domain_row" where
  "domain_fixture m = \<lparr>d_id = dm_ID (mf_Domain m), d_tenant_id = tm_ID (mf_Tenant m),
     d_name = dm_Name (mf_Domain m), d_status = ''active''\<rparr>"

definition mailbox_fixture :: "instant \<Rightarrow> Manifest \<Rightarrow> MailboxPrincipalManifest \<Rightarrow> mailbox_row" where
  "mailbox_fixture now m p = new_mailbox now (mpm_MailboxID p) (tm_ID (mf_Tenant m)) (dm_ID (mf_Domain m))
     (mpm_LocalPart p) (Some (mpm_DisplayName p))"

definition operation_fixture :: "instant \<Rightarrow> uuid_library \<Rightarrow> Manifest \<Rightarrow> operation_row" where
  "operation_fixture now lib m = (let provision = newProvisionFixture lib m in
     new_operation now (pf_OperationID provision) (tm_ID (mf_Tenant m)) (mpm_MailboxID (mf_Mailbox m))
       (pf_IdempotencyKey provision) (pf_RequestHash provision))"

definition outbox_fixture :: "instant \<Rightarrow> uuid_library \<Rightarrow> Manifest \<Rightarrow> outbox_row" where
  "outbox_fixture now lib m = (let provision = newProvisionFixture lib m in
     \<lparr>ob_id = pf_OutboxID provision, ob_tenant_id = tm_ID (mf_Tenant m),
      ob_operation_id = pf_OperationID provision, ob_event_type = ''mailbox.provision.requested'',
      ob_payload = pf_Payload provision, ob_status = ''pending'', ob_attempts = 0,
      ob_next_attempt_at = now, ob_delivered_at = None, ob_created_at = now\<rparr>)"

definition mailbox_principal_fixture ::
  "instant \<Rightarrow> Manifest \<Rightarrow> MailboxPrincipalManifest \<Rightarrow> string \<Rightarrow> principal_row" where
  "mailbox_principal_fixture now m p status =
     \<lparr>ip_id = mpm_PrincipalID p, ip_tenant_id = tm_ID (mf_Tenant m), ip_oidc_issuer = mf_OIDCIssuer m,
      ip_oidc_subject = mpm_Subject p, ip_account_type = ''mailbox'', ip_mailbox_id = Some (mpm_MailboxID p),
      ip_status = status, ip_display_name = mpm_DisplayName p, ip_created_at = now, ip_updated_at = now\<rparr>"

definition administrator_fixture :: "instant \<Rightarrow> Manifest \<Rightarrow> AdministratorPrincipalManifest \<Rightarrow> principal_row" where
  "administrator_fixture now m p =
     \<lparr>ip_id = apm_PrincipalID p, ip_tenant_id = tm_ID (mf_Tenant m), ip_oidc_issuer = mf_OIDCIssuer m,
      ip_oidc_subject = apm_Subject p, ip_account_type = ''administrator'', ip_mailbox_id = None,
      ip_status = ''active'', ip_display_name = apm_DisplayName p, ip_created_at = now, ip_updated_at = now\<rparr>"

definition permission_fixture :: "instant \<Rightarrow> AdministratorPrincipalManifest \<Rightarrow> permission_row" where
  "permission_fixture now p = \<lparr>pp_principal_id = apm_PrincipalID p,
     pp_permission_name = PermissionPortalAdminAccess, pp_granted_at = now\<rparr>"

section \<open>Creating\<close>

definition fixture_inserts :: "bootstrap_env \<Rightarrow> uuid_library \<Rightarrow> Manifest \<Rightarrow> sql_command list" where
  "fixture_inserts env lib m =
     (let now = be_now env; lower = be_lower env in
      [insert_missing lower tenants (tenant_fixture m),
       insert_missing lower (domains lower) (domain_fixture m),
       insert_missing lower mailboxes (mailbox_fixture now m (mf_Mailbox m)),
       insert_missing lower mailboxes (mailbox_fixture now m (mf_Suspended m)),
       insert_missing lower operations (operation_fixture now lib m),
       insert_missing lower outbox_events (outbox_fixture now lib m),
       insert_missing lower identity_principals (mailbox_principal_fixture now m (mf_Mailbox m) ''active''),
       insert_missing lower identity_principals (administrator_fixture now m (mf_Administrator m)),
       insert_missing lower identity_principals (mailbox_principal_fixture now m (mf_Suspended m) ''suspended''),
       insert_missing lower identity_principals (administrator_fixture now m (mf_MFAInsufficient m)),
       insert_missing lower principal_permissions (permission_fixture now (mf_Administrator m)),
       insert_missing lower principal_permissions (permission_fixture now (mf_MFAInsufficient m))])"

primrec insert_all :: "bootstrap_env \<Rightarrow> sql_command list \<Rightarrow> bool \<Rightarrow> bool step" where
  "insert_all env [] changed t = (Inr changed, t)"
| "insert_all env (s # ss) changed t =
     or_database (tx_exec env s t) (\<lambda>affected. insert_all env ss (changed \<or> 0 < affected))"

definition insertFixture :: "bootstrap_env \<Rightarrow> uuid_library \<Rightarrow> Manifest \<Rightarrow> bool step" where
  "insertFixture env lib m = insert_all env (fixture_inserts env lib m) False"

section \<open>Verifying\<close>

definition select_by :: "('r \<Rightarrow> uuid) \<Rightarrow> uuid \<Rightarrow> (identity_db \<Rightarrow> 'r list) \<Rightarrow> identity_db \<Rightarrow> 'r result" where
  "select_by key k rows db = (case find_row key k (rows db) of None \<Rightarrow> Inl ErrNoRows | Some r \<Rightarrow> Inr r)"

definition verify_row ::
  "bootstrap_env \<Rightarrow> string \<Rightarrow> (identity_db \<Rightarrow> 'r result) \<Rightarrow> ('r \<Rightarrow> bool) \<Rightarrow> unit step" where
  "verify_row env resource statement matches t =
     on_result (tx_query env statement t)
       (\<lambda>e t. (Inl (rowVerificationError e resource), t))
       (\<lambda>r t. if matches r then (Inr (), t) else (Inl (driftError resource), t))"

definition tenant_matches :: "Manifest \<Rightarrow> tenant_row \<Rightarrow> bool" where
  "tenant_matches m r \<longleftrightarrow> \<not> (t_name r \<noteq> tm_Name (mf_Tenant m) \<or> t_status r \<noteq> ''active'')"

definition verifyTenant :: "bootstrap_env \<Rightarrow> Manifest \<Rightarrow> unit step" where
  "verifyTenant env m = verify_row env ''tenant''
     (select_by t_id (tm_ID (mf_Tenant m)) (tb_rows tenants)) (tenant_matches m)"

definition domain_matches :: "Manifest \<Rightarrow> domain_row \<Rightarrow> bool" where
  "domain_matches m r \<longleftrightarrow> \<not> (d_tenant_id r \<noteq> tm_ID (mf_Tenant m) \<or> d_name r \<noteq> dm_Name (mf_Domain m) \<or>
     d_status r \<noteq> ''active'')"

definition verifyDomain :: "bootstrap_env \<Rightarrow> Manifest \<Rightarrow> unit step" where
  "verifyDomain env m = verify_row env ''domain''
     (select_by d_id (dm_ID (mf_Domain m)) (tb_rows (domains (be_lower env)))) (domain_matches m)"

definition coalesce_text :: "string option \<Rightarrow> string" where
  "coalesce_text s = (case s of None \<Rightarrow> '''' | Some x \<Rightarrow> x)"

definition mailbox_matches :: "Manifest \<Rightarrow> MailboxPrincipalManifest \<Rightarrow> mailbox_row \<Rightarrow> bool" where
  "mailbox_matches m p r \<longleftrightarrow> \<not> (mb_tenant_id r \<noteq> tm_ID (mf_Tenant m) \<or> mb_domain_id r \<noteq> dm_ID (mf_Domain m) \<or>
     mb_local_part r \<noteq> mpm_LocalPart p \<or> coalesce_text (mb_display_name r) \<noteq> mpm_DisplayName p \<or>
     mb_desired_status r \<noteq> ''active'' \<or> mb_revision r \<noteq> 1)"

definition verifyMailbox :: "bootstrap_env \<Rightarrow> Manifest \<Rightarrow> MailboxPrincipalManifest \<Rightarrow> unit step" where
  "verifyMailbox env m p = verify_row env ''mailbox''
     (select_by mb_id (mpm_MailboxID p) (tb_rows mailboxes)) (mailbox_matches m p)"

definition operation_matches :: "uuid_library \<Rightarrow> Manifest \<Rightarrow> operation_row \<Rightarrow> bool" where
  "operation_matches lib m r \<longleftrightarrow> (let provision = newProvisionFixture lib m in
     op_tenant_id r = tm_ID (mf_Tenant m) \<and> op_kind r = ''mailbox.provision'' \<and>
     op_resource_type r = ''mailbox'' \<and> op_resource_id r = mpm_MailboxID (mf_Mailbox m) \<and>
     op_idempotency_key r = pf_IdempotencyKey provision \<and> op_request_hash r = pf_RequestHash provision \<and>
     op_desired_revision r = 1 \<and> op_configuration_hash r = pf_RequestHash provision \<and>
     op_status r \<in> {StatusPending, StatusRunning, StatusRetryWait, StatusUnknown, StatusSucceeded,
       StatusFailed, StatusDead, StatusSuperseded})"

definition outbox_matches :: "uuid_library \<Rightarrow> Manifest \<Rightarrow> outbox_row \<Rightarrow> bool" where
  "outbox_matches lib m e \<longleftrightarrow> (let provision = newProvisionFixture lib m in
     ob_tenant_id e = tm_ID (mf_Tenant m) \<and> ob_operation_id e = pf_OperationID provision \<and>
     ob_event_type e = ''mailbox.provision.requested'' \<and> ob_payload e = pf_Payload provision \<and>
     ob_status e \<in> {''pending'', ''processing'', ''delivered'', ''dead''})"

definition verifyProvisionFixture :: "bootstrap_env \<Rightarrow> uuid_library \<Rightarrow> Manifest \<Rightarrow> unit step" where
  "verifyProvisionFixture env lib m t =
     tx_then (verify_row env ''operation''
       (select_by op_id (pf_OperationID (newProvisionFixture lib m)) (tb_rows operations))
       (operation_matches lib m) t) (\<lambda>_.
     verify_row env ''outbox''
       (select_by ob_id (pf_OutboxID (newProvisionFixture lib m)) (tb_rows outbox_events))
       (outbox_matches lib m))"

definition principal_matches ::
  "uuid_library \<Rightarrow> Manifest \<Rightarrow> string \<Rightarrow> string \<Rightarrow> string \<Rightarrow> string \<Rightarrow> string \<Rightarrow> principal_row \<Rightarrow> bool" where
  "principal_matches lib m subject accountType mailboxID status displayName r \<longleftrightarrow>
     \<not> (ip_tenant_id r \<noteq> tm_ID (mf_Tenant m) \<or> ip_oidc_issuer r \<noteq> mf_OIDCIssuer m \<or>
       ip_oidc_subject r \<noteq> subject \<or> ip_account_type r \<noteq> accountType \<or>
       coalesce_text (map_option (ul_String lib) (ip_mailbox_id r)) \<noteq> mailboxID \<or>
       ip_status r \<noteq> status \<or> ip_display_name r \<noteq> displayName)"

definition verifyPrincipal :: "bootstrap_env \<Rightarrow> uuid_library \<Rightarrow> Manifest \<Rightarrow> uuid \<Rightarrow> string \<Rightarrow> string \<Rightarrow>
    string \<Rightarrow> string \<Rightarrow> string \<Rightarrow> unit step" where
  "verifyPrincipal env lib m principalID subject accountType mailboxID status displayName =
     verify_row env ''principal'' (select_by ip_id principalID (tb_rows identity_principals))
       (principal_matches lib m subject accountType mailboxID status displayName)"

definition readPermissions :: "bootstrap_env \<Rightarrow> uuid \<Rightarrow> string list step" where
  "readPermissions env principalID t =
     or_database (tx_query env (\<lambda>db. Inr (listPrincipalPermissions (be_collation env) principalID db)) t)
       (\<lambda>permissions t. (Inr permissions, t))"

definition verifyPermissions :: "bootstrap_env \<Rightarrow> uuid \<times> string list \<Rightarrow> unit step" where
  "verifyPermissions env expectation t =
     tx_then (readPermissions env (fst expectation) t) (\<lambda>permissions t.
       if permissions \<noteq> snd expectation then (Inl (driftError ''permissions''), t) else (Inr (), t))"

definition permissionExpectations :: "Manifest \<Rightarrow> (uuid \<times> string list) list" where
  "permissionExpectations m =
     [(mpm_PrincipalID (mf_Mailbox m), []),
      (apm_PrincipalID (mf_Administrator m), [PermissionPortalAdminAccess]),
      (mpm_PrincipalID (mf_Suspended m), []),
      (apm_PrincipalID (mf_MFAInsufficient m), [PermissionPortalAdminAccess])]"

definition verifyUnmapped :: "bootstrap_env \<Rightarrow> Manifest \<Rightarrow> unit step" where
  "verifyUnmapped env m t =
     or_database (tx_query env (\<lambda>db. Inr (list_ex (\<lambda>p. ip_oidc_issuer p = mf_OIDCIssuer m \<and>
         ip_oidc_subject p = mf_UnmappedSubject m) (idb_principals db))) t)
       (\<lambda>unmappedExists t. if unmappedExists then (Inl (driftError ''unmapped''), t) else (Inr (), t))"

primrec check_all :: "unit step list \<Rightarrow> unit step" where
  "check_all [] t = (Inr (), t)"
| "check_all (c # cs) t = tx_then (c t) (\<lambda>_. check_all cs)"

definition verifyFixture :: "bootstrap_env \<Rightarrow> uuid_library \<Rightarrow> Manifest \<Rightarrow> unit step" where
  "verifyFixture env lib m = check_all
     ([verifyTenant env m, verifyDomain env m, verifyMailbox env m (mf_Mailbox m),
       verifyMailbox env m (mf_Suspended m), verifyProvisionFixture env lib m,
       verifyPrincipal env lib m (mpm_PrincipalID (mf_Mailbox m)) (mpm_Subject (mf_Mailbox m)) ''mailbox''
         (ul_String lib (mpm_MailboxID (mf_Mailbox m))) ''active'' (mpm_DisplayName (mf_Mailbox m)),
       verifyPrincipal env lib m (apm_PrincipalID (mf_Administrator m)) (apm_Subject (mf_Administrator m))
         ''administrator'' '''' ''active'' (apm_DisplayName (mf_Administrator m)),
       verifyPrincipal env lib m (mpm_PrincipalID (mf_Suspended m)) (mpm_Subject (mf_Suspended m)) ''mailbox''
         (ul_String lib (mpm_MailboxID (mf_Suspended m))) ''suspended'' (mpm_DisplayName (mf_Suspended m)),
       verifyPrincipal env lib m (apm_PrincipalID (mf_MFAInsufficient m)) (apm_Subject (mf_MFAInsufficient m))
         ''administrator'' '''' ''active'' (apm_DisplayName (mf_MFAInsufficient m))] @
      map (verifyPermissions env) (permissionExpectations m) @ [verifyUnmapped env m])"

definition begin_transaction :: "identity_db \<Rightarrow> tx" where
  "begin_transaction db = \<lparr>tx_trip = 1, tx_base = db, tx_view = db, tx_written = False\<rparr>"

definition finish_transaction :: "bootstrap_env \<Rightarrow> 'a result \<times> tx \<Rightarrow> 'a result \<times> identity_db" where
  \<comment> \<open>The commit; the deferred rollback leaves the rows as others committed them.\<close>
  "finish_transaction env r = (case r of
     (Inl e, t) \<Rightarrow> (Inl e, tx_base t)
   | (Inr x, t) \<Rightarrow> (case commit env (tx_trip t) (tx_view t) (tx_base t) of
         (Some _, db) \<Rightarrow> (Inl databaseError, db)
       | (None, db) \<Rightarrow> (Inr x, db)))"

definition apply_transaction :: "bootstrap_env \<Rightarrow> uuid_library \<Rightarrow> Manifest \<Rightarrow> bool step" where
  "apply_transaction env lib m t =
     tx_then (prepareTransaction env t) (\<lambda>_ t.
     tx_then (insertFixture env lib m t) (\<lambda>changed t.
     tx_then (verifyFixture env lib m t) (\<lambda>_ t. (Inr changed, t))))"

definition in_transaction ::
  "bootstrap_env \<Rightarrow> (nat \<Rightarrow> nat) \<Rightarrow> parse_authority \<Rightarrow> bool \<Rightarrow> Manifest \<Rightarrow> bool step \<Rightarrow> identity_db \<Rightarrow>
   bool result \<times> identity_db" where
  \<comment> \<open>The guards both operations begin with, \<^verbatim>\<open>BeginTx\<close>, the body and the commit.\<close>
  "in_transaction env uc authority pool m body db =
     (if \<not> pool then (Inl (OtherError ''pool''), db)
      else case manifest_Validate uc authority m of
        Some err \<Rightarrow> (Inl err, db)
      | None \<Rightarrow>
          if pe_fault env 0 \<noteq> None then (Inl databaseError, db)
          else finish_transaction env (body (begin_transaction db)))"

definition Apply :: "bootstrap_env \<Rightarrow> uuid_library \<Rightarrow> (nat \<Rightarrow> nat) \<Rightarrow> parse_authority \<Rightarrow> bool \<Rightarrow> Manifest \<Rightarrow>
    identity_db \<Rightarrow> bool result \<times> identity_db" where
  \<comment> \<open>The result is whether something \<^verbatim>\<open>Changed\<close>.\<close>
  "Apply env lib uc authority pool m = in_transaction env uc authority pool m (apply_transaction env lib m)"

section \<open>Removing\<close>

definition count_rows :: "'r table \<Rightarrow> ('r \<Rightarrow> bool) \<Rightarrow> identity_db \<Rightarrow> nat" where
  "count_rows tb p db = length (filter p (tb_rows tb db))"

definition footprint :: "uuid_library \<Rightarrow> Manifest \<Rightarrow> identity_db \<Rightarrow> nat" where
  "footprint lib m db =
     (let provision = newProvisionFixture lib m; tenant = tm_ID (mf_Tenant m); domain = dm_ID (mf_Domain m) in
      count_rows tenants (\<lambda>r. t_id r = tenant) db +
      count_rows (domains id) (\<lambda>r. d_id r = domain \<or> d_name r = dm_Name (mf_Domain m)) db +
      count_rows mailboxes (\<lambda>r. mb_id r \<in> set (mailboxIDs m) \<or> mb_domain_id r = domain \<and>
        mb_local_part r \<in> {mpm_LocalPart (mf_Mailbox m), mpm_LocalPart (mf_Suspended m)}) db +
      count_rows identity_principals (\<lambda>r. ip_id r \<in> set (principalIDs m) \<or>
        ip_oidc_issuer r = mf_OIDCIssuer m \<and> ip_oidc_subject r \<in> set (allSubjects m)) db +
      count_rows principal_permissions (\<lambda>r. pp_principal_id r \<in> set (principalIDs m)) db +
      count_rows operations (\<lambda>r. op_id r = pf_OperationID provision \<or>
        op_tenant_id r = tenant \<and> op_idempotency_key r = pf_IdempotencyKey provision) db +
      count_rows outbox_events (\<lambda>r. ob_id r = pf_OutboxID provision \<or>
        ob_operation_id r = pf_OperationID provision) db)"

definition fixtureFootprint :: "bootstrap_env \<Rightarrow> uuid_library \<Rightarrow> Manifest \<Rightarrow> nat step" where
  "fixtureFootprint env lib m t =
     or_database (tx_query env (\<lambda>db. Inr (footprint lib m db)) t) (\<lambda>n t. (Inr n, t))"

definition extra_data :: "uuid_library \<Rightarrow> Manifest \<Rightarrow> identity_db \<Rightarrow> bool" where
  "extra_data lib m db =
     (let provision = newProvisionFixture lib m; tenant = tm_ID (mf_Tenant m); control = idb_control db in
      list_ex (\<lambda>r. d_tenant_id r = tenant \<and> d_id r \<noteq> dm_ID (mf_Domain m)) (db_domains control) \<or>
      list_ex (\<lambda>r. mb_tenant_id r = tenant \<and> mb_id r \<notin> set (mailboxIDs m)) (db_mailboxes control) \<or>
      list_ex (\<lambda>r. ip_tenant_id r = tenant \<and> ip_id r \<notin> set (principalIDs m)) (idb_principals db) \<or>
      list_ex (\<lambda>r. op_tenant_id r = tenant \<and> op_id r \<noteq> pf_OperationID provision) (db_operations control) \<or>
      list_ex (\<lambda>r. ob_tenant_id r = tenant \<and> ob_id r \<noteq> pf_OutboxID provision) (db_outbox control) \<or>
      list_ex (\<lambda>r. at_tenant_id r = tenant \<and> at_operation_id r \<noteq> pf_OperationID provision) (db_attempts control))"

definition ensureRemovalScope :: "bootstrap_env \<Rightarrow> uuid_library \<Rightarrow> Manifest \<Rightarrow> unit step" where
  "ensureRemovalScope env lib m t =
     or_database (tx_query env (\<lambda>db. Inr (extra_data lib m db)) t) (\<lambda>hasExtraData t.
       if hasExtraData then (Inl ErrUnsafeRemoval, t) else (Inr (), t))"

definition fixture_deletes ::
  "bootstrap_env \<Rightarrow> uuid_library \<Rightarrow> Manifest \<Rightarrow> (sql_command \<times> int) list" where
  "fixture_deletes env lib m =
     (let lower = be_lower env; provision = newProvisionFixture lib m; principals = set (principalIDs m) in
      [(delete_where lower authentication_audit_events
          (\<lambda>r. case au_principal_id r of None \<Rightarrow> False | Some p \<Rightarrow> p \<in> principals), -1),
       (delete_where lower user_sessions (\<lambda>r. us_principal_id r \<in> principals), -1),
       (delete_where lower principal_permissions (\<lambda>r. pp_principal_id r \<in> principals), 2),
       (delete_where lower identity_principals (\<lambda>r. ip_id r \<in> principals), 4),
       (delete_where lower outbox_events (\<lambda>r. ob_id r = pf_OutboxID provision), 1),
       (delete_where lower operation_attempts (\<lambda>r. at_operation_id r = pf_OperationID provision), -1),
       (delete_where lower operations (\<lambda>r. op_id r = pf_OperationID provision), 1),
       (delete_where lower mailboxes (\<lambda>r. mb_id r \<in> set (mailboxIDs m)), 2),
       (delete_where lower (domains lower) (\<lambda>r. d_id r = dm_ID (mf_Domain m)), 1),
       (delete_where lower tenants (\<lambda>r. t_id r = tm_ID (mf_Tenant m)), 1)])"

primrec delete_all :: "bootstrap_env \<Rightarrow> (sql_command \<times> int) list \<Rightarrow> unit step" where
  "delete_all env [] t = (Inr (), t)"
| "delete_all env (s # ss) t =
     or_database (tx_exec env (fst s) t) (\<lambda>affected t.
       if 0 \<le> snd s \<and> affected \<noteq> snd s then (Inl (driftError ''removed rows''), t) else delete_all env ss t)"

definition deleteFixture :: "bootstrap_env \<Rightarrow> uuid_library \<Rightarrow> Manifest \<Rightarrow> unit step" where
  "deleteFixture env lib m = delete_all env (fixture_deletes env lib m)"

definition remove_transaction :: "bootstrap_env \<Rightarrow> uuid_library \<Rightarrow> Manifest \<Rightarrow> bool step" where
  "remove_transaction env lib m t =
     tx_then (prepareTransaction env t) (\<lambda>_ t.
     tx_then (fixtureFootprint env lib m t) (\<lambda>n t.
       if n = 0 then (Inr False, t)
       else tx_then (verifyFixture env lib m t) (\<lambda>_ t.
            tx_then (ensureRemovalScope env lib m t) (\<lambda>_ t.
            tx_then (deleteFixture env lib m t) (\<lambda>_ t. (Inr True, t))))))"

definition Remove :: "bootstrap_env \<Rightarrow> uuid_library \<Rightarrow> (nat \<Rightarrow> nat) \<Rightarrow> parse_authority \<Rightarrow> bool \<Rightarrow> Manifest \<Rightarrow>
    identity_db \<Rightarrow> bool result \<times> identity_db" where
  "Remove env lib uc authority pool m = in_transaction env uc authority pool m (remove_transaction env lib m)"

end
