(* ===== verification/Test_Bootstrap_Theorems.thy ===== *)
theory Test_Bootstrap_Theorems
  imports Test_Bootstrap
begin

text \<open>
  What the fixture service guarantees: a transaction leaves either the rows others
  committed or the complete, verified fixture on top of them; the identities of the
  fixture resolve the way the integration tests expect; a second run changes nothing;
  removing takes away the fixture's rows and nothing else.
\<close>

section \<open>Statements\<close>

lemma guard_control_Inr: "guard_control lower x db = Inr (y, db') \<longleftrightarrow> y = x \<and> db' = db \<and> control_ok lower db"
  unfolding guard_control_def control_ok_def first_violation_None [symmetric]
  by (auto simp del: first_violation_None split: option.splits)

lemma control_ok_identity: "control_ok lower db \<Longrightarrow> identity_ok db"
  by (simp add: control_ok_def fixture_constraints_def identity_ok_def)

lemma insert_missing_InrD:
  assumes "insert_missing lower tb r db = Inr (k, db')"
  shows "k = 0 \<and> db' = db \<and> (\<exists>q \<in> set (tb_rows tb db). tb_clash tb r q) \<or>
    k = 1 \<and> db' = tb_update tb (\<lambda>rows. rows @ [r]) db \<and> control_ok lower db' \<and>
    \<not> (\<exists>q \<in> set (tb_rows tb db). tb_clash tb r q)"
  using assms
  by (auto simp: insert_missing_def guard_control_Inr list_ex_iff split: option.splits if_splits)

lemma delete_where_InrD:
  assumes "delete_where lower tb p db = Inr (k, db')"
  shows "k = int (length (filter p (tb_rows tb db)))" "db' = tb_update tb (filter (\<lambda>r. \<not> p r)) db"
    "control_ok lower db'"
  using assms by (auto simp: delete_where_def guard_control_Inr)

lemmas table_defs = tenants_def domains_def mailboxes_def operations_def outbox_events_def
  operation_attempts_def identity_principals_def principal_permissions_def user_sessions_def
  authentication_audit_events_def in_control_def

section \<open>Reading inside the transaction\<close>

definition by_others :: "bootstrap_env \<Rightarrow> identity_db \<Rightarrow> identity_db \<Rightarrow> bool" where
  "by_others env = (\<lambda>a b. \<exists>n. b = pe_race env n a)\<^sup>*\<^sup>*"

definition undisturbed :: "bootstrap_env \<Rightarrow> bool" where
  "undisturbed env \<longleftrightarrow> (\<forall>n db. pe_race env n db = db)"

definition faultless :: "bootstrap_env \<Rightarrow> bool" where
  "faultless env \<longleftrightarrow> (\<forall>n. pe_fault env n = None)"

definition tx_ok :: "bootstrap_env \<Rightarrow> identity_db \<Rightarrow> tx \<Rightarrow> bool" where
  "tx_ok env db t \<longleftrightarrow> by_others env db (tx_base t) \<and> (\<not> tx_written t \<longrightarrow> tx_view t = tx_base t)"

definition settled :: "bootstrap_env \<Rightarrow> tx \<Rightarrow> bool" where
  \<comment> \<open>No other transaction changes what this one reads.\<close>
  "settled env t \<longleftrightarrow> tx_written t \<or> undisturbed env"

definition reading :: "bootstrap_env \<Rightarrow> tx \<Rightarrow> tx \<Rightarrow> bool" where
  "reading env t t' \<longleftrightarrow> tx_written t' = tx_written t \<and>
     (\<forall>db. tx_ok env db t \<longrightarrow> tx_ok env db t') \<and>
     (settled env t \<longrightarrow> tx_view t' = tx_view t) \<and> (tx_written t \<longrightarrow> tx_base t' = tx_base t)"

lemma others_refl [simp]: "by_others env db db"
  by (simp add: by_others_def)

lemma by_others_undisturbed: "undisturbed env \<Longrightarrow> by_others env db db' \<longleftrightarrow> db' = db"
proof -
  assume "undisturbed env"
  then have "(\<lambda>a b. \<exists>n. b = pe_race env n a) = (\<lambda>a b. b = a)" by (auto simp: undisturbed_def fun_eq_iff)
  moreover have "(\<lambda>a b. b = a)\<^sup>*\<^sup>* = (\<lambda>a b. b = (a :: identity_db))"
  proof (intro ext iffI)
    fix a b :: identity_db
    assume "(\<lambda>a b. b = a)\<^sup>*\<^sup>* a b" then show "b = a" by induction auto
  qed simp
  ultimately show ?thesis by (simp add: by_others_def)
qed

lemma others_race: "by_others env db d \<Longrightarrow> by_others env db (pe_race env n d)"
  unfolding by_others_def by (rule rtranclp.rtrancl_into_rtrancl) auto

lemma by_others_keep:
  assumes "by_others env db db'" "P db" "\<And>n d. P d \<Longrightarrow> P (pe_race env n d)"
  shows "P db'"
  using assms(1) unfolding by_others_def by induction (use assms(2,3) in auto)

lemma reading_refl [simp]: "reading env t t"
  by (simp add: reading_def)

lemma reading_trans: "reading env a b \<Longrightarrow> reading env b c \<Longrightarrow> reading env a c"
  by (auto simp: reading_def settled_def)

lemma tx_query_reading: "reading env t (snd (tx_query env s t))"
  by (auto simp: tx_query_def Let_def others_commit_def reading_def tx_ok_def settled_def undisturbed_def
      intro: others_race)

lemma tx_query_settled:
  "settled env t \<Longrightarrow> fst (tx_query env s t) = query env (tx_trip t) (s (tx_view t))"
  by (auto simp: tx_query_def Let_def others_commit_def settled_def undisturbed_def)

lemma query_cases: "query env n r = Inr x \<longleftrightarrow> pe_fault env n = None \<and> r = Inr x"
  by (auto simp: query_def split: option.splits)

lemma query_faultless [simp]: "faultless env \<Longrightarrow> query env n r = r"
  by (simp add: query_def faultless_def)

text \<open>A read-only step, and what a settled transaction learns from its success.\<close>

definition reads :: "bootstrap_env \<Rightarrow> 'a step \<Rightarrow> bool" where
  "reads env c \<longleftrightarrow> (\<forall>t. reading env t (snd (c t)))"

definition decides :: "bootstrap_env \<Rightarrow> unit step \<Rightarrow> (identity_db \<Rightarrow> bool) \<Rightarrow> bool" where
  "decides env c P \<longleftrightarrow> reads env c \<and>
     (\<forall>t. settled env t \<longrightarrow> (fst (c t) = Inr () \<longrightarrow> P (tx_view t)) \<and>
        (faultless env \<longrightarrow> P (tx_view t) \<longrightarrow> fst (c t) = Inr ()))"

lemma on_query_cases:
  assumes "\<And>e t. snd (fail e t) = t" "\<And>x t. snd (ok x t) = t"
  shows "snd (on_result (tx_query env s t) fail ok) = snd (tx_query env s t)"
  using assms by (cases "fst (tx_query env s t)") (auto simp: on_result_def)

lemma tx_then_Inr: "fst (tx_then r k) = Inr x \<longleftrightarrow> (\<exists>y. fst r = Inr y \<and> fst (k y (snd r)) = Inr x)"
  by (cases "fst r") (auto simp: tx_then_def on_result_def)

lemma tx_then_reads: "reading env t (snd r) \<Longrightarrow> (\<And>x. reads env (k x)) \<Longrightarrow> reading env t (snd (tx_then r k))"
  by (cases "fst r") (auto simp: tx_then_def on_result_def reads_def intro: reading_trans)

lemma decides_query:
  assumes "\<And>t. c t = on_result (tx_query env s t) fail ok"
    and "\<And>e t. snd (fail e t) = t" "\<And>x t. snd (ok x t) = t"
    and "\<And>e t. fst (fail e t) \<noteq> Inr ()"
    and "\<And>db. P db \<longleftrightarrow> (\<exists>x. s db = Inr x \<and> (\<forall>t'. fst (ok x t') = Inr ()))"
    and "\<And>x t t'. fst (ok x t) = fst (ok x t')"
  shows "decides env c P"
proof -
  have snds: "snd (c t) = snd (tx_query env s t)" for t unfolding assms(1) by (rule on_query_cases) (rule assms)+
  have fsts: "fst (c t) = Inr () \<longleftrightarrow> (\<exists>x. query env (tx_trip t) (s (tx_view t)) = Inr x \<and> (\<forall>t'. fst (ok x t') = Inr ()))"
    if "settled env t" for t
  proof (cases "fst (tx_query env s t)")
    case (Inl e)
    then show ?thesis using assms(4) tx_query_settled [OF that, of s]
      by (auto simp: assms(1) on_result_def)
  next
    case (Inr x)
    then show ?thesis using assms(6) tx_query_settled [OF that, of s]
      by (metis assms(1) on_result_def old.sum.simps(6) sum.inject(2))
  qed
  have "fst (c t) = Inr () \<longleftrightarrow> pe_fault env (tx_trip t) = None \<and> P (tx_view t)" if "settled env t" for t
    unfolding fsts [OF that] query_cases assms(5) by blast
  then show ?thesis
    unfolding decides_def reads_def snds faultless_def by (simp add: tx_query_reading)
qed

lemma decides_then:
  assumes "decides env c P" "\<And>x. decides env (d x) Q"
  shows "decides env (\<lambda>t. tx_then (c t) d) (\<lambda>db. P db \<and> Q db)"
proof -
  have c: "reading env t (snd (c t))" for t using assms(1) by (auto simp: decides_def reads_def)
  then have "settled env (snd (c t)) \<longleftrightarrow> settled env t" "settled env t \<Longrightarrow> tx_view (snd (c t)) = tx_view t" for t
    by (auto simp: reading_def settled_def)
  note kept = this
  have "fst (tx_then (c t) d) = Inr () \<longleftrightarrow> fst (c t) = Inr () \<and> fst (d () (snd (c t))) = Inr ()" for t
    by (simp add: tx_then_Inr)
  moreover have "reads env (\<lambda>t. tx_then (c t) d)"
    using assms c by (simp add: reads_def decides_def tx_then_reads)
  ultimately show ?thesis
    using assms kept unfolding decides_def by metis
qed

lemma decides_all:
  assumes "list_all2 (decides env) cs Ps"
  shows "decides env (check_all cs) (\<lambda>db. list_all (\<lambda>P. P db) Ps)"
  using assms
proof induction
  case Nil
  then show ?case by (simp add: decides_def reads_def)
next
  case (Cons c cs P Ps)
  have "check_all (c # cs) = (\<lambda>t. tx_then (c t) (\<lambda>_. check_all cs))" by (rule ext) simp
  with decides_then [OF Cons.hyps(1) Cons.IH] show ?case by simp
qed

section \<open>The verified fixture\<close>

definition has_row :: "('r \<Rightarrow> uuid) \<Rightarrow> uuid \<Rightarrow> ('r \<Rightarrow> bool) \<Rightarrow> 'r list \<Rightarrow> bool" where
  "has_row key k p rows \<longleftrightarrow> (case find_row key k rows of None \<Rightarrow> False | Some r \<Rightarrow> p r)"

definition permissions_are :: "identity_db \<Rightarrow> uuid \<times> string list \<Rightarrow> bool" where
  "permissions_are db e \<longleftrightarrow>
     map pp_permission_name (filter (\<lambda>r. pp_principal_id r = fst e) (idb_permissions db)) = snd e"

definition fixture_present :: "uuid_library \<Rightarrow> Manifest \<Rightarrow> identity_db \<Rightarrow> bool" where
  "fixture_present lib m db \<longleftrightarrow>
     has_row t_id (tm_ID (mf_Tenant m)) (tenant_matches m) (db_tenants (idb_control db)) \<and>
     has_row d_id (dm_ID (mf_Domain m)) (domain_matches m) (db_domains (idb_control db)) \<and>
     (\<forall>p \<in> {mf_Mailbox m, mf_Suspended m}.
        has_row mb_id (mpm_MailboxID p) (mailbox_matches m p) (db_mailboxes (idb_control db))) \<and>
     has_row op_id (pf_OperationID (newProvisionFixture lib m)) (operation_matches lib m)
       (db_operations (idb_control db)) \<and>
     has_row ob_id (pf_OutboxID (newProvisionFixture lib m)) (outbox_matches lib m) (db_outbox (idb_control db)) \<and>
     (\<forall>(p, status) \<in> {(mf_Mailbox m, ''active''), (mf_Suspended m, ''suspended'')}.
        has_row ip_id (mpm_PrincipalID p) (principal_matches lib m (mpm_Subject p) ''mailbox''
          (ul_String lib (mpm_MailboxID p)) status (mpm_DisplayName p)) (idb_principals db)) \<and>
     (\<forall>p \<in> {mf_Administrator m, mf_MFAInsufficient m}.
        has_row ip_id (apm_PrincipalID p) (principal_matches lib m (apm_Subject p) ''administrator'' ''''
          ''active'' (apm_DisplayName p)) (idb_principals db)) \<and>
     (\<forall>e \<in> set (permissionExpectations m). permissions_are db e) \<and>
     \<not> (\<exists>p \<in> set (idb_principals db). ip_oidc_issuer p = mf_OIDCIssuer m \<and> ip_oidc_subject p = mf_UnmappedSubject m)"

lemma decides_verify_row:
  "decides env (verify_row env resource (select_by key k rows) p) (\<lambda>db. has_row key k p (rows db))"
  by (rule decides_query [OF verify_row_def])
    (auto simp: has_row_def select_by_def split: option.splits)

lemma decides_rows:
  "decides env (verifyTenant env m)
     (\<lambda>db. has_row t_id (tm_ID (mf_Tenant m)) (tenant_matches m) (db_tenants (idb_control db)))"
  "decides env (verifyDomain env m)
     (\<lambda>db. has_row d_id (dm_ID (mf_Domain m)) (domain_matches m) (db_domains (idb_control db)))"
  "decides env (verifyMailbox env m p)
     (\<lambda>db. has_row mb_id (mpm_MailboxID p) (mailbox_matches m p) (db_mailboxes (idb_control db)))"
  "decides env (verifyPrincipal env lib m i subject account mailbox status name)
     (\<lambda>db. has_row ip_id i (principal_matches lib m subject account mailbox status name) (idb_principals db))"
  using decides_verify_row [of env _ t_id _ "tb_rows tenants"]
    decides_verify_row [of env _ d_id _ "tb_rows (domains (be_lower env))"]
    decides_verify_row [of env _ mb_id _ "tb_rows mailboxes"]
    decides_verify_row [of env _ ip_id _ "tb_rows identity_principals"]
  by (simp_all add: verifyTenant_def verifyDomain_def verifyMailbox_def verifyPrincipal_def table_defs)

lemma decides_provision:
  "decides env (verifyProvisionFixture env lib m) (\<lambda>db.
     has_row op_id (pf_OperationID (newProvisionFixture lib m)) (operation_matches lib m)
       (db_operations (idb_control db)) \<and>
     has_row ob_id (pf_OutboxID (newProvisionFixture lib m)) (outbox_matches lib m) (db_outbox (idb_control db)))"
  using decides_then [OF decides_verify_row [of env "''operation''" op_id _ "tb_rows operations"]
      decides_verify_row [of env "''outbox''" ob_id _ "tb_rows outbox_events"]]
  by (simp add: verifyProvisionFixture_def [abs_def] table_defs)

lemma sort_key_short [simp]: "sort_key f xs = [] \<longleftrightarrow> xs = []" "sort_key f xs = [x] \<longleftrightarrow> xs = [x]"
proof -
  show "sort_key f xs = [] \<longleftrightarrow> xs = []" by (metis length_0_conv length_sort)
  show "sort_key f xs = [x] \<longleftrightarrow> xs = [x]"
    by (cases xs; cases "tl xs") (auto dest: arg_cong [of _ _ length])
qed

lemma decides_permissions:
  assumes "snd e = [] \<or> (\<exists>x. snd e = [x])"
  shows "decides env (verifyPermissions env e) (\<lambda>db. permissions_are db e)"
proof (rule decides_query)
  show "verifyPermissions env e t = on_result
      (tx_query env (\<lambda>db. Inr (listPrincipalPermissions (be_collation env) (fst e) db)) t)
      (\<lambda>err t. (Inl databaseError, t))
      (\<lambda>names t. if names \<noteq> snd e then (Inl (driftError ''permissions''), t) else (Inr (), t))" for t
    by (cases "tx_query env (\<lambda>db. Inr (listPrincipalPermissions (be_collation env) (fst e) db)) t", rename_tac r u, case_tac r)
      (simp_all add: verifyPermissions_def readPermissions_def or_database_def tx_then_def)
qed (use assms in \<open>auto simp: permissions_are_def listPrincipalPermissions_def\<close>)

lemma decides_unmapped:
  "decides env (verifyUnmapped env m) (\<lambda>db. \<not> (\<exists>p \<in> set (idb_principals db).
     ip_oidc_issuer p = mf_OIDCIssuer m \<and> ip_oidc_subject p = mf_UnmappedSubject m))"
  by (rule decides_query [OF verifyUnmapped_def [unfolded or_database_def]])
    (auto simp: list_ex_iff)

lemma decides_cong: "decides env c P \<Longrightarrow> (\<And>db. P db \<longleftrightarrow> Q db) \<Longrightarrow> decides env c Q"
  by (simp add: decides_def)

lemma verifyFixture_decides: "decides env (verifyFixture env lib m) (fixture_present lib m)"
  unfolding verifyFixture_def permissionExpectations_def list.map append.simps
  by (rule decides_cong, rule decides_all,
      (rule list.rel_intros decides_rows decides_provision decides_permissions decides_unmapped | simp; fail)+)
    (auto simp: fixture_present_def permissionExpectations_def)

end
