(* ===== verification/Test_Bootstrap_Runs.thy ===== *)
theory Test_Bootstrap_Runs
  imports Test_Bootstrap_Theorems
begin

text \<open>
  The transactions as a whole: what they write, when they leave the tables as others
  committed them, and which identities of the fixture resolve afterwards.
\<close>

section \<open>What is written\<close>

definition appended :: "'r list \<Rightarrow> 'r list \<Rightarrow> 'r list \<Rightarrow> bool" where
  "appended fixture old new \<longleftrightarrow> (\<exists>xs. new = old @ xs \<and> set xs \<subseteq> set fixture)"

definition fixture_extends :: "bootstrap_env \<Rightarrow> uuid_library \<Rightarrow> Manifest \<Rightarrow> identity_db \<Rightarrow> identity_db \<Rightarrow> bool" where
  \<comment> \<open>All rows stay as they are; only rows of the fixture are added.\<close>
  "fixture_extends env lib m a b \<longleftrightarrow>
     (let now = be_now env; c = idb_control a; d = idb_control b in
      appended [tenant_fixture m] (db_tenants c) (db_tenants d) \<and>
      appended [domain_fixture m] (db_domains c) (db_domains d) \<and>
      appended [mailbox_fixture now m (mf_Mailbox m), mailbox_fixture now m (mf_Suspended m)]
        (db_mailboxes c) (db_mailboxes d) \<and>
      appended [operation_fixture now lib m] (db_operations c) (db_operations d) \<and>
      appended [outbox_fixture now lib m] (db_outbox c) (db_outbox d) \<and>
      appended [mailbox_principal_fixture now m (mf_Mailbox m) ''active'',
          administrator_fixture now m (mf_Administrator m),
          mailbox_principal_fixture now m (mf_Suspended m) ''suspended'',
          administrator_fixture now m (mf_MFAInsufficient m)] (idb_principals a) (idb_principals b) \<and>
      appended [permission_fixture now (mf_Administrator m), permission_fixture now (mf_MFAInsufficient m)]
        (idb_permissions a) (idb_permissions b) \<and>
      db_attempts d = db_attempts c \<and> idb_flows b = idb_flows a \<and> idb_sessions b = idb_sessions a \<and>
      idb_audit b = idb_audit a)"

lemma appended_refl [simp]: "appended fx xs xs"
  by (simp add: appended_def)

lemma appended_trans: "appended fx a b \<Longrightarrow> appended fx b c \<Longrightarrow> appended fx a c"
  by (fastforce simp: appended_def)

lemma appended_antisym: "appended fx a b \<Longrightarrow> appended fx b a \<Longrightarrow> a = b"
  by (auto simp: appended_def)

lemma appended_snoc: "x \<in> set fx \<Longrightarrow> appended fx xs (xs @ [x])"
  by (auto simp: appended_def)

lemma extends_refl [simp]: "fixture_extends env lib m a a"
  by (simp add: fixture_extends_def)

lemma extends_trans: "fixture_extends env lib m a b \<Longrightarrow> fixture_extends env lib m b c \<Longrightarrow> fixture_extends env lib m a c"
  by (auto simp: fixture_extends_def Let_def elim: appended_trans)

lemma extends_antisym:
  assumes "fixture_extends env lib m a b" "fixture_extends env lib m b a"
  shows "a = b"
proof -
  have "idb_control a = idb_control b"
    using assms by (intro db.equality) (auto simp: fixture_extends_def Let_def dest: appended_antisym)
  with assms show ?thesis
    by (intro identity_db.equality) (auto simp: fixture_extends_def Let_def dest: appended_antisym)
qed

text \<open>A table of the database gives back what was put into it.\<close>

locale table_access =
  fixes tb :: "'r table"
  assumes rows_update: "tb_rows tb (tb_update tb f db) = f (tb_rows tb db)"
begin

lemma insert_changes: "tb_update tb (\<lambda>rows. rows @ [r]) db \<noteq> db"
  by (metis rows_update append_self_conv not_Cons_self2)

lemma insert_cases:
  assumes "insert_missing lower tb r db = Inr (k, db')" "E db db" "E db (tb_update tb (\<lambda>rows. rows @ [r]) db)"
  shows "E db db' \<and> (k = 0 \<and> db' = db \<or> k = 1 \<and> db' \<noteq> db \<and> control_ok lower db')"
  using insert_missing_InrD [OF assms(1)] assms(2,3) insert_changes by auto

end

interpretation tenants: table_access tenants
  by unfold_locales (simp add: table_defs)

interpretation domains: table_access "domains lower"
  by unfold_locales (simp add: table_defs)

interpretation mailboxes: table_access mailboxes
  by unfold_locales (simp add: table_defs)

interpretation operations: table_access operations
  by unfold_locales (simp add: table_defs)

interpretation outbox_events: table_access outbox_events
  by unfold_locales (simp add: table_defs)

interpretation identity_principals: table_access identity_principals
  by unfold_locales (simp add: table_defs)

interpretation principal_permissions: table_access principal_permissions
  by unfold_locales (simp add: table_defs)

lemmas access_cases = tenants.insert_cases domains.insert_cases mailboxes.insert_cases operations.insert_cases
  outbox_events.insert_cases identity_principals.insert_cases principal_permissions.insert_cases

lemma fixture_insert_cases:
  assumes "s \<in> set (fixture_inserts env lib m)" "s db = Inr (k, db')"
  shows "fixture_extends env lib m db db' \<and>
    (k = 0 \<and> db' = db \<or> k = 1 \<and> db' \<noteq> db \<and> control_ok (be_lower env) db')"
  by (insert assms, unfold fixture_inserts_def Let_def list.set insert_iff empty_iff,
      elim disjE FalseE; hypsubst; erule access_cases)
    (simp_all add: fixture_extends_def table_defs appended_snoc)

text \<open>The insertions of a transaction that has begun to write.\<close>

definition inserts :: "bootstrap_env \<Rightarrow> uuid_library \<Rightarrow> Manifest \<Rightarrow> sql_command \<Rightarrow> bool" where
  "inserts env lib m s \<longleftrightarrow> (\<forall>db k db'. s db = Inr (k, db') \<longrightarrow> fixture_extends env lib m db db' \<and>
     (k = 0 \<and> db' = db \<or> k = 1 \<and> db' \<noteq> db \<and> control_ok (be_lower env) db'))"

lemma tx_exec_cases:
  "tx_base (snd (tx_exec env s t)) = tx_base (others_commit env t)" "tx_written (snd (tx_exec env s t))"
  "fst (tx_exec env s t) = Inr k \<Longrightarrow>
     s (tx_view (others_commit env t)) = Inr (k, tx_view (snd (tx_exec env s t)))"
  by (auto simp: tx_exec_def Let_def query_cases split: sum.splits)

lemma insert_all_extends:
  assumes "\<forall>s \<in> set ss. inserts env lib m s" "tx_written t"
  shows "tx_base (snd (insert_all env ss changed t)) = tx_base t \<and> tx_written (snd (insert_all env ss changed t)) \<and>
    (\<forall>c. fst (insert_all env ss changed t) = Inr c \<longrightarrow>
      fixture_extends env lib m (tx_view t) (tx_view (snd (insert_all env ss changed t))) \<and>
      (c \<longleftrightarrow> changed \<or> tx_view (snd (insert_all env ss changed t)) \<noteq> tx_view t) \<and>
      (tx_view (snd (insert_all env ss changed t)) = tx_view t \<or>
       control_ok (be_lower env) (tx_view (snd (insert_all env ss changed t)))))"
  using assms
proof (induction ss arbitrary: changed t)
  case (Cons s ss)
  let ?x = "tx_exec env s t"
  have x: "tx_base (snd ?x) = tx_base t" "tx_written (snd ?x)"
    using tx_exec_cases [of env s t] Cons.prems(2) by (auto simp: others_commit_def)
  show ?case
  proof (cases "fst ?x")
    case (Inl e)
    then show ?thesis using x by (simp add: or_database_def on_result_def)
  next
    case (Inr k)
    let ?y = "insert_all env ss (changed \<or> 0 < k) (snd ?x)"
    have one: "fixture_extends env lib m (tx_view t) (tx_view (snd ?x))"
      "k = 0 \<and> tx_view (snd ?x) = tx_view t \<or>
       k = 1 \<and> tx_view (snd ?x) \<noteq> tx_view t \<and> control_ok (be_lower env) (tx_view (snd ?x))"
      using tx_exec_cases(3) [OF Inr] Cons.prems by (auto simp: others_commit_def inserts_def)
    have all: "insert_all env (s # ss) changed t = ?y" by (simp add: or_database_def on_result_def Inr)
    have "tx_view (snd ?y) = tx_view t \<longrightarrow> tx_view (snd ?x) = tx_view t"
      if "fixture_extends env lib m (tx_view (snd ?x)) (tx_view (snd ?y))"
      using that one(1) extends_antisym by metis
    moreover note Cons.IH [of "snd ?x" "changed \<or> 0 < k"]
    ultimately show ?thesis
      unfolding all using Cons.prems(1) x one by (auto intro: extends_trans)
  qed
qed simp

lemma fixture_inserts_insert: "s \<in> set (fixture_inserts env lib m) \<Longrightarrow> inserts env lib m s"
  unfolding inserts_def using fixture_insert_cases by blast

lemma tx_exec_others: "\<not> tx_written t \<Longrightarrow>
    tx_exec env s t = tx_exec env s ((others_commit env t)\<lparr>tx_written := True\<rparr>)"
  by (cases "s (pe_race env (tx_trip t) (tx_view t))") (auto simp: tx_exec_def others_commit_def Let_def)

lemma insertFixture_cases:
  assumes "tx_ok env db t" "\<not> tx_written t" "insertFixture env lib m t = (r, t')"
  shows "by_others env db (tx_base t') \<and> tx_written t' \<and>
    (\<forall>c. r = Inr c \<longrightarrow> fixture_extends env lib m (tx_base t') (tx_view t') \<and>
      (c \<longleftrightarrow> tx_view t' \<noteq> tx_base t') \<and>
      (tx_view t' = tx_base t' \<or> control_ok (be_lower env) (tx_view t')))"
proof -
  let ?u = "(others_commit env t)\<lparr>tx_written := True\<rparr>"
  obtain s ss where ss: "fixture_inserts env lib m = s # ss" by (simp add: fixture_inserts_def Let_def)
  then have "insertFixture env lib m t = insert_all env (fixture_inserts env lib m) False ?u"
    by (simp add: insertFixture_def tx_exec_others [OF assms(2)])
  with assms(3) have t': "insert_all env (fixture_inserts env lib m) False ?u = (r, t')" by simp
  have u: "tx_view ?u = tx_base ?u" "by_others env db (tx_base ?u)" "tx_written ?u"
    using assms(1,2) by (auto simp: others_commit_def Let_def tx_ok_def intro: others_race)
  show ?thesis
    using insert_all_extends [of "fixture_inserts env lib m" env lib m ?u False] u
    unfolding t' by (simp add: fixture_inserts_insert)
qed

lemma reads_query:
  assumes "\<And>x. reads env (k x)"
  shows "reads env (\<lambda>t. or_database (tx_query env s t) k)"
  unfolding reads_def or_database_def
proof
  fix t
  show "reading env t (snd (on_result (tx_query env s t) (\<lambda>e. Pair (Inl databaseError)) k))"
    using tx_query_reading [of env t s] assms
    by (cases "fst (tx_query env s t)") (auto simp: on_result_def reads_def intro: reading_trans)
qed

lemma reads_simple: "reads env (\<lambda>t. (x, t))" "reads env c \<Longrightarrow> reads env d \<Longrightarrow> reads env (\<lambda>t. if b then c t else d t)"
  by (simp_all add: reads_def)

lemma prepare_reading: "reads env (prepareTransaction env)"
  unfolding prepareTransaction_def [abs_def] by (intro reads_query reads_simple)

lemma prepared:
  fixes db env
  defines "t \<equiv> snd (prepareTransaction env (begin_transaction db))"
  shows "tx_ok env db t" "\<not> tx_written t" "undisturbed env \<Longrightarrow> tx_view t = db \<and> tx_base t = db"
proof -
  have b: "tx_ok env db (begin_transaction db)" "tx_view (begin_transaction db) = db"
    "\<not> tx_written (begin_transaction db)"
    by (simp_all add: begin_transaction_def tx_ok_def)
  from prepare_reading have "reading env (begin_transaction db) t" by (simp add: reads_def t_def)
  with b show ok: "tx_ok env db t" and w: "\<not> tx_written t" by (simp_all add: reading_def)
  from ok w show "undisturbed env \<Longrightarrow> tx_view t = db \<and> tx_base t = db"
    by (simp add: tx_ok_def by_others_undisturbed)
qed

text \<open>How a transaction ends: with the committed rows, or with what it wrote on top of them.\<close>

lemma finish_cases:
  assumes "finish_transaction env (r, t) = (r', db')"
  shows "db' = tx_base t \<and> r' = Inl databaseError \<or> db' = tx_base t \<and> (\<exists>e. r = Inl e \<and> r' = Inl e) \<or>
    db' = tx_view t \<and> (\<exists>x. r = Inr x \<and> (r' = Inr x \<or> r' = Inl databaseError))"
  using assms by (auto simp: finish_transaction_def commit_def split: sum.splits option.splits if_splits)

lemma apply_transaction_cases:
  assumes "apply_transaction env lib m (begin_transaction db) = (r, t)"
  shows "by_others env db (tx_base t) \<and> (\<forall>c. r = Inr c \<longrightarrow>
    fixture_extends env lib m (tx_base t) (tx_view t) \<and> (c \<longleftrightarrow> tx_view t \<noteq> tx_base t) \<and>
    (tx_view t = tx_base t \<or> control_ok (be_lower env) (tx_view t)) \<and> fixture_present lib m (tx_view t))"
proof -
  let ?p = "prepareTransaction env (begin_transaction db)"
  have p: "tx_ok env db (snd ?p)" "\<not> tx_written (snd ?p)"
    by (rule prepared)+
  show ?thesis
  proof (cases "fst ?p")
    case (Inl e)
    then show ?thesis using assms p by (auto simp: apply_transaction_def tx_then_def on_result_def tx_ok_def)
  next
    case (Inr x)
    let ?i = "insertFixture env lib m (snd ?p)"
    let ?v = "verifyFixture env lib m (snd ?i)"
    have i: "by_others env db (tx_base (snd ?i))" "tx_written (snd ?i)"
      "\<And>c. fst ?i = Inr c \<Longrightarrow> fixture_extends env lib m (tx_base (snd ?i)) (tx_view (snd ?i)) \<and>
        (c \<longleftrightarrow> tx_view (snd ?i) \<noteq> tx_base (snd ?i)) \<and>
        (tx_view (snd ?i) = tx_base (snd ?i) \<or> control_ok (be_lower env) (tx_view (snd ?i)))"
      using insertFixture_cases [OF p prod.collapse [symmetric]] by auto
    have v: "tx_base (snd ?v) = tx_base (snd ?i)" "tx_view (snd ?v) = tx_view (snd ?i)"
      "fst ?v = Inr () \<Longrightarrow> fixture_present lib m (tx_view (snd ?i))"
      using verifyFixture_decides [of env lib m] i(2) by (auto simp: decides_def reads_def reading_def settled_def)
    from Inr assms i v show ?thesis
      by (cases "fst ?i"; cases "fst ?v") (auto simp: apply_transaction_def tx_then_def on_result_def)
  qed
qed

section \<open>Creating the fixture\<close>

lemma Apply_cases:
  assumes "Apply env lib uc authority pool m db = (r, db')"
  obtains (refused) e where "r = Inl e" "db' = db"
  | (ran) r0 t where "manifest_Validate uc authority m = None"
      "apply_transaction env lib m (begin_transaction db) = (r0, t)"
      "finish_transaction env (r0, t) = (r, db')"
  using assms
  by (auto simp: Apply_def in_transaction_def split: if_splits option.splits)
    (metis prod.collapse)+

text \<open>(C31) The fixture is created completely or not at all: whatever fails, and whatever others commit
  meanwhile, the tables end up as the others left them, or with rows of the fixture added to them, no row
  changed, and every row of the fixture verified. A run that reports success ends the second way, and it
  reports a change exactly when it made one.\<close>

theorem bootstrap_apply_sound:
  assumes "Apply env lib uc authority pool m db = (r, db')"
  shows "\<exists>base. by_others env db base \<and>
    (db' = base \<or> fixture_extends env lib m base db' \<and> fixture_present lib m db' \<and> control_ok (be_lower env) db') \<and>
    (\<forall>changed. r = Inr changed \<longrightarrow> manifest_Validate uc authority m = None \<and>
      fixture_extends env lib m base db' \<and> fixture_present lib m db' \<and> (changed \<longleftrightarrow> db' \<noteq> base))"
  using assms
proof (cases rule: Apply_cases)
  case (ran r0 t)
  then show ?thesis
    using apply_transaction_cases [OF ran(2)] finish_cases [OF ran(3)]
    by (intro exI [of _ "tx_base t"]) auto
qed (auto intro: exI [of _ db])

section \<open>Who can log in\<close>

definition uuid_texts :: "uuid_library \<Rightarrow> bool" where
  \<comment> \<open>\<^verbatim>\<open>uuid.UUID.String\<close>: 36 hexadecimal digits and hyphens, different for different UUIDs.\<close>
  "uuid_texts lib \<longleftrightarrow> inj (ul_String lib) \<and>
     (\<forall>u. length (ul_String lib u) = 36 \<and> list_all (\<lambda>c. is_lower c \<or> is_digit c \<or> c = CHR ''-'') (ul_String lib u))"

lemma mailbox_text:
  assumes "uuid_texts lib"
  shows "coalesce_text (map_option (ul_String lib) x) = ul_String lib u \<longleftrightarrow> x = Some u"
    "coalesce_text (map_option (ul_String lib) x) = [] \<longleftrightarrow> x = None"
proof -
  from assms have i: "inj (ul_String lib)" and l: "length (ul_String lib v) = 36" for v
    by (simp_all add: uuid_texts_def)
  have n: "ul_String lib v \<noteq> []" for v using l [of v] by auto
  show "coalesce_text (map_option (ul_String lib) x) = ul_String lib u \<longleftrightarrow> x = Some u"
    "coalesce_text (map_option (ul_String lib) x) = [] \<longleftrightarrow> x = None"
    using i n n [of u, symmetric] by (cases x; simp add: coalesce_text_def inj_eq)+
qed

lemma has_row_iff: "has_row key k p rows \<longleftrightarrow> (\<exists>r. find_row key k rows = Some r \<and> p r)"
  by (simp add: has_row_def split: option.split)

lemma find_external_identity:
  assumes "identity_ok db" "p \<in> set (idb_principals db)"
  shows "getActivePrincipalByExternalIdentity (ip_oidc_issuer p) (ip_oidc_subject p) db =
    (if active_account db p then Inr (active_principal_row db p) else Inl ErrNoRows)"
proof -
  have "distinct (map (\<lambda>p. (ip_oidc_issuer p, ip_oidc_subject p)) (idb_principals db))"
    using assms(1) by (simp add: identity_ok_iff identity_keys_def)
  note unique = distinct_map_eqD [OF this _ assms(2)]
  have one: "q = p" if "q \<in> set (idb_principals db)" "ip_oidc_issuer q = ip_oidc_issuer p"
    "ip_oidc_subject q = ip_oidc_subject p" for q
    by (rule unique) (use that in simp_all)
  let ?P = "\<lambda>q. ip_oidc_issuer q = ip_oidc_issuer p \<and> ip_oidc_subject q = ip_oidc_subject p \<and> active_account db q"
  have "find ?P (idb_principals db) = (if active_account db p then Some p else None)"
  proof (cases "find ?P (idb_principals db)")
    case None
    then show ?thesis using assms(2) by (simp add: find_None_iff)
  next
    case (Some q)
    from find_SomeD [OF Some] have "q = p" "active_account db q" by (auto intro: one)
    with Some show ?thesis by simp
  qed
  then show ?thesis by (simp add: getActivePrincipalByExternalIdentity_def)
qed

lemma present_tenant:
  assumes "fixture_present lib m db"
  obtains t where "find_row t_id (tm_ID (mf_Tenant m)) (db_tenants (idb_control db)) = Some t" "t_status t = ''active''"
  using assms by (auto simp: fixture_present_def has_row_iff tenant_matches_def)

lemma present_administrator:
  assumes "fixture_present lib m db" "a \<in> {mf_Administrator m, mf_MFAInsufficient m}" "identity_ok db" "uuid_texts lib"
  shows "getActivePrincipalByExternalIdentity (mf_OIDCIssuer m) (apm_Subject a) db = Inr
    \<lparr>apr_ID = apm_PrincipalID a, apr_TenantID = tm_ID (mf_Tenant m), apr_AccountType = ''administrator'',
     apr_MailboxID = None, apr_DisplayName = apm_DisplayName a, apr_MailboxLocalPart = None, apr_MailboxDomain = None\<rparr>"
proof -
  obtain t where t: "find_row t_id (tm_ID (mf_Tenant m)) (db_tenants (idb_control db)) = Some t" "t_status t = ''active''"
    using assms(1) by (rule present_tenant)
  obtain p where p: "p \<in> set (idb_principals db)" "ip_id p = apm_PrincipalID a"
    "principal_matches lib m (apm_Subject a) ''administrator'' '''' ''active'' (apm_DisplayName a) p"
    using assms(1,2) by (fastforce simp: fixture_present_def has_row_iff dest: find_row_SomeD)
  have mailbox: "ip_mailbox_id p = None"
    using p(3) by (simp add: principal_matches_def mailbox_text [OF assms(4)])
  have "permissions_are db (apm_PrincipalID a, [PermissionPortalAdminAccess])"
    using assms(1,2) by (auto simp: fixture_present_def permissionExpectations_def)
  then have "has_permission db (apm_PrincipalID a) ''portal.admin.access''"
    by (auto simp: permissions_are_def has_permission_def list_ex_iff PermissionPortalAdminAccess_def filter_eq_Cons_iff)
  then have "active_account db p"
    using p mailbox t by (simp add: active_account_def principal_matches_def)
  then show ?thesis
    using find_external_identity [OF assms(3) p(1)] p mailbox
    by (simp add: principal_matches_def active_principal_row_def joined_mailbox_def joined_domain_def)
qed

lemma present_mailbox:
  assumes "fixture_present lib m db" "(b, status) \<in> {(mf_Mailbox m, ''active''), (mf_Suspended m, ''suspended'')}"
    "identity_ok db" "uuid_texts lib"
  shows "getActivePrincipalByExternalIdentity (mf_OIDCIssuer m) (mpm_Subject b) db =
    (if status = ''active'' then Inr
      \<lparr>apr_ID = mpm_PrincipalID b, apr_TenantID = tm_ID (mf_Tenant m), apr_AccountType = ''mailbox'',
       apr_MailboxID = Some (mpm_MailboxID b), apr_DisplayName = mpm_DisplayName b,
       apr_MailboxLocalPart = Some (mpm_LocalPart b), apr_MailboxDomain = Some (dm_Name (mf_Domain m))\<rparr>
     else Inl ErrNoRows)"
proof -
  obtain t where t: "find_row t_id (tm_ID (mf_Tenant m)) (db_tenants (idb_control db)) = Some t" "t_status t = ''active''"
    using assms(1) by (rule present_tenant)
  obtain p where p: "p \<in> set (idb_principals db)" "ip_id p = mpm_PrincipalID b"
    "principal_matches lib m (mpm_Subject b) ''mailbox'' (ul_String lib (mpm_MailboxID b)) status (mpm_DisplayName b) p"
    using assms(1,2) by (fastforce simp: fixture_present_def has_row_iff dest: find_row_SomeD)
  have mailbox: "ip_mailbox_id p = Some (mpm_MailboxID b)"
    using p(3) by (simp add: principal_matches_def mailbox_text [OF assms(4)])
  obtain r where r: "find_row mb_id (mpm_MailboxID b) (db_mailboxes (idb_control db)) = Some r" "mailbox_matches m b r"
    using assms(1,2) by (auto simp: fixture_present_def has_row_iff)
  obtain d where d: "find_row d_id (dm_ID (mf_Domain m)) (db_domains (idb_control db)) = Some d" "domain_matches m d"
    using assms(1) by (auto simp: fixture_present_def has_row_iff)
  have "active_account db p \<longleftrightarrow> status = ''active''"
    using p mailbox t r by (auto simp: active_account_def principal_matches_def joined_mailbox_def mailbox_matches_def)
  then show ?thesis
    using find_external_identity [OF assms(3) p(1)] p mailbox r d
    by (simp add: principal_matches_def active_principal_row_def joined_mailbox_def joined_domain_def
        mailbox_matches_def domain_matches_def)
qed

lemma apply_control_ok:
  assumes "Apply env lib uc authority pool m db = (Inr changed, db')" "control_ok (be_lower env) db"
    "\<forall>n d. control_ok (be_lower env) d \<longrightarrow> control_ok (be_lower env) (pe_race env n d)"
  shows "fixture_present lib m db' \<and> control_ok (be_lower env) db'"
  using assms(1)
proof (cases rule: Apply_cases)
  case (ran r0 t)
  have "by_others env db (tx_base t)" using apply_transaction_cases [OF ran(2)] by blast
  from by_others_keep [where P = "control_ok (be_lower env)", OF this assms(2)] assms(3)
  have "control_ok (be_lower env) (tx_base t)" by blast
  then show ?thesis using apply_transaction_cases [OF ran(2)] finish_cases [OF ran(3)] by auto
qed simp

text \<open>(C34) After the fixture was created its identities behave as the tests need: the mailbox user and both
  administrators are found as active principals with their tenant, mailbox and address, while the suspended
  user and the unmapped subject are not found, for every subject of the manifest.\<close>

theorem bootstrap_identities_resolve:
  assumes "Apply env lib uc authority pool m db = (Inr changed, db')" "control_ok (be_lower env) db"
    "\<forall>n d. control_ok (be_lower env) d \<longrightarrow> control_ok (be_lower env) (pe_race env n d)" "uuid_texts lib"
  shows "getActivePrincipalByExternalIdentity (mf_OIDCIssuer m) (mpm_Subject (mf_Mailbox m)) db' = Inr
      \<lparr>apr_ID = mpm_PrincipalID (mf_Mailbox m), apr_TenantID = tm_ID (mf_Tenant m), apr_AccountType = ''mailbox'',
       apr_MailboxID = Some (mpm_MailboxID (mf_Mailbox m)), apr_DisplayName = mpm_DisplayName (mf_Mailbox m),
       apr_MailboxLocalPart = Some (mpm_LocalPart (mf_Mailbox m)), apr_MailboxDomain = Some (dm_Name (mf_Domain m))\<rparr> \<and>
    (\<forall>a \<in> {mf_Administrator m, mf_MFAInsufficient m}.
      getActivePrincipalByExternalIdentity (mf_OIDCIssuer m) (apm_Subject a) db' = Inr
        \<lparr>apr_ID = apm_PrincipalID a, apr_TenantID = tm_ID (mf_Tenant m), apr_AccountType = ''administrator'',
         apr_MailboxID = None, apr_DisplayName = apm_DisplayName a, apr_MailboxLocalPart = None, apr_MailboxDomain = None\<rparr>) \<and>
    (\<forall>s \<in> {mpm_Subject (mf_Suspended m), mf_UnmappedSubject m}.
      getActivePrincipalByExternalIdentity (mf_OIDCIssuer m) s db' = Inl ErrNoRows)"
proof -
  have f: "fixture_present lib m db'" and ok: "identity_ok db'"
    using apply_control_ok [OF assms(1-3)] control_ok_identity by auto
  have "getActivePrincipalByExternalIdentity (mf_OIDCIssuer m) (mf_UnmappedSubject m) db' = Inl ErrNoRows"
    using f by (auto simp: fixture_present_def getActivePrincipalByExternalIdentity_def find_None_iff split: option.splits
        dest!: find_SomeD)
  then show ?thesis
    using present_mailbox [OF f _ ok assms(4), of "mf_Mailbox m" "''active''"]
      present_mailbox [OF f _ ok assms(4), of "mf_Suspended m" "''suspended''"]
      present_administrator [OF f _ ok assms(4)] by simp
qed

end
