(* ===== verification/Test_Fixture_Rows.thy ===== *)
theory Test_Fixture_Rows
  imports Test_Bootstrap_Runs
begin

text \<open>
  The rows a valid manifest asks for fit the tables: every check the migrations put on
  a single row holds for them, so an insertion is only ever refused because of other
  rows.
\<close>

section \<open>Texts\<close>

lemma split_on_chars: "c \<in> set s \<Longrightarrow> c = sep \<or> (\<exists>w \<in> set (split_on sep s). c \<in> set w)"
proof (induction s)
  case (Cons a s)
  then show ?case by (auto split: list.splits)
qed simp

lemma label_char_ascii: "is_lower c \<or> is_digit c \<or> c = CHR ''-'' \<or> c = CHR ''.'' \<Longrightarrow> byte_val c < 128"
  by (auto simp: is_lower_def is_digit_def byte_val_def)

lemma validTestDomain_ok:
  assumes "validTestDomain uc s"
  shows "s = ToLower lower s" "btrimmed s" "char_length_between 1 253 s" "\<not> HasSuffix s ''.''"
proof -
  from assms have s: "s = ToLower uc s" "s = TrimSpace s" "6 \<le> length s" "length s \<le> 253" "\<not> HasSuffix s ''.''"
    and labels: "list_all domainLabelPattern (split_on CHR ''.'' s)"
    by (auto simp: validTestDomain_def Let_def list_all_iff split: if_splits)
  have "byte_val c < 128" if "c \<in> set s" for c
    using split_on_chars [OF that, of "CHR ''.''"] labels
    by (intro label_char_ascii) (auto simp: domainLabelPattern_def matches_plus_def list_all_iff)
  then have "is_ascii s" by (simp add: is_ascii_def list_all_iff)
  with s(1) show "s = ToLower lower s" using ToLower_ascii [of s] by metis
  show "btrimmed s" "char_length_between 1 253 s" "\<not> HasSuffix s ''.''"
    using s trimmed_btrimmed [of s] rune_count_le [of s] rune_count_pos [of s]
    by (cases "s = []"; auto simp: char_length_between_def)+
qed

lemma display_name_trim: "validDisplayName s \<Longrightarrow> trim_list (\<lambda>c. c = CHR '' '') s = s \<and> s \<noteq> []"
  by (auto simp: validDisplayName_def btrimmed_def RuneCountInString_def dest!: trimmed_btrimmed)

lemma provision_key_ok:
  assumes "uuid_texts lib"
  shows "16 \<le> length (pf_IdempotencyKey (newProvisionFixture lib m))"
    "length (pf_IdempotencyKey (newProvisionFixture lib m)) \<le> 128"
    "matches_plus idempotency_key_char (pf_IdempotencyKey (newProvisionFixture lib m))"
  using assms by (auto simp: newProvisionFixture_def Let_def uuid_texts_def matches_plus_def list_all_iff
      idempotency_key_char_def ascii_eval)

section \<open>Rows\<close>

definition fixture_rows_ok :: "bootstrap_env \<Rightarrow> uuid_library \<Rightarrow> Manifest \<Rightarrow> bool" where
  "fixture_rows_ok env lib m \<longleftrightarrow> (let now = be_now env in
     row_ok tenant_checks (tenant_fixture m) \<and> row_ok (domain_checks (be_lower env)) (domain_fixture m) \<and>
     row_ok mailbox_checks (mailbox_fixture now m (mf_Mailbox m)) \<and>
     row_ok mailbox_checks (mailbox_fixture now m (mf_Suspended m)) \<and>
     row_ok operation_checks (operation_fixture now lib m) \<and> row_ok outbox_checks (outbox_fixture now lib m) \<and>
     row_ok principal_checks (mailbox_principal_fixture now m (mf_Mailbox m) ''active'') \<and>
     row_ok principal_checks (administrator_fixture now m (mf_Administrator m)) \<and>
     row_ok principal_checks (mailbox_principal_fixture now m (mf_Suspended m) ''suspended'') \<and>
     row_ok principal_checks (administrator_fixture now m (mf_MFAInsufficient m)) \<and>
     row_ok permission_checks (permission_fixture now (mf_Administrator m)) \<and>
     row_ok permission_checks (permission_fixture now (mf_MFAInsufficient m)))"

lemma mailbox_row_fits: "mailbox_valid p \<Longrightarrow> row_ok mailbox_checks (mailbox_fixture now m p)"
  using display_name_trim [of "mpm_DisplayName p"]
  by (simp add: mailbox_valid_def validDisplayName_def row_ok_def mailbox_checks_def mailbox_fixture_def
      new_mailbox_def revision_ok_def hash_ok_def observation_complete_def)

lemma principal_rows_fit:
  assumes "issuer_ok (mf_OIDCIssuer m)"
  shows "validSubject (apm_Subject a) \<Longrightarrow> validDisplayName (apm_DisplayName a) \<Longrightarrow>
      row_ok principal_checks (administrator_fixture now m a)"
    "mailbox_valid p \<Longrightarrow> status \<in> {''active'', ''suspended''} \<Longrightarrow>
      row_ok principal_checks (mailbox_principal_fixture now m p status)"
  using assms validSubject_ok validDisplayName_ok
  by (auto simp: row_ok_def principal_checks_def administrator_fixture_def mailbox_principal_fixture_def
      mailbox_valid_def)

lemma permission_row_fits: "row_ok permission_checks (permission_fixture now a)"
  by (simp add: row_ok_def permission_checks_def permission_fixture_def PermissionPortalAdminAccess_def
      char_length_between_def ascii_eval del: runes.simps)

lemma valid_rows_ok:
  assumes "manifest_Validate uc authority m = None" "uuid_texts lib"
  shows "fixture_rows_ok env lib m"
proof -
  note v = validate_None [OF assms(1)]
  have issuer: "issuer_ok (mf_OIDCIssuer m)" using v(12) by (rule validateIssuer_ok)
  have "row_ok tenant_checks (tenant_fixture m)"
    using display_name_trim [OF v(10)] by (simp add: row_ok_def tenant_checks_def tenant_fixture_def)
  moreover have "row_ok (domain_checks (be_lower env)) (domain_fixture m)"
    using validTestDomain_ok [OF v(11)] by (simp add: row_ok_def domain_checks_def domain_fixture_def)
  moreover have "row_ok operation_checks (operation_fixture now lib m)" for now
    using provision_key_ok [OF assms(2), of m]
    by (simp add: row_ok_def operation_checks_def operation_fixture_def new_operation_def Let_def
        newProvisionFixture_def MaxInt32_def MaxInt64_def code_ok_def observed_ok_def revision_ok_def hash_ok_def
        observation_complete_def)
  moreover have "row_ok outbox_checks (outbox_fixture now lib m)" for now
    by (simp add: row_ok_def outbox_checks_def outbox_fixture_def Let_def)
  ultimately show ?thesis
    using v mailbox_row_fits principal_rows_fit [OF issuer] permission_row_fits
    by (simp add: fixture_rows_ok_def Let_def)
qed

text \<open>(C35) A manifest that loads fits the tables: it is at most 64 KiB of one JSON value, its identifiers
  and subjects are different from each other, and each row of its fixture passes every check the
  migrations put on a row of its table.\<close>

theorem loaded_manifest_fits_tables:
  assumes "LoadManifest uc authority decode (Some (Body content fails)) = Inr m" "uuid_texts lib"
  shows "length content \<le> maxManifestBytes \<and> (\<exists>rest. decode content = Some (m, rest) \<and> list_all json_space rest) \<and>
    distinct (manifest_identifiers m) \<and> distinct (allSubjects m) \<and> fixture_rows_ok env lib m"
proof -
  from assms(1) have v: "manifest_Validate uc authority m = None" and l: "length content \<le> maxManifestBytes"
    and d: "\<exists>rest. decode content = Some (m, rest) \<and> list_all json_space rest"
    by (auto simp: LoadManifest_def maxManifestBytes_def split: option.splits if_splits prod.splits)
  with valid_rows_ok [OF v assms(2)] validate_None [OF v] show ?thesis by simp
qed

end
