(* ===== verification/Test_Removal.thy ===== *)
theory Test_Removal
  imports Test_Fixture_Rows
begin

text \<open>
  Running the service again, and removing the fixture: a second creation changes
  nothing, and a removal takes away the rows of the fixture's tenant and nothing else.
\<close>

section \<open>A second creation\<close>

lemma insert_idle:
  assumes "row_ok (tb_checks tb) r" "q \<in> set (tb_rows tb db)" "tb_clash tb r q"
  shows "insert_missing lower tb r db = Inr (0, db)"
proof -
  have "first_violation (row_constraints (tb_checks tb) [r]) = None"
    using assms(1) by (simp add: row_constraints_iff)
  with assms(2,3) show ?thesis
    unfolding insert_missing_def by (auto simp: list_ex_iff simp del: first_violation_None)
qed

lemma has_row_mem: "has_row key k p rows \<Longrightarrow> \<exists>r \<in> set rows. k = key r"
  by (auto simp: has_row_iff dest: find_row_SomeD)

lemma permissions_mem: "permissions_are db (p, [x]) \<Longrightarrow>
    \<exists>r \<in> set (idb_permissions db). p = pp_principal_id r \<and> x = pp_permission_name r"
  by (auto simp: permissions_are_def filter_eq_Cons_iff)

lemma presentD:
  assumes "fixture_present lib m db"
  shows "has_row t_id (tm_ID (mf_Tenant m)) (tenant_matches m) (db_tenants (idb_control db))"
    "has_row d_id (dm_ID (mf_Domain m)) (domain_matches m) (db_domains (idb_control db))"
    "has_row mb_id (mpm_MailboxID (mf_Mailbox m)) (mailbox_matches m (mf_Mailbox m)) (db_mailboxes (idb_control db))"
    "has_row mb_id (mpm_MailboxID (mf_Suspended m)) (mailbox_matches m (mf_Suspended m)) (db_mailboxes (idb_control db))"
    "has_row op_id (pf_OperationID (newProvisionFixture lib m)) (operation_matches lib m) (db_operations (idb_control db))"
    "has_row ob_id (pf_OutboxID (newProvisionFixture lib m)) (outbox_matches lib m) (db_outbox (idb_control db))"
    "has_row ip_id (mpm_PrincipalID (mf_Mailbox m)) (principal_matches lib m (mpm_Subject (mf_Mailbox m)) ''mailbox''
      (ul_String lib (mpm_MailboxID (mf_Mailbox m))) ''active'' (mpm_DisplayName (mf_Mailbox m))) (idb_principals db)"
    "has_row ip_id (mpm_PrincipalID (mf_Suspended m)) (principal_matches lib m (mpm_Subject (mf_Suspended m)) ''mailbox''
      (ul_String lib (mpm_MailboxID (mf_Suspended m))) ''suspended'' (mpm_DisplayName (mf_Suspended m))) (idb_principals db)"
    "has_row ip_id (apm_PrincipalID (mf_Administrator m)) (principal_matches lib m (apm_Subject (mf_Administrator m))
      ''administrator'' '''' ''active'' (apm_DisplayName (mf_Administrator m))) (idb_principals db)"
    "has_row ip_id (apm_PrincipalID (mf_MFAInsufficient m)) (principal_matches lib m (apm_Subject (mf_MFAInsufficient m))
      ''administrator'' '''' ''active'' (apm_DisplayName (mf_MFAInsufficient m))) (idb_principals db)"
    "permissions_are db (mpm_PrincipalID (mf_Mailbox m), [])"
    "permissions_are db (apm_PrincipalID (mf_Administrator m), [PermissionPortalAdminAccess])"
    "permissions_are db (mpm_PrincipalID (mf_Suspended m), [])"
    "permissions_are db (apm_PrincipalID (mf_MFAInsufficient m), [PermissionPortalAdminAccess])"
  using assms by (simp_all add: fixture_present_def permissionExpectations_def)

lemma insert_idleI:
  assumes "\<exists>q \<in> set (tb_rows tb db). tb_clash tb r q" "row_ok (tb_checks tb) r"
  shows "insert_missing lower tb r db = Inr (0, db)"
  using assms by (auto intro: insert_idle)

lemma present_inserts_idle:
  assumes "fixture_present lib m db" "fixture_rows_ok env lib m" "s \<in> set (fixture_inserts env lib m)"
  shows "s db = Inr (0, db)"
proof -
  have p: "\<exists>r \<in> set (db_tenants (idb_control db)). tm_ID (mf_Tenant m) = t_id r"
    "\<exists>r \<in> set (db_domains (idb_control db)). dm_ID (mf_Domain m) = d_id r"
    "\<exists>r \<in> set (db_mailboxes (idb_control db)). mpm_MailboxID (mf_Mailbox m) = mb_id r"
    "\<exists>r \<in> set (db_mailboxes (idb_control db)). mpm_MailboxID (mf_Suspended m) = mb_id r"
    "\<exists>r \<in> set (db_operations (idb_control db)). pf_OperationID (newProvisionFixture lib m) = op_id r"
    "\<exists>r \<in> set (db_outbox (idb_control db)). pf_OutboxID (newProvisionFixture lib m) = ob_id r"
    "\<exists>r \<in> set (idb_principals db). mpm_PrincipalID (mf_Mailbox m) = ip_id r"
    "\<exists>r \<in> set (idb_principals db). mpm_PrincipalID (mf_Suspended m) = ip_id r"
    "\<exists>r \<in> set (idb_principals db). apm_PrincipalID (mf_Administrator m) = ip_id r"
    "\<exists>r \<in> set (idb_principals db). apm_PrincipalID (mf_MFAInsufficient m) = ip_id r"
    "\<exists>r \<in> set (idb_permissions db). apm_PrincipalID (mf_Administrator m) = pp_principal_id r \<and>
       PermissionPortalAdminAccess = pp_permission_name r"
    "\<exists>r \<in> set (idb_permissions db). apm_PrincipalID (mf_MFAInsufficient m) = pp_principal_id r \<and>
       PermissionPortalAdminAccess = pp_permission_name r"
    by (rule has_row_mem permissions_mem, rule presentD [OF assms(1)])+
  show ?thesis
    by (insert assms(2,3), unfold fixture_inserts_def fixture_rows_ok_def Let_def list.set insert_iff empty_iff,
        elim disjE FalseE; hypsubst; rule insert_idleI)
      (auto simp: table_defs tenant_fixture_def domain_fixture_def mailbox_fixture_def new_mailbox_def
        operation_fixture_def new_operation_def outbox_fixture_def mailbox_principal_fixture_def Let_def
        administrator_fixture_def permission_fixture_def bex_disj_distrib p)
qed

definition quiet_server :: "bootstrap_env \<Rightarrow> bool" where
  \<comment> \<open>The migrations are in, no round trip fails and nobody else commits.\<close>
  "quiet_server env \<longleftrightarrow> undisturbed env \<and> faultless env \<and> be_schemaReady env \<and> be_migrationApplied env"

lemma quiet_finish: "faultless env \<Longrightarrow> finish_transaction env (Inr x, t) = (Inr x, tx_view t)"
  by (simp add: finish_transaction_def commit_def faultless_def)

lemma quiet_tx_query:
  assumes "undisturbed env" "faultless env"
  shows "tx_query env s t = (s (tx_view t), (others_commit env t)\<lparr>tx_trip := tx_trip t + 1\<rparr>)"
    "tx_view (others_commit env t) = tx_view t" "tx_written (others_commit env t) = tx_written t"
  using assms by (auto simp: tx_query_def others_commit_def undisturbed_def Let_def)

lemma quiet_prepare:
  assumes "quiet_server env"
  shows "fst (prepareTransaction env (begin_transaction db)) = Inr ()"
    "tx_view (snd (prepareTransaction env (begin_transaction db))) = db"
    "\<not> tx_written (snd (prepareTransaction env (begin_transaction db)))"
  using prepared [of env db] assms
  by (auto simp: quiet_server_def prepareTransaction_def or_database_def quiet_tx_query)

lemma quiet_verify:
  assumes "quiet_server env" "fixture_present lib m (tx_view t)"
  shows "fst (verifyFixture env lib m t) = Inr ()" "tx_view (snd (verifyFixture env lib m t)) = tx_view t"
    "tx_written (snd (verifyFixture env lib m t)) = tx_written t"
  using assms verifyFixture_decides [of env lib m]
  by (auto simp: quiet_server_def decides_def reads_def reading_def settled_def)

lemma quiet_exec:
  assumes "quiet_server env" "s (tx_view t) = Inr (k, db)"
  shows "fst (tx_exec env s t) = Inr k" "tx_view (snd (tx_exec env s t)) = db" "tx_written (snd (tx_exec env s t))"
  using assms by (auto simp: tx_exec_def Let_def quiet_tx_query quiet_server_def)

lemma insert_all_idle:
  assumes "quiet_server env" "\<forall>s \<in> set ss. s (tx_view t) = Inr (0, tx_view t)"
  shows "fst (insert_all env ss changed t) = Inr changed \<and> tx_view (snd (insert_all env ss changed t)) = tx_view t"
  using assms(2)
proof (induction ss arbitrary: t)
  case (Cons s ss)
  then show ?case
    using quiet_exec [OF assms(1), of s t 0 "tx_view t"] Cons.IH [of "snd (tx_exec env s t)"]
    by (simp add: or_database_def on_result_def)
qed simp

lemma Apply_body:
  assumes "pool" "manifest_Validate uc authority m = None" "faultless env"
  shows "Apply env lib uc authority pool m db =
    finish_transaction env (apply_transaction env lib m (begin_transaction db))"
    "Remove env lib uc authority pool m db =
    finish_transaction env (remove_transaction env lib m (begin_transaction db))"
  using assms by (simp_all add: Apply_def Remove_def in_transaction_def faultless_def)

lemma apply_again:
  assumes "quiet_server env" "manifest_Validate uc authority m = None" "uuid_texts lib" "fixture_present lib m db"
  shows "Apply env lib uc authority True m db = (Inr False, db)"
proof -
  let ?p = "snd (prepareTransaction env (begin_transaction db))"
  let ?i = "insertFixture env lib m ?p"
  have p: "fst (prepareTransaction env (begin_transaction db)) = Inr ()" "tx_view ?p = db"
    using quiet_prepare [OF assms(1)] by auto
  have i: "fst ?i = Inr False" "tx_view (snd ?i) = db"
    using insert_all_idle [OF assms(1), of "fixture_inserts env lib m" ?p False]
      present_inserts_idle [OF assms(4) valid_rows_ok [OF assms(2,3)], of _ env] p
    by (auto simp: insertFixture_def)
  have v: "fst (verifyFixture env lib m (snd ?i)) = Inr ()" "tx_view (snd (verifyFixture env lib m (snd ?i))) = db"
    using quiet_verify [OF assms(1), of lib m "snd ?i"] assms(4) i by auto
  from p i v have "apply_transaction env lib m (begin_transaction db) =
      (Inr False, snd (verifyFixture env lib m (snd ?i)))"
    by (simp add: apply_transaction_def tx_then_def on_result_def)
  then show ?thesis
    using assms(1) v by (simp add: Apply_body [OF TrueI assms(2)] quiet_server_def quiet_finish)
qed

section \<open>Removing\<close>

definition without_fixture :: "uuid_library \<Rightarrow> Manifest \<Rightarrow> identity_db \<Rightarrow> identity_db" where
  "without_fixture lib m db =
     (let c = idb_control db; provision = newProvisionFixture lib m; principals = set (principalIDs m) in
      db\<lparr>idb_control := c\<lparr>db_tenants := filter (\<lambda>r. t_id r \<noteq> tm_ID (mf_Tenant m)) (db_tenants c),
           db_domains := filter (\<lambda>r. d_id r \<noteq> dm_ID (mf_Domain m)) (db_domains c),
           db_mailboxes := filter (\<lambda>r. mb_id r \<notin> set (mailboxIDs m)) (db_mailboxes c),
           db_operations := filter (\<lambda>r. op_id r \<noteq> pf_OperationID provision) (db_operations c),
           db_attempts := filter (\<lambda>r. at_operation_id r \<noteq> pf_OperationID provision) (db_attempts c),
           db_outbox := filter (\<lambda>r. ob_id r \<noteq> pf_OutboxID provision) (db_outbox c)\<rparr>,
         idb_principals := filter (\<lambda>r. ip_id r \<notin> principals) (idb_principals db),
         idb_permissions := filter (\<lambda>r. pp_principal_id r \<notin> principals) (idb_permissions db),
         idb_sessions := filter (\<lambda>r. us_principal_id r \<notin> principals) (idb_sessions db),
         idb_audit := filter (\<lambda>r. case au_principal_id r of None \<Rightarrow> True | Some p \<Rightarrow> p \<notin> principals) (idb_audit db)\<rparr>)"

primrec run_commands :: "(sql_command \<times> int) list \<Rightarrow> identity_db \<Rightarrow> identity_db option" where
  \<comment> \<open>What the rows are after the commands, when each succeeds and counts what it should.\<close>
  "run_commands [] db = Some db"
| "run_commands (s # ss) db = (case fst s db of Inl e \<Rightarrow> None
     | Inr (k, db') \<Rightarrow> if 0 \<le> snd s \<and> k \<noteq> snd s then None else run_commands ss db')"

lemma delete_all_run:
  assumes "tx_written t"
  shows "tx_base (snd (delete_all env ss t)) = tx_base t \<and>
    (fst (delete_all env ss t) = Inr () \<longrightarrow> run_commands ss (tx_view t) = Some (tx_view (snd (delete_all env ss t))))"
  using assms
proof (induction ss arbitrary: t)
  case (Cons s ss)
  let ?x = "tx_exec env (fst s) t"
  have x: "tx_base (snd ?x) = tx_base t" "tx_written (snd ?x)"
    using tx_exec_cases [of env "fst s" t] Cons.prems by (auto simp: others_commit_def)
  show ?case
  proof (cases "fst ?x")
    case (Inr k)
    then have "fst s (tx_view t) = Inr (k, tx_view (snd ?x))"
      using tx_exec_cases(3) [OF Inr] Cons.prems by (simp add: others_commit_def)
    with Inr x Cons.IH [of "snd ?x"] show ?thesis by (simp add: or_database_def on_result_def)
  qed (use x in \<open>simp add: or_database_def on_result_def\<close>)
qed simp

lemma delete_all_quiet:
  assumes "quiet_server env" "run_commands ss (tx_view t) = Some db"
  shows "fst (delete_all env ss t) = Inr () \<and> tx_view (snd (delete_all env ss t)) = db"
  using assms(2)
proof (induction ss arbitrary: t)
  case (Cons s ss)
  then obtain k db' where s: "fst s (tx_view t) = Inr (k, db')" "\<not> (0 \<le> snd s \<and> k \<noteq> snd s)"
    "run_commands ss db' = Some db" by (auto split: sum.splits if_splits)
  with quiet_exec [OF assms(1), of "fst s" t] Cons.IH [of "snd (tx_exec env (fst s) t)"]
  show ?case by (simp add: or_database_def on_result_def)
qed simp

lemma run_commands_Cons: "run_commands (s # ss) db = Some db' \<longleftrightarrow>
    (\<exists>k mid. fst s db = Inr (k, mid) \<and> \<not> (0 \<le> snd s \<and> k \<noteq> snd s) \<and> run_commands ss mid = Some db')"
  by (auto split: sum.splits)

lemma delete_where_iff: "delete_where lower tb p db = Inr (k, db') \<longleftrightarrow>
    k = int (length (filter p (tb_rows tb db))) \<and> db' = tb_update tb (filter (\<lambda>r. \<not> p r)) db \<and> control_ok lower db'"
  by (auto simp: delete_where_def guard_control_Inr)

lemma fixture_deletes_run:
  assumes "run_commands (fixture_deletes env lib m) db = Some db'"
  shows "db' = without_fixture lib m db" "control_ok (be_lower env) db'"
proof -
  have audit: "(\<lambda>r. \<not> (case au_principal_id r of None \<Rightarrow> False | Some p \<Rightarrow> p \<in> set (principalIDs m))) =
      (\<lambda>r. case au_principal_id r of None \<Rightarrow> True | Some p \<Rightarrow> p \<notin> set (principalIDs m))"
    by (auto simp: fun_eq_iff split: option.splits)
  from assms show "db' = without_fixture lib m db" "control_ok (be_lower env) db'"
    unfolding fixture_deletes_def Let_def run_commands_Cons fst_conv snd_conv delete_where_iff
    by (auto simp: without_fixture_def Let_def table_defs audit simp del: run_commands.simps(2))
qed

lemma deleteFixture_cases:
  assumes "tx_ok env db t" "\<not> tx_written t" "deleteFixture env lib m t = (r, t')"
  shows "by_others env db (tx_base t') \<and> (undisturbed env \<longrightarrow> tx_base t' = tx_view t) \<and>
    (r = Inr () \<longrightarrow> tx_view t' = without_fixture lib m (tx_base t') \<and> control_ok (be_lower env) (tx_view t'))"
proof -
  let ?u = "(others_commit env t)\<lparr>tx_written := True\<rparr>"
  obtain s ss where ss: "fixture_deletes env lib m = s # ss" by (simp add: fixture_deletes_def Let_def)
  then have "deleteFixture env lib m t = delete_all env (fixture_deletes env lib m) ?u"
    by (simp add: deleteFixture_def tx_exec_others [OF assms(2)])
  with assms(3) have t': "delete_all env (fixture_deletes env lib m) ?u = (r, t')" by simp
  have u: "tx_view ?u = tx_base ?u" "by_others env db (tx_base ?u)" "tx_written ?u"
    "undisturbed env \<Longrightarrow> tx_base ?u = tx_view t"
    using assms(1,2) by (auto simp: others_commit_def Let_def tx_ok_def undisturbed_def intro: others_race)
  show ?thesis
    using delete_all_run [of ?u env "fixture_deletes env lib m"] fixture_deletes_run [of env lib m "tx_view ?u"] u
    unfolding t' by simp
qed

lemma footprint_reads: "reads env (fixtureFootprint env lib m)" "reads env (ensureRemovalScope env lib m)"
  unfolding fixtureFootprint_def [abs_def] ensureRemovalScope_def [abs_def] by (intro reads_query reads_simple)+

lemma footprint_settled:
  assumes "settled env t"
  shows "fst (fixtureFootprint env lib m t) = Inr n \<Longrightarrow> n = footprint lib m (tx_view t)"
    "fst (ensureRemovalScope env lib m t) = Inr () \<Longrightarrow> \<not> extra_data lib m (tx_view t)"
    "faultless env \<Longrightarrow> fst (fixtureFootprint env lib m t) = Inr (footprint lib m (tx_view t))"
    "faultless env \<Longrightarrow> \<not> extra_data lib m (tx_view t) \<Longrightarrow> fst (ensureRemovalScope env lib m t) = Inr ()"
  using tx_query_settled [OF assms, of "\<lambda>db. Inr (footprint lib m db)"]
    tx_query_settled [OF assms, of "\<lambda>db. Inr (extra_data lib m db)"]
  by (auto simp: fixtureFootprint_def ensureRemovalScope_def or_database_def on_result_def query_cases
      split: sum.splits if_splits dest: arg_cong [of _ _ "\<lambda>r. r = Inr _"])

lemma remove_transaction_cases:
  assumes "remove_transaction env lib m (begin_transaction db) = (r, t)"
  shows "by_others env db (tx_base t) \<and> (r = Inr False \<longrightarrow> tx_view t = tx_base t) \<and>
    (r = Inr True \<longrightarrow> tx_view t = without_fixture lib m (tx_base t) \<and>
      (undisturbed env \<longrightarrow> tx_base t = db \<and> fixture_present lib m db \<and> \<not> extra_data lib m db))"
proof -
  let ?p = "snd (prepareTransaction env (begin_transaction db))"
  let ?f = "snd (fixtureFootprint env lib m ?p)"
  let ?v = "snd (verifyFixture env lib m ?f)"
  let ?s = "snd (ensureRemovalScope env lib m ?v)"
  let ?d = "snd (deleteFixture env lib m ?s)"
  have rd: "reading env ?p ?f" "reading env ?f ?v" "reading env ?v ?s"
    using footprint_reads verifyFixture_decides [of env lib m] by (simp_all add: reads_def decides_def)
  have ok: "tx_ok env db ?p" "tx_ok env db ?f" "tx_ok env db ?v" "tx_ok env db ?s"
    and w: "\<not> tx_written ?p" "\<not> tx_written ?f" "\<not> tx_written ?v" "\<not> tx_written ?s"
    using rd prepared(1,2) [of env db] by (simp_all add: reading_def)
  have q: "tx_view ?p = db \<and> tx_view ?f = db \<and> tx_view ?v = db \<and> tx_view ?s = db" if "undisturbed env"
    using rd prepared(3) [OF that, of db] that by (simp add: reading_def settled_def)
  note d = deleteFixture_cases [OF ok(4) w(4) prod.collapse [symmetric]]
  have v: "fst (verifyFixture env lib m ?f) = Inr () \<Longrightarrow> undisturbed env \<Longrightarrow> fixture_present lib m db"
    using verifyFixture_decides [of env lib m] q by (auto simp: decides_def settled_def)
  have s: "fst (ensureRemovalScope env lib m ?v) = Inr () \<Longrightarrow> undisturbed env \<Longrightarrow> \<not> extra_data lib m db"
    using footprint_settled(2) [of env ?v lib m] q by (simp add: settled_def)
  show ?thesis
    using assms ok w d v s q unfolding remove_transaction_def tx_then_def on_result_def tx_ok_def
    by (auto split: sum.splits if_splits)
qed

end
