(* ===== verification/Test_Cycle.thy ===== *)
theory Test_Cycle
  imports Test_Removal
begin

text \<open>
  What a removal leaves, and the whole cycle: the fixture created on a database that
  knows nothing of it, created again, and removed.
\<close>

section \<open>What a removal takes away\<close>

definition tenant_removed :: "uuid \<Rightarrow> identity_db \<Rightarrow> identity_db \<Rightarrow> bool" where
  \<comment> \<open>Every row of the tenant is gone and every row of another tenant is still there.\<close>
  "tenant_removed tenant a b \<longleftrightarrow> (let c = idb_control a; d = idb_control b in
     set (db_tenants d) = {r \<in> set (db_tenants c). t_id r \<noteq> tenant} \<and>
     set (db_domains d) = {r \<in> set (db_domains c). d_tenant_id r \<noteq> tenant} \<and>
     set (db_mailboxes d) = {r \<in> set (db_mailboxes c). mb_tenant_id r \<noteq> tenant} \<and>
     set (db_operations d) = {r \<in> set (db_operations c). op_tenant_id r \<noteq> tenant} \<and>
     set (db_attempts d) = {r \<in> set (db_attempts c). at_tenant_id r \<noteq> tenant} \<and>
     set (db_outbox d) = {r \<in> set (db_outbox c). ob_tenant_id r \<noteq> tenant} \<and>
     set (idb_principals b) = {r \<in> set (idb_principals a). ip_tenant_id r \<noteq> tenant})"

lemma has_rowD: "has_row key k p rows \<Longrightarrow> distinct (map key rows) \<Longrightarrow> r \<in> set rows \<Longrightarrow> key r = k \<Longrightarrow> p r"
  using find_row_unique [of key rows r] by (auto simp: has_row_iff)

lemma control_okD:
  assumes "control_ok lower db"
  shows "distinct (map t_id (db_tenants (idb_control db)))" "distinct (map d_id (db_domains (idb_control db)))"
    "distinct (map mb_id (db_mailboxes (idb_control db)))" "distinct (map op_id (db_operations (idb_control db)))"
    "distinct (map ob_id (db_outbox (idb_control db)))" "distinct (map ip_id (idb_principals db))"
  using assms by (simp_all add: control_ok_def fixture_constraints_def identity_constraints_def identity_keys_def
      schema_constraints_def key_constraints_def)

lemma control_ok_attempt:
  assumes "control_ok lower db"
  shows "r \<in> set (db_attempts (idb_control db)) \<Longrightarrow>
      \<exists>q \<in> set (db_operations (idb_control db)). op_id q = at_operation_id r \<and> op_tenant_id q = at_tenant_id r"
proof -
  let ?c = "idb_control db"
  have "list_all (\<lambda>a. (at_operation_id a, at_tenant_id a) \<in>
      set (map (\<lambda>r. (op_id r, op_tenant_id r)) (db_operations ?c))) (db_attempts ?c)"
    using assms by (simp add: control_ok_def fixture_constraints_def identity_constraints_def
        schema_constraints_def key_constraints_def)
  then show "r \<in> set (db_attempts ?c) \<Longrightarrow>
      \<exists>q \<in> set (db_operations ?c). op_id q = at_operation_id r \<and> op_tenant_id q = at_tenant_id r"
    by (force simp: list_all_iff)
qed

lemma without_fixture_removes_tenant:
  assumes "control_ok lower db" "fixture_present lib m db" "\<not> extra_data lib m db"
  shows "tenant_removed (tm_ID (mf_Tenant m)) db (without_fixture lib m db)"
proof -
  let ?T = "tm_ID (mf_Tenant m)"
  let ?c = "idb_control db"
  let ?o = "pf_OperationID (newProvisionFixture lib m)"
  note k = control_okD [OF assms(1)]
  note p = presentD [OF assms(2)]
  have x: "r \<in> set (db_domains ?c) \<Longrightarrow> d_tenant_id r = ?T \<Longrightarrow> d_id r = dm_ID (mf_Domain m)"
    "r1 \<in> set (db_mailboxes ?c) \<Longrightarrow> mb_tenant_id r1 = ?T \<Longrightarrow> mb_id r1 \<in> set (mailboxIDs m)"
    "r2 \<in> set (idb_principals db) \<Longrightarrow> ip_tenant_id r2 = ?T \<Longrightarrow> ip_id r2 \<in> set (principalIDs m)"
    "r3 \<in> set (db_operations ?c) \<Longrightarrow> op_tenant_id r3 = ?T \<Longrightarrow> op_id r3 = ?o"
    "r4 \<in> set (db_outbox ?c) \<Longrightarrow> ob_tenant_id r4 = ?T \<Longrightarrow> ob_id r4 = pf_OutboxID (newProvisionFixture lib m)"
    "r5 \<in> set (db_attempts ?c) \<Longrightarrow> at_tenant_id r5 = ?T \<Longrightarrow> at_operation_id r5 = ?o"
    for r r1 r2 r3 r4 r5 using assms(3) unfolding extra_data_def Let_def list_ex_iff by blast+
  have d: "r \<in> set (db_domains ?c) \<Longrightarrow> d_id r = dm_ID (mf_Domain m) \<Longrightarrow> d_tenant_id r = ?T" for r
    using has_rowD [OF p(2) k(2)] by (simp add: domain_matches_def)
  have mb: "r \<in> set (db_mailboxes ?c) \<Longrightarrow> mb_id r \<in> set (mailboxIDs m) \<Longrightarrow> mb_tenant_id r = ?T" for r
    using has_rowD [OF p(3) k(3)] has_rowD [OF p(4) k(3)] by (auto simp: mailbox_matches_def mailboxIDs_def)
  have op: "r \<in> set (db_operations ?c) \<Longrightarrow> op_id r = ?o \<Longrightarrow> op_tenant_id r = ?T" for r
    using has_rowD [OF p(5) k(4)] by (simp add: operation_matches_def Let_def)
  have ob: "r \<in> set (db_outbox ?c) \<Longrightarrow> ob_id r = pf_OutboxID (newProvisionFixture lib m) \<Longrightarrow> ob_tenant_id r = ?T" for r
    using has_rowD [OF p(6) k(5)] by (simp add: outbox_matches_def Let_def)
  have ip: "r \<in> set (idb_principals db) \<Longrightarrow> ip_id r \<in> set (principalIDs m) \<Longrightarrow> ip_tenant_id r = ?T" for r
    using has_rowD [OF p(7) k(6)] has_rowD [OF p(8) k(6)] has_rowD [OF p(9) k(6)] has_rowD [OF p(10) k(6)]
    by (auto simp: principal_matches_def principalIDs_def)
  have "r \<in> set (db_attempts ?c) \<Longrightarrow> at_operation_id r = ?o \<Longrightarrow> at_tenant_id r = ?T" for r
    using control_ok_attempt [OF assms(1), of r] op by auto
  with x d mb op ob ip show ?thesis
    unfolding tenant_removed_def without_fixture_def Let_def by (auto 0 3)
qed

text \<open>(C32) Removing the fixture is all or nothing and takes away exactly what it should. Whatever others
  commit meanwhile and whatever fails, the rows end up as the others left them or without the fixture's rows,
  and the answer says which. On a database nobody else writes to, a removal that reports a change removed
  every row of the fixture's tenant, and kept every row of every other tenant.\<close>

theorem bootstrap_remove_exact:
  assumes "Remove env lib uc authority pool m db = (r, db')"
  shows "\<exists>base. by_others env db base \<and> (db' = base \<or> db' = without_fixture lib m base) \<and>
    (\<forall>removed. r = Inr removed \<longrightarrow> db' = (if removed then without_fixture lib m base else base)) \<and>
    (undisturbed env \<longrightarrow> control_ok (be_lower env) db \<longrightarrow> r = Inr True \<longrightarrow>
      tenant_removed (tm_ID (mf_Tenant m)) db db')"
proof -
  have "(\<exists>e. r = Inl e \<and> db' = db) \<or> (\<exists>r0 t. remove_transaction env lib m (begin_transaction db) = (r0, t) \<and>
      finish_transaction env (r0, t) = (r, db'))"
    using assms by (auto simp: Remove_def in_transaction_def split: if_splits option.splits) (metis prod.collapse)+
  then consider e where "r = Inl e" "db' = db"
    | r0 t where "remove_transaction env lib m (begin_transaction db) = (r0, t)"
      "finish_transaction env (r0, t) = (r, db')" by blast
  then show ?thesis
  proof cases
    case (2 r0 t)
    note c = remove_transaction_cases [OF 2(1)]
    from finish_cases [OF 2(2)] c have "(db' = tx_base t \<or> db' = without_fixture lib m (tx_base t)) \<and>
        (\<forall>removed. r = Inr removed \<longrightarrow> r0 = Inr removed \<and>
          db' = (if removed then without_fixture lib m (tx_base t) else tx_base t))"
      by (elim disjE exE conjE) (auto split: if_splits)
    moreover from this c have "undisturbed env \<longrightarrow> control_ok (be_lower env) db \<longrightarrow> r = Inr True \<longrightarrow>
        tenant_removed (tm_ID (mf_Tenant m)) db db'"
      using without_fixture_removes_tenant by auto
    ultimately show ?thesis using c by (intro exI [of _ "tx_base t"]) auto
  qed (auto intro: exI [of _ db])
qed

end
