(* ===== verification/Test_Fresh.thy ===== *)
theory Test_Fresh
  imports Test_Cycle
begin

text \<open>
  Adding rows to tables whose constraints hold: a row that passes its checks, clashes
  with no other and whose references exist keeps them. With this the whole cycle of
  the fixture is computed on a database that knows nothing of it.
\<close>

section \<open>The constraints\<close>

definition rows_checked :: "(nat \<Rightarrow> nat) \<Rightarrow> identity_db \<Rightarrow> bool" where
  "rows_checked lower db \<longleftrightarrow> (let c = idb_control db in
     (\<forall>r \<in> set (db_tenants c). row_ok tenant_checks r) \<and> (\<forall>r \<in> set (db_domains c). row_ok (domain_checks lower) r) \<and>
     (\<forall>r \<in> set (db_mailboxes c). row_ok mailbox_checks r) \<and> (\<forall>r \<in> set (db_operations c). row_ok operation_checks r) \<and>
     (\<forall>r \<in> set (db_attempts c). row_ok attempt_checks r) \<and> (\<forall>r \<in> set (db_outbox c). row_ok outbox_checks r) \<and>
     (\<forall>r \<in> set (idb_principals db). row_ok principal_checks r) \<and>
     (\<forall>r \<in> set (idb_permissions db). row_ok permission_checks r) \<and>
     (\<forall>r \<in> set (idb_flows db). row_ok flow_checks r) \<and> (\<forall>r \<in> set (idb_sessions db). row_ok session_checks r) \<and>
     (\<forall>r \<in> set (idb_audit db). row_ok audit_checks r))"

definition keys_unique :: "identity_db \<Rightarrow> bool" where
  "keys_unique db \<longleftrightarrow> (let c = idb_control db in
     distinct (map t_id (db_tenants c)) \<and> distinct (map d_id (db_domains c)) \<and> distinct (map d_name (db_domains c)) \<and>
     distinct (map mb_id (db_mailboxes c)) \<and> distinct (map (\<lambda>m. (mb_domain_id m, mb_local_part m)) (db_mailboxes c)) \<and>
     distinct (map op_id (db_operations c)) \<and>
     distinct (map (\<lambda>r. (op_tenant_id r, op_idempotency_key r)) (db_operations c)) \<and>
     distinct (map at_id (db_attempts c)) \<and> distinct (map (\<lambda>a. (at_operation_id a, at_attempt_number a)) (db_attempts c)) \<and>
     distinct (map (\<lambda>a. (at_operation_id a, at_lease_epoch a)) (db_attempts c)) \<and>
     distinct (map ob_id (db_outbox c)) \<and> distinct (map ob_operation_id (db_outbox c)) \<and>
     distinct (map ip_id (idb_principals db)) \<and>
     distinct (map (\<lambda>p. (ip_oidc_issuer p, ip_oidc_subject p)) (idb_principals db)) \<and>
     distinct (map (\<lambda>p. (pp_principal_id p, pp_permission_name p)) (idb_permissions db)) \<and>
     distinct (map af_id (idb_flows db)) \<and> distinct (map af_state_digest (idb_flows db)) \<and>
     distinct (map us_id (idb_sessions db)) \<and> distinct (map us_session_digest (idb_sessions db)) \<and>
     distinct (map au_id (idb_audit db)))"

definition references_kept :: "identity_db \<Rightarrow> bool" where
  "references_kept db \<longleftrightarrow> (let c = idb_control db in
     d_tenant_id ` set (db_domains c) \<subseteq> t_id ` set (db_tenants c) \<and>
     (\<lambda>m. (mb_domain_id m, mb_tenant_id m)) ` set (db_mailboxes c) \<subseteq> (\<lambda>d. (d_id d, d_tenant_id d)) ` set (db_domains c) \<and>
     op_tenant_id ` set (db_operations c) \<subseteq> t_id ` set (db_tenants c) \<and>
     (\<lambda>a. (at_operation_id a, at_tenant_id a)) ` set (db_attempts c) \<subseteq> (\<lambda>r. (op_id r, op_tenant_id r)) ` set (db_operations c) \<and>
     (\<lambda>e. (ob_operation_id e, ob_tenant_id e)) ` set (db_outbox c) \<subseteq> (\<lambda>r. (op_id r, op_tenant_id r)) ` set (db_operations c) \<and>
     ip_tenant_id ` set (idb_principals db) \<subseteq> t_id ` set (db_tenants c) \<and>
     (\<forall>p \<in> set (idb_principals db). \<forall>m. ip_mailbox_id p = Some m \<longrightarrow>
        (m, ip_tenant_id p) \<in> (\<lambda>r. (mb_id r, mb_tenant_id r)) ` set (db_mailboxes c)) \<and>
     (\<lambda>s. (us_principal_id s, us_oidc_issuer s, us_oidc_subject s)) ` set (idb_sessions db) \<subseteq>
        (\<lambda>p. (ip_id p, ip_oidc_issuer p, ip_oidc_subject p)) ` set (idb_principals db) \<and>
     (\<forall>a \<in> set (idb_audit db). \<forall>p. au_principal_id a = Some p \<longrightarrow> p \<in> ip_id ` set (idb_principals db)))"

lemma list_all_option: "list_all (\<lambda>p. case f p of None \<Rightarrow> True | Some m \<Rightarrow> Q p m) xs \<longleftrightarrow>
    (\<forall>p \<in> set xs. \<forall>m. f p = Some m \<longrightarrow> Q p m)"
  by (auto simp: list_all_iff split: option.splits)

lemmas control_ok_unfold = control_ok_def fixture_constraints_def directory_constraints_def identity_constraints_def
  schema_constraints_def list_all_append row_constraints_iff identity_keys_def key_constraints_def
  rows_checked_def keys_unique_def references_kept_def Let_def list.pred_inject snd_conv list_all_option list_all_iff
  set_map image_subset_iff

lemma control_ok_parts:
  "control_ok lower db \<longleftrightarrow>
    (list_all snd (row_constraints tenant_checks (db_tenants (idb_control db))) \<and>
     list_all snd (row_constraints (domain_checks lower) (db_domains (idb_control db))) \<and>
     distinct (map d_name (db_domains (idb_control db))) \<and>
     list_all (\<lambda>d. d_tenant_id d \<in> set (map t_id (db_tenants (idb_control db)))) (db_domains (idb_control db))) \<and>
    identity_ok db"
  by (simp add: control_ok_def fixture_constraints_def directory_constraints_def identity_ok_def)

lemma control_ok_iff: "control_ok lower db \<longleftrightarrow> rows_checked lower db \<and> keys_unique db \<and> references_kept db"
  unfolding control_ok_parts identity_ok_iff schema_ok_iff row_constraints_iff identity_keys_def key_constraints_def
    list.pred_inject snd_conv rows_checked_def keys_unique_def references_kept_def Let_def
  unfolding list_all_option list_all_iff set_map image_subset_iff
  by (simp only: list.set ball_empty conj_ac simp_thms)

lemma unique_snoc: "distinct (map f (xs @ [r])) \<longleftrightarrow> distinct (map f xs) \<and> (\<forall>q \<in> set xs. f r \<noteq> f q)"
  by auto

lemma ball_snoc: "(\<forall>q \<in> set (xs @ [r]). P q) \<longleftrightarrow> (\<forall>q \<in> set xs. P q) \<and> P r"
  by auto

lemma image_snoc: "f ` set (xs @ [r]) = insert (f r) (f ` set xs)"
  by auto

lemmas insert_simps = rows_checked_def keys_unique_def references_kept_def Let_def table_defs unique_snoc ball_snoc
  image_snoc subset_insertI2 insertCI

definition added :: "'r table \<Rightarrow> 'r \<Rightarrow> identity_db \<Rightarrow> identity_db" where
  "added tb r = tb_update tb (\<lambda>rows. rows @ [r])"

definition insertable :: "(nat \<Rightarrow> nat) \<Rightarrow> 'r table \<Rightarrow> 'r \<Rightarrow> identity_db \<Rightarrow> bool" where
  "insertable lower tb r db \<longleftrightarrow> row_ok (tb_checks tb) r \<and> (\<forall>q \<in> set (tb_rows tb db). \<not> tb_clash tb r q) \<and>
     control_ok lower (added tb r db)"

lemma insertableD:
  assumes "insertable lower tb r db"
  shows "insert_missing lower tb r db = Inr (1, added tb r db)" "control_ok lower (added tb r db)"
proof -
  from assms have "first_violation (row_constraints (tb_checks tb) [r]) = None"
    by (simp add: row_constraints_iff insertable_def)
  with assms show "insert_missing lower tb r db = Inr (1, added tb r db)" "control_ok lower (added tb r db)"
    unfolding insert_missing_def added_def insertable_def
    by (auto simp: list_ex_iff guard_control_Inr simp del: first_violation_None)
qed

lemma control_ok_insert:
  assumes "control_ok lower db"
  shows "row_ok tenant_checks t \<Longrightarrow> \<forall>q \<in> set (tb_rows tenants db). \<not> tb_clash tenants t q \<Longrightarrow>
      insertable lower tenants t db"
    "row_ok (domain_checks lower) d \<Longrightarrow> \<forall>q \<in> set (tb_rows (domains lower) db). \<not> tb_clash (domains lower) d q \<Longrightarrow>
      d_tenant_id d \<in> t_id ` set (db_tenants (idb_control db)) \<Longrightarrow>
      insertable lower (domains lower) d db"
    "row_ok mailbox_checks b \<Longrightarrow> \<forall>q \<in> set (tb_rows mailboxes db). \<not> tb_clash mailboxes b q \<Longrightarrow>
      (mb_domain_id b, mb_tenant_id b) \<in> (\<lambda>d. (d_id d, d_tenant_id d)) ` set (db_domains (idb_control db)) \<Longrightarrow>
      insertable lower mailboxes b db"
    "row_ok operation_checks r \<Longrightarrow> \<forall>q \<in> set (tb_rows operations db). \<not> tb_clash operations r q \<Longrightarrow>
      op_tenant_id r \<in> t_id ` set (db_tenants (idb_control db)) \<Longrightarrow>
      insertable lower operations r db"
    "row_ok outbox_checks e \<Longrightarrow> \<forall>q \<in> set (tb_rows outbox_events db). \<not> tb_clash outbox_events e q \<Longrightarrow>
      (ob_operation_id e, ob_tenant_id e) \<in> (\<lambda>r. (op_id r, op_tenant_id r)) ` set (db_operations (idb_control db)) \<Longrightarrow>
      insertable lower outbox_events e db"
    "row_ok principal_checks p \<Longrightarrow> \<forall>q \<in> set (tb_rows identity_principals db). \<not> tb_clash identity_principals p q \<Longrightarrow>
      ip_tenant_id p \<in> t_id ` set (db_tenants (idb_control db)) \<Longrightarrow>
      \<forall>i. ip_mailbox_id p = Some i \<longrightarrow>
        (i, ip_tenant_id p) \<in> (\<lambda>r. (mb_id r, mb_tenant_id r)) ` set (db_mailboxes (idb_control db)) \<Longrightarrow>
      insertable lower identity_principals p db"
    "row_ok permission_checks g \<Longrightarrow> \<forall>q \<in> set (tb_rows principal_permissions db). \<not> tb_clash principal_permissions g q \<Longrightarrow>
      insertable lower principal_permissions g db"
  using assms unfolding insertable_def control_ok_iff
  by (simp_all add: added_def insert_simps del: set_append map_append)

section \<open>A database without the fixture\<close>

definition unknown_fixture :: "uuid_library \<Rightarrow> Manifest \<Rightarrow> identity_db \<Rightarrow> bool" where
  \<comment> \<open>What an empty footprint says, row by row.\<close>
  "unknown_fixture lib m db \<longleftrightarrow> (let c = idb_control db; provision = newProvisionFixture lib m in
     (\<forall>r \<in> set (db_tenants c). t_id r \<noteq> tm_ID (mf_Tenant m)) \<and>
     (\<forall>r \<in> set (db_domains c). d_id r \<noteq> dm_ID (mf_Domain m) \<and> d_name r \<noteq> dm_Name (mf_Domain m)) \<and>
     (\<forall>r \<in> set (db_mailboxes c). mb_id r \<notin> set (mailboxIDs m) \<and> (mb_domain_id r = dm_ID (mf_Domain m) \<longrightarrow>
        mb_local_part r \<noteq> mpm_LocalPart (mf_Mailbox m) \<and> mb_local_part r \<noteq> mpm_LocalPart (mf_Suspended m))) \<and>
     (\<forall>r \<in> set (idb_principals db). ip_id r \<notin> set (principalIDs m) \<and>
        (ip_oidc_issuer r = mf_OIDCIssuer m \<longrightarrow> ip_oidc_subject r \<notin> set (allSubjects m))) \<and>
     (\<forall>r \<in> set (idb_permissions db). pp_principal_id r \<notin> set (principalIDs m)) \<and>
     (\<forall>r \<in> set (db_operations c). op_id r \<noteq> pf_OperationID provision \<and>
        (op_tenant_id r = tm_ID (mf_Tenant m) \<longrightarrow> op_idempotency_key r \<noteq> pf_IdempotencyKey provision)) \<and>
     (\<forall>r \<in> set (db_outbox c). ob_id r \<noteq> pf_OutboxID provision \<and> ob_operation_id r \<noteq> pf_OperationID provision))"

lemma footprint_empty: "footprint lib m db = 0 \<longleftrightarrow> unknown_fixture lib m db"
  by (simp add: footprint_def count_rows_def unknown_fixture_def Let_def table_defs filter_empty_conv ball_conj_distrib
      conj_assoc)

text \<open>The states of the tables after each insertion into a database that does not know the fixture.\<close>

definition stage_directory :: "bootstrap_env \<Rightarrow> Manifest \<Rightarrow> identity_db \<Rightarrow> identity_db" where
  "stage_directory env m db =
     added (domains (be_lower env)) (domain_fixture m) (added tenants (tenant_fixture m) db)"

definition stage_mailboxes :: "bootstrap_env \<Rightarrow> Manifest \<Rightarrow> identity_db \<Rightarrow> identity_db" where
  "stage_mailboxes env m db = added mailboxes (mailbox_fixture (be_now env) m (mf_Suspended m))
     (added mailboxes (mailbox_fixture (be_now env) m (mf_Mailbox m)) (stage_directory env m db))"

definition stage_operation :: "bootstrap_env \<Rightarrow> uuid_library \<Rightarrow> Manifest \<Rightarrow> identity_db \<Rightarrow> identity_db" where
  "stage_operation env lib m db = added operations (operation_fixture (be_now env) lib m) (stage_mailboxes env m db)"

definition stage_outbox :: "bootstrap_env \<Rightarrow> uuid_library \<Rightarrow> Manifest \<Rightarrow> identity_db \<Rightarrow> identity_db" where
  "stage_outbox env lib m db = added outbox_events (outbox_fixture (be_now env) lib m) (stage_operation env lib m db)"

definition stage_principals :: "bootstrap_env \<Rightarrow> uuid_library \<Rightarrow> Manifest \<Rightarrow> identity_db \<Rightarrow> identity_db" where
  "stage_principals env lib m db = (let now = be_now env in
     added identity_principals (administrator_fixture now m (mf_MFAInsufficient m))
     (added identity_principals (mailbox_principal_fixture now m (mf_Suspended m) ''suspended'')
     (added identity_principals (administrator_fixture now m (mf_Administrator m))
     (added identity_principals (mailbox_principal_fixture now m (mf_Mailbox m) ''active'') (stage_outbox env lib m db)))))"

definition with_fixture :: "bootstrap_env \<Rightarrow> uuid_library \<Rightarrow> Manifest \<Rightarrow> identity_db \<Rightarrow> identity_db" where
  "with_fixture env lib m db = (let now = be_now env in
     added principal_permissions (permission_fixture now (mf_MFAInsufficient m))
     (added principal_permissions (permission_fixture now (mf_Administrator m)) (stage_principals env lib m db)))"

lemmas fixture_defs = tenant_fixture_def domain_fixture_def mailbox_fixture_def new_mailbox_def operation_fixture_def
  new_operation_def outbox_fixture_def mailbox_principal_fixture_def administrator_fixture_def permission_fixture_def
  Let_def

lemmas stage_defs = stage_directory_def stage_mailboxes_def stage_operation_def stage_outbox_def stage_principals_def
  with_fixture_def

lemmas fresh_simps = added_def fixture_rows_ok_def unknown_fixture_def table_defs fixture_defs stage_defs

lemma added_control:
  "idb_control (added tenants t db) = (idb_control db)\<lparr>db_tenants := db_tenants (idb_control db) @ [t]\<rparr>"
  "idb_control (added (domains lower) d db) = (idb_control db)\<lparr>db_domains := db_domains (idb_control db) @ [d]\<rparr>"
  "idb_control (added mailboxes b db) = (idb_control db)\<lparr>db_mailboxes := db_mailboxes (idb_control db) @ [b]\<rparr>"
  "idb_control (added operations r db) = (idb_control db)\<lparr>db_operations := db_operations (idb_control db) @ [r]\<rparr>"
  "idb_control (added outbox_events e db) = (idb_control db)\<lparr>db_outbox := db_outbox (idb_control db) @ [e]\<rparr>"
  "idb_control (added identity_principals p db) = idb_control db"
  "idb_control (added principal_permissions g db) = idb_control db"
  by (simp_all add: added_def table_defs)

lemma added_identity:
  "idb_principals (added tenants t db) = idb_principals db" "idb_permissions (added tenants t db) = idb_permissions db"
  "idb_principals (added (domains lower) d db) = idb_principals db"
  "idb_permissions (added (domains lower) d db) = idb_permissions db"
  "idb_principals (added mailboxes b db) = idb_principals db" "idb_permissions (added mailboxes b db) = idb_permissions db"
  "idb_principals (added operations r db) = idb_principals db"
  "idb_permissions (added operations r db) = idb_permissions db"
  "idb_principals (added outbox_events e db) = idb_principals db"
  "idb_permissions (added outbox_events e db) = idb_permissions db"
  "idb_principals (added identity_principals p db) = idb_principals db @ [p]"
  "idb_permissions (added identity_principals p db) = idb_permissions db"
  "idb_principals (added principal_permissions g db) = idb_principals db"
  "idb_permissions (added principal_permissions g db) = idb_permissions db @ [g]"
  by (simp_all add: added_def table_defs)

lemma table_parts:
  "tb_rows tenants db = db_tenants (idb_control db)" "tb_rows (domains lower) db = db_domains (idb_control db)"
  "tb_rows mailboxes db = db_mailboxes (idb_control db)" "tb_rows operations db = db_operations (idb_control db)"
  "tb_rows outbox_events db = db_outbox (idb_control db)" "tb_rows identity_principals db = idb_principals db"
  "tb_rows principal_permissions db = idb_permissions db"
  "tb_clash tenants = (\<lambda>a b. t_id a = t_id b)" "tb_clash (domains lower) = (\<lambda>a b. d_id a = d_id b \<or> d_name a = d_name b)"
  "tb_clash mailboxes = (\<lambda>a b. mb_id a = mb_id b \<or> mb_domain_id a = mb_domain_id b \<and> mb_local_part a = mb_local_part b)"
  "tb_clash operations = (\<lambda>a b. op_id a = op_id b \<or>
     op_tenant_id a = op_tenant_id b \<and> op_idempotency_key a = op_idempotency_key b)"
  "tb_clash outbox_events = (\<lambda>a b. ob_id a = ob_id b \<or> ob_operation_id a = ob_operation_id b)"
  "tb_clash identity_principals = (\<lambda>a b. ip_id a = ip_id b \<or>
     ip_oidc_issuer a = ip_oidc_issuer b \<and> ip_oidc_subject a = ip_oidc_subject b)"
  "tb_clash principal_permissions = (\<lambda>a b. pp_principal_id a = pp_principal_id b \<and>
     pp_permission_name a = pp_permission_name b)"
  by (simp_all add: table_defs)

definition separate :: "Manifest \<Rightarrow> bool" where
  "separate m \<longleftrightarrow> distinct (manifest_identifiers m) \<and> distinct (allSubjects m) \<and>
     mpm_LocalPart (mf_Mailbox m) \<noteq> mpm_LocalPart (mf_Suspended m)"

text \<open>The insertions, one after the other, on tables that do not know the fixture.\<close>

lemma fresh_stages:
  assumes "control_ok (be_lower env) db" "unknown_fixture lib m db" "fixture_rows_ok env lib m" "separate m"
  defines "now \<equiv> be_now env" and "L \<equiv> be_lower env"
  defines "d \<equiv> stage_directory env m db" and "b \<equiv> stage_mailboxes env m db" and "o' \<equiv> stage_operation env lib m db"
    and "e \<equiv> stage_outbox env lib m db" and "p \<equiv> stage_principals env lib m db"
  defines "pm \<equiv> mailbox_principal_fixture now m (mf_Mailbox m) ''active''"
    and "pa \<equiv> administrator_fixture now m (mf_Administrator m)"
    and "ps \<equiv> mailbox_principal_fixture now m (mf_Suspended m) ''suspended''"
    and "pf \<equiv> administrator_fixture now m (mf_MFAInsufficient m)"
  shows "insertable L tenants (tenant_fixture m) db"
    "insertable L (domains L) (domain_fixture m) (added tenants (tenant_fixture m) db)"
    "insertable L mailboxes (mailbox_fixture now m (mf_Mailbox m)) d"
    "insertable L mailboxes (mailbox_fixture now m (mf_Suspended m))
       (added mailboxes (mailbox_fixture now m (mf_Mailbox m)) d)"
    "insertable L operations (operation_fixture now lib m) b"
    "insertable L outbox_events (outbox_fixture now lib m) o'"
    "insertable L identity_principals pm e"
    "insertable L identity_principals pa (added identity_principals pm e)"
    "insertable L identity_principals ps (added identity_principals pa (added identity_principals pm e))"
    "insertable L identity_principals pf
       (added identity_principals ps (added identity_principals pa (added identity_principals pm e)))"
    "insertable L principal_permissions (permission_fixture now (mf_Administrator m)) p"
    "insertable L principal_permissions (permission_fixture now (mf_MFAInsufficient m))
       (added principal_permissions (permission_fixture now (mf_Administrator m)) p)"
proof -
  let ?c = "idb_control db"
  have ut: "\<forall>r \<in> set (db_tenants ?c). t_id r \<noteq> tm_ID (mf_Tenant m)"
    and ud: "\<forall>r \<in> set (db_domains ?c). d_id r \<noteq> dm_ID (mf_Domain m) \<and> d_name r \<noteq> dm_Name (mf_Domain m)"
    and ub: "\<forall>r \<in> set (db_mailboxes ?c). mb_id r \<notin> set (mailboxIDs m) \<and> (mb_domain_id r = dm_ID (mf_Domain m) \<longrightarrow>
      mb_local_part r \<noteq> mpm_LocalPart (mf_Mailbox m) \<and> mb_local_part r \<noteq> mpm_LocalPart (mf_Suspended m))"
    and up: "\<forall>r \<in> set (idb_principals db). ip_id r \<notin> set (principalIDs m) \<and>
      (ip_oidc_issuer r = mf_OIDCIssuer m \<longrightarrow> ip_oidc_subject r \<notin> set (allSubjects m))"
    and ug: "\<forall>r \<in> set (idb_permissions db). pp_principal_id r \<notin> set (principalIDs m)"
    and uo: "\<forall>r \<in> set (db_operations ?c). op_id r \<noteq> pf_OperationID (newProvisionFixture lib m) \<and>
      (op_tenant_id r = tm_ID (mf_Tenant m) \<longrightarrow> op_idempotency_key r \<noteq> pf_IdempotencyKey (newProvisionFixture lib m))"
    and ue: "\<forall>r \<in> set (db_outbox ?c). ob_id r \<noteq> pf_OutboxID (newProvisionFixture lib m) \<and>
      ob_operation_id r \<noteq> pf_OperationID (newProvisionFixture lib m)"
    using assms(2) by (simp_all add: unknown_fixture_def Let_def)
  have rt: "row_ok tenant_checks (tenant_fixture m)" and rd: "row_ok (domain_checks L) (domain_fixture m)"
    and rb: "row_ok mailbox_checks (mailbox_fixture now m (mf_Mailbox m))"
      "row_ok mailbox_checks (mailbox_fixture now m (mf_Suspended m))"
    and ro: "row_ok operation_checks (operation_fixture now lib m)" and re: "row_ok outbox_checks (outbox_fixture now lib m)"
    and rp: "row_ok principal_checks pm" "row_ok principal_checks pa" "row_ok principal_checks ps" "row_ok principal_checks pf"
    and rg: "row_ok permission_checks (permission_fixture now (mf_Administrator m))"
      "row_ok permission_checks (permission_fixture now (mf_MFAInsufficient m))"
    using assms(3) by (simp_all add: fixture_rows_ok_def Let_def now_def L_def pm_def pa_def ps_def pf_def)
  note v = assms(4) [unfolded separate_def manifest_identifiers_def allSubjects_def]
  note ids = mailboxIDs_def principalIDs_def allSubjects_def
  note stages = stage_defs added_control added_identity table_parts
  note abbr = L_def d_def b_def o'_def e_def p_def pm_def pa_def ps_def pf_def now_def
  show 1: "insertable L tenants (tenant_fixture m) db" unfolding L_def
    by (rule control_ok_insert [OF assms(1)]) (use ut rt in \<open>auto simp: table_parts fixture_defs\<close>)
  show 2: "insertable L (domains L) (domain_fixture m) (added tenants (tenant_fixture m) db)"
    by (rule control_ok_insert [OF insertableD(2) [OF 1]]) (use ud rd in \<open>auto simp: stages fixture_defs\<close>)
  have d: "d = added (domains L) (domain_fixture m) (added tenants (tenant_fixture m) db)"
    by (simp add: abbr stage_directory_def)
  show 3: "insertable L mailboxes (mailbox_fixture now m (mf_Mailbox m)) d" unfolding d
    by (rule control_ok_insert [OF insertableD(2) [OF 2]])
      (use ub rb in \<open>auto simp: now_def stages fixture_defs ids\<close>)
  show 4: "insertable L mailboxes (mailbox_fixture now m (mf_Suspended m))
      (added mailboxes (mailbox_fixture now m (mf_Mailbox m)) d)"
    by (rule control_ok_insert [OF insertableD(2) [OF 3]])
      (use ub rb v in \<open>auto simp: abbr stages fixture_defs ids\<close>)
  have b: "b = added mailboxes (mailbox_fixture now m (mf_Suspended m))
      (added mailboxes (mailbox_fixture now m (mf_Mailbox m)) d)"
    by (simp add: abbr stage_mailboxes_def)
  show 5: "insertable L operations (operation_fixture now lib m) b" unfolding b
    by (rule control_ok_insert [OF insertableD(2) [OF 4]])
      (use uo ro in \<open>auto simp: abbr stages fixture_defs\<close>)
  have o': "o' = added operations (operation_fixture now lib m) b" by (simp add: abbr stage_operation_def)
  show 6: "insertable L outbox_events (outbox_fixture now lib m) o'" unfolding o'
    by (rule control_ok_insert [OF insertableD(2) [OF 5]])
      (use ue re in \<open>auto simp: abbr stages fixture_defs\<close>)
  have e: "e = added outbox_events (outbox_fixture now lib m) o'" by (simp add: abbr stage_outbox_def)
  show 7: "insertable L identity_principals pm e" unfolding e
    by (rule control_ok_insert [OF insertableD(2) [OF 6]])
      (use up rp v in \<open>auto simp: abbr stages fixture_defs ids\<close>)
  show 8: "insertable L identity_principals pa (added identity_principals pm e)"
    by (rule control_ok_insert [OF insertableD(2) [OF 7]])
      (use up rp v in \<open>auto simp: abbr stages fixture_defs ids\<close>)
  show 9: "insertable L identity_principals ps (added identity_principals pa (added identity_principals pm e))"
    by (rule control_ok_insert [OF insertableD(2) [OF 8]])
      (use up rp v in \<open>auto simp: abbr stages fixture_defs ids\<close>)
  show 10: "insertable L identity_principals pf
      (added identity_principals ps (added identity_principals pa (added identity_principals pm e)))"
    by (rule control_ok_insert [OF insertableD(2) [OF 9]])
      (use up rp v in \<open>auto simp: abbr stages fixture_defs ids\<close>)
  have p: "p = added identity_principals pf
      (added identity_principals ps (added identity_principals pa (added identity_principals pm e)))"
    by (simp add: abbr stage_principals_def Let_def)
  show 11: "insertable L principal_permissions (permission_fixture now (mf_Administrator m)) p" unfolding p
    by (rule control_ok_insert [OF insertableD(2) [OF 10]])
      (use ug rg v in \<open>auto simp: abbr stages fixture_defs ids\<close>)
  show "insertable L principal_permissions (permission_fixture now (mf_MFAInsufficient m))
      (added principal_permissions (permission_fixture now (mf_Administrator m)) p)"
    by (rule control_ok_insert [OF insertableD(2) [OF 11]])
      (use ug rg v in \<open>auto simp: abbr stages fixture_defs ids\<close>)
qed

end
