(* ===== verification/Test_Round_Trip.thy ===== *)
theory Test_Round_Trip
  imports Test_Fresh
begin

text \<open>
  The whole cycle of the fixture on a database that knows nothing of it: creating it
  succeeds, creating it again changes nothing, and removing it gives back the tables
  as they were, row for row.
\<close>

section \<open>Taking the rows away again\<close>

text \<open>A table that is updated twice, or by a function that leaves its rows alone.\<close>

locale table_lens = table_access +
  assumes update_update: "tb_update tb f (tb_update tb g db) = tb_update tb (\<lambda>rows. f (g rows)) db"
    and update_same: "f (tb_rows tb db) = tb_rows tb db \<Longrightarrow> tb_update tb f db = db"
begin

lemma delete_none:
  assumes "\<forall>q \<in> set (tb_rows tb db). \<not> p q" "control_ok lower db"
  shows "delete_where lower tb p db = Inr (0, db)"
proof -
  have "tb_update tb (filter (\<lambda>r. \<not> p r)) db = db" by (rule update_same) (use assms(1) in simp)
  with assms show ?thesis by (simp add: delete_where_iff)
qed

lemma added_all: "fold (added tb) rs db = tb_update tb (\<lambda>rows. rows @ rs) db"
proof (induction rs arbitrary: db)
  case Nil
  then show ?case by (simp add: update_same)
next
  case (Cons r rs)
  then show ?case by (simp add: added_def update_update)
qed

lemma delete_added:
  assumes "\<forall>r \<in> set rs. p r" "\<forall>q \<in> set (tb_rows tb db). \<not> p q" "control_ok lower db"
  shows "delete_where lower tb p (fold (added tb) rs db) = Inr (int (length rs), db)"
proof -
  have "tb_update tb (\<lambda>rows. filter (\<lambda>r. \<not> p r) (rows @ rs)) db = db"
    by (rule update_same) (use assms(1,2) in simp)
  with assms show ?thesis unfolding added_all by (simp add: delete_where_iff update_update rows_update)
qed

end

interpretation tenants: table_lens tenants
  by unfold_locales (simp_all add: table_defs o_def)

interpretation domains: table_lens "domains lower"
  by unfold_locales (simp_all add: table_defs o_def)

interpretation mailboxes: table_lens mailboxes
  by unfold_locales (simp_all add: table_defs o_def)

interpretation operations: table_lens operations
  by unfold_locales (simp_all add: table_defs o_def)

interpretation outbox_events: table_lens outbox_events
  by unfold_locales (simp_all add: table_defs o_def)

interpretation operation_attempts: table_lens operation_attempts
  by unfold_locales (simp_all add: table_defs o_def)

interpretation identity_principals: table_lens identity_principals
  by unfold_locales (simp_all add: table_defs o_def)

interpretation principal_permissions: table_lens principal_permissions
  by unfold_locales (simp_all add: table_defs o_def)

interpretation user_sessions: table_lens user_sessions
  by unfold_locales (simp_all add: table_defs o_def)

interpretation authentication_audit_events: table_lens authentication_audit_events
  by unfold_locales (simp_all add: table_defs o_def)

section \<open>The cycle\<close>

lemma fresh_inserts_run:
  assumes "control_ok (be_lower env) db" "unknown_fixture lib m db" "fixture_rows_ok env lib m" "separate m"
  shows "run_commands (map (\<lambda>s. (s, 1)) (fixture_inserts env lib m)) db = Some (with_fixture env lib m db)"
    "control_ok (be_lower env) (with_fixture env lib m db)"
proof -
  note i = fresh_stages [OF assms, THEN insertableD(1)]
  note o' = fresh_stages [OF assms, THEN insertableD(2)]
  show "control_ok (be_lower env) (with_fixture env lib m db)"
    using o'(12) by (simp add: with_fixture_def Let_def)
  show "run_commands (map (\<lambda>s. (s, 1)) (fixture_inserts env lib m)) db = Some (with_fixture env lib m db)"
    using i by (simp add: fixture_inserts_def stage_defs Let_def)
qed

lemma insert_all_run:
  assumes "quiet_server env" "run_commands (map (\<lambda>s. (s, 1)) ss) (tx_view t) = Some db"
  shows "fst (insert_all env ss changed t) = Inr (changed \<or> ss \<noteq> []) \<and> tx_view (snd (insert_all env ss changed t)) = db"
  using assms(2)
proof (induction ss arbitrary: t changed)
  case (Cons s ss)
  then obtain db' where s: "s (tx_view t) = Inr (1, db')" "run_commands (map (\<lambda>s. (s, 1)) ss) db' = Some db"
    by (auto split: sum.splits if_splits)
  with quiet_exec [OF assms(1), of s t] Cons.IH [of "snd (tx_exec env s t)" True]
  show ?case by (simp add: or_database_def on_result_def)
qed simp

lemma fresh_deletes_run:
  assumes "control_ok (be_lower env) db" "unknown_fixture lib m db" "fixture_rows_ok env lib m" "separate m"
  shows "run_commands (fixture_deletes env lib m) (with_fixture env lib m db) = Some db"
proof -
  let ?L = "be_lower env"
  let ?P = "set (principalIDs m)"
  let ?w = "with_fixture env lib m db"
  note o' = fresh_stages [OF assms, THEN insertableD(2)]
  have ok: "control_ok ?L ?w" "control_ok ?L (stage_principals env lib m db)" "control_ok ?L (stage_outbox env lib m db)"
    "control_ok ?L (stage_operation env lib m db)" "control_ok ?L (stage_mailboxes env m db)"
    "control_ok ?L (stage_directory env m db)" "control_ok ?L (added tenants (tenant_fixture m) db)"
    using o' by (simp_all add: stage_defs Let_def)
  have refs: "references_kept db" using assms(1) by (simp add: control_ok_iff)
  have old: "\<forall>p \<in> set (idb_principals db). ip_id p \<notin> ?P" "\<forall>r \<in> set (idb_permissions db). pp_principal_id r \<notin> ?P"
    "\<forall>r \<in> set (db_operations (idb_control db)). op_id r \<noteq> pf_OperationID (newProvisionFixture lib m)"
    "\<forall>r \<in> set (db_outbox (idb_control db)). ob_id r \<noteq> pf_OutboxID (newProvisionFixture lib m)"
    "\<forall>r \<in> set (db_mailboxes (idb_control db)). mb_id r \<notin> set (mailboxIDs m)"
    "\<forall>r \<in> set (db_domains (idb_control db)). d_id r \<noteq> dm_ID (mf_Domain m)"
    "\<forall>r \<in> set (db_tenants (idb_control db)). t_id r \<noteq> tm_ID (mf_Tenant m)"
    using assms(2) by (simp_all add: unknown_fixture_def Let_def)
  have audit: "\<forall>a \<in> set (idb_audit db). \<not> (case au_principal_id a of None \<Rightarrow> False | Some p \<Rightarrow> p \<in> ?P)"
    and sessions: "\<forall>s \<in> set (idb_sessions db). us_principal_id s \<notin> ?P"
    and attempts: "\<forall>a \<in> set (db_attempts (idb_control db)). at_operation_id a \<noteq> pf_OperationID (newProvisionFixture lib m)"
    using refs old unfolding references_kept_def Let_def image_subset_iff
    by (fastforce split: option.splits)+
  note parts = stage_defs Let_def added_control added_identity table_parts fixture_defs
  have rows: "idb_audit ?w = idb_audit db" "idb_sessions ?w = idb_sessions db"
    "db_attempts (idb_control (stage_operation env lib m db)) = db_attempts (idb_control db)"
    by (simp_all add: stage_defs Let_def added_def table_defs)
  have "delete_where ?L principal_permissions (\<lambda>r. pp_principal_id r \<in> ?P) (fold (added principal_permissions)
      [permission_fixture (be_now env) (mf_Administrator m), permission_fixture (be_now env) (mf_MFAInsufficient m)]
      (stage_principals env lib m db)) = Inr (2, stage_principals env lib m db)"
    by (subst principal_permissions.delete_added [OF _ _ ok(2)]) (use old(2) in \<open>simp_all add: principalIDs_def parts\<close>)
  then have d3: "delete_where ?L principal_permissions (\<lambda>r. pp_principal_id r \<in> ?P) ?w =
      Inr (2, stage_principals env lib m db)"
    by (simp add: with_fixture_def Let_def)
  have "delete_where ?L identity_principals (\<lambda>r. ip_id r \<in> ?P) (fold (added identity_principals)
      [mailbox_principal_fixture (be_now env) m (mf_Mailbox m) ''active'',
       administrator_fixture (be_now env) m (mf_Administrator m),
       mailbox_principal_fixture (be_now env) m (mf_Suspended m) ''suspended'',
       administrator_fixture (be_now env) m (mf_MFAInsufficient m)] (stage_outbox env lib m db)) =
      Inr (4, stage_outbox env lib m db)"
    by (subst identity_principals.delete_added [OF _ _ ok(3)]) (use old(1) in \<open>simp_all add: principalIDs_def parts\<close>)
  then have d4: "delete_where ?L identity_principals (\<lambda>r. ip_id r \<in> ?P) (stage_principals env lib m db) =
      Inr (4, stage_outbox env lib m db)"
    by (simp add: stage_principals_def Let_def)
  have "delete_where ?L outbox_events (\<lambda>r. ob_id r = pf_OutboxID (newProvisionFixture lib m))
      (fold (added outbox_events) [outbox_fixture (be_now env) lib m] (stage_operation env lib m db)) =
      Inr (1, stage_operation env lib m db)"
    by (subst outbox_events.delete_added [OF _ _ ok(4)]) (use old(4) in \<open>simp_all add: parts\<close>)
  then have d5: "delete_where ?L outbox_events (\<lambda>r. ob_id r = pf_OutboxID (newProvisionFixture lib m))
      (stage_outbox env lib m db) = Inr (1, stage_operation env lib m db)"
    by (simp add: stage_outbox_def)
  have d6: "delete_where ?L operation_attempts (\<lambda>r. at_operation_id r = pf_OperationID (newProvisionFixture lib m))
      (stage_operation env lib m db) = Inr (0, stage_operation env lib m db)"
    by (rule operation_attempts.delete_none [OF _ ok(4)]) (use attempts rows(3) in \<open>simp add: operation_attempts_def\<close>)
  have "delete_where ?L operations (\<lambda>r. op_id r = pf_OperationID (newProvisionFixture lib m))
      (fold (added operations) [operation_fixture (be_now env) lib m] (stage_mailboxes env m db)) =
      Inr (1, stage_mailboxes env m db)"
    by (subst operations.delete_added [OF _ _ ok(5)]) (use old(3) in \<open>simp_all add: parts\<close>)
  then have d7: "delete_where ?L operations (\<lambda>r. op_id r = pf_OperationID (newProvisionFixture lib m))
      (stage_operation env lib m db) = Inr (1, stage_mailboxes env m db)"
    by (simp add: stage_operation_def)
  have "delete_where ?L mailboxes (\<lambda>r. mb_id r \<in> set (mailboxIDs m)) (fold (added mailboxes)
      [mailbox_fixture (be_now env) m (mf_Mailbox m), mailbox_fixture (be_now env) m (mf_Suspended m)]
      (stage_directory env m db)) = Inr (2, stage_directory env m db)"
    by (subst mailboxes.delete_added [OF _ _ ok(6)]) (use old(5) in \<open>simp_all add: mailboxIDs_def parts\<close>)
  then have d8: "delete_where ?L mailboxes (\<lambda>r. mb_id r \<in> set (mailboxIDs m)) (stage_mailboxes env m db) =
      Inr (2, stage_directory env m db)"
    by (simp add: stage_mailboxes_def)
  have "delete_where ?L (domains ?L) (\<lambda>r. d_id r = dm_ID (mf_Domain m)) (fold (added (domains ?L)) [domain_fixture m]
      (added tenants (tenant_fixture m) db)) = Inr (1, added tenants (tenant_fixture m) db)"
    by (subst domains.delete_added [OF _ _ ok(7)]) (use old(6) in \<open>simp_all add: parts\<close>)
  then have d9: "delete_where ?L (domains ?L) (\<lambda>r. d_id r = dm_ID (mf_Domain m)) (stage_directory env m db) =
      Inr (1, added tenants (tenant_fixture m) db)"
    by (simp add: stage_directory_def)
  have "delete_where ?L tenants (\<lambda>r. t_id r = tm_ID (mf_Tenant m)) (fold (added tenants) [tenant_fixture m] db) = Inr (1, db)"
    by (subst tenants.delete_added [OF _ _ assms(1)]) (use old(7) in \<open>simp_all add: parts\<close>)
  then have d10: "delete_where ?L tenants (\<lambda>r. t_id r = tm_ID (mf_Tenant m)) (added tenants (tenant_fixture m) db) = Inr (1, db)"
    by simp
  have d12: "delete_where ?L authentication_audit_events
      (\<lambda>r. case au_principal_id r of None \<Rightarrow> False | Some p \<Rightarrow> p \<in> ?P) ?w = Inr (0, ?w)"
    "delete_where ?L user_sessions (\<lambda>r. us_principal_id r \<in> ?P) ?w = Inr (0, ?w)"
    by (rule authentication_audit_events.delete_none [OF _ ok(1)] user_sessions.delete_none [OF _ ok(1)],
        use audit sessions rows(1,2) in \<open>simp add: authentication_audit_events_def user_sessions_def\<close>)+
  show ?thesis
    unfolding fixture_deletes_def Let_def run_commands.simps fst_conv snd_conv
    by (simp add: d12 d3 d4 d5 d6 d7 d8 d9 d10 del: option.case_eq_if)
qed

lemma find_row_new: "\<forall>r \<in> set rows. key r \<noteq> k \<Longrightarrow> find_row key k (rows @ new) = find_row key k new"
  by (induction rows) (auto simp: find_row_def)

lemma find_row_here: "find_row key k (r # rows) = (if key r = k then Some r else find_row key k rows)"
  by (simp add: find_row_def)

lemma with_fixture_rows:
  "db_tenants (idb_control (with_fixture env lib m db)) = db_tenants (idb_control db) @ [tenant_fixture m]"
  "db_domains (idb_control (with_fixture env lib m db)) = db_domains (idb_control db) @ [domain_fixture m]"
  "db_mailboxes (idb_control (with_fixture env lib m db)) = db_mailboxes (idb_control db) @
     [mailbox_fixture (be_now env) m (mf_Mailbox m), mailbox_fixture (be_now env) m (mf_Suspended m)]"
  "db_operations (idb_control (with_fixture env lib m db)) = db_operations (idb_control db) @
     [operation_fixture (be_now env) lib m]"
  "db_outbox (idb_control (with_fixture env lib m db)) = db_outbox (idb_control db) @ [outbox_fixture (be_now env) lib m]"
  "db_attempts (idb_control (with_fixture env lib m db)) = db_attempts (idb_control db)"
  "idb_principals (with_fixture env lib m db) = idb_principals db @
     [mailbox_principal_fixture (be_now env) m (mf_Mailbox m) ''active'',
      administrator_fixture (be_now env) m (mf_Administrator m),
      mailbox_principal_fixture (be_now env) m (mf_Suspended m) ''suspended'',
      administrator_fixture (be_now env) m (mf_MFAInsufficient m)]"
  "idb_permissions (with_fixture env lib m db) = idb_permissions db @
     [permission_fixture (be_now env) (mf_Administrator m), permission_fixture (be_now env) (mf_MFAInsufficient m)]"
  by (simp_all add: stage_defs Let_def added_control added_identity)

lemma with_fixture_present:
  assumes "unknown_fixture lib m db" "separate m"
  shows "fixture_present lib m (with_fixture env lib m db)"
proof -
  note u = assms(1) [unfolded unknown_fixture_def Let_def principalIDs_def mailboxIDs_def allSubjects_def]
  note v = assms(2) [unfolded separate_def manifest_identifiers_def allSubjects_def]
  let ?a = "apm_PrincipalID (mf_Administrator m)"
  let ?f = "apm_PrincipalID (mf_MFAInsufficient m)"
  have none: "filter (\<lambda>r. pp_principal_id r = x) (idb_permissions db) = []" if "x \<in> set (principalIDs m)" for x
    using that assms(1) by (auto simp: unknown_fixture_def Let_def filter_empty_conv)
  have names: "permissions_are (with_fixture env lib m db) (x, ns) \<longleftrightarrow>
      (if ?a = x then [PermissionPortalAdminAccess] else []) @ (if ?f = x then [PermissionPortalAdminAccess] else []) = ns"
    if "x \<in> set (principalIDs m)" for x ns
    using none [OF that] by (simp add: permissions_are_def with_fixture_rows permission_fixture_def)
  have "?a \<noteq> mpm_PrincipalID (mf_Mailbox m)" "?f \<noteq> mpm_PrincipalID (mf_Mailbox m)"
    "?a \<noteq> mpm_PrincipalID (mf_Suspended m)" "?f \<noteq> mpm_PrincipalID (mf_Suspended m)" "?a \<noteq> ?f" "?f \<noteq> ?a"
    using v by auto
  then have perms: "\<forall>e \<in> set (permissionExpectations m). permissions_are (with_fixture env lib m db) e"
    by (simp add: permissionExpectations_def names principalIDs_def)
  have rows: "has_row t_id (tm_ID (mf_Tenant m)) (tenant_matches m) (db_tenants (idb_control (with_fixture env lib m db)))"
    "has_row d_id (dm_ID (mf_Domain m)) (domain_matches m) (db_domains (idb_control (with_fixture env lib m db)))"
    "has_row op_id (pf_OperationID (newProvisionFixture lib m)) (operation_matches lib m)
       (db_operations (idb_control (with_fixture env lib m db)))"
    "has_row ob_id (pf_OutboxID (newProvisionFixture lib m)) (outbox_matches lib m)
       (db_outbox (idb_control (with_fixture env lib m db)))"
    using u by (simp_all add: has_row_def with_fixture_rows find_row_new find_row_here fixture_defs tenant_matches_def
        domain_matches_def operation_matches_def outbox_matches_def)
  have mailboxes: "has_row mb_id (mpm_MailboxID p) (mailbox_matches m p)
      (db_mailboxes (idb_control (with_fixture env lib m db)))" if "p \<in> {mf_Mailbox m, mf_Suspended m}" for p
    using that u v by (auto simp: has_row_def with_fixture_rows find_row_new find_row_here fixture_defs
        mailbox_matches_def coalesce_text_def)
  have principals: "has_row ip_id (mpm_PrincipalID (mf_Mailbox m)) (principal_matches lib m (mpm_Subject (mf_Mailbox m))
       ''mailbox'' (ul_String lib (mpm_MailboxID (mf_Mailbox m))) ''active'' (mpm_DisplayName (mf_Mailbox m)))
       (idb_principals (with_fixture env lib m db))"
    "has_row ip_id (mpm_PrincipalID (mf_Suspended m)) (principal_matches lib m (mpm_Subject (mf_Suspended m)) ''mailbox''
       (ul_String lib (mpm_MailboxID (mf_Suspended m))) ''suspended'' (mpm_DisplayName (mf_Suspended m)))
       (idb_principals (with_fixture env lib m db))"
    "has_row ip_id (apm_PrincipalID (mf_Administrator m)) (principal_matches lib m (apm_Subject (mf_Administrator m))
       ''administrator'' '''' ''active'' (apm_DisplayName (mf_Administrator m))) (idb_principals (with_fixture env lib m db))"
    "has_row ip_id (apm_PrincipalID (mf_MFAInsufficient m)) (principal_matches lib m (apm_Subject (mf_MFAInsufficient m))
       ''administrator'' '''' ''active'' (apm_DisplayName (mf_MFAInsufficient m))) (idb_principals (with_fixture env lib m db))"
    using u v by (simp_all add: has_row_def with_fixture_rows find_row_new find_row_here fixture_defs
        principal_matches_def coalesce_text_def)
  have "\<not> (\<exists>p \<in> set (idb_principals (with_fixture env lib m db)).
      ip_oidc_issuer p = mf_OIDCIssuer m \<and> ip_oidc_subject p = mf_UnmappedSubject m)"
    using u v by (auto simp: with_fixture_rows fixture_defs)
  with perms rows mailboxes principals show ?thesis unfolding fixture_present_def by auto
qed

lemma with_fixture_own_tenant:
  assumes "control_ok lower db" "unknown_fixture lib m db"
  shows "\<not> extra_data lib m (with_fixture env lib m db)"
proof -
  let ?T = "tm_ID (mf_Tenant m)"
  let ?c = "idb_control db"
  have refs: "references_kept db" using assms(1) by (simp add: control_ok_iff)
  have t: "\<forall>r \<in> set (db_tenants ?c). t_id r \<noteq> ?T" using assms(2) by (simp add: unknown_fixture_def Let_def)
  have d: "\<forall>r \<in> set (db_domains ?c). d_tenant_id r \<noteq> ?T" and o': "\<forall>r \<in> set (db_operations ?c). op_tenant_id r \<noteq> ?T"
    and p: "\<forall>r \<in> set (idb_principals db). ip_tenant_id r \<noteq> ?T"
    using refs t unfolding references_kept_def Let_def image_subset_iff by force+
  have "\<forall>r \<in> set (db_mailboxes ?c). mb_tenant_id r \<noteq> ?T" "\<forall>r \<in> set (db_outbox ?c). ob_tenant_id r \<noteq> ?T"
    "\<forall>r \<in> set (db_attempts ?c). at_tenant_id r \<noteq> ?T"
    using refs d o' unfolding references_kept_def Let_def image_subset_iff by force+
  with d o' p show ?thesis
    unfolding extra_data_def Let_def list_ex_iff with_fixture_rows
    by (auto simp: fixture_defs mailboxIDs_def principalIDs_def)
qed

lemma fresh_apply:
  assumes "quiet_server env" "control_ok (be_lower env) db" "manifest_Validate uc authority m = None" "uuid_texts lib"
    "unknown_fixture lib m db" "separate m"
  shows "Apply env lib uc authority True m db = (Inr True, with_fixture env lib m db)"
proof -
  let ?p = "snd (prepareTransaction env (begin_transaction db))"
  let ?i = "insertFixture env lib m ?p"
  have p: "fst (prepareTransaction env (begin_transaction db)) = Inr ()" "tx_view ?p = db"
    using quiet_prepare [OF assms(1)] by auto
  have i: "fst ?i = Inr True" "tx_view (snd ?i) = with_fixture env lib m db"
    using insert_all_run [OF assms(1), of "fixture_inserts env lib m" ?p "with_fixture env lib m db" False]
      fresh_inserts_run(1) [OF assms(2,5) valid_rows_ok [OF assms(3,4)] assms(6)] p
    by (auto simp: insertFixture_def fixture_inserts_def Let_def)
  have v: "fst (verifyFixture env lib m (snd ?i)) = Inr ()"
    "tx_view (snd (verifyFixture env lib m (snd ?i))) = with_fixture env lib m db"
    using quiet_verify [OF assms(1), of lib m "snd ?i"] with_fixture_present [OF assms(5,6), of env] i by auto
  from p i v have "apply_transaction env lib m (begin_transaction db) =
      (Inr True, snd (verifyFixture env lib m (snd ?i)))"
    by (simp add: apply_transaction_def tx_then_def on_result_def)
  then show ?thesis
    using assms(1) v by (simp add: Apply_body [OF TrueI assms(3)] quiet_server_def quiet_finish)
qed

lemma quiet_footprint:
  assumes "quiet_server env"
  shows "fst (fixtureFootprint env lib m t) = Inr (footprint lib m (tx_view t))"
    "tx_view (snd (fixtureFootprint env lib m t)) = tx_view t"
    "\<not> extra_data lib m (tx_view t) \<Longrightarrow> fst (ensureRemovalScope env lib m t) = Inr ()"
    "tx_view (snd (ensureRemovalScope env lib m t)) = tx_view t"
  using assms footprint_settled(3,4) [of env t lib m] footprint_reads [of env lib m]
  by (auto simp: quiet_server_def settled_def reads_def reading_def)

lemma remove_known:
  assumes "quiet_server env" "manifest_Validate uc authority m = None"
  shows "footprint lib m db = 0 \<Longrightarrow> Remove env lib uc authority True m db = (Inr False, db)"
    "footprint lib m db \<noteq> 0 \<Longrightarrow> fixture_present lib m db \<Longrightarrow> \<not> extra_data lib m db \<Longrightarrow>
     run_commands (fixture_deletes env lib m) db = Some db' \<Longrightarrow> Remove env lib uc authority True m db = (Inr True, db')"
proof -
  let ?p = "snd (prepareTransaction env (begin_transaction db))"
  let ?f = "snd (fixtureFootprint env lib m ?p)"
  let ?v = "snd (verifyFixture env lib m ?f)"
  let ?s = "snd (ensureRemovalScope env lib m ?v)"
  have faultless: "faultless env" using assms(1) by (simp add: quiet_server_def)
  have p: "fst (prepareTransaction env (begin_transaction db)) = Inr ()" "tx_view ?p = db"
    using quiet_prepare [OF assms(1)] by auto
  have f: "fst (fixtureFootprint env lib m ?p) = Inr (footprint lib m db)" "tx_view ?f = db"
    using quiet_footprint(1,2) [OF assms(1), of lib m ?p] p by auto
  show "Remove env lib uc authority True m db = (Inr False, db)" if "footprint lib m db = 0"
    using that p f by (simp add: Apply_body [OF TrueI assms(2) faultless] remove_transaction_def tx_then_def
        on_result_def quiet_finish [OF faultless])
  show "Remove env lib uc authority True m db = (Inr True, db')"
    if "footprint lib m db \<noteq> 0" "fixture_present lib m db" "\<not> extra_data lib m db"
      "run_commands (fixture_deletes env lib m) db = Some db'"
  proof -
    have v: "fst (verifyFixture env lib m ?f) = Inr ()" "tx_view ?v = db"
      using quiet_verify [OF assms(1), of lib m ?f] that(2) f by auto
    have s: "fst (ensureRemovalScope env lib m ?v) = Inr ()" "tx_view ?s = db"
      using quiet_footprint(3,4) [OF assms(1), of lib m ?v] that(3) v by auto
    have d: "fst (deleteFixture env lib m ?s) = Inr ()" "tx_view (snd (deleteFixture env lib m ?s)) = db'"
      using delete_all_quiet [OF assms(1), of "fixture_deletes env lib m" ?s db'] that(4) s
      by (auto simp: deleteFixture_def)
    from that(1) p f v s d show ?thesis
      by (simp add: Apply_body [OF TrueI assms(2) faultless] remove_transaction_def tx_then_def on_result_def
          quiet_finish [OF faultless])
  qed
qed

text \<open>(C33) Creating and removing the fixture is a round trip. On a database whose constraints hold and that
  shows no footprint of a valid manifest, with nobody else writing and no failing round trip, the creation
  succeeds and reports a change, a second creation reports none and leaves the tables alone, a removal gives
  back the tables as they were before, row for row, and a second removal finds nothing to do.\<close>

theorem bootstrap_round_trip:
  assumes "quiet_server env" "control_ok (be_lower env) db" "manifest_Validate uc authority m = None" "uuid_texts lib"
    "footprint lib m db = 0"
  shows "\<exists>db'. Apply env lib uc authority True m db = (Inr True, db') \<and> fixture_present lib m db' \<and>
    Apply env lib uc authority True m db' = (Inr False, db') \<and>
    Remove env lib uc authority True m db' = (Inr True, db) \<and>
    Remove env lib uc authority True m db = (Inr False, db)"
proof -
  let ?w = "with_fixture env lib m db"
  have u: "unknown_fixture lib m db" using assms(5) by (simp add: footprint_empty)
  have sep: "separate m" using validate_None [OF assms(3)] by (simp add: separate_def)
  have present: "fixture_present lib m ?w" by (rule with_fixture_present [OF u sep])
  have "footprint lib m ?w \<noteq> 0"
    by (auto simp: footprint_empty unknown_fixture_def Let_def with_fixture_rows tenant_fixture_def)
  from remove_known(2) [OF assms(1,3) this present with_fixture_own_tenant [OF assms(2) u]]
    fresh_deletes_run [OF assms(2) u valid_rows_ok [OF assms(3,4)] sep]
  have "Remove env lib uc authority True m ?w = (Inr True, db)" by blast
  then show ?thesis
    using fresh_apply [OF assms(1-4) u sep] present apply_again [OF assms(1,3,4) present]
      remove_known(1) [OF assms(1,3,5)] by blast
qed

end
