(* ===== verification/Test_Witnesses.thy ===== *)
theory Test_Witnesses
  imports Test_Round_Trip Stalwart_Witnesses Boundary_Witnesses Identity_Samples
begin

text \<open>
  The fixture service at work on concrete tables: a manifest, the canonical texts of
  UUIDs, identifiers made from the length of a name, and the sample identities.
\<close>

section \<open>The inputs\<close>

lemma hex_text: "list_all (\<lambda>c. is_lower c \<or> is_digit c \<or> c = CHR ''-'') (EncodeToHex bs)"
proof -
  have "is_lower (hex_digit n) \<or> is_digit (hex_digit n)" if "n < 16" for n
  proof -
    have "\<forall>n \<in> {..<16 :: nat}. is_lower (hex_digit n) \<or> is_digit (hex_digit n)" by code_simp
    with that show ?thesis by blast
  qed
  note digit = this
  have "is_lower (hex_digit (byte_val c div 16)) \<or> is_digit (hex_digit (byte_val c div 16))"
    "is_lower (hex_digit (byte_val c mod 16)) \<or> is_digit (hex_digit (byte_val c mod 16))" for c
    using byte_val_less [of c] by (intro digit; simp add: less_mult_imp_div_less)+
  then show ?thesis by (auto simp: EncodeToHex_def list_all_iff)
qed

lemma canonical_length: "length (canonical_String u) = 36"
  by (simp add: canonical_String_def Let_def length_EncodeToHex big_endian_def)

lemma canonical_chars: "list_all (\<lambda>c. is_lower c \<or> is_digit c \<or> c = CHR ''-'') (canonical_String u)"
  using hex_text [of "big_endian 16 (unat u)"]
  by (auto simp: canonical_String_def Let_def list_all_iff dest: in_set_takeD in_set_dropD)

definition test_uuids :: uuid_library where
  "test_uuids = \<lparr>ul_String = canonical_String,
     ul_NewSHA1 = (\<lambda>bs. of_nat (200 + length bs))\<rparr>"

lemma test_uuid_texts: "uuid_texts test_uuids"
proof -
  have "inj canonical_String" by (metis canonical_round_trip injI option.inject)
  then show ?thesis by (simp add: uuid_texts_def test_uuids_def canonical_length canonical_chars)
qed

definition test_env :: bootstrap_env where
  "test_env = \<lparr>pe_fault = (\<lambda>_. None), pe_landed = (\<lambda>_. True), pe_race = (\<lambda>_ db. db), be_now = 5000,
     be_schemaReady = True, be_migrationApplied = True, be_collation = length, be_lower = id\<rparr>"

lemma test_env_quiet: "quiet_server test_env" "undisturbed test_env" "be_lower test_env = id"
  by (simp_all add: quiet_server_def undisturbed_def faultless_def test_env_def)

definition test_manifest :: Manifest where
  "test_manifest = \<lparr>mf_SchemaVersion = 1, mf_OIDCIssuer = ''https://idp.test'',
     mf_Tenant = \<lparr>tm_ID = 101, tm_Name = ''Fixture''\<rparr>, mf_Domain = \<lparr>dm_ID = 102, dm_Name = ''oidc.test''\<rparr>,
     mf_Mailbox = \<lparr>mpm_PrincipalID = 103, mpm_Subject = ''mailbox'', mpm_MailboxID = 104, mpm_LocalPart = ''user'',
       mpm_DisplayName = ''User''\<rparr>,
     mf_Administrator = \<lparr>apm_PrincipalID = 105, apm_Subject = ''admin'', apm_DisplayName = ''Admin''\<rparr>,
     mf_Suspended = \<lparr>mpm_PrincipalID = 106, mpm_Subject = ''suspended'', mpm_MailboxID = 107,
       mpm_LocalPart = ''blocked'', mpm_DisplayName = ''Blocked''\<rparr>,
     mf_MFAInsufficient = \<lparr>apm_PrincipalID = 108, apm_Subject = ''weak'', apm_DisplayName = ''Weak''\<rparr>,
     mf_UnmappedSubject = ''nobody''\<rparr>"

lemma test_texts:
  "validDisplayName ''Fixture''" "validDisplayName ''User''" "validDisplayName ''Admin''" "validDisplayName ''Blocked''"
  "validDisplayName ''Weak''" "validSubject ''mailbox''" "validSubject ''admin''" "validSubject ''suspended''"
  "validSubject ''weak''" "validSubject ''nobody''" "validLocalPart id ''user''" "validLocalPart id ''blocked''"
  by (simp_all add: validDisplayName_def validSubject_def validLocalPart_def hasControl_def localPartPattern_def
      ascii_eval del: runes.simps)

lemma test_domain: "validTestDomain id ''oidc.test''"
  by (simp add: validTestDomain_def hasControl_def domainLabelPattern_def approvedOnlineTestDomain_def ascii_eval
      del: runes.simps)

lemma test_issuer: "validateIssuer id plain_authority ''https://idp.test'' = None"
  by (simp add: validateIssuer_def hasControl_def url_ParseRequestURI_def parse_reference_def absolute_URL_def
      set_path_def cut_query_def plain_authority_def escape_path_def URL.defs ascii_eval del: runes.simps)

lemma test_manifest_valid: "manifest_Validate id plain_authority test_manifest = None"
  by (simp add: manifest_Validate_def first_error_None test_manifest_def manifestSchemaVersion_def test_issuer
      test_domain test_texts validateMailboxPrincipal_def validateAdministratorPrincipal_def seen_twice_iff
      manifest_identifiers_def allSubjects_def uuid_Nil_def)

lemma test_separate: "separate test_manifest"
  using validate_None [OF test_manifest_valid] by (simp add: separate_def)

lemma test_control_ok: "control_ok id sample_identities"
proof -
  have "row_ok tenant_checks \<lparr>t_id = 1, t_name = ''acme'', t_status = ''active''\<rparr>"
    by (simp add: row_ok_def tenant_checks_def trim_list_def)
  moreover have "row_ok (domain_checks id) \<lparr>d_id = 2, d_tenant_id = 1, d_name = ''acme.test'', d_status = ''active''\<rparr>"
    by (simp add: row_ok_def domain_checks_def btrimmed_def char_length_between_def ascii_eval del: runes.simps)
  ultimately show ?thesis
    using sample_identities_ok
    by (simp add: control_ok_parts row_constraints_iff sample_identities_def sample_pending_def sample_request_tables_def)
qed

lemma test_unknown: "unknown_fixture test_uuids test_manifest sample_identities"
  by (simp add: unknown_fixture_def Let_def test_manifest_def sample_identity_defs sample_pending_def sample_mailbox_def
      sample_operation_def new_operation_def new_mailbox_def sample_request_tables_def principalIDs_def mailboxIDs_def
      allSubjects_def newProvisionFixture_def test_uuids_def canonical_length)

definition test_created :: identity_db where
  "test_created = with_fixture test_env test_uuids test_manifest sample_identities"

lemma test_apply: "Apply test_env test_uuids id plain_authority True test_manifest sample_identities = (Inr True, test_created)"
  unfolding test_created_def
  by (rule fresh_apply [OF test_env_quiet(1) _ test_manifest_valid test_uuid_texts test_unknown test_separate])
    (simp add: test_env_quiet test_control_ok)

lemma test_remove: "Remove test_env test_uuids id plain_authority True test_manifest test_created = (Inr True, sample_identities)"
proof -
  note c = test_control_ok [folded test_env_quiet(3)]
  have "footprint test_uuids test_manifest test_created \<noteq> 0"
    by (auto simp: test_created_def footprint_empty unknown_fixture_def Let_def with_fixture_rows tenant_fixture_def)
  then show ?thesis
    using remove_known(2) [OF test_env_quiet(1) test_manifest_valid _ _ _
        fresh_deletes_run [OF c test_unknown valid_rows_ok [OF test_manifest_valid test_uuid_texts] test_separate]]
      with_fixture_present [OF test_unknown test_separate] with_fixture_own_tenant [OF c test_unknown]
    by (simp add: test_created_def)
qed

lemma test_created_ok: "control_ok id test_created"
  using fresh_inserts_run(2) [of test_env sample_identities test_uuids test_manifest] test_control_ok test_unknown
    valid_rows_ok [OF test_manifest_valid test_uuid_texts] test_separate
  by (simp add: test_created_def test_env_quiet)

section \<open>The witnesses\<close>

theorem loaded_manifest_fits_tables_witness:
  "\<exists>content decode. LoadManifest id plain_authority decode (Some (Body content False)) = Inr test_manifest \<and>
     uuid_texts test_uuids \<and> length content \<le> maxManifestBytes \<and> fixture_rows_ok test_env test_uuids test_manifest"
proof -
  let ?content = "''{ ... }''"
  let ?decode = "\<lambda>bs. if bs = ?content then Some (test_manifest, [CHR 0x0A]) else None"
  have "LoadManifest id plain_authority ?decode (Some (Body ?content False)) = Inr test_manifest"
    by (simp add: LoadManifest_def maxManifestBytes_def test_manifest_valid json_space_def byte_val_def)
  with loaded_manifest_fits_tables [OF this test_uuid_texts, of test_env] test_uuid_texts show ?thesis by blast
qed

theorem bootstrap_apply_sound_witness:
  "fixture_extends test_env test_uuids test_manifest sample_identities test_created \<and>
   fixture_present test_uuids test_manifest test_created \<and> test_created \<noteq> sample_identities"
  using bootstrap_apply_sound [OF test_apply] by (auto simp: by_others_undisturbed [OF test_env_quiet(2)])

theorem bootstrap_identities_resolve_witness:
  "getActivePrincipalByExternalIdentity ''https://idp.test'' ''suspended'' test_created = Inl ErrNoRows \<and>
   getActivePrincipalByExternalIdentity ''https://idp.test'' ''nobody'' test_created = Inl ErrNoRows \<and>
   (\<exists>row. getActivePrincipalByExternalIdentity ''https://idp.test'' ''mailbox'' test_created = Inr row \<and>
      apr_ID row = 103 \<and> apr_MailboxID row = Some 104 \<and> apr_MailboxDomain row = Some ''oidc.test'')"
  using bootstrap_identities_resolve [OF test_apply _ _ test_uuid_texts] test_control_ok
  by (simp add: test_env_quiet test_manifest_def) (simp add: test_env_def)

theorem bootstrap_remove_exact_witness:
  "tenant_removed 101 test_created sample_identities \<and> sample_identities = without_fixture test_uuids test_manifest test_created"
proof -
  have "tm_ID (mf_Tenant test_manifest) = 101" by (simp add: test_manifest_def)
  with bootstrap_remove_exact [OF test_remove] test_env_quiet(2,3) test_created_ok show ?thesis
    by (auto simp: by_others_undisturbed)
qed

theorem bootstrap_round_trip_witness:
  "\<exists>db'. Apply test_env test_uuids id plain_authority True test_manifest sample_identities = (Inr True, db') \<and>
    Apply test_env test_uuids id plain_authority True test_manifest db' = (Inr False, db') \<and>
    Remove test_env test_uuids id plain_authority True test_manifest db' = (Inr True, sample_identities)"
  using bootstrap_round_trip [OF test_env_quiet(1) _ test_manifest_valid test_uuid_texts, of sample_identities]
    test_control_ok test_unknown
  by (auto simp: footprint_empty test_env_quiet)

end
