(* ===== verification/Lifecycle.thy ===== *)
theory Lifecycle
  imports Mail_Prelude
begin

text \<open>
  The life of an HTTP process (\<^verbatim>\<open>internal/platform/lifecycle\<close>): \<^verbatim>\<open>Serve\<close> waits for the server,
  a background task or the signal to stop, then withdraws readiness, cancels the tasks, shuts the server
  down and collects what still runs, all before one deadline. A goroutine is described by when and how it
  ends: on its own, or some time after it is cancelled, or never. The choice of \<^verbatim>\<open>select\<close> among
  several ready channels is an argument, one number for each \<^verbatim>\<open>select\<close> of the run. The instructions
  between two waits take no time.
\<close>

section \<open>Goroutines and channels\<close>

record task =
  tk_own :: "(instant \<times> go_error option) option" \<comment> \<open>when it ends by itself\<close>
  tk_cancelled :: "(nat \<times> go_error option) option" \<comment> \<open>how long after its cancellation it ends\<close>

definition task_end :: "instant option \<Rightarrow> task \<Rightarrow> (instant \<times> go_error option) option" where
  \<comment> \<open>What a task cancelled at an instant, or never, sends on its channel.\<close>
  "task_end cancel tk =
     (let after = (case (cancel, tk_cancelled tk) of
          (Some c, Some (d, e)) \<Rightarrow> Some (c + int d, e) | _ \<Rightarrow> None)
      in case tk_own tk of
           None \<Rightarrow> after
         | Some (t, e) \<Rightarrow> (case cancel of
             None \<Rightarrow> Some (t, e)
           | Some c \<Rightarrow> if t \<le> c then Some (t, e) else after))"

definition runner_task :: "instant \<Rightarrow> task option \<Rightarrow> task" where
  \<comment> \<open>A nil \<^verbatim>\<open>Runner\<close> reports its error at once.\<close>
  "runner_task start runner = (case runner of
     None \<Rightarrow> \<lparr>tk_own = Some (start, Some (OtherError ''background task'')), tk_cancelled = None\<rparr>
   | Some tk \<Rightarrow> tk)"

datatype serve_event =
    ServerEnded "go_error option" \<comment> \<open>\<^verbatim>\<open><-serverErrors\<close>\<close>
  | RunnerEnded nat "go_error option" \<comment> \<open>\<^verbatim>\<open><-runnerErrors\<close>, with the task that sent it\<close>
  | Stopped \<comment> \<open>\<^verbatim>\<open><-ctx.Done()\<close>\<close>

definition select_from :: "nat \<Rightarrow> instant \<Rightarrow> (instant \<times> 'e) list \<Rightarrow> instant \<times> 'e" where
  \<comment> \<open>The earliest of the channels, each given with the instant it is ready; \<open>choice\<close> picks among equals.\<close>
  "select_from choice now channels =
     (let t = min_list (map (\<lambda>c. max now (fst c)) channels);
          ready = filter (\<lambda>c. max now (fst c) = t) channels
      in (t, snd (ready ! (choice mod length ready))))"

definition runner_heads :: "(instant \<times> go_error option) option list \<Rightarrow> (instant \<times> serve_event) list" where
  \<comment> \<open>What the channel of the tasks may deliver next: it keeps the order of arrival.\<close>
  "runner_heads ends =
     concat (map (\<lambda>(i, q). case q of
         None \<Rightarrow> []
       | Some (t, e) \<Rightarrow>
           if list_all (\<lambda>p. case p of None \<Rightarrow> True | Some (t', _) \<Rightarrow> t \<le> t') ends then [(t, RunnerEnded i e)] else [])
       (enumerate 0 ends))"

definition drop_at :: "nat \<Rightarrow> 'a list \<Rightarrow> 'a list" where
  "drop_at i xs = take i xs @ drop (Suc i) xs"

section \<open>Serve\<close>

record serve_env =
  se_start :: instant
  se_Done :: "instant option" \<comment> \<open>when the caller's context is cancelled\<close>
  se_server :: task \<comment> \<open>\<^verbatim>\<open>server.Serve\<close>, which \<^verbatim>\<open>Shutdown\<close> ends\<close>
  se_shutdown :: "(nat \<times> go_error option) option" \<comment> \<open>\<^verbatim>\<open>server.Shutdown\<close> left alone\<close>
  se_pick :: "nat \<Rightarrow> nat" \<comment> \<open>the choices of \<^verbatim>\<open>select\<close>\<close>

definition ErrServerClosed :: go_error where
  "ErrServerClosed = OtherError ''http: Server closed''"

datatype serve_action = BeginShutdown | CancelRun | ServerShutdown | ServerClose

definition ctx_done :: "serve_env \<Rightarrow> instant option" where
  \<comment> \<open>A context cancelled before the call is seen as cancelled when it starts.\<close>
  "ctx_done env = map_option (max (se_start env)) (se_Done env)"

definition server_channel :: "serve_env \<Rightarrow> instant option \<Rightarrow> (instant \<times> serve_event) list" where
  "server_channel env closed = (case task_end closed (se_server env) of
     None \<Rightarrow> [] | Some (t, e) \<Rightarrow> [(t, ServerEnded e)])"

definition stop_channel :: "serve_env \<Rightarrow> (instant \<times> serve_event) list" where
  "stop_channel env = (case ctx_done env of None \<Rightarrow> [] | Some c \<Rightarrow> [(c, Stopped)])"

definition first_channels :: "serve_env \<Rightarrow> task list \<Rightarrow> (instant \<times> serve_event) list" where
  \<comment> \<open>\<^verbatim>\<open>runContext\<close> is cancelled with the caller's context.\<close>
  "first_channels env tasks =
     server_channel env None @ runner_heads (map (task_end (ctx_done env)) tasks) @ stop_channel env"

definition shutdown_call :: "serve_env \<Rightarrow> instant \<Rightarrow> instant \<Rightarrow> instant \<times> go_error option" where
  \<comment> \<open>\<^verbatim>\<open>server.Shutdown\<close> returns no later than its context ends.\<close>
  "shutdown_call env now deadline = (case se_shutdown env of
     Some (d, e) \<Rightarrow> if now + int d \<le> deadline then (now + int d, e)
       else (max now deadline, Some ContextDeadlineExceeded)
   | None \<Rightarrow> (max now deadline, Some ContextDeadlineExceeded))"

definition or_first :: "go_error option \<Rightarrow> go_error option \<Rightarrow> go_error option" where
  \<comment> \<open>\<^verbatim>\<open>if result == nil { result = err }\<close>\<close>
  "or_first result err = (if result = None then err else result)"

definition unless_Is :: "go_error \<Rightarrow> go_error option \<Rightarrow> go_error option" where
  \<comment> \<open>The error, unless it is none or the expected one.\<close>
  "unless_Is expected e = (case e of None \<Rightarrow> None | Some x \<Rightarrow> if errors_Is x expected then None else e)"

definition await_server ::
  "serve_env \<Rightarrow> instant \<Rightarrow> instant \<Rightarrow> instant \<Rightarrow> go_error option \<Rightarrow> instant \<times> go_error option \<times> serve_action list" where
  "await_server env closed now deadline result =
     (case select_from (se_pick env 1) now (server_channel env (Some closed) @ [(deadline, Stopped)]) of
        (t, ServerEnded e) \<Rightarrow> (t, or_first result (unless_Is ErrServerClosed e), [])
      | (t, _) \<Rightarrow> (t, or_first result (Some (OtherError ''http shutdown'')), [ServerClose]))"

fun await_runners ::
  "(nat \<Rightarrow> nat) \<Rightarrow> instant \<Rightarrow> nat \<Rightarrow> instant \<Rightarrow> (instant \<times> go_error option) option list \<Rightarrow> go_error option \<Rightarrow>
   instant \<times> go_error option" where
  \<comment> \<open>The loop over the tasks that have not finished.\<close>
  "await_runners pick deadline 0 now ends result = (now, result)"
| "await_runners pick deadline (Suc n) now ends result =
     (case select_from (pick (2 + n)) now (runner_heads ends @ [(deadline, Stopped)]) of
        (t, RunnerEnded i e) \<Rightarrow>
          await_runners pick deadline n t (drop_at i ends) (or_first result (unless_Is ContextCanceled e))
      | (t, _) \<Rightarrow> (t, or_first result (Some (OtherError ''background shutdown''))))"

definition first_outcome ::
  "serve_env \<Rightarrow> instant \<Rightarrow> serve_event \<Rightarrow> (instant \<times> go_error option) option list \<Rightarrow>
   bool \<times> (instant \<times> go_error option) option list \<times> go_error option" where
  \<comment> \<open>Whether the server has finished, what is left of the tasks, and the result so far.\<close>
  "first_outcome env now ev ends = (case ev of
     ServerEnded e \<Rightarrow> (True, ends, unless_Is ErrServerClosed e)
   | RunnerEnded i e \<Rightarrow> (False, drop_at i ends,
       if e = None \<and> (case ctx_done env of None \<Rightarrow> True | Some c \<Rightarrow> now < c)
       then Some (OtherError ''background task ended'') else e)
   | Stopped \<Rightarrow> (False, ends, None))"

definition shut_down ::
  "serve_env \<Rightarrow> duration \<Rightarrow> instant \<Rightarrow> serve_event \<Rightarrow> (instant \<times> go_error option) option list \<Rightarrow>
   instant \<times> go_error option \<times> serve_action list" where
  "shut_down env shutdownTimeout now ev ends =
     (let (serverFinished, remaining, result) = first_outcome env now ev ends;
          deadline = now + shutdownTimeout;
          (t1, err) = shutdown_call env now deadline;
          result1 = (if err = None then result else or_first result (Some (OtherError ''http shutdown'')));
          closed = (if err = None then [] else [ServerClose]);
          (t2, result2, closed2) =
            (if serverFinished then (t1, result1, []) else await_server env now t1 deadline result1);
          (t3, result3) = await_runners (se_pick env) deadline (length remaining) t2 remaining result2
      in (t3, result3, [BeginShutdown, CancelRun, ServerShutdown] @ closed @ closed2))"

definition Serve ::
  "serve_env \<Rightarrow> duration \<Rightarrow> task option list \<Rightarrow> (instant \<times> go_error option \<times> serve_action list) option" where
  \<comment> \<open>\<open>None\<close>: nothing ever ends and nobody asks to stop.\<close>
  "Serve env shutdownTimeout runners =
     (let tasks = map (runner_task (se_start env)) runners;
          channels = first_channels env tasks
      in if channels = [] then None
         else (case select_from (se_pick env 0) (se_start env) channels of
           (now, ev) \<Rightarrow> Some (shut_down env shutdownTimeout now ev (map (task_end (Some now)) tasks))))"

section \<open>Waiting\<close>

lemma select_from_in:
  assumes "channels \<noteq> []" "select_from choice now channels = (t, e)"
  shows "\<exists>s. (s, e) \<in> set channels \<and> t = max now s" "s \<in> fst ` set channels \<Longrightarrow> t \<le> max now s"
proof -
  let ?f = "\<lambda>c. max now (fst c)"
  let ?ready = "filter (\<lambda>c. ?f c = min_list (map ?f channels)) channels"
  have m: "min_list (map ?f channels) = Min (?f ` set channels)"
    using assms(1) by (simp add: min_list_Min)
  have "Min (?f ` set channels) \<in> ?f ` set channels" using assms(1) by (intro Min_in) auto
  then obtain c where "c \<in> set channels" "?f c = Min (?f ` set channels)" by (metis (no_types, lifting) imageE)
  then have "?ready \<noteq> []" unfolding m by (auto simp: filter_empty_conv intro!: bexI [of _ c])
  then have "?ready ! (choice mod length ?ready) \<in> set ?ready" by (intro nth_mem) simp
  then show "\<exists>s. (s, e) \<in> set channels \<and> t = max now s"
    using assms(2) by (auto simp: select_from_def Let_def intro!: exI [of _ "fst (?ready ! (choice mod length ?ready))"])
  show "t \<le> max now s" if "s \<in> fst ` set channels"
    using that assms by (auto simp: select_from_def Let_def m intro!: Min_le)
qed

lemma runner_headsD:
  "(t, ev) \<in> set (runner_heads ends) \<Longrightarrow> \<exists>i e. ev = RunnerEnded i e \<and> i < length ends \<and> ends ! i = Some (t, e)"
  by (auto simp: runner_heads_def in_set_enumerate_eq split: option.splits if_splits prod.splits)

lemma length_drop_at [simp]: "i < length xs \<Longrightarrow> length (drop_at i xs) = length xs - 1"
  by (simp add: drop_at_def)

lemma set_drop_at: "i < length xs \<Longrightarrow> set xs = insert (xs ! i) (set (drop_at i xs))"
  by (subst id_take_nth_drop [of i xs]) (simp_all add: drop_at_def)

lemma or_first_None [simp]: "or_first result e = None \<longleftrightarrow> result = None \<and> e = None"
  by (auto simp: or_first_def)

text \<open>A wait that has a deadline ends by it, with an event of its channels or at the deadline.\<close>

lemma await_cases:
  assumes "select_from choice now (channels @ [(deadline, Stopped)]) = (t, e)"
  shows "now \<le> t \<and> t \<le> max now deadline" "e = Stopped \<or> (\<exists>s. (s, e) \<in> set channels \<and> s \<le> t)"
proof -
  note s = select_from_in [OF _ assms]
  show "now \<le> t \<and> t \<le> max now deadline" using s(1) s(2) [of deadline] by auto
  show "e = Stopped \<or> (\<exists>s. (s, e) \<in> set channels \<and> s \<le> t)" using s(1) by auto
qed

lemma await_server_in_time:
  assumes "await_server env closed now deadline result = (t, r, fx)"
  shows "now \<le> t \<and> t \<le> max now deadline"
  using assms await_cases(1) by (fastforce simp: await_server_def split: prod.splits serve_event.splits)

lemma await_runners_in_time:
  assumes "await_runners pick deadline n now ends result = (t, r)"
  shows "now \<le> t \<and> t \<le> max now deadline"
  using assms
proof (induction n arbitrary: now ends result)
  case (Suc n)
  obtain t1 ev where s: "select_from (pick (2 + n)) now (runner_heads ends @ [(deadline, Stopped)]) = (t1, ev)" by force
  note b = await_cases(1) [OF s]
  from Suc.prems s show ?case using b Suc.IH [of t1]
    by (fastforce split: serve_event.splits)
qed simp

lemma shutdown_call_in_time:
  "shutdown_call env now deadline = (t, e) \<Longrightarrow> now \<le> t \<and> t \<le> max now deadline"
  by (auto simp: shutdown_call_def split: option.splits if_splits)

lemma shut_down_in_time:
  assumes "shut_down env timeout now ev ends = (t, r, fx)"
  shows "now \<le> t \<and> t \<le> now + max 0 timeout"
  using assms
  by (auto simp: shut_down_def Let_def split: prod.splits if_splits
      dest!: shutdown_call_in_time await_server_in_time await_runners_in_time)

section \<open>What a stop means\<close>

definition must_stop :: "serve_env \<Rightarrow> task option list \<Rightarrow> instant \<Rightarrow> bool" where
  \<comment> \<open>The caller's context is cancelled, the server ends by itself, or a task does.\<close>
  "must_stop env runners stop \<longleftrightarrow> se_Done env = Some stop \<or> map_option fst (tk_own (se_server env)) = Some stop \<or>
     (\<exists>runner \<in> set runners. map_option fst (tk_own (runner_task (se_start env) runner)) = Some stop)"

lemma runner_heads_min:
  assumes "Some (t, e) \<in> set ends"
  shows "\<exists>s ev. (s, ev) \<in> set (runner_heads ends) \<and> s \<le> t"
proof -
  let ?T = "{s. \<exists>e. Some (s, e) \<in> set ends}"
  have fin: "finite ?T" by (rule finite_subset [of _ "(\<lambda>q. fst (the q)) ` set ends"]) force+
  from assms have "?T \<noteq> {}" by blast
  from Min_in [OF fin this] Min_le [OF fin] have m: "Min ?T \<in> ?T" "\<forall>s \<in> ?T. Min ?T \<le> s" by blast+
  then obtain i e' where i: "i < length ends" "ends ! i = Some (Min ?T, e')" by (auto simp: in_set_conv_nth)
  have "list_all (\<lambda>p. case p of None \<Rightarrow> True | Some (t', _) \<Rightarrow> Min ?T \<le> t') ends"
    using m(2) by (auto simp: list_all_iff split: option.splits)
  with i have "(Min ?T, RunnerEnded i e') \<in> set (runner_heads ends)"
    by (force simp: runner_heads_def in_set_enumerate_eq intro!: bexI [of _ "(i, Some (Min ?T, e'))"])
  moreover have "Min ?T \<le> t" using m(2) assms by blast
  ultimately show ?thesis by blast
qed

lemma first_channels_stop:
  assumes "must_stop env runners stop"
  shows "\<exists>s ev. (s, ev) \<in> set (first_channels env (map (runner_task (se_start env)) runners)) \<and> s \<le> max (se_start env) stop"
proof -
  let ?tasks = "map (runner_task (se_start env)) runners"
  from assms consider "se_Done env = Some stop" | e where "tk_own (se_server env) = Some (stop, e)"
    | tk e where "tk \<in> set ?tasks" "tk_own tk = Some (stop, e)"
    by (auto simp: must_stop_def)
  then show ?thesis
  proof cases
    case (3 tk e)
    show ?thesis
    proof (cases "task_end (ctx_done env) tk = Some (stop, e)")
      case True
      then have "Some (stop, e) \<in> set (map (task_end (ctx_done env)) ?tasks)" using 3(1) by force
      from runner_heads_min [OF this] show ?thesis by (force simp: first_channels_def)
    next
      case False
      with 3(2) obtain c where "ctx_done env = Some c" "c < stop"
        by (auto simp: task_end_def Let_def split: option.splits if_splits)
      then show ?thesis by (force simp: first_channels_def stop_channel_def)
    qed
  qed (force simp: first_channels_def stop_channel_def server_channel_def ctx_done_def task_end_def)+
qed

text \<open>(C38) A process that must stop stops in time: once its context is cancelled, its server ends or one of its
  background tasks does, \<^verbatim>\<open>Serve\<close> returns no later than the shutdown timeout after that, whatever the others do.\<close>

theorem serve_stops_in_time:
  assumes "must_stop env runners stop"
  shows "\<exists>t r actions. Serve env shutdownTimeout runners = Some (t, r, actions) \<and>
    t \<le> max (se_start env) stop + max 0 shutdownTimeout"
proof -
  let ?channels = "first_channels env (map (runner_task (se_start env)) runners)"
  obtain s ev0 where s: "(s, ev0) \<in> set ?channels" "s \<le> max (se_start env) stop"
    using first_channels_stop [OF assms] by blast
  then have ne: "?channels \<noteq> []" by auto
  obtain now ev where sel: "select_from (se_pick env 0) (se_start env) ?channels = (now, ev)" by force
  have "s \<in> fst ` set ?channels" using s(1) by force
  from select_from_in(2) [OF ne sel this] s(2) have "now \<le> max (se_start env) stop" by simp
  then show ?thesis
    using ne sel shut_down_in_time [of env shutdownTimeout now ev]
    by (cases "shut_down env shutdownTimeout now ev (map (task_end (Some now)) (map (runner_task (se_start env)) runners))")
      (fastforce simp: Serve_def Let_def)
qed

lemma await_runners_clean:
  assumes "await_runners pick deadline n now ends result = (t, None)" "length ends = n"
  shows "result = None \<and> (\<forall>q \<in> set ends. \<exists>s e. q = Some (s, e) \<and> s \<le> t \<and> unless_Is ContextCanceled e = None)"
  using assms
proof (induction n arbitrary: now ends result)
  case (Suc n)
  obtain t1 ev where s: "select_from (pick (2 + n)) now (runner_heads ends @ [(deadline, Stopped)]) = (t1, ev)" by force
  with Suc.prems(1) obtain i e where ev: "ev = RunnerEnded i e" by (cases ev) auto
  with await_cases(2) [OF s] obtain s where i: "i < length ends" "ends ! i = Some (s, e)" "s \<le> t1"
    by (auto dest: runner_headsD)
  have rest: "await_runners pick deadline n t1 (drop_at i ends) (or_first result (unless_Is ContextCanceled e)) = (t, None)"
    using Suc.prems(1) s ev by simp
  from Suc.IH [OF this] i(1) Suc.prems(2) await_runners_in_time [OF rest] i show ?case
    by (auto simp: set_drop_at [OF i(1)])
qed auto

lemma await_server_clean:
  assumes "await_server env closed now deadline result = (t, None, actions)"
  shows "result = None \<and> actions = [] \<and>
    (\<exists>s e. task_end (Some closed) (se_server env) = Some (s, e) \<and> s \<le> t \<and> unless_Is ErrServerClosed e = None)"
proof -
  obtain t1 ev where s: "select_from (se_pick env 1) now (server_channel env (Some closed) @ [(deadline, Stopped)]) = (t1, ev)"
    by force
  with assms obtain e where "ev = ServerEnded e" by (cases ev) (auto simp: await_server_def)
  with assms s await_cases(2) [OF s] show ?thesis
    by (auto simp: await_server_def server_channel_def split: option.splits)
qed

definition really_ended :: "serve_env \<Rightarrow> instant \<Rightarrow> serve_event \<Rightarrow> (instant \<times> go_error option) option list \<Rightarrow> bool" where
  "really_ended env now ev ends = (case ev of
     ServerEnded e \<Rightarrow> \<exists>s. task_end (Some now) (se_server env) = Some (s, e) \<and> s \<le> now
   | RunnerEnded i e \<Rightarrow> i < length ends \<and> (\<exists>s. ends ! i = Some (s, e) \<and> s \<le> now)
   | Stopped \<Rightarrow> ctx_done env \<noteq> None)"

definition all_ended :: "serve_env \<Rightarrow> instant \<Rightarrow> instant \<Rightarrow> (instant \<times> go_error option) option list \<Rightarrow> bool" where
  "all_ended env now t ends \<longleftrightarrow>
     (\<exists>s e. task_end (Some now) (se_server env) = Some (s, e) \<and> s \<le> t \<and> unless_Is ErrServerClosed e = None) \<and>
     (\<forall>q \<in> set ends. \<exists>s e. q = Some (s, e) \<and> s \<le> t \<and> unless_Is ContextCanceled e = None)"

lemma shut_down_clean:
  assumes "shut_down env timeout now ev ends = (t, None, actions)" "really_ended env now ev ends"
  shows "actions = [BeginShutdown, CancelRun, ServerShutdown] \<and> all_ended env now t ends \<and>
    ((\<exists>c. ctx_done env = Some c \<and> (ev = Stopped \<or> c \<le> now)) \<or>
     (\<exists>e. ev = ServerEnded e \<and> unless_Is ErrServerClosed e = None))"
proof -
  obtain finished remaining result where first: "first_outcome env now ev ends = (finished, remaining, result)"
    by (metis prod_cases3)
  obtain t1 err where call: "shutdown_call env now (now + timeout) = (t1, err)" by force
  let ?result1 = "if err = None then result else or_first result (Some (OtherError ''http shutdown''))"
  obtain t2 result2 closed2 where server: "(if finished then (t1, ?result1, [])
      else await_server env now t1 (now + timeout) ?result1) = (t2, result2, closed2)" by (metis prod_cases3)
  have runners: "await_runners (se_pick env) (now + timeout) (length remaining) t2 remaining result2 = (t, None)"
    and actions: "actions = [BeginShutdown, CancelRun, ServerShutdown] @ (if err = None then [] else [ServerClose]) @ closed2"
    using assms(1) first call server by (auto simp: shut_down_def Let_def split: prod.splits)
  note rest = await_runners_clean [OF runners refl]
  have t: "now \<le> t" "t2 \<le> t" using shutdown_call_in_time [OF call] await_runners_in_time [OF runners] server
    by (auto split: if_splits dest: await_server_in_time)
  have r: "?result1 = None" "closed2 = []"
    using server rest by (auto split: if_splits dest!: await_server_clean)
  then have clean: "err = None" "result = None" by (auto split: if_splits)
  have srv: "\<exists>s e. task_end (Some now) (se_server env) = Some (s, e) \<and> s \<le> t \<and> unless_Is ErrServerClosed e = None"
    if "\<not> finished"
    using that server rest t(2) by (auto dest!: await_server_clean)
  show ?thesis
  proof (cases ev)
    case (ServerEnded e)
    with first clean assms(2) rest t actions r show ?thesis
      by (fastforce simp: first_outcome_def really_ended_def all_ended_def)
  next
    case (RunnerEnded i e)
    with first clean have o: "e = None" "\<exists>c. ctx_done env = Some c \<and> c \<le> now" "\<not> finished"
      "remaining = drop_at i ends"
      by (auto simp: first_outcome_def split: if_splits option.splits)
    moreover have "unless_Is ContextCanceled None = None" by (simp add: unless_Is_def)
    ultimately show ?thesis
      using RunnerEnded assms(2) rest t actions r clean srv set_drop_at [of i ends]
      by (fastforce simp: really_ended_def all_ended_def)
  next
    case Stopped
    with first clean assms(2) rest t actions r srv show ?thesis
      by (fastforce simp: first_outcome_def really_ended_def all_ended_def)
  qed
qed

lemma first_event_ended:
  assumes "select_from choice (se_start env) (first_channels env tasks) = (now, ev)" "first_channels env tasks \<noteq> []"
  shows "really_ended env now ev (map (task_end (Some now)) tasks)"
proof -
  from select_from_in(1) [OF assms(2,1)] obtain s where s: "(s, ev) \<in> set (first_channels env tasks)" "now = max (se_start env) s"
    by blast
  have stop: "now \<le> c" if "ctx_done env = Some c" for c
  proof -
    have "c \<in> fst ` set (first_channels env tasks)" using that by (force simp: first_channels_def stop_channel_def)
    from select_from_in(2) [OF assms(2,1) this] that show ?thesis by (auto simp: ctx_done_def)
  qed
  from s(1) consider "(s, ev) \<in> set (server_channel env None)"
    | "(s, ev) \<in> set (runner_heads (map (task_end (ctx_done env)) tasks))" | "(s, ev) \<in> set (stop_channel env)"
    by (auto simp: first_channels_def)
  then show ?thesis
  proof cases
    case 1
    then show ?thesis using s(2) by (auto simp: server_channel_def task_end_def really_ended_def split: option.splits)
  next
    case 2
    then obtain i e where i: "ev = RunnerEnded i e" "i < length tasks" "task_end (ctx_done env) (tasks ! i) = Some (s, e)"
      by (auto dest!: runner_headsD)
    have "\<exists>s'. task_end (Some now) (tasks ! i) = Some (s', e) \<and> s' \<le> now"
      using i(3) s(2) stop by (fastforce simp: task_end_def Let_def split: option.splits if_splits)
    with i(1,2) show ?thesis by (simp add: really_ended_def)
  next
    case 3
    then have "ev = Stopped" "ctx_done env = Some s" by (auto simp: stop_channel_def split: option.splits)
    then show ?thesis by (simp add: really_ended_def)
  qed
qed

lemma first_event_earliest:
  assumes "select_from choice (se_start env) (first_channels env (map (runner_task (se_start env)) runners)) = (now, ev)"
    and "must_stop env runners stop"
  shows "now \<le> max (se_start env) stop"
proof -
  obtain s ev' where s: "(s, ev') \<in> set (first_channels env (map (runner_task (se_start env)) runners))"
    "s \<le> max (se_start env) stop"
    using first_channels_stop [OF assms(2)] by blast
  then have "first_channels env (map (runner_task (se_start env)) runners) \<noteq> []" by auto
  from select_from_in(2) [OF this assms(1)] s show ?thesis by force
qed

text \<open>An orderly stop began at \<open>now\<close>: the caller's context was cancelled then (or before the start), or the server
  was closed then, and no background task had ended by itself before.\<close>

definition stop_began :: "serve_env \<Rightarrow> task list \<Rightarrow> instant \<Rightarrow> bool" where
  "stop_began env tasks now \<longleftrightarrow>
     ((\<exists>c. se_Done env = Some c \<and> now = max (se_start env) c) \<or>
      (\<exists>s e. tk_own (se_server env) = Some (s, e) \<and> unless_Is ErrServerClosed e = None \<and> now = max (se_start env) s)) \<and>
     (\<forall>tk \<in> set tasks. \<forall>s e. tk_own tk = Some (s, e) \<longrightarrow> now \<le> max (se_start env) s)"

text \<open>Only a complete stop is a clean one: when \<^verbatim>\<open>Serve\<close> returns no error, its context was cancelled or the
  server was closed before any background task ended by itself, readiness was withdrawn before the tasks were
  cancelled and the server shut down, which needed no force, and when \<^verbatim>\<open>Serve\<close> returned, the server had ended as
  closed and every background task without an error other than its cancellation.\<close>

lemma clean_stop_is_complete:
  assumes "Serve env shutdownTimeout runners = Some (t, None, actions)"
  shows "actions = [BeginShutdown, CancelRun, ServerShutdown] \<and>
    (\<exists>now. stop_began env (map (runner_task (se_start env)) runners) now \<and>
       all_ended env now t (map (task_end (Some now)) (map (runner_task (se_start env)) runners)))"
proof -
  let ?tasks = "map (runner_task (se_start env)) runners"
  obtain now ev where ne: "first_channels env ?tasks \<noteq> []"
    and sel: "select_from (se_pick env 0) (se_start env) (first_channels env ?tasks) = (now, ev)"
    and down: "shut_down env shutdownTimeout now ev (map (task_end (Some now)) ?tasks) = (t, None, actions)"
    using assms by (auto simp: Serve_def Let_def split: if_splits prod.splits)
  note c = shut_down_clean [OF down first_event_ended [OF sel ne]]
  note early = first_event_earliest [OF sel]
  obtain s where s: "(s, ev) \<in> set (first_channels env ?tasks)" "now = max (se_start env) s"
    using select_from_in(1) [OF ne sel] by blast
  have server: "tk_own (se_server env) = Some (s, e)" if "ev = ServerEnded e" for e
    using s(1) that
    by (auto simp: first_channels_def server_channel_def stop_channel_def task_end_def split: option.splits
        dest: runner_headsD)
  have stopped: "ctx_done env = Some s" if "ev = Stopped"
    using s(1) that by (auto simp: first_channels_def server_channel_def stop_channel_def split: option.splits
        dest: runner_headsD)
  have at_done: "now = max (se_start env) d" if "se_Done env = Some d" "ev = Stopped \<or> max (se_start env) d \<le> now" for d
    using early [of d] that stopped s(2) by (auto simp: must_stop_def ctx_done_def)
  have "now \<le> max (se_start env) s'" if "tk \<in> set ?tasks" "tk_own tk = Some (s', e)" for tk s' e
    using that by (intro early) (force simp: must_stop_def)
  then have "stop_began env ?tasks now"
    using c server s(2) at_done unfolding stop_began_def by (fastforce simp: ctx_done_def)
  then show ?thesis using c by blast
qed

section \<open>The stop that is asked for\<close>

definition well_behaved :: "duration \<Rightarrow> task \<Rightarrow> bool" where
  \<comment> \<open>Runs until it is cancelled, and then ends without an error before the timeout.\<close>
  "well_behaved timeout tk \<longleftrightarrow> tk_own tk = None \<and>
     (case tk_cancelled tk of Some (d, None) \<Rightarrow> int d < timeout | _ \<Rightarrow> False)"

lemma select_before_deadline:
  assumes "channels \<noteq> []" "\<forall>c \<in> set channels. fst c < deadline" "now < deadline"
    and "select_from choice now (channels @ [(deadline, Stopped)]) = (t, ev)"
  shows "now \<le> t \<and> t < deadline \<and> (\<exists>s. (s, ev) \<in> set channels)"
proof -
  note s = select_from_in [OF _ assms(4)]
  obtain c where c: "c \<in> set channels" using assms(1) by (cases channels) auto
  then have "fst c \<in> fst ` set (channels @ [(deadline, Stopped)])" by force
  from s(2) [OF _ this] c assms(2,3) have "t < deadline" by fastforce
  with s(1) show ?thesis by auto
qed

lemma await_runners_graceful:
  assumes "length ends = n" "\<forall>q \<in> set ends. \<exists>s. q = Some (s, None) \<and> s < deadline" "now < deadline"
  shows "\<exists>t. await_runners pick deadline n now ends None = (t, None)"
  using assms
proof (induction n arbitrary: now ends)
  case (Suc n)
  then obtain q s where q: "q \<in> set ends" "q = Some (s, None)" by (cases ends) auto
  then have ne: "runner_heads ends \<noteq> []" using runner_heads_min [of s None ends] by auto
  have early: "\<forall>c \<in> set (runner_heads ends). fst c < deadline"
    using Suc.prems(2) by (force dest: runner_headsD nth_mem)
  obtain t ev where sel: "select_from (pick (2 + n)) now (runner_heads ends @ [(deadline, Stopped)]) = (t, ev)" by force
  from select_before_deadline [OF ne early Suc.prems(3) sel] obtain s' where t: "t < deadline" "(s', ev) \<in> set (runner_heads ends)"
    by blast
  then obtain i e where i: "ev = RunnerEnded i e" "i < length ends" "ends ! i = Some (s', e)"
    by (auto dest: runner_headsD)
  then have "e = None" using Suc.prems(2) nth_mem [OF i(2)] by auto
  moreover have "\<exists>t'. await_runners pick deadline n t (drop_at i ends) None = (t', None)"
    using Suc.prems i(2) t(1) set_drop_at [OF i(2)] by (intro Suc.IH) auto
  ultimately show ?case using sel i(1) by (simp add: or_first_def unless_Is_def)
qed simp

text \<open>A process that is asked to stop stops cleanly when its parts keep to their contract: if the server ends as
  closed and the tasks end without an error, each within the timeout after it was told to, \<^verbatim>\<open>Serve\<close> reports no error,
  whatever order they end in and however \<^verbatim>\<open>select\<close> chooses.\<close>

lemma graceful_stop_clean:
  assumes "se_Done env = Some stop" "se_start env \<le> stop"
    and "tk_own (se_server env) = None" "tk_cancelled (se_server env) = Some (d, Some ErrServerClosed)" "int d < timeout"
    and "se_shutdown env = Some (d', None)" "int d' < timeout"
    and "\<forall>runner \<in> set runners. \<exists>tk. runner = Some tk \<and> well_behaved timeout tk"
  shows "\<exists>t \<le> stop + timeout. Serve env timeout runners = Some (t, None, [BeginShutdown, CancelRun, ServerShutdown])"
proof -
  let ?tasks = "map (runner_task (se_start env)) runners"
  have tasks: "\<forall>tk \<in> set ?tasks. well_behaved timeout tk" using assms(8) by (auto simp: runner_task_def)
  have stop: "ctx_done env = Some stop" using assms(1,2) by (simp add: ctx_done_def)
  have server: "task_end None (se_server env) = None" "task_end (Some stop) (se_server env) = Some (stop + int d, Some ErrServerClosed)"
    using assms(3,4) by (simp_all add: task_end_def)
  have ends: "\<exists>s. q = Some (s, None) \<and> stop \<le> s \<and> s < stop + timeout" if "q \<in> set (map (task_end (Some stop)) ?tasks)" for q
    using that tasks by (fastforce simp: well_behaved_def task_end_def split: option.splits)
  have early: "stop \<le> s" if "(s, ev) \<in> set (first_channels env ?tasks)" for s ev
    using that ends by (fastforce simp: first_channels_def server_channel_def server(1) stop_channel_def stop
        dest: runner_headsD nth_mem)
  obtain now ev where sel: "select_from (se_pick env 0) (se_start env) (first_channels env ?tasks) = (now, ev)" by force
  have ne: "first_channels env ?tasks \<noteq> []" by (simp add: first_channels_def stop_channel_def stop)
  have "stop \<in> fst ` set (first_channels env ?tasks)" by (force simp: first_channels_def stop_channel_def stop)
  from select_from_in [OF ne sel] this early assms(2) have now: "now = stop"
    by (metis dual_order.antisym max.absorb2 max.coboundedI2)
  let ?ends = "map (task_end (Some stop)) ?tasks"
  let ?deadline = "stop + timeout"
  have really: "really_ended env stop ev ?ends" using first_event_ended [OF sel ne] now by simp
  from select_from_in(1) [OF ne sel] have no_server: "ev \<noteq> ServerEnded e" for e
    by (auto simp: first_channels_def server_channel_def server(1) stop_channel_def stop dest: runner_headsD)
  obtain remaining where first: "first_outcome env stop ev ?ends = (False, remaining, None)" "set remaining \<subseteq> set ?ends"
  proof (cases ev)
    case (RunnerEnded i e)
    then have "i < length ?ends \<and> (\<exists>s. ?ends ! i = Some (s, e) \<and> s \<le> stop)"
      using really by (simp only: really_ended_def serve_event.case)
    then have i: "i < length ?ends" "\<exists>s. ?ends ! i = Some (s, e)" by blast+
    with ends [OF nth_mem [OF i(1)]] have "e = None" by (metis option.inject prod.inject)
    then show ?thesis using that RunnerEnded set_drop_at [OF i(1)] by (auto simp: first_outcome_def stop)
  qed (use that no_server in \<open>auto simp: first_outcome_def\<close>)
  have call: "shutdown_call env stop ?deadline = (stop + int d', None)" using assms(6,7) by (simp add: shutdown_call_def)
  obtain t2 ev2 where sel2: "select_from (se_pick env 1) (stop + int d')
      (server_channel env (Some stop) @ [(?deadline, Stopped)]) = (t2, ev2)" by force
  have "t2 < ?deadline \<and> ev2 = ServerEnded (Some ErrServerClosed)"
    using select_before_deadline [OF _ _ _ sel2] assms(5,7) by (auto simp: server_channel_def server(2))
  then have srv: "await_server env stop (stop + int d') ?deadline None = (t2, None, [])" "t2 < ?deadline"
    using sel2 by (simp_all add: await_server_def or_first_def unless_Is_def ErrServerClosed_def)
  have "\<forall>q \<in> set remaining. \<exists>s. q = Some (s, None) \<and> s < ?deadline" using ends first(2) by blast
  from await_runners_graceful [OF refl this srv(2)] obtain t where
    t: "await_runners (se_pick env) ?deadline (length remaining) t2 remaining None = (t, None)" by blast
  have down: "shut_down env timeout stop ev ?ends = (t, None, [BeginShutdown, CancelRun, ServerShutdown])"
    using first(1) call srv(1) t by (simp add: shut_down_def)
  moreover have "Serve env timeout runners = Some (shut_down env timeout stop ev ?ends)"
    using ne sel now by (simp add: Serve_def)
  ultimately show ?thesis using shut_down_in_time [OF down] assms(5) by auto
qed

end
