(* ===== verification/Probe.thy ===== *)
theory Probe
  imports Go_Text
begin

text \<open>
  The health endpoints every process serves (\<^verbatim>\<open>internal/platform/probe\<close>): the group of
  necessary dependencies, liveness and readiness, and the middleware around every route, which names the
  request, recovers from panics and logs. A route is a function of the request identifier that answers, or
  panics (\<open>None\<close>); the answers of the modules are of a type \<open>'r\<close> of their own. The clock and the random
  source are arguments.
\<close>

section \<open>Dependencies\<close>

type_synonym 'w Checker = "go_context \<Rightarrow> 'w \<Rightarrow> go_error option \<times> 'w"

fun checkerGroup_Check :: "'w Checker option list \<Rightarrow> 'w Checker" where
  "checkerGroup_Check [] ctx w = (None, w)"
| "checkerGroup_Check (None # checkers) ctx w = (Some (OtherError ''readiness checker''), w)"
| "checkerGroup_Check (Some checker # checkers) ctx w =
     on_error (checker ctx w) (\<lambda>err w. (Some err, w)) (checkerGroup_Check checkers ctx)"

record 'w probe_State =
  ps_checker :: "'w Checker option"
  ps_probeTimeout :: duration
  ps_stopping :: bool

definition NewState :: "'w Checker option \<Rightarrow> duration \<Rightarrow> 'w probe_State" where
  "NewState checker probeTimeout = \<lparr>ps_checker = checker, ps_probeTimeout = probeTimeout, ps_stopping = False\<rparr>"

definition state_BeginShutdown :: "'w probe_State \<Rightarrow> 'w probe_State" where
  "state_BeginShutdown state = state\<lparr>ps_stopping := True\<rparr>"

section \<open>The endpoints\<close>

record health_response =
  hr_status :: nat
  hr_Status :: string
  hr_Code :: string

definition dependencyUnavailableCode :: string where
  "dependencyUnavailableCode = ''DEPENDENCY_UNAVAILABLE''"

definition health_ok :: health_response where
  "health_ok = \<lparr>hr_status = 200, hr_Status = ''ok'', hr_Code = ''''\<rparr>"

definition writeUnavailable :: health_response where
  "writeUnavailable = \<lparr>hr_status = 503, hr_Status = ''unavailable'', hr_Code = dependencyUnavailableCode\<rparr>"

definition health_body :: "health_response \<Rightarrow> string" where
  \<comment> \<open>The JSON document, without the code where there is none (\<^verbatim>\<open>omitempty\<close>).\<close>
  "health_body r = json_object ((''status'', hr_Status r) # (if hr_Code r = '''' then [] else [(''code'', hr_Code r)]))"

definition live :: "'w probe_State \<Rightarrow> health_response" where
  "live state = health_ok"

definition ready :: "('w \<Rightarrow> instant \<times> 'w) \<Rightarrow> 'w probe_State \<Rightarrow> go_context \<Rightarrow> 'w \<Rightarrow> health_response \<times> 'w" where
  "ready clock state ctx w =
     (case (ps_stopping state, ps_checker state) of
        (False, Some checker) \<Rightarrow>
          from_world (clock w) (\<lambda>now.
            (\<lambda>w. on_error (checker (with_deadline ctx (now + ps_probeTimeout state)) w)
              (\<lambda>err w. (writeUnavailable, w)) (\<lambda>w. (health_ok, w))))
      | _ \<Rightarrow> (writeUnavailable, w))"

section \<open>Request identifiers\<close>

definition isRequestIDCharacter :: "nat \<Rightarrow> bool" where
  "isRequestIDCharacter r \<longleftrightarrow> (97 \<le> r \<and> r \<le> 122) \<or> (65 \<le> r \<and> r \<le> 90) \<or> (48 \<le> r \<and> r \<le> 57) \<or>
     r = 45 \<or> r = 95 \<or> r = 46"

definition normalizedRequestID :: "'w reader \<Rightarrow> string \<Rightarrow> 'w \<Rightarrow> string \<times> 'w" where
  "normalizedRequestID random candidate w =
     (if candidate \<noteq> '''' \<and> length candidate \<le> 64 \<and> \<not> contains_rune (\<lambda>r. \<not> isRequestIDCharacter r) candidate
      then (candidate, w)
      else (case ReadFull random 16 w of
          (None, w) \<Rightarrow> (''request-id-unavailable'', w)
        | (Some buffer, w) \<Rightarrow> (EncodeToHex buffer, w)))"

definition safe_request_id :: "string \<Rightarrow> bool" where
  \<comment> \<open>What may go into a log line and a response header.\<close>
  "safe_request_id s \<longleftrightarrow> s \<noteq> '''' \<and> length s \<le> 64 \<and> list_all (\<lambda>c. isRequestIDCharacter (byte_val c)) s"

section \<open>The handler\<close>

record http_get =
  hg_Method :: string
  hg_Path :: string
  hg_RequestID :: string \<comment> \<open>the header \<^verbatim>\<open>X-Request-ID\<close>\<close>
  hg_Context :: go_context

datatype 'r handled = Health health_response | Routed nat 'r | RouteNotFound

fun handled_status :: "'r handled \<Rightarrow> nat" where
  "handled_status (Health r) = hr_status r"
| "handled_status (Routed status r) = status"
| "handled_status RouteNotFound = 404"

datatype log_line =
    RequestCompleted string string string nat \<comment> \<open>identifier, method, registered path, status\<close>
  | RequestCrashed string

record ('r, 'w) gin_route =
  gr_Method :: string
  gr_Path :: string
  gr_handler :: "string \<Rightarrow> http_get \<Rightarrow> 'w \<Rightarrow> 'r handled option \<times> 'w"

type_synonym ('r, 'w) RouteRegistrar = "('r, 'w) gin_route list"

definition health_routes :: "('w \<Rightarrow> instant \<times> 'w) \<Rightarrow> 'w probe_State \<Rightarrow> ('r, 'w) gin_route list" where
  "health_routes clock state =
     [\<lparr>gr_Method = ''GET'', gr_Path = ''/health/live'', gr_handler = (\<lambda>requestID request w. (Some (Health (live state)), w))\<rparr>,
      \<lparr>gr_Method = ''GET'', gr_Path = ''/health/ready'',
       gr_handler = (\<lambda>requestID request w.
         from_world (ready clock state (hg_Context request) w) (\<lambda>r w. (Some (Health r), w)))\<rparr>]"

definition registered :: "('w \<Rightarrow> instant \<times> 'w) \<Rightarrow> 'w probe_State \<Rightarrow> ('r, 'w) RouteRegistrar option list \<Rightarrow>
    ('r, 'w) gin_route list" where
  "registered clock state registrars =
     health_routes clock state @ concat (map (\<lambda>r. case r of None \<Rightarrow> [] | Some routes \<Rightarrow> routes) registrars)"

definition recovery :: "string \<Rightarrow> 'r handled option \<Rightarrow> 'r handled \<times> log_line list" where
  "recovery requestID answer = (case answer of
     Some r \<Rightarrow> (r, [])
   | None \<Rightarrow> (Health \<lparr>hr_status = 500, hr_Status = ''unavailable'', hr_Code = ''''\<rparr>, [RequestCrashed requestID]))"

definition find_route :: "http_get \<Rightarrow> ('r, 'w) gin_route list \<Rightarrow> ('r, 'w) gin_route option" where
  "find_route request = find (\<lambda>r. gr_Method r = hg_Method request \<and> gr_Path r = hg_Path request)"

definition requestLogger ::
  "'w reader \<Rightarrow> http_get \<Rightarrow> (string \<Rightarrow> 'w \<Rightarrow> (string \<times> 'r handled \<times> log_line list) \<times> 'w) \<Rightarrow> 'w \<Rightarrow>
   (string \<times> 'r handled \<times> log_line list) \<times> 'w" where
  \<comment> \<open>Names the request, lets the rest answer under that name (with the registered path, empty where there is
    none), and logs. The result is the response header \<^verbatim>\<open>X-Request-ID\<close>, the answer and the log.\<close>
  "requestLogger random request rest w =
     from_world (normalizedRequestID random (hg_RequestID request) w) (\<lambda>requestID w.
     from_world (rest requestID w) (\<lambda>(path, r, lines) w.
       ((requestID, r, lines @ [RequestCompleted requestID (hg_Method request) path (handled_status r)]), w)))"

definition NewHandler ::
  "('w \<Rightarrow> instant \<times> 'w) \<Rightarrow> 'w reader \<Rightarrow> 'w probe_State \<Rightarrow> ('r, 'w) RouteRegistrar option list \<Rightarrow> http_get \<Rightarrow> 'w \<Rightarrow>
   (string \<times> 'r handled \<times> log_line list) \<times> 'w" where
  "NewHandler clock random state registrars request =
     requestLogger random request (\<lambda>requestID w.
     case find_route request (registered clock state registrars) of
       None \<Rightarrow> (('''', RouteNotFound, []), w)
     | Some route \<Rightarrow> from_world (gr_handler route requestID request w) (\<lambda>answer w.
         ((gr_Path route, recovery requestID answer), w)))"

section \<open>Properties\<close>

lemma byte_val_hex [simp]: "n < 16 \<Longrightarrow> isRequestIDCharacter (byte_val (hex_digit n))"
proof -
  have "list_all (\<lambda>n. isRequestIDCharacter (byte_val (hex_digit n))) [0..<16]" by code_simp
  then show "n < 16 \<Longrightarrow> ?thesis" by (simp add: list_all_iff)
qed

lemma EncodeToHex_safe:
  "length (EncodeToHex bs) = 2 * length bs" "list_all (\<lambda>c. isRequestIDCharacter (byte_val c)) (EncodeToHex bs)"
proof -
  have "byte_val c div 16 < 16" for c by (simp add: byte_val_def less_mult_imp_div_less)
  then show "length (EncodeToHex bs) = 2 * length bs" "list_all (\<lambda>c. isRequestIDCharacter (byte_val c)) (EncodeToHex bs)"
    by (induction bs) (simp_all add: EncodeToHex_def)
qed

text \<open>A code point below 128 is one byte: no longer form of UTF-8 reaches it.\<close>

lemma decode_rune_small:
  assumes "decode_rune (c # s) = (r, n)" "r < 128"
  shows "r = byte_val c \<and> n = 1"
proof (cases "byte_val c < 128")
  case True
  with assms(1) show ?thesis by (simp add: decode_rune_ascii)
next
  case False
  with assms show ?thesis
    by (auto simp: decode_rune_def RuneError_def Let_def second_ok_def is_cont_def split: list.splits if_splits)
qed

lemma runes_small: "p \<in> set (runes s) \<Longrightarrow> fst p < 128 \<Longrightarrow> \<exists>c. p = (byte_val c, [c])"
proof (induction s rule: runes.induct)
  case (2 c s)
  obtain r n where rn: "decode_rune (c # s) = (r, n)" by force
  with "2.prems"(1) consider "p = (r, take n (c # s))" | "p \<in> set (runes (drop n (c # s)))"
    by auto
  then show ?case
  proof cases
    case 1
    then show ?thesis using decode_rune_small [OF rn] "2.prems"(2) by auto
  next
    case 2
    then show ?thesis using "2.IH" rn "2.prems"(2) by simp
  qed
qed simp

lemma request_characters:
  "\<not> contains_rune (\<lambda>r. \<not> isRequestIDCharacter r) s \<longleftrightarrow> list_all (\<lambda>c. isRequestIDCharacter (byte_val c)) s"
proof
  assume a: "\<not> contains_rune (\<lambda>r. \<not> isRequestIDCharacter r) s"
  have "list_all (\<lambda>c. isRequestIDCharacter (byte_val c)) (snd p)" if "p \<in> set (runes s)" for p
  proof -
    from a that have r: "isRequestIDCharacter (fst p)" by (auto simp: contains_rune_def list_ex_iff)
    then have "fst p < 128" by (auto simp: isRequestIDCharacter_def)
    with r runes_small [OF that] show ?thesis by auto
  qed
  then have "list_all (\<lambda>c. isRequestIDCharacter (byte_val c)) (concat (map snd (runes s)))"
    by (auto simp: list_all_iff)
  then show "list_all (\<lambda>c. isRequestIDCharacter (byte_val c)) s" by (simp add: runes_concat)
next
  assume a: "list_all (\<lambda>c. isRequestIDCharacter (byte_val c)) s"
  then have "is_ascii s" by (auto simp: is_ascii_def list_all_iff isRequestIDCharacter_def)
  with a show "\<not> contains_rune (\<lambda>r. \<not> isRequestIDCharacter r) s"
    by (auto simp: contains_rune_def runes_ascii list_ex_iff list_all_iff)
qed

lemma safe_request_id_kept:
  "normalizedRequestID random s w = (s, w) \<and> safe_request_id s" if "safe_request_id s"
  using that by (auto simp: normalizedRequestID_def safe_request_id_def request_characters)

lemma normalized_safe:
  assumes "normalizedRequestID random candidate w = (s, w')"
  shows "safe_request_id s"
proof -
  have "safe_request_id ''request-id-unavailable''"
    by (simp add: safe_request_id_def isRequestIDCharacter_def byte_val_def)
  moreover have "safe_request_id (EncodeToHex buffer)" if "ReadFull random 16 w = (Some buffer, w')" for buffer and w w' :: 'a
  proof -
    have "length (EncodeToHex buffer) = 32" using ReadFull_length [OF that] by (simp add: EncodeToHex_safe)
    then show ?thesis using EncodeToHex_safe(2) [of buffer] by (auto simp: safe_request_id_def)
  qed
  moreover have "safe_request_id candidate"
    if "candidate \<noteq> ''''" "length candidate \<le> 64" "\<not> contains_rune (\<lambda>r. \<not> isRequestIDCharacter r) candidate"
    using that by (simp add: request_characters safe_request_id_def)
  ultimately show ?thesis
    using assms by (auto simp: normalizedRequestID_def split: if_splits prod.splits option.splits)
qed

text \<open>A safe identifier is what the business boundary accepts as one.\<close>

lemma safe_request_id_trimmed:
  assumes "safe_request_id s"
  shows "TrimSpace s = s" "TrimSpace s \<noteq> ''''"
proof -
  have "is_ascii s" using assms by (auto simp: safe_request_id_def is_ascii_def list_all_iff isRequestIDCharacter_def)
  moreover have "\<not> IsSpace (byte_val c)" if "c \<in> set s" for c
    using assms that by (auto simp: safe_request_id_def list_all_iff isRequestIDCharacter_def IsSpace_def)
  ultimately show "TrimSpace s = s"
    by (auto simp: TrimSpace_ascii intro!: trim_list_id)
  with assms show "TrimSpace s \<noteq> ''''" by (simp add: safe_request_id_def)
qed

text \<open>Every request has one safe identifier, in its response header and in each log line about it.\<close>

lemma handler_identifier:
  assumes "NewHandler clock random state registrars request w = ((requestID, r, log), w')"
  shows "safe_request_id requestID \<and> (\<forall>line \<in> set log. line = RequestCrashed requestID \<or>
    (\<exists>path. line = RequestCompleted requestID (hg_Method request) path (handled_status r)))"
proof -
  obtain s w1 where s: "normalizedRequestID random (hg_RequestID request) w = (s, w1)" by force
  with assms have "requestID = s" and "\<forall>line \<in> set log. line = RequestCrashed requestID \<or>
      (\<exists>path. line = RequestCompleted requestID (hg_Method request) path (handled_status r))"
    by (auto simp: NewHandler_def requestLogger_def from_world_def recovery_def split: option.splits prod.splits)
  with normalized_safe [OF s] show ?thesis by simp
qed

section \<open>What readiness means\<close>

fun answered :: "go_context \<Rightarrow> 'w Checker option list \<Rightarrow> 'w list \<Rightarrow> bool" where
  \<comment> \<open>Each dependency was asked, one after the other, and is available; the states before and after each.\<close>
  "answered ctx [] [w] = True"
| "answered ctx (Some check # checkers) (w # w' # ws) = (check ctx w = (None, w') \<and> answered ctx checkers (w' # ws))"
| "answered ctx _ _ = False"

lemma answered_Nil [simp]: "answered ctx [] ws \<longleftrightarrow> (\<exists>w. ws = [w])"
  by (cases "(ctx, [] :: 'a Checker option list, ws)" rule: answered.cases) auto

lemma answered_None [simp]: "\<not> answered ctx (None # checkers) ws"
  by (cases "(ctx, None # checkers, ws)" rule: answered.cases) auto

lemma answered_Some:
  "answered ctx (Some check # checkers) ws \<longleftrightarrow>
     (\<exists>w w' vs. ws = w # w' # vs \<and> check ctx w = (None, w') \<and> answered ctx checkers (w' # vs))"
  by (cases "(ctx, Some check # checkers, ws)" rule: answered.cases) auto

lemma answered_nonempty: "answered ctx checkers ws \<Longrightarrow> ws \<noteq> []"
  by (cases "(ctx, checkers, ws)" rule: answered.cases) auto

lemma checkerGroup_answered:
  "checkerGroup_Check checkers ctx w = (None, w') \<longleftrightarrow> (\<exists>vs. answered ctx checkers (w # vs) \<and> last (w # vs) = w')"
proof (induction checkers arbitrary: w)
  case Nil
  show ?case by simp
next
  case (Cons c checkers)
  show ?case
  proof (cases c)
    case None
    then show ?thesis by simp
  next
    case (Some check)
    obtain e w1 where w1: "check ctx w = (e, w1)" by force
    have "(\<exists>vs. answered ctx (c # checkers) (w # vs) \<and> last (w # vs) = w') \<longleftrightarrow>
        e = None \<and> (\<exists>vs. answered ctx checkers (w1 # vs) \<and> last (w1 # vs) = w')"
      unfolding Some answered_Some using w1
      by (metis (no_types, lifting) last_ConsR list.distinct(1) list.inject prod.inject)
    moreover have "checkerGroup_Check (c # checkers) ctx w = (None, w') \<longleftrightarrow>
        e = None \<and> checkerGroup_Check checkers ctx w1 = (None, w')"
      using Some w1 by (cases e) simp_all
    ultimately show ?thesis using Cons.IH by simp
  qed
qed

text \<open>(C40) A process calls itself ready exactly when it is not stopping and every necessary dependency, asked in
  order and within the probe timeout, is available; in every other case it gives the one fixed answer that
  tells nothing of the cause. Once the shutdown has begun it is never ready.\<close>

theorem readiness_exact:
  assumes "ps_checker state = Some (checkerGroup_Check checkers)" "ready clock state ctx w = (r, w')"
  shows "(r = health_ok \<or> r = writeUnavailable) \<and>
    (r = health_ok \<longleftrightarrow> \<not> ps_stopping state \<and>
      (\<exists>ws. answered (with_deadline ctx (fst (clock w) + ps_probeTimeout state)) checkers (snd (clock w) # ws) \<and>
         last (snd (clock w) # ws) = w')) \<and>
    fst (ready clock (state_BeginShutdown state) ctx w) = writeUnavailable"
proof -
  have d: "health_ok \<noteq> writeUnavailable" by (simp add: health_ok_def writeUnavailable_def)
  obtain e w1 where g: "checkerGroup_Check checkers (with_deadline ctx (fst (clock w) + ps_probeTimeout state))
      (snd (clock w)) = (e, w1)" by force
  with assms d show ?thesis
    unfolding checkerGroup_answered [symmetric]
    by (cases e; cases "ps_stopping state") (auto simp: ready_def from_world_def state_BeginShutdown_def)
qed

end
