(* ===== verification/Go_Flags.thy ===== *)
theory Go_Flags
  imports Go_Strings
begin

text \<open>
  Go's package \<^verbatim>\<open>flag\<close> as the command lines use it: a set of boolean and text flags with their
  defaults, parsed with \<^verbatim>\<open>flag.ContinueOnError\<close>. Errors, \<^verbatim>\<open>-h\<close> included, are \<open>None\<close>.
\<close>

datatype flag_value = BoolFlag bool | StringFlag string

type_synonym flag_set = "(string \<times> flag_value) list"

definition ParseBool :: "string \<Rightarrow> bool option" where
  "ParseBool s =
     (if s \<in> {''1'', ''t'', ''T'', ''TRUE'', ''true'', ''True''} then Some True
      else if s \<in> {''0'', ''f'', ''F'', ''FALSE'', ''false'', ''False''} then Some False else None)"

definition set_flag :: "string \<Rightarrow> flag_value \<Rightarrow> flag_set \<Rightarrow> flag_set" where
  "set_flag name new flags = map (\<lambda>(k, v). (k, if k = name then new else v)) flags"

definition cut_equals :: "string \<Rightarrow> string \<times> string option" where
  \<comment> \<open>A flag and the value after the first \<^verbatim>\<open>=\<close>, where there is one.\<close>
  "cut_equals s = (takeWhile (\<lambda>c. c \<noteq> CHR ''='') s,
     case dropWhile (\<lambda>c. c \<noteq> CHR ''='') s of [] \<Rightarrow> None | _ # v \<Rightarrow> Some v)"

fun parse_flags :: "flag_set \<Rightarrow> string list \<Rightarrow> (flag_set \<times> string list) option" where
  \<comment> \<open>\<^verbatim>\<open>FlagSet.Parse\<close>: the flags and the arguments left over.\<close>
  "parse_flags flags [] = Some (flags, [])"
| "parse_flags flags (s # args) =
     (if length s < 2 \<or> hd s \<noteq> CHR ''-'' then Some (flags, s # args)
      else let body = drop (if s ! 1 = CHR ''-'' then 2 else 1) s in
        if body = [] then Some (flags, args)
        else if hd body = CHR ''-'' \<or> hd body = CHR ''='' then None
        else (case map_of flags (fst (cut_equals body)) of
            None \<Rightarrow> None
          | Some (BoolFlag _) \<Rightarrow> (case snd (cut_equals body) of
              None \<Rightarrow> parse_flags (set_flag (fst (cut_equals body)) (BoolFlag True) flags) args
            | Some v \<Rightarrow> (case ParseBool v of
                None \<Rightarrow> None
              | Some b \<Rightarrow> parse_flags (set_flag (fst (cut_equals body)) (BoolFlag b) flags) args))
          | Some (StringFlag _) \<Rightarrow> (case snd (cut_equals body) of
              Some v \<Rightarrow> parse_flags (set_flag (fst (cut_equals body)) (StringFlag v) flags) args
            | None \<Rightarrow> (case args of
                [] \<Rightarrow> None
              | v # rest \<Rightarrow> parse_flags (set_flag (fst (cut_equals body)) (StringFlag v) flags) rest))))"

definition bool_flag :: "flag_set \<Rightarrow> string \<Rightarrow> bool" where
  "bool_flag flags name = (map_of flags name = Some (BoolFlag True))"

definition string_flag :: "flag_set \<Rightarrow> string \<Rightarrow> string" where
  "string_flag flags name = (case map_of flags name of Some (StringFlag v) \<Rightarrow> v | _ \<Rightarrow> '''')"

definition countSelected :: "bool list \<Rightarrow> nat" where
  "countSelected commands = foldl (\<lambda>selected command. if command then selected + 1 else selected) 0 commands"

lemma countSelected_filter: "countSelected commands = length (filter id commands)"
proof -
  have "foldl (\<lambda>selected command. if command then selected + 1 else selected) n commands = n + length (filter id commands)" for n
    by (induction commands arbitrary: n) auto
  then show ?thesis by (simp add: countSelected_def)
qed

end
