(* ===== verification/Commands.thy ===== *)
theory Commands
  imports Go_Flags Test_Bootstrap_Runs Process_Config
begin

text \<open>
  The two administrative commands: \<^verbatim>\<open>cmd/identity-bootstrap\<close>, which creates and removes the
  fixture of \<open>Test_Bootstrap\<close>, and \<^verbatim>\<open>cmd/migrator\<close> with \<^verbatim>\<open>migrations.Run\<close> and the helpers
  of \<^verbatim>\<open>internal/platform/database\<close>. What the libraries decide (whether pgx parses a connection
  text, makes a pool and reaches the server, what goose does to a database) is an argument. The printed
  texts are constructors of \<open>cli_line\<close>.
\<close>

section \<open>Connections\<close>

record database_library =
  dl_ParseConfig :: "string \<Rightarrow> bool" \<comment> \<open>pgx accepts the connection text\<close>
  dl_NewWithConfig :: bool
  dl_Ping :: bool

definition database_Validate :: "database_library \<Rightarrow> string \<Rightarrow> go_error option" where
  "database_Validate lib databaseURL =
     (if dl_ParseConfig lib databaseURL then None else Some (OtherError ''database config''))"

definition database_Open :: "database_library \<Rightarrow> string \<Rightarrow> go_error option" where
  \<comment> \<open>The pool, or the error.\<close>
  "database_Open lib databaseURL =
     (if \<not> dl_ParseConfig lib databaseURL then Some (OtherError ''database config'')
      else if \<not> dl_NewWithConfig lib then Some (OtherError ''database pool'') else None)"

datatype cli_line =
    UsageText
  | VersionText string
  | ErrorText go_error
  | ConfigValid
  | FixtureCreated | FixtureMatched | FixtureRemoved | FixtureAbsent
  | SchemaCurrent
  | MigrationsApplied nat int
  | MigrationRolledBack int
  | MigrationStatus string string

definition buildinfo_Version :: string where
  "buildinfo_Version = ''dev''"

section \<open>identity-bootstrap\<close>

datatype action = ActionApply | ActionRemove | ActionOther string

definition writeResult :: "action \<Rightarrow> bool \<Rightarrow> cli_line" where
  "writeResult selectedAction changed =
     (if selectedAction = ActionApply \<and> changed then FixtureCreated
      else if selectedAction = ActionApply then FixtureMatched
      else if changed then FixtureRemoved else FixtureAbsent)"

record tool_env =
  te_getenv :: getenv
  te_Open :: "string \<Rightarrow> go_body option" \<comment> \<open>\<^verbatim>\<open>os.Open\<close>\<close>
  te_uc :: "nat \<Rightarrow> nat"
  te_authority :: parse_authority
  te_decode :: "bytes \<Rightarrow> (Manifest \<times> bytes) option"
  te_uuid :: uuid_library
  te_database :: database_library
  te_bootstrap :: bootstrap_env

definition loadManifestFile :: "tool_env \<Rightarrow> string \<Rightarrow> Manifest result" where
  "loadManifestFile env path = (case te_Open env path of
     None \<Rightarrow> Inl (OtherError ''open manifest'')
   | Some body \<Rightarrow> LoadManifest (te_uc env) (te_authority env) (te_decode env) (Some body))"

definition loadDatabaseURL :: "getenv \<Rightarrow> string result" where
  "loadDatabaseURL env =
     (let databaseURL = TrimSpace (env ''MAIL_SUITE_DATABASE_URL'')
      in if databaseURL = '''' then Inl (OtherError ''MAIL_SUITE_DATABASE_URL'') else Inr databaseURL)"

definition executeWithPool :: "tool_env \<Rightarrow> action \<Rightarrow> Manifest \<Rightarrow> identity_db \<Rightarrow> bool result \<times> identity_db" where
  "executeWithPool env selectedAction manifest db = (case selectedAction of
     ActionApply \<Rightarrow> Apply (te_bootstrap env) (te_uuid env) (te_uc env) (te_authority env) True manifest db
   | ActionRemove \<Rightarrow> Remove (te_bootstrap env) (te_uuid env) (te_uc env) (te_authority env) True manifest db
   | ActionOther _ \<Rightarrow> (Inl (OtherError ''bootstrap action''), db))"

definition tool_execute ::
  "tool_env \<Rightarrow> string \<Rightarrow> action \<Rightarrow> Manifest \<Rightarrow> identity_db \<Rightarrow> bool result \<times> identity_db" where
  "tool_execute env databaseURL selectedAction manifest db =
     (case database_Open (te_database env) databaseURL of
        Some e \<Rightarrow> (Inl e, db)
      | None \<Rightarrow>
          if \<not> dl_Ping (te_database env) then (Inl (OtherError ''database unavailable''), db)
          else executeWithPool env selectedAction manifest db)"

definition bootstrap_flags :: flag_set where
  "bootstrap_flags = [(''version'', BoolFlag False), (''check'', BoolFlag False), (''apply'', BoolFlag False),
     (''remove'', BoolFlag False), (''manifest'', StringFlag '''')]"

definition bootstrap_run ::
  "getenv \<Rightarrow> database_library \<Rightarrow> (string \<Rightarrow> Manifest result) \<Rightarrow>
   (string \<Rightarrow> action \<Rightarrow> Manifest \<Rightarrow> 'w \<Rightarrow> bool result \<times> 'w) \<Rightarrow> string list \<Rightarrow> 'w \<Rightarrow> (nat \<times> cli_line list) \<times> 'w" where
  \<comment> \<open>The exit code and the printed lines.\<close>
  "bootstrap_run getenv database loadManifest executeBootstrap arguments w =
     (case parse_flags bootstrap_flags arguments of
        None \<Rightarrow> ((2, [UsageText]), w)
      | Some (flags, left) \<Rightarrow>
          let showVersion = bool_flag flags ''version''; checkConfig = bool_flag flags ''check'';
              applyFixture = bool_flag flags ''apply''; removeFixture = bool_flag flags ''remove'';
              manifestPath = string_flag flags ''manifest''
          in if length left \<noteq> 0 \<or> countSelected [showVersion, checkConfig, applyFixture, removeFixture] \<noteq> 1
             then ((2, [UsageText]), w)
             else if showVersion
               then (if TrimSpace manifestPath \<noteq> '''' then ((2, [UsageText]), w)
                     else ((0, [VersionText buildinfo_Version]), w))
             else if TrimSpace manifestPath = '''' then ((2, [UsageText]), w)
             else (case loadManifest manifestPath of
                 Inl e \<Rightarrow> ((1, [ErrorText e]), w)
               | Inr manifest \<Rightarrow>
                   (case loadDatabaseURL getenv of
                      Inl e \<Rightarrow> ((1, [ErrorText e]), w)
                    | Inr databaseURL \<Rightarrow>
                        (case database_Validate database databaseURL of
                           Some e \<Rightarrow> ((1, [ErrorText e]), w)
                         | None \<Rightarrow>
                             if checkConfig then ((0, [ConfigValid]), w)
                             else (let selectedAction = (if removeFixture then ActionRemove else ActionApply)
                               in on_result (executeBootstrap databaseURL selectedAction manifest w)
                                    (\<lambda>e w. ((1, [ErrorText e]), w))
                                    (\<lambda>changed w. ((0, [writeResult selectedAction changed]), w)))))))"

definition bootstrap_main :: "tool_env \<Rightarrow> string list \<Rightarrow> identity_db \<Rightarrow> (nat \<times> cli_line list) \<times> identity_db" where
  "bootstrap_main env = bootstrap_run (te_getenv env) (te_database env) (loadManifestFile env) (tool_execute env)"

section \<open>Migrations\<close>

text \<open>Goose on a database of type \<open>'d\<close>: what it applied, rolled back or found, or an error.\<close>

record 'd goose_provider =
  gp_Up :: "'d \<Rightarrow> int list option \<times> 'd"
  gp_Down :: "'d \<Rightarrow> int option \<times> 'd"
  gp_Status :: "'d \<Rightarrow> (int \<times> string) list option \<times> 'd"

record 'd migration_library =
  ml_database :: database_library
  ml_pgx_ParseConfig :: "string \<Rightarrow> bool"
  ml_locker :: bool
  ml_provider :: "'d goose_provider option"
  ml_Close :: bool \<comment> \<open>the connections close without an error\<close>

datatype migration_Command = CommandUp | CommandDown | CommandStatus | CommandOther string

definition runUp :: "'d goose_provider \<Rightarrow> 'd \<Rightarrow> (go_error option \<times> cli_line list) \<times> 'd" where
  "runUp provider d = (case gp_Up provider d of
     (None, d) \<Rightarrow> ((Some (OtherError ''migration up''), []), d)
   | (Some results, d) \<Rightarrow>
       ((None, [if results = [] then SchemaCurrent else MigrationsApplied (length results) (last results)]), d))"

definition runDown :: "'d goose_provider \<Rightarrow> 'd \<Rightarrow> (go_error option \<times> cli_line list) \<times> 'd" where
  "runDown provider d = (case gp_Down provider d of
     (None, d) \<Rightarrow> ((Some (OtherError ''migration down''), []), d)
   | (Some version, d) \<Rightarrow> ((None, [MigrationRolledBack version]), d))"

definition version_text :: "int \<Rightarrow> string" where
  \<comment> \<open>\<^verbatim>\<open>%05d\<close> of a version that is not negative\<close>
  "version_text v = pad_nat 5 (nat v)"

definition writeStatus :: "'d goose_provider \<Rightarrow> 'd \<Rightarrow> (go_error option \<times> cli_line list) \<times> 'd" where
  "writeStatus provider d = (case gp_Status provider d of
     (None, d) \<Rightarrow> ((Some (OtherError ''migration status''), []), d)
   | (Some statuses, d) \<Rightarrow> ((None, map (\<lambda>(version, state). MigrationStatus (version_text version) state) statuses), d))"

definition migrations_Run ::
  "'d migration_library \<Rightarrow> string \<Rightarrow> migration_Command \<Rightarrow> 'd \<Rightarrow> (go_error option \<times> cli_line list) \<times> 'd" where
  "migrations_Run lib databaseURL command d =
     (case database_Validate (ml_database lib) databaseURL of
        Some e \<Rightarrow> ((Some e, []), d)
      | None \<Rightarrow>
          if \<not> ml_pgx_ParseConfig lib databaseURL then ((Some (OtherError ''database config''), []), d)
          else (case (if \<not> ml_locker lib then ((Some (OtherError ''migration lock''), []), d)
              else case ml_provider lib of
                None \<Rightarrow> ((Some (OtherError ''migration provider''), []), d)
              | Some provider \<Rightarrow> (case command of
                  CommandUp \<Rightarrow> runUp provider d
                | CommandDown \<Rightarrow> runDown provider d
                | CommandStatus \<Rightarrow> writeStatus provider d
                | CommandOther _ \<Rightarrow> ((Some (OtherError ''migration command''), []), d)))
            of ((runErr, lines), d) \<Rightarrow>
              ((if runErr = None \<and> \<not> ml_Close lib then Some (OtherError ''migration close'') else runErr, lines), d)))"

definition migrator_flags :: flag_set where
  "migrator_flags = [(''version'', BoolFlag False), (''check-config'', BoolFlag False), (''up'', BoolFlag False),
     (''down'', BoolFlag False), (''status'', BoolFlag False)]"

definition loadDatabaseConfig ::
  "(nat \<Rightarrow> nat) \<Rightarrow> parse_authority \<Rightarrow> (nat \<Rightarrow> nat \<Rightarrow> nat \<Rightarrow> nat) \<Rightarrow> getenv \<Rightarrow> platform_Config result" where
  "loadDatabaseConfig uc authority fraction env = platform_Load uc authority fraction env ''migrator'' ''127.0.0.1:0''"

definition migrator_run ::
  "(nat \<Rightarrow> nat) \<Rightarrow> parse_authority \<Rightarrow> (nat \<Rightarrow> nat \<Rightarrow> nat \<Rightarrow> nat) \<Rightarrow> getenv \<Rightarrow> database_library \<Rightarrow>
   (string \<Rightarrow> migration_Command \<Rightarrow> 'd \<Rightarrow> (go_error option \<times> cli_line list) \<times> 'd) \<Rightarrow> string list \<Rightarrow> 'd \<Rightarrow>
   (nat \<times> cli_line list) \<times> 'd" where
  "migrator_run uc authority fraction env database execute arguments d =
     (case parse_flags migrator_flags arguments of
        None \<Rightarrow> ((2, [UsageText]), d)
      | Some (flags, left) \<Rightarrow>
          let showVersion = bool_flag flags ''version''; checkConfig = bool_flag flags ''check-config'';
              applyUp = bool_flag flags ''up''; applyDown = bool_flag flags ''down''; showStatus = bool_flag flags ''status''
          in if length left \<noteq> 0 \<or> countSelected [showVersion, checkConfig, applyUp, applyDown, showStatus] \<noteq> 1
             then ((2, [UsageText]), d)
             else if showVersion then ((0, [VersionText buildinfo_Version]), d)
             else (case loadDatabaseConfig uc authority fraction env of
                 Inl e \<Rightarrow> ((1, [ErrorText e]), d)
               | Inr serviceConfig \<Rightarrow>
                   if checkConfig
                   then (case database_Validate database (pcf_DatabaseURL serviceConfig) of
                       Some e \<Rightarrow> ((1, [ErrorText e]), d)
                     | None \<Rightarrow> ((0, [ConfigValid]), d))
                   else (case execute (pcf_DatabaseURL serviceConfig)
                       (if applyUp then CommandUp else if applyDown then CommandDown else CommandStatus) d
                     of ((Some e, lines), d) \<Rightarrow> ((1, lines @ [ErrorText e]), d)
                      | ((None, lines), d) \<Rightarrow> ((0, lines), d))))"

end
