(* ===== verification/Process_Service.thy ===== *)
theory Process_Service
  imports Lifecycle Probe Commands Go_Web
begin

text \<open>
  The process around the API and the worker: \<^verbatim>\<open>internal/platform/service\<close> with the start of the
  telemetry (\<^verbatim>\<open>internal/platform/telemetry\<close>), the health check of the containers, and the two entry
  points \<^verbatim>\<open>cmd/api\<close> and \<^verbatim>\<open>cmd/worker\<close>. A background task is the \<open>task\<close> of \<open>Lifecycle\<close>, a
  dependency a \<open>Checker\<close> of \<open>Probe\<close>. The trace lists what the process acquires and releases.
\<close>

section \<open>Starting and stopping\<close>

datatype service_action =
    TelemetryStarted
  | PoolOpened
  | Listening string
  | Served "serve_action list"
  | StoppedNormally
  | PoolClosed
  | TelemetryShutdown

datatype service_end = RunsForever | Ended "go_error option"

record 'w service_parts =
  sp_uc :: "nat \<Rightarrow> nat"
  sp_authority :: parse_authority
  sp_fraction :: "nat \<Rightarrow> nat \<Rightarrow> nat \<Rightarrow> nat"
  sp_getenv :: getenv
  sp_exporter :: bool \<comment> \<open>\<^verbatim>\<open>otlptracehttp.New\<close> succeeds\<close>
  sp_resource :: bool \<comment> \<open>\<^verbatim>\<open>resource.New\<close> succeeds\<close>
  sp_database :: database_library
  sp_Ping :: "'w Checker" \<comment> \<open>\<^verbatim>\<open>database.NewChecker(pool)\<close>\<close>
  sp_Listen :: "string \<Rightarrow> bool"
  sp_serve :: serve_env

definition telemetry_New :: "'w service_parts \<Rightarrow> string \<Rightarrow> go_error option" where
  \<comment> \<open>An empty endpoint starts nothing and is shut down like a provider.\<close>
  "telemetry_New parts endpoint =
     (if endpoint = '''' then None
      else if \<not> sp_exporter parts then Some (OtherError ''OTLP exporter'')
      else if \<not> sp_resource parts then Some (OtherError ''telemetry resource'') else None)"

type_synonym 'w BackgroundBuilder = "platform_Config \<Rightarrow> 'w \<Rightarrow> (task option \<times> 'w Checker option) result \<times> 'w"

type_synonym ('r, 'w) RouteBuilder = "'w \<Rightarrow> ('r, 'w) RouteRegistrar option result \<times> 'w"

fun build_routes :: "('r, 'w) RouteBuilder list \<Rightarrow> 'w \<Rightarrow> ('r, 'w) RouteRegistrar option list result \<times> 'w" where
  \<comment> \<open>The registrars that are not nil, or the first error.\<close>
  "build_routes [] w = (Inr [], w)"
| "build_routes (builder # builders) w =
     on_result (builder w) (\<lambda>e w. (Inl e, w)) (\<lambda>registrar w.
       on_result (build_routes builders w) (\<lambda>e w. (Inl e, w)) (\<lambda>registrars w.
         (Inr (if registrar = None then registrars else registrar # registrars), w)))"

definition build_background ::
  "'w BackgroundBuilder option \<Rightarrow> platform_Config \<Rightarrow> 'w \<Rightarrow> (task list \<times> 'w Checker option list) result \<times> 'w" where
  \<comment> \<open>The background task and its readiness condition, where the process has one.\<close>
  "build_background backgroundBuilder serviceConfig w = (case backgroundBuilder of
     None \<Rightarrow> (Inr ([], []), w)
   | Some build \<Rightarrow> on_result (build serviceConfig w) (\<lambda>e w. (Inl e, w)) (\<lambda>built w.
       (case built of
          (Some runner, Some checker) \<Rightarrow> (Inr ([runner], [Some checker]), w)
        | _ \<Rightarrow> (Inl (OtherError ''background parts''), w))))"

record ('r, 'w) started_service =
  ss_config :: platform_Config
  ss_state :: "'w probe_State"
  ss_registrars :: "('r, 'w) RouteRegistrar option list"
  ss_runners :: "task list"

definition prepare_service ::
  "'w service_parts \<Rightarrow> platform_Config \<Rightarrow> 'w BackgroundBuilder option \<Rightarrow> ('r, 'w) RouteBuilder list \<Rightarrow> 'w \<Rightarrow>
   ('r, 'w) started_service result \<times> 'w" where
  \<comment> \<open>What \<^verbatim>\<open>run\<close> assembles with the open pool, before it listens.\<close>
  "prepare_service parts serviceConfig backgroundBuilder builders w =
     on_result (build_background backgroundBuilder serviceConfig w) (\<lambda>e w. (Inl e, w)) (\<lambda>built w.
     on_result (build_routes builders w) (\<lambda>e w. (Inl e, w)) (\<lambda>registrars w.
       (Inr \<lparr>ss_config = serviceConfig,
          ss_state = NewState (Some (checkerGroup_Check (Some (sp_Ping parts) # snd built))) (pcf_ProbeTimeout serviceConfig),
          ss_registrars = registrars, ss_runners = fst built\<rparr>, w)))"

definition serve_service :: "'w service_parts \<Rightarrow> ('r, 'w) started_service \<Rightarrow> service_end \<times> service_action list" where
  \<comment> \<open>From \<^verbatim>\<open>net.Listen\<close> on.\<close>
  "serve_service parts started =
     (let address = pcf_HTTPAddress (ss_config started) in
      if \<not> sp_Listen parts address then (Ended (Some (OtherError ''listen'')), [])
      else (case Serve (sp_serve parts) (pcf_ShutdownTimeout (ss_config started)) (map Some (ss_runners started)) of
          None \<Rightarrow> (RunsForever, [Listening address])
        | Some (t, err, actions) \<Rightarrow>
            (Ended err, [Listening address, Served actions] @ (if err = None then [StoppedNormally] else []))))"

definition deferred :: "service_action \<Rightarrow> service_action \<Rightarrow> service_end \<times> service_action list \<Rightarrow> service_end \<times> service_action list" where
  \<comment> \<open>A resource with its \<^verbatim>\<open>defer\<close>: released when the function returns, whatever it returns.\<close>
  "deferred acquire release r =
     (fst r, acquire # snd r @ (if fst r = RunsForever then [] else [release]))"

definition service_run ::
  "'w service_parts \<Rightarrow> string \<Rightarrow> string \<Rightarrow> 'w BackgroundBuilder option \<Rightarrow> ('r, 'w) RouteBuilder list \<Rightarrow> 'w \<Rightarrow>
   (service_end \<times> service_action list) \<times> 'w" where
  "service_run parts serviceName defaultHTTPAddress backgroundBuilder builders w =
     (case platform_Load (sp_uc parts) (sp_authority parts) (sp_fraction parts) (sp_getenv parts) serviceName
         defaultHTTPAddress of
        Inl e \<Rightarrow> ((Ended (Some e), []), w)
      | Inr serviceConfig \<Rightarrow>
          (case telemetry_New parts (pcf_OTLPEndpoint serviceConfig) of
             Some e \<Rightarrow> ((Ended (Some e), []), w)
           | None \<Rightarrow>
               (case database_Open (sp_database parts) (pcf_DatabaseURL serviceConfig) of
                  Some e \<Rightarrow> (deferred TelemetryStarted TelemetryShutdown (Ended (Some e), []), w)
                | None \<Rightarrow>
                    from_world (prepare_service parts serviceConfig backgroundBuilder builders w) (\<lambda>r w.
                      (deferred TelemetryStarted TelemetryShutdown (deferred PoolOpened PoolClosed
                         (case r of Inl e \<Rightarrow> (Ended (Some e), []) | Inr started \<Rightarrow> serve_service parts started)), w)))))"

definition RunWithBackground ::
  "'w service_parts \<Rightarrow> string \<Rightarrow> string \<Rightarrow> 'w BackgroundBuilder option \<Rightarrow> ('r, 'w) RouteBuilder list \<Rightarrow> 'w \<Rightarrow>
   (service_end \<times> service_action list) \<times> 'w" where
  "RunWithBackground parts serviceName defaultHTTPAddress backgroundBuilder builders w =
     (if backgroundBuilder = None then ((Ended (Some (OtherError ''background builder'')), []), w)
      else service_run parts serviceName defaultHTTPAddress backgroundBuilder builders w)"

section \<open>The health check of the containers\<close>

definition SplitHostPort :: "string \<Rightarrow> (string \<times> string) option" where
  \<comment> \<open>\<^verbatim>\<open>net.SplitHostPort\<close>: a host, in brackets where it holds colons, and the text after the last colon.\<close>
  "SplitHostPort hostport =
     (if CHR '':'' \<notin> set hostport then None
      else
       let port = rev (takeWhile (\<lambda>c. c \<noteq> CHR '':'') (rev hostport));
           before = take (length hostport - length port - 1) hostport
       in if hd hostport = CHR ''[''
          then (case dropWhile (\<lambda>c. c \<noteq> CHR '']'') hostport of
              [] \<Rightarrow> None
            | _ # after_host \<Rightarrow>
                if after_host \<noteq> CHR '':'' # port \<or> CHR ''['' \<in> set (tl hostport) \<or> CHR '']'' \<in> set after_host then None
                else Some (tl (takeWhile (\<lambda>c. c \<noteq> CHR '']'') hostport), port))
          else if CHR '':'' \<in> set before \<or> CHR ''['' \<in> set hostport \<or> CHR '']'' \<in> set hostport then None
          else Some (before, port))"

definition maximumHealthResponseBytes :: nat where
  "maximumHealthResponseBytes = 64"

definition CheckHealth ::
  "(string \<Rightarrow> duration \<Rightarrow> 'w \<Rightarrow> (nat \<times> go_body) option \<times> 'w) \<Rightarrow> string \<Rightarrow> duration \<Rightarrow> 'w \<Rightarrow> go_error option \<times> 'w" where
  \<comment> \<open>\<open>get\<close> is the HTTP client that follows no redirect.\<close>
  "CheckHealth get endpoint timeout w =
     (if endpoint = '''' \<or> timeout \<le> 0 then (Some (OtherError ''health check config''), w)
      else (case get endpoint timeout w of
          (None, w) \<Rightarrow> (Some (OtherError ''health unavailable''), w)
        | (Some (status, response), w) \<Rightarrow>
            (case ReadAll_limited (maximumHealthResponseBytes + 1) response of
               None \<Rightarrow> (Some (OtherError ''health not ready''), w)
             | Some body \<Rightarrow>
                 if status \<noteq> 200 \<or> maximumHealthResponseBytes < length body
                 then (Some (OtherError ''health not ready''), w) else (None, w))))"

definition health_endpoint :: "string \<Rightarrow> string" where
  "health_endpoint port = ''http://127.0.0.1:'' @ port @ ''/health/ready''"

definition CheckConfiguredHealth ::
  "getenv \<Rightarrow> (string \<Rightarrow> duration \<Rightarrow> 'w \<Rightarrow> (nat \<times> go_body) option \<times> 'w) \<Rightarrow> string \<Rightarrow> duration \<Rightarrow> 'w \<Rightarrow>
   go_error option \<times> 'w" where
  "CheckConfiguredHealth env get defaultHTTPAddress timeout w =
     (let configured = TrimSpace (env ''MAIL_SUITE_HTTP_ADDRESS'');
          address = (if configured = '''' then defaultHTTPAddress else configured)
      in case SplitHostPort address of
           None \<Rightarrow> (Some (OtherError ''health check config''), w)
         | Some (host, port) \<Rightarrow>
             if port = '''' then (Some (OtherError ''health check config''), w)
             else CheckHealth get (health_endpoint port) timeout w)"

section \<open>Entry points\<close>

definition process_main ::
  "getenv \<Rightarrow> (string \<Rightarrow> duration \<Rightarrow> 'w \<Rightarrow> (nat \<times> go_body) option \<times> 'w) \<Rightarrow> string \<Rightarrow>
   ('w \<Rightarrow> (service_end \<times> service_action list) \<times> 'w) \<Rightarrow> string list \<Rightarrow> 'w \<Rightarrow> (nat option \<times> service_action list) \<times> 'w" where
  \<comment> \<open>The exit code, \<open>None\<close> while the process runs; \<open>arguments\<close> without the program's name.\<close>
  "process_main env get defaultHTTPAddress run arguments w =
     (if arguments = [''--healthcheck'']
      then (case CheckConfiguredHealth env get defaultHTTPAddress 2000000000 w of
          (Some e, w) \<Rightarrow> ((Some 1, []), w) | (None, w) \<Rightarrow> ((Some 0, []), w))
      else (case run w of ((ended, actions), w) \<Rightarrow>
          ((case ended of RunsForever \<Rightarrow> None | Ended None \<Rightarrow> Some 0 | Ended (Some e) \<Rightarrow> Some 1, actions), w)))"

definition api_main ::
  "'w service_parts \<Rightarrow> (string \<Rightarrow> duration \<Rightarrow> 'w \<Rightarrow> (nat \<times> go_body) option \<times> 'w) \<Rightarrow> ('r, 'w) RouteBuilder \<Rightarrow>
   string list \<Rightarrow> 'w \<Rightarrow> (nat option \<times> service_action list) \<times> 'w" where
  "api_main parts get routes = process_main (sp_getenv parts) get ''127.0.0.1:8080''
     (service_run parts ''api'' ''127.0.0.1:8080'' None [routes])"

definition worker_main ::
  "'w service_parts \<Rightarrow> (string \<Rightarrow> duration \<Rightarrow> 'w \<Rightarrow> (nat \<times> go_body) option \<times> 'w) \<Rightarrow> 'w BackgroundBuilder \<Rightarrow>
   string list \<Rightarrow> 'w \<Rightarrow> (nat option \<times> service_action list) \<times> 'w" where
  "worker_main parts get build = process_main (sp_getenv parts) get ''127.0.0.1:8081''
     (RunWithBackground parts ''worker'' ''127.0.0.1:8081'' (Some build) ([] :: (unit, 'w) RouteBuilder list))"

section \<open>Properties\<close>

lemma serve_service_cases:
  assumes "serve_service parts started = (ended, actions)"
  obtains (refused) e where "ended = Ended (Some e)" "actions = []"
  | (forever) "ended = RunsForever"
  | (failed) e fx where "ended = Ended (Some e)" "actions = [Listening (pcf_HTTPAddress (ss_config started)), Served fx]"
  | (clean) t where "ended = Ended None" "actions = [Listening (pcf_HTTPAddress (ss_config started)),
        Served [BeginShutdown, CancelRun, ServerShutdown], StoppedNormally]"
      "Serve (sp_serve parts) (pcf_ShutdownTimeout (ss_config started)) (map Some (ss_runners started)) =
        Some (t, None, [BeginShutdown, CancelRun, ServerShutdown])"
  using assms clean_stop_is_complete
  by (fastforce simp: serve_service_def Let_def split: if_splits option.splits prod.splits)

text \<open>(C36) A process leaves nothing behind and says the truth about its end. Whatever fails, a process that ends has
  released what it acquired in the opposite order; it listened only where its settings loaded and its parts were
  built; and it reports a normal end only for a stop that was asked for - at the instant \<open>now\<close> its context had been
  cancelled or its server was closed, and no background task had ended by itself before -, after readiness was
  withdrawn, the tasks were cancelled and the server was shut down without force, and only when at the instant \<open>t\<close>
  at which \<^verbatim>\<open>Serve\<close> returned the server had ended as closed and every background task without an error but its
  cancellation. A background task that ends unasked is therefore never reported as a normal end.\<close>

theorem process_end_released:
  assumes "service_run parts name address background_builder builders w = ((ended, actions), w')"
    and "ended \<noteq> RunsForever"
  shows "(actions = [] \<or> actions = [TelemetryStarted, TelemetryShutdown] \<or>
      (\<exists>acts. actions = [TelemetryStarted, PoolOpened] @ acts @ [PoolClosed, TelemetryShutdown] \<and>
         set acts \<inter> {TelemetryStarted, PoolOpened, PoolClosed, TelemetryShutdown} = {})) \<and>
    (\<forall>a. Listening a \<in> set actions \<longrightarrow> (\<exists>config started.
      platform_Load (sp_uc parts) (sp_authority parts) (sp_fraction parts) (sp_getenv parts) name address = Inr config \<and>
      a = pcf_HTTPAddress config \<and>
      prepare_service parts config background_builder builders w = (Inr started, w'))) \<and>
    (ended = Ended None \<longrightarrow> (\<exists>started now t.
       prepare_service parts (ss_config started) background_builder builders w = (Inr started, w') \<and>
       actions = [TelemetryStarted, PoolOpened, Listening (pcf_HTTPAddress (ss_config started)),
         Served [BeginShutdown, CancelRun, ServerShutdown], StoppedNormally, PoolClosed, TelemetryShutdown] \<and>
       Serve (sp_serve parts) (pcf_ShutdownTimeout (ss_config started)) (map Some (ss_runners started)) =
         Some (t, None, [BeginShutdown, CancelRun, ServerShutdown]) \<and>
       stop_began (sp_serve parts) (ss_runners started) now \<and>
       all_ended (sp_serve parts) now t (map (task_end (Some now)) (ss_runners started))))"
proof (cases "platform_Load (sp_uc parts) (sp_authority parts) (sp_fraction parts) (sp_getenv parts) name address")
  case (Inl e)
  with assms show ?thesis by (auto simp: service_run_def)
next
  case (Inr config)
  note config = Inr
  show ?thesis
  proof (cases "telemetry_New parts (pcf_OTLPEndpoint config) = None \<and>
      database_Open (sp_database parts) (pcf_DatabaseURL config) = None")
    case False
    with config assms show ?thesis by (auto simp: service_run_def deferred_def split: option.splits)
  next
    case True
    obtain r w1 where r: "prepare_service parts config background_builder builders w = (r, w1)" by force
    show ?thesis
    proof (cases r)
      case (Inl e)
      with config True r assms show ?thesis by (auto simp: service_run_def deferred_def)
    next
      case (Inr started)
      obtain ended' acts where s: "serve_service parts started = (ended', acts)" by force
      have c: "ss_config started = config" using r Inr
        by (auto simp: prepare_service_def on_result_def split: sum.splits)
      from config True r Inr s assms
      have run: "ended' = ended" "w' = w1" "actions = [TelemetryStarted, PoolOpened] @ acts @ [PoolClosed, TelemetryShutdown]"
        by (auto simp: service_run_def deferred_def)
      from s show ?thesis
      proof (cases rule: serve_service_cases)
        case (clean t)
        have "map (runner_task (se_start (sp_serve parts))) (map Some (ss_runners started)) = ss_runners started"
          by (simp add: runner_task_def o_def)
        with clean_stop_is_complete [OF clean(3)] obtain now where
          "stop_began (sp_serve parts) (ss_runners started) now"
          "all_ended (sp_serve parts) now t (map (task_end (Some now)) (ss_runners started))" by metis
        with clean run config r Inr c show ?thesis by auto
      qed (use run assms(2) config r Inr c in auto)
    qed
  qed
qed

text \<open>The health check takes the text after the last colon of the configured address for a port. It need not be one:
  the address it builds may then name another host, with the loopback address as the user's name.\<close>

lemma health_check_leaves_loopback:
  assumes "env ''MAIL_SUITE_HTTP_ADDRESS'' = ''0.0.0.0:80@other.test''"
  shows "CheckConfiguredHealth env get address 1 w = CheckHealth get ''http://127.0.0.1:80@other.test/health/ready'' 1 w"
proof -
  have "TrimSpace ''0.0.0.0:80@other.test'' = ''0.0.0.0:80@other.test''" by code_simp
  moreover have "SplitHostPort ''0.0.0.0:80@other.test'' = Some (''0.0.0.0'', ''80@other.test'')" by code_simp
  ultimately show ?thesis using assms by (simp add: CheckConfiguredHealth_def health_endpoint_def)
qed

text \<open>A process is healthy only for a bounded answer with status 200.\<close>

lemma CheckHealth_None:
  assumes "CheckHealth get endpoint timeout w = (None, w')"
  shows "\<exists>response. get endpoint timeout w = (Some (200, response), w') \<and>
    (\<exists>body. ReadAll_limited 65 response = Some body \<and> length body \<le> 64)"
  using assms by (auto simp: CheckHealth_def maximumHealthResponseBytes_def split: if_splits prod.splits option.splits)

end
