(* ===== verification/Process_System.thy ===== *)
theory Process_System
  imports Process_Service Worker_Build Api_Build
begin

text \<open>
  The two processes as they are put together: the worker of \<open>Worker_Build\<close> and the API of \<open>Api_Build\<close>
  in the service frame of \<open>Process_Service\<close>. How a runner of the operation package occupies time
  (\<open>as_task\<close>) and what gin reads from a request (\<open>base\<close>) are arguments.
\<close>

section \<open>The worker\<close>

definition worker_builder :: "'w worker_parts \<Rightarrow> ('w Runner \<Rightarrow> task) \<Rightarrow> 'w BackgroundBuilder" where
  "worker_builder parts as_task serviceConfig w =
     (and_then (buildWorker parts serviceConfig)
        (\<lambda>(runner, adapter). Inr (Some (as_task runner), Some (stalwart_Check adapter))), w)"

definition stops_when_told :: "serve_env \<Rightarrow> duration \<Rightarrow> instant \<Rightarrow> bool" where
  \<comment> \<open>The process is asked to stop at an instant; its server ends as closed and shuts down within the timeout.\<close>
  "stops_when_told env timeout stop \<longleftrightarrow> se_Done env = Some stop \<and> se_start env \<le> stop \<and> tk_own (se_server env) = None \<and>
     (case tk_cancelled (se_server env) of Some (d, Some e) \<Rightarrow> e = ErrServerClosed \<and> int d < timeout | _ \<Rightarrow> False) \<and>
     (case se_shutdown env of Some (d, None) \<Rightarrow> int d < timeout | _ \<Rightarrow> False)"

lemma stops_when_told_clean:
  assumes "stops_when_told env timeout stop" "\<forall>runner \<in> set runners. well_behaved timeout runner"
  shows "\<exists>t. Serve env timeout (map Some runners) = Some (t, None, [BeginShutdown, CancelRun, ServerShutdown])"
proof -
  obtain d d' where "tk_cancelled (se_server env) = Some (d, Some ErrServerClosed)" "int d < timeout"
    "se_shutdown env = Some (d', None)" "int d' < timeout"
    using assms(1) by (auto simp: stops_when_told_def split: option.splits prod.splits)
  with assms graceful_stop_clean [of env stop d timeout d' "map Some runners"] show ?thesis
    by (auto simp: stops_when_told_def)
qed

lemma well_behaved_mono: "well_behaved timeout tk \<Longrightarrow> timeout \<le> timeout' \<Longrightarrow> well_behaved timeout' tk"
  by (auto simp: well_behaved_def split: option.splits)

text \<open>(C37) A worker stops in the time it is given. When its settings loaded, its parts were built and its server
  keeps to its contract, and its runner ends without an error less than one attempt and the safety margin after
  it was told to, then the process, asked to stop, exits with code 0, after it withdrew readiness, stopped the runner,
  shut the server down and released the pool and the telemetry: the settings leave no room for a forced stop.\<close>

theorem worker_exits_clean:
  assumes "platform_Load (sp_uc parts) (sp_authority parts) (sp_fraction parts) (sp_getenv parts) ''worker''
      ''127.0.0.1:8081'' = Inr config"
    and "worker_Load (wp_fraction wparts) (wp_env wparts) (pcf_ShutdownTimeout config) = Inr workerConfig"
    and "buildWorker wparts config = Inr (runner, adapter)"
    and "telemetry_New parts (pcf_OTLPEndpoint config) = None"
    and "database_Open (sp_database parts) (pcf_DatabaseURL config) = None" "sp_Listen parts (pcf_HTTPAddress config)"
    and "stops_when_told (sp_serve parts) (pcf_ShutdownTimeout config) stop"
    and "well_behaved (wcf_AttemptTimeout workerConfig + wcf_LeaseSafetyMargin workerConfig) (as_task runner)"
    and "arguments \<noteq> [''--healthcheck'']"
  shows "worker_main parts get (worker_builder wparts as_task) arguments w =
    ((Some 0, [TelemetryStarted, PoolOpened, Listening (pcf_HTTPAddress config),
        Served [BeginShutdown, CancelRun, ServerShutdown], StoppedNormally, PoolClosed, TelemetryShutdown]), w)"
proof -
  have "worker_timing workerConfig (pcf_ShutdownTimeout config)"
    using worker_Load_timing [OF assms(2)] platform_timeout [OF assms(1)] by blast
  then have "well_behaved (pcf_ShutdownTimeout config) (as_task runner)"
    using well_behaved_mono [OF assms(8)] by (simp add: worker_timing_def)
  with stops_when_told_clean [OF assms(7), of "[as_task runner]"] obtain t where
    "Serve (sp_serve parts) (pcf_ShutdownTimeout config) [Some (as_task runner)] =
      Some (t, None, [BeginShutdown, CancelRun, ServerShutdown])" by auto
  with assms show ?thesis
    by (simp add: worker_main_def process_main_def RunWithBackground_def service_run_def prepare_service_def
        build_background_def worker_builder_def serve_service_def deferred_def)
qed

section \<open>The API\<close>

definition api_registrar ::
  "(nat \<Rightarrow> nat) \<Rightarrow> parse_authority \<Rightarrow> (uuid \<Rightarrow> string) \<Rightarrow> (http_get \<Rightarrow> auth_Context) \<Rightarrow> 'w apiRoutes \<Rightarrow>
   (auth_response, 'w) RouteRegistrar" where
  \<comment> \<open>\<^verbatim>\<open>apiRoutes.RegisterRoutes\<close>: the routes of the authentication, under the request's identifier.\<close>
  "api_registrar uc authority uuid_text base routes =
     map (\<lambda>(method, path, endpoint). \<lparr>gr_Method = method, gr_Path = path,
         gr_handler = (\<lambda>requestID request w.
           from_world (endpoint ((base request)\<lparr>gc_request_id := Some requestID\<rparr>) w)
             (\<lambda>response w. (Some (Routed (rsp_Status response) response), w)))\<rparr>)
       (RegisterRoutes uc authority uuid_text (ar_authentication routes))"

definition api_builder ::
  "('p, 'w) api_parts \<Rightarrow> (uuid \<Rightarrow> string) \<Rightarrow> (http_get \<Rightarrow> auth_Context) \<Rightarrow> (auth_response, 'w) RouteBuilder" where
  "api_builder parts uuid_text base w =
     on_result (bootstrap_Routes parts background w) (\<lambda>e w. (Inl e, w))
       (\<lambda>routes w. (Inr (map_option (api_registrar (ap_uc parts) (ap_authority parts) uuid_text base) routes), w))"

lemma api_disabled_serves_health_only:
  assumes "identity_Load (ap_uc aparts) (ap_authority aparts) (ap_fraction aparts) (ap_env aparts) = Inr iconfig"
    and "icf_Mode iconfig = ModeDisabled"
  shows "prepare_service parts config None [api_builder aparts uuid_text base] w =
    (Inr \<lparr>ss_config = config, ss_state = NewState (Some (checkerGroup_Check [Some (sp_Ping parts)])) (pcf_ProbeTimeout config),
       ss_registrars = [], ss_runners = []\<rparr>, w)"
  using assms by (simp add: prepare_service_def build_background_def api_builder_def bootstrap_Routes_def)

lemma api_routes_known:
  "set (map (\<lambda>r. (gr_Method r, gr_Path r)) (registered clock state [Some (api_registrar uc authority uuid_text base routes)])) =
     {(''GET'', ''/health/live''), (''GET'', ''/health/ready''), (''GET'', ''/api/v1/auth/login''),
      (''GET'', ''/api/v1/auth/callback''), (''GET'', ''/api/v1/session''), (''POST'', ''/api/v1/auth/logout'')}"
  by (auto simp: registered_def health_routes_def api_registrar_def RegisterRoutes_def)

end
