(* ===== verification/Command_Theorems.thy ===== *)
theory Command_Theorems
  imports Commands Test_Removal
begin

text \<open>
  What the administrative commands do to a database, by the one action their command line asks for.
\<close>

definition asked_for :: "flag_set \<Rightarrow> string list \<Rightarrow> string list \<Rightarrow> (string \<times> flag_set) option" where
  \<comment> \<open>The one action a command line selects among \<open>names\<close>, with the flags.\<close>
  "asked_for known names arguments = (case parse_flags known arguments of
     Some (flags, []) \<Rightarrow> (case filter (bool_flag flags) names of [name] \<Rightarrow> Some (name, flags) | _ \<Rightarrow> None)
   | _ \<Rightarrow> None)"

definition bootstrap_actions :: "string list" where
  "bootstrap_actions = [''version'', ''check'', ''apply'', ''remove'']"

definition migrator_actions :: "string list" where
  "migrator_actions = [''version'', ''check-config'', ''up'', ''down'', ''status'']"

lemma selected_actions:
  "countSelected (map (bool_flag flags) names) = length (filter (bool_flag flags) names)"
  by (simp add: countSelected_filter filter_map o_def)

lemma bootstrap_run_asked:
  "bootstrap_run getenv database loadManifest execute arguments w =
     (case asked_for bootstrap_flags bootstrap_actions arguments of
        None \<Rightarrow> ((2, [UsageText]), w)
      | Some (name, flags) \<Rightarrow>
          let path = string_flag flags ''manifest'' in
          if name = ''version''
          then (if TrimSpace path \<noteq> '''' then ((2, [UsageText]), w) else ((0, [VersionText buildinfo_Version]), w))
          else if TrimSpace path = '''' then ((2, [UsageText]), w)
          else (case and_then (loadManifest path) (\<lambda>m. and_then (loadDatabaseURL getenv) (\<lambda>url.
              case database_Validate database url of Some e \<Rightarrow> Inl e | None \<Rightarrow> Inr (m, url))) of
              Inl e \<Rightarrow> ((1, [ErrorText e]), w)
            | Inr (m, url) \<Rightarrow>
                if name = ''check'' then ((0, [ConfigValid]), w)
                else (let act = (if name = ''remove'' then ActionRemove else ActionApply)
                  in on_result (execute url act m w) (\<lambda>e w. ((1, [ErrorText e]), w))
                       (\<lambda>changed w. ((0, [writeResult act changed]), w)))))"
proof (cases "parse_flags bootstrap_flags arguments")
  case None
  then show ?thesis by (simp add: bootstrap_run_def asked_for_def)
next
  case (Some r)
  obtain flags left where r: "r = (flags, left)" by force
  have c: "countSelected [bool_flag flags ''version'', bool_flag flags ''check'', bool_flag flags ''apply'',
      bool_flag flags ''remove''] = length (filter (bool_flag flags) bootstrap_actions)"
    using selected_actions [of flags bootstrap_actions] by (simp add: bootstrap_actions_def)
  show ?thesis
  proof (cases left)
    case (Cons a as)
    with Some r show ?thesis by (simp add: bootstrap_run_def asked_for_def)
  next
    case Nil
    show ?thesis
      unfolding bootstrap_run_def asked_for_def Some r Nil option.case prod.case list.case Let_def c
      by (auto simp: bootstrap_actions_def and_then_def split: sum.splits option.splits)
  qed
qed

lemma Apply_present:
  assumes "Apply env lib uc authority pool m db = (Inr changed, db')"
  shows "fixture_present lib m db'"
  using assms
proof (cases rule: Apply_cases)
  case (ran r0 t)
  then show ?thesis using apply_transaction_cases [OF ran(2)] finish_cases [OF ran(3)] by auto
qed simp

lemma Remove_outcome:
  assumes "Remove env lib uc authority pool m db = (Inr removed, db')"
  shows "\<exists>base. by_others env db base \<and> db' = (if removed then without_fixture lib m base else base)"
proof -
  obtain r0 t where t: "remove_transaction env lib m (begin_transaction db) = (r0, t)"
    "finish_transaction env (r0, t) = (Inr removed, db')"
    using assms by (auto simp: Remove_def in_transaction_def split: if_splits option.splits) (metis prod.collapse)
  with remove_transaction_cases [OF t(1)] finish_cases [OF t(2)] show ?thesis
    by (intro exI [of _ "tx_base t"]) auto
qed

lemma asked_name: "asked_for known names arguments = Some (name, flags) \<Longrightarrow> name \<in> set names"
  by (auto simp: asked_for_def split: option.splits list.splits prod.splits)
    (metis (no_types, lifting) list.set_intros(1) mem_Collect_eq set_filter)

lemma executed:
  assumes "tool_execute env url act m db = (Inr changed, db')"
  shows "act = ActionApply \<Longrightarrow> fixture_present (te_uuid env) m db'"
    and "act = ActionRemove \<Longrightarrow> \<exists>base. by_others (te_bootstrap env) db base \<and>
      db' = (if changed then without_fixture (te_uuid env) m base else base)"
proof -
  have "executeWithPool env act m db = (Inr changed, db')"
    using assms by (auto simp: tool_execute_def split: option.splits if_splits)
  then show "act = ActionApply \<Longrightarrow> fixture_present (te_uuid env) m db'"
    "act = ActionRemove \<Longrightarrow> \<exists>base. by_others (te_bootstrap env) db base \<and>
      db' = (if changed then without_fixture (te_uuid env) m base else base)"
    using Apply_present Remove_outcome by (simp_all add: executeWithPool_def)
qed

lemma loaded_manifest:
  "and_then (loadManifestFile env path) (\<lambda>m. and_then (loadDatabaseURL getenv) (\<lambda>url.
      case database_Validate database url of Some e \<Rightarrow> Inl e | None \<Rightarrow> Inr (m, url))) = Inr (m, url) \<Longrightarrow>
    loadManifestFile env path = Inr m"
  by (auto simp: and_then_Inr split: option.splits)

definition removed_from_others :: "tool_env \<Rightarrow> Manifest \<Rightarrow> identity_db \<Rightarrow> cli_line list \<Rightarrow> identity_db \<Rightarrow> bool" where
  "removed_from_others env m db lines db' \<longleftrightarrow> (\<exists>base. by_others (te_bootstrap env) db base \<and>
     (lines = [FixtureRemoved] \<and> db' = without_fixture (te_uuid env) m base \<or> lines = [FixtureAbsent] \<and> db' = base))"

lemma command_executed:
  assumes "on_result (tool_execute env url act m db) (\<lambda>e w. ((1, [ErrorText e]), w))
      (\<lambda>changed w. ((0, [writeResult act changed]), w)) = ((code, lines), db')"
  shows "code \<le> (1 :: nat)" and "code = 0 \<Longrightarrow> act = ActionApply \<Longrightarrow> fixture_present (te_uuid env) m db'"
    and "code = 0 \<Longrightarrow> act = ActionRemove \<Longrightarrow> removed_from_others env m db lines db'"
proof -
  obtain r d where r: "tool_execute env url act m db = (r, d)" by force
  have "code \<le> 1 \<and> (code = 0 \<and> act = ActionApply \<longrightarrow> fixture_present (te_uuid env) m db') \<and>
    (code = 0 \<and> act = ActionRemove \<longrightarrow> removed_from_others env m db lines db')"
  proof (cases r)
    case (Inl e)
    with assms r show ?thesis by auto
  next
    case (Inr changed)
    with assms r have out: "code = 0" "lines = [writeResult act changed]" "db' = d" by auto
    from executed [OF r [unfolded Inr]] show ?thesis
      unfolding out removed_from_others_def by (auto simp: writeResult_def)
  qed
  then show "code \<le> 1" "code = 0 \<Longrightarrow> act = ActionApply \<Longrightarrow> fixture_present (te_uuid env) m db'"
    "code = 0 \<Longrightarrow> act = ActionRemove \<Longrightarrow> removed_from_others env m db lines db'" by blast+
qed

text \<open>(C39) The command \<^verbatim>\<open>identity-bootstrap\<close> touches the database only on an explicit request, and its exit code
  can be trusted. Without exactly one of \<^verbatim>\<open>--apply\<close> and \<^verbatim>\<open>--remove\<close> the database stays as it is; code 2 means a
  command line that asks for nothing. Code 0 of \<^verbatim>\<open>--apply\<close> means that the fixture of the loaded manifest is
  present, code 0 of \<^verbatim>\<open>--remove\<close> that it was taken out of what others left, or that there was none.\<close>

theorem fixture_command_exact:
  assumes "bootstrap_main env arguments db = ((code, lines), db')"
  defines "asked \<equiv> asked_for bootstrap_flags bootstrap_actions arguments"
  shows "code \<le> 2 \<and> (code = 2 \<longrightarrow> db' = db \<and> lines = [UsageText]) \<and>
    (map_option fst asked \<notin> {Some ''apply'', Some ''remove''} \<longrightarrow> db' = db) \<and>
    (\<forall>flags. code = 0 \<and> asked = Some (''apply'', flags) \<longrightarrow>
      (\<exists>m. loadManifestFile env (string_flag flags ''manifest'') = Inr m \<and> fixture_present (te_uuid env) m db')) \<and>
    (\<forall>flags. code = 0 \<and> asked = Some (''remove'', flags) \<longrightarrow>
      (\<exists>m. loadManifestFile env (string_flag flags ''manifest'') = Inr m \<and> removed_from_others env m db lines db'))"
proof (cases asked)
  case None
  then show ?thesis using assms(1) by (simp add: bootstrap_main_def bootstrap_run_asked asked_def)
next
  case (Some a)
  obtain name flags where a: "a = (name, flags)" by force
  have name: "name \<in> set bootstrap_actions" using asked_name [of bootstrap_flags bootstrap_actions arguments] Some a
    by (simp add: asked_def)
  let ?path = "string_flag flags ''manifest''"
  let ?loaded = "and_then (loadManifestFile env ?path) (\<lambda>m. and_then (loadDatabaseURL (te_getenv env)) (\<lambda>url.
    case database_Validate (te_database env) url of Some e \<Rightarrow> Inl e | None \<Rightarrow> Inr (m, url)))"
  note run = assms(1) [unfolded bootstrap_main_def bootstrap_run_asked asked_def [symmetric] Some a, simplified]
  show ?thesis
  proof (cases "name = ''version'' \<or> TrimSpace ?path = ''''")
    case True
    with run Some a name show ?thesis by (auto simp: Let_def split: if_splits)
  next
    case False
    show ?thesis
    proof (cases ?loaded)
      case (Inl e)
      with run False Some a show ?thesis by (simp add: Let_def)
    next
      case (Inr mu)
      obtain m url where mu: "mu = (m, url)" by force
      note m = loaded_manifest [OF Inr [unfolded mu]]
      show ?thesis
      proof (cases "name = ''check''")
        case True
        with run False Inr mu Some a show ?thesis by (simp add: Let_def)
      next
        case not_check: False
        let ?act = "if name = ''remove'' then ActionRemove else ActionApply"
        from run False not_check Inr mu have ran: "on_result (tool_execute env url ?act m db) (\<lambda>e w. ((1, [ErrorText e]), w))
            (\<lambda>changed w. ((0, [writeResult ?act changed]), w)) = ((code, lines), db')"
          unfolding Let_def by simp
        have "name = ''apply'' \<or> name = ''remove''" using name False not_check by (auto simp: bootstrap_actions_def)
        then show ?thesis using command_executed [OF ran] Some a m by (elim disjE) simp_all
      qed
    qed
  qed
qed

text \<open>The migrator likewise: only \<^verbatim>\<open>--up\<close>, \<^verbatim>\<open>--down\<close> and \<^verbatim>\<open>--status\<close> reach goose, one call each.\<close>

lemma migrations_Run_state:
  "snd (migrations_Run lib databaseURL command d) \<in> {d} \<union>
     (case ml_provider lib of None \<Rightarrow> {} | Some provider \<Rightarrow> (case command of
        CommandUp \<Rightarrow> {snd (gp_Up provider d)} | CommandDown \<Rightarrow> {snd (gp_Down provider d)}
      | CommandStatus \<Rightarrow> {snd (gp_Status provider d)} | CommandOther _ \<Rightarrow> {}))"
  by (auto simp: migrations_Run_def runUp_def runDown_def writeStatus_def
      split: option.splits migration_Command.splits prod.splits)

lemma migrator_run_state:
  fixes uc authority fraction env database execute arguments d
  defines "asked \<equiv> asked_for migrator_flags migrator_actions arguments"
    and "r \<equiv> migrator_run uc authority fraction env database execute arguments d"
  shows "asked = None \<Longrightarrow> r = ((2, [UsageText]), d)"
    and "asked = Some (name, flags) \<Longrightarrow> snd r \<noteq> d \<Longrightarrow> \<exists>url. (name, snd r) \<in>
      {(''up'', snd (execute url CommandUp d)), (''down'', snd (execute url CommandDown d)),
       (''status'', snd (execute url CommandStatus d))}"
proof -
  have c: "countSelected [bool_flag flags ''version'', bool_flag flags ''check-config'', bool_flag flags ''up'',
      bool_flag flags ''down'', bool_flag flags ''status''] = length (filter (bool_flag flags) migrator_actions)" for flags
    using selected_actions [of flags migrator_actions] by (simp add: migrator_actions_def)
  show "asked = None \<Longrightarrow> r = ((2, [UsageText]), d)"
    by (auto simp: asked_def r_def asked_for_def migrator_run_def c Let_def length_Suc_conv
        split: option.splits list.splits prod.splits)
  assume a: "asked = Some (name, flags)" "snd r \<noteq> d"
  then have p: "parse_flags migrator_flags arguments = Some (flags, [])" "filter (bool_flag flags) migrator_actions = [name]"
    by (auto simp: asked_def asked_for_def split: option.splits list.splits prod.splits)
  show "\<exists>url. (name, snd r) \<in>
      {(''up'', snd (execute url CommandUp d)), (''down'', snd (execute url CommandDown d)),
       (''status'', snd (execute url CommandStatus d))}"
    using a(2) p unfolding r_def migrator_run_def p(1) option.case prod.case Let_def c
    by (auto simp: migrator_actions_def split: sum.splits option.splits if_splits prod.splits) (metis snd_conv)+
qed

end
