(* ===== verification/Process_Witnesses.thy ===== *)
theory Process_Witnesses
  imports Process_System Command_Theorems Worker_Build_Witnesses Test_Witnesses
begin

text \<open>Processes and commands at concrete inputs: the worker of the sample settings, which is asked to stop
  after 100 ns, a process whose task does not react, and the fixture command on the sample tables.\<close>

definition sample_serve :: serve_env where
  "sample_serve = \<lparr>se_start = 0, se_Done = Some 100,
     se_server = \<lparr>tk_own = None, tk_cancelled = Some (5, Some ErrServerClosed)\<rparr>,
     se_shutdown = Some (10, None), se_pick = id\<rparr>"

theorem serve_stops_in_time_witness:
  "\<exists>t r actions. Serve sample_serve 50 [Some \<lparr>tk_own = None, tk_cancelled = None\<rparr>] = Some (t, r, actions) \<and> t \<le> 150"
  using serve_stops_in_time [of sample_serve "[Some \<lparr>tk_own = None, tk_cancelled = None\<rparr>]" 100 50]
  by (simp add: must_stop_def sample_serve_def)

definition sample_ready :: "nat probe_State" where
  "sample_ready = NewState (Some (checkerGroup_Check
     [Some (\<lambda>ctx n. (None, n + 1)), Some (\<lambda>ctx n. (if n = 2 then None else Some ErrNoRows, n))])) 5"

theorem readiness_exact_witness:
  "fst (ready (\<lambda>n. (int n, n)) sample_ready background 1) = health_ok \<and>
   fst (ready (\<lambda>n. (int n, n)) sample_ready background 7) = writeUnavailable \<and>
   fst (ready (\<lambda>n. (int n, n)) (state_BeginShutdown sample_ready) background 1) = writeUnavailable"
proof -
  let ?checkers = "[Some (\<lambda>ctx n. (None, n + 1)), Some (\<lambda>ctx n. (if n = 2 then None else Some ErrNoRows, n))]
    :: nat Checker option list"
  have r: "ready (\<lambda>n. (int n, n)) sample_ready background 1 = (health_ok, 2)"
    "ready (\<lambda>n. (int n, n)) sample_ready background 7 = (writeUnavailable, 8)"
    by (simp_all add: ready_def sample_ready_def NewState_def from_world_def)
  have "ps_checker sample_ready = Some (checkerGroup_Check ?checkers)" by (simp add: sample_ready_def NewState_def)
  from readiness_exact [OF this r(1)] r show ?thesis by simp
qed

definition sample_service :: "'w service_parts" where
  "sample_service = \<lparr>sp_uc = id, sp_authority = plain_authority, sp_fraction = (\<lambda>f u s. f * u div s),
     sp_getenv = start_env, sp_exporter = True, sp_resource = True,
     sp_database = \<lparr>dl_ParseConfig = (\<lambda>url. url = ''postgres://db''), dl_NewWithConfig = True, dl_Ping = True\<rparr>,
     sp_Ping = (\<lambda>ctx w. (None, w)), sp_Listen = (\<lambda>address. True), sp_serve = sample_serve\<rparr>"

definition sample_runner_task :: task where
  "sample_runner_task = \<lparr>tk_own = None, tk_cancelled = Some (7, None)\<rparr>"

lemma sample_platform:
  "\<exists>config. platform_Load id plain_authority (\<lambda>f u s. f * u div s) start_env ''worker'' ''127.0.0.1:8081'' = Inr config \<and>
     pcf_ShutdownTimeout config = 30000000000 \<and> pcf_OTLPEndpoint config = '''' \<and>
     pcf_DatabaseURL config = ''postgres://db'' \<and> pcf_HTTPAddress config = ''127.0.0.1:8081''"
  by (simp add: platform_Load_def start_env_simps platform_durationFromEnvironment_def bounded_duration_def
      start_durations validateEndpoint_def)

lemma sample_stops: "stops_when_told sample_serve 30000000000 100"
  by (simp add: stops_when_told_def sample_serve_def)

theorem process_end_released_witness:
  "\<exists>actions. service_run (sample_service :: nat service_parts) ''worker'' ''127.0.0.1:8081'' None
       ([] :: (unit, nat) RouteBuilder list) 0 = ((Ended None, actions), 0) \<and>
     last actions = TelemetryShutdown \<and> Served [BeginShutdown, CancelRun, ServerShutdown] \<in> set actions \<and>
     (\<exists>now. stop_began sample_serve [] now)"
proof -
  obtain config where c: "platform_Load id plain_authority (\<lambda>f u s. f * u div s) start_env ''worker'' ''127.0.0.1:8081'' =
      Inr config" "pcf_ShutdownTimeout config = 30000000000" "pcf_OTLPEndpoint config = ''''"
    "pcf_DatabaseURL config = ''postgres://db''" using sample_platform by blast
  obtain t where t: "Serve sample_serve 30000000000 [] = Some (t, None, [BeginShutdown, CancelRun, ServerShutdown])"
    using stops_when_told_clean [OF sample_stops, of "[]"] by auto
  obtain actions where run: "service_run (sample_service :: nat service_parts) ''worker'' ''127.0.0.1:8081'' None
      ([] :: (unit, nat) RouteBuilder list) 0 = ((Ended None, actions), 0)"
    using c t by (simp add: service_run_def sample_service_def telemetry_New_def database_Open_def prepare_service_def
        build_background_def serve_service_def deferred_def)
  have "ss_runners started = []"
    if "prepare_service (sample_service :: nat service_parts) config None ([] :: (unit, nat) RouteBuilder list) 0 =
      (Inr started, 0)" for config started
    using that by (auto simp: prepare_service_def build_background_def)
  with process_end_released [OF run] run show ?thesis
    by (fastforce simp: sample_service_def)
qed

definition sample_worker_config :: worker_Config where
  "sample_worker_config = \<lparr>wcf_PollInterval = 1000000000, wcf_LeaseDuration = 30000000000,
     wcf_AttemptTimeout = 20000000000, wcf_LeaseSafetyMargin = 5000000000, wcf_BaseRetryDelay = 5000000000,
     wcf_MaxRetryDelay = 300000000000, wcf_MaxAttempts = 8\<rparr>"

lemma sample_worker: "worker_Load f start_env 30000000000 = Inr sample_worker_config"
  using start_env_simps(14)
  by (simp add: worker_Load_def start_env_simps durationEnvironmentNames_def worker_defaults_def sample_worker_config_def
      worker_durationFromEnvironment_def bounded_duration_def positiveIntegerFromEnvironment_def
      defaultMaximumAttempts_def Let_def)

lemma sample_built:
  assumes "pcf_ShutdownTimeout config = 30000000000"
  shows "\<exists>runner adapter. buildWorker start_parts config = Inr (runner, adapter)"
proof -
  have "config_ok (operation_config 1 sample_worker_config)"
    by (simp add: config_ok_def operation_config_def sample_worker_config_def uuid_Nil_def MaxInt32_def)
  moreover have "worker_Load (wp_fraction start_parts) (wp_env start_parts) (pcf_ShutdownTimeout config) = Inr sample_worker_config"
    "wp_owner start_parts = 1" by (simp_all add: start_parts_def assms sample_worker)
  moreover obtain core adapter where "stalwart_LoadConfig (wp_lib start_parts) (wp_url_String start_parts)
      (wp_fraction start_parts) (wp_files start_parts) (wp_env start_parts) = Inr core"
    "stalwart_New (wp_lib start_parts) (wp_client start_parts) (wp_ctxErr start_parts) (wp_now start_parts)
      (wp_random start_parts) core = Inr adapter"
    using start_core [of "\<lambda>f u s. f * u div s"] by (fastforce simp: start_parts_def)
  moreover from calculation(1) obtain service where "newService (Some (wp_repository start_parts)) (Some (stalwart_adapter adapter))
      (operation_config 1 sample_worker_config) (Some (wp_now start_parts)) = Inr service"
    by (simp add: newService_def config_ok_def not_less not_le)
  moreover have "\<exists>runner. NewRunner (Some (service_executor service)) (wcf_PollInterval sample_worker_config) = Inr runner"
    by (simp add: NewRunner_def sample_worker_config_def)
  ultimately show ?thesis by (auto simp: buildWorker_def)
qed

theorem worker_exits_clean_witness:
  "\<exists>actions. \<forall>w. worker_main sample_service (\<lambda>url timeout w. (None, w)) (worker_builder start_parts (\<lambda>_. sample_runner_task))
     [] w = ((Some 0, actions), w)"
proof -
  obtain config where c: "platform_Load id plain_authority (\<lambda>f u s. f * u div s) start_env ''worker'' ''127.0.0.1:8081'' =
      Inr config" "pcf_ShutdownTimeout config = 30000000000" "pcf_OTLPEndpoint config = ''''"
    "pcf_DatabaseURL config = ''postgres://db''" using sample_platform by blast
  have "\<exists>runner adapter. buildWorker start_parts config = Inr (runner, adapter)" using sample_built [OF c(2)] .
  then obtain runner adapter where b: "buildWorker start_parts config = Inr (runner, adapter)" by blast
  have "well_behaved (wcf_AttemptTimeout sample_worker_config + wcf_LeaseSafetyMargin sample_worker_config) ((\<lambda>_. sample_runner_task) runner)"
    by (simp add: well_behaved_def sample_runner_task_def sample_worker_config_def)
  from worker_exits_clean [where parts = sample_service and wparts = start_parts and
      get = "\<lambda>url timeout w. (None, w)" and arguments = "[]", OF _ _ b _ _ _ _ this]
  show ?thesis using c sample_worker sample_stops
    by (auto simp: sample_service_def start_parts_def telemetry_New_def database_Open_def)
qed

definition sample_tool :: tool_env where
  "sample_tool = \<lparr>te_getenv = start_env, te_Open = (\<lambda>path. if path = ''f'' then Some (Body ''{ ... }'' False) else None),
     te_uc = id, te_authority = plain_authority,
     te_decode = (\<lambda>bs. if bs = ''{ ... }'' then Some (test_manifest, []) else None), te_uuid = test_uuids,
     te_database = \<lparr>dl_ParseConfig = (\<lambda>url. url = ''postgres://db''), dl_NewWithConfig = True, dl_Ping = True\<rparr>,
     te_bootstrap = test_env\<rparr>"

lemma sample_asked:
  "asked_for bootstrap_flags bootstrap_actions [''--apply'', ''--manifest=f''] =
     Some (''apply'', [(''version'', BoolFlag False), (''check'', BoolFlag False), (''apply'', BoolFlag True),
       (''remove'', BoolFlag False), (''manifest'', StringFlag ''f'')])"
  by code_simp

lemma sample_loaded: "loadManifestFile sample_tool ''f'' = Inr test_manifest"
  by (simp add: loadManifestFile_def sample_tool_def LoadManifest_def maxManifestBytes_def test_manifest_valid)

lemma sample_command:
  "bootstrap_main sample_tool [''--apply'', ''--manifest=f''] sample_identities = ((0, [FixtureCreated]), test_created)"
proof -
  have "TrimSpace ''f'' = ''f''" by code_simp
  then show ?thesis
    unfolding bootstrap_main_def bootstrap_run_asked sample_asked
    using sample_loaded test_apply
    by (simp add: string_flag_def loadDatabaseURL_def database_Validate_def tool_execute_def database_Open_def
        executeWithPool_def writeResult_def sample_tool_def start_env_simps)
qed

theorem fixture_command_exact_witness:
  "bootstrap_main sample_tool [''--apply'', ''--manifest=f''] sample_identities = ((0, [FixtureCreated]), test_created) \<and>
   fixture_present test_uuids test_manifest test_created \<and>
   bootstrap_main sample_tool [''--apply'', ''--remove'', ''--manifest=f''] sample_identities =
     ((2, [UsageText]), sample_identities)"
proof -
  have "asked_for bootstrap_flags bootstrap_actions [''--apply'', ''--remove'', ''--manifest=f''] = None" by code_simp
  then have "bootstrap_main sample_tool [''--apply'', ''--remove'', ''--manifest=f''] sample_identities =
      ((2, [UsageText]), sample_identities)" by (simp add: bootstrap_main_def bootstrap_run_asked)
  then show ?thesis
    using fixture_command_exact [OF sample_command] sample_command sample_loaded
    by (simp add: sample_asked string_flag_def) (simp add: sample_tool_def)
qed

end
