(* ===== verification/Spec2Isabelle.thy ===== *)
theory Spec2Isabelle
  imports Boundary_Witnesses Stalwart_Read_Witnesses Identity_Http_Witnesses Worker_Build_Witnesses
    Api_Witnesses Test_Witnesses Process_Witnesses
begin

text \<open>
  The Go back end of mail-suite (\<^verbatim>\<open>src/src/backend\<close>), a control plane in front of a mail server.

  \<^bold>\<open>The program.\<close> Two long-running processes and two commands work on one PostgreSQL database.
  The \<^emph>\<open>API\<close> logs browsers in through an OIDC provider, keeps sessions, and guards business routes.
  A request for a mailbox is written to a ledger of operations together with the mailbox and an outbox
  event. The \<^emph>\<open>worker\<close> claims due operations under a lease, asks the mail core (Stalwart, over JMAP) to
  create or update the account, and resolves each attempt with one receipt. The command
  \<^verbatim>\<open>identity-bootstrap\<close> creates and removes a fixture of test identities, and \<^verbatim>\<open>migrator\<close> runs the
  migrations. Mail is read through sealed references that are bound to one mailbox.

  \<^bold>\<open>How the code is modelled.\<close> Pure functions are HOL functions. Stateful code takes the state it works
  on and returns it changed: a handler has a type \<open>'w \<Rightarrow> 'a \<times> 'w\<close>, with an error of type \<open>go_error\<close> as a
  value. The tables are lists of records (\<open>db\<close>, \<open>identity_db\<close>) with the constraints of the migrations.
  One SQL statement is one function on them; a repository call is a sequence of statements in which every
  round trip may fail (\<open>pe_fault\<close>), a failed one may have taken effect (\<open>pe_landed\<close>), and other
  transactions may commit before the first write (\<open>pe_race\<close>). Integers with a width wrap where the code
  can overflow (\<open>wrap64\<close>); texts are byte strings with Go's decoding of UTF-8.

  \<^bold>\<open>The theories\<close>, from the bottom:
  \<^item> \<open>Mail_Prelude\<close>: scalars, errors, contexts, tables, and the locales \<open>step_invariant\<close> and
    \<open>step_monotone\<close> of transition systems. \<open>Go_Strings\<close>, \<open>Go_Crypto\<close>, \<open>Go_Encoding\<close>, \<open>Go_Aead\<close>,
    \<open>Go_Text\<close>, \<open>Go_Web\<close>, \<open>Go_Flags\<close>: what the code uses of Go's standard library (UTF-8, SHA-256, HMAC,
    AES-GCM, base64, durations, URLs, media types, command-line flags).
  \<^item> \<open>Mailcore\<close> (\<^verbatim>\<open>mailcore/mailcore.go\<close>): the contract of the mail core, as records and as the locale
    \<open>mail_adapter\<close>. \<open>Operation_Worker\<close> (\<^verbatim>\<open>operation/operation.go\<close>): the worker's \<^verbatim>\<open>Execute\<close>.
    \<open>Provisioning\<close> (\<^verbatim>\<open>provisioning/provisioning.go\<close>): the request for a mailbox.
  \<^item> \<open>Ledger_Schema\<close>, \<open>Ledger_Statements\<close> (\<^verbatim>\<open>generated/provisioning.sql.go\<close>, \<^verbatim>\<open>models.go\<close>):
    the tables and statements of the ledger. \<open>Ledger_Invariants\<close>, \<open>Ledger_Runs\<close>: the invariant of every
    run of statements, by interpretation of \<open>step_monotone\<close>. \<open>Ledger_Theorems\<close>: fencing, leases, the order of claims.
  \<^item> \<open>Postgres_Link\<close>, \<open>Postgres_Repository\<close>, \<open>Repository_Runs\<close>, \<open>Repository_Theorems\<close>
    (\<^verbatim>\<open>provisioning_repository.go\<close>): repository calls are runs of statements; requests are atomic and idempotent.
  \<^item> \<open>Worker_Theorems\<close>, \<open>Worker_System\<close> (\<^verbatim>\<open>operation/runner.go\<close>): the worker's loop over repository and
    adapter; the lemmas that carry a relation to the receipt and across the loop live in the locales
    \<open>adapter_frame\<close> and \<open>worker_frame\<close>, and \<open>receipt_log\<close> records the receipts submitted. \<open>Worker_Build\<close>
    (\<^verbatim>\<open>cmd/worker/main.go\<close>, \<^verbatim>\<open>stalwart/config.go\<close>): how the worker is put together.
  \<^item> \<open>Stalwart_Wire\<close>, \<open>Stalwart_Adapter\<close>, \<open>Stalwart_Theorems\<close> (\<^verbatim>\<open>stalwart/adapter.go\<close>): requests, error
    classes, account metadata, creation and update. \<open>Stalwart_Read\<close>, \<open>Stalwart_Read_Theorems\<close>
    (\<^verbatim>\<open>mailcore/read.go\<close>, \<^verbatim>\<open>read_adapter.go\<close>, \<^verbatim>\<open>read_tokens.go\<close>): reading mail.
  \<^item> \<open>Identity\<close>, \<open>Identity_Secrets\<close>, \<open>Identity_Service\<close> (\<^verbatim>\<open>internal/identity\<close>): accounts, sessions, keyed
    digests, the sealed PKCE verifier, return paths, and the five handlers of the service.
    \<open>Identity_Store\<close>, \<open>Identity_Statements\<close>, \<open>Identity_Runs\<close>, \<open>Identity_Repository\<close>, \<open>Identity_System\<close>
    (\<^verbatim>\<open>generated/identity.sql.go\<close>, \<^verbatim>\<open>identity_repository.go\<close>): its tables, statements, runs and repository;
    the locale \<open>identity_frame\<close> carries relations across handlers. \<open>Identity_Theorems\<close>, \<open>Login_Theorems\<close>: what
    a login has checked and a logout ends.
  \<^item> \<open>Authorization\<close>, \<open>Authorization_Theorems\<close>, \<open>Boundary_System\<close> (\<^verbatim>\<open>internal/authorization\<close>): the
    boundary before business routes, over the interface \<open>session_source\<close>, interpreted by the identity service.
    \<open>Identity_Http\<close>, \<open>Identity_Http_Theorems\<close> (\<^verbatim>\<open>identity/httpapi/handler.go\<close>): the four browser endpoints.
  \<^item> \<open>Process_Config\<close> (\<^verbatim>\<open>platform/config\<close> and both \<^verbatim>\<open>runtimeconfig\<close>), \<open>Oidc_Client\<close>, \<open>Oidc_Theorems\<close>
    (\<^verbatim>\<open>identity/oidcclient\<close>), \<open>Api_Build\<close> (\<^verbatim>\<open>identity/bootstrap\<close>): settings, the provider client, the API's assembly.
  \<^item> \<open>Test_Manifest\<close>, \<open>Test_Tables\<close>, \<open>Test_Bootstrap\<close> (\<^verbatim>\<open>identity/testbootstrap\<close>): the manifest and
    the two transactions of the fixture, statement by statement, over the locale \<open>table_access\<close>.
    \<open>Test_Bootstrap_Theorems\<close>, \<open>Test_Bootstrap_Runs\<close>, \<open>Test_Fixture_Rows\<close>, \<open>Test_Removal\<close>,
    \<open>Test_Cycle\<close>, \<open>Test_Fresh\<close>, \<open>Test_Round_Trip\<close>: the fixture is created completely or not at all, its
    removal is exact, and the cycle is a round trip (locale \<open>table_lens\<close>).
  \<^item> \<open>Lifecycle\<close> (\<^verbatim>\<open>platform/lifecycle\<close>), \<open>Probe\<close> (\<^verbatim>\<open>platform/probe\<close>), \<open>Process_Service\<close>
    (\<^verbatim>\<open>platform/service\<close>, \<^verbatim>\<open>platform/telemetry\<close>, \<^verbatim>\<open>cmd/api\<close>), \<open>Process_System\<close>: how processes start, answer
    health checks and stop. \<open>Commands\<close>, \<open>Command_Theorems\<close> (\<^verbatim>\<open>cmd/identity-bootstrap\<close>,
    \<^verbatim>\<open>cmd/migrator\<close>, \<^verbatim>\<open>migrations\<close>, \<^verbatim>\<open>platform/database\<close>): the two commands.
  \<^item> \<open>Ledger_Samples\<close>, \<open>Identity_Samples\<close> and the theories named \<open>..._Witnesses\<close> apply the properties at concrete inputs.

  \<^bold>\<open>What is proved.\<close>
  \<^item> The ledger: its invariant holds in every interleaving of all workers and requests, a receipt is applied
    at most once and only under the newest lease, success needs evidence. What a claim takes and what is closed
    before it is stated without the statements' own conditions (\<open>due_work\<close>, \<open>hopeless_work\<close>).
  \<^item> Requests are idempotent and atomic, and a valid new one creates exactly its three rows.
  \<^item> The worker: each execution of a valid claim submits exactly one receipt, calls the mail core only within
    its lease, inspects first after an uncertain outcome, and its loop returns on shutdown.
  \<^item> The adapter changes only the account of its own mailbox, and reports as unknown what it cannot know.
    Sealed references open for their own mailbox only; what is read is bounded.
  \<^item> Identity: a login flow is consumed once, a session never outlives its bounds, a session is opened
    only after every check passed on what the provider answered (\<open>provider_answer\<close>), a logout of a session that
    resolves closes the boundary, answers of the endpoints are guarded.
  \<^item> Processes: accepted settings start, a process that must stop returns within its timeout, releases what it
    acquired, reports a normal end only for a stop that was asked for, and a worker within its timing, with a server
    that shuts down in time (\<open>stops_when_told\<close>), ends with code 0; readiness is exact.
  \<^item> The fixture: atomic, verified, removable, and changed by its command on explicit request only.

  \<^bold>\<open>Bounds, loops and termination.\<close> The worker's loop is a \<open>partial_function (option)\<close>, because it runs until
  it is told to stop; that it returns is a property of its own. Every other recursion is structural or has a
  measure, so no fuel is used. \<^verbatim>\<open>Serve\<close> is a function of when its goroutines end, with \<open>None\<close> where nothing
  ever ends; its loop counts the tasks that are left, as the code does.

  \<^bold>\<open>Assumptions of the model.\<close> A statement is atomic and sees one state of the tables; within a transaction
  other commits are visible up to its first write. Which rows \<^verbatim>\<open>SKIP LOCKED\<close> skips is an argument. Instants count
  nanoseconds from the year 1 without a bound. The instructions between two waits take no time. Message
  texts of errors and log lines are not modelled beyond what a caller can distinguish.

  \<^bold>\<open>Arguments for code that is not here.\<close> The table \<open>uc\<close> of Unicode's lower case, the split of a URL's authority,
  the JSON and RFC 3339 decoders, the rounding of fractions in durations, the texts and name-based
  values of UUIDs, a collation, the OIDC and OAuth libraries, what gin reads from a request, what the file
  system answers, pgx's parser and pool, goose, the OTLP exporter, and the HTTP client and server. Where a
  property needs one of them to behave as documented, its statement says so, and its witness has a concrete one.

  \<^bold>\<open>Not modelled.\<close> \<^verbatim>\<open>platform/logging\<close> builds a logger of the standard library; \<^verbatim>\<open>generated/db.go\<close> wraps a
  connection; operating-system signals enter as the instant at which a process is asked to stop. The web
  application, the deployment files and the tests are not Go code of the program.

  \<^bold>\<open>What modelling showed.\<close> The health check can leave the loopback address
  (\<open>health_check_leaves_loopback\<close>); with the default timings a worker does not start
  (\<open>default_worker_refused\<close>); a message text can be one byte longer than its bound
  (\<open>collect_text_bounded\<close>); a local part is lowered before it is tested for ASCII; a malformed
  answer to a mutation is reported as a permanent failure; and a logout whose session does not resolve at that
  moment succeeds without revoking it (\<open>logout_unresolved\<close>).
\<close>

end
